(* ===== verification/Prelude.thy ===== *)
theory Prelude
  imports Main "HOL-Library.Product_Lexorder" "HOL-Library.List_Lexorder" "HOL-Library.Char_ord"
    "HOL-Library.Multiset"
begin

text \<open>
  Shared vocabulary of the development: identities, time, the machine-integer operations
  the code uses, the parts of Rust's string library the modelled code calls, and the
  collections of lemmas the component theories hand to the simplifier.

  \<^item> A Rust \<open>String\<close> is its UTF-8 byte sequence, a \<open>char list\<close> (a HOL \<open>char\<close> is a byte).
  \<^item> A \<open>Uuid\<close> is the 128-bit number it denotes, a natural number with the same order.
  \<^item> A \<open>DateTime<Utc>\<close> is its distance from the Unix epoch in nanoseconds; a
    \<open>chrono::Duration\<close> is a number of nanoseconds. The calendar range of chrono (about
    262000 years each way) is not represented.
  \<^item> \<open>u64\<close> and \<open>usize\<close> (on 64-bit targets) are natural numbers; where the code relies on
    saturation or wrap-around the operation below is used instead of the plain one.
\<close>

named_theorems wf_intros "introduction rules: an operation keeps a well-formedness invariant"
named_theorems frame_simps "equations: a field that an operation does not write"

section \<open>Identities, time, errors\<close>

type_synonym uuid = nat
type_synonym time = int
type_synonym pod_key = "uuid \<times> string"

abbreviation seconds :: "int \<Rightarrow> int" where
  "seconds n \<equiv> n * 1000000000"

abbreviation hours :: "int \<Rightarrow> int" where
  "hours n \<equiv> seconds (n * 3600)"

abbreviation days :: "int \<Rightarrow> int" where
  "days n \<equiv> hours (n * 24)"

section \<open>Machine integers\<close>

definition u64_max :: nat where
  "u64_max = 18446744073709551615"

definition sat_add :: "nat \<Rightarrow> nat \<Rightarrow> nat" where
  "sat_add a b = min (a + b) u64_max"

definition wrapping_add :: "nat \<Rightarrow> nat \<Rightarrow> nat" where
  "wrapping_add a b = (a + b) mod (u64_max + 1)"

definition wrapping_mul :: "nat \<Rightarrow> nat \<Rightarrow> nat" where
  "wrapping_mul a b = (a * b) mod (u64_max + 1)"

definition clamp :: "nat \<Rightarrow> nat \<Rightarrow> nat \<Rightarrow> nat" where
  "clamp lo hi x = (if x < lo then lo else if hi < x then hi else x)"

lemma sat_add_Suc [simp]: "n < u64_max \<Longrightarrow> sat_add n (Suc 0) = Suc n"
  by (simp add: sat_add_def)

lemma sat_add_le_max [simp]: "sat_add a b \<le> u64_max"
  by (simp add: sat_add_def)

lemma sat_add_ge: "a \<le> u64_max \<Longrightarrow> a \<le> sat_add a b"
  by (simp add: sat_add_def)

lemma wrapping_add_Suc [simp]: "n < u64_max \<Longrightarrow> wrapping_add n (Suc 0) = Suc n"
  by (simp add: wrapping_add_def)

lemma clamp_le [simp]: "lo \<le> hi \<Longrightarrow> clamp lo hi x \<le> hi"
  by (simp add: clamp_def)

lemma clamp_ge [simp]: "lo \<le> hi \<Longrightarrow> lo \<le> clamp lo hi x"
  by (simp add: clamp_def)

section \<open>Strings\<close>

text \<open>
  \<open>str::trim\<close> removes leading and trailing characters with the Unicode property
  \<open>White_Space\<close>; their UTF-8 encodings are listed. Valid UTF-8 is self-synchronizing, so
  removing an encoding as a byte prefix or suffix removes exactly that character.
\<close>

definition white_space_encodings :: "string list" where
  "white_space_encodings =
     map (\<lambda>b. [char_of b]) [9, 10, 11, 12, 13, 32 :: nat] @
     map (map char_of)
      ([[194, 133], [194, 160], [225, 154, 128]] @
       map (\<lambda>b. [226, 128, b]) [128, 129, 130, 131, 132, 133, 134, 135, 136, 137, 138, 168, 169, 175] @
       [[226, 129, 159], [227, 128, 128 :: nat]])"

fun starts_with :: "'a list \<Rightarrow> 'a list \<Rightarrow> bool" where
  "starts_with [] s = True"
| "starts_with (p # ps) [] = False"
| "starts_with (p # ps) (c # cs) = (p = c \<and> starts_with ps cs)"

definition strip_one :: "string list \<Rightarrow> string \<Rightarrow> string option" where
  "strip_one pats s =
     (case find (\<lambda>p. starts_with p s) pats of None \<Rightarrow> None | Some p \<Rightarrow> Some (drop (length p) s))"

fun strip_fuel :: "nat \<Rightarrow> string list \<Rightarrow> string \<Rightarrow> string" where
  "strip_fuel 0 pats s = s"
| "strip_fuel (Suc n) pats s =
     (case strip_one pats s of None \<Rightarrow> s | Some s' \<Rightarrow> strip_fuel n pats s')"

text \<open>Every pattern has at least one byte, so the string's length is enough fuel.\<close>

definition trim_start :: "string \<Rightarrow> string" where
  "trim_start s = strip_fuel (length s) white_space_encodings s"

definition trim_end :: "string \<Rightarrow> string" where
  "trim_end s = rev (strip_fuel (length s) (map rev white_space_encodings) (rev s))"

definition trim :: "string \<Rightarrow> string" where
  "trim s = trim_end (trim_start s)"

definition trim_end_slashes :: "string \<Rightarrow> string" where
  "trim_end_slashes s = rev (dropWhile (\<lambda>c. c = CHR ''/'') (rev s))"

fun split_on :: "char \<Rightarrow> string \<Rightarrow> string list" where
  "split_on d [] = [[]]"
| "split_on d (c # cs) =
     (if c = d then [] # split_on d cs
      else case split_on d cs of [] \<Rightarrow> [[c]] | w # ws \<Rightarrow> (c # w) # ws)"

definition ascii_lower_char :: "char \<Rightarrow> char" where
  "ascii_lower_char c =
     (let n = of_char c :: nat in if 65 \<le> n \<and> n \<le> 90 then char_of (n + 32) else c)"

definition eq_ignore_ascii_case :: "string \<Rightarrow> string \<Rightarrow> bool" where
  "eq_ignore_ascii_case a b = (map ascii_lower_char a = map ascii_lower_char b)"

subsection \<open>Decimal numerals\<close>

definition digit_val :: "char \<Rightarrow> nat option" where
  "digit_val c =
     (let n = of_char c :: nat in if 48 \<le> n \<and> n \<le> 57 then Some (n - 48) else None)"

definition digit_chr :: "nat \<Rightarrow> char" where
  "digit_chr d = char_of (48 + d)"

text \<open>\<open>u64::to_string\<close>.\<close>

fun nat_dec :: "nat \<Rightarrow> string" where
  "nat_dec n = (if n < 10 then [digit_chr n] else nat_dec (n div 10) @ [digit_chr (n mod 10)])"

declare nat_dec.simps [simp del]

text \<open>
  \<open>str::parse\<close> for an unsigned type with maximum \<open>hi\<close>: an optional plus sign, then at least
  one digit and only digits, each step checked for overflow.
\<close>

fun parse_digits :: "nat \<Rightarrow> nat \<Rightarrow> string \<Rightarrow> nat option" where
  "parse_digits hi acc [] = Some acc"
| "parse_digits hi acc (c # cs) =
     (case digit_val c of
        None \<Rightarrow> None
      | Some d \<Rightarrow> if acc * 10 + d \<le> hi then parse_digits hi (acc * 10 + d) cs else None)"

definition parse_unsigned :: "nat \<Rightarrow> string \<Rightarrow> nat option" where
  "parse_unsigned hi s =
     (let body = (case s of [] \<Rightarrow> [] | c # cs \<Rightarrow> if c = CHR ''+'' then cs else s)
      in if body = [] then None else parse_digits hi 0 body)"

subsection \<open>Lemmas on strings\<close>

lemma starts_with_append [simp]: "starts_with p (p @ s)"
  by (induction p) auto

lemma strip_fuel_None: "strip_one pats s = None \<Longrightarrow> strip_fuel n pats s = s"
  by (cases n) auto

lemma digit_val_chr [simp]: "d < 10 \<Longrightarrow> digit_val (digit_chr d) = Some d"
  by (simp add: digit_val_def digit_chr_def Let_def)

lemma of_char_digit_chr [simp]: "d < 10 \<Longrightarrow> (of_char (digit_chr d) :: nat) = 48 + d"
  by (simp add: digit_chr_def)

lemma nat_dec_nonempty [simp]: "nat_dec n \<noteq> []"
  by (subst nat_dec.simps) simp

definition is_digit :: "char \<Rightarrow> bool" where
  "is_digit c \<longleftrightarrow> digit_val c \<noteq> None"

lemma is_digit_chr [simp]: "d < 10 \<Longrightarrow> is_digit (digit_chr d)"
  by (simp add: is_digit_def)

lemma nat_dec_digits: "list_all is_digit (nat_dec n)"
proof (induction n rule: nat_dec.induct)
  case (1 n)
  then show ?case by (subst nat_dec.simps) simp
qed

lemma parse_digits_append:
  "parse_digits hi acc (xs @ ys) =
     (case parse_digits hi acc xs of None \<Rightarrow> None | Some a \<Rightarrow> parse_digits hi a ys)"
  by (induction hi acc xs rule: parse_digits.induct) (auto split: option.splits)

lemma parse_digits_nat_dec: "n \<le> hi \<Longrightarrow> parse_digits hi 0 (nat_dec n) = Some n"
proof (induction n rule: nat_dec.induct)
  case (1 n)
  show ?case
  proof (cases "n < 10")
    case True
    with "1.prems" show ?thesis by (subst nat_dec.simps) simp
  next
    case False
    with "1.prems" have "n div 10 \<le> hi" by simp
    with False "1.IH" have "parse_digits hi 0 (nat_dec (n div 10)) = Some (n div 10)" by simp
    with False "1.prems" show ?thesis
      by (subst nat_dec.simps) (simp add: parse_digits_append)
  qed
qed

lemma not_is_digit_plus [simp]: "\<not> is_digit (CHR ''+'')"
  by (simp add: is_digit_def digit_val_def)

lemma parse_unsigned_nat_dec: "n \<le> hi \<Longrightarrow> parse_unsigned hi (nat_dec n) = Some n"
proof -
  assume n: "n \<le> hi"
  obtain c cs where cs: "nat_dec n = c # cs" by (cases "nat_dec n") auto
  with nat_dec_digits[of n] have "c \<noteq> CHR ''+''" by auto
  with cs n parse_digits_nat_dec[OF n] show ?thesis by (simp add: parse_unsigned_def)
qed

lemma nat_dec_inj: "nat_dec m = nat_dec n \<Longrightarrow> m = n"
  by (metis max.cobounded1 max.cobounded2 option.inject parse_digits_nat_dec)

text \<open>Visible ASCII characters are not white space, so text made of them survives \<open>trim\<close>.\<close>

definition is_plain :: "char \<Rightarrow> bool" where
  "is_plain c \<longleftrightarrow> 33 \<le> (of_char c :: nat) \<and> (of_char c :: nat) \<le> 126"

lemma digit_is_plain: "is_digit c \<Longrightarrow> is_plain c"
  by (auto simp: is_digit_def digit_val_def is_plain_def Let_def split: if_splits)

lemma white_space_heads:
  "list_all (\<lambda>p. p \<noteq> [] \<and> \<not> is_plain (hd p)) white_space_encodings"
  "list_all (\<lambda>p. p \<noteq> [] \<and> \<not> is_plain (hd p)) (map rev white_space_encodings)"
  by (simp_all add: white_space_encodings_def is_plain_def)

lemma starts_with_hd: "p \<noteq> [] \<Longrightarrow> starts_with p (c # s) \<Longrightarrow> hd p = c"
  by (cases p) auto

lemma no_plain_pattern:
  assumes "list_all (\<lambda>p. p \<noteq> [] \<and> \<not> is_plain (hd p)) pats" and "is_plain c"
  shows "strip_fuel n pats (c # s) = c # s"
proof -
  have "find (\<lambda>p. starts_with p (c # s)) pats = None"
    using assms by (auto simp: find_None_iff list_all_iff dest: starts_with_hd)
  then show ?thesis by (simp add: strip_one_def strip_fuel_None)
qed

lemma trim_end_plain: "list_all is_plain s \<Longrightarrow> trim_end s = s"
proof (cases s rule: rev_cases)
  case (snoc xs c)
  moreover assume "list_all is_plain s"
  ultimately have "is_plain c" by simp
  then show ?thesis
    using snoc white_space_heads(2) no_plain_pattern
    by (simp add: trim_end_def del: strip_fuel.simps)
qed (simp add: trim_end_def)

lemma trim_plain: "list_all is_plain s \<Longrightarrow> trim s = s"
proof -
  assume d: "list_all is_plain s"
  have "trim_start s = s"
    using d white_space_heads(1)
    by (cases s) (auto simp: trim_start_def no_plain_pattern simp del: strip_fuel.simps(2))
  moreover have "trim_end s = s"
    using trim_end_plain[OF d] .
  ultimately show ?thesis by (simp add: trim_def)
qed

lemma trim_nat_dec [simp]: "trim (nat_dec n) = nat_dec n"
  by (rule trim_plain) (rule list.pred_mono_strong[OF nat_dec_digits digit_is_plain])

section \<open>Lists\<close>

lemma find_in_set: "find P xs = Some x \<Longrightarrow> x \<in> set xs" "find P xs = Some x \<Longrightarrow> P x"
  by (auto simp: find_Some_iff)

text \<open>\<open>Vec::retain\<close> is \<open>filter\<close>; \<open>slice::sort\<close>, which is stable, is \<open>sort_key\<close>.\<close>

definition drain_front :: "nat \<Rightarrow> 'a list \<Rightarrow> 'a list" where
  "drain_front n xs = (if n < length xs then drop (length xs - n) xs else xs)"

lemma length_drain_front [simp]: "length (drain_front n xs) \<le> n"
  by (simp add: drain_front_def)

lemma set_drain_front: "set (drain_front n xs) \<subseteq> set xs"
  by (auto simp: drain_front_def dest: in_set_dropD)

end
