(* ===== verification/Ordered_Map.thy ===== *)
theory Ordered_Map
  imports Prelude
begin

text \<open>
  The collections of the store. A Rust \<open>BTreeMap\<close> or \<open>HashMap\<close> is an association list in
  ascending key order with one entry per key, so that two maps with the same contents are
  equal. A \<open>BTreeMap\<close> iterates in that order; a \<open>HashMap\<close> iterates in an unspecified one, which
  the operations that depend on it take as a parameter (theory Externals). A \<open>BTreeSet\<close> is an
  ascending list without repetitions.

  The interface the components rely on is the locale \<open>finite_map\<close>; it is interpreted on
  the association lists below.
\<close>

section \<open>Maps\<close>

type_synonym ('k, 'v) omap = "('k \<times> 'v) list"

definition om_get :: "('k, 'v) omap \<Rightarrow> 'k \<Rightarrow> 'v option" where
  "om_get m k = map_of m k"

fun om_put :: "('k::linorder) \<Rightarrow> 'v \<Rightarrow> ('k, 'v) omap \<Rightarrow> ('k, 'v) omap" where
  "om_put k v [] = [(k, v)]"
| "om_put k v ((k', v') # m) =
     (if k < k' then (k, v) # (k', v') # m
      else if k = k' then (k, v) # m
      else (k', v') # om_put k v m)"

definition om_del :: "'k \<Rightarrow> ('k, 'v) omap \<Rightarrow> ('k, 'v) omap" where
  "om_del k m = filter (\<lambda>e. fst e \<noteq> k) m"

definition om_keys :: "('k, 'v) omap \<Rightarrow> 'k list" where
  "om_keys m = map fst m"

definition om_vals :: "('k, 'v) omap \<Rightarrow> 'v list" where
  "om_vals m = map snd m"

definition om_ok :: "('k::linorder, 'v) omap \<Rightarrow> bool" where
  "om_ok m = sorted_wrt (<) (map fst m)"

section \<open>Sets\<close>

definition os_insert :: "'a::linorder \<Rightarrow> 'a list \<Rightarrow> 'a list" where
  "os_insert x s = (if x \<in> set s then s else insort x s)"

definition os_remove :: "'a \<Rightarrow> 'a list \<Rightarrow> 'a list" where
  "os_remove x s = filter (\<lambda>y. y \<noteq> x) s"

lemma set_os_insert [simp]: "set (os_insert x s) = insert x (set s)"
  by (auto simp: os_insert_def set_insort_key)

lemma set_os_remove [simp]: "set (os_remove x s) = set s - {x}"
  by (auto simp: os_remove_def)

lemma distinct_os_insert [simp]: "distinct s \<Longrightarrow> distinct (os_insert x s)"
  by (simp add: os_insert_def distinct_insort)

lemma distinct_os_remove [simp]: "distinct s \<Longrightarrow> distinct (os_remove x s)"
  by (simp add: os_remove_def)

lemma sorted_os_insert [simp]: "sorted s \<Longrightarrow> sorted (os_insert x s)"
  by (simp add: os_insert_def sorted_insort)

lemma os_insert_present [simp]: "x \<in> set s \<Longrightarrow> os_insert x s = s"
  by (simp add: os_insert_def)

section \<open>The map interface\<close>

text \<open>
  What a component may assume of a map: reading after writing, reading after deleting, and
  that both keep the representation well formed.
\<close>

locale finite_map =
  fixes get :: "'m \<Rightarrow> 'k \<Rightarrow> 'v option"
    and put :: "'k \<Rightarrow> 'v \<Rightarrow> 'm \<Rightarrow> 'm"
    and del :: "'k \<Rightarrow> 'm \<Rightarrow> 'm"
    and emp :: 'm
    and ok :: "'m \<Rightarrow> bool"
  assumes get_emp: "get emp k = None"
    and get_put: "get (put k v m) k' = (if k' = k then Some v else get m k')"
    and get_del: "get (del k m) k' = (if k' = k then None else get m k')"
    and ok_emp: "ok emp"
    and ok_put: "ok m \<Longrightarrow> ok (put k v m)"
    and ok_del: "ok m \<Longrightarrow> ok (del k m)"
    and ok_ext: "ok m \<Longrightarrow> ok m' \<Longrightarrow> (\<And>k. get m k = get m' k) \<Longrightarrow> m = m'"
begin

text \<open>A property of every entry survives a write of an entry that has it, and any deletion.\<close>

definition all_entries :: "('k \<Rightarrow> 'v \<Rightarrow> bool) \<Rightarrow> 'm \<Rightarrow> bool" where
  "all_entries P m \<longleftrightarrow> (\<forall>k v. get m k = Some v \<longrightarrow> P k v)"

lemma all_entries_put: "all_entries P m \<Longrightarrow> P k v \<Longrightarrow> all_entries P (put k v m)"
  by (auto simp: all_entries_def get_put)

lemma all_entries_del: "all_entries P m \<Longrightarrow> all_entries P (del k m)"
  by (auto simp: all_entries_def get_del)

lemma put_put_same: "ok m \<Longrightarrow> put k v (put k w m) = put k v m"
  by (rule ok_ext) (auto simp: ok_put get_put)

lemma put_commute: "ok m \<Longrightarrow> k \<noteq> l \<Longrightarrow> put k v (put l w m) = put l w (put k v m)"
  by (rule ok_ext) (auto simp: ok_put get_put)

lemma put_same: "ok m \<Longrightarrow> get m k = Some v \<Longrightarrow> put k v m = m"
  by (rule ok_ext) (auto simp: ok_put get_put)

lemma del_absent: "ok m \<Longrightarrow> get m k = None \<Longrightarrow> del k m = m"
  by (rule ok_ext) (auto simp: ok_del get_del)

lemma del_put_same: "ok m \<Longrightarrow> get m k = None \<Longrightarrow> del k (put k v m) = m"
  by (rule ok_ext) (auto simp: ok_del ok_put get_del get_put)

end

section \<open>The association lists provide the interface\<close>

lemma om_get_Nil [simp]: "om_get [] k = None"
  by (simp add: om_get_def)

lemma om_get_put [simp]: "om_get (om_put k v m) k' = (if k' = k then Some v else om_get m k')"
  by (induction k v m rule: om_put.induct) (auto simp: om_get_def)

lemma om_get_del [simp]: "om_get (om_del k m) k' = (if k' = k then None else om_get m k')"
  by (induction m) (auto simp: om_get_def om_del_def)

lemma set_om_keys_put [simp]: "set (om_keys (om_put k v m)) = insert k (set (om_keys m))"
  by (induction k v m rule: om_put.induct) (auto simp: om_keys_def)

lemma set_om_keys_del [simp]: "set (om_keys (om_del k m)) = set (om_keys m) - {k}"
  by (auto simp: om_keys_def om_del_def)

lemma om_keys_append [simp]: "om_keys (m @ m') = om_keys m @ om_keys m'"
  by (simp add: om_keys_def)

lemma om_keys_Cons [simp]: "om_keys ((k, v) # m) = k # om_keys m"
  by (simp add: om_keys_def)

lemma om_keys_Nil [simp]: "om_keys [] = []"
  by (simp add: om_keys_def)

lemma om_ok_Nil [simp]: "om_ok []"
  by (simp add: om_ok_def)

lemma om_ok_Cons: "om_ok ((k, v) # m) \<longleftrightarrow> (\<forall>k' \<in> set (om_keys m). k < k') \<and> om_ok m"
  by (simp add: om_ok_def om_keys_def)

lemma om_ok_put [simp]: "om_ok m \<Longrightarrow> om_ok (om_put k v m)"
proof (induction k v m rule: om_put.induct)
  case (2 k v k' v' m)
  then show ?case by (auto simp: om_ok_Cons)
qed (simp add: om_ok_def)

lemma om_ok_del [simp]: "om_ok m \<Longrightarrow> om_ok (om_del k m)"
  by (simp add: om_ok_def om_del_def sorted_wrt_filter sorted_wrt_map)

lemma om_ok_distinct: "om_ok m \<Longrightarrow> distinct (map fst m)"
  by (simp add: om_ok_def strict_sorted_iff)

lemma om_get_in_keys: "om_get m k \<noteq> None \<longleftrightarrow> k \<in> set (om_keys m)"
  by (induction m) (auto simp: om_get_def om_keys_def)

lemma om_get_Some_in: "om_get m k = Some v \<Longrightarrow> (k, v) \<in> set m"
  by (simp add: om_get_def map_of_SomeD)

lemma om_get_iff: "om_ok m \<Longrightarrow> om_get m k = Some v \<longleftrightarrow> (k, v) \<in> set m"
  by (simp add: om_get_def om_ok_distinct)

lemma om_vals_get: "om_ok m \<Longrightarrow> v \<in> set (om_vals m) \<longleftrightarrow> (\<exists>k. om_get m k = Some v)"
  by (auto simp: om_vals_def om_get_iff) force+

lemma om_ext: "om_ok m \<Longrightarrow> om_ok m' \<Longrightarrow> (\<And>k. om_get m k = om_get m' k) \<Longrightarrow> m = m'"
proof -
  assume ok: "om_ok m" "om_ok m'" and eq: "\<And>k. om_get m k = om_get m' k"
  then have s: "set m = set m'"
    by (auto simp: om_get_iff [symmetric])
  have sorted: "sorted (map fst m)" "sorted (map fst m')"
    using ok by (simp_all add: om_ok_def strict_sorted_iff)
  have inj: "inj_on fst (set m \<union> set m')"
    using om_ok_distinct[OF ok(1)] s by (simp add: distinct_map)
  show "m = m'"
    using map_sorted_distinct_set_unique[OF inj sorted(1) om_ok_distinct[OF ok(1)] sorted(2)
      om_ok_distinct[OF ok(2)] s] .
qed

interpretation om: finite_map om_get om_put om_del "[]" om_ok
  by unfold_locales (auto intro: om_ext)

section \<open>Size, order, smallest key\<close>

lemma length_om_put:
  "om_ok m \<Longrightarrow> length (om_put k v m) = (if k \<in> set (om_keys m) then length m else Suc (length m))"
proof (induction k v m rule: om_put.induct)
  case (2 k v k' v' m)
  then show ?case by (auto simp: om_ok_Cons)
qed simp

lemma om_put_last:
  "om_ok m \<Longrightarrow> (\<forall>k' \<in> set (om_keys m). k' < k) \<Longrightarrow> om_put k v m = m @ [(k, v)]"
  by (induction k v m rule: om_put.induct) (auto simp: om_ok_Cons)

lemma length_om_put_le: "length (om_put k v m) \<le> Suc (length m)"
  by (induction k v m rule: om_put.induct) auto

lemma length_om_del_le: "length (om_del k m) \<le> length m"
  by (simp add: om_del_def)

lemma om_ok_tl: "om_ok m \<Longrightarrow> om_ok (tl m)"
  by (cases m) (auto simp: om_ok_def)

lemma om_del_hd: "om_ok m \<Longrightarrow> m \<noteq> [] \<Longrightarrow> om_del (fst (hd m)) m = tl m"
proof (cases m)
  case (Cons e es)
  moreover assume "om_ok m"
  ultimately have "\<forall>x \<in> set es. fst x \<noteq> fst e" by (auto simp: om_ok_def)
  with Cons show ?thesis by (simp add: om_del_def)
qed simp

end
