(* ===== verification/Domain.thy ===== *)
theory Domain
  imports Ordered_Map "HOL-Library.Word"
begin

text \<open>
  The public discovery types of \<open>stumble-core\<close>: \<open>domain/announcements.rs\<close>,
  \<open>domain/bootstrap.rs\<close>, \<open>domain/discovery_peers.rs\<close> and the parts of \<open>domain/pods.rs\<close>,
  \<open>domain/trust.rs\<close> and \<open>domain/ids.rs\<close> they use. A struct is a record whose fields carry a
  prefix for the struct, an enum is a datatype; constructors whose name occurs in two enums
  carry a prefix as well.
\<close>

section \<open>Identifiers and versions (domain/ids.rs)\<close>

definition current_protocol_version :: string where
  "current_protocol_version = ''stumble/1.0''"

text \<open>\<open>PackageVersion::new\<close>: only positive versions; the error carries the rejected value.\<close>

definition package_version_new :: "int \<Rightarrow> int + int" where
  "package_version_new value = (if value < 1 then Inl value else Inr value)"

section \<open>Nodes and pods (domain/announcements.rs, domain/pods.rs)\<close>

record node_info =
  ni_node_id :: uuid
  ni_display_name :: string
  ni_public_key :: string
  ni_supported_protocol_version :: string

record node_identity =
  nd_id :: uuid
  nd_tenant_id :: "uuid option"
  nd_display_name :: string
  nd_public_key :: string
  nd_private_key :: string
  nd_created_at :: time

datatype visibility = Public | InviteOnly | Private

record pod =
  pd_id :: uuid
  pd_tenant_id :: "uuid option"
  pd_name :: string
  pd_slug :: string
  pd_description :: string
  pd_visibility :: visibility
  pd_created_by :: "uuid option"
  pd_created_at :: time
  pd_origin_node_id :: "uuid option"

record pod_skill_pack =
  pk_id :: uuid
  pk_pod_id :: uuid
  pk_version :: int
  pk_context_md :: string
  pk_pod_yaml :: string
  pk_skill_md :: string
  pk_sources_yaml :: string
  pk_filters_yaml :: string
  pk_examples_good_md :: string
  pk_examples_bad_md :: string
  pk_owner_id :: "uuid option"
  pk_proposer_harness_id :: "uuid option"
  pk_created_at :: time
  pk_updated_at :: time

datatype pod_event_type =
    PodCreated | PrivatePodPackageCreated | PodPublished | PodSkillPackUpdated
  | PodPackageImported | PodPackageForked | ContentItemPlaced | ContentItemMetadataUpdated
  | PlacementTombstoned | LegacyLinkRemoved | LegacyLinkSubmitted

fun pet_as_wire :: "pod_event_type \<Rightarrow> string" where
  "pet_as_wire PodCreated = ''pod_created''"
| "pet_as_wire PrivatePodPackageCreated = ''private_pod_package_created''"
| "pet_as_wire PodPublished = ''pod_published''"
| "pet_as_wire PodSkillPackUpdated = ''pod_skill_pack_updated''"
| "pet_as_wire PodPackageImported = ''pod_package_imported''"
| "pet_as_wire PodPackageForked = ''pod_package_forked''"
| "pet_as_wire ContentItemPlaced = ''content_item_placed''"
| "pet_as_wire ContentItemMetadataUpdated = ''content_item_metadata_updated''"
| "pet_as_wire PlacementTombstoned = ''placement_tombstoned''"
| "pet_as_wire LegacyLinkRemoved = ''link_removed''"
| "pet_as_wire LegacyLinkSubmitted = ''link_submitted''"

definition pet_from_wire :: "string \<Rightarrow> pod_event_type option" where
  "pet_from_wire value =
     (if value = ''pod_created'' then Some PodCreated
      else if value = ''private_pod_package_created'' then Some PrivatePodPackageCreated
      else if value = ''pod_published'' then Some PodPublished
      else if value = ''pod_skill_pack_updated'' then Some PodSkillPackUpdated
      else if value = ''pod_package_imported'' then Some PodPackageImported
      else if value = ''pod_package_forked'' then Some PodPackageForked
      else if value = ''content_item_placed'' then Some ContentItemPlaced
      else if value = ''content_item_metadata_updated'' then Some ContentItemMetadataUpdated
      else if value = ''placement_tombstoned'' then Some PlacementTombstoned
      else if value = ''link_removed'' then Some LegacyLinkRemoved
      else if value = ''link_submitted'' then Some LegacyLinkSubmitted
      else None)"

fun pet_is_federated :: "pod_event_type \<Rightarrow> bool" where
  "pet_is_federated PrivatePodPackageCreated = False"
| "pet_is_federated LegacyLinkSubmitted = False"
| "pet_is_federated PodCreated = True"
| "pet_is_federated PodPublished = True"
| "pet_is_federated PodSkillPackUpdated = True"
| "pet_is_federated PodPackageImported = True"
| "pet_is_federated PodPackageForked = True"
| "pet_is_federated ContentItemPlaced = True"
| "pet_is_federated ContentItemMetadataUpdated = True"
| "pet_is_federated PlacementTombstoned = True"
| "pet_is_federated LegacyLinkRemoved = True"

definition pet_is_subscription_projection :: "pod_event_type \<Rightarrow> bool" where
  "pet_is_subscription_projection e \<longleftrightarrow>
     e \<in> {PodCreated, PodPublished, PodSkillPackUpdated, PodPackageImported, PodPackageForked,
          ContentItemPlaced, ContentItemMetadataUpdated, PlacementTombstoned}"

definition pet_is_portable_package :: "pod_event_type \<Rightarrow> bool" where
  "pet_is_portable_package e \<longleftrightarrow>
     e \<in> {PodCreated, PrivatePodPackageCreated, PodSkillPackUpdated, PodPackageImported,
          PodPackageForked}"

section \<open>JSON values\<close>

text \<open>
  \<open>serde_json::Value\<close> as the \<open>Serialize\<close> implementations build it. A \<open>Uuid\<close> and a \<open>DateTime\<close>
  serialize to strings of their own crates' formatting; they are leaves of their own, so that
  no formatting has to be made up. A leaf \<open>JF32\<close> is the number an \<open>f32\<close>'s shortest decimal denotes.
\<close>

datatype json =
    JNull
  | JBool bool
  | JInt int
  | JStr string
  | JUuid uuid
  | JTime time
  | JF32 "32 word"
  | JArr "json list"
  | JObj "(string \<times> json) list"

section \<open>Events (domain/pods.rs)\<close>

record event_log_row =
  ev_event_id :: uuid
  ev_tenant_id :: "uuid option"
  ev_event_type :: pod_event_type
  ev_pod_slug :: string
  ev_author_node_id :: uuid
  ev_author_display_name :: "string option"
  ev_payload_json :: json
  ev_created_at :: time
  ev_previous_event_hash :: "string option"
  ev_content_hash :: string
  ev_signature :: string
  ev_imported_from_peer_id :: "uuid option"
  ev_verified :: bool

text \<open>Wire names round-trip, and what a subscription projects is always federated.\<close>

lemma pet_from_as_wire [simp]: "pet_from_wire (pet_as_wire e) = Some e"
  by (cases e) (simp_all add: pet_from_wire_def)

lemma pet_projection_federated: "pet_is_subscription_projection e \<Longrightarrow> pet_is_federated e"
  by (cases e) (simp_all add: pet_is_subscription_projection_def)

section \<open>Announcements and withdrawals (domain/announcements.rs)\<close>

definition announcement_lease_duration_days :: int where
  "announcement_lease_duration_days = 30"

definition announcement_lease_duration :: int where
  "announcement_lease_duration = days announcement_lease_duration_days"

record pod_announcement =
  pa_id :: uuid
  pa_origin_node_id :: uuid
  pa_signer :: node_info
  pa_pod_slug :: string
  pa_pod_name :: string
  pa_subject :: string
  pa_public_pod_url :: string
  pa_package_version :: int
  pa_latest_event_hash :: "string option"
  pa_announced_at :: time
  pa_expires_at :: time
  pa_signature :: string

definition pa_lease_is_active :: "pod_announcement \<Rightarrow> time \<Rightarrow> bool" where
  "pa_lease_is_active a now \<longleftrightarrow> pa_expires_at a > now"

record pod_withdrawal =
  pw_id :: uuid
  pw_origin_node_id :: uuid
  pw_signer :: node_info
  pw_pod_slug :: string
  pw_public_pod_url :: "string option"
  pw_covers_announcement_id :: "uuid option"
  pw_withdrawn_at :: time
  pw_signature :: string

record known_pod_withdrawal =
  kw_withdrawal :: pod_withdrawal
  kw_received_from_peer_id :: "uuid option"
  kw_received_at :: time

record known_pod_announcement =
  ka_announcement :: pod_announcement
  ka_received_from_peer_id :: "uuid option"
  ka_received_from_index_urls :: "string list"
  ka_received_from_bootstrap_urls :: "string list"
  ka_received_from_discovery_peer_endpoints :: "string list"
  ka_received_at :: time

text \<open>
  \<open>deserialize_index_provenance_urls\<close>: the legacy singular form becomes a one-element set,
  empty strings are dropped.
\<close>

datatype one_or_many = Many "string list" | One string

fun deserialize_index_provenance_urls :: "one_or_many option \<Rightarrow> string list" where
  "deserialize_index_provenance_urls None = []"
| "deserialize_index_provenance_urls (Some (One url)) = (if url \<noteq> [] then os_insert url [] else [])"
| "deserialize_index_provenance_urls (Some (Many urls)) =
     fold os_insert (filter (\<lambda>url. url \<noteq> []) urls) []"

definition pa_key :: "pod_announcement \<Rightarrow> pod_key" where
  "pa_key a = (pa_origin_node_id a, pa_pod_slug a)"

definition pw_key :: "pod_withdrawal \<Rightarrow> pod_key" where
  "pw_key w = (pw_origin_node_id w, pw_pod_slug w)"

end
