(* ===== verification/Domain_Bootstrap.thy ===== *)
theory Domain_Bootstrap
  imports Domain
begin

text \<open>
  The types of \<open>domain/bootstrap.rs\<close>: the configured bootstrap endpoints and their
  synchronization progress, the announcement stream and its pages, the outcome of an open
  admission, the operator's audit rows and the persisted runtime state; and the trust policy
  and index node of \<open>domain/trust.rs\<close>.
\<close>

section \<open>Configured endpoints and synchronization progress\<close>

definition default_sponsored_bootstrap_url :: string where
  "default_sponsored_bootstrap_url = ''https://bootstrap.stumble.network''"

record bootstrap_endpoint_config =
  be_id :: uuid
  be_label :: string
  be_base_url :: string
  be_enabled :: bool
  be_order :: nat
  be_is_sponsored_default :: bool
  be_created_at :: time

datatype bootstrap_sync_failure_kind =
    BF_Transport | BF_Protocol | BF_Malformed | BF_InvalidSignature | BF_Validation

fun bf_as_code :: "bootstrap_sync_failure_kind \<Rightarrow> string" where
  "bf_as_code BF_Transport = ''transport''"
| "bf_as_code BF_Protocol = ''protocol''"
| "bf_as_code BF_Malformed = ''malformed''"
| "bf_as_code BF_InvalidSignature = ''invalid_signature''"
| "bf_as_code BF_Validation = ''validation''"

record bootstrap_sync_failure =
  bf_kind :: bootstrap_sync_failure_kind
  bf_message :: string

record bootstrap_sync_state =
  bs_endpoint_id :: uuid
  bs_cursor :: "string option"
  bs_last_success_at :: "time option"
  bs_last_attempt_at :: "time option"
  bs_last_error :: "bootstrap_sync_failure option"

record bootstrap_endpoint_status =
  bst_endpoint :: bootstrap_endpoint_config
  bst_sync :: bootstrap_sync_state

record bootstrap_sync_endpoint_outcome =
  bo_endpoint_id :: uuid
  bo_base_url :: string
  bo_ok :: bool
  bo_pages_fetched :: nat
  bo_retained_announcements :: nat
  bo_retained_withdrawals :: nat
  bo_cursor :: "string option"
  bo_error :: "bootstrap_sync_failure option"

record bootstrap_sync_report =
  br_outcomes :: "bootstrap_sync_endpoint_outcome list"
  br_retained_announcements :: nat
  br_retained_withdrawals :: nat

record bootstrap_stream_request =
  sr_cursor :: "string option"
  sr_limit :: "nat option"

section \<open>Open admission\<close>

datatype bootstrap_admission_rejection_reason =
    BR_Malformed | BR_InvalidIdentity | BR_InvalidSignature | BR_UnreachableOrigin
  | BR_ManifestUnavailable | BR_IncompatibleProtocol | BR_StaleLease | BR_AnnouncementWithdrawn
  | BR_RateLimited | BR_PayloadTooLarge | BR_ManifestMismatch | BR_OriginQuotaExceeded
  | BR_BootstrapDisabled

fun br_as_code :: "bootstrap_admission_rejection_reason \<Rightarrow> string" where
  "br_as_code BR_Malformed = ''malformed''"
| "br_as_code BR_InvalidIdentity = ''invalid_identity''"
| "br_as_code BR_InvalidSignature = ''invalid_signature''"
| "br_as_code BR_UnreachableOrigin = ''unreachable_origin''"
| "br_as_code BR_ManifestUnavailable = ''manifest_unavailable''"
| "br_as_code BR_IncompatibleProtocol = ''incompatible_protocol''"
| "br_as_code BR_StaleLease = ''stale_lease''"
| "br_as_code BR_AnnouncementWithdrawn = ''announcement_withdrawn''"
| "br_as_code BR_RateLimited = ''rate_limited''"
| "br_as_code BR_PayloadTooLarge = ''payload_too_large''"
| "br_as_code BR_ManifestMismatch = ''manifest_mismatch''"
| "br_as_code BR_OriginQuotaExceeded = ''origin_quota_exceeded''"
| "br_as_code BR_BootstrapDisabled = ''bootstrap_disabled''"

datatype announcement_stream_event_kind = SE_Admitted | SE_Renewed | SE_Withdrawn | SE_Expired

datatype announcement_stream_payload =
    AnnouncementPayload pod_announcement | WithdrawalPayload pod_withdrawal

fun as_announcement :: "announcement_stream_payload \<Rightarrow> pod_announcement option" where
  "as_announcement (AnnouncementPayload a) = Some a"
| "as_announcement (WithdrawalPayload _) = None"

fun as_withdrawal :: "announcement_stream_payload \<Rightarrow> pod_withdrawal option" where
  "as_withdrawal (WithdrawalPayload w) = Some w"
| "as_withdrawal (AnnouncementPayload _) = None"

record announcement_stream_entry =
  se_sequence :: nat
  se_recorded_at :: time
  se_kind :: announcement_stream_event_kind
  se_origin_node_id :: uuid
  se_pod_slug :: string
  se_payload :: announcement_stream_payload

record announcement_stream_page =
  sp_entries :: "announcement_stream_entry list"
  sp_next_cursor :: "string option"
  sp_limit :: nat

datatype bootstrap_admission_outcome_kind = OK_Admitted | OK_Renewed | OK_Idempotent

record bootstrap_admission_acceptance =
  aa_outcome :: bootstrap_admission_outcome_kind
  aa_known :: known_pod_announcement
  aa_stream_sequence :: "nat option"

datatype bootstrap_withdrawal_outcome_kind = WK_Admitted | WK_Idempotent

record bootstrap_withdrawal_acceptance =
  wa_outcome :: bootstrap_withdrawal_outcome_kind
  wa_known :: known_pod_withdrawal
  wa_stream_sequence :: "nat option"

record bootstrap_rejection_audit =
  au_id :: uuid
  au_origin_node_id :: "uuid option"
  au_origin_public_key :: "string option"
  au_pod_slug :: "string option"
  au_reason :: bootstrap_admission_rejection_reason
  au_rejected_at :: time

record bootstrap_runtime_state =
  rt_next_stream_sequence :: nat
  rt_recent_network_admissions :: "time list"
  rt_recent_origin_admissions :: "(uuid, time list) omap"
  rt_admitted_keys :: "pod_key list"
  rt_recent_peer_admissions :: "time list"
  rt_recent_peer_admissions_by_node :: "(uuid, time list) omap"

definition bootstrap_runtime_default :: bootstrap_runtime_state where
  "bootstrap_runtime_default =
     \<lparr> rt_next_stream_sequence = 1,
       rt_recent_network_admissions = [],
       rt_recent_origin_admissions = [],
       rt_admitted_keys = [],
       rt_recent_peer_admissions = [],
       rt_recent_peer_admissions_by_node = [] \<rparr>"

section \<open>Index search\<close>

datatype index_search_failure_kind =
    IF_Malformed | IF_QueryTooLarge | IF_RateLimited | IF_IncompatibleProtocol
  | IF_IndexDisabled | IF_Transport | IF_Protocol

fun if_as_code :: "index_search_failure_kind \<Rightarrow> string" where
  "if_as_code IF_Malformed = ''malformed''"
| "if_as_code IF_QueryTooLarge = ''query_too_large''"
| "if_as_code IF_RateLimited = ''rate_limited''"
| "if_as_code IF_IncompatibleProtocol = ''incompatible_protocol''"
| "if_as_code IF_IndexDisabled = ''index_disabled''"
| "if_as_code IF_Transport = ''transport''"
| "if_as_code IF_Protocol = ''protocol''"

section \<open>Trust policy (domain/trust.rs)\<close>

text \<open>\<open>BlockedPod\<close> derives its order from its fields, in declaration order.\<close>

datatype blocked_pod = BlockedPod (bp_origin_node_id: uuid) (bp_pod_slug: string)

instantiation blocked_pod :: linorder
begin

definition less_eq_blocked_pod :: "blocked_pod \<Rightarrow> blocked_pod \<Rightarrow> bool" where
  "p \<le> q \<longleftrightarrow> (bp_origin_node_id p, bp_pod_slug p) \<le> (bp_origin_node_id q, bp_pod_slug q)"

definition less_blocked_pod :: "blocked_pod \<Rightarrow> blocked_pod \<Rightarrow> bool" where
  "p < q \<longleftrightarrow> (bp_origin_node_id p, bp_pod_slug p) < (bp_origin_node_id q, bp_pod_slug q)"

instance
  by standard (auto simp: less_eq_blocked_pod_def less_blocked_pod_def less_eq_prod_def
      less_prod_def intro: blocked_pod.expand)

end

record index_node =
  ix_label :: string
  ix_base_url :: string

record trust_policy =
  tp_user_id :: uuid
  tp_tenant_id :: "uuid option"
  tp_index_nodes :: "index_node list"
  tp_blocked_pods :: "blocked_pod list"
  tp_blocked_nodes :: "uuid list"
  tp_blocked_sources :: "string list"
  tp_blocked_topics :: "string list"

definition trust_policy_new :: "uuid \<Rightarrow> uuid option \<Rightarrow> trust_policy" where
  "trust_policy_new user tenant =
     \<lparr> tp_user_id = user, tp_tenant_id = tenant, tp_index_nodes = [], tp_blocked_pods = [],
       tp_blocked_nodes = [], tp_blocked_sources = [], tp_blocked_topics = [] \<rparr>"

definition retains_index_url :: "trust_policy \<Rightarrow> string \<Rightarrow> bool" where
  "retains_index_url policy source \<longleftrightarrow>
     list_ex (\<lambda>index. ix_base_url index = source) (tp_index_nodes policy)"

definition blocks_pod :: "trust_policy \<Rightarrow> uuid \<Rightarrow> string \<Rightarrow> bool" where
  "blocks_pod policy origin slug \<longleftrightarrow>
     origin \<in> set (tp_blocked_nodes policy) \<or>
     list_ex (\<lambda>blocked. bp_origin_node_id blocked = origin \<and>
                eq_ignore_ascii_case (bp_pod_slug blocked) slug) (tp_blocked_pods policy)"

end
