(* ===== verification/Domain_Peers.thy ===== *)
theory Domain_Peers
  imports Domain_Bootstrap
begin

text \<open>
  The types of \<open>domain/discovery_peers.rs\<close>: the signed peer advertisement and its lease, the
  opt-in serving state of a node, the bounded outbound peer set, and the health and progress of
  each outbound peer.
\<close>

section \<open>Advertisements\<close>

definition peer_advertisement_lease_duration_days :: int where
  "peer_advertisement_lease_duration_days = 7"

definition peer_advertisement_lease_duration :: int where
  "peer_advertisement_lease_duration = days peer_advertisement_lease_duration_days"

datatype discovery_peer_capability = AnnouncementServing

fun dpc_as_str :: "discovery_peer_capability \<Rightarrow> string" where
  "dpc_as_str AnnouncementServing = ''announcement_serving''"

record discovery_peer_advertisement =
  ad_id :: uuid
  ad_node_id :: uuid
  ad_signer :: node_info
  ad_public_endpoint :: string
  ad_protocol_version :: string
  ad_capability :: discovery_peer_capability
  ad_issued_at :: time
  ad_expires_at :: time
  ad_signature :: string

definition ad_lease_is_active :: "discovery_peer_advertisement \<Rightarrow> time \<Rightarrow> bool" where
  "ad_lease_is_active ad now \<longleftrightarrow> ad_expires_at ad > now"

record known_discovery_peer_advertisement =
  kd_advertisement :: discovery_peer_advertisement
  kd_received_at :: time
  kd_learned_from :: "string list"

record discovery_peer_service_state =
  ds_enabled :: bool
  ds_public_endpoint :: "string option"
  ds_current_advertisement :: "discovery_peer_advertisement option"
  ds_verified_at :: "time option"
  ds_next_stream_sequence :: nat

definition discovery_peer_service_default :: discovery_peer_service_state where
  "discovery_peer_service_default =
     \<lparr> ds_enabled = False, ds_public_endpoint = None, ds_current_advertisement = None,
       ds_verified_at = None, ds_next_stream_sequence = 1 \<rparr>"

section \<open>Admission\<close>

datatype discovery_peer_admission_rejection_reason =
    DR_Malformed | DR_InvalidIdentity | DR_InvalidSignature | DR_UnreachableEndpoint
  | DR_IncompatibleProtocol | DR_StaleLease | DR_PrivateEndpoint | DR_InsecureEndpoint
  | DR_PayloadTooLarge | DR_UnsupportedCapability | DR_BootstrapDisabled
  | DR_PeerServiceDisabled | DR_VerificationFailed | DR_IdentityMismatch | DR_RateLimited

fun dr_as_code :: "discovery_peer_admission_rejection_reason \<Rightarrow> string" where
  "dr_as_code DR_Malformed = ''malformed''"
| "dr_as_code DR_InvalidIdentity = ''invalid_identity''"
| "dr_as_code DR_InvalidSignature = ''invalid_signature''"
| "dr_as_code DR_UnreachableEndpoint = ''unreachable_endpoint''"
| "dr_as_code DR_IncompatibleProtocol = ''incompatible_protocol''"
| "dr_as_code DR_StaleLease = ''stale_lease''"
| "dr_as_code DR_PrivateEndpoint = ''private_endpoint''"
| "dr_as_code DR_InsecureEndpoint = ''insecure_endpoint''"
| "dr_as_code DR_PayloadTooLarge = ''payload_too_large''"
| "dr_as_code DR_UnsupportedCapability = ''unsupported_capability''"
| "dr_as_code DR_BootstrapDisabled = ''bootstrap_disabled''"
| "dr_as_code DR_PeerServiceDisabled = ''peer_service_disabled''"
| "dr_as_code DR_VerificationFailed = ''verification_failed''"
| "dr_as_code DR_IdentityMismatch = ''identity_mismatch''"
| "dr_as_code DR_RateLimited = ''rate_limited''"

record discovery_peer_admission_acceptance =
  da_outcome :: bootstrap_admission_outcome_kind
  da_known :: known_discovery_peer_advertisement

record discovery_peer_identity_view =
  dv_node_id :: uuid
  dv_public_key :: string
  dv_protocol_version :: string

record discovery_peer_advertisement_sample =
  sm_advertisements :: "discovery_peer_advertisement list"
  sm_limit :: nat

section \<open>The outbound peer set\<close>

definition default_max_outbound_discovery_peers :: nat where
  "default_max_outbound_discovery_peers = 4"

definition max_outbound_discovery_peers :: nat where
  "max_outbound_discovery_peers = 8"

definition peer_failures_before_eviction :: nat where
  "peer_failures_before_eviction = 3"

definition max_peer_invalid_entries_per_page :: nat where
  "max_peer_invalid_entries_per_page = 3"

record discovery_peer_gossip_config =
  gc_automatic_gossip_enabled :: bool
  gc_max_outbound_peers :: nat
  gc_updated_at :: "time option"

definition discovery_peer_gossip_default :: discovery_peer_gossip_config where
  "discovery_peer_gossip_default =
     \<lparr> gc_automatic_gossip_enabled = True,
       gc_max_outbound_peers = default_max_outbound_discovery_peers,
       gc_updated_at = None \<rparr>"

record outbound_discovery_peer =
  op_node_id :: uuid
  op_public_endpoint :: string
  op_advertisement_id :: uuid
  op_protocol_version :: string
  op_selected_at :: time
  op_learned_from :: "string list"

datatype discovery_peer_health = Healthy | BackedOff | Evicted

fun dh_as_str :: "discovery_peer_health \<Rightarrow> string" where
  "dh_as_str Healthy = ''healthy''"
| "dh_as_str BackedOff = ''backed_off''"
| "dh_as_str Evicted = ''evicted''"

datatype discovery_peer_sync_failure_kind =
    DF_Transport | DF_Protocol | DF_Malformed | DF_InvalidSignature | DF_Validation
  | DF_IncompatibleProtocol | DF_ExpiredAdvertisement | DF_Flooding | DF_Unreachable

fun df_as_code :: "discovery_peer_sync_failure_kind \<Rightarrow> string" where
  "df_as_code DF_Transport = ''transport''"
| "df_as_code DF_Protocol = ''protocol''"
| "df_as_code DF_Malformed = ''malformed''"
| "df_as_code DF_InvalidSignature = ''invalid_signature''"
| "df_as_code DF_Validation = ''validation''"
| "df_as_code DF_IncompatibleProtocol = ''incompatible_protocol''"
| "df_as_code DF_ExpiredAdvertisement = ''expired_advertisement''"
| "df_as_code DF_Flooding = ''flooding''"
| "df_as_code DF_Unreachable = ''unreachable''"

record discovery_peer_sync_failure =
  df_kind :: discovery_peer_sync_failure_kind
  df_message :: string

record discovery_peer_sync_state =
  ps_node_id :: uuid
  ps_cursor :: "string option"
  ps_last_success_at :: "time option"
  ps_last_attempt_at :: "time option"
  ps_consecutive_failures :: nat
  ps_backoff_until :: "time option"
  ps_health :: discovery_peer_health
  ps_last_error :: "discovery_peer_sync_failure option"

record outbound_discovery_peer_status =
  os_peer :: outbound_discovery_peer
  os_sync :: discovery_peer_sync_state

record discovery_peer_sync_outcome =
  po_node_id :: uuid
  po_public_endpoint :: string
  po_ok :: bool
  po_pages_fetched :: nat
  po_retained_announcements :: nat
  po_retained_withdrawals :: nat
  po_cursor :: "string option"
  po_health :: discovery_peer_health
  po_error :: "discovery_peer_sync_failure option"

record discovery_peer_sync_report =
  pr_outcomes :: "discovery_peer_sync_outcome list"
  pr_retained_announcements :: nat
  pr_retained_withdrawals :: nat
  pr_evicted :: "uuid list"

record discovery_status =
  dst_automatic_gossip_enabled :: bool
  dst_enabled_bootstrap_count :: nat
  dst_active_outbound_peer_count :: nat
  dst_degraded :: bool
  dst_degraded_reason :: "string option"
  dst_message :: string

record discovery_peer_sample_request =
  dq_limit :: "nat option"

end
