(* ===== verification/Externals.thy ===== *)
theory Externals
  imports Domain_Peers
begin

text \<open>
  The third-party crates the modelled code calls, as parameters: the record \<open>ext\<close> has one
  field per foreign function, and every definition that reaches one takes such a record. No
  field has a definition here; a property that relies on the behaviour of one of them states it
  as a hypothesis.

  A parsed \<open>url::Url\<close> is represented by its serialization, which determines it.
  \<open>Uuid::now_v7()\<close> is no field: an operation that draws identities takes the drawn values as
  arguments. A \<open>HashMap\<close> visits its entries in an order that depends on the hasher's seed;
  \<open>x_iter_nodes\<close> and \<open>x_iter_pods\<close> give that order for the key set they are applied to.
\<close>

section \<open>The foreign functions\<close>

record ext =
  x_url_parse :: "string \<Rightarrow> string + string"
  x_url_host :: "string \<Rightarrow> string option"
  x_url_scheme :: "string \<Rightarrow> string"
  x_url_path :: "string \<Rightarrow> string"
  x_url_set_path :: "string \<Rightarrow> string \<Rightarrow> string"
  x_url_clear_query :: "string \<Rightarrow> string"
  x_url_clear_fragment :: "string \<Rightarrow> string"
  x_uuid_parse :: "string \<Rightarrow> uuid option"
  x_json_to_vec :: "json \<Rightarrow> string + string"
  x_b64_encode :: "string \<Rightarrow> string"
  x_b64_decode :: "string \<Rightarrow> string option"
  x_ed_key_ok :: "string \<Rightarrow> bool"
  x_ed_public :: "string \<Rightarrow> string"
  x_ed_sign :: "string \<Rightarrow> string \<Rightarrow> string"
  x_ed_verify :: "string \<Rightarrow> string \<Rightarrow> string \<Rightarrow> bool"
  x_iter_nodes :: "uuid list \<Rightarrow> uuid list"
  x_iter_pods :: "pod_key list \<Rightarrow> pod_key list"

text \<open>
  Documented behaviour used as a hypothesis: base64 decodes what it encoded; an Ed25519
  signature made with a secret key verifies under the derived public key; keys and signatures
  have their fixed lengths; a map's iteration visits every key once.
\<close>

definition signatures_sound :: "ext \<Rightarrow> bool" where
  "signatures_sound x \<longleftrightarrow>
     (\<forall>bytes. x_b64_decode x (x_b64_encode x bytes) = Some bytes) \<and>
     (\<forall>sk msg. length sk = 32 \<longrightarrow>
        x_ed_key_ok x (x_ed_public x sk) \<and> length (x_ed_public x sk) = 32 \<and>
        length (x_ed_sign x sk msg) = 64 \<and>
        x_ed_verify x (x_ed_public x sk) msg (x_ed_sign x sk msg))"

definition iteration_sound :: "ext \<Rightarrow> bool" where
  "iteration_sound x \<longleftrightarrow>
     (\<forall>ks. mset (x_iter_nodes x ks) = mset ks) \<and> (\<forall>ks. mset (x_iter_pods x ks) = mset ks)"

text \<open>The values of a map in the order its iterator visits them.\<close>

definition values_in_order :: "('k list \<Rightarrow> 'k list) \<Rightarrow> ('k, 'v) omap \<Rightarrow> 'v list" where
  "values_in_order order m = List.map_filter (om_get m) (order (om_keys m))"

lemma set_map_filter: "set (List.map_filter f xs) = {y. \<exists>k \<in> set xs. f k = Some y}"
  by (induction xs) (auto simp: List.map_filter_simps split: option.splits)

lemma mset_map_filter_cong:
  "mset xs = mset ys \<Longrightarrow> mset (List.map_filter f xs) = mset (List.map_filter f ys)"
  unfolding List.map_filter_def by (metis mset_filter mset_map)

lemma map_filter_entries:
  "\<forall>e \<in> set es. f (fst e) = Some (snd e) \<Longrightarrow> List.map_filter f (map fst es) = map snd es"
  by (induction es) (auto simp: List.map_filter_simps)

lemma values_in_key_order: "om_ok m \<Longrightarrow> List.map_filter (om_get m) (om_keys m) = om_vals m"
  unfolding om_keys_def om_vals_def by (rule map_filter_entries) (simp add: om_get_iff)

lemma mset_values_in_order:
  "om_ok m \<Longrightarrow> mset (order (om_keys m)) = mset (om_keys m) \<Longrightarrow>
    mset (values_in_order order m) = mset (om_vals m)"
  unfolding values_in_order_def using mset_map_filter_cong values_in_key_order by metis

lemma set_values_in_order:
  "om_ok m \<Longrightarrow> mset (order (om_keys m)) = mset (om_keys m) \<Longrightarrow>
    set (values_in_order order m) = set (om_vals m)"
  using mset_values_in_order by (metis set_mset_mset)

lemma values_in_order_stored: "v \<in> set (values_in_order order m) \<Longrightarrow> \<exists>k. om_get m k = Some v"
  by (auto simp: values_in_order_def set_map_filter)

end
