(* ===== verification/Store.thy ===== *)
theory Store
  imports Externals
begin

text \<open>
  The discovery part of \<open>store/mod.rs\<close>: the store error, the collections of \<open>InMemoryStore\<close>
  that the modelled components read or write, and the queries of \<open>store/queries.rs\<close> they use.
\<close>

section \<open>Errors\<close>

datatype store_error =
    NotFound string
  | Duplicate string
  | TenantBoundary
  | UntrustedPeer
  | InvalidSignature
  | AnnouncementExpired
  | AnnouncementWithdrawn
  | AnnouncementStale
  | WithdrawalStale
  | Validation string

fun store_error_to_string :: "store_error \<Rightarrow> string" where
  "store_error_to_string (NotFound s) = ''not found: '' @ s"
| "store_error_to_string (Duplicate s) = ''duplicate: '' @ s"
| "store_error_to_string TenantBoundary = ''tenant boundary violation''"
| "store_error_to_string UntrustedPeer = ''untrusted peer''"
| "store_error_to_string InvalidSignature = ''invalid event signature''"
| "store_error_to_string AnnouncementExpired = ''pod announcement lease expired''"
| "store_error_to_string AnnouncementWithdrawn = ''pod has been withdrawn from discovery''"
| "store_error_to_string AnnouncementStale = ''pod announcement is stale''"
| "store_error_to_string WithdrawalStale = ''pod withdrawal is stale''"
| "store_error_to_string (Validation s) = ''validation failed: '' @ s"

section \<open>The store\<close>

record store =
  st_node_identities :: "(uuid, node_identity) omap"
  st_known_pod_announcements :: "(pod_key, known_pod_announcement) omap"
  st_known_pod_withdrawals :: "(pod_key, known_pod_withdrawal) omap"
  st_announcement_stream_entries :: "(nat, announcement_stream_entry) omap"
  st_discovery_peer_stream_entries :: "(nat, announcement_stream_entry) omap"
  st_bootstrap_rejection_audits :: "bootstrap_rejection_audit list"
  st_bootstrap_runtime :: "bootstrap_runtime_state option"
  st_discovery_peer_service :: "discovery_peer_service_state option"
  st_known_discovery_peer_advertisements :: "(uuid, known_discovery_peer_advertisement) omap"
  st_bootstrap_endpoints :: "(uuid, bootstrap_endpoint_config) omap"
  st_bootstrap_sync_states :: "(uuid, bootstrap_sync_state) omap"
  st_discovery_peer_gossip_config :: "discovery_peer_gossip_config option"
  st_outbound_discovery_peers :: "(uuid, outbound_discovery_peer) omap"
  st_discovery_peer_sync_states :: "(uuid, discovery_peer_sync_state) omap"
  st_pods :: "(uuid, pod) omap"
  st_pod_skill_packs :: "(uuid, pod_skill_pack) omap"
  st_event_log :: "event_log_row list"

definition empty_store :: store where
  "empty_store =
     \<lparr> st_node_identities = [],
       st_known_pod_announcements = [],
       st_known_pod_withdrawals = [],
       st_announcement_stream_entries = [],
       st_discovery_peer_stream_entries = [],
       st_bootstrap_rejection_audits = [],
       st_bootstrap_runtime = None,
       st_discovery_peer_service = None,
       st_known_discovery_peer_advertisements = [],
       st_bootstrap_endpoints = [],
       st_bootstrap_sync_states = [],
       st_discovery_peer_gossip_config = None,
       st_outbound_discovery_peers = [],
       st_discovery_peer_sync_states = [],
       st_pods = [],
       st_pod_skill_packs = [],
       st_event_log = [] \<rparr>"

section \<open>Queries (store/queries.rs)\<close>

definition node_for_tenant :: "ext \<Rightarrow> store \<Rightarrow> uuid option \<Rightarrow> store_error + node_identity" where
  "node_for_tenant x st tenant =
     (let nodes = values_in_order (x_iter_nodes x) (st_node_identities st)
      in case find (\<lambda>n. nd_tenant_id n = tenant) nodes of
           Some n \<Rightarrow> Inr n
         | None \<Rightarrow>
             (case find (\<lambda>n. nd_tenant_id n = None) nodes of
                Some n \<Rightarrow> Inr n
              | None \<Rightarrow> Inl (NotFound ''node identity'')))"

definition latest_federated_event_hash :: "store \<Rightarrow> string \<Rightarrow> string option" where
  "latest_federated_event_hash st slug =
     map_option ev_content_hash
       (find (\<lambda>e. ev_pod_slug e = slug \<and> pet_is_federated (ev_event_type e))
         (rev (st_event_log st)))"

end
