(* ===== verification/Signing.thy ===== *)
theory Signing
  imports Store
begin

text \<open>
  \<open>signing.rs\<close> for the three artifacts of public discovery: the canonical JSON value that is
  signed, signing with a node's key, and verification. Serialization, base64 and Ed25519 are
  the crates' (theory Externals); everything around them is the code's.
\<close>

datatype signing_error =
    SG_InvalidPrivateKey | SG_InvalidPublicKey | SG_InvalidSignature | SG_Json string

fun signing_error_to_string :: "signing_error \<Rightarrow> string" where
  "signing_error_to_string SG_InvalidPrivateKey = ''invalid private key''"
| "signing_error_to_string SG_InvalidPublicKey = ''invalid public key''"
| "signing_error_to_string SG_InvalidSignature = ''invalid signature''"
| "signing_error_to_string (SG_Json e) = ''json serialization failed: '' @ e"

section \<open>Serialization\<close>

definition json_opt :: "('a \<Rightarrow> json) \<Rightarrow> 'a option \<Rightarrow> json" where
  "json_opt f o1 = (case o1 of None \<Rightarrow> JNull | Some v \<Rightarrow> f v)"

definition json_node_info :: "node_info \<Rightarrow> json" where
  "json_node_info n = JObj
     [(''node_id'', JUuid (ni_node_id n)),
      (''display_name'', JStr (ni_display_name n)),
      (''public_key'', JStr (ni_public_key n)),
      (''supported_protocol_version'', JStr (ni_supported_protocol_version n))]"

definition canonical_announcement :: "pod_announcement \<Rightarrow> json" where
  "canonical_announcement a = JObj
     [(''id'', JUuid (pa_id a)),
      (''origin_node_id'', JUuid (pa_origin_node_id a)),
      (''signer'', json_node_info (pa_signer a)),
      (''pod_slug'', JStr (pa_pod_slug a)),
      (''pod_name'', JStr (pa_pod_name a)),
      (''subject'', JStr (pa_subject a)),
      (''public_pod_url'', JStr (pa_public_pod_url a)),
      (''package_version'', JInt (pa_package_version a)),
      (''latest_event_hash'', json_opt JStr (pa_latest_event_hash a)),
      (''announced_at'', JTime (pa_announced_at a)),
      (''expires_at'', JTime (pa_expires_at a))]"

definition canonical_withdrawal :: "pod_withdrawal \<Rightarrow> json" where
  "canonical_withdrawal w = JObj
     [(''id'', JUuid (pw_id w)),
      (''origin_node_id'', JUuid (pw_origin_node_id w)),
      (''signer'', json_node_info (pw_signer w)),
      (''pod_slug'', JStr (pw_pod_slug w)),
      (''public_pod_url'', json_opt JStr (pw_public_pod_url w)),
      (''covers_announcement_id'', json_opt JUuid (pw_covers_announcement_id w)),
      (''withdrawn_at'', JTime (pw_withdrawn_at w))]"

definition canonical_peer_advertisement :: "discovery_peer_advertisement \<Rightarrow> json" where
  "canonical_peer_advertisement ad = JObj
     [(''id'', JUuid (ad_id ad)),
      (''node_id'', JUuid (ad_node_id ad)),
      (''signer'', json_node_info (ad_signer ad)),
      (''public_endpoint'', JStr (ad_public_endpoint ad)),
      (''protocol_version'', JStr (ad_protocol_version ad)),
      (''capability'', JStr (dpc_as_str (ad_capability ad))),
      (''issued_at'', JTime (ad_issued_at ad)),
      (''expires_at'', JTime (ad_expires_at ad))]"

text \<open>The derived \<open>Serialize\<close> of the whole artifact, whose size the admission gates bound.\<close>

fun json_with_signature :: "json \<Rightarrow> string \<Rightarrow> json" where
  "json_with_signature (JObj obj) sig = JObj (obj @ [(''signature'', JStr sig)])"
| "json_with_signature j sig = j"

definition json_announcement :: "pod_announcement \<Rightarrow> json" where
  "json_announcement a = json_with_signature (canonical_announcement a) (pa_signature a)"

definition json_withdrawal :: "pod_withdrawal \<Rightarrow> json" where
  "json_withdrawal w = json_with_signature (canonical_withdrawal w) (pw_signature w)"

definition json_peer_advertisement :: "discovery_peer_advertisement \<Rightarrow> json" where
  "json_peer_advertisement ad =
     json_with_signature (canonical_peer_advertisement ad) (ad_signature ad)"

text \<open>\<open>serde_json::to_vec(value).map(len).unwrap_or(usize::MAX)\<close>.\<close>

definition estimated_payload_bytes :: "ext \<Rightarrow> json \<Rightarrow> nat" where
  "estimated_payload_bytes x j =
     (case x_json_to_vec x j of Inl _ \<Rightarrow> u64_max | Inr bytes \<Rightarrow> length bytes)"

definition canonical_bytes :: "ext \<Rightarrow> json \<Rightarrow> signing_error + string" where
  "canonical_bytes x j =
     (case x_json_to_vec x j of Inl e \<Rightarrow> Inl (SG_Json e) | Inr bytes \<Rightarrow> Inr bytes)"

section \<open>Signing and verifying\<close>

text \<open>\<open>STANDARD.decode(text)\<close> followed by \<open>try_into::<[u8; n]>()\<close>.\<close>

definition decode_fixed :: "ext \<Rightarrow> nat \<Rightarrow> string \<Rightarrow> string option" where
  "decode_fixed x n text =
     (case x_b64_decode x text of
        None \<Rightarrow> None | Some bytes \<Rightarrow> if length bytes = n then Some bytes else None)"

definition sign_payload :: "ext \<Rightarrow> node_identity \<Rightarrow> string \<Rightarrow> signing_error + string" where
  "sign_payload x node payload =
     (case decode_fixed x 32 (nd_private_key node) of
        None \<Rightarrow> Inl SG_InvalidPrivateKey
      | Some key_bytes \<Rightarrow> Inr (x_b64_encode x (x_ed_sign x key_bytes payload)))"

definition verify_payload :: "ext \<Rightarrow> string \<Rightarrow> string \<Rightarrow> string \<Rightarrow> signing_error + bool" where
  "verify_payload x public_key signature payload =
     (case decode_fixed x 32 public_key of
        None \<Rightarrow> Inl SG_InvalidPublicKey
      | Some public_bytes \<Rightarrow>
          (case decode_fixed x 64 signature of
             None \<Rightarrow> Inl SG_InvalidSignature
           | Some signature_bytes \<Rightarrow>
               if x_ed_key_ok x public_bytes
               then Inr (x_ed_verify x public_bytes payload signature_bytes)
               else Inl SG_InvalidPublicKey))"

definition sign_pod_announcement ::
  "ext \<Rightarrow> node_identity \<Rightarrow> pod_announcement \<Rightarrow> signing_error + pod_announcement" where
  "sign_pod_announcement x node a =
     (case canonical_bytes x (canonical_announcement a) of
        Inl e \<Rightarrow> Inl e
      | Inr bytes \<Rightarrow>
          (case sign_payload x node bytes of
             Inl e \<Rightarrow> Inl e | Inr s \<Rightarrow> Inr (a\<lparr>pa_signature := s\<rparr>)))"

definition sign_pod_withdrawal ::
  "ext \<Rightarrow> node_identity \<Rightarrow> pod_withdrawal \<Rightarrow> signing_error + pod_withdrawal" where
  "sign_pod_withdrawal x node w =
     (case canonical_bytes x (canonical_withdrawal w) of
        Inl e \<Rightarrow> Inl e
      | Inr bytes \<Rightarrow>
          (case sign_payload x node bytes of
             Inl e \<Rightarrow> Inl e | Inr s \<Rightarrow> Inr (w\<lparr>pw_signature := s\<rparr>)))"

definition sign_discovery_peer_advertisement ::
  "ext \<Rightarrow> node_identity \<Rightarrow> discovery_peer_advertisement
    \<Rightarrow> signing_error + discovery_peer_advertisement" where
  "sign_discovery_peer_advertisement x node ad =
     (case canonical_bytes x (canonical_peer_advertisement ad) of
        Inl e \<Rightarrow> Inl e
      | Inr bytes \<Rightarrow>
          (case sign_payload x node bytes of
             Inl e \<Rightarrow> Inl e | Inr s \<Rightarrow> Inr (ad\<lparr>ad_signature := s\<rparr>)))"

definition pa_verify :: "ext \<Rightarrow> pod_announcement \<Rightarrow> signing_error + bool" where
  "pa_verify x a =
     (if pa_origin_node_id a \<noteq> ni_node_id (pa_signer a) then Inr False
      else if pa_expires_at a \<noteq> pa_announced_at a + announcement_lease_duration then Inr False
      else case canonical_bytes x (canonical_announcement a) of
             Inl e \<Rightarrow> Inl e
           | Inr bytes \<Rightarrow> verify_payload x (ni_public_key (pa_signer a)) (pa_signature a) bytes)"

definition pw_verify :: "ext \<Rightarrow> pod_withdrawal \<Rightarrow> signing_error + bool" where
  "pw_verify x w =
     (if pw_origin_node_id w \<noteq> ni_node_id (pw_signer w) then Inr False
      else case canonical_bytes x (canonical_withdrawal w) of
             Inl e \<Rightarrow> Inl e
           | Inr bytes \<Rightarrow> verify_payload x (ni_public_key (pw_signer w)) (pw_signature w) bytes)"

definition ad_verify :: "ext \<Rightarrow> discovery_peer_advertisement \<Rightarrow> signing_error + bool" where
  "ad_verify x ad =
     (if ad_node_id ad \<noteq> ni_node_id (ad_signer ad) then Inr False
      else if ad_expires_at ad \<noteq> ad_issued_at ad + peer_advertisement_lease_duration
        then Inr False
      else case canonical_bytes x (canonical_peer_advertisement ad) of
             Inl e \<Rightarrow> Inl e
           | Inr bytes \<Rightarrow> verify_payload x (ni_public_key (ad_signer ad)) (ad_signature ad) bytes)"

section \<open>Lemmas\<close>

lemma json_opt_inj: "inj f \<Longrightarrow> (\<And>v. JNull \<noteq> f v) \<Longrightarrow> json_opt f a = json_opt f b \<longleftrightarrow> a = b"
  by (cases a; cases b) (auto simp: json_opt_def dest: injD sym)

lemma json_opt_str [simp]: "json_opt JStr a = json_opt JStr b \<longleftrightarrow> a = b"
  by (rule json_opt_inj) (auto intro: injI)

lemma json_opt_uuid [simp]: "json_opt JUuid a = json_opt JUuid b \<longleftrightarrow> a = b"
  by (rule json_opt_inj) (auto intro: injI)

lemma json_node_info_inj [simp]: "json_node_info m = json_node_info n \<longleftrightarrow> m = n"
  by (auto simp: json_node_info_def)

lemma dpc_as_str_inj [simp]: "dpc_as_str c = dpc_as_str d \<longleftrightarrow> c = d"
  by (cases c; cases d) simp

text \<open>Nothing but the signature escapes the signed value.\<close>

lemma canonical_announcement_inj:
  "canonical_announcement a = canonical_announcement b \<longleftrightarrow> a = b\<lparr>pa_signature := pa_signature a\<rparr>"
  by (cases a; cases b) (auto simp: canonical_announcement_def)

lemma canonical_withdrawal_inj:
  "canonical_withdrawal a = canonical_withdrawal b \<longleftrightarrow> a = b\<lparr>pw_signature := pw_signature a\<rparr>"
  by (cases a; cases b) (auto simp: canonical_withdrawal_def)

lemma canonical_peer_advertisement_inj:
  "canonical_peer_advertisement a = canonical_peer_advertisement b \<longleftrightarrow>
     a = b\<lparr>ad_signature := ad_signature a\<rparr>"
  by (cases a; cases b) (auto simp: canonical_peer_advertisement_def)

lemma canonical_announcement_signature [simp]:
  "canonical_announcement (a\<lparr>pa_signature := s\<rparr>) = canonical_announcement a"
  by (simp add: canonical_announcement_def)

lemma canonical_withdrawal_signature [simp]:
  "canonical_withdrawal (w\<lparr>pw_signature := s\<rparr>) = canonical_withdrawal w"
  by (simp add: canonical_withdrawal_def)

lemma canonical_peer_advertisement_signature [simp]:
  "canonical_peer_advertisement (ad\<lparr>ad_signature := s\<rparr>) = canonical_peer_advertisement ad"
  by (simp add: canonical_peer_advertisement_def)

text \<open>A payload signed with a node's key verifies under the node's public key.\<close>

definition key_pair_of :: "ext \<Rightarrow> node_identity \<Rightarrow> string \<Rightarrow> bool" where
  "key_pair_of x node sk \<longleftrightarrow>
     length sk = 32 \<and> nd_private_key node = x_b64_encode x sk \<and>
     nd_public_key node = x_b64_encode x (x_ed_public x sk)"

lemma sign_payload_ok:
  "signatures_sound x \<Longrightarrow> key_pair_of x node sk \<Longrightarrow>
    sign_payload x node payload = Inr (x_b64_encode x (x_ed_sign x sk payload))"
  by (simp add: sign_payload_def decode_fixed_def signatures_sound_def key_pair_of_def)

lemma verify_signed_payload:
  "signatures_sound x \<Longrightarrow> key_pair_of x node sk \<Longrightarrow> sign_payload x node payload = Inr s \<Longrightarrow>
    verify_payload x (nd_public_key node) s payload = Inr True"
  by (simp add: sign_payload_ok)
    (auto simp: verify_payload_def decode_fixed_def signatures_sound_def key_pair_of_def)

lemma sign_pod_announcement_Inr:
  "sign_pod_announcement x node a0 = Inr a \<Longrightarrow>
    \<exists>s bytes. a = a0\<lparr>pa_signature := s\<rparr> \<and> canonical_bytes x (canonical_announcement a0) = Inr bytes \<and>
      sign_payload x node bytes = Inr s"
  by (auto simp: sign_pod_announcement_def split: sum.splits)

lemma signed_announcement_verifies:
  assumes "signatures_sound x" and "key_pair_of x node sk"
    and "sign_pod_announcement x node a0 = Inr a"
    and "pa_origin_node_id a0 = ni_node_id (pa_signer a0)"
    and "ni_public_key (pa_signer a0) = nd_public_key node"
    and "pa_expires_at a0 = pa_announced_at a0 + announcement_lease_duration"
  shows "pa_verify x a = Inr True"
proof -
  obtain s bytes where "a = a0\<lparr>pa_signature := s\<rparr>"
    and "canonical_bytes x (canonical_announcement a0) = Inr bytes"
    and "sign_payload x node bytes = Inr s"
    using sign_pod_announcement_Inr[OF assms(3)] by blast
  then show ?thesis
    using assms(4-6) verify_signed_payload[OF assms(1,2)] by (simp add: pa_verify_def)
qed

text \<open>What a successful verification establishes.\<close>

lemma pa_verify_identity: "pa_verify x a = Inr True \<Longrightarrow> pa_origin_node_id a = ni_node_id (pa_signer a)"
  by (auto simp: pa_verify_def split: if_splits)

lemma pa_verify_lease:
  "pa_verify x a = Inr True \<Longrightarrow> pa_expires_at a = pa_announced_at a + announcement_lease_duration"
  by (auto simp: pa_verify_def split: if_splits)

lemma pw_verify_identity: "pw_verify x w = Inr True \<Longrightarrow> pw_origin_node_id w = ni_node_id (pw_signer w)"
  by (auto simp: pw_verify_def split: if_splits)

lemma ad_verify_identity: "ad_verify x ad = Inr True \<Longrightarrow> ad_node_id ad = ni_node_id (ad_signer ad)"
  by (auto simp: ad_verify_def split: if_splits)

lemma ad_verify_lease:
  "ad_verify x ad = Inr True \<Longrightarrow> ad_expires_at ad = ad_issued_at ad + peer_advertisement_lease_duration"
  by (auto simp: ad_verify_def split: if_splits)

end
