(* ===== verification/Stream_Log.thy ===== *)
theory Stream_Log
  imports Signing
begin

text \<open>
  The bounded, append-only sequence log. The bootstrap node and the discovery peer each keep
  one: a \<open>BTreeMap<u64, AnnouncementStreamEntry>\<close> beside a counter of the next sequence number.
  What a reader of such a log may rely on is stated once, in the locale \<open>stream_log\<close>, and
  interpreted for the two logs in the theories that own them.
\<close>

section \<open>Pruning and paging\<close>

text \<open>
  \<open>while len > cap { remove the smallest key }\<close>. Removing an existing key shortens the map, so
  the loop ends.
\<close>

function prune_oldest :: "nat \<Rightarrow> (nat, 'v) omap \<Rightarrow> (nat, 'v) omap" where
  "prune_oldest cap m =
     (if length m > cap
      then (case m of [] \<Rightarrow> m | (oldest, _) # _ \<Rightarrow> prune_oldest cap (om_del oldest m))
      else m)"
  by pat_completeness auto

termination
proof (relation "measure (\<lambda>(cap, m). length m)", simp)
  fix cap and m m' :: "(nat, 'v) omap" and e oldest v
  assume "m = e # m'" and "(oldest, v) = e"
  then have "om_del oldest m = filter (\<lambda>e. fst e \<noteq> oldest) m'" and "length m = Suc (length m')"
    by (auto simp: om_del_def)
  then show "((cap, om_del oldest m), (cap, m)) \<in> measure (\<lambda>(cap, m). length m)"
    by (simp add: le_imp_less_Suc)
qed

declare prune_oldest.simps [simp del]

text \<open>\<open>range((after + 1)..).take(limit)\<close>.\<close>

definition entries_after :: "nat \<Rightarrow> (nat, 'v) omap \<Rightarrow> (nat, 'v) omap" where
  "entries_after after m = filter (\<lambda>e. wrapping_add after 1 \<le> fst e) m"

definition page_entries :: "nat \<Rightarrow> nat \<Rightarrow> (nat, 'v) omap \<Rightarrow> 'v list" where
  "page_entries after limit m = om_vals (take limit (entries_after after m))"

text \<open>\<open>keys().next_back().map(|max| max.saturating_add(1)).unwrap_or(0)\<close>.\<close>

definition log_end :: "(nat, 'v) omap \<Rightarrow> nat" where
  "log_end m = (if m = [] then 0 else sat_add (fst (last m)) 1)"

lemma prune_oldest_le: "length m \<le> cap \<Longrightarrow> prune_oldest cap m = m"
  by (subst prune_oldest.simps) simp

lemma prune_oldest_drop: "om_ok m \<Longrightarrow> prune_oldest cap m = drop (length m - cap) m"
proof (induction "length m" arbitrary: m)
  case 0
  then show ?case by (simp add: prune_oldest_le)
next
  case (Suc n)
  then obtain k v m' where m: "m = (k, v) # m'" by (cases m) auto
  show ?case
  proof (cases "length m \<le> cap")
    case False
    have "om_del k m = m'" using om_del_hd[OF Suc.prems] m by simp
    with False m have "prune_oldest cap m = prune_oldest cap m'"
      by (subst prune_oldest.simps) simp
    also have "\<dots> = drop (length m' - cap) m'"
      using Suc.hyps Suc.prems m by (simp add: om_ok_Cons)
    finally show ?thesis using False m by (simp add: Suc_diff_le)
  qed (simp add: prune_oldest_le)
qed

lemma om_ok_drop [simp]: "om_ok m \<Longrightarrow> om_ok (drop n m)"
  by (simp add: om_ok_def drop_map [symmetric] sorted_wrt_drop)

lemma om_ok_take [simp]: "om_ok m \<Longrightarrow> om_ok (take n m)"
  by (simp add: om_ok_def take_map [symmetric] sorted_wrt_take)

lemma om_keys_drop [simp]: "om_keys (drop n m) = drop n (om_keys m)"
  by (simp add: om_keys_def drop_map)

lemma om_keys_take [simp]: "om_keys (take n m) = take n (om_keys m)"
  by (simp add: om_keys_def take_map)

lemma length_om_keys [simp]: "length (om_keys m) = length m"
  by (simp add: om_keys_def)

lemma length_page_entries: "length (page_entries after limit m) \<le> limit"
  by (simp add: page_entries_def om_vals_def)

text \<open>Reading the rest of the log after the last entry of a page continues that page.\<close>

lemma entries_after_split:
  assumes ok: "om_ok m" and bound: "\<forall>k \<in> set (om_keys m). k < u64_max" and after: "after < u64_max"
    and page: "take limit (entries_after after m) = es" "es \<noteq> []"
  shows "entries_after after m = es @ entries_after (fst (last es)) m"
proof -
  let ?r = "entries_after after m"
  have r: "?r = es @ drop limit ?r" using page(1) by (metis append_take_drop_id)
  have last: "last es \<in> set m"
    using page by (metis entries_after_def filter_is_subset in_set_takeD last_in_set subsetD)
  then have k: "fst (last es) < u64_max" using bound by (force simp: om_keys_def)
  have "sorted_wrt (<) (map fst ?r)"
    using ok by (simp add: om_ok_def entries_after_def sorted_wrt_map sorted_wrt_filter)
  then have s: "sorted_wrt (<) (map fst (es @ drop limit ?r))" using r by simp
  have lt: "fst (last es) < fst e" if "e \<in> set (drop limit ?r)" for e
    using s that page(2) by (simp add: sorted_wrt_append)
  have es: "es = butlast es @ [last es]" using page(2) by simp
  have le: "fst e \<le> fst (last es)" if "e \<in> set es" for e
  proof -
    have "sorted_wrt (<) (map fst (butlast es @ [last es]))"
      using s es by (simp add: sorted_wrt_append)
    then have "\<forall>d \<in> set (butlast es). fst d < fst (last es)" by (simp add: sorted_wrt_append)
    with that show ?thesis by (subst (asm) es) auto
  qed
  have "last es \<in> set ?r" using page in_set_takeD last_in_set by metis
  then have a: "after < fst (last es)" using after by (simp add: entries_after_def)
  have "entries_after (fst (last es)) m = filter (\<lambda>e. fst (last es) < fst e) m"
    using k by (simp add: entries_after_def Suc_le_eq)
  also have "\<dots> = filter (\<lambda>e. fst (last es) < fst e) ?r"
    using a after by (auto simp: entries_after_def Suc_le_eq intro!: filter_cong)
  also have "\<dots> = drop limit ?r"
    using lt le by (subst r) (auto simp: filter_empty_conv not_less intro!: filter_True)
  finally show ?thesis using r by simp
qed

section \<open>Cursors (bootstrap/stream.rs)\<close>

text \<open>\<open>parse_stream_cursor\<close>: an absent or blank cursor is position 0.\<close>

definition parse_stream_cursor ::
  "string option \<Rightarrow> bootstrap_admission_rejection_reason + nat" where
  "parse_stream_cursor cursor =
     (case cursor of
        None \<Rightarrow> Inr 0
      | Some text \<Rightarrow>
          (let value = trim text
           in if value = [] then Inr 0
              else case parse_unsigned u64_max value of
                     None \<Rightarrow> Inl BR_Malformed | Some n \<Rightarrow> Inr n))"

definition encode_stream_cursor :: "nat \<Rightarrow> string" where
  "encode_stream_cursor after_sequence = nat_dec after_sequence"

lemma parse_encode_cursor:
  "n \<le> u64_max \<Longrightarrow> parse_stream_cursor (Some (encode_stream_cursor n)) = Inr n"
  by (simp add: parse_stream_cursor_def encode_stream_cursor_def parse_unsigned_nat_dec)

lemma encode_cursor_inj: "encode_stream_cursor m = encode_stream_cursor n \<longleftrightarrow> m = n"
  using nat_dec_inj by (auto simp: encode_stream_cursor_def)

lemma parse_digits_le: "parse_digits hi acc s = Some n \<Longrightarrow> acc \<le> hi \<Longrightarrow> n \<le> hi"
  by (induction hi acc s rule: parse_digits.induct) (auto split: option.splits if_splits)

lemma parse_cursor_le: "parse_stream_cursor c = Inr n \<Longrightarrow> n \<le> u64_max"
  by (auto simp: parse_stream_cursor_def parse_unsigned_def Let_def dest: parse_digits_le
      split: option.splits if_splits)

section \<open>The log invariant\<close>

text \<open>
  A log holds the rows with the sequence numbers just below the counter, without a gap, at most
  \<open>cap\<close> of them, each stored under its own number.
\<close>

definition log_ok :: "nat \<Rightarrow> nat \<Rightarrow> (nat, announcement_stream_entry) omap \<Rightarrow> bool" where
  "log_ok cap n m \<longleftrightarrow>
     om_keys m = [n - length m ..< n] \<and> length m \<le> cap \<and> length m < n \<and> n \<le> u64_max \<and>
     (\<forall>e \<in> set m. se_sequence (snd e) = fst e)"

lemma log_ok_om_ok: "log_ok cap n m \<Longrightarrow> om_ok m"
  by (simp add: log_ok_def om_ok_def om_keys_def [symmetric] sorted_wrt_upt)

lemma log_ok_keys: "log_ok cap n m \<Longrightarrow> k \<in> set (om_keys m) \<longleftrightarrow> n - length m \<le> k \<and> k < n"
  by (simp add: log_ok_def)

lemma log_ok_Nil [simp]: "1 \<le> n \<Longrightarrow> n \<le> u64_max \<Longrightarrow> log_ok cap n []"
  by (simp add: log_ok_def)

lemma log_put_last: "log_ok cap n m \<Longrightarrow> om_put n e m = m @ [(n, e)]"
  by (rule om_put_last) (auto simp: log_ok_om_ok log_ok_keys)

lemma log_append_entries:
  assumes "log_ok cap n m"
  shows "prune_oldest cap (om_put n e m) = drop (Suc (length m) - cap) (m @ [(n, e)])"
proof -
  have "om_ok (om_put n e m)" using assms by (simp add: log_ok_om_ok)
  then show ?thesis using assms by (simp add: prune_oldest_drop log_put_last)
qed

lemma log_ok_append:
  assumes ok: "log_ok cap n m" and cap: "0 < cap" and room: "n < u64_max" and e: "se_sequence e = n"
  shows "log_ok cap (Suc n) (prune_oldest cap (om_put n e m))"
proof -
  let ?m = "drop (Suc (length m) - cap) (m @ [(n, e)])"
  have keys: "om_keys m = [n - length m ..< n]" and len: "length m \<le> cap" "length m < n"
    using ok by (simp_all add: log_ok_def)
  have "om_keys ?m = drop (Suc (length m) - cap) [n - length m ..< Suc n]"
    using keys by (simp del: drop_append)
  also have "\<dots> = [n - length m + (Suc (length m) - cap) ..< Suc n]" by (simp only: drop_upt)
  also have "n - length m + (Suc (length m) - cap) = Suc n - length ?m" using len by auto
  finally have "om_keys ?m = [Suc n - length ?m ..< Suc n]" .
  moreover have "length ?m \<le> cap" and "length ?m < Suc n" using len by auto
  moreover have "\<forall>d \<in> set ?m. se_sequence (snd d) = fst d"
    using ok e by (auto simp: log_ok_def dest: in_set_dropD)
  ultimately have "log_ok cap (Suc n) ?m"
    using room unfolding log_ok_def by (intro conjI) (assumption | linarith)+
  then show ?thesis by (simp only: log_append_entries[OF ok])
qed

section \<open>The interface\<close>

locale stream_log =
  fixes next_seq :: "'s \<Rightarrow> nat"
    and entries :: "'s \<Rightarrow> (nat, announcement_stream_entry) omap"
    and append :: "'a \<Rightarrow> 's \<Rightarrow> 's \<times> nat"
    and row :: "'a \<Rightarrow> nat \<Rightarrow> announcement_stream_entry"
    and cap :: nat
  assumes append_seq: "snd (append a s) = next_seq s"
    and append_next: "next_seq (fst (append a s)) = sat_add (next_seq s) 1"
    and append_entries: "entries (fst (append a s)) =
      prune_oldest cap (om_put (next_seq s) (row a (next_seq s)) (entries s))"
    and row_seq: "se_sequence (row a n) = n"
    and cap_pos: "0 < cap"
begin

abbreviation ok :: "'s \<Rightarrow> bool" where
  "ok s \<equiv> log_ok cap (next_seq s) (entries s)"

lemma append_keeps: "ok s \<Longrightarrow> next_seq s < u64_max \<Longrightarrow> ok (fst (append a s))"
  by (simp add: append_next append_entries log_ok_append cap_pos row_seq)

lemma appended:
  "ok s \<Longrightarrow> entries (fst (append a s)) =
     drop (Suc (length (entries s)) - cap) (entries s @ [(next_seq s, row a (next_seq s))])"
  by (simp add: append_entries log_append_entries)

lemma append_readable:
  "ok s \<Longrightarrow> om_get (entries (fst (append a s))) (next_seq s) = Some (row a (next_seq s))"
proof -
  assume ok: "ok s"
  have "om_ok (entries (fst (append a s)))"
    by (simp add: append_entries prune_oldest_drop log_ok_om_ok[OF ok])
  moreover have "(next_seq s, row a (next_seq s)) \<in> set (entries (fst (append a s)))"
    using ok cap_pos by (simp add: appended log_ok_def)
  ultimately show ?thesis by (simp add: om_get_iff)
qed

text \<open>Sequence numbers are handed out in increasing order, each once.\<close>

lemma append_fresh: "ok s \<Longrightarrow> next_seq s \<notin> set (om_keys (entries s))"
  by (simp add: log_ok_keys)

end

end
