(* ===== verification/Ip_Addr.thy ===== *)
theory Ip_Addr
  imports Prelude
begin

unbundle bit_operations_syntax

text \<open>
  The part of \<open>std::net::IpAddr\<close> that the endpoint policies use: the textual parser of the
  standard library (dotted-quad IPv4 without octal forms, IPv6 with one \<open>::\<close> and an optional
  embedded IPv4 tail) and the address classes. An IPv4 address is its four octets, an IPv6
  address its eight 16-bit segments.
\<close>

datatype ip_addr = V4 "nat list" | V6 "nat list"

section \<open>Parsing\<close>

definition to_digit :: "nat \<Rightarrow> char \<Rightarrow> nat option" where
  "to_digit radix c =
     (let n = of_char c :: nat;
          v = (if 48 \<le> n \<and> n \<le> 57 then Some (n - 48)
               else if 97 \<le> n \<and> n \<le> 122 then Some (n - 87)
               else if 65 \<le> n \<and> n \<le> 90 then Some (n - 55)
               else None)
      in case v of None \<Rightarrow> None | Some d \<Rightarrow> if d < radix then Some d else None)"

text \<open>The digit loop of \<open>read_number\<close>: \<open>None\<close> as soon as there are too many digits.\<close>

fun read_number_loop :: "nat \<Rightarrow> nat \<Rightarrow> nat \<Rightarrow> nat \<Rightarrow> string \<Rightarrow> (nat \<times> nat \<times> string) option" where
  "read_number_loop radix max_digits result digit_count [] = Some (result, digit_count, [])"
| "read_number_loop radix max_digits result digit_count (c # cs) =
     (case to_digit radix c of
        None \<Rightarrow> Some (result, digit_count, c # cs)
      | Some d \<Rightarrow>
          if digit_count + 1 > max_digits then None
          else read_number_loop radix max_digits (result * radix + d) (digit_count + 1) cs)"

definition read_number :: "nat \<Rightarrow> nat \<Rightarrow> bool \<Rightarrow> nat \<Rightarrow> string \<Rightarrow> (nat \<times> string) option" where
  "read_number radix max_digits allow_zero_prefix type_max s =
     (let has_leading_zero = (case s of [] \<Rightarrow> False | c # _ \<Rightarrow> c = CHR ''0'')
      in case read_number_loop radix max_digits 0 0 s of
           None \<Rightarrow> None
         | Some (result, digit_count, rest) \<Rightarrow>
             if digit_count = 0 then None
             else if \<not> allow_zero_prefix \<and> has_leading_zero \<and> digit_count > 1 then None
             else if result \<le> type_max then Some (result, rest) else None)"

definition read_separator ::
  "char \<Rightarrow> nat \<Rightarrow> (string \<Rightarrow> ('a \<times> string) option) \<Rightarrow> string \<Rightarrow> ('a \<times> string) option" where
  "read_separator sep index inner s =
     (if index > 0 then
        (case s of [] \<Rightarrow> None | c # cs \<Rightarrow> if c = sep then inner cs else None)
      else inner s)"

fun read_ipv4_groups :: "nat \<Rightarrow> nat \<Rightarrow> string \<Rightarrow> (nat list \<times> string) option" where
  "read_ipv4_groups 0 i s = Some ([], s)"
| "read_ipv4_groups (Suc n) i s =
     (case read_separator CHR ''.'' i (read_number 10 3 False 255) s of
        None \<Rightarrow> None
      | Some (g, rest) \<Rightarrow>
          (case read_ipv4_groups n (i + 1) rest of
             None \<Rightarrow> None | Some (gs, rest') \<Rightarrow> Some (g # gs, rest')))"

definition read_ipv4_addr :: "string \<Rightarrow> (nat list \<times> string) option" where
  "read_ipv4_addr s = read_ipv4_groups 4 0 s"

text \<open>
  \<open>read_groups\<close>: at most \<open>limit\<close> segments, each preceded by a colon but the first; a trailing
  IPv4 address fills two segments and ends the list. The Boolean tells whether it was used.
\<close>

fun read_groups :: "nat \<Rightarrow> nat \<Rightarrow> string \<Rightarrow> nat list \<times> bool \<times> string" where
  "read_groups 0 i s = ([], False, s)"
| "read_groups (Suc n) i s =
     (let ipv4 = (if n > 0 then read_separator CHR '':'' i read_ipv4_addr s else None)
      in case ipv4 of
           Some ([a, b, c, d], rest) \<Rightarrow> ([a * 256 + b, c * 256 + d], True, rest)
         | _ \<Rightarrow>
             (case read_separator CHR '':'' i (read_number 16 4 True 65535) s of
                None \<Rightarrow> ([], False, s)
              | Some (g, rest) \<Rightarrow>
                  (case read_groups n (i + 1) rest of
                     (gs, used, rest') \<Rightarrow> (g # gs, used, rest'))))"

definition read_ipv6_addr :: "string \<Rightarrow> (nat list \<times> string) option" where
  "read_ipv6_addr s =
     (case read_groups 8 0 s of
        (head, head_ipv4, rest) \<Rightarrow>
          if length head = 8 then Some (head, rest)
          else if head_ipv4 then None
          else case rest of
            CHR '':'' # CHR '':'' # rest' \<Rightarrow>
              (let limit = 8 - (length head + 1)
               in case read_groups limit 0 rest' of
                    (tail, _, rest'') \<Rightarrow>
                      Some (head @ replicate (8 - length head - length tail) 0 @ tail, rest''))
          | _ \<Rightarrow> None)"

text \<open>The whole text must be consumed; an IPv4 prefix is not reconsidered as IPv6.\<close>

definition parse_ip_addr :: "string \<Rightarrow> ip_addr option" where
  "parse_ip_addr s =
     (case read_ipv4_addr s of
        Some (os, rest) \<Rightarrow> if rest = [] then Some (V4 os) else None
      | None \<Rightarrow>
          (case read_ipv6_addr s of
             Some (segs, rest) \<Rightarrow> if rest = [] then Some (V6 segs) else None
           | None \<Rightarrow> None))"

section \<open>Address classes\<close>

fun is_loopback :: "ip_addr \<Rightarrow> bool" where
  "is_loopback (V4 os) = (os ! 0 = 127)"
| "is_loopback (V6 segs) = (segs = [0, 0, 0, 0, 0, 0, 0, 1])"

fun is_unspecified :: "ip_addr \<Rightarrow> bool" where
  "is_unspecified (V4 os) = (os = [0, 0, 0, 0])"
| "is_unspecified (V6 segs) = (segs = [0, 0, 0, 0, 0, 0, 0, 0])"

fun is_multicast :: "ip_addr \<Rightarrow> bool" where
  "is_multicast (V4 os) = (224 \<le> os ! 0 \<and> os ! 0 \<le> 239)"
| "is_multicast (V6 segs) = (segs ! 0 AND 65280 = 65280)"

definition v4_is_private :: "nat list \<Rightarrow> bool" where
  "v4_is_private os =
     (os ! 0 = 10 \<or> (os ! 0 = 172 \<and> 16 \<le> os ! 1 \<and> os ! 1 \<le> 31) \<or> (os ! 0 = 192 \<and> os ! 1 = 168))"

definition v4_is_link_local :: "nat list \<Rightarrow> bool" where
  "v4_is_link_local os = (os ! 0 = 169 \<and> os ! 1 = 254)"

definition v4_is_broadcast :: "nat list \<Rightarrow> bool" where
  "v4_is_broadcast os = (os = [255, 255, 255, 255])"

section \<open>Lemmas\<close>

text \<open>
  A text that starts with neither a hexadecimal digit nor a colon is not an address. In
  particular a bracketed literal, the form in which the URL crate reports an IPv6 host, is not
  accepted by the address parser.
\<close>

lemma read_number_nondigit: "to_digit r c = None \<Longrightarrow> read_number r m z t (c # s) = None"
  by (simp add: read_number_def)

lemma read_ipv4_nondigit: "to_digit 10 c = None \<Longrightarrow> read_ipv4_addr (c # s) = None"
proof -
  assume c: "to_digit 10 c = None"
  have "read_ipv4_groups (Suc n) 0 (c # s) = None" for n
    using c by (simp add: read_separator_def read_number_nondigit)
  from this[of 3] show ?thesis by (simp add: read_ipv4_addr_def)
qed

lemma read_groups_nondigit:
  "to_digit 10 c = None \<Longrightarrow> to_digit 16 c = None \<Longrightarrow> read_groups (Suc n) 0 (c # s) = ([], False, c # s)"
  by (simp add: read_separator_def read_number_nondigit read_ipv4_nondigit)

lemma parse_ip_nondigit:
  assumes "to_digit 10 c = None" and "to_digit 16 c = None" and "c \<noteq> CHR '':''"
  shows "parse_ip_addr (c # s) = None"
proof -
  have "read_groups 8 0 (c # s) = ([], False, c # s)"
    using read_groups_nondigit[OF assms(1,2), of 7 s] by simp
  then have "read_ipv6_addr (c # s) = None"
    using assms(3) by (auto simp: read_ipv6_addr_def split: list.splits char.splits bool.splits)
  with assms(1) show ?thesis by (simp add: parse_ip_addr_def read_ipv4_nondigit)
qed

lemma parse_ip_bracket: "parse_ip_addr (CHR ''['' # s) = None"
  by (rule parse_ip_nondigit) (simp_all add: to_digit_def)

lemma length_read_ipv4_groups: "read_ipv4_groups n i s = Some (gs, rest) \<Longrightarrow> length gs = n"
  by (induction n i s arbitrary: gs rest rule: read_ipv4_groups.induct)
    (auto split: option.splits prod.splits)

lemma parse_ip_V4_length: "parse_ip_addr s = Some (V4 os) \<Longrightarrow> length os = 4"
  by (auto simp: parse_ip_addr_def read_ipv4_addr_def dest: length_read_ipv4_groups
      split: option.splits prod.splits if_splits)

end
