(* ===== verification/Endpoints.thy ===== *)
theory Endpoints
  imports Signing Ip_Addr
begin

text \<open>
  The address policies: canonical public pod URLs (\<open>pod_announcement.rs\<close>), discovery-peer
  endpoints (\<open>discovery_peer/endpoint.rs\<close>) and bootstrap base URLs (\<open>bootstrap/client.rs\<close>).
  Parsing and rewriting of a URL are the \<open>url\<close> crate's; the host classification is
  \<open>std::net\<close>'s (theory Ip_Addr).
\<close>

section \<open>Hosts\<close>

definition host_ip :: "string \<Rightarrow> ip_addr option" where
  "host_ip host = parse_ip_addr host"

definition host_is_loopback :: "string \<Rightarrow> bool" where
  "host_is_loopback host \<longleftrightarrow>
     eq_ignore_ascii_case host ''localhost'' \<or>
     (case host_ip host of None \<Rightarrow> False | Some address \<Rightarrow> is_loopback address)"

section \<open>Public pod URLs\<close>

text \<open>\<open>path.split('/')\<close> of \<open>/relay/pods/<origin>/<slug>\<close> has five segments, the first empty.\<close>

definition relay_public_pod_url_parts :: "ext \<Rightarrow> string \<Rightarrow> (uuid \<times> string) option" where
  "relay_public_pod_url_parts x path =
     (let segments = split_on CHR ''/'' (trim_end_slashes path)
      in if length segments \<noteq> 5 \<or> segments ! 0 \<noteq> [] \<or> segments ! 1 \<noteq> ''relay'' \<or>
            segments ! 2 \<noteq> ''pods'' \<or> segments ! 4 = []
         then None
         else case x_uuid_parse x (segments ! 3) of
                None \<Rightarrow> None
              | Some origin_node_id \<Rightarrow> Some (origin_node_id, segments ! 4))"

definition is_origin_shape :: "string \<Rightarrow> bool" where
  "is_origin_shape path =
     (let segments = split_on CHR ''/'' path
      in length segments = 4 \<and> segments ! 0 = [] \<and> segments ! 1 = ''federation'' \<and>
         segments ! 2 = ''pods'' \<and> segments ! 3 \<noteq> [])"

definition canonical_public_pod_url :: "ext \<Rightarrow> string \<Rightarrow> store_error + string" where
  "canonical_public_pod_url x value =
     (case x_url_parse x value of
        Inl e \<Rightarrow> Inl (Validation (''bad url: '' @ e))
      | Inr url \<Rightarrow>
          (case x_url_host x url of
             None \<Rightarrow> Inl (Validation ''public Pod URL must include a host'')
           | Some host \<Rightarrow>
               let is_loopback_http = (x_url_scheme x url = ''http'' \<and> host_is_loopback host);
                   path = trim_end_slashes (x_url_path x url)
               in if x_url_scheme x url \<noteq> ''https'' \<and> \<not> is_loopback_http
                  then Inl (Validation ''public Pod URL must use HTTPS except on loopback'')
                  else if \<not> is_origin_shape path \<and> relay_public_pod_url_parts x path = None
                  then Inl (Validation ''public Pod URL must use /federation/pods/<slug> or /relay/pods/<origin_node_id>/<slug>'')
                  else Inr (trim_end_slashes
                    (x_url_clear_fragment x (x_url_clear_query x (x_url_set_path x path url))))))"

definition validate_public_pod_url :: "ext \<Rightarrow> string \<Rightarrow> string \<Rightarrow> store_error + string" where
  "validate_public_pod_url x value pod_slug =
     (case canonical_public_pod_url x value of
        Inl e \<Rightarrow> Inl e
      | Inr canonical \<Rightarrow>
          (case x_url_parse x canonical of
             Inl e \<Rightarrow> Inl (Validation (''bad url: '' @ e))
           | Inr url \<Rightarrow>
               let path = trim_end_slashes (x_url_path x url);
                   matches_slug =
                     (case relay_public_pod_url_parts x path of
                        Some (_, relay_slug) \<Rightarrow> relay_slug = pod_slug
                      | None \<Rightarrow> path = ''/federation/pods/'' @ pod_slug)
               in if \<not> matches_slug
                  then Inl (Validation ''public Pod URL does not match the signed Pod slug'')
                  else Inr canonical))"

section \<open>Discovery-peer endpoints\<close>

datatype endpoint_policy_error = EP_Malformed | EP_Insecure | EP_Private

fun ep_as_rejection :: "endpoint_policy_error \<Rightarrow> discovery_peer_admission_rejection_reason" where
  "ep_as_rejection EP_Malformed = DR_Malformed"
| "ep_as_rejection EP_Insecure = DR_InsecureEndpoint"
| "ep_as_rejection EP_Private = DR_PrivateEndpoint"

text \<open>The masks 0xfe00, 0xfc00, 0xffc0 and 0xfe80, written in decimal.\<close>

fun is_private_or_reserved :: "ip_addr \<Rightarrow> bool" where
  "is_private_or_reserved (V4 v4) = (v4_is_private v4 \<or> v4_is_link_local v4 \<or> v4_is_broadcast v4)"
| "is_private_or_reserved (V6 segments) =
     (let unique_local = ((segments ! 0) AND 65024 = 64512);
          link_local = ((segments ! 0) AND 65472 = 65152)
      in unique_local \<or> link_local)"

definition normalize_discovery_peer_endpoint ::
  "ext \<Rightarrow> string \<Rightarrow> endpoint_policy_error + string" where
  "normalize_discovery_peer_endpoint x value =
     (let trimmed = trim value
      in if trimmed = [] then Inl EP_Malformed
         else case x_url_parse x trimmed of
           Inl _ \<Rightarrow> Inl EP_Malformed
         | Inr url \<Rightarrow>
             (case x_url_host x url of
                None \<Rightarrow> Inl EP_Malformed
              | Some host \<Rightarrow>
                  let is_loopback_http = (x_url_scheme x url = ''http'' \<and> host_is_loopback host)
                  in if x_url_scheme x url \<noteq> ''https'' \<and> \<not> is_loopback_http then Inl EP_Insecure
                     else if (case host_ip host of
                                None \<Rightarrow> False
                              | Some address \<Rightarrow>
                                  \<not> is_loopback address \<and>
                                  (is_private_or_reserved address \<or> is_unspecified address \<or>
                                   is_multicast address))
                     then Inl EP_Private
                     else let normalized = trim_end_slashes
                            (x_url_clear_fragment x (x_url_clear_query x (x_url_set_path x [] url)))
                          in if normalized = [] then Inl EP_Malformed else Inr normalized))"

section \<open>Bootstrap base URLs\<close>

definition normalize_bootstrap_base_url :: "ext \<Rightarrow> string \<Rightarrow> store_error + string" where
  "normalize_bootstrap_base_url x value =
     (let trimmed = trim value
      in if trimmed = [] then Inl (Validation ''Bootstrap base URL must not be empty'')
         else case x_url_parse x trimmed of
           Inl e \<Rightarrow> Inl (Validation (''bad Bootstrap base URL: '' @ e))
         | Inr url \<Rightarrow>
             (case x_url_host x url of
                None \<Rightarrow> Inl (Validation ''Bootstrap base URL must include a host'')
              | Some host \<Rightarrow>
                  let is_loopback_http = (x_url_scheme x url = ''http'' \<and> host_is_loopback host)
                  in if x_url_scheme x url \<noteq> ''https'' \<and> \<not> is_loopback_http
                     then Inl (Validation ''Bootstrap base URL must use HTTPS except on loopback'')
                     else Inr (trim_end_slashes
                       (x_url_clear_fragment x
                         (x_url_clear_query x (x_url_set_path x [] url))))))"

section \<open>Lemmas\<close>

lemma trim_end_slashes_last:
  "trim_end_slashes s = [] \<or> last (trim_end_slashes s) \<noteq> CHR ''/''"
proof (cases "dropWhile (\<lambda>d. d = CHR ''/'') (rev s)")
  case (Cons c cs)
  then have "c \<noteq> CHR ''/''"
    using hd_dropWhile[of "\<lambda>d. d = CHR ''/''" "rev s"] by (simp del: dropWhile_eq_Nil_conv)
  with Cons show ?thesis by (simp add: trim_end_slashes_def)
qed (simp add: trim_end_slashes_def)

text \<open>The addresses the policy means to keep off the network.\<close>

definition non_public_address :: "ip_addr \<Rightarrow> bool" where
  "non_public_address a \<longleftrightarrow>
     \<not> is_loopback a \<and> (is_private_or_reserved a \<or> is_unspecified a \<or> is_multicast a)"

lemma normalize_accepts:
  assumes n: "normalize_discovery_peer_endpoint x value = Inr e"
  obtains url host where "x_url_parse x (trim value) = Inr url" and "x_url_host x url = Some host"
    and "x_url_scheme x url = ''https'' \<or> (x_url_scheme x url = ''http'' \<and> host_is_loopback host)"
    and "\<And>a. host_ip host = Some a \<Longrightarrow> \<not> non_public_address a"
    and "e = trim_end_slashes
      (x_url_clear_fragment x (x_url_clear_query x (x_url_set_path x [] url)))"
    and "e \<noteq> []"
proof -
  note d = n[unfolded normalize_discovery_peer_endpoint_def Let_def]
  have t: "trim value \<noteq> []" using d by (rule contrapos_pn) simp
  obtain url where url: "x_url_parse x (trim value) = Inr url"
    using d t by (cases "x_url_parse x (trim value)") simp_all
  obtain host where host: "x_url_host x url = Some host"
    using d t url by (cases "x_url_host x url") simp_all
  note d' = d[unfolded url host if_not_P[OF t] sum.case option.case]
  have scheme: "x_url_scheme x url = ''https'' \<or> (x_url_scheme x url = ''http'' \<and> host_is_loopback host)"
    using d' by (rule contrapos_pp) (simp only: de_Morgan_disj if_True simp_thms sum.distinct)
  have addr: "\<not> non_public_address a" if "host_ip host = Some a" for a
    using d' scheme that by (auto simp: non_public_address_def split: if_splits)
  have "e = trim_end_slashes (x_url_clear_fragment x (x_url_clear_query x (x_url_set_path x [] url)))"
    and "e \<noteq> []"
    using d' scheme by (simp_all split: if_splits)
  with url host scheme addr that show ?thesis by blast
qed

lemma normalize_rejects_private:
  "x_url_parse x (trim value) = Inr url \<Longrightarrow> x_url_host x url = Some host \<Longrightarrow>
    host_ip host = Some a \<Longrightarrow> non_public_address a \<Longrightarrow>
    normalize_discovery_peer_endpoint x value \<noteq> Inr e"
  by (metis normalize_accepts option.inject sum.inject(2))

lemma validate_accepts_canonical:
  "validate_public_pod_url x value slug = Inr u \<Longrightarrow> canonical_public_pod_url x value = Inr u"
  by (auto simp: validate_public_pod_url_def Let_def split: sum.splits if_splits)

text \<open>Every refusal of a public pod URL is a validation error.\<close>

lemma canonical_error: "canonical_public_pod_url x value = Inl e \<Longrightarrow> \<exists>m. e = Validation m"
  unfolding canonical_public_pod_url_def Let_def by (auto split: sum.splits option.splits if_splits)

lemma validate_error: "validate_public_pod_url x value slug = Inl e \<Longrightarrow> \<exists>m. e = Validation m"
  unfolding validate_public_pod_url_def Let_def
  by (auto dest: canonical_error split: sum.splits if_splits)

end
