(* ===== verification/Peer_Serving.thy ===== *)
theory Peer_Serving
  imports Stream_Log Endpoints
begin

text \<open>
  The opt-in announcement serving of a discovery peer: \<open>discovery_peer/advertise.rs\<close>,
  \<open>discovery_peer/probe.rs\<close>, the serving part of \<open>discovery_peer/serve.rs\<close> and the bounds of
  \<open>discovery_peer/types.rs\<close>. The peer stream is a \<open>stream_log\<close> of its own, with its own
  sequence numbers.
\<close>

section \<open>Bounds\<close>

definition max_peer_advertisement_payload_bytes :: nat where
  "max_peer_advertisement_payload_bytes = 8192"

definition default_peer_stream_page_limit :: nat where
  "default_peer_stream_page_limit = 50"

definition max_peer_stream_page_limit :: nat where
  "max_peer_stream_page_limit = 100"

definition default_peer_sample_limit :: nat where
  "default_peer_sample_limit = 8"

definition max_peer_sample_limit :: nat where
  "max_peer_sample_limit = 16"

definition max_peer_stream_entries :: nat where
  "max_peer_stream_entries = 8192"

section \<open>Service state and the peer stream\<close>

definition service_of :: "store \<Rightarrow> discovery_peer_service_state" where
  "service_of st =
     (case st_discovery_peer_service st of
        None \<Rightarrow> discovery_peer_service_default | Some service \<Rightarrow> service)"

definition ensure_discovery_peer_service :: "store \<Rightarrow> store \<times> discovery_peer_service_state" where
  "ensure_discovery_peer_service st =
     (st\<lparr>st_discovery_peer_service := Some (service_of st)\<rparr>, service_of st)"

definition peer_service_is_enabled :: "store \<Rightarrow> bool" where
  "peer_service_is_enabled st =
     (case st_discovery_peer_service st of None \<Rightarrow> False | Some service \<Rightarrow> ds_enabled service)"

definition prune_peer_stream_entries :: "store \<Rightarrow> store" where
  "prune_peer_stream_entries st =
     st\<lparr>st_discovery_peer_stream_entries :=
          prune_oldest max_peer_stream_entries (st_discovery_peer_stream_entries st)\<rparr>"

definition peer_stream_row :: "pod_announcement \<times> time \<Rightarrow> nat \<Rightarrow> announcement_stream_entry" where
  "peer_stream_row an sequence =
     \<lparr> se_sequence = sequence,
       se_recorded_at = snd an,
       se_kind = SE_Admitted,
       se_origin_node_id = pa_origin_node_id (fst an),
       se_pod_slug = pa_pod_slug (fst an),
       se_payload = AnnouncementPayload (fst an) \<rparr>"

definition append_peer_stream_entry :: "pod_announcement \<times> time \<Rightarrow> store \<Rightarrow> store \<times> nat" where
  "append_peer_stream_entry an st =
     (let (st1, service) = ensure_discovery_peer_service st;
          sequence = ds_next_stream_sequence service;
          st2 = st1\<lparr>st_discovery_peer_service :=
                  Some (service\<lparr>ds_next_stream_sequence := sat_add sequence 1\<rparr>)\<rparr>;
          st3 = st2\<lparr>st_discovery_peer_stream_entries :=
                  om_put sequence (peer_stream_row an sequence)
                    (st_discovery_peer_stream_entries st2)\<rparr>
      in (prune_peer_stream_entries st3, sequence))"

definition project_peer_serving_announcement ::
  "ext \<Rightarrow> pod_announcement \<Rightarrow> time \<Rightarrow> store
    \<Rightarrow> store \<times> (discovery_peer_admission_rejection_reason + nat)" where
  "project_peer_serving_announcement x a now st =
     (if \<not> peer_service_is_enabled st then (st, Inl DR_PeerServiceDisabled)
      else if pa_verify x a \<noteq> Inr True then (st, Inl DR_InvalidSignature)
      else if \<not> pa_lease_is_active a now then (st, Inl DR_StaleLease)
      else case append_peer_stream_entry (a, now) st of (st', sequence) \<Rightarrow> (st', Inr sequence))"

definition maybe_project_peer_serving_announcement ::
  "ext \<Rightarrow> pod_announcement \<Rightarrow> time \<Rightarrow> store \<Rightarrow> store" where
  "maybe_project_peer_serving_announcement x a now st =
     (if \<not> peer_service_is_enabled st then st
      else fst (project_peer_serving_announcement x a now st))"

definition project_known_announcements_into_peer_stream ::
  "ext \<Rightarrow> time \<Rightarrow> store \<Rightarrow> store" where
  "project_known_announcements_into_peer_stream x now st =
     (let candidates =
            filter (\<lambda>a. pa_lease_is_active a now \<and> pa_verify x a = Inr True)
              (map ka_announcement
                (values_in_order (x_iter_pods x) (st_known_pod_announcements st)))
      in fold (\<lambda>a st. fst (project_peer_serving_announcement x a now st)) candidates st)"

section \<open>Probing (discovery_peer/probe.rs)\<close>

datatype discovery_peer_probe_error = PP_Unreachable

type_synonym discovery_peer_probe =
  "string \<Rightarrow> discovery_peer_probe_error + discovery_peer_identity_view"

definition peer_identity_view_for_node :: "node_identity \<Rightarrow> discovery_peer_identity_view" where
  "peer_identity_view_for_node node =
     \<lparr> dv_node_id = nd_id node, dv_public_key = nd_public_key node,
       dv_protocol_version = current_protocol_version \<rparr>"

definition peer_identity_view_for_advertisement ::
  "discovery_peer_advertisement \<Rightarrow> discovery_peer_identity_view" where
  "peer_identity_view_for_advertisement ad =
     \<lparr> dv_node_id = ad_node_id ad, dv_public_key = ni_public_key (ad_signer ad),
       dv_protocol_version = ad_protocol_version ad \<rparr>"

definition unreachable_discovery_peer_probe :: discovery_peer_probe where
  "unreachable_discovery_peer_probe endpoint = Inl PP_Unreachable"

definition fixed_discovery_peer_probe ::
  "discovery_peer_identity_view option \<Rightarrow> discovery_peer_probe_error option
    \<Rightarrow> discovery_peer_probe" where
  "fixed_discovery_peer_probe identity error endpoint =
     (case error of
        Some e \<Rightarrow> Inl e
      | None \<Rightarrow> (case identity of None \<Rightarrow> Inl PP_Unreachable | Some v \<Rightarrow> Inr v))"

section \<open>Enabling, renewing, disabling\<close>

definition ensure_identity_matches_node ::
  "node_identity \<Rightarrow> discovery_peer_identity_view
    \<Rightarrow> discovery_peer_admission_rejection_reason + unit" where
  "ensure_identity_matches_node node view =
     (if dv_node_id view \<noteq> nd_id node \<or> dv_public_key view \<noteq> nd_public_key node \<or>
         dv_protocol_version view \<noteq> current_protocol_version
      then Inl DR_IdentityMismatch else Inr ())"

definition node_info_of :: "node_identity \<Rightarrow> node_info" where
  "node_info_of node =
     \<lparr> ni_node_id = nd_id node, ni_display_name = nd_display_name node,
       ni_public_key = nd_public_key node,
       ni_supported_protocol_version = current_protocol_version \<rparr>"

definition build_signed_advertisement ::
  "ext \<Rightarrow> uuid \<Rightarrow> node_identity \<Rightarrow> string \<Rightarrow> time
    \<Rightarrow> discovery_peer_admission_rejection_reason + discovery_peer_advertisement" where
  "build_signed_advertisement x new_id node public_endpoint now =
     (let unsigned =
            \<lparr> ad_id = new_id, ad_node_id = nd_id node, ad_signer = node_info_of node,
              ad_public_endpoint = public_endpoint,
              ad_protocol_version = current_protocol_version,
              ad_capability = AnnouncementServing,
              ad_issued_at = now,
              ad_expires_at = now + peer_advertisement_lease_duration,
              ad_signature = [] \<rparr>
      in case sign_discovery_peer_advertisement x node unsigned of
           Inl _ \<Rightarrow> Inl DR_InvalidIdentity | Inr ad \<Rightarrow> Inr ad)"

definition enable_discovery_peer_service ::
  "ext \<Rightarrow> uuid \<Rightarrow> node_identity \<Rightarrow> string \<Rightarrow> discovery_peer_probe \<Rightarrow> time \<Rightarrow> store
    \<Rightarrow> store \<times> (discovery_peer_admission_rejection_reason + discovery_peer_advertisement)" where
  "enable_discovery_peer_service x new_id node public_endpoint probe now st =
     (case normalize_discovery_peer_endpoint x public_endpoint of
        Inl e \<Rightarrow> (st, Inl (ep_as_rejection e))
      | Inr endpoint \<Rightarrow>
          if trim (nd_public_key node) = [] then (st, Inl DR_InvalidIdentity)
          else case probe endpoint of
            Inl PP_Unreachable \<Rightarrow> (st, Inl DR_UnreachableEndpoint)
          | Inr view \<Rightarrow>
              (case ensure_identity_matches_node node view of
                 Inl e \<Rightarrow> (st, Inl e)
               | Inr _ \<Rightarrow>
                   (case build_signed_advertisement x new_id node endpoint now of
                      Inl e \<Rightarrow> (st, Inl e)
                    | Inr advertisement \<Rightarrow>
                        let (st1, service) = ensure_discovery_peer_service st;
                            st2 = st1\<lparr>st_discovery_peer_service :=
                                    Some (service\<lparr>ds_enabled := True,
                                      ds_public_endpoint := Some endpoint,
                                      ds_current_advertisement := Some advertisement,
                                      ds_verified_at := Some now\<rparr>)\<rparr>
                        in (project_known_announcements_into_peer_stream x now st2,
                            Inr advertisement))))"

definition renew_discovery_peer_advertisement ::
  "ext \<Rightarrow> uuid \<Rightarrow> node_identity \<Rightarrow> discovery_peer_probe \<Rightarrow> time \<Rightarrow> store
    \<Rightarrow> store \<times> (discovery_peer_admission_rejection_reason + discovery_peer_advertisement)" where
  "renew_discovery_peer_advertisement x new_id node probe now st =
     (if \<not> peer_service_is_enabled st then (st, Inl DR_PeerServiceDisabled)
      else case Option.bind (st_discovery_peer_service st) ds_public_endpoint of
        None \<Rightarrow> (st, Inl DR_VerificationFailed)
      | Some endpoint \<Rightarrow>
          (case probe endpoint of
             Inl PP_Unreachable \<Rightarrow> (st, Inl DR_UnreachableEndpoint)
           | Inr view \<Rightarrow>
               (case ensure_identity_matches_node node view of
                  Inl e \<Rightarrow> (st, Inl e)
                | Inr _ \<Rightarrow>
                    (case build_signed_advertisement x new_id node endpoint now of
                       Inl e \<Rightarrow> (st, Inl e)
                     | Inr advertisement \<Rightarrow>
                         let (st1, service) = ensure_discovery_peer_service st
                         in (st1\<lparr>st_discovery_peer_service :=
                               Some (service\<lparr>ds_current_advertisement := Some advertisement,
                                 ds_verified_at := Some now\<rparr>)\<rparr>,
                             Inr advertisement)))))"

definition disable_discovery_peer_service :: "store \<Rightarrow> store" where
  "disable_discovery_peer_service st =
     (let (st1, service) = ensure_discovery_peer_service st
      in st1\<lparr>st_discovery_peer_service :=
           Some (service\<lparr>ds_enabled := False, ds_current_advertisement := None\<rparr>)\<rparr>)"

section \<open>The peer stream is a sequence log\<close>

lemma service_of_ensured [simp]:
  "service_of (st\<lparr>st_discovery_peer_service := Some service\<rparr>) = service"
  by (simp add: service_of_def)

lemma service_of_cong [simp]:
  "service_of (st\<lparr>st_discovery_peer_stream_entries := es\<rparr>) = service_of st"
  by (simp add: service_of_def)

interpretation peer_log: stream_log
  "\<lambda>st. ds_next_stream_sequence (service_of st)" st_discovery_peer_stream_entries
  append_peer_stream_entry peer_stream_row max_peer_stream_entries
  by unfold_locales
    (simp_all add: append_peer_stream_entry_def ensure_discovery_peer_service_def Let_def
      prune_peer_stream_entries_def peer_stream_row_def max_peer_stream_entries_def)

abbreviation peer_log_ok :: "store \<Rightarrow> bool" where
  "peer_log_ok st \<equiv>
     log_ok max_peer_stream_entries (ds_next_stream_sequence (service_of st))
       (st_discovery_peer_stream_entries st)"

section \<open>What projecting writes\<close>

text \<open>Projection writes the service counter and the peer stream and nothing else.\<close>

definition peer_stream_frame :: "store \<Rightarrow> store \<Rightarrow> bool" where
  "peer_stream_frame st st' \<longleftrightarrow>
     st' = st\<lparr>st_discovery_peer_service := st_discovery_peer_service st',
              st_discovery_peer_stream_entries := st_discovery_peer_stream_entries st'\<rparr>"

lemma peer_stream_frame_refl: "peer_stream_frame st st"
  by (simp add: peer_stream_frame_def)

lemma append_peer_frame: "peer_stream_frame st (fst (append_peer_stream_entry an st))"
  by (simp add: peer_stream_frame_def append_peer_stream_entry_def prune_peer_stream_entries_def
      ensure_discovery_peer_service_def Let_def)

lemma project_peer_frame: "peer_stream_frame st (fst (project_peer_serving_announcement x a now st))"
  using append_peer_frame[of st "(a, now)"] peer_stream_frame_refl[of st]
  by (auto simp: project_peer_serving_announcement_def split: prod.splits)

lemma maybe_project_frame: "peer_stream_frame st (maybe_project_peer_serving_announcement x a now st)"
  by (simp add: maybe_project_peer_serving_announcement_def project_peer_frame peer_stream_frame_refl)

lemma maybe_project_fields [simp]:
  "st_known_pod_announcements (maybe_project_peer_serving_announcement x a now st) =
    st_known_pod_announcements st"
  "st_known_pod_withdrawals (maybe_project_peer_serving_announcement x a now st) =
    st_known_pod_withdrawals st"
  "st_announcement_stream_entries (maybe_project_peer_serving_announcement x a now st) =
    st_announcement_stream_entries st"
  "st_bootstrap_rejection_audits (maybe_project_peer_serving_announcement x a now st) =
    st_bootstrap_rejection_audits st"
  "st_bootstrap_runtime (maybe_project_peer_serving_announcement x a now st) =
    st_bootstrap_runtime st"
  "st_known_discovery_peer_advertisements (maybe_project_peer_serving_announcement x a now st) =
    st_known_discovery_peer_advertisements st"
  "st_bootstrap_endpoints (maybe_project_peer_serving_announcement x a now st) =
    st_bootstrap_endpoints st"
  "st_bootstrap_sync_states (maybe_project_peer_serving_announcement x a now st) =
    st_bootstrap_sync_states st"
  "st_outbound_discovery_peers (maybe_project_peer_serving_announcement x a now st) =
    st_outbound_discovery_peers st"
  "st_discovery_peer_sync_states (maybe_project_peer_serving_announcement x a now st) =
    st_discovery_peer_sync_states st"
  "st_discovery_peer_gossip_config (maybe_project_peer_serving_announcement x a now st) =
    st_discovery_peer_gossip_config st"
  by (subst maybe_project_frame[unfolded peer_stream_frame_def]; simp)+

lemma maybe_project_disabled [simp]:
  "\<not> peer_service_is_enabled st \<Longrightarrow> maybe_project_peer_serving_announcement x a now st = st"
  by (simp add: maybe_project_peer_serving_announcement_def)

lemma maybe_project_enabled:
  "peer_service_is_enabled st \<Longrightarrow> pa_verify x a = Inr True \<Longrightarrow> pa_lease_is_active a now \<Longrightarrow>
    maybe_project_peer_serving_announcement x a now st = fst (append_peer_stream_entry (a, now) st)"
  by (simp add: maybe_project_peer_serving_announcement_def project_peer_serving_announcement_def
      split: prod.splits)

lemma project_keeps_log:
  "peer_log_ok st \<Longrightarrow> ds_next_stream_sequence (service_of st) < u64_max \<Longrightarrow>
    peer_log_ok (fst (project_peer_serving_announcement x a now st))"
  using peer_log.append_keeps[of st "(a, now)"]
  by (auto simp: project_peer_serving_announcement_def split: prod.splits)

lemma maybe_project_keeps_log:
  "peer_log_ok st \<Longrightarrow> ds_next_stream_sequence (service_of st) < u64_max \<Longrightarrow>
    peer_log_ok (maybe_project_peer_serving_announcement x a now st)"
  by (simp add: maybe_project_peer_serving_announcement_def project_keeps_log)

text \<open>A disabled service keeps its counter: enabling again resumes the numbering.\<close>

lemma disable_keeps_counter [simp]:
  "ds_next_stream_sequence (service_of (disable_discovery_peer_service st)) =
    ds_next_stream_sequence (service_of st)"
  by (simp add: disable_discovery_peer_service_def ensure_discovery_peer_service_def Let_def)

lemma disabled_is_disabled [simp]: "\<not> peer_service_is_enabled (disable_discovery_peer_service st)"
  by (simp add: disable_discovery_peer_service_def ensure_discovery_peer_service_def
      peer_service_is_enabled_def Let_def)

end
