(* ===== verification/Pod_Retention.thy ===== *)
theory Pod_Retention
  imports Peer_Serving
begin

text \<open>
  \<open>pod_announcement.rs\<close>: delivery provenance, the preference between two announcements of the
  same pod, discovery eligibility, issuing and refreshing an origin's own announcements, and
  the two operations every verified artifact goes through, \<open>retain_verified_pod_announcement\<close>
  and \<open>retain_verified_pod_withdrawal\<close>.
\<close>

section \<open>Delivery provenance\<close>

record delivery_provenance =
  dp_peer_id :: "uuid option"
  dp_index_url :: "string option"
  dp_bootstrap_url :: "string option"
  dp_discovery_peer_endpoint :: "string option"

definition dp_LOCAL :: delivery_provenance where
  "dp_LOCAL = \<lparr> dp_peer_id = None, dp_index_url = None, dp_bootstrap_url = None,
                dp_discovery_peer_endpoint = None \<rparr>"

definition dp_peer :: "uuid \<Rightarrow> delivery_provenance" where
  "dp_peer peer = \<lparr> dp_peer_id = Some peer, dp_index_url = None, dp_bootstrap_url = None,
                    dp_discovery_peer_endpoint = None \<rparr>"

definition dp_index :: "string \<Rightarrow> delivery_provenance" where
  "dp_index url = \<lparr> dp_peer_id = None, dp_index_url = Some url, dp_bootstrap_url = None,
                    dp_discovery_peer_endpoint = None \<rparr>"

definition dp_bootstrap :: "string \<Rightarrow> delivery_provenance" where
  "dp_bootstrap url = \<lparr> dp_peer_id = None, dp_index_url = None, dp_bootstrap_url = Some url,
                        dp_discovery_peer_endpoint = None \<rparr>"

definition dp_discovery_peer :: "string \<Rightarrow> delivery_provenance" where
  "dp_discovery_peer endpoint =
     \<lparr> dp_peer_id = None, dp_index_url = None, dp_bootstrap_url = None,
       dp_discovery_peer_endpoint = Some endpoint \<rparr>"

definition retains_bootstrap_url :: "store \<Rightarrow> string \<Rightarrow> bool" where
  "retains_bootstrap_url st base_url \<longleftrightarrow>
     list_ex (\<lambda>endpoint. be_enabled endpoint \<and> be_base_url endpoint = base_url)
       (om_vals (st_bootstrap_endpoints st))"

definition retains_discovery_peer_endpoint :: "store \<Rightarrow> string \<Rightarrow> bool" where
  "retains_discovery_peer_endpoint st endpoint \<longleftrightarrow>
     list_ex (\<lambda>peer. op_public_endpoint peer = endpoint \<and>
         (case om_get (st_discovery_peer_sync_states st) (op_node_id peer) of
            None \<Rightarrow> True | Some state \<Rightarrow> ps_health state \<noteq> Evicted))
       (om_vals (st_outbound_discovery_peers st))"

definition announcement_delivery_is_active ::
  "store \<Rightarrow> known_pod_announcement \<Rightarrow> trust_policy option \<Rightarrow> bool" where
  "announcement_delivery_is_active st known policy =
     (let has_peer = (ka_received_from_peer_id known \<noteq> None);
          has_index = (ka_received_from_index_urls known \<noteq> []);
          has_bootstrap = (ka_received_from_bootstrap_urls known \<noteq> []);
          has_discovery_peer = (ka_received_from_discovery_peer_endpoints known \<noteq> [])
      in if \<not> has_peer \<and> \<not> has_index \<and> \<not> has_bootstrap \<and> \<not> has_discovery_peer then True
         else if has_peer then True
         else if list_ex (\<lambda>url. case policy of None \<Rightarrow> False | Some p \<Rightarrow> retains_index_url p url)
                   (ka_received_from_index_urls known) then True
         else if list_ex (retains_bootstrap_url st) (ka_received_from_bootstrap_urls known) then True
         else list_ex (retains_discovery_peer_endpoint st)
                (ka_received_from_discovery_peer_endpoints known))"

section \<open>Preference and eligibility\<close>

datatype ordering = Less | Equal | Greater

definition cmp :: "'a::linorder \<Rightarrow> 'a \<Rightarrow> ordering" where
  "cmp a b = (if a < b then Less else if a = b then Equal else Greater)"

fun then_with :: "ordering \<Rightarrow> ordering \<Rightarrow> ordering" where
  "then_with Equal next = next"
| "then_with Less next = Less"
| "then_with Greater next = Greater"

definition compare_announcement_preference ::
  "pod_announcement \<Rightarrow> pod_announcement \<Rightarrow> time \<Rightarrow> ordering" where
  "compare_announcement_preference left right now =
     (case (pa_lease_is_active left now, pa_lease_is_active right now) of
        (True, False) \<Rightarrow> Greater
      | (False, True) \<Rightarrow> Less
      | _ \<Rightarrow> then_with (then_with (cmp (pa_announced_at left) (pa_announced_at right))
               (cmp (pa_package_version left) (pa_package_version right)))
               (cmp (pa_id left) (pa_id right)))"

definition announcement_is_discovery_eligible :: "store \<Rightarrow> pod_announcement \<Rightarrow> time \<Rightarrow> bool" where
  "announcement_is_discovery_eligible st a now =
     (if \<not> pa_lease_is_active a now then False
      else case om_get (st_known_pod_withdrawals st) (pa_key a) of
             None \<Rightarrow> True
           | Some known \<Rightarrow> \<not> pw_withdrawn_at (kw_withdrawal known) \<ge> pa_announced_at a)"

section \<open>Retaining an announcement\<close>

definition merged_urls :: "string option \<Rightarrow> string list \<Rightarrow> string list" where
  "merged_urls new urls = (case new of None \<Rightarrow> urls | Some url \<Rightarrow> os_insert url urls)"

text \<open>
  The provenance of the row that is written: merged with the stored row's when it is the same
  signed announcement, the delivery's own otherwise.
\<close>

definition known_after_delivery ::
  "known_pod_announcement option \<Rightarrow> pod_announcement \<Rightarrow> delivery_provenance \<Rightarrow> time
    \<Rightarrow> known_pod_announcement" where
  "known_after_delivery existing a provenance now =
     (let (peer_id, index_urls, bootstrap_urls, endpoints) =
            (case existing of
               Some e \<Rightarrow>
                 if pa_id (ka_announcement e) = pa_id a
                 then (case dp_peer_id provenance of
                         Some p \<Rightarrow> Some p | None \<Rightarrow> ka_received_from_peer_id e,
                       ka_received_from_index_urls e,
                       ka_received_from_bootstrap_urls e,
                       ka_received_from_discovery_peer_endpoints e)
                 else (dp_peer_id provenance, [], [], [])
             | None \<Rightarrow> (dp_peer_id provenance, [], [], []))
      in \<lparr> ka_announcement = a,
           ka_received_from_peer_id = peer_id,
           ka_received_from_index_urls = merged_urls (dp_index_url provenance) index_urls,
           ka_received_from_bootstrap_urls =
             merged_urls (dp_bootstrap_url provenance) bootstrap_urls,
           ka_received_from_discovery_peer_endpoints =
             merged_urls (dp_discovery_peer_endpoint provenance) endpoints,
           ka_received_at = now \<rparr>)"

definition retain_verified_pod_announcement ::
  "ext \<Rightarrow> pod_announcement \<Rightarrow> delivery_provenance \<Rightarrow> time \<Rightarrow> store
    \<Rightarrow> store \<times> (store_error + known_pod_announcement)" where
  "retain_verified_pod_announcement x a provenance now st =
     (case validate_public_pod_url x (pa_public_pod_url a) (pa_pod_slug a) of
        Inl e \<Rightarrow> (st, Inl e)
      | Inr _ \<Rightarrow>
          if pa_verify x a \<noteq> Inr True then (st, Inl InvalidSignature)
          else if \<not> pa_lease_is_active a now then (st, Inl AnnouncementExpired)
          else
            let key = pa_key a;
                withdrawn = (case om_get (st_known_pod_withdrawals st) key of
                    None \<Rightarrow> False
                  | Some kw \<Rightarrow> pw_withdrawn_at (kw_withdrawal kw) \<ge> pa_announced_at a)
            in if withdrawn then (st, Inl AnnouncementWithdrawn)
               else
                 let st1 = st\<lparr>st_known_pod_withdrawals :=
                             om_del key (st_known_pod_withdrawals st)\<rparr>;
                     existing = om_get (st_known_pod_announcements st1) key
                 in if (case existing of
                          None \<Rightarrow> False
                        | Some e \<Rightarrow>
                            compare_announcement_preference (ka_announcement e) a now = Greater)
                    then (st1, Inl AnnouncementStale)
                    else
                      let known = known_after_delivery existing a provenance now;
                          st2 = st1\<lparr>st_known_pod_announcements :=
                                  om_put key known (st_known_pod_announcements st1)\<rparr>
                      in (maybe_project_peer_serving_announcement x (ka_announcement known) now st2,
                          Inr known))"

section \<open>Retaining a withdrawal\<close>

text \<open>
  The second half of the operation, reached unless the stored withdrawal is newer or the same:
  a later announcement the withdrawal does not cover makes it stale, an announcement not newer
  than the withdrawal leaves the store, and the withdrawal is written.
\<close>

definition retain_new_withdrawal ::
  "pod_key \<Rightarrow> known_pod_announcement option \<Rightarrow> pod_withdrawal \<Rightarrow> uuid option \<Rightarrow> time \<Rightarrow> store
    \<Rightarrow> store \<times> (store_error + known_pod_withdrawal)" where
  "retain_new_withdrawal key announced w received_from_peer_id now st =
     (if (case (pw_covers_announcement_id w, announced) of
            (Some covers, Some known) \<Rightarrow>
              pa_id (ka_announcement known) \<noteq> covers \<and>
              pa_announced_at (ka_announcement known) > pw_withdrawn_at w
          | _ \<Rightarrow> False)
      then (st, Inl WithdrawalStale)
      else
        let st1 =
              (case announced of
                 None \<Rightarrow> st
               | Some known \<Rightarrow>
                   if pa_announced_at (ka_announcement known) \<le> pw_withdrawn_at w
                   then st\<lparr>st_known_pod_announcements :=
                          om_del key (st_known_pod_announcements st)\<rparr>
                   else st);
            known = \<lparr> kw_withdrawal = w, kw_received_from_peer_id = received_from_peer_id,
                      kw_received_at = now \<rparr>
        in (st1\<lparr>st_known_pod_withdrawals := om_put key known (st_known_pod_withdrawals st1)\<rparr>,
            Inr known))"

definition retain_verified_pod_withdrawal ::
  "ext \<Rightarrow> pod_withdrawal \<Rightarrow> uuid option \<Rightarrow> time \<Rightarrow> store
    \<Rightarrow> store \<times> (store_error + known_pod_withdrawal)" where
  "retain_verified_pod_withdrawal x w received_from_peer_id now st =
     (if pw_verify x w \<noteq> Inr True then (st, Inl InvalidSignature)
      else if pw_origin_node_id w \<noteq> ni_node_id (pw_signer w)
        then (st, Inl (Validation ''Pod Withdrawal origin does not match signer''))
      else
        let key = pw_key w;
            existing = om_get (st_known_pod_withdrawals st) key;
            announced = om_get (st_known_pod_announcements st) key
        in case existing of
             Some e \<Rightarrow>
               if pw_withdrawn_at (kw_withdrawal e) > pw_withdrawn_at w
               then (st, Inl WithdrawalStale)
               else if pw_id (kw_withdrawal e) = pw_id w \<and> kw_withdrawal e = w
               then (st, Inr e)
               else retain_new_withdrawal key announced w received_from_peer_id now st
           | None \<Rightarrow> retain_new_withdrawal key announced w received_from_peer_id now st)"

section \<open>Issuing and refreshing an origin's own artifacts\<close>

definition package_version_error_to_string :: "int \<Rightarrow> string" where
  "package_version_error_to_string value =
     ''Package Version must be positive, got '' @
     (if value < 0 then CHR ''-'' # nat_dec (nat (- value)) else nat_dec (nat value))"

definition build_signed_pod_announcement ::
  "ext \<Rightarrow> uuid \<Rightarrow> node_identity \<Rightarrow> pod \<Rightarrow> string \<Rightarrow> time \<Rightarrow> store
    \<Rightarrow> store_error + pod_announcement" where
  "build_signed_pod_announcement x new_id node pod public_pod_url now st =
     (case validate_public_pod_url x public_pod_url (pd_slug pod) of
        Inl e \<Rightarrow> Inl e
      | Inr url \<Rightarrow>
          (case om_get (st_pod_skill_packs st) (pd_id pod) of
             None \<Rightarrow> Inl (NotFound ''Pod Package'')
           | Some package \<Rightarrow>
               (case package_version_new (pk_version package) of
                  Inl v \<Rightarrow> Inl (Validation (package_version_error_to_string v))
                | Inr version \<Rightarrow>
                    (case sign_pod_announcement x node
                       \<lparr> pa_id = new_id,
                         pa_origin_node_id = nd_id node,
                         pa_signer = node_info_of node,
                         pa_pod_slug = pd_slug pod,
                         pa_pod_name = pd_name pod,
                         pa_subject = pd_description pod,
                         pa_public_pod_url = url,
                         pa_package_version = version,
                         pa_latest_event_hash = latest_federated_event_hash st (pd_slug pod),
                         pa_announced_at = now,
                         pa_expires_at = now + announcement_lease_duration,
                         pa_signature = [] \<rparr> of
                       Inl e \<Rightarrow> Inl (Validation (signing_error_to_string e))
                     | Inr a \<Rightarrow> Inr a))))"

definition issue_and_retain_origin_pod_announcement ::
  "ext \<Rightarrow> uuid \<Rightarrow> node_identity \<Rightarrow> pod \<Rightarrow> string \<Rightarrow> time \<Rightarrow> store
    \<Rightarrow> store \<times> (store_error + pod_announcement)" where
  "issue_and_retain_origin_pod_announcement x new_id node pod public_pod_url now st =
     (case build_signed_pod_announcement x new_id node pod public_pod_url now st of
        Inl e \<Rightarrow> (st, Inl e)
      | Inr a \<Rightarrow>
          (case retain_verified_pod_announcement x a dp_LOCAL now st of
             (st', Inl e) \<Rightarrow> (st', Inl e)
           | (st', Inr _) \<Rightarrow> (st', Inr a)))"

definition issue_origin_pod_withdrawal ::
  "ext \<Rightarrow> uuid \<Rightarrow> node_identity \<Rightarrow> string \<Rightarrow> string option \<Rightarrow> time \<Rightarrow> store
    \<Rightarrow> store \<times> (store_error + pod_withdrawal)" where
  "issue_origin_pod_withdrawal x new_id node pod_slug public_pod_url now st =
     (let known = om_get (st_known_pod_announcements st) (nd_id node, pod_slug);
          covers = map_option (\<lambda>k. pa_id (ka_announcement k)) known;
          url = (case public_pod_url of
                   Some u \<Rightarrow>
                     (case validate_public_pod_url x u pod_slug of
                        Inl e \<Rightarrow> Inl e | Inr v \<Rightarrow> Inr (Some v))
                 | None \<Rightarrow> Inr (map_option (\<lambda>k. pa_public_pod_url (ka_announcement k)) known))
      in case url of
           Inl e \<Rightarrow> (st, Inl e)
         | Inr public_url \<Rightarrow>
             (case sign_pod_withdrawal x node
                \<lparr> pw_id = new_id,
                  pw_origin_node_id = nd_id node,
                  pw_signer = node_info_of node,
                  pw_pod_slug = pod_slug,
                  pw_public_pod_url = public_url,
                  pw_covers_announcement_id = covers,
                  pw_withdrawn_at = now,
                  pw_signature = [] \<rparr> of
                Inl e \<Rightarrow> (st, Inl (Validation (signing_error_to_string e)))
              | Inr w \<Rightarrow>
                  (case retain_verified_pod_withdrawal x w None now st of
                     (st', Inl e) \<Rightarrow> (st', Inl e)
                   | (st', Inr _) \<Rightarrow> (st', Inr w))))"

text \<open>The text of an unknown pod's identity is \<open>Uuid\<close>'s, so the error carries the identity.\<close>

definition refresh_public_pod_announcement_if_needed ::
  "ext \<Rightarrow> (uuid \<Rightarrow> string) \<Rightarrow> uuid \<Rightarrow> uuid \<Rightarrow> time \<Rightarrow> store
    \<Rightarrow> store \<times> (store_error + pod_announcement option)" where
  "refresh_public_pod_announcement_if_needed x uuid_text new_id pod_id now st =
     (case om_get (st_pods st) pod_id of
        None \<Rightarrow> (st, Inl (NotFound (''pod '' @ uuid_text pod_id)))
      | Some pod \<Rightarrow>
          if pd_visibility pod \<noteq> Public then (st, Inr None)
          else case node_for_tenant x st (pd_tenant_id pod) of
            Inl e \<Rightarrow> (st, Inl e)
          | Inr node \<Rightarrow>
              if (case pd_origin_node_id pod of None \<Rightarrow> False | Some origin \<Rightarrow> origin \<noteq> nd_id node)
              then (st, Inr None)
              else
                let key = (nd_id node, pd_slug pod)
                in case om_get (st_known_pod_announcements st) key of
                     None \<Rightarrow> (st, Inr None)
                   | Some known \<Rightarrow>
                       if (case om_get (st_known_pod_withdrawals st) key of
                             None \<Rightarrow> False
                           | Some kw \<Rightarrow> pw_withdrawn_at (kw_withdrawal kw)
                                        \<ge> pa_announced_at (ka_announcement known))
                       then (st, Inr None)
                       else case om_get (st_pod_skill_packs st) (pd_id pod) of
                         None \<Rightarrow> (st, Inl (NotFound ''Pod Package''))
                       | Some package \<Rightarrow>
                           (case package_version_new (pk_version package) of
                              Inl v \<Rightarrow> (st, Inl (Validation (package_version_error_to_string v)))
                            | Inr version \<Rightarrow>
                                let current = ka_announcement known
                                in if pa_pod_name current = pd_name pod \<and>
                                      pa_subject current = pd_description pod \<and>
                                      pa_package_version current = version \<and>
                                      pa_latest_event_hash current =
                                        latest_federated_event_hash st (pd_slug pod) \<and>
                                      pa_lease_is_active current now
                                   then (st, Inr None)
                                   else
                                     (case issue_and_retain_origin_pod_announcement x new_id node
                                             pod (pa_public_pod_url current) now st of
                                        (st', Inl e) \<Rightarrow> (st', Inl e)
                                      | (st', Inr a) \<Rightarrow> (st', Inr (Some a)))))"

end
