(* ===== verification/Sample.thy ===== *)
theory Sample
  imports Pod_Retention
begin

text \<open>
  A concrete instance of the foreign functions and a few concrete artifacts, on which the
  properties of the development are exercised. The instance has one host, base64 and the key
  derivation are identities, and a signature is any 64 bytes; it satisfies the documented
  behaviour the properties assume.
\<close>

definition sample_ext :: ext where
  "sample_ext =
     \<lparr> x_url_parse = (\<lambda>s. Inr s),
       x_url_host = (\<lambda>u. Some ''h''),
       x_url_scheme = (\<lambda>u. ''https''),
       x_url_path = (\<lambda>u. drop 9 u),
       x_url_set_path = (\<lambda>p u. take 9 u @ p),
       x_url_clear_query = (\<lambda>u. u),
       x_url_clear_fragment = (\<lambda>u. u),
       x_uuid_parse = (\<lambda>s. None),
       x_json_to_vec = (\<lambda>j. Inr ''json''),
       x_b64_encode = (\<lambda>s. s),
       x_b64_decode = (\<lambda>s. Some s),
       x_ed_key_ok = (\<lambda>k. True),
       x_ed_public = (\<lambda>sk. sk),
       x_ed_sign = (\<lambda>sk m. replicate 64 CHR ''s''),
       x_ed_verify = (\<lambda>pk m s. length s = 64),
       x_iter_nodes = (\<lambda>ks. ks),
       x_iter_pods = (\<lambda>ks. ks) \<rparr>"

definition sample_key :: string where
  "sample_key = replicate 32 CHR ''k''"

definition sample_node :: node_identity where
  "sample_node =
     \<lparr> nd_id = 4, nd_tenant_id = None, nd_display_name = ''n'', nd_public_key = sample_key,
       nd_private_key = sample_key, nd_created_at = 0 \<rparr>"

definition sample_url :: string where
  "sample_url = ''https://h/federation/pods/p''"

text \<open>An announcement of pod \<open>p\<close> with the given identity, signed at the given time.\<close>

definition sample_announcement :: "uuid \<Rightarrow> time \<Rightarrow> pod_announcement" where
  "sample_announcement i t =
     \<lparr> pa_id = i, pa_origin_node_id = 4, pa_signer = node_info_of sample_node,
       pa_pod_slug = ''p'', pa_pod_name = ''p'', pa_subject = ''s'',
       pa_public_pod_url = sample_url, pa_package_version = 1, pa_latest_event_hash = None,
       pa_announced_at = t, pa_expires_at = t + announcement_lease_duration,
       pa_signature = replicate 64 CHR ''s'' \<rparr>"

definition sample_withdrawal :: "uuid \<Rightarrow> time \<Rightarrow> pod_withdrawal" where
  "sample_withdrawal i t =
     \<lparr> pw_id = i, pw_origin_node_id = 4, pw_signer = node_info_of sample_node,
       pw_pod_slug = ''p'', pw_public_pod_url = None, pw_covers_announcement_id = None,
       pw_withdrawn_at = t, pw_signature = replicate 64 CHR ''s'' \<rparr>"

definition sample_advertisement :: "uuid \<Rightarrow> uuid \<Rightarrow> time \<Rightarrow> discovery_peer_advertisement" where
  "sample_advertisement i node t =
     \<lparr> ad_id = i, ad_node_id = node,
       ad_signer = (node_info_of sample_node)\<lparr>ni_node_id := node\<rparr>,
       ad_public_endpoint = ''https://h'', ad_protocol_version = current_protocol_version,
       ad_capability = AnnouncementServing, ad_issued_at = t,
       ad_expires_at = t + peer_advertisement_lease_duration,
       ad_signature = replicate 64 CHR ''s'' \<rparr>"

definition sample_pod :: pod where
  "sample_pod =
     \<lparr> pd_id = 7, pd_tenant_id = None, pd_name = ''p'', pd_slug = ''p'', pd_description = ''s'',
       pd_visibility = Public, pd_created_by = None, pd_created_at = 0,
       pd_origin_node_id = None \<rparr>"

definition sample_pack :: pod_skill_pack where
  "sample_pack =
     \<lparr> pk_id = 8, pk_pod_id = 7, pk_version = 1, pk_context_md = [], pk_pod_yaml = [],
       pk_skill_md = [], pk_sources_yaml = [], pk_filters_yaml = [], pk_examples_good_md = [],
       pk_examples_bad_md = [], pk_owner_id = None, pk_proposer_harness_id = None,
       pk_created_at = 0, pk_updated_at = 0 \<rparr>"

lemma sample_signatures_sound [simp]: "signatures_sound sample_ext"
  by (simp add: signatures_sound_def sample_ext_def)

lemma sample_iteration_sound [simp]: "iteration_sound sample_ext"
  by (simp add: iteration_sound_def sample_ext_def)

lemma sample_key_pair [simp]: "key_pair_of sample_ext sample_node sample_key"
  by (simp add: key_pair_of_def sample_ext_def sample_node_def sample_key_def)

lemma sample_sign [simp]:
  "canonical_bytes sample_ext j = Inr ''json''"
  "sign_payload sample_ext sample_node b = Inr (replicate 64 CHR ''s'')"
  using sign_payload_ok[OF sample_signatures_sound sample_key_pair]
  by (simp_all add: canonical_bytes_def) (simp_all add: sample_ext_def)

lemma sample_url_canonical: "canonical_public_pod_url sample_ext sample_url = Inr sample_url"
  by (simp add: canonical_public_pod_url_def sample_ext_def sample_url_def trim_end_slashes_def
      is_origin_shape_def Let_def)

lemma sample_url_valid [simp]: "validate_public_pod_url sample_ext sample_url ''p'' = Inr sample_url"
  unfolding validate_public_pod_url_def sample_url_canonical
  by (simp add: sample_ext_def sample_url_def trim_end_slashes_def relay_public_pod_url_parts_def
      Let_def)

lemma sample_announcement_fields [simp]:
  "pa_id (sample_announcement i t) = i"
  "pa_announced_at (sample_announcement i t) = t"
  "pa_expires_at (sample_announcement i t) = t + announcement_lease_duration"
  "pa_package_version (sample_announcement i t) = 1"
  "pa_key (sample_announcement i t) = (4, ''p'')"
  "pa_public_pod_url (sample_announcement i t) = sample_url"
  "pa_pod_slug (sample_announcement i t) = ''p''"
  "pa_origin_node_id (sample_announcement i t) = 4"
  by (simp_all add: sample_announcement_def pa_key_def)

lemma sample_withdrawal_fields [simp]:
  "pw_id (sample_withdrawal i t) = i"
  "pw_withdrawn_at (sample_withdrawal i t) = t"
  "pw_key (sample_withdrawal i t) = (4, ''p'')"
  "pw_covers_announcement_id (sample_withdrawal i t) = None"
  "pw_origin_node_id (sample_withdrawal i t) = 4"
  "pw_pod_slug (sample_withdrawal i t) = ''p''"
  by (simp_all add: sample_withdrawal_def pw_key_def)

lemma sample_announcement_verifies [simp]: "pa_verify sample_ext (sample_announcement i t) = Inr True"
  by (simp add: pa_verify_def sample_announcement_def sample_ext_def canonical_bytes_def
      verify_payload_def decode_fixed_def node_info_of_def sample_node_def sample_key_def)

lemma sample_withdrawal_verifies [simp]: "pw_verify sample_ext (sample_withdrawal i t) = Inr True"
  by (simp add: pw_verify_def sample_withdrawal_def sample_ext_def canonical_bytes_def
      verify_payload_def decode_fixed_def node_info_of_def sample_node_def sample_key_def)

lemma sample_advertisement_verifies [simp]:
  "ad_verify sample_ext (sample_advertisement i n t) = Inr True"
  by (simp add: ad_verify_def sample_advertisement_def sample_ext_def canonical_bytes_def
      verify_payload_def decode_fixed_def node_info_of_def sample_node_def sample_key_def)

lemma sample_lease [simp]:
  "pa_lease_is_active (sample_announcement i t) now \<longleftrightarrow> now < t + 2592000000000000"
  by (simp add: pa_lease_is_active_def announcement_lease_duration_def
      announcement_lease_duration_days_def)

lemma sample_endpoint [simp]:
  "normalize_discovery_peer_endpoint sample_ext ''https://h'' = Inr ''https://h''"
proof -
  have t: "trim ''https://h'' = ''https://h''" by (rule trim_plain) (simp add: is_plain_def)
  have h: "host_ip ''h'' = None"
    unfolding host_ip_def by (rule parse_ip_nondigit) (simp_all add: to_digit_def)
  show ?thesis
    by (simp add: normalize_discovery_peer_endpoint_def t Let_def)
      (simp add: sample_ext_def h trim_end_slashes_def)
qed

end
