(* ===== verification/Rate_Limit.thy ===== *)
theory Rate_Limit
  imports Ordered_Map
begin

text \<open>
  The sliding-window limiter. Bootstrap admission and peer-advertisement admission each keep
  the times of recent acceptances, once for the whole network and once per submitting node;
  a submission is refused when either count over the last window has reached its cap. The
  locale \<open>rate_limiter\<close> states what both implementations promise and derives that no window,
  wherever it ends, ever holds more acceptances than the cap.
\<close>

section \<open>Attempts inside a window\<close>

text \<open>\<open>attempts.retain(|at| *at > now - window)\<close>.\<close>

definition within :: "int \<Rightarrow> time \<Rightarrow> time list \<Rightarrow> time list" where
  "within window now attempts = filter (\<lambda>at. at > now - window) attempts"

definition attempts_of :: "('k, time list) omap \<Rightarrow> 'k \<Rightarrow> time list" where
  "attempts_of m k = (case om_get m k of None \<Rightarrow> [] | Some l \<Rightarrow> l)"

lemma within_within [simp]:
  "now \<le> now' \<Longrightarrow> within w now' (within w now l) = within w now' l"
  unfolding within_def filter_filter by (rule filter_cong) auto

lemma within_append [simp]: "within w now (l @ l') = within w now l @ within w now l'"
  by (simp add: within_def)

lemma within_Nil [simp]: "within w now [] = []"
  by (simp add: within_def)

lemma within_now [simp]: "0 < w \<Longrightarrow> within w now [now] = [now]"
  by (simp add: within_def)

lemma attempts_of_put [simp]:
  "attempts_of (om_put k l m) k' = (if k' = k then l else attempts_of m k')"
  by (simp add: attempts_of_def)

text \<open>The acceptances in the window that ends at \<open>t\<close>, of a history in increasing time.\<close>

definition accepted_in :: "int \<Rightarrow> time \<Rightarrow> time list \<Rightarrow> time list" where
  "accepted_in w t h = filter (\<lambda>at. t - w < at \<and> at \<le> t) h"

text \<open>
  If a nondecreasing history was built so that at each acceptance the window ending there
  stays within the cap, every window stays within it.
\<close>

definition bounded_at_each :: "int \<Rightarrow> nat \<Rightarrow> time list \<Rightarrow> bool" where
  "bounded_at_each w cap h \<longleftrightarrow>
     (\<forall>n < length h. length (within w (h ! n) (take (Suc n) h)) \<le> cap)"

lemma bounded_at_each_snoc:
  "bounded_at_each w cap (h @ [t]) \<longleftrightarrow>
     bounded_at_each w cap h \<and> length (within w t (h @ [t])) \<le> cap"
  by (auto simp: bounded_at_each_def less_Suc_eq nth_append)

lemma every_window_bounded:
  assumes "sorted h" and "bounded_at_each w cap h"
  shows "length (accepted_in w t h) \<le> cap"
  using assms
proof (induction h rule: rev_induct)
  case (snoc a h)
  show ?case
  proof (cases "a \<le> t")
    case True
    have "\<forall>at \<in> set (h @ [a]). at \<le> a" using snoc.prems(1) by (auto simp: sorted_append)
    then have "accepted_in w t (h @ [a]) = filter (\<lambda>at. t - w < at) (within w a (h @ [a]))"
      unfolding accepted_in_def within_def filter_filter using True by (intro filter_cong) auto
    then have "length (accepted_in w t (h @ [a])) \<le> length (within w a (h @ [a]))"
      by (simp only: length_filter_le)
    also have "\<dots> \<le> cap" using snoc.prems(2) by (simp only: bounded_at_each_snoc)
    finally show ?thesis .
  next
    case False
    with snoc show ?thesis by (simp add: accepted_in_def bounded_at_each_snoc sorted_append)
  qed
qed (simp add: accepted_in_def)

section \<open>The interface\<close>

locale rate_limiter =
  fixes net :: "'s \<Rightarrow> time list"
    and per :: "'s \<Rightarrow> uuid \<Rightarrow> time list"
    and exceeds :: "'s \<Rightarrow> uuid \<Rightarrow> time \<Rightarrow> bool"
    and record_attempt :: "uuid \<Rightarrow> time \<Rightarrow> 's \<Rightarrow> 's"
    and window :: int
    and net_cap key_cap :: nat
  assumes exceeds_iff: "exceeds s k now \<longleftrightarrow>
      net_cap \<le> length (within window now (net s)) \<or> key_cap \<le> length (within window now (per s k))"
    and record_net: "net (record_attempt k now s) = within window now (net s) @ [now]"
    and record_per: "per (record_attempt k now s) k' =
      (if k' = k then within window now (per s k) @ [now] else per s k')"
    and window_pos: "0 < window"
begin

text \<open>
  \<open>s\<close> has recorded the history \<open>h\<close> of acceptances (node, time), up to the instant \<open>last\<close>: what
  it still holds and what it has dropped agree on every window that ends later.
\<close>

definition of_key :: "uuid \<Rightarrow> (uuid \<times> time) list \<Rightarrow> time list" where
  "of_key k h = map snd (filter (\<lambda>e. fst e = k) h)"

definition tracks :: "'s \<Rightarrow> (uuid \<times> time) list \<Rightarrow> time \<Rightarrow> bool" where
  "tracks s h now \<longleftrightarrow>
     (\<forall>t \<ge> now. within window t (net s) = within window t (map snd h)) \<and>
     (\<forall>k. \<forall>t \<ge> now. within window t (per s k) = within window t (of_key k h)) \<and>
     sorted (map snd h) \<and> (\<forall>e \<in> set h. snd e \<le> now) \<and>
     bounded_at_each window net_cap (map snd h) \<and>
     (\<forall>k. bounded_at_each window key_cap (of_key k h))"

lemma tracks_mono: "tracks s h now \<Longrightarrow> now \<le> now' \<Longrightarrow> tracks s h now'"
  unfolding tracks_def by (metis order_trans)

lemma tracks_cong: "net s' = net s \<Longrightarrow> per s' = per s \<Longrightarrow> tracks s' h now = tracks s h now"
  by (simp add: tracks_def)

lemma of_key_snoc [simp]: "of_key k (h @ [(k', t)]) = of_key k h @ (if k' = k then [t] else [])"
  by (simp add: of_key_def)

lemma tracks_record:
  assumes tr: "tracks s h now" and ok: "\<not> exceeds s k now"
  shows "tracks (record_attempt k now s) (h @ [(k, now)]) now"
proof -
  have net: "within window t (net s) = within window t (map snd h)" if "now \<le> t" for t
    using tr that by (simp add: tracks_def)
  have per: "within window t (per s k') = within window t (of_key k' h)" if "now \<le> t" for t k'
    using tr that by (simp add: tracks_def)
  have "length (within window now (map snd h)) < net_cap"
    and "length (within window now (of_key k h)) < key_cap"
    using ok net[of now] per[of now k] by (simp_all add: exceeds_iff not_le)
  then have b: "length (within window now (map snd h @ [now])) \<le> net_cap"
    "length (within window now (of_key k h @ [now])) \<le> key_cap"
    using window_pos by simp_all
  have "within window t (net (record_attempt k now s)) = within window t (map snd (h @ [(k, now)]))"
    if "now \<le> t" for t using net[OF that] that by (simp add: record_net)
  moreover have "within window t (per (record_attempt k now s) k') =
      within window t (of_key k' (h @ [(k, now)]))" if "now \<le> t" for t k'
    using per[OF that] that by (simp add: record_per)
  moreover have "sorted (map snd (h @ [(k, now)]))"
    using tr by (auto simp: tracks_def sorted_append)
  moreover have "bounded_at_each window net_cap (map snd (h @ [(k, now)]))"
    using tr b(1) by (simp add: tracks_def bounded_at_each_snoc)
  moreover have "bounded_at_each window key_cap (of_key k' (h @ [(k, now)]))" for k'
    using tr b(2) by (auto simp: tracks_def bounded_at_each_snoc)
  ultimately show ?thesis
    using tr by (auto simp: tracks_def)
qed

lemma sorted_of_key: "sorted (map snd h) \<Longrightarrow> sorted (of_key k h)"
  unfolding of_key_def using sorted_wrt_filter by (simp add: sorted_wrt_map sorted_wrt_filter)

text \<open>The bound: every window of the recorded history, for the network and for every node.\<close>

lemma network_bound: "tracks s h now \<Longrightarrow> length (accepted_in window t (map snd h)) \<le> net_cap"
  by (rule every_window_bounded) (auto simp: tracks_def)

lemma key_bound: "tracks s h now \<Longrightarrow> length (accepted_in window t (of_key k h)) \<le> key_cap"
  by (rule every_window_bounded) (auto simp: tracks_def sorted_of_key)

lemma tracks_fresh: "net s = [] \<Longrightarrow> (\<And>k. per s k = []) \<Longrightarrow> tracks s [] now"
  by (simp add: tracks_def of_key_def bounded_at_each_def)

end

end
