(* ===== verification/Bootstrap.thy ===== *)
theory Bootstrap
  imports Sample Rate_Limit
begin

text \<open>
  Open bootstrap admission: the bounds and bookkeeping of \<open>bootstrap/types.rs\<close>, the origin probe
  of \<open>bootstrap/probe.rs\<close>, the announcement stream of \<open>bootstrap/stream.rs\<close> and the two
  admission handlers of \<open>bootstrap/admit.rs\<close>.
\<close>

section \<open>Bounds (bootstrap/types.rs)\<close>

definition max_announcement_payload_bytes :: nat where
  "max_announcement_payload_bytes = 16384"

definition max_withdrawal_payload_bytes :: nat where
  "max_withdrawal_payload_bytes = 8192"

definition admission_rate_window :: int where
  "admission_rate_window = hours 1"

definition max_network_admissions_per_window :: nat where
  "max_network_admissions_per_window = 512"

definition max_origin_admissions_per_window :: nat where
  "max_origin_admissions_per_window = 24"

definition max_active_announcements_per_origin :: nat where
  "max_active_announcements_per_origin = 8"

definition default_stream_page_limit :: nat where
  "default_stream_page_limit = 50"

definition max_stream_page_limit :: nat where
  "max_stream_page_limit = 100"

definition max_rejection_audits :: nat where
  "max_rejection_audits = 1024"

definition max_rejection_audit_age :: int where
  "max_rejection_audit_age = days 7"

definition max_stream_entries :: nat where
  "max_stream_entries = 8192"

section \<open>Bookkeeping\<close>

record reject_subject =
  rs_origin_node_id :: "uuid option"
  rs_origin_public_key :: "string option"
  rs_pod_slug :: "string option"

definition rs_from_announcement :: "pod_announcement \<Rightarrow> reject_subject" where
  "rs_from_announcement a =
     \<lparr> rs_origin_node_id = Some (pa_origin_node_id a),
       rs_origin_public_key = Some (ni_public_key (pa_signer a)),
       rs_pod_slug = Some (pa_pod_slug a) \<rparr>"

definition rs_from_withdrawal :: "pod_withdrawal \<Rightarrow> reject_subject" where
  "rs_from_withdrawal w =
     \<lparr> rs_origin_node_id = Some (pw_origin_node_id w),
       rs_origin_public_key = Some (ni_public_key (pw_signer w)),
       rs_pod_slug = Some (pw_pod_slug w) \<rparr>"

definition runtime_of :: "store \<Rightarrow> bootstrap_runtime_state" where
  "runtime_of st =
     (case st_bootstrap_runtime st of None \<Rightarrow> bootstrap_runtime_default | Some runtime \<Rightarrow> runtime)"

definition ensure_bootstrap_runtime :: "store \<Rightarrow> store \<times> bootstrap_runtime_state" where
  "ensure_bootstrap_runtime st =
     (st\<lparr>st_bootstrap_runtime := Some (runtime_of st)\<rparr>, runtime_of st)"

fun map_store_error :: "store_error \<Rightarrow> bootstrap_admission_rejection_reason" where
  "map_store_error InvalidSignature = BR_InvalidSignature"
| "map_store_error AnnouncementExpired = BR_StaleLease"
| "map_store_error AnnouncementStale = BR_StaleLease"
| "map_store_error WithdrawalStale = BR_StaleLease"
| "map_store_error AnnouncementWithdrawn = BR_AnnouncementWithdrawn"
| "map_store_error (Validation _) = BR_Malformed"
| "map_store_error (NotFound _) = BR_Malformed"
| "map_store_error (Duplicate _) = BR_Malformed"
| "map_store_error TenantBoundary = BR_Malformed"
| "map_store_error UntrustedPeer = BR_Malformed"

definition prune_rejection_audits :: "time \<Rightarrow> store \<Rightarrow> store" where
  "prune_rejection_audits now st =
     (let cutoff = now - max_rejection_audit_age;
          kept = filter (\<lambda>audit. au_rejected_at audit > cutoff) (st_bootstrap_rejection_audits st)
      in st\<lparr>st_bootstrap_rejection_audits := drain_front max_rejection_audits kept\<rparr>)"

text \<open>\<open>audit_id\<close> is the identity \<open>Uuid::now_v7()\<close> returned.\<close>

definition reject ::
  "uuid \<Rightarrow> bootstrap_admission_rejection_reason \<Rightarrow> reject_subject \<Rightarrow> time \<Rightarrow> store
    \<Rightarrow> store \<times> bootstrap_admission_rejection_reason" where
  "reject audit_id reason subject now st =
     (let audit = \<lparr> au_id = audit_id,
                    au_origin_node_id = rs_origin_node_id subject,
                    au_origin_public_key = rs_origin_public_key subject,
                    au_pod_slug = rs_pod_slug subject,
                    au_reason = reason,
                    au_rejected_at = now \<rparr>
      in (prune_rejection_audits now
            (st\<lparr>st_bootstrap_rejection_audits := st_bootstrap_rejection_audits st @ [audit]\<rparr>),
          reason))"

definition prune_stream_entries :: "store \<Rightarrow> store" where
  "prune_stream_entries st =
     st\<lparr>st_announcement_stream_entries :=
          prune_oldest max_stream_entries (st_announcement_stream_entries st)\<rparr>"

definition is_bootstrap_admitted :: "store \<Rightarrow> pod_key \<Rightarrow> bool" where
  "is_bootstrap_admitted st key =
     (case st_bootstrap_runtime st of
        None \<Rightarrow> False | Some runtime \<Rightarrow> key \<in> set (rt_admitted_keys runtime))"

definition mark_bootstrap_admitted :: "pod_key \<Rightarrow> store \<Rightarrow> store" where
  "mark_bootstrap_admitted key st =
     (let (st1, runtime) = ensure_bootstrap_runtime st
      in st1\<lparr>st_bootstrap_runtime :=
           Some (runtime\<lparr>rt_admitted_keys := os_insert key (rt_admitted_keys runtime)\<rparr>)\<rparr>)"

definition unmark_bootstrap_admitted :: "pod_key \<Rightarrow> store \<Rightarrow> store" where
  "unmark_bootstrap_admitted key st =
     (case st_bootstrap_runtime st of
        None \<Rightarrow> st
      | Some runtime \<Rightarrow>
          st\<lparr>st_bootstrap_runtime :=
            Some (runtime\<lparr>rt_admitted_keys := os_remove key (rt_admitted_keys runtime)\<rparr>)\<rparr>)"

definition prune_attempts :: "time list \<Rightarrow> time \<Rightarrow> time list" where
  "prune_attempts attempts now = within admission_rate_window now attempts"

definition rate_limit_would_exceed :: "store \<Rightarrow> uuid \<Rightarrow> time \<Rightarrow> bool" where
  "rate_limit_would_exceed st origin now =
     (case st_bootstrap_runtime st of
        None \<Rightarrow> False
      | Some runtime \<Rightarrow>
          if length (within admission_rate_window now (rt_recent_network_admissions runtime))
               \<ge> max_network_admissions_per_window
          then True
          else (case om_get (rt_recent_origin_admissions runtime) origin of
                  None \<Rightarrow> 0
                | Some entries \<Rightarrow> length (within admission_rate_window now entries))
               \<ge> max_origin_admissions_per_window)"

definition record_admission_attempt :: "uuid \<Rightarrow> time \<Rightarrow> store \<Rightarrow> store" where
  "record_admission_attempt origin now st =
     (let (st1, runtime) = ensure_bootstrap_runtime st;
          network = prune_attempts (rt_recent_network_admissions runtime) now @ [now];
          attempts = attempts_of (rt_recent_origin_admissions runtime) origin
      in st1\<lparr>st_bootstrap_runtime :=
           Some (runtime\<lparr>rt_recent_network_admissions := network,
             rt_recent_origin_admissions :=
               om_put origin (prune_attempts attempts now @ [now])
                 (rt_recent_origin_admissions runtime)\<rparr>)\<rparr>)"

section \<open>The origin probe (bootstrap/probe.rs)\<close>

record origin_public_manifest_view =
  mv_protocol_version :: string
  mv_pod_slug :: string
  mv_pod_name :: string
  mv_subject :: string
  mv_package_version :: int
  mv_latest_event_hash :: "string option"
  mv_visibility_public :: bool
  mv_origin_node_id :: "uuid option"

datatype origin_probe_error = OP_Unreachable | OP_ManifestUnavailable

type_synonym origin_probe =
  "string \<Rightarrow> string \<Rightarrow> origin_probe_error + origin_public_manifest_view"

definition unreachable_origin_probe :: origin_probe where
  "unreachable_origin_probe url slug = Inl OP_Unreachable"

definition fixed_origin_probe ::
  "origin_public_manifest_view option \<Rightarrow> origin_probe_error option \<Rightarrow> origin_probe" where
  "fixed_origin_probe view error url slug =
     (case error of
        Some e \<Rightarrow> Inl e
      | None \<Rightarrow> (case view of None \<Rightarrow> Inl OP_ManifestUnavailable | Some v \<Rightarrow> Inr v))"

definition probe_view_matching :: "pod_announcement \<Rightarrow> origin_public_manifest_view" where
  "probe_view_matching a =
     \<lparr> mv_protocol_version = ni_supported_protocol_version (pa_signer a),
       mv_pod_slug = pa_pod_slug a,
       mv_pod_name = pa_pod_name a,
       mv_subject = pa_subject a,
       mv_package_version = pa_package_version a,
       mv_latest_event_hash = pa_latest_event_hash a,
       mv_visibility_public = True,
       mv_origin_node_id = Some (pa_origin_node_id a) \<rparr>"

text \<open>The probe that mirrors the announcement it was last given.\<close>

definition scripted_matching_origin_probe :: "pod_announcement option \<Rightarrow> origin_probe" where
  "scripted_matching_origin_probe announcement url slug =
     (case announcement of
        None \<Rightarrow> Inl OP_ManifestUnavailable
      | Some a \<Rightarrow>
          if pa_pod_slug a \<noteq> slug then Inl OP_ManifestUnavailable else Inr (probe_view_matching a))"

definition manifest_matches ::
  "pod_announcement \<Rightarrow> origin_public_manifest_view
    \<Rightarrow> bootstrap_admission_rejection_reason + unit" where
  "manifest_matches a view =
     (if \<not> mv_visibility_public view then Inl BR_ManifestMismatch
      else if mv_pod_slug view \<noteq> pa_pod_slug a then Inl BR_ManifestMismatch
      else if mv_pod_name view \<noteq> pa_pod_name a then Inl BR_ManifestMismatch
      else if mv_subject view \<noteq> pa_subject a then Inl BR_ManifestMismatch
      else if mv_package_version view \<noteq> pa_package_version a then Inl BR_ManifestMismatch
      else if mv_latest_event_hash view \<noteq> pa_latest_event_hash a then Inl BR_ManifestMismatch
      else if (case mv_origin_node_id view of
                 None \<Rightarrow> False | Some origin \<Rightarrow> origin \<noteq> pa_origin_node_id a)
        then Inl BR_ManifestMismatch
      else if mv_protocol_version view \<noteq> current_protocol_version then Inl BR_IncompatibleProtocol
      else Inr ())"

section \<open>The announcement stream (bootstrap/stream.rs)\<close>

text \<open>What a lifecycle row records besides its sequence number: kind, payload, time.\<close>

type_synonym stream_event =
  "announcement_stream_event_kind \<times> announcement_stream_payload \<times> time"

fun payload_key :: "announcement_stream_payload \<Rightarrow> pod_key" where
  "payload_key (AnnouncementPayload a) = pa_key a"
| "payload_key (WithdrawalPayload w) = pw_key w"

definition stream_row :: "stream_event \<Rightarrow> nat \<Rightarrow> announcement_stream_entry" where
  "stream_row ev sequence =
     (case ev of (kind, payload, now) \<Rightarrow>
       \<lparr> se_sequence = sequence,
         se_recorded_at = now,
         se_kind = kind,
         se_origin_node_id = fst (payload_key payload),
         se_pod_slug = snd (payload_key payload),
         se_payload = payload \<rparr>)"

text \<open>
  Every caller of \<open>append_stream_entry\<close> passes the origin and slug of the payload, so the row
  takes them from there.
\<close>

definition append_stream_entry :: "stream_event \<Rightarrow> store \<Rightarrow> store \<times> nat" where
  "append_stream_entry ev st =
     (let (st1, runtime) = ensure_bootstrap_runtime st;
          sequence = rt_next_stream_sequence runtime;
          st2 = st1\<lparr>st_bootstrap_runtime :=
                  Some (runtime\<lparr>rt_next_stream_sequence := sat_add sequence 1\<rparr>)\<rparr>;
          st3 = st2\<lparr>st_announcement_stream_entries :=
                  om_put sequence (stream_row ev sequence) (st_announcement_stream_entries st2)\<rparr>
      in (prune_stream_entries st3, sequence))"

definition append_announcement_stream ::
  "announcement_stream_event_kind \<Rightarrow> pod_announcement \<Rightarrow> time \<Rightarrow> store \<Rightarrow> store \<times> nat" where
  "append_announcement_stream kind a now = append_stream_entry (kind, AnnouncementPayload a, now)"

definition append_withdrawal_stream :: "pod_withdrawal \<Rightarrow> time \<Rightarrow> store \<Rightarrow> store \<times> nat" where
  "append_withdrawal_stream w now = append_stream_entry (SE_Withdrawn, WithdrawalPayload w, now)"

definition emit_one_expiry :: "time \<Rightarrow> pod_announcement \<Rightarrow> store \<Rightarrow> store" where
  "emit_one_expiry now a st =
     unmark_bootstrap_admitted (pa_key a)
       (fst (append_stream_entry (SE_Expired, AnnouncementPayload a, now) st))"

text \<open>
  The admitted keys are inspected in order: a key without a stored announcement is released, a
  lapsed announcement is a candidate; then every candidate gets its row and is released.
\<close>

definition expiry_candidates :: "store \<Rightarrow> time \<Rightarrow> pod_announcement list" where
  "expiry_candidates st now =
     filter (\<lambda>a. \<not> pa_lease_is_active a now)
       (map ka_announcement
         (List.map_filter (om_get (st_known_pod_announcements st))
           (rt_admitted_keys (runtime_of st))))"

definition stale_keys :: "store \<Rightarrow> pod_key list" where
  "stale_keys st =
     filter (\<lambda>key. om_get (st_known_pod_announcements st) key = None)
       (rt_admitted_keys (runtime_of st))"

definition emit_expiry_transitions :: "time \<Rightarrow> store \<Rightarrow> store \<times> nat" where
  "emit_expiry_transitions now st =
     (let st1 = fst (ensure_bootstrap_runtime st);
          candidates = expiry_candidates st1 now;
          st2 = fold unmark_bootstrap_admitted (stale_keys st1) st1
      in (fold (emit_one_expiry now) candidates st2, length candidates))"

definition read_announcement_stream ::
  "string option \<Rightarrow> nat option \<Rightarrow> bool \<Rightarrow> time \<Rightarrow> store
    \<Rightarrow> store \<times> (bootstrap_admission_rejection_reason + announcement_stream_page)" where
  "read_announcement_stream cursor limit bootstrap_enabled now st =
     (if \<not> bootstrap_enabled then (st, Inl BR_BootstrapDisabled)
      else case parse_stream_cursor cursor of
        Inl e \<Rightarrow> (st, Inl e)
      | Inr after \<Rightarrow>
          let max_sequence = log_end (st_announcement_stream_entries st);
              next_assigned = (case st_bootstrap_runtime st of
                  None \<Rightarrow> 0 | Some runtime \<Rightarrow> rt_next_stream_sequence runtime);
              high_water = max max_sequence next_assigned
          in if after > high_water then (st, Inl BR_Malformed)
             else
               let (st1, _) = emit_expiry_transitions now st;
                   lim = clamp 1 max_stream_page_limit
                     (case limit of None \<Rightarrow> default_stream_page_limit | Some l \<Rightarrow> l);
                   entries = page_entries after lim (st_announcement_stream_entries st1);
                   next_cursor = (if entries = [] then None
                     else Some (encode_stream_cursor (se_sequence (last entries))))
               in (st1, Inr \<lparr> sp_entries = entries, sp_next_cursor = next_cursor, sp_limit = lim \<rparr>))"

definition project_bootstrap_withdrawal ::
  "pod_withdrawal \<Rightarrow> time \<Rightarrow> store \<Rightarrow> store \<times> nat option" where
  "project_bootstrap_withdrawal w now st =
     (let key = pw_key w
      in if \<not> is_bootstrap_admitted st key then (st, None)
         else case append_withdrawal_stream w now (unmark_bootstrap_admitted key st) of
                (st', sequence) \<Rightarrow> (st', Some sequence))"

section \<open>Admission (bootstrap/admit.rs)\<close>

definition active_bootstrap_count_for_origin :: "store \<Rightarrow> uuid \<Rightarrow> time \<Rightarrow> nat" where
  "active_bootstrap_count_for_origin st origin now =
     (let keys = (case st_bootstrap_runtime st of
            None \<Rightarrow> [] | Some runtime \<Rightarrow> filter (\<lambda>key. fst key = origin) (rt_admitted_keys runtime))
      in length (filter (\<lambda>known. announcement_is_discovery_eligible st (ka_announcement known) now)
           (List.map_filter (om_get (st_known_pod_announcements st)) keys)))"

text \<open>\<open>Err(reject(store, reason, &subject, now))\<close>.\<close>

definition rejected ::
  "uuid \<Rightarrow> bootstrap_admission_rejection_reason \<Rightarrow> reject_subject \<Rightarrow> time \<Rightarrow> store
    \<Rightarrow> store \<times> (bootstrap_admission_rejection_reason + 'a)" where
  "rejected audit_id reason subject now st =
     (case reject audit_id reason subject now st of (st', r) \<Rightarrow> (st', Inl r))"

text \<open>The gates that need no state: capability, size, identity, protocol.\<close>

definition announcement_gate ::
  "ext \<Rightarrow> pod_announcement \<Rightarrow> bool \<Rightarrow> bootstrap_admission_rejection_reason option" where
  "announcement_gate x a bootstrap_enabled =
     (if \<not> bootstrap_enabled then Some BR_BootstrapDisabled
      else if estimated_payload_bytes x (json_announcement a) > max_announcement_payload_bytes
        then Some BR_PayloadTooLarge
      else if pa_origin_node_id a \<noteq> ni_node_id (pa_signer a) \<or>
              trim (ni_public_key (pa_signer a)) = [] \<or> trim (pa_pod_slug a) = []
        then Some BR_InvalidIdentity
      else if ni_supported_protocol_version (pa_signer a) \<noteq> current_protocol_version
        then Some BR_IncompatibleProtocol
      else None)"

text \<open>The stored announcement of an admitted pod, when the submission is the very same.\<close>

definition announcement_replay :: "store \<Rightarrow> pod_announcement \<Rightarrow> known_pod_announcement option" where
  "announcement_replay st a =
     (if is_bootstrap_admitted st (pa_key a)
      then case om_get (st_known_pod_announcements st) (pa_key a) of
             None \<Rightarrow> None
           | Some existing \<Rightarrow>
               if pa_id (ka_announcement existing) = pa_id a \<and> ka_announcement existing = a
               then Some existing else None
      else None)"

text \<open>Rate limit, reachability, manifest, and the quota of a pod that is not yet admitted.\<close>

definition announcement_refusal ::
  "pod_announcement \<Rightarrow> origin_probe \<Rightarrow> time \<Rightarrow> store
    \<Rightarrow> bootstrap_admission_rejection_reason option" where
  "announcement_refusal a probe now st =
     (if rate_limit_would_exceed st (pa_origin_node_id a) now then Some BR_RateLimited
      else case probe (pa_public_pod_url a) (pa_pod_slug a) of
        Inl OP_Unreachable \<Rightarrow> Some BR_UnreachableOrigin
      | Inl OP_ManifestUnavailable \<Rightarrow> Some BR_ManifestUnavailable
      | Inr view \<Rightarrow>
          (case manifest_matches a view of
             Inl reason \<Rightarrow> Some reason
           | Inr _ \<Rightarrow>
               if \<not> is_bootstrap_admitted st (pa_key a) \<and>
                  active_bootstrap_count_for_origin st (pa_origin_node_id a) now
                    \<ge> max_active_announcements_per_origin
               then Some BR_OriginQuotaExceeded else None))"

text \<open>After retention: mark, count towards the limits, append the lifecycle row.\<close>

definition apply_admission ::
  "bool \<Rightarrow> known_pod_announcement \<Rightarrow> time \<Rightarrow> store \<Rightarrow> store \<times> bootstrap_admission_acceptance" where
  "apply_admission is_new known now st =
     (let ann = ka_announcement known;
          st1 = mark_bootstrap_admitted (pa_key ann) st;
          st2 = record_admission_attempt (pa_origin_node_id ann) now st1;
          (outcome, kind) =
            (if is_new then (OK_Admitted, SE_Admitted) else (OK_Renewed, SE_Renewed));
          (st3, sequence) = append_announcement_stream kind ann now st2
      in (st3, \<lparr> aa_outcome = outcome, aa_known = known, aa_stream_sequence = Some sequence \<rparr>))"

definition admit_bootstrap_announcement ::
  "ext \<Rightarrow> uuid \<Rightarrow> pod_announcement \<Rightarrow> origin_probe \<Rightarrow> bool \<Rightarrow> time \<Rightarrow> store
    \<Rightarrow> store \<times> (bootstrap_admission_rejection_reason + bootstrap_admission_acceptance)" where
  "admit_bootstrap_announcement x audit_id a probe bootstrap_enabled now st =
     (let subject = rs_from_announcement a
      in case announcement_gate x a bootstrap_enabled of
           Some reason \<Rightarrow> rejected audit_id reason subject now st
         | None \<Rightarrow>
             (case announcement_replay st a of
                Some existing \<Rightarrow>
                  (st, Inr \<lparr> aa_outcome = OK_Idempotent, aa_known = existing,
                             aa_stream_sequence = None \<rparr>)
              | None \<Rightarrow>
                  (case announcement_refusal a probe now st of
                     Some reason \<Rightarrow> rejected audit_id reason subject now st
                   | None \<Rightarrow>
                       let is_new = (\<not> is_bootstrap_admitted st (pa_key a))
                       in case retain_verified_pod_announcement x a dp_LOCAL now st of
                            (st1, Inl e) \<Rightarrow> rejected audit_id (map_store_error e) subject now st1
                          | (st1, Inr known) \<Rightarrow>
                              (case apply_admission is_new known now st1 of
                                 (st2, acceptance) \<Rightarrow> (st2, Inr acceptance)))))"

definition withdrawal_gate ::
  "ext \<Rightarrow> pod_withdrawal \<Rightarrow> bool \<Rightarrow> bootstrap_admission_rejection_reason option" where
  "withdrawal_gate x w bootstrap_enabled =
     (if \<not> bootstrap_enabled then Some BR_BootstrapDisabled
      else if estimated_payload_bytes x (json_withdrawal w) > max_withdrawal_payload_bytes
        then Some BR_PayloadTooLarge
      else if pw_origin_node_id w \<noteq> ni_node_id (pw_signer w) \<or>
              trim (ni_public_key (pw_signer w)) = [] \<or> trim (pw_pod_slug w) = []
        then Some BR_InvalidIdentity
      else if ni_supported_protocol_version (pw_signer w) \<noteq> current_protocol_version
        then Some BR_IncompatibleProtocol
      else None)"

definition withdrawal_replay :: "store \<Rightarrow> pod_withdrawal \<Rightarrow> known_pod_withdrawal option" where
  "withdrawal_replay st w =
     (case om_get (st_known_pod_withdrawals st) (pw_key w) of
        None \<Rightarrow> None
      | Some existing \<Rightarrow>
          if pw_id (kw_withdrawal existing) = pw_id w \<and> kw_withdrawal existing = w
          then Some existing else None)"

text \<open>After retention: count towards the limits, then the shared projector, or a row of its own for
  a pod that was never admitted.\<close>

definition apply_withdrawal ::
  "known_pod_withdrawal \<Rightarrow> time \<Rightarrow> store \<Rightarrow> store \<times> bootstrap_withdrawal_acceptance" where
  "apply_withdrawal known now st =
     (let w = kw_withdrawal known;
          st1 = record_admission_attempt (pw_origin_node_id w) now st;
          (st2, sequence) =
            (case project_bootstrap_withdrawal w now st1 of
               (st', Some s) \<Rightarrow> (st', Some s)
             | (st', None) \<Rightarrow>
                 (case append_withdrawal_stream w now st' of (st'', s) \<Rightarrow> (st'', Some s)))
      in (st2, \<lparr> wa_outcome = WK_Admitted, wa_known = known, wa_stream_sequence = sequence \<rparr>))"

definition admit_bootstrap_withdrawal ::
  "ext \<Rightarrow> uuid \<Rightarrow> pod_withdrawal \<Rightarrow> bool \<Rightarrow> time \<Rightarrow> store
    \<Rightarrow> store \<times> (bootstrap_admission_rejection_reason + bootstrap_withdrawal_acceptance)" where
  "admit_bootstrap_withdrawal x audit_id w bootstrap_enabled now st =
     (let subject = rs_from_withdrawal w
      in case withdrawal_gate x w bootstrap_enabled of
           Some reason \<Rightarrow> rejected audit_id reason subject now st
         | None \<Rightarrow>
             (case withdrawal_replay st w of
                Some existing \<Rightarrow>
                  (st, Inr \<lparr> wa_outcome = WK_Idempotent, wa_known = existing,
                             wa_stream_sequence = None \<rparr>)
              | None \<Rightarrow>
                  if rate_limit_would_exceed st (pw_origin_node_id w) now
                  then rejected audit_id BR_RateLimited subject now st
                  else
                    (case retain_verified_pod_withdrawal x w None now st of
                       (st1, Inl e) \<Rightarrow> rejected audit_id (map_store_error e) subject now st1
                     | (st1, Inr known) \<Rightarrow>
                         (case apply_withdrawal known now st1 of
                            (st2, acceptance) \<Rightarrow> (st2, Inr acceptance)))))"

definition count_active_origin_announcements :: "store \<Rightarrow> uuid \<Rightarrow> time \<Rightarrow> nat" where
  "count_active_origin_announcements = active_bootstrap_count_for_origin"

end
