(* ===== verification/Peer_Node.thy ===== *)
theory Peer_Node
  imports Peer_Serving Bootstrap
begin

text \<open>
  The discovery-peer side of a node: admission of signed peer advertisements
  (\<open>discovery_peer/admit.rs\<close> with the limiter of \<open>discovery_peer/types.rs\<close>) and inbound serving of
  announcement pages and advertisement samples (\<open>discovery_peer/serve.rs\<close>).
\<close>

section \<open>Rate limits (discovery_peer/types.rs)\<close>

definition peer_admission_rate_window :: int where
  "peer_admission_rate_window = hours 1"

definition max_peer_network_admissions_per_window :: nat where
  "max_peer_network_admissions_per_window = 128"

definition max_peer_node_admissions_per_window :: nat where
  "max_peer_node_admissions_per_window = 8"

definition prune_peer_attempts :: "time list \<Rightarrow> time \<Rightarrow> time list" where
  "prune_peer_attempts attempts now = within peer_admission_rate_window now attempts"

definition peer_rate_limit_would_exceed :: "store \<Rightarrow> uuid \<Rightarrow> time \<Rightarrow> bool" where
  "peer_rate_limit_would_exceed st node now =
     (case st_bootstrap_runtime st of
        None \<Rightarrow> False
      | Some runtime \<Rightarrow>
          if length (within peer_admission_rate_window now (rt_recent_peer_admissions runtime))
               \<ge> max_peer_network_admissions_per_window
          then True
          else (case om_get (rt_recent_peer_admissions_by_node runtime) node of
                  None \<Rightarrow> 0
                | Some entries \<Rightarrow> length (within peer_admission_rate_window now entries))
               \<ge> max_peer_node_admissions_per_window)"

definition record_peer_admission_attempt :: "uuid \<Rightarrow> time \<Rightarrow> store \<Rightarrow> store" where
  "record_peer_admission_attempt node now st =
     (let (st1, runtime) = ensure_bootstrap_runtime st;
          network = prune_peer_attempts (rt_recent_peer_admissions runtime) now @ [now];
          attempts = attempts_of (rt_recent_peer_admissions_by_node runtime) node
      in st1\<lparr>st_bootstrap_runtime :=
           Some (runtime\<lparr>rt_recent_peer_admissions := network,
             rt_recent_peer_admissions_by_node :=
               om_put node (prune_peer_attempts attempts now @ [now])
                 (rt_recent_peer_admissions_by_node runtime)\<rparr>)\<rparr>)"

section \<open>Admission (discovery_peer/admit.rs)\<close>

definition ensure_identity_matches_advertisement ::
  "discovery_peer_advertisement \<Rightarrow> discovery_peer_identity_view
    \<Rightarrow> discovery_peer_admission_rejection_reason + unit" where
  "ensure_identity_matches_advertisement ad view =
     (if dv_node_id view \<noteq> ad_node_id ad \<or> dv_public_key view \<noteq> ni_public_key (ad_signer ad) \<or>
         dv_protocol_version view \<noteq> ad_protocol_version ad
      then Inl DR_IdentityMismatch else Inr ())"

text \<open>The checks before the stored advertisement is looked at.\<close>

definition advertisement_gate ::
  "ext \<Rightarrow> discovery_peer_advertisement \<Rightarrow> bool \<Rightarrow> time
    \<Rightarrow> discovery_peer_admission_rejection_reason option" where
  "advertisement_gate x ad bootstrap_enabled now =
     (if \<not> bootstrap_enabled then Some DR_BootstrapDisabled
      else if estimated_payload_bytes x (json_peer_advertisement ad)
                > max_peer_advertisement_payload_bytes then Some DR_PayloadTooLarge
      else if ad_node_id ad \<noteq> ni_node_id (ad_signer ad) \<or> trim (ni_public_key (ad_signer ad)) = []
        then Some DR_InvalidIdentity
      else if ad_protocol_version ad \<noteq> current_protocol_version \<or>
              ni_supported_protocol_version (ad_signer ad) \<noteq> current_protocol_version
        then Some DR_IncompatibleProtocol
      else if ad_capability ad \<noteq> AnnouncementServing then Some DR_UnsupportedCapability
      else case normalize_discovery_peer_endpoint x (ad_public_endpoint ad) of
        Inl e \<Rightarrow> Some (ep_as_rejection e)
      | Inr endpoint \<Rightarrow>
          if endpoint \<noteq> ad_public_endpoint ad then Some DR_Malformed
          else if \<not> ad_lease_is_active ad now then Some DR_StaleLease
          else if ad_verify x ad \<noteq> Inr True then Some DR_InvalidSignature
          else None)"

text \<open>Rate limit, reachability and live identity; then the advertisement replaces the stored one.\<close>

definition admit_probed ::
  "discovery_peer_advertisement \<Rightarrow> discovery_peer_probe \<Rightarrow> bool \<Rightarrow> time \<Rightarrow> store
    \<Rightarrow> store \<times> (discovery_peer_admission_rejection_reason + discovery_peer_admission_acceptance)" where
  "admit_probed ad probe is_new now st =
     (if peer_rate_limit_would_exceed st (ad_node_id ad) now then (st, Inl DR_RateLimited)
      else case probe (ad_public_endpoint ad) of
        Inl PP_Unreachable \<Rightarrow> (st, Inl DR_UnreachableEndpoint)
      | Inr view \<Rightarrow>
          (case ensure_identity_matches_advertisement ad view of
             Inl e \<Rightarrow> (st, Inl e)
           | Inr _ \<Rightarrow>
               let known = \<lparr> kd_advertisement = ad, kd_received_at = now, kd_learned_from = [] \<rparr>;
                   st1 = st\<lparr>st_known_discovery_peer_advertisements :=
                           om_put (ad_node_id ad) known (st_known_discovery_peer_advertisements st)\<rparr>
               in (record_peer_admission_attempt (ad_node_id ad) now st1,
                   Inr \<lparr> da_outcome = (if is_new then OK_Admitted else OK_Renewed),
                         da_known = known \<rparr>)))"

definition admit_discovery_peer_advertisement ::
  "ext \<Rightarrow> discovery_peer_advertisement \<Rightarrow> discovery_peer_probe \<Rightarrow> bool \<Rightarrow> time \<Rightarrow> store
    \<Rightarrow> store \<times> (discovery_peer_admission_rejection_reason + discovery_peer_admission_acceptance)" where
  "admit_discovery_peer_advertisement x ad probe bootstrap_enabled now st =
     (case advertisement_gate x ad bootstrap_enabled now of
        Some reason \<Rightarrow> (st, Inl reason)
      | None \<Rightarrow>
          let existing = om_get (st_known_discovery_peer_advertisements st) (ad_node_id ad)
          in case existing of
               Some e \<Rightarrow>
                 if kd_advertisement e = ad
                 then (st, Inr \<lparr> da_outcome = OK_Idempotent, da_known = e \<rparr>)
                 else admit_probed ad probe False now st
             | None \<Rightarrow> admit_probed ad probe True now st)"

section \<open>Serving (discovery_peer/serve.rs)\<close>

definition read_peer_announcement_stream ::
  "string option \<Rightarrow> nat option \<Rightarrow> store
    \<Rightarrow> discovery_peer_admission_rejection_reason + announcement_stream_page" where
  "read_peer_announcement_stream cursor limit st =
     (if \<not> peer_service_is_enabled st then Inl DR_PeerServiceDisabled
      else case parse_stream_cursor cursor of
        Inl _ \<Rightarrow> Inl DR_Malformed
      | Inr after \<Rightarrow>
          let next_assigned = (case st_discovery_peer_service st of
                  None \<Rightarrow> 0 | Some service \<Rightarrow> ds_next_stream_sequence service);
              high_water = max next_assigned (log_end (st_discovery_peer_stream_entries st))
          in if after > high_water then Inl DR_Malformed
             else
               let lim = clamp 1 max_peer_stream_page_limit
                     (case limit of None \<Rightarrow> default_peer_stream_page_limit | Some l \<Rightarrow> l);
                   entries = page_entries after lim (st_discovery_peer_stream_entries st);
                   next_cursor = (if entries = [] then None
                     else Some (encode_stream_cursor (se_sequence (last entries))))
               in Inr \<lparr> sp_entries = entries, sp_next_cursor = next_cursor, sp_limit = lim \<rparr>)"

text \<open>
  The Fisher-Yates loop \<open>for i in (1..n).rev()\<close>, with the generator stepped once per swap. The
  argument is the index the loop is at.
\<close>

definition lcg_step :: "nat \<Rightarrow> nat" where
  "lcg_step state = wrapping_add (wrapping_mul state 6364136223846793005) 1"

definition swap :: "nat \<Rightarrow> nat \<Rightarrow> 'a list \<Rightarrow> 'a list" where
  "swap i j xs = xs[i := xs ! j, j := xs ! i]"

fun shuffle_down :: "nat \<Rightarrow> nat \<Rightarrow> 'a list \<Rightarrow> 'a list" where
  "shuffle_down 0 state xs = xs"
| "shuffle_down (Suc i) state xs =
     (let state' = lcg_step state; j = state' mod (Suc i + 1)
      in shuffle_down i state' (swap (Suc i) j xs))"

definition shuffle :: "nat \<Rightarrow> 'a list \<Rightarrow> 'a list" where
  "shuffle seed xs = shuffle_down (length xs - 1) seed xs"

definition eligible_advertisements ::
  "ext \<Rightarrow> time \<Rightarrow> known_discovery_peer_advertisement list \<Rightarrow> discovery_peer_advertisement list" where
  "eligible_advertisements x now known =
     filter (\<lambda>ad. ad_lease_is_active ad now \<and> ad_verify x ad = Inr True) (map kd_advertisement known)"

definition sample_known_discovery_peer_advertisements ::
  "ext \<Rightarrow> nat option \<Rightarrow> time \<Rightarrow> nat \<Rightarrow> store \<Rightarrow> discovery_peer_advertisement_sample" where
  "sample_known_discovery_peer_advertisements x limit now seed st =
     (let lim = clamp 1 max_peer_sample_limit
            (case limit of None \<Rightarrow> default_peer_sample_limit | Some l \<Rightarrow> l);
          eligible = eligible_advertisements x now
            (values_in_order (x_iter_nodes x) (st_known_discovery_peer_advertisements st))
      in \<lparr> sm_advertisements = take lim (shuffle seed eligible), sm_limit = lim \<rparr>)"

definition sample_discovery_peer_advertisements ::
  "ext \<Rightarrow> nat option \<Rightarrow> time \<Rightarrow> nat \<Rightarrow> store
    \<Rightarrow> discovery_peer_admission_rejection_reason + discovery_peer_advertisement_sample" where
  "sample_discovery_peer_advertisements x limit now seed st =
     (if \<not> peer_service_is_enabled st then Inl DR_PeerServiceDisabled
      else Inr (sample_known_discovery_peer_advertisements x limit now seed st))"

section \<open>The limiter\<close>

lemma runtime_of_set_peer [simp]:
  "runtime_of (st\<lparr>st_bootstrap_runtime := Some rt\<rparr>) = rt"
  "runtime_of (st\<lparr>st_known_discovery_peer_advertisements := ads\<rparr>) = runtime_of st"
  by (simp_all add: runtime_of_def)

interpretation peer_rate: rate_limiter
  "\<lambda>st. rt_recent_peer_admissions (runtime_of st)"
  "\<lambda>st. attempts_of (rt_recent_peer_admissions_by_node (runtime_of st))"
  peer_rate_limit_would_exceed record_peer_admission_attempt peer_admission_rate_window
  max_peer_network_admissions_per_window max_peer_node_admissions_per_window
proof
  fix st k now
  show "peer_rate_limit_would_exceed st k now \<longleftrightarrow>
      max_peer_network_admissions_per_window
        \<le> length (within peer_admission_rate_window now (rt_recent_peer_admissions (runtime_of st))) \<or>
      max_peer_node_admissions_per_window
        \<le> length (within peer_admission_rate_window now
             (attempts_of (rt_recent_peer_admissions_by_node (runtime_of st)) k))"
    by (auto simp: peer_rate_limit_would_exceed_def runtime_of_def bootstrap_runtime_default_def
        attempts_of_def max_peer_network_admissions_per_window_def
        max_peer_node_admissions_per_window_def split: option.splits)
qed (simp_all add: record_peer_admission_attempt_def ensure_bootstrap_runtime_def Let_def
      prune_peer_attempts_def peer_admission_rate_window_def)

section \<open>The shuffle permutes\<close>

lemma mset_swap_in: "i < length xs \<Longrightarrow> j < length xs \<Longrightarrow> mset (swap i j xs) = mset xs"
  by (simp add: swap_def mset_swap)

lemma length_swap [simp]: "length (swap i j xs) = length xs"
  by (simp add: swap_def)

lemma mset_shuffle_down: "i < length xs \<Longrightarrow> mset (shuffle_down i state xs) = mset xs"
proof (induction i state xs rule: shuffle_down.induct)
  case (2 i state xs)
  have "lcg_step state mod (Suc i + 1) < Suc i + 1" by (rule mod_less_divisor) simp
  also have "\<dots> \<le> length xs" using 2(2) by simp
  finally have "lcg_step state mod (Suc i + 1) < length xs" .
  then show ?case using 2 by (simp add: Let_def mset_swap_in)
qed simp

lemma mset_shuffle: "mset (shuffle seed xs) = mset xs"
  by (cases xs) (simp_all add: shuffle_def mset_shuffle_down)

section \<open>Properties\<close>

text \<open>A served sample has at most 16 advertisements (and at most the requested number), each of them
  stored, verified and within its lease, none repeated more often than it is stored; when they
  all fit, the sample is all of them.\<close>

theorem advertisement_sample_sound:
  assumes "iteration_sound x" and "om_ok (st_known_discovery_peer_advertisements st)"
    and "sample_discovery_peer_advertisements x limit now seed st = Inr sample"
  shows "length (sm_advertisements sample) \<le> sm_limit sample \<and> 1 \<le> sm_limit sample \<and> sm_limit sample \<le> 16 \<and>
     (\<forall>l. limit = Some l \<and> 1 \<le> l \<longrightarrow> length (sm_advertisements sample) \<le> l) \<and>
     (\<forall>ad \<in> set (sm_advertisements sample). ad_expires_at ad > now \<and> ad_verify x ad = Inr True) \<and>
     mset (sm_advertisements sample) \<subseteq>#
       mset (eligible_advertisements x now (om_vals (st_known_discovery_peer_advertisements st))) \<and>
     (length (eligible_advertisements x now (om_vals (st_known_discovery_peer_advertisements st)))
        \<le> sm_limit sample \<longrightarrow>
      mset (sm_advertisements sample) =
        mset (eligible_advertisements x now (om_vals (st_known_discovery_peer_advertisements st))))"
proof -
  let ?el = "eligible_advertisements x now
      (values_in_order (x_iter_nodes x) (st_known_discovery_peer_advertisements st))"
  let ?all = "eligible_advertisements x now (om_vals (st_known_discovery_peer_advertisements st))"
  have m: "mset ?el = mset ?all"
    using mset_values_in_order[OF assms(2), of "x_iter_nodes x"] assms(1)
    unfolding eligible_advertisements_def mset_filter mset_map by (simp add: iteration_sound_def)
  have ads: "sm_advertisements sample = take (sm_limit sample) (shuffle seed ?el)"
    and lim: "sm_limit sample = clamp 1 max_peer_sample_limit
      (case limit of None \<Rightarrow> default_peer_sample_limit | Some l \<Rightarrow> l)"
    using assms(3) by (auto simp: sample_discovery_peer_advertisements_def
        sample_known_discovery_peer_advertisements_def Let_def split: if_splits)
  have sh: "mset (shuffle seed ?el) = mset ?all" using mset_shuffle[of seed ?el] m by simp
  then have len: "length (shuffle seed ?el) = length ?all" by (metis size_mset)
  have sub: "mset (sm_advertisements sample) \<subseteq># mset ?all"
    unfolding ads sh[symmetric] by (metis append_take_drop_id mset_append mset_subset_eq_add_left)
  have "set (sm_advertisements sample) \<subseteq> set ?all"
    using sub by (metis set_mset_mono set_mset_mset)
  then have "\<forall>ad \<in> set (sm_advertisements sample). ad_expires_at ad > now \<and> ad_verify x ad = Inr True"
    by (auto simp: eligible_advertisements_def ad_lease_is_active_def)
  moreover have "mset (sm_advertisements sample) = mset ?all" if "length ?all \<le> sm_limit sample"
    using that sh len unfolding ads by simp
  ultimately show ?thesis
    using sub ads lim by (auto simp: max_peer_sample_limit_def clamp_def)
qed

end
