(* ===== verification/Retention_Laws.thy ===== *)
theory Retention_Laws
  imports Sample
begin

text \<open>
  What \<open>pod_announcement.rs\<close> guarantees: the preference is a total preorder, the two retain
  operations keep the invariant of the announcement and withdrawal maps, an announcement that is
  stored is never displaced by a less preferred one, and a withdrawal bars every announcement
  that is not newer.
\<close>

section \<open>The preference order\<close>

text \<open>The rank an announcement is compared by.\<close>

definition preference_rank :: "time \<Rightarrow> pod_announcement \<Rightarrow> bool \<times> int \<times> int \<times> nat" where
  "preference_rank now a =
     (pa_lease_is_active a now, pa_announced_at a, pa_package_version a, pa_id a)"

lemma cmp_pair: "cmp (a, b) (c, d) = then_with (cmp a c) (cmp b d)"
  by (auto simp: cmp_def less_prod_def)

lemma then_with_assoc [simp]: "then_with (then_with a b) c = then_with a (then_with b c)"
  by (cases a) simp_all

lemma compare_is_rank:
  "compare_announcement_preference l r now = cmp (preference_rank now l) (preference_rank now r)"
  by (simp add: compare_announcement_preference_def preference_rank_def cmp_pair)
    (simp add: cmp_def)

lemma cmp_Greater [simp]: "cmp a b = Greater \<longleftrightarrow> b < a"
  by (auto simp: cmp_def)

lemma cmp_Less [simp]: "cmp a b = Less \<longleftrightarrow> a < b"
  by (auto simp: cmp_def)

lemma cmp_Equal [simp]: "cmp a b = Equal \<longleftrightarrow> a = b"
  by (auto simp: cmp_def)

text \<open>\<open>at_least_preferred now a b\<close>: \<open>a\<close> is not strictly less preferred than \<open>b\<close>.\<close>

definition at_least_preferred :: "time \<Rightarrow> pod_announcement \<Rightarrow> pod_announcement \<Rightarrow> bool" where
  "at_least_preferred now a b \<longleftrightarrow> compare_announcement_preference b a now \<noteq> Greater"

lemma at_least_preferred_rank:
  "at_least_preferred now a b \<longleftrightarrow> preference_rank now b \<le> preference_rank now a"
  by (auto simp: at_least_preferred_def compare_is_rank)

section \<open>Success, failure and frame of retaining an announcement\<close>

lemma om_del_absent: "om_get m k = None \<Longrightarrow> om_del k m = m"
  using om_get_in_keys[of m k] by (force simp: om_del_def om_keys_def filter_id_conv)

text \<open>The announcement passes the checks that do not depend on the stored announcement.\<close>

definition admissible :: "ext \<Rightarrow> store \<Rightarrow> pod_announcement \<Rightarrow> time \<Rightarrow> bool" where
  "admissible x st a now \<longleftrightarrow>
     (\<exists>u. validate_public_pod_url x (pa_public_pod_url a) (pa_pod_slug a) = Inr u) \<and>
     pa_verify x a = Inr True \<and> pa_lease_is_active a now \<and>
     (\<forall>kw. om_get (st_known_pod_withdrawals st) (pa_key a) = Some kw \<longrightarrow>
        pw_withdrawn_at (kw_withdrawal kw) < pa_announced_at a)"

definition superseded :: "store \<Rightarrow> pod_announcement \<Rightarrow> time \<Rightarrow> bool" where
  "superseded st a now \<longleftrightarrow>
     (\<exists>e. om_get (st_known_pod_announcements st) (pa_key a) = Some e \<and>
          \<not> at_least_preferred now a (ka_announcement e))"

definition written :: "store \<Rightarrow> pod_announcement \<Rightarrow> delivery_provenance \<Rightarrow> time \<Rightarrow> known_pod_announcement" where
  "written st a p now =
     known_after_delivery (om_get (st_known_pod_announcements st) (pa_key a)) a p now"

lemma known_after_delivery_announcement [simp]: "ka_announcement (known_after_delivery e a p now) = a"
  by (simp add: known_after_delivery_def split: prod.splits)

lemma written_announcement [simp]: "ka_announcement (written st a p now) = a"
  by (simp add: written_def)

text \<open>The operation, by cases over its outcome.\<close>

lemma retain_inadmissible:
  "\<not> admissible x st a now \<Longrightarrow>
    \<exists>e. e \<noteq> AnnouncementStale \<and> retain_verified_pod_announcement x a p now st = (st, Inl e)"
  by (auto simp: retain_verified_pod_announcement_def admissible_def Let_def not_less
      dest: validate_error split: sum.splits option.splits)

lemma retain_superseded:
  "admissible x st a now \<Longrightarrow> superseded st a now \<Longrightarrow>
    retain_verified_pod_announcement x a p now st =
      (st\<lparr>st_known_pod_withdrawals := om_del (pa_key a) (st_known_pod_withdrawals st)\<rparr>,
       Inl AnnouncementStale)"
  by (auto simp: retain_verified_pod_announcement_def admissible_def superseded_def
      at_least_preferred_def Let_def split: option.splits)

lemma retain_accepted:
  "admissible x st a now \<Longrightarrow> \<not> superseded st a now \<Longrightarrow>
    retain_verified_pod_announcement x a p now st =
      (maybe_project_peer_serving_announcement x a now
         (st\<lparr>st_known_pod_withdrawals := om_del (pa_key a) (st_known_pod_withdrawals st),
             st_known_pod_announcements :=
               om_put (pa_key a) (written st a p now) (st_known_pod_announcements st)\<rparr>),
       Inr (written st a p now))"
  by (auto simp: retain_verified_pod_announcement_def admissible_def superseded_def written_def
      at_least_preferred_def Let_def split: option.splits)

lemma retain_ok_iff:
  "(\<exists>st' k. retain_verified_pod_announcement x a p now st = (st', Inr k)) \<longleftrightarrow>
     admissible x st a now \<and> \<not> superseded st a now"
  using retain_inadmissible[of x st a now p] retain_superseded[of x st a now p]
    retain_accepted[of x st a now p] by fastforce

lemma retain_success:
  assumes "retain_verified_pod_announcement x a p now st = (st', Inr k)"
  shows "admissible x st a now" and "\<not> superseded st a now" and "k = written st a p now"
    and "st' = maybe_project_peer_serving_announcement x a now
      (st\<lparr>st_known_pod_withdrawals := om_del (pa_key a) (st_known_pod_withdrawals st),
          st_known_pod_announcements :=
            om_put (pa_key a) (written st a p now) (st_known_pod_announcements st)\<rparr>)"
proof -
  show ad: "admissible x st a now" and su: "\<not> superseded st a now"
    using assms retain_ok_iff by blast+
  show "k = written st a p now"
    and "st' = maybe_project_peer_serving_announcement x a now
      (st\<lparr>st_known_pod_withdrawals := om_del (pa_key a) (st_known_pod_withdrawals st),
          st_known_pod_announcements :=
            om_put (pa_key a) (written st a p now) (st_known_pod_announcements st)\<rparr>)"
    using retain_accepted[OF ad su, of p] assms by simp_all
qed

lemma retain_failure:
  assumes "retain_verified_pod_announcement x a p now st = (st', Inl e)"
  shows "st' = (if e = AnnouncementStale
    then st\<lparr>st_known_pod_withdrawals := om_del (pa_key a) (st_known_pod_withdrawals st)\<rparr> else st)"
  using assms retain_inadmissible[of x st a now p] retain_superseded[of x st a now p]
    retain_accepted[of x st a now p] by fastforce

section \<open>Retaining a withdrawal\<close>

text \<open>A withdrawal that is not newer than a stored one, or that a later announcement overtakes.\<close>

definition withdrawal_overtaken :: "store \<Rightarrow> pod_withdrawal \<Rightarrow> bool" where
  "withdrawal_overtaken st w \<longleftrightarrow>
     (\<exists>e. om_get (st_known_pod_withdrawals st) (pw_key w) = Some e \<and>
          pw_withdrawn_at (kw_withdrawal e) > pw_withdrawn_at w) \<or>
     (\<not> (\<exists>e. om_get (st_known_pod_withdrawals st) (pw_key w) = Some e \<and> kw_withdrawal e = w) \<and>
      (\<exists>covers k. pw_covers_announcement_id w = Some covers \<and>
          om_get (st_known_pod_announcements st) (pw_key w) = Some k \<and>
          pa_id (ka_announcement k) \<noteq> covers \<and>
          pa_announced_at (ka_announcement k) > pw_withdrawn_at w))"

definition after_withdrawal ::
  "pod_withdrawal \<Rightarrow> uuid option \<Rightarrow> time \<Rightarrow> store \<Rightarrow> store" where
  "after_withdrawal w peer now st =
     st\<lparr>st_known_pod_announcements :=
          (case om_get (st_known_pod_announcements st) (pw_key w) of
             None \<Rightarrow> st_known_pod_announcements st
           | Some k \<Rightarrow>
               if pa_announced_at (ka_announcement k) \<le> pw_withdrawn_at w
               then om_del (pw_key w) (st_known_pod_announcements st)
               else st_known_pod_announcements st),
        st_known_pod_withdrawals :=
          om_put (pw_key w)
            \<lparr> kw_withdrawal = w, kw_received_from_peer_id = peer, kw_received_at = now \<rparr>
            (st_known_pod_withdrawals st)\<rparr>"

lemma retain_new_withdrawal_cases:
  "retain_new_withdrawal (pw_key w) (om_get (st_known_pod_announcements st) (pw_key w)) w peer now st =
     (if \<exists>covers k. pw_covers_announcement_id w = Some covers \<and>
           om_get (st_known_pod_announcements st) (pw_key w) = Some k \<and>
           pa_id (ka_announcement k) \<noteq> covers \<and>
           pa_announced_at (ka_announcement k) > pw_withdrawn_at w
      then (st, Inl WithdrawalStale)
      else (after_withdrawal w peer now st,
            Inr \<lparr> kw_withdrawal = w, kw_received_from_peer_id = peer, kw_received_at = now \<rparr>))"
  by (auto simp: retain_new_withdrawal_def after_withdrawal_def Let_def split: option.splits)

lemma retain_withdrawal_unverified:
  "pw_verify x w \<noteq> Inr True \<Longrightarrow>
    retain_verified_pod_withdrawal x w peer now st = (st, Inl InvalidSignature)"
  by (simp add: retain_verified_pod_withdrawal_def)

lemma retain_withdrawal_verified:
  "pw_verify x w = Inr True \<Longrightarrow>
    retain_verified_pod_withdrawal x w peer now st =
      (if withdrawal_overtaken st w then (st, Inl WithdrawalStale)
       else case om_get (st_known_pod_withdrawals st) (pw_key w) of
         Some e \<Rightarrow> if kw_withdrawal e = w then (st, Inr e)
                   else (after_withdrawal w peer now st,
                     Inr \<lparr> kw_withdrawal = w, kw_received_from_peer_id = peer, kw_received_at = now \<rparr>)
       | None \<Rightarrow> (after_withdrawal w peer now st,
                     Inr \<lparr> kw_withdrawal = w, kw_received_from_peer_id = peer, kw_received_at = now \<rparr>))"
  using pw_verify_identity[of x w]
  by (auto simp: retain_verified_pod_withdrawal_def withdrawal_overtaken_def Let_def
      retain_new_withdrawal_cases split: option.splits)

lemma retain_withdrawal_failure:
  "retain_verified_pod_withdrawal x w peer now st = (st', Inl e) \<Longrightarrow>
    st' = st \<and> e \<in> {InvalidSignature, WithdrawalStale}"
  using retain_withdrawal_unverified[of x w peer now st] retain_withdrawal_verified[of x w peer now st]
  by (cases "pw_verify x w = Inr True") (auto split: if_splits option.splits)

lemma retain_withdrawal_success:
  assumes "retain_verified_pod_withdrawal x w peer now st = (st', Inr kw)"
  shows "pw_verify x w = Inr True" and "\<not> withdrawal_overtaken st w" and "kw_withdrawal kw = w"
    and "om_get (st_known_pod_withdrawals st') (pw_key w) = Some kw"
    and "st' = after_withdrawal w peer now st \<or>
         (st' = st \<and> om_get (st_known_pod_withdrawals st) (pw_key w) = Some kw)"
proof -
  show v: "pw_verify x w = Inr True"
    using assms retain_withdrawal_unverified[of x w peer now st] by auto
  note r = assms[unfolded retain_withdrawal_verified[OF v]]
  show "\<not> withdrawal_overtaken st w" using r by auto
  show "kw_withdrawal kw = w"
    and "om_get (st_known_pod_withdrawals st') (pw_key w) = Some kw"
    and "st' = after_withdrawal w peer now st \<or>
         (st' = st \<and> om_get (st_known_pod_withdrawals st) (pw_key w) = Some kw)"
    using r by (auto simp: after_withdrawal_def split: if_splits option.splits)
qed

section \<open>The invariant\<close>

text \<open>
  Every stored artifact sits under its own key and verifies, and where an announcement and a
  withdrawal of the same pod coexist the announcement is the newer of the two.
\<close>

definition pods_ok :: "ext \<Rightarrow> store \<Rightarrow> bool" where
  "pods_ok x st \<longleftrightarrow>
     om_ok (st_known_pod_announcements st) \<and> om_ok (st_known_pod_withdrawals st) \<and>
     om.all_entries (\<lambda>key k. pa_key (ka_announcement k) = key \<and>
         pa_verify x (ka_announcement k) = Inr True) (st_known_pod_announcements st) \<and>
     om.all_entries (\<lambda>key kw. pw_key (kw_withdrawal kw) = key \<and>
         pw_verify x (kw_withdrawal kw) = Inr True) (st_known_pod_withdrawals st) \<and>
     (\<forall>key k kw. om_get (st_known_pod_announcements st) key = Some k \<longrightarrow>
         om_get (st_known_pod_withdrawals st) key = Some kw \<longrightarrow>
         pw_withdrawn_at (kw_withdrawal kw) < pa_announced_at (ka_announcement k))"

lemma pods_ok_empty: "pods_ok x empty_store"
  by (simp add: pods_ok_def empty_store_def om.all_entries_def)

lemma pods_ok_cong:
  "st_known_pod_announcements st' = st_known_pod_announcements st \<Longrightarrow>
   st_known_pod_withdrawals st' = st_known_pod_withdrawals st \<Longrightarrow> pods_ok x st' = pods_ok x st"
  by (simp add: pods_ok_def)

lemma pods_ok_drop_withdrawal:
  "pods_ok x st \<Longrightarrow>
    pods_ok x (st\<lparr>st_known_pod_withdrawals := om_del key (st_known_pod_withdrawals st)\<rparr>)"
  by (auto simp: pods_ok_def intro: om.all_entries_del)

lemma pods_ok_retain_announcement [wf_intros]:
  assumes ok: "pods_ok x st"
  shows "pods_ok x (fst (retain_verified_pod_announcement x a p now st))"
proof (cases "admissible x st a now")
  case False
  with ok show ?thesis using retain_inadmissible[of x st a now p] by auto
next
  case ad: True
  show ?thesis
  proof (cases "superseded st a now")
    case True
    with ok ad show ?thesis by (simp add: retain_superseded pods_ok_drop_withdrawal)
  next
    case False
    have v: "pa_verify x a = Inr True" using ad by (simp add: admissible_def)
    show ?thesis
      using ok v unfolding retain_accepted[OF ad False] pods_ok_def
      by (auto intro!: om.all_entries_put om.all_entries_del)
  qed
qed

lemma pods_ok_after_withdrawal:
  "pods_ok x st \<Longrightarrow> pw_verify x w = Inr True \<Longrightarrow> pods_ok x (after_withdrawal w peer now st)"
  unfolding pods_ok_def after_withdrawal_def
  by (auto intro!: om.all_entries_put om.all_entries_del split: option.splits if_splits)

lemma pods_ok_retain_withdrawal [wf_intros]:
  assumes ok: "pods_ok x st"
  shows "pods_ok x (fst (retain_verified_pod_withdrawal x w peer now st))"
proof (cases "pw_verify x w = Inr True")
  case True
  with ok show ?thesis
    by (auto simp: retain_withdrawal_verified pods_ok_after_withdrawal split: option.splits)
qed (use ok in \<open>simp add: retain_withdrawal_unverified\<close>)

section \<open>Properties\<close>

text \<open>A retained announcement is exactly one that names its own canonical address, carries its
  origin's valid signature over a 30-day lease, is still within its lease, is newer than any
  withdrawal stored for the pod, and is not strictly less preferred than the stored one.\<close>

theorem retain_announcement_succeeds_iff:
  "(\<exists>k. snd (retain_verified_pod_announcement x a p now st) = Inr k) \<longleftrightarrow>
     (\<exists>u. validate_public_pod_url x (pa_public_pod_url a) (pa_pod_slug a) = Inr u) \<and>
     pa_verify x a = Inr True \<and> pa_expires_at a > now \<and>
     \<not> (\<exists>kw. om_get (st_known_pod_withdrawals st) (pa_origin_node_id a, pa_pod_slug a) = Some kw \<and>
          pa_announced_at a \<le> pw_withdrawn_at (kw_withdrawal kw)) \<and>
     \<not> (\<exists>e. om_get (st_known_pod_announcements st) (pa_origin_node_id a, pa_pod_slug a) = Some e \<and>
          compare_announcement_preference (ka_announcement e) a now = Greater)"
proof -
  have "(\<exists>k. snd (retain_verified_pod_announcement x a p now st) = Inr k) \<longleftrightarrow>
      admissible x st a now \<and> \<not> superseded st a now"
    using retain_ok_iff[of x a p now st] by (metis prod.collapse snd_conv)
  then show ?thesis
    by (auto simp: admissible_def superseded_def at_least_preferred_def pa_lease_is_active_def
        pa_key_def not_le)
qed

text \<open>The preference between two announcements is a total order on (lease active, time
  announced, package version, identity): swapping the arguments swaps the result, it is
  transitive, and it is a draw only between announcements that agree on all four.\<close>

theorem preference_total_order:
  "(compare_announcement_preference l r now = Greater \<longleftrightarrow>
      compare_announcement_preference r l now = Less) \<and>
   (compare_announcement_preference l r now = Less \<and>
      compare_announcement_preference r s now = Less \<longrightarrow>
      compare_announcement_preference l s now = Less) \<and>
   (compare_announcement_preference l r now = Equal \<longleftrightarrow>
      pa_lease_is_active l now = pa_lease_is_active r now \<and>
      pa_announced_at l = pa_announced_at r \<and>
      pa_package_version l = pa_package_version r \<and> pa_id l = pa_id r)"
  unfolding compare_is_rank by (auto simp: preference_rank_def intro: less_trans)

theorem preference_total_order_witness:
  "compare_announcement_preference (sample_announcement 1 0) (sample_announcement 1 9) 5 = Less"
proof -
  have "compare_announcement_preference (sample_announcement 1 0) (sample_announcement 1 5) 5 = Less \<and>
      compare_announcement_preference (sample_announcement 1 5) (sample_announcement 1 9) 5 = Less"
    by (simp add: compare_announcement_preference_def cmp_def)
  with preference_total_order[of "sample_announcement 1 0" "sample_announcement 1 5" 5
      "sample_announcement 1 9"] show ?thesis by blast
qed

text \<open>C2: Whatever is submitted, the announcement stored for a pod is afterwards still there and
  not strictly less preferred than before, so a replayed or older announcement never
  displaces a newer one.\<close>

theorem retained_announcement_never_regresses:
  assumes "om_get (st_known_pod_announcements st) key = Some e"
  shows "\<exists>k. om_get (st_known_pod_announcements
                 (fst (retain_verified_pod_announcement x a p now st))) key = Some k \<and>
             compare_announcement_preference (ka_announcement e) (ka_announcement k) now \<noteq> Greater"
proof (cases "admissible x st a now \<and> \<not> superseded st a now")
  case True
  then show ?thesis
    using assms
    by (auto simp: retain_accepted superseded_def at_least_preferred_def compare_is_rank)
next
  case False
  then have "st_known_pod_announcements (fst (retain_verified_pod_announcement x a p now st)) =
      st_known_pod_announcements st"
    using retain_superseded[of x st a now p] retain_inadmissible[of x st a now p] by fastforce
  with assms show ?thesis by (auto simp: compare_is_rank)
qed

definition sample_stored :: "uuid \<Rightarrow> time \<Rightarrow> store" where
  "sample_stored i t =
     fst (retain_verified_pod_announcement sample_ext (sample_announcement i t) dp_LOCAL t empty_store)"

lemma sample_stored_eq:
  "sample_stored i t = empty_store\<lparr>st_known_pod_announcements :=
     [((4, ''p''), known_after_delivery None (sample_announcement i t) dp_LOCAL t)]\<rparr>"
proof -
  have ad: "admissible sample_ext empty_store (sample_announcement i t) t"
    by (simp add: admissible_def empty_store_def)
  have su: "\<not> superseded empty_store (sample_announcement i t) t"
    by (simp add: superseded_def empty_store_def)
  show ?thesis
    unfolding sample_stored_def retain_accepted[OF ad su]
    by (simp add: empty_store_def peer_service_is_enabled_def written_def om_del_def)
qed

lemma sample_stored_get [simp]:
  "om_get (st_known_pod_announcements (sample_stored i t)) (4, ''p'') =
     Some (known_after_delivery None (sample_announcement i t) dp_LOCAL t)"
  by (simp add: sample_stored_eq om_get_def)

theorem retained_announcement_never_regresses_witness:
  "\<exists>k. om_get (st_known_pod_announcements (fst (retain_verified_pod_announcement sample_ext
        (sample_announcement 2 3) dp_LOCAL 6 (sample_stored 1 5)))) (4, ''p'') = Some k \<and>
      compare_announcement_preference
        (ka_announcement (known_after_delivery None (sample_announcement 1 5) dp_LOCAL 5))
        (ka_announcement k) 6 \<noteq> Greater"
  by (rule retained_announcement_never_regresses[OF sample_stored_get])

text \<open>A rejected announcement leaves the store as it was, except that one rejected as stale
  has already removed the (older) withdrawal of its pod.\<close>

theorem rejected_announcement_effect:
  assumes "retain_verified_pod_announcement x a p now st = (st', Inl e)"
  shows "st' = (if e = AnnouncementStale
                then st\<lparr>st_known_pod_withdrawals :=
                  om_del (pa_origin_node_id a, pa_pod_slug a) (st_known_pod_withdrawals st)\<rparr>
                else st)"
  using retain_failure[OF assms] by (simp add: pa_key_def)

theorem rejected_announcement_effect_witness:
  "fst (retain_verified_pod_announcement sample_ext (sample_announcement 2 3) dp_LOCAL
      3000000000000000 (sample_stored 1 5)) = sample_stored 1 5"
proof -
  have "\<exists>st'. retain_verified_pod_announcement sample_ext (sample_announcement 2 3) dp_LOCAL
      3000000000000000 (sample_stored 1 5) = (st', Inl AnnouncementExpired)"
    by (simp add: retain_verified_pod_announcement_def)
  then show ?thesis using rejected_announcement_effect by fastforce
qed

text \<open>C3: In a store whose artifacts are keyed, verified and ordered (the invariant), a retained
  withdrawal ends the pod's discovery: no announcement up to the withdrawal's time is stored,
  eligible, or accepted again, and a rejected submission changes nothing.\<close>

theorem withdrawal_ends_discovery:
  assumes ok: "pods_ok x st"
    and r: "retain_verified_pod_withdrawal x w peer now st = (st', Inr kw)"
    and key: "pa_origin_node_id a = pw_origin_node_id w" "pa_pod_slug a = pw_pod_slug w"
    and old: "pa_announced_at a \<le> pw_withdrawn_at w"
  shows "\<not> announcement_is_discovery_eligible st' a later \<and>
         \<not> (\<exists>k. om_get (st_known_pod_announcements st') (pw_origin_node_id w, pw_pod_slug w) = Some k \<and>
              pa_announced_at (ka_announcement k) \<le> pw_withdrawn_at w) \<and>
         (\<exists>e. retain_verified_pod_announcement x a p later st' = (st', Inl e))"
proof -
  note s = retain_withdrawal_success[OF r]
  have k: "pa_key a = pw_key w" using key by (simp add: pa_key_def pw_key_def)
  have g: "om_get (st_known_pod_withdrawals st') (pa_key a) = Some kw" using s(4) k by simp
  have ok': "pods_ok x st'" using pods_ok_retain_withdrawal[OF ok, of w peer now] r by simp
  have "\<not> announcement_is_discovery_eligible st' a later"
    using g s(3) old by (simp add: announcement_is_discovery_eligible_def)
  moreover have "pw_withdrawn_at w < pa_announced_at (ka_announcement k)"
    if "om_get (st_known_pod_announcements st') (pw_key w) = Some k" for k
    using ok' that s(3,4) unfolding pods_ok_def by metis
  moreover have "\<not> admissible x st' a later" using g s(3) old by (auto simp: admissible_def)
  ultimately show ?thesis
    using retain_inadmissible by (fastforce simp: pw_key_def)
qed

lemma sample_stored_ok [simp]: "pods_ok sample_ext (sample_stored i t)"
  unfolding sample_stored_def by (intro wf_intros pods_ok_empty)

lemma sample_withdraw:
  "retain_verified_pod_withdrawal sample_ext (sample_withdrawal 2 9) None 9 (sample_stored 1 5) =
     (after_withdrawal (sample_withdrawal 2 9) None 9 (sample_stored 1 5),
      Inr \<lparr> kw_withdrawal = sample_withdrawal 2 9, kw_received_from_peer_id = None,
            kw_received_at = 9 \<rparr>)"
  by (simp add: retain_withdrawal_verified withdrawal_overtaken_def sample_stored_eq empty_store_def)

theorem withdrawal_ends_discovery_witness:
  "\<not> announcement_is_discovery_eligible
       (after_withdrawal (sample_withdrawal 2 9) None 9 (sample_stored 1 5))
       (sample_announcement 1 5) 10"
  using withdrawal_ends_discovery[OF sample_stored_ok sample_withdraw,
      of "sample_announcement 1 5" 10 dp_LOCAL]
  by (simp add: sample_announcement_def sample_withdrawal_def)

datatype retain_op =
    RetainAnnouncement pod_announcement delivery_provenance time
  | RetainWithdrawal pod_withdrawal "uuid option" time

fun apply_retain :: "ext \<Rightarrow> retain_op \<Rightarrow> store \<Rightarrow> store" where
  "apply_retain x (RetainAnnouncement a p now) st = fst (retain_verified_pod_announcement x a p now st)"
| "apply_retain x (RetainWithdrawal w peer now) st = fst (retain_verified_pod_withdrawal x w peer now st)"

lemma pods_ok_apply_retain: "pods_ok x st \<Longrightarrow> pods_ok x (apply_retain x op st)"
  by (cases op) (auto intro: wf_intros)

lemma pods_ok_runs: "pods_ok x st \<Longrightarrow> pods_ok x (fold (apply_retain x) ops st)"
  by (induction ops arbitrary: st) (simp_all add: pods_ok_apply_retain)

lemma pods_ok_stored:
  "pods_ok x st \<Longrightarrow> om_get (st_known_pod_announcements st) key = Some k \<Longrightarrow>
    pa_key (ka_announcement k) = key \<and> pa_verify x (ka_announcement k) = Inr True"
  unfolding pods_ok_def om.all_entries_def by blast

lemma pods_ok_eligible:
  "pods_ok x st \<Longrightarrow> om_get (st_known_pod_announcements st) key = Some k \<Longrightarrow>
    announcement_is_discovery_eligible st (ka_announcement k) now \<longleftrightarrow>
      pa_lease_is_active (ka_announcement k) now"
proof -
  assume ok: "pods_ok x st" and k: "om_get (st_known_pod_announcements st) key = Some k"
  then have "pa_key (ka_announcement k) = key" using pods_ok_stored by blast
  moreover have "pw_withdrawn_at (kw_withdrawal kw) < pa_announced_at (ka_announcement k)"
    if "om_get (st_known_pod_withdrawals st) key = Some kw" for kw
    using ok k that unfolding pods_ok_def by blast
  ultimately show ?thesis
    by (auto simp: announcement_is_discovery_eligible_def not_le split: option.splits)
qed

text \<open>C24: Whatever sequence of announcements and withdrawals is submitted to a store, every stored
  announcement and every stored withdrawal is under the key of its own origin and slug and carries a
  valid signature; a stored announcement is newer than a stored withdrawal of its pod; and it is
  eligible for discovery exactly while its lease is active.\<close>

theorem retained_store_invariant:
  assumes "st = fold (apply_retain x) ops empty_store"
  shows "(\<forall>key k. om_get (st_known_pod_announcements st) key = Some k \<longrightarrow>
       (pa_origin_node_id (ka_announcement k), pa_pod_slug (ka_announcement k)) = key \<and>
       pa_verify x (ka_announcement k) = Inr True \<and>
       (announcement_is_discovery_eligible st (ka_announcement k) now \<longleftrightarrow> now < pa_expires_at (ka_announcement k))) \<and>
     (\<forall>key w. om_get (st_known_pod_withdrawals st) key = Some w \<longrightarrow>
       (pw_origin_node_id (kw_withdrawal w), pw_pod_slug (kw_withdrawal w)) = key \<and>
       pw_verify x (kw_withdrawal w) = Inr True \<and>
       (\<forall>k. om_get (st_known_pod_announcements st) key = Some k \<longrightarrow>
          pw_withdrawn_at (kw_withdrawal w) < pa_announced_at (ka_announcement k)))"
proof -
  have ok: "pods_ok x st" unfolding assms by (rule pods_ok_runs[OF pods_ok_empty])
  then have "pw_key (kw_withdrawal w) = key \<and> pw_verify x (kw_withdrawal w) = Inr True \<and>
      (\<forall>k. om_get (st_known_pod_announcements st) key = Some k \<longrightarrow>
         pw_withdrawn_at (kw_withdrawal w) < pa_announced_at (ka_announcement k))"
    if "om_get (st_known_pod_withdrawals st) key = Some w" for key w
    using that unfolding pods_ok_def om.all_entries_def by blast
  then show ?thesis
    using pods_ok_stored[OF ok] pods_ok_eligible[OF ok] by (simp add: pa_key_def pw_key_def pa_lease_is_active_def)
qed

theorem retained_store_invariant_witness:
  "announcement_is_discovery_eligible
     (fold (apply_retain sample_ext) [RetainAnnouncement (sample_announcement 1 5) dp_LOCAL 5] empty_store)
     (sample_announcement 1 5) 6"
proof -
  have g: "om_get (st_known_pod_announcements (fold (apply_retain sample_ext)
        [RetainAnnouncement (sample_announcement 1 5) dp_LOCAL 5] empty_store)) (4, ''p'') =
      Some (known_after_delivery None (sample_announcement 1 5) dp_LOCAL 5)"
    using sample_stored_get[of 1 5] by (simp add: sample_stored_def)
  note all = retained_store_invariant[OF refl, of sample_ext "[RetainAnnouncement (sample_announcement 1 5) dp_LOCAL 5]" 6]
  from conjunct1[OF all, rule_format, OF g] show ?thesis
    by (simp add: announcement_lease_duration_def announcement_lease_duration_days_def)
qed

text \<open>Redelivery of the same signed announcement accumulates the index, bootstrap and
  discovery-peer sources; another announcement of the pod starts from its own delivery only.\<close>

theorem delivery_provenance_accumulates:
  assumes "retain_verified_pod_announcement x a p now st = (st', Inr k)"
    and "om_get (st_known_pod_announcements st) (pa_origin_node_id a, pa_pod_slug a) = Some e"
  shows "set (ka_received_from_bootstrap_urls k) =
           set_option (dp_bootstrap_url p) \<union>
           (if pa_id (ka_announcement e) = pa_id a then set (ka_received_from_bootstrap_urls e) else {}) \<and>
         set (ka_received_from_discovery_peer_endpoints k) =
           set_option (dp_discovery_peer_endpoint p) \<union>
           (if pa_id (ka_announcement e) = pa_id a
            then set (ka_received_from_discovery_peer_endpoints e) else {}) \<and>
         set (ka_received_from_index_urls k) =
           set_option (dp_index_url p) \<union>
           (if pa_id (ka_announcement e) = pa_id a then set (ka_received_from_index_urls e) else {}) \<and>
         ka_received_from_peer_id k =
           (if dp_peer_id p \<noteq> None \<or> pa_id (ka_announcement e) \<noteq> pa_id a then dp_peer_id p
            else ka_received_from_peer_id e)"
proof -
  have k: "k = known_after_delivery (Some e) a p now"
    using retain_success(3)[OF assms(1)] assms(2) by (simp add: written_def pa_key_def)
  have m: "set (merged_urls u us) = set_option u \<union> set us" for u us
    by (cases u) (auto simp: merged_urls_def)
  show ?thesis
    unfolding k by (auto simp: known_after_delivery_def m split: option.splits)
qed

theorem delivery_provenance_accumulates_witness:
  "\<exists>k. snd (retain_verified_pod_announcement sample_ext (sample_announcement 1 5)
         (dp_bootstrap ''b'') 6 (sample_stored 1 5)) = Inr k \<and>
      set (ka_received_from_bootstrap_urls k) = {''b''}"
proof -
  let ?a = "sample_announcement 1 5" and ?st = "sample_stored 1 5"
  have ad: "admissible sample_ext ?st ?a 6"
    by (simp add: admissible_def) (simp add: sample_stored_eq empty_store_def)
  have su: "\<not> superseded ?st ?a 6"
    by (simp add: superseded_def at_least_preferred_rank)
  note r = retain_accepted[OF ad su, of "dp_bootstrap ''b''"]
  have o: "(pa_origin_node_id ?a, pa_pod_slug ?a) = (4, ''p'')" by (simp add: sample_announcement_def)
  have "set (ka_received_from_bootstrap_urls (written ?st ?a (dp_bootstrap ''b'') 6)) = {''b''}"
    using delivery_provenance_accumulates[OF r, of "known_after_delivery None ?a dp_LOCAL 5"]
    unfolding o by (simp add: dp_bootstrap_def known_after_delivery_def dp_LOCAL_def merged_urls_def)
  with r show ?thesis by simp
qed

text \<open>C28: An origin's own announcement, built and signed with its key pair, verifies, names the
  origin and the pod, and opens a lease of 30 days from now.\<close>

theorem issued_announcement_verifies:
  assumes "signatures_sound x" and "key_pair_of x node sk"
    and b: "build_signed_pod_announcement x new_id node pod url now st = Inr a"
  shows "pa_verify x a = Inr True \<and> pa_origin_node_id a = nd_id node \<and> pa_pod_slug a = pd_slug pod \<and>
         pa_package_version a \<ge> 1 \<and> pa_expires_at a = now + days 30 \<and>
         pa_latest_event_hash a = latest_federated_event_hash st (pd_slug pod)"
proof -
  let ?unsigned = "\<lambda>u v. \<lparr> pa_id = new_id, pa_origin_node_id = nd_id node,
      pa_signer = node_info_of node, pa_pod_slug = pd_slug pod, pa_pod_name = pd_name pod,
      pa_subject = pd_description pod, pa_public_pod_url = u, pa_package_version = v,
      pa_latest_event_hash = latest_federated_event_hash st (pd_slug pod), pa_announced_at = now,
      pa_expires_at = now + announcement_lease_duration, pa_signature = [] \<rparr>"
  obtain u and package :: pod_skill_pack and v
    where v: "package_version_new (pk_version package) = Inr v"
    and sg: "sign_pod_announcement x node (?unsigned u v) = Inr a"
    using b by (auto simp: build_signed_pod_announcement_def split: sum.splits option.splits)
  have "pa_verify x a = Inr True"
    by (rule signed_announcement_verifies[OF assms(1,2) sg]) (simp_all add: node_info_of_def)
  moreover have "1 \<le> v" using v by (auto simp: package_version_new_def split: if_splits)
  moreover obtain s where "a = (?unsigned u v)\<lparr>pa_signature := s\<rparr>"
    using sign_pod_announcement_Inr[OF sg] by blast
  ultimately show ?thesis
    by (simp add: announcement_lease_duration_def announcement_lease_duration_days_def)
qed

theorem issued_announcement_verifies_witness:
  "\<exists>a. build_signed_pod_announcement sample_ext 3 sample_node sample_pod sample_url 5
          (empty_store\<lparr>st_pod_skill_packs := [(7, sample_pack)]\<rparr>) = Inr a \<and>
       pa_verify sample_ext a = Inr True"
proof -
  let ?st = "empty_store\<lparr>st_pod_skill_packs := [(7, sample_pack)]\<rparr>"
  have "\<exists>a. build_signed_pod_announcement sample_ext 3 sample_node sample_pod sample_url 5 ?st = Inr a"
    by (simp add: build_signed_pod_announcement_def sample_pod_def sample_pack_def om_get_def
        package_version_new_def sign_pod_announcement_def)
  then show ?thesis
    using issued_announcement_verifies[OF sample_signatures_sound sample_key_pair] by blast
qed

text \<open>C29: The signed bytes pin the artifact: two announcements (withdrawals, advertisements)
  whose canonical value is the same differ at most in their signature.\<close>

theorem signed_value_determines_artifact:
  "(canonical_announcement a = canonical_announcement b \<longleftrightarrow> a\<lparr>pa_signature := s\<rparr> = b\<lparr>pa_signature := s\<rparr>) \<and>
   (canonical_withdrawal v = canonical_withdrawal w \<longleftrightarrow> v\<lparr>pw_signature := s\<rparr> = w\<lparr>pw_signature := s\<rparr>) \<and>
   (canonical_peer_advertisement c = canonical_peer_advertisement d \<longleftrightarrow>
      c\<lparr>ad_signature := s\<rparr> = d\<lparr>ad_signature := s\<rparr>)"
  unfolding canonical_announcement_inj canonical_withdrawal_inj canonical_peer_advertisement_inj
  by (cases a; cases b; cases v; cases w; cases c; cases d) auto

end
