(* ===== verification/Bootstrap_Laws.thy ===== *)
theory Bootstrap_Laws
  imports Bootstrap Retention_Laws
begin

text \<open>
  What open bootstrap admission guarantees: the stream is a sequence log, the limiter bounds every
  window, rejections only add audit rows, acceptances have exactly their lifecycle effect, and
  replays have none.
\<close>

section \<open>Frames: which collections an operation writes\<close>

text \<open>Only the rejection audits.\<close>

definition audit_frame :: "store \<Rightarrow> store \<Rightarrow> bool" where
  "audit_frame st st' \<longleftrightarrow>
     st' = st\<lparr>st_bootstrap_rejection_audits := st_bootstrap_rejection_audits st'\<rparr>"

text \<open>Only the runtime state and the stream.\<close>

definition stream_frame :: "store \<Rightarrow> store \<Rightarrow> bool" where
  "stream_frame st st' \<longleftrightarrow>
     st' = st\<lparr>st_bootstrap_runtime := st_bootstrap_runtime st',
              st_announcement_stream_entries := st_announcement_stream_entries st'\<rparr>"

lemma stream_frame_refl [simp]: "stream_frame st st"
  by (simp add: stream_frame_def)

lemma stream_frame_trans: "stream_frame a b \<Longrightarrow> stream_frame b c \<Longrightarrow> stream_frame a c"
  unfolding stream_frame_def by (metis store.ext_inject store.surjective store.update_convs(4,7))

lemma reject_frame: "audit_frame st (fst (reject i r s now st))"
  by (simp add: audit_frame_def reject_def prune_rejection_audits_def Let_def)

lemma mark_frame: "stream_frame st (mark_bootstrap_admitted k st)"
  by (simp add: stream_frame_def mark_bootstrap_admitted_def ensure_bootstrap_runtime_def Let_def)

lemma unmark_frame: "stream_frame st (unmark_bootstrap_admitted k st)"
  by (simp add: stream_frame_def unmark_bootstrap_admitted_def split: option.splits)

lemma record_frame: "stream_frame st (record_admission_attempt o1 now st)"
  by (simp add: stream_frame_def record_admission_attempt_def ensure_bootstrap_runtime_def Let_def)

lemma append_frame: "stream_frame st (fst (append_stream_entry ev st))"
  by (simp add: stream_frame_def append_stream_entry_def ensure_bootstrap_runtime_def
      prune_stream_entries_def Let_def)

lemma stream_frame_fields:
  assumes "stream_frame st st'"
  shows "st_known_pod_announcements st' = st_known_pod_announcements st"
    and "st_known_pod_withdrawals st' = st_known_pod_withdrawals st"
    and "st_bootstrap_rejection_audits st' = st_bootstrap_rejection_audits st"
    and "st_discovery_peer_service st' = st_discovery_peer_service st"
    and "st_discovery_peer_stream_entries st' = st_discovery_peer_stream_entries st"
    and "st_known_discovery_peer_advertisements st' = st_known_discovery_peer_advertisements st"
  by (subst assms[unfolded stream_frame_def]; simp)+

lemma audit_frame_fields:
  assumes "audit_frame st st'"
  shows "st_known_pod_announcements st' = st_known_pod_announcements st"
    and "st_known_pod_withdrawals st' = st_known_pod_withdrawals st"
    and "st_bootstrap_runtime st' = st_bootstrap_runtime st"
    and "st_announcement_stream_entries st' = st_announcement_stream_entries st"
    and "st_discovery_peer_service st' = st_discovery_peer_service st"
    and "st_discovery_peer_stream_entries st' = st_discovery_peer_stream_entries st"
  by (subst assms[unfolded audit_frame_def]; simp)+

lemmas reject_fields [simp] = audit_frame_fields[OF reject_frame]
lemmas mark_fields [simp] = stream_frame_fields[OF mark_frame]
lemmas unmark_fields [simp] = stream_frame_fields[OF unmark_frame]
lemmas record_fields [simp] = stream_frame_fields[OF record_frame]
lemmas append_fields [simp] = stream_frame_fields[OF append_frame]

section \<open>Runtime\<close>

lemma runtime_of_set [simp]: "runtime_of (st\<lparr>st_bootstrap_runtime := Some rt\<rparr>) = rt"
  by (simp add: runtime_of_def)

lemma runtime_of_entries [simp]: "runtime_of (st\<lparr>st_announcement_stream_entries := es\<rparr>) = runtime_of st"
  by (simp add: runtime_of_def)

lemma runtime_of_reject [simp]: "runtime_of (fst (reject i r s now st)) = runtime_of st"
  by (simp add: runtime_of_def)

lemma is_admitted_runtime: "is_bootstrap_admitted st k \<longleftrightarrow> k \<in> set (rt_admitted_keys (runtime_of st))"
  by (simp add: is_bootstrap_admitted_def runtime_of_def bootstrap_runtime_default_def
      split: option.splits)

lemma mark_runtime [simp]:
  "runtime_of (mark_bootstrap_admitted k st) =
     (runtime_of st)\<lparr>rt_admitted_keys := os_insert k (rt_admitted_keys (runtime_of st))\<rparr>"
  by (simp add: mark_bootstrap_admitted_def ensure_bootstrap_runtime_def Let_def)

lemma unmark_runtime [simp]:
  "runtime_of (unmark_bootstrap_admitted k st) =
     (runtime_of st)\<lparr>rt_admitted_keys := os_remove k (rt_admitted_keys (runtime_of st))\<rparr>"
  by (simp add: unmark_bootstrap_admitted_def runtime_of_def bootstrap_runtime_default_def
      os_remove_def split: option.splits)

lemma append_runtime [simp]:
  "runtime_of (fst (append_stream_entry ev st)) =
     (runtime_of st)\<lparr>rt_next_stream_sequence := sat_add (rt_next_stream_sequence (runtime_of st)) 1\<rparr>"
  by (simp add: append_stream_entry_def ensure_bootstrap_runtime_def prune_stream_entries_def Let_def)

lemma record_runtime [simp]:
  "runtime_of (record_admission_attempt o1 now st) =
     (runtime_of st)\<lparr>
       rt_recent_network_admissions :=
         within admission_rate_window now (rt_recent_network_admissions (runtime_of st)) @ [now],
       rt_recent_origin_admissions :=
         om_put o1 (within admission_rate_window now
             (attempts_of (rt_recent_origin_admissions (runtime_of st)) o1) @ [now])
           (rt_recent_origin_admissions (runtime_of st))\<rparr>"
  by (simp add: record_admission_attempt_def ensure_bootstrap_runtime_def prune_attempts_def Let_def)

lemma entries_untouched [simp]:
  "st_announcement_stream_entries (mark_bootstrap_admitted k st) = st_announcement_stream_entries st"
  "st_announcement_stream_entries (unmark_bootstrap_admitted k st) = st_announcement_stream_entries st"
  "st_announcement_stream_entries (record_admission_attempt o1 now st) =
    st_announcement_stream_entries st"
  by (simp_all add: mark_bootstrap_admitted_def unmark_bootstrap_admitted_def
      record_admission_attempt_def ensure_bootstrap_runtime_def Let_def split: option.splits)

section \<open>The interfaces it provides\<close>

interpretation boot_log: stream_log
  "\<lambda>st. rt_next_stream_sequence (runtime_of st)" st_announcement_stream_entries
  append_stream_entry stream_row max_stream_entries
  by unfold_locales
    (simp_all add: append_stream_entry_def ensure_bootstrap_runtime_def Let_def
      prune_stream_entries_def stream_row_def max_stream_entries_def split: prod.splits)

interpretation boot_rate: rate_limiter
  "\<lambda>st. rt_recent_network_admissions (runtime_of st)"
  "\<lambda>st. attempts_of (rt_recent_origin_admissions (runtime_of st))"
  rate_limit_would_exceed record_admission_attempt admission_rate_window
  max_network_admissions_per_window max_origin_admissions_per_window
proof
  fix st k now
  show "rate_limit_would_exceed st k now \<longleftrightarrow>
      max_network_admissions_per_window
        \<le> length (within admission_rate_window now (rt_recent_network_admissions (runtime_of st))) \<or>
      max_origin_admissions_per_window
        \<le> length (within admission_rate_window now
             (attempts_of (rt_recent_origin_admissions (runtime_of st)) k))"
    by (auto simp: rate_limit_would_exceed_def runtime_of_def bootstrap_runtime_default_def
        attempts_of_def max_network_admissions_per_window_def max_origin_admissions_per_window_def
        split: option.splits)
qed (simp_all add: admission_rate_window_def)

abbreviation boot_log_ok :: "store \<Rightarrow> bool" where
  "boot_log_ok st \<equiv>
     log_ok max_stream_entries (rt_next_stream_sequence (runtime_of st))
       (st_announcement_stream_entries st)"

text \<open>The counter saturates; until it has, the log is gapless and bounded.\<close>

definition stream_ok :: "store \<Rightarrow> bool" where
  "stream_ok st \<longleftrightarrow>
     (rt_next_stream_sequence (runtime_of st) < u64_max \<longrightarrow> boot_log_ok st) \<and>
     rt_next_stream_sequence (runtime_of st) \<le> u64_max"

lemma stream_ok_append: "stream_ok st \<Longrightarrow> stream_ok (fst (append_stream_entry ev st))"
proof -
  assume ok: "stream_ok st"
  show ?thesis
  proof (cases "rt_next_stream_sequence (runtime_of st) < u64_max")
    case True
    with ok have "boot_log_ok (fst (append_stream_entry ev st))"
      using boot_log.append_keeps[of st ev] by (simp add: stream_ok_def)
    then show ?thesis by (simp add: stream_ok_def)
  next
    case False
    with ok show ?thesis by (simp add: stream_ok_def sat_add_def)
  qed
qed

lemma stream_ok_cong:
  "rt_next_stream_sequence (runtime_of st') = rt_next_stream_sequence (runtime_of st) \<Longrightarrow>
   st_announcement_stream_entries st' = st_announcement_stream_entries st \<Longrightarrow>
   stream_ok st' = stream_ok st"
  by (simp add: stream_ok_def)

section \<open>Rejections\<close>

lemma rejected_eq: "rejected i r s now st = (fst (reject i r s now st), Inl r)"
  by (simp add: rejected_def reject_def split: prod.splits)

lemma audits_bounded: "length (st_bootstrap_rejection_audits (fst (reject i r s now st))) \<le> max_rejection_audits"
  by (simp add: reject_def prune_rejection_audits_def Let_def)

lemma reject_newest:
  "\<exists>older. st_bootstrap_rejection_audits (fst (reject i r s now st)) = older @
     [\<lparr> au_id = i, au_origin_node_id = rs_origin_node_id s,
        au_origin_public_key = rs_origin_public_key s, au_pod_slug = rs_pod_slug s,
        au_reason = r, au_rejected_at = now \<rparr>]"
  by (simp add: reject_def prune_rejection_audits_def drain_front_def max_rejection_audits_def
      max_rejection_audit_age_def Let_def)

section \<open>The outcome of an announcement submission\<close>

lemma admit_gate:
  "announcement_gate x a en = Some r \<Longrightarrow>
    admit_bootstrap_announcement x i a probe en now st =
      (fst (reject i r (rs_from_announcement a) now st), Inl r)"
  by (simp add: admit_bootstrap_announcement_def rejected_eq)

lemma admit_replay:
  "announcement_gate x a en = None \<Longrightarrow> announcement_replay st a = Some e \<Longrightarrow>
    admit_bootstrap_announcement x i a probe en now st =
      (st, Inr \<lparr> aa_outcome = OK_Idempotent, aa_known = e, aa_stream_sequence = None \<rparr>)"
  by (simp add: admit_bootstrap_announcement_def)

lemma admit_refusal:
  "announcement_gate x a en = None \<Longrightarrow> announcement_replay st a = None \<Longrightarrow>
    announcement_refusal a probe now st = Some r \<Longrightarrow>
    admit_bootstrap_announcement x i a probe en now st =
      (fst (reject i r (rs_from_announcement a) now st), Inl r)"
  by (simp add: admit_bootstrap_announcement_def rejected_eq)

lemma admit_not_retained:
  "announcement_gate x a en = None \<Longrightarrow> announcement_replay st a = None \<Longrightarrow>
    announcement_refusal a probe now st = None \<Longrightarrow>
    retain_verified_pod_announcement x a dp_LOCAL now st = (st1, Inl e) \<Longrightarrow>
    admit_bootstrap_announcement x i a probe en now st =
      (fst (reject i (map_store_error e) (rs_from_announcement a) now st1), Inl (map_store_error e))"
  by (simp add: admit_bootstrap_announcement_def rejected_eq)

lemma admit_applied:
  "announcement_gate x a en = None \<Longrightarrow> announcement_replay st a = None \<Longrightarrow>
    announcement_refusal a probe now st = None \<Longrightarrow>
    retain_verified_pod_announcement x a dp_LOCAL now st = (st1, Inr k) \<Longrightarrow>
    admit_bootstrap_announcement x i a probe en now st =
      (fst (apply_admission (\<not> is_bootstrap_admitted st (pa_key a)) k now st1),
       Inr (snd (apply_admission (\<not> is_bootstrap_admitted st (pa_key a)) k now st1)))"
  by (simp add: admit_bootstrap_announcement_def split: prod.splits)

lemma admit_cases [case_names gate replay refusal not_retained applied]:
  obtains (gate) r where "announcement_gate x a en = Some r"
  | (replay) e where "announcement_gate x a en = None" "announcement_replay st a = Some e"
  | (refusal) r where "announcement_gate x a en = None" "announcement_replay st a = None"
      "announcement_refusal a probe now st = Some r"
  | (not_retained) st1 e where "announcement_gate x a en = None" "announcement_replay st a = None"
      "announcement_refusal a probe now st = None"
      "retain_verified_pod_announcement x a dp_LOCAL now st = (st1, Inl e)"
  | (applied) st1 k where "announcement_gate x a en = None" "announcement_replay st a = None"
      "announcement_refusal a probe now st = None"
      "retain_verified_pod_announcement x a dp_LOCAL now st = (st1, Inr k)"
  by (metis not_None_eq old.sum.exhaust surj_pair)

lemma apply_admission_eq:
  "apply_admission is_new k now st =
     (let ann = ka_announcement k;
          st2 = record_admission_attempt (pa_origin_node_id ann) now
                  (mark_bootstrap_admitted (pa_key ann) st)
      in (fst (append_stream_entry
                 (if is_new then SE_Admitted else SE_Renewed, AnnouncementPayload ann, now) st2),
          \<lparr> aa_outcome = (if is_new then OK_Admitted else OK_Renewed), aa_known = k,
            aa_stream_sequence = Some (rt_next_stream_sequence (runtime_of st)) \<rparr>))"
  using boot_log.append_seq[of "(if is_new then SE_Admitted else SE_Renewed,
      AnnouncementPayload (ka_announcement k), now)" "record_admission_attempt
      (pa_origin_node_id (ka_announcement k)) now (mark_bootstrap_admitted (pa_key (ka_announcement k)) st)"]
  by (auto simp: apply_admission_def append_announcement_stream_def Let_def split: prod.splits)

section \<open>Keeping the store well formed\<close>

definition admitted_ok :: "store \<Rightarrow> bool" where
  "admitted_ok st \<longleftrightarrow> sorted (rt_admitted_keys (runtime_of st)) \<and> distinct (rt_admitted_keys (runtime_of st))"

definition boot_ok :: "ext \<Rightarrow> store \<Rightarrow> bool" where
  "boot_ok x st \<longleftrightarrow> pods_ok x st \<and> stream_ok st \<and> admitted_ok st \<and>
     length (st_bootstrap_rejection_audits st) \<le> max_rejection_audits"

lemma runtime_of_empty [simp]: "runtime_of empty_store = bootstrap_runtime_default"
  by (simp add: runtime_of_def empty_store_def)

lemma boot_ok_empty: "boot_ok x empty_store"
  by (simp add: boot_ok_def pods_ok_empty stream_ok_def admitted_ok_def bootstrap_runtime_default_def
      u64_max_def) (simp add: empty_store_def u64_max_def)

lemma sorted_os_remove [simp]: "sorted s \<Longrightarrow> sorted (os_remove k s)"
  by (simp add: os_remove_def sorted_wrt_filter)

lemma boot_ok_mark: "boot_ok x st \<Longrightarrow> boot_ok x (mark_bootstrap_admitted k st)"
  by (simp add: boot_ok_def pods_ok_def stream_ok_def admitted_ok_def)

lemma boot_ok_unmark: "boot_ok x st \<Longrightarrow> boot_ok x (unmark_bootstrap_admitted k st)"
  by (simp add: boot_ok_def pods_ok_def stream_ok_def admitted_ok_def)

lemma boot_ok_record: "boot_ok x st \<Longrightarrow> boot_ok x (record_admission_attempt o1 now st)"
  by (simp add: boot_ok_def pods_ok_def stream_ok_def admitted_ok_def)

lemma boot_ok_append: "boot_ok x st \<Longrightarrow> boot_ok x (fst (append_stream_entry ev st))"
  using stream_ok_append[of st ev] by (simp add: boot_ok_def pods_ok_def admitted_ok_def)

lemma boot_ok_reject:
  "pods_ok x st \<Longrightarrow> stream_ok st \<Longrightarrow> admitted_ok st \<Longrightarrow> boot_ok x (fst (reject i r s now st))"
  by (simp add: boot_ok_def pods_ok_def stream_ok_def admitted_ok_def audits_bounded)

text \<open>The retain operations do not reach the runtime state, the stream or the audits.\<close>

lemma retain_announcement_frame:
  "st_bootstrap_runtime (fst (retain_verified_pod_announcement x a p now st)) = st_bootstrap_runtime st"
  "st_announcement_stream_entries (fst (retain_verified_pod_announcement x a p now st)) =
    st_announcement_stream_entries st"
  "st_bootstrap_rejection_audits (fst (retain_verified_pod_announcement x a p now st)) =
    st_bootstrap_rejection_audits st"
  by (auto simp: retain_verified_pod_announcement_def Let_def split: sum.splits option.splits)

lemma retain_withdrawal_frame:
  "st_bootstrap_runtime (fst (retain_verified_pod_withdrawal x w p now st)) = st_bootstrap_runtime st"
  "st_announcement_stream_entries (fst (retain_verified_pod_withdrawal x w p now st)) =
    st_announcement_stream_entries st"
  "st_bootstrap_rejection_audits (fst (retain_verified_pod_withdrawal x w p now st)) =
    st_bootstrap_rejection_audits st"
  by (auto simp: retain_verified_pod_withdrawal_def retain_new_withdrawal_def Let_def
      split: option.splits)

lemma boot_ok_retain_announcement:
  assumes "boot_ok x st"
  shows "boot_ok x (fst (retain_verified_pod_announcement x a p now st))"
  using assms pods_ok_retain_announcement[of x st a p now]
  by (simp add: boot_ok_def stream_ok_def admitted_ok_def runtime_of_def retain_announcement_frame)

lemma boot_ok_retain_withdrawal:
  assumes "boot_ok x st"
  shows "boot_ok x (fst (retain_verified_pod_withdrawal x w p now st))"
  using assms pods_ok_retain_withdrawal[of x st w p now]
  by (simp add: boot_ok_def stream_ok_def admitted_ok_def runtime_of_def retain_withdrawal_frame)

lemma boot_ok_apply_admission: "boot_ok x st \<Longrightarrow> boot_ok x (fst (apply_admission n k now st))"
  by (simp add: apply_admission_eq Let_def boot_ok_append boot_ok_record boot_ok_mark)

lemma boot_ok_rejected: "boot_ok x st \<Longrightarrow> boot_ok x (fst (reject i r s now st))"
  by (rule boot_ok_reject) (simp_all add: boot_ok_def)

lemma boot_ok_admit [wf_intros]:
  assumes ok: "boot_ok x st"
  shows "boot_ok x (fst (admit_bootstrap_announcement x i a probe en now st))"
proof (cases rule: admit_cases[where x = x and a = a and en = en and st = st and probe = probe and now = now])
  case (not_retained st1 e)
  have "boot_ok x st1" using boot_ok_retain_announcement[OF ok, of a dp_LOCAL now] not_retained by simp
  with not_retained show ?thesis by (simp add: admit_not_retained boot_ok_rejected)
next
  case (applied st1 k)
  have "boot_ok x st1" using boot_ok_retain_announcement[OF ok, of a dp_LOCAL now] applied by simp
  with applied show ?thesis by (simp add: admit_applied boot_ok_apply_admission)
qed (use ok in \<open>simp_all add: admit_gate admit_replay admit_refusal boot_ok_rejected\<close>)

lemma project_withdrawal_eq:
  "fst (project_bootstrap_withdrawal w now st) =
     (if is_bootstrap_admitted st (pw_key w)
      then fst (append_stream_entry (SE_Withdrawn, WithdrawalPayload w, now)
                 (unmark_bootstrap_admitted (pw_key w) st))
      else st)"
  by (simp add: project_bootstrap_withdrawal_def append_withdrawal_stream_def split: prod.splits)

lemma unmark_absent: "\<not> is_bootstrap_admitted st k \<Longrightarrow> unmark_bootstrap_admitted k st = st"
proof -
  assume a: "\<not> is_bootstrap_admitted st k"
  have "rt\<lparr>rt_admitted_keys := os_remove k (rt_admitted_keys rt)\<rparr> = rt"
    if "st_bootstrap_runtime st = Some rt" for rt
  proof -
    have "os_remove k (rt_admitted_keys rt) = rt_admitted_keys rt"
      using a that by (auto simp: is_bootstrap_admitted_def os_remove_def intro!: filter_True)
    then show ?thesis by simp
  qed
  then show ?thesis
    by (cases st) (auto simp: unmark_bootstrap_admitted_def split: option.splits)
qed

lemma apply_withdrawal_eq:
  "apply_withdrawal k now st =
     (let w = kw_withdrawal k;
          st1 = record_admission_attempt (pw_origin_node_id w) now st
      in (fst (append_stream_entry (SE_Withdrawn, WithdrawalPayload w, now)
                (unmark_bootstrap_admitted (pw_key w) st1)),
          \<lparr> wa_outcome = WK_Admitted, wa_known = k,
            wa_stream_sequence = Some (rt_next_stream_sequence (runtime_of st)) \<rparr>))"
proof -
  let ?w = "kw_withdrawal k"
  let ?s = "record_admission_attempt (pw_origin_node_id ?w) now st"
  note noop = unmark_absent[of ?s "pw_key ?w"]
  show ?thesis
    using boot_log.append_seq[of "(SE_Withdrawn, WithdrawalPayload ?w, now)" ?s]
      boot_log.append_seq[of "(SE_Withdrawn, WithdrawalPayload ?w, now)"
        "unmark_bootstrap_admitted (pw_key ?w) ?s"] noop
    by (auto simp: apply_withdrawal_def project_bootstrap_withdrawal_def append_withdrawal_stream_def
        Let_def split: prod.splits)
qed

lemma boot_ok_apply_withdrawal: "boot_ok x st \<Longrightarrow> boot_ok x (fst (apply_withdrawal k now st))"
  by (simp add: apply_withdrawal_eq Let_def boot_ok_append boot_ok_record boot_ok_unmark)

lemma boot_ok_project [wf_intros]: "boot_ok x st \<Longrightarrow> boot_ok x (fst (project_bootstrap_withdrawal w now st))"
  by (simp add: project_withdrawal_eq boot_ok_append boot_ok_unmark)

lemma boot_ok_withdraw [wf_intros]:
  assumes ok: "boot_ok x st"
  shows "boot_ok x (fst (admit_bootstrap_withdrawal x i w en now st))"
proof -
  have r: "boot_ok x st1" if "retain_verified_pod_withdrawal x w None now st = (st1, res)" for st1 res
    using boot_ok_retain_withdrawal[OF ok, of w None now] that by simp
  show ?thesis
    using ok by (auto simp: admit_bootstrap_withdrawal_def Let_def rejected_eq boot_ok_rejected
        boot_ok_apply_withdrawal dest!: r split: option.splits prod.splits sum.splits)
      (metis boot_ok_apply_withdrawal fst_conv)+
qed

lemma ensure_runtime_idle [simp]:
  "runtime_of (fst (ensure_bootstrap_runtime st)) = runtime_of st"
  "st_known_pod_announcements (fst (ensure_bootstrap_runtime st)) = st_known_pod_announcements st"
  "st_known_pod_withdrawals (fst (ensure_bootstrap_runtime st)) = st_known_pod_withdrawals st"
  "st_announcement_stream_entries (fst (ensure_bootstrap_runtime st)) = st_announcement_stream_entries st"
  "st_bootstrap_rejection_audits (fst (ensure_bootstrap_runtime st)) = st_bootstrap_rejection_audits st"
  by (simp_all add: ensure_bootstrap_runtime_def)

lemma boot_ok_ensure: "boot_ok x st \<Longrightarrow> boot_ok x (fst (ensure_bootstrap_runtime st))"
  by (simp add: boot_ok_def pods_ok_def stream_ok_def admitted_ok_def)

lemma boot_ok_unmarks: "boot_ok x st \<Longrightarrow> boot_ok x (fold unmark_bootstrap_admitted ks st)"
  by (induction ks arbitrary: st) (simp_all add: boot_ok_unmark)

lemma boot_ok_emits: "boot_ok x st \<Longrightarrow> boot_ok x (fold (emit_one_expiry now) cs st)"
  by (induction cs arbitrary: st) (simp_all add: emit_one_expiry_def boot_ok_unmark boot_ok_append)

lemma boot_ok_emit [wf_intros]: "boot_ok x st \<Longrightarrow> boot_ok x (fst (emit_expiry_transitions now st))"
  by (simp add: emit_expiry_transitions_def Let_def boot_ok_emits boot_ok_unmarks boot_ok_ensure)

lemma boot_ok_read [wf_intros]:
  "boot_ok x st \<Longrightarrow> boot_ok x (fst (read_announcement_stream c l en now st))"
  using boot_ok_emit[of x st now]
  by (auto simp: read_announcement_stream_def Let_def split: sum.splits prod.splits)

section \<open>Reachable states of a bootstrap node\<close>

text \<open>
  One request handled by a node: the two admissions, a stream read, and the retentions and the
  projection that its index and peer paths perform.
\<close>

inductive bootstrap_step :: "ext \<Rightarrow> store \<Rightarrow> store \<Rightarrow> bool" for x where
  admit: "bootstrap_step x st (fst (admit_bootstrap_announcement x i a probe en now st))"
| withdraw: "bootstrap_step x st (fst (admit_bootstrap_withdrawal x i w en now st))"
| read: "bootstrap_step x st (fst (read_announcement_stream c l en now st))"
| sweep: "bootstrap_step x st (fst (emit_expiry_transitions now st))"
| retain: "bootstrap_step x st (fst (retain_verified_pod_announcement x a p now st))"
| retain_withdrawal: "bootstrap_step x st (fst (retain_verified_pod_withdrawal x w peer now st))"
| project: "bootstrap_step x st (fst (project_bootstrap_withdrawal w now st))"

inductive bootstrap_reachable :: "ext \<Rightarrow> store \<Rightarrow> bool" for x where
  start: "bootstrap_reachable x empty_store"
| step: "bootstrap_reachable x st \<Longrightarrow> bootstrap_step x st st' \<Longrightarrow> bootstrap_reachable x st'"

inductive_cases bootstrap_stepE: "bootstrap_step x st st'"

lemma bootstrap_step_ok: "bootstrap_step x st st' \<Longrightarrow> boot_ok x st \<Longrightarrow> boot_ok x st'"
  by (erule bootstrap_stepE)
    (auto intro: wf_intros boot_ok_retain_announcement boot_ok_retain_withdrawal)

lemma bootstrap_reachable_ok: "bootstrap_reachable x st \<Longrightarrow> boot_ok x st"
  by (induction rule: bootstrap_reachable.induct) (auto intro: boot_ok_empty bootstrap_step_ok)

end
