(* ===== verification/Bootstrap_Props.thy ===== *)
theory Bootstrap_Props
  imports Bootstrap_Laws
begin

text \<open>
  The properties of open bootstrap admission and of the announcement stream.
\<close>

section \<open>What an applied admission leaves behind\<close>

lemma apply_admission_fields:
  "st_known_pod_announcements (fst (apply_admission n k now st)) = st_known_pod_announcements st"
  "st_known_pod_withdrawals (fst (apply_admission n k now st)) = st_known_pod_withdrawals st"
  "st_bootstrap_rejection_audits (fst (apply_admission n k now st)) = st_bootstrap_rejection_audits st"
  "rt_admitted_keys (runtime_of (fst (apply_admission n k now st))) =
     os_insert (pa_key (ka_announcement k)) (rt_admitted_keys (runtime_of st))"
  "rt_next_stream_sequence (runtime_of (fst (apply_admission n k now st))) =
     sat_add (rt_next_stream_sequence (runtime_of st)) 1"
  by (simp_all add: apply_admission_eq Let_def)

text \<open>The outcome of a submission that was neither rejected nor a replay.\<close>

lemma admitted_by:
  assumes r: "admit_bootstrap_announcement x i a probe en now st = (st', Inr acc)"
    and "aa_outcome acc \<noteq> OK_Idempotent"
  obtains st1 where "announcement_gate x a en = None" and "announcement_refusal a probe now st = None"
    and "retain_verified_pod_announcement x a dp_LOCAL now st = (st1, Inr (written st a dp_LOCAL now))"
    and "st' = fst (apply_admission (\<not> is_bootstrap_admitted st (pa_key a)) (written st a dp_LOCAL now) now st1)"
    and "acc = snd (apply_admission (\<not> is_bootstrap_admitted st (pa_key a)) (written st a dp_LOCAL now) now st1)"
proof (cases rule: admit_cases[where x = x and a = a and en = en and st = st and probe = probe and now = now])
  case (applied st1 k)
  moreover have "k = written st a dp_LOCAL now" using retain_success(3) applied(4) .
  ultimately show ?thesis using that r by (simp add: admit_applied)
next
  case (replay e)
  then have "aa_outcome acc = OK_Idempotent" using r by (auto simp: admit_replay)
  with assms(2) show ?thesis by simp
qed (use r in \<open>simp_all add: admit_gate admit_refusal admit_not_retained\<close>)

section \<open>A concrete admission\<close>

definition sample_probe :: origin_probe where
  "sample_probe = fixed_origin_probe (Some (probe_view_matching (sample_announcement 3 0))) None"

definition sample_admitted :: "uuid \<Rightarrow> time \<Rightarrow> store" where
  "sample_admitted i t =
     fst (admit_bootstrap_announcement sample_ext 9 (sample_announcement i t) sample_probe True t
       empty_store)"

lemma sample_trim [simp]: "trim sample_key \<noteq> []" "trim ''p'' \<noteq> []"
  by (simp_all add: trim_plain sample_key_def is_plain_def list_all_iff)

lemma sample_gate [simp]: "announcement_gate sample_ext (sample_announcement i t) True = None"
  "withdrawal_gate sample_ext (sample_withdrawal i t) True = None"
  by (simp_all add: announcement_gate_def withdrawal_gate_def estimated_payload_bytes_def
      max_announcement_payload_bytes_def max_withdrawal_payload_bytes_def)
    (simp_all add: sample_ext_def sample_announcement_def sample_withdrawal_def node_info_of_def
      sample_node_def)

lemma sample_manifest [simp]:
  "sample_probe u p = Inr (probe_view_matching (sample_announcement 3 0))"
  "manifest_matches (sample_announcement i t) (probe_view_matching (sample_announcement 3 0)) = Inr ()"
  by (simp_all add: sample_probe_def fixed_origin_probe_def manifest_matches_def
      probe_view_matching_def sample_announcement_def node_info_of_def)

lemma sample_retained:
  "retain_verified_pod_announcement sample_ext (sample_announcement i t) dp_LOCAL t empty_store =
     (sample_stored i t, Inr (written empty_store (sample_announcement i t) dp_LOCAL t))"
proof -
  have ad: "admissible sample_ext empty_store (sample_announcement i t) t"
    by (simp add: admissible_def empty_store_def)
  have su: "\<not> superseded empty_store (sample_announcement i t) t"
    by (simp add: superseded_def empty_store_def)
  show ?thesis using retain_accepted[OF ad su, of dp_LOCAL] by (simp add: sample_stored_def)
qed

lemma sample_refusal [simp]:
  "announcement_refusal (sample_announcement i t) sample_probe t empty_store = None"
  by (simp add: announcement_refusal_def rate_limit_would_exceed_def is_bootstrap_admitted_def
      active_bootstrap_count_for_origin_def max_active_announcements_per_origin_def)
    (simp add: empty_store_def List.map_filter_simps)

lemma sample_admit:
  "admit_bootstrap_announcement sample_ext 9 (sample_announcement i t) sample_probe True t empty_store =
     (sample_admitted i t,
      Inr \<lparr> aa_outcome = OK_Admitted,
            aa_known = written empty_store (sample_announcement i t) dp_LOCAL t,
            aa_stream_sequence = Some 1 \<rparr>)"
proof -
  have rp: "announcement_replay empty_store (sample_announcement i t) = None"
    and nw: "\<not> is_bootstrap_admitted empty_store (4, ''p'')"
    by (simp_all add: announcement_replay_def is_bootstrap_admitted_def empty_store_def)
  have rt: "runtime_of (sample_stored i t) = bootstrap_runtime_default"
    by (simp add: sample_stored_eq empty_store_def runtime_of_def)
  show ?thesis
    using admit_applied[OF sample_gate(1) rp sample_refusal sample_retained, of 9] nw rt
    by (simp add: sample_admitted_def apply_admission_eq Let_def bootstrap_runtime_default_def)
qed

lemma sample_admitted_reachable: "bootstrap_reachable sample_ext (sample_admitted i t)"
  unfolding sample_admitted_def
  by (rule bootstrap_reachable.step[OF bootstrap_reachable.start bootstrap_step.admit])

section \<open>Admission\<close>

text \<open>C4: Nothing is admitted or renewed unless admission is enabled, the payload is within 16 KiB, the
  signer is the origin and speaks this protocol, the limits are not exhausted, the origin is
  reachable and serves the manifest of a public pod, of this protocol, with the announcement's slug,
  name, subject, package version and latest event hash, that names no other origin, the signature and
  the lease are valid, and, for a pod not admitted yet, the origin has fewer than 8 active pods.\<close>

theorem admission_requires_every_check:
  assumes r: "admit_bootstrap_announcement x i a probe en now st = (st', Inr acc)"
    and new: "aa_outcome acc \<noteq> OK_Idempotent"
  shows "en \<and> estimated_payload_bytes x (json_announcement a) \<le> 16384 \<and>
     pa_origin_node_id a = ni_node_id (pa_signer a) \<and>
     ni_supported_protocol_version (pa_signer a) = ''stumble/1.0'' \<and>
     pa_verify x a = Inr True \<and> now < pa_expires_at a \<and>
     \<not> rate_limit_would_exceed st (pa_origin_node_id a) now \<and>
     (\<exists>view. probe (pa_public_pod_url a) (pa_pod_slug a) = Inr view \<and>
        mv_visibility_public view \<and> mv_origin_node_id view \<in> {None, Some (pa_origin_node_id a)} \<and>
        mv_pod_slug view = pa_pod_slug a \<and> mv_pod_name view = pa_pod_name a \<and>
        mv_subject view = pa_subject a \<and>
        mv_package_version view = pa_package_version a \<and>
        mv_latest_event_hash view = pa_latest_event_hash a \<and>
        mv_protocol_version view = ''stumble/1.0'') \<and>
     (is_bootstrap_admitted st (pa_origin_node_id a, pa_pod_slug a) \<or>
      count_active_origin_announcements st (pa_origin_node_id a) now < 8)"
proof -
  obtain st1 where g: "announcement_gate x a en = None"
    and rf: "announcement_refusal a probe now st = None"
    and rt: "retain_verified_pod_announcement x a dp_LOCAL now st = (st1, Inr (written st a dp_LOCAL now))"
    using admitted_by[OF r new] .
  obtain view where p: "probe (pa_public_pod_url a) (pa_pod_slug a) = Inr view"
    and m: "manifest_matches a view = Inr ()"
    using rf by (auto simp: announcement_refusal_def split: if_splits sum.splits origin_probe_error.splits)
  have rate: "\<not> rate_limit_would_exceed st (pa_origin_node_id a) now"
    using rf by (auto simp: announcement_refusal_def)
  have quota: "is_bootstrap_admitted st (pa_key a) \<or>
      active_bootstrap_count_for_origin st (pa_origin_node_id a) now < max_active_announcements_per_origin"
    using rf p m rate by (auto simp: announcement_refusal_def split: if_splits)
  have ad: "admissible x st a now" using retain_success(1)[OF rt] .
  show ?thesis
    using g ad rate p quota m
    by (auto simp: announcement_gate_def admissible_def pa_lease_is_active_def pa_key_def
        count_active_origin_announcements_def max_active_announcements_per_origin_def
        max_announcement_payload_bytes_def current_protocol_version_def manifest_matches_def
        split: if_splits option.splits)
qed

theorem admission_requires_every_check_witness:
  "estimated_payload_bytes sample_ext (json_announcement (sample_announcement 1 5)) \<le> 16384 \<and>
   count_active_origin_announcements empty_store 4 5 < 8"
  using admission_requires_every_check[OF sample_admit[of 1 5]]
  by (auto simp: is_bootstrap_admitted_def empty_store_def)

text \<open>An accepted announcement is stored and admitted; its outcome and its lifecycle row say
  whether the pod was new, and the row is readable in the stream under the sequence number the
  response reports.\<close>

theorem admission_effect:
  assumes r: "admit_bootstrap_announcement x i a probe en now st = (st', Inr acc)"
    and new: "aa_outcome acc \<noteq> OK_Idempotent"
    and reach: "bootstrap_reachable x st" and room: "rt_next_stream_sequence (runtime_of st) < u64_max"
  shows "(\<exists>k. om_get (st_known_pod_announcements st') (pa_origin_node_id a, pa_pod_slug a) = Some k \<and>
            ka_announcement k = a \<and> aa_known acc = k) \<and>
     is_bootstrap_admitted st' (pa_origin_node_id a, pa_pod_slug a) \<and>
     aa_outcome acc = (if is_bootstrap_admitted st (pa_origin_node_id a, pa_pod_slug a)
                       then OK_Renewed else OK_Admitted) \<and>
     (\<exists>n row. aa_stream_sequence acc = Some n \<and> om_get (st_announcement_stream_entries st') n = Some row \<and>
        se_sequence row = n \<and> se_recorded_at row = now \<and> se_payload row = AnnouncementPayload a \<and>
        se_kind row = (if is_bootstrap_admitted st (pa_origin_node_id a, pa_pod_slug a)
                       then SE_Renewed else SE_Admitted) \<and>
        rt_next_stream_sequence (runtime_of st') = n + 1)"
proof -
  let ?k = "written st a dp_LOCAL now" and ?n = "\<not> is_bootstrap_admitted st (pa_key a)"
  obtain st1 where rt: "retain_verified_pod_announcement x a dp_LOCAL now st = (st1, Inr ?k)"
    and st': "st' = fst (apply_admission ?n ?k now st1)" and acc: "acc = snd (apply_admission ?n ?k now st1)"
    using admitted_by[OF r new] .
  have "boot_ok x st1"
    using boot_ok_retain_announcement[OF bootstrap_reachable_ok[OF reach], of a dp_LOCAL now] rt by simp
  moreover have rt1: "runtime_of st1 = runtime_of st"
    using retain_announcement_frame(1)[of x a dp_LOCAL now st] rt by (simp add: runtime_of_def)
  ultimately have ok1: "boot_log_ok st1" using room by (simp add: boot_ok_def stream_ok_def)
  define st2 where "st2 = record_admission_attempt (pa_origin_node_id a) now
      (mark_bootstrap_admitted (pa_key a) st1)"
  have ok2: "boot_log_ok st2" using ok1 by (simp add: st2_def)
  have st'2: "st' = fst (append_stream_entry
      (if ?n then SE_Admitted else SE_Renewed, AnnouncementPayload a, now) st2)"
    and acc2: "acc = \<lparr> aa_outcome = (if ?n then OK_Admitted else OK_Renewed), aa_known = ?k,
      aa_stream_sequence = Some (rt_next_stream_sequence (runtime_of st)) \<rparr>"
    using st' acc rt1 by (simp_all add: apply_admission_eq Let_def st2_def)
  have "st_known_pod_announcements st' = om_put (pa_key a) ?k (st_known_pod_announcements st)"
    using st' retain_success(4)[OF rt] by (simp add: apply_admission_fields)
  moreover have "om_get (st_announcement_stream_entries st') (rt_next_stream_sequence (runtime_of st)) =
      Some (stream_row (if ?n then SE_Admitted else SE_Renewed, AnnouncementPayload a, now)
        (rt_next_stream_sequence (runtime_of st)))"
    using boot_log.append_readable[OF ok2] st'2 rt1 by (simp add: st2_def)
  moreover have "rt_admitted_keys (runtime_of st') = os_insert (pa_key a) (rt_admitted_keys (runtime_of st))"
    and "rt_next_stream_sequence (runtime_of st') = rt_next_stream_sequence (runtime_of st) + 1"
    using st' rt1 room by (simp_all add: apply_admission_fields)
  ultimately show ?thesis
    using acc2 by (simp add: is_admitted_runtime stream_row_def pa_key_def)
qed

theorem admission_effect_witness:
  "is_bootstrap_admitted (sample_admitted 1 5) (4, ''p'') \<and>
   rt_next_stream_sequence (runtime_of (sample_admitted 1 5)) = 2"
  using admission_effect[OF sample_admit[of 1 5] _ bootstrap_reachable.start]
  by (auto simp: bootstrap_runtime_default_def u64_max_def)

text \<open>A rejected submission stores no announcement, admits nothing and writes no lifecycle row; it
  leaves one audit row with its reason, and at most 1024 audit rows are kept.\<close>

theorem rejection_only_audits:
  assumes r: "admit_bootstrap_announcement x i a probe en now st = (st', Inl reason)"
  shows "st_known_pod_announcements st' = st_known_pod_announcements st \<and>
     st_bootstrap_runtime st' = st_bootstrap_runtime st \<and>
     st_announcement_stream_entries st' = st_announcement_stream_entries st \<and>
     length (st_bootstrap_rejection_audits st') \<le> 1024 \<and>
     au_reason (last (st_bootstrap_rejection_audits st')) = reason \<and>
     au_rejected_at (last (st_bootstrap_rejection_audits st')) = now \<and>
     au_origin_node_id (last (st_bootstrap_rejection_audits st')) = Some (pa_origin_node_id a)"
proof -
  obtain st1 where st': "st' = fst (reject i reason (rs_from_announcement a) now st1)"
    and a1: "st_known_pod_announcements st1 = st_known_pod_announcements st"
    and rt: "st_bootstrap_runtime st1 = st_bootstrap_runtime st"
    and es: "st_announcement_stream_entries st1 = st_announcement_stream_entries st"
  proof (cases rule: admit_cases[where x = x and a = a and en = en and st = st and probe = probe and now = now])
    case (not_retained st1 e)
    have "st_known_pod_announcements st1 = st_known_pod_announcements st"
      using retain_failure[OF not_retained(4)] by (simp split: if_splits)
    moreover have "st_bootstrap_runtime st1 = st_bootstrap_runtime st"
      and "st_announcement_stream_entries st1 = st_announcement_stream_entries st"
      using retain_announcement_frame(1,2)[of x a dp_LOCAL now st] not_retained(4) by simp_all
    moreover have "st' = fst (reject i reason (rs_from_announcement a) now st1)"
      using r not_retained by (auto simp: admit_not_retained)
    ultimately show ?thesis using that by blast
  qed (use r that in \<open>auto simp: admit_gate admit_replay admit_refusal admit_applied\<close>)
  obtain older where "st_bootstrap_rejection_audits st' = older @
     [\<lparr> au_id = i, au_origin_node_id = Some (pa_origin_node_id a),
        au_origin_public_key = Some (ni_public_key (pa_signer a)), au_pod_slug = Some (pa_pod_slug a),
        au_reason = reason, au_rejected_at = now \<rparr>]"
    using reject_newest[of i reason "rs_from_announcement a" now st1] st'
    by (auto simp: rs_from_announcement_def)
  moreover have "length (st_bootstrap_rejection_audits st') \<le> 1024"
    using audits_bounded[of i reason "rs_from_announcement a" now st1] st'
    by (simp add: max_rejection_audits_def)
  ultimately show ?thesis using st' a1 rt es by simp
qed

theorem rejection_only_audits_witness:
  "\<exists>st'. admit_bootstrap_announcement sample_ext 9 (sample_announcement 1 5) sample_probe False 5
      empty_store = (st', Inl BR_BootstrapDisabled) \<and>
    au_reason (last (st_bootstrap_rejection_audits st')) = BR_BootstrapDisabled"
proof -
  have g: "announcement_gate sample_ext (sample_announcement 1 5) False = Some BR_BootstrapDisabled"
    by (simp add: announcement_gate_def)
  note r = admit_gate[OF g, of 9 sample_probe 5 empty_store]
  from rejection_only_audits[OF r] r show ?thesis by blast
qed

text \<open>Submitting an accepted announcement again, at any later time and whatever the probe then
  says, is answered as idempotent and changes nothing.\<close>

theorem resubmission_is_idempotent:
  assumes r: "admit_bootstrap_announcement x i a probe en now st = (st', Inr acc)"
  shows "admit_bootstrap_announcement x j a probe' en later st' =
     (st', Inr \<lparr> aa_outcome = OK_Idempotent, aa_known = aa_known acc, aa_stream_sequence = None \<rparr>)"
proof (cases rule: admit_cases[where x = x and a = a and en = en and st = st and probe = probe and now = now])
  case (replay e)
  then have "st' = st" and "aa_known acc = e" using r by (auto simp: admit_replay)
  with replay show ?thesis by (simp add: admit_replay)
next
  case (applied st1 k)
  have k: "k = written st a dp_LOCAL now" using retain_success(3) applied(4) .
  have st': "st' = fst (apply_admission (\<not> is_bootstrap_admitted st (pa_key a)) k now st1)"
    and acc: "aa_known acc = k"
    using r applied by (auto simp: admit_applied apply_admission_eq Let_def)
  have "st_known_pod_announcements st' = om_put (pa_key a) k (st_known_pod_announcements st)"
    using st' retain_success(4)[OF applied(4)] k by (simp add: apply_admission_fields)
  moreover have "is_bootstrap_admitted st' (pa_key a)"
    using st' k by (simp add: is_admitted_runtime apply_admission_fields)
  ultimately have "announcement_replay st' a = Some k" using k by (simp add: announcement_replay_def)
  with applied(1) acc show ?thesis by (simp add: admit_replay)
qed (use r in \<open>simp_all add: admit_gate admit_refusal admit_not_retained\<close>)

theorem resubmission_is_idempotent_witness:
  "\<exists>acc. admit_bootstrap_announcement sample_ext 10 (sample_announcement 1 5) unreachable_origin_probe
      True 8 (sample_admitted 1 5) = (sample_admitted 1 5, Inr acc) \<and> aa_outcome acc = OK_Idempotent"
  using resubmission_is_idempotent[OF sample_admit[of 1 5], of 10 unreachable_origin_probe 8] by simp

end
