(* ===== verification/Bootstrap_Bounds.thy ===== *)
theory Bootstrap_Bounds
  imports Bootstrap_Props
begin

text \<open>
  The bounds of a bootstrap node: at most 8 active pods per origin after a new admission, the
  sliding-window limits over any run of submissions, and the expiry sweep.
\<close>

section \<open>Counting active pods\<close>

definition active_at :: "store \<Rightarrow> time \<Rightarrow> pod_key \<Rightarrow> bool" where
  "active_at st now key \<longleftrightarrow>
     (case om_get (st_known_pod_announcements st) key of
        None \<Rightarrow> False | Some k \<Rightarrow> announcement_is_discovery_eligible st (ka_announcement k) now)"

lemma length_filter_map_filter:
  "length (filter P (List.map_filter f xs)) =
     length (filter (\<lambda>a. case f a of None \<Rightarrow> False | Some v \<Rightarrow> P v) xs)"
  by (induction xs) (auto simp: List.map_filter_simps split: option.splits)

lemma active_count_card:
  assumes "admitted_ok st"
  shows "active_bootstrap_count_for_origin st o1 now =
    card {key \<in> set (rt_admitted_keys (runtime_of st)). fst key = o1 \<and> active_at st now key}"
proof -
  let ?ks = "filter (\<lambda>key. fst key = o1) (rt_admitted_keys (runtime_of st))"
  have ks: "(case st_bootstrap_runtime st of None \<Rightarrow> []
      | Some runtime \<Rightarrow> filter (\<lambda>key. fst key = o1) (rt_admitted_keys runtime)) = ?ks"
    by (simp add: runtime_of_def bootstrap_runtime_default_def split: option.splits)
  have "active_bootstrap_count_for_origin st o1 now = length (filter (active_at st now) ?ks)"
    unfolding active_bootstrap_count_for_origin_def ks Let_def length_filter_map_filter active_at_def ..
  also have "\<dots> = card (set (filter (active_at st now) ?ks))"
    using assms by (intro distinct_card [symmetric]) (simp add: admitted_ok_def)
  also have "set (filter (active_at st now) ?ks) =
      {key \<in> set (rt_admitted_keys (runtime_of st)). fst key = o1 \<and> active_at st now key}"
    by auto
  finally show ?thesis .
qed

text \<open>Retaining an announcement of one pod leaves the activity of the others as it was.\<close>

lemma active_elsewhere:
  assumes ok: "pods_ok x st"
    and r: "retain_verified_pod_announcement x a p now st = (st1, Inr k)"
    and other: "key \<noteq> pa_key a"
  shows "active_at st1 t key = active_at st t key"
proof -
  note st1 = retain_success(4)[OF r]
  have "om_get (st_known_pod_announcements st1) key = om_get (st_known_pod_announcements st) key"
    using other st1 by simp
  moreover have "announcement_is_discovery_eligible st1 (ka_announcement e) t =
      announcement_is_discovery_eligible st (ka_announcement e) t"
    if "om_get (st_known_pod_announcements st) key = Some e" for e
  proof -
    have "pa_key (ka_announcement e) = key" using pods_ok_stored[OF ok that] by simp
    with other st1 show ?thesis by (simp add: announcement_is_discovery_eligible_def)
  qed
  ultimately show ?thesis by (simp add: active_at_def split: option.splits)
qed

lemma active_at_cong:
  "st_known_pod_announcements st' = st_known_pod_announcements st \<Longrightarrow>
   st_known_pod_withdrawals st' = st_known_pod_withdrawals st \<Longrightarrow> active_at st' = active_at st"
  by (simp add: active_at_def announcement_is_discovery_eligible_def fun_eq_iff split: option.splits)

text \<open>C26: Admitting a pod that was not admitted before never leaves its origin with more than 8 active
  admitted pods.\<close>

theorem new_admission_within_quota:
  assumes reach: "bootstrap_reachable x st"
    and r: "admit_bootstrap_announcement x i a probe en now st = (st', Inr acc)"
    and new: "aa_outcome acc = OK_Admitted"
  shows "count_active_origin_announcements st' (pa_origin_node_id a) now \<le> 8"
proof -
  have ok: "boot_ok x st" using bootstrap_reachable_ok[OF reach] .
  have ni: "aa_outcome acc \<noteq> OK_Idempotent" using new by simp
  let ?k = "written st a dp_LOCAL now" and ?o = "pa_origin_node_id a"
  obtain st1 where rf: "announcement_refusal a probe now st = None"
    and rt: "retain_verified_pod_announcement x a dp_LOCAL now st = (st1, Inr ?k)"
    and st': "st' = fst (apply_admission (\<not> is_bootstrap_admitted st (pa_key a)) ?k now st1)"
    and acc: "acc = snd (apply_admission (\<not> is_bootstrap_admitted st (pa_key a)) ?k now st1)"
    using admitted_by[OF r ni] .
  have fresh: "\<not> is_bootstrap_admitted st (pa_key a)"
    using acc new by (auto simp: apply_admission_eq Let_def split: if_splits)
  let ?A = "\<lambda>s. {key \<in> set (rt_admitted_keys (runtime_of s)). fst key = ?o \<and> active_at s now key}"
  have "active_bootstrap_count_for_origin st ?o now < 8"
    using rf fresh by (auto simp: announcement_refusal_def max_active_announcements_per_origin_def
        split: if_splits sum.splits origin_probe_error.splits)
  then have before: "card (?A st) < 8"
    using ok by (simp add: active_count_card boot_ok_def)
  have "active_at st' = active_at st1"
    using st' by (intro active_at_cong) (simp_all add: apply_admission_fields)
  moreover have "runtime_of st1 = runtime_of st"
    using retain_announcement_frame(1)[of x a dp_LOCAL now st] rt by (simp add: runtime_of_def)
  moreover have "rt_admitted_keys (runtime_of st') =
      os_insert (pa_key a) (rt_admitted_keys (runtime_of st1))"
    using st' by (simp add: apply_admission_fields)
  ultimately have "?A st' \<subseteq> insert (pa_key a) (?A st)"
    using active_elsewhere[OF _ rt] ok by (auto simp: boot_ok_def)
  then have "card (?A st') \<le> card (insert (pa_key a) (?A st))" by (intro card_mono) auto
  also have "\<dots> \<le> Suc (card (?A st))" by (simp add: card_insert_if)
  finally have "card (?A st') \<le> 8" using before by simp
  moreover have "admitted_ok st'"
    using boot_ok_admit[OF ok, of i a probe en now] r by (simp add: boot_ok_def)
  ultimately show ?thesis
    by (simp add: count_active_origin_announcements_def active_count_card)
qed

theorem new_admission_within_quota_witness:
  "count_active_origin_announcements (sample_admitted 2 5) 4 5 \<le> 8"
  using new_admission_within_quota[OF bootstrap_reachable.start sample_admit[of 2 5]] by simp

section \<open>Rate limits over a run\<close>

datatype submission =
    SubmitAnnouncement uuid pod_announcement origin_probe bool time
  | SubmitWithdrawal uuid pod_withdrawal bool time

fun submission_time :: "submission \<Rightarrow> time" where
  "submission_time (SubmitAnnouncement _ _ _ _ now) = now"
| "submission_time (SubmitWithdrawal _ _ _ now) = now"

text \<open>One submission, with the history of applied (not replayed) acceptances: origin and time.\<close>

fun submit :: "ext \<Rightarrow> submission \<Rightarrow> store \<times> (uuid \<times> time) list \<Rightarrow> store \<times> (uuid \<times> time) list" where
  "submit x (SubmitAnnouncement i a probe en now) (st, h) =
     (case admit_bootstrap_announcement x i a probe en now st of
        (st', Inl _) \<Rightarrow> (st', h)
      | (st', Inr acc) \<Rightarrow>
          (st', if aa_outcome acc = OK_Idempotent then h else h @ [(pa_origin_node_id a, now)]))"
| "submit x (SubmitWithdrawal i w en now) (st, h) =
     (case admit_bootstrap_withdrawal x i w en now st of
        (st', Inl _) \<Rightarrow> (st', h)
      | (st', Inr acc) \<Rightarrow>
          (st', if wa_outcome acc = WK_Idempotent then h else h @ [(pw_origin_node_id w, now)]))"

text \<open>What the limiter sees of a store.\<close>

definition attempts :: "store \<Rightarrow> time list \<times> (uuid, time list) omap" where
  "attempts st = (rt_recent_network_admissions (runtime_of st), rt_recent_origin_admissions (runtime_of st))"

lemma attempts_same [simp]:
  "attempts (fst (reject i r s now st)) = attempts st"
  "attempts (mark_bootstrap_admitted k st) = attempts st"
  "attempts (unmark_bootstrap_admitted k st) = attempts st"
  "attempts (fst (append_stream_entry ev st)) = attempts st"
  by (simp_all add: attempts_def)

lemma attempts_retain:
  "retain_verified_pod_announcement x a p now st = (st1, res) \<Longrightarrow> attempts st1 = attempts st"
  "retain_verified_pod_withdrawal x w peer now st = (st1, res') \<Longrightarrow> attempts st1 = attempts st"
  using retain_announcement_frame(1)[of x a p now st] retain_withdrawal_frame(1)[of x w peer now st]
  by (simp_all add: attempts_def runtime_of_def)

lemma tracks_attempts:
  "attempts st' = attempts st \<Longrightarrow> boot_rate.tracks st' h now = boot_rate.tracks st h now"
  by (rule boot_rate.tracks_cong) (auto simp: attempts_def)

lemma exceeds_attempts:
  "attempts st' = attempts st \<Longrightarrow> rate_limit_would_exceed st' k now = rate_limit_would_exceed st k now"
  by (simp add: boot_rate.exceeds_iff attempts_def)

lemma attempts_record:
  "attempts st' = attempts st \<Longrightarrow>
    attempts (record_admission_attempt k now st') = attempts (record_admission_attempt k now st)"
  by (simp add: attempts_def)

text \<open>An applied acceptance is one recorded attempt, made while the limits had room.\<close>

lemma announcement_attempts:
  assumes r: "admit_bootstrap_announcement x i a probe en now st = (st', Inr acc)"
    and "aa_outcome acc \<noteq> OK_Idempotent"
  shows "attempts st' = attempts (record_admission_attempt (pa_origin_node_id a) now st)"
    and "\<not> rate_limit_would_exceed st (pa_origin_node_id a) now"
proof -
  obtain st1 where rf: "announcement_refusal a probe now st = None"
    and rt: "retain_verified_pod_announcement x a dp_LOCAL now st = (st1, Inr (written st a dp_LOCAL now))"
    and st': "st' = fst (apply_admission (\<not> is_bootstrap_admitted st (pa_key a)) (written st a dp_LOCAL now) now st1)"
    using admitted_by[OF assms] .
  show "\<not> rate_limit_would_exceed st (pa_origin_node_id a) now"
    using rf by (auto simp: announcement_refusal_def)
  show "attempts st' = attempts (record_admission_attempt (pa_origin_node_id a) now st)"
    using st' attempts_retain(1)[OF rt]
    by (simp add: apply_admission_eq Let_def) (rule attempts_record, simp)
qed

lemma announcement_attempts_else:
  assumes "admit_bootstrap_announcement x i a probe en now st = (st', res)"
    and "\<forall>acc. res = Inr acc \<longrightarrow> aa_outcome acc = OK_Idempotent"
  shows "attempts st' = attempts st"
proof (cases rule: admit_cases[where x = x and a = a and en = en and st = st and probe = probe and now = now])
  case (not_retained st1 e)
  with assms(1) attempts_retain(1)[OF not_retained(4)] show ?thesis by (auto simp: admit_not_retained)
next
  case (applied st1 k)
  with assms show ?thesis by (auto simp: admit_applied apply_admission_eq Let_def split: if_splits)
qed (use assms(1) in \<open>auto simp: admit_gate admit_replay admit_refusal\<close>)

lemma withdrawal_attempts:
  assumes r: "admit_bootstrap_withdrawal x i w en now st = (st', Inr acc)"
    and "wa_outcome acc \<noteq> WK_Idempotent"
  shows "attempts st' = attempts (record_admission_attempt (pw_origin_node_id w) now st)"
    and "\<not> rate_limit_would_exceed st (pw_origin_node_id w) now"
proof -
  obtain st1 k where nr: "\<not> rate_limit_would_exceed st (pw_origin_node_id w) now"
    and rt: "retain_verified_pod_withdrawal x w None now st = (st1, Inr k)"
    and st': "st' = fst (apply_withdrawal k now st1)"
    using assms by (auto simp: admit_bootstrap_withdrawal_def rejected_eq Let_def
        split: option.splits if_splits prod.splits sum.splits)
  show "\<not> rate_limit_would_exceed st (pw_origin_node_id w) now" by (rule nr)
  show "attempts st' = attempts (record_admission_attempt (pw_origin_node_id w) now st)"
    using st' attempts_retain(2)[OF rt] retain_withdrawal_success(3)[OF rt]
    by (simp add: apply_withdrawal_eq Let_def) (rule attempts_record, simp)
qed

lemma withdrawal_attempts_else:
  assumes "admit_bootstrap_withdrawal x i w en now st = (st', res)"
    and "\<forall>acc. res = Inr acc \<longrightarrow> wa_outcome acc = WK_Idempotent"
  shows "attempts st' = attempts st"
  using assms
  by (auto simp: admit_bootstrap_withdrawal_def rejected_eq Let_def apply_withdrawal_eq
      split: option.splits if_splits prod.splits sum.splits dest: attempts_retain)

text \<open>A submission either adds nothing to the history and the limiter's record, or one attempt to each.\<close>

definition one_attempt ::
  "store \<Rightarrow> (uuid \<times> time) list \<Rightarrow> time \<Rightarrow> store \<Rightarrow> (uuid \<times> time) list \<Rightarrow> bool" where
  "one_attempt st h now st' h' \<longleftrightarrow>
     (h' = h \<and> attempts st' = attempts st) \<or>
     (\<exists>k. h' = h @ [(k, now)] \<and> \<not> rate_limit_would_exceed st k now \<and>
        attempts st' = attempts (record_admission_attempt k now st))"

lemma submit_announcement_attempt:
  assumes s: "submit x (SubmitAnnouncement i a probe en now) (st, h) = (st', h')"
  shows "one_attempt st h now st' h'"
proof -
  obtain st2 res where r: "admit_bootstrap_announcement x i a probe en now st = (st2, res)"
    by (cases "admit_bootstrap_announcement x i a probe en now st")
  show ?thesis
  proof (cases "\<exists>acc. res = Inr acc \<and> aa_outcome acc \<noteq> OK_Idempotent")
    case True
    with s r announcement_attempts[of x i a probe en now st st2] show ?thesis
      by (auto simp: one_attempt_def)
  next
    case False
    then have "attempts st2 = attempts st" using announcement_attempts_else[OF r] by blast
    with False s r show ?thesis by (cases res) (auto simp: one_attempt_def)
  qed
qed

lemma submit_withdrawal_attempt:
  assumes s: "submit x (SubmitWithdrawal i w en now) (st, h) = (st', h')"
  shows "one_attempt st h now st' h'"
proof -
  obtain st2 res where r: "admit_bootstrap_withdrawal x i w en now st = (st2, res)"
    by (cases "admit_bootstrap_withdrawal x i w en now st")
  show ?thesis
  proof (cases "\<exists>acc. res = Inr acc \<and> wa_outcome acc \<noteq> WK_Idempotent")
    case True
    with s r withdrawal_attempts[of x i w en now st st2] show ?thesis
      by (auto simp: one_attempt_def)
  next
    case False
    then have "attempts st2 = attempts st" using withdrawal_attempts_else[OF r] by blast
    with False s r show ?thesis by (cases res) (auto simp: one_attempt_def)
  qed
qed

lemma submit_tracks:
  assumes tr: "boot_rate.tracks st h now" and le: "now \<le> submission_time s"
    and s: "submit x s (st, h) = (st', h')"
  shows "boot_rate.tracks st' h' (submission_time s)"
proof -
  have tr': "boot_rate.tracks st h (submission_time s)" using boot_rate.tracks_mono[OF tr le] .
  have "one_attempt st h (submission_time s) st' h'"
    using s submit_announcement_attempt submit_withdrawal_attempt
    by (cases s) (simp_all only: submission_time.simps)
  then show ?thesis
    using tr' boot_rate.tracks_record[OF tr'] tracks_attempts unfolding one_attempt_def by metis
qed

lemma submit_run_tracks:
  "boot_rate.tracks st h now \<Longrightarrow> sorted (map submission_time ss) \<Longrightarrow>
    (\<forall>s \<in> set ss. now \<le> submission_time s) \<Longrightarrow> fold (submit x) ss (st, h) = (st', h') \<Longrightarrow>
    \<exists>t. boot_rate.tracks st' h' t"
proof (induction ss arbitrary: st h now)
  case (Cons s ss)
  obtain st1 h1 where s: "submit x s (st, h) = (st1, h1)" by (cases "submit x s (st, h)")
  have "boot_rate.tracks st1 h1 (submission_time s)"
    using submit_tracks[OF Cons.prems(1) _ s] Cons.prems(3) by simp
  then show ?case using Cons.IH[of st1 h1 "submission_time s"] Cons.prems s by auto
qed auto

text \<open>C5: Over any run of submissions with a clock that does not go back, no hour, wherever it ends,
  contains more than 512 applied admissions, nor more than 24 of one origin.\<close>

theorem admissions_rate_bounded:
  assumes "sorted (map submission_time ss)"
    and "fold (submit x) ss (empty_store, []) = (st', h)"
  shows "length (accepted_in (hours 1) t (map snd h)) \<le> 512 \<and>
         length (accepted_in (hours 1) t (map snd (filter (\<lambda>e. fst e = origin) h))) \<le> 24"
proof -
  define t0 where "t0 = (case ss of [] \<Rightarrow> 0 | s # _ \<Rightarrow> submission_time s)"
  have "boot_rate.tracks empty_store [] t0"
    by (rule boot_rate.tracks_fresh) (simp_all add: bootstrap_runtime_default_def attempts_of_def)
  moreover have "\<forall>s \<in> set ss. t0 \<le> submission_time s"
    using assms(1) by (cases ss) (auto simp: t0_def)
  ultimately obtain u where tr: "boot_rate.tracks st' h u"
    using submit_run_tracks assms by blast
  show ?thesis
    using boot_rate.network_bound[OF tr, of t] boot_rate.key_bound[OF tr, of t origin]
    by (simp add: boot_rate.of_key_def max_network_admissions_per_window_def
        max_origin_admissions_per_window_def admission_rate_window_def)
qed

theorem admissions_rate_bounded_witness:
  "\<exists>st' h. fold (submit sample_ext) [SubmitAnnouncement 9 (sample_announcement 2 5) sample_probe True 5]
      (empty_store, []) = (st', h) \<and> h = [(4, 5)] \<and>
     length (accepted_in (hours 1) 6 (map snd h)) \<le> 512"
proof -
  have f: "fold (submit sample_ext) [SubmitAnnouncement 9 (sample_announcement 2 5) sample_probe True 5]
      (empty_store, []) = (sample_admitted 2 5, [(4, 5)])"
    using sample_admit[of 2 5] by simp
  from admissions_rate_bounded[OF _ f, of 6] f show ?thesis by simp
qed

end
