(* ===== verification/Bootstrap_Stream.thy ===== *)
theory Bootstrap_Stream
  imports Bootstrap_Bounds
begin

text \<open>
  The announcement stream as its readers see it: the expiry sweep that precedes every read, the
  page that is returned, and the lifecycle row of a withdrawal.
\<close>

section \<open>The expiry sweep\<close>

text \<open>An admitted key keeps its place while its announcement is stored and its lease active.\<close>

definition current_key :: "store \<Rightarrow> time \<Rightarrow> pod_key \<Rightarrow> bool" where
  "current_key st now key \<longleftrightarrow>
     (\<exists>k. om_get (st_known_pod_announcements st) key = Some k \<and>
          pa_lease_is_active (ka_announcement k) now)"

lemma unmarks_keys:
  "rt_admitted_keys (runtime_of (fold unmark_bootstrap_admitted ks st)) =
     filter (\<lambda>k. k \<notin> set ks) (rt_admitted_keys (runtime_of st))"
  by (induction ks arbitrary: st) (auto simp: os_remove_def intro!: filter_cong)

lemma unmarks_fields:
  "st_known_pod_announcements (fold unmark_bootstrap_admitted ks st) = st_known_pod_announcements st"
  "st_known_pod_withdrawals (fold unmark_bootstrap_admitted ks st) = st_known_pod_withdrawals st"
  "st_announcement_stream_entries (fold unmark_bootstrap_admitted ks st) =
    st_announcement_stream_entries st"
  "rt_next_stream_sequence (runtime_of (fold unmark_bootstrap_admitted ks st)) =
    rt_next_stream_sequence (runtime_of st)"
  by (induction ks arbitrary: st) simp_all

lemma emits_keys:
  "rt_admitted_keys (runtime_of (fold (emit_one_expiry now) cs st)) =
     filter (\<lambda>k. k \<notin> set (map pa_key cs)) (rt_admitted_keys (runtime_of st))"
  by (induction cs arbitrary: st) (auto simp: emit_one_expiry_def os_remove_def intro!: filter_cong)

lemma emits_fields:
  "st_known_pod_announcements (fold (emit_one_expiry now) cs st) = st_known_pod_announcements st"
  "st_known_pod_withdrawals (fold (emit_one_expiry now) cs st) = st_known_pod_withdrawals st"
  by (induction cs arbitrary: st) (simp_all add: emit_one_expiry_def)

lemma emits_next:
  "rt_next_stream_sequence (runtime_of st) + length cs \<le> u64_max \<Longrightarrow>
    rt_next_stream_sequence (runtime_of (fold (emit_one_expiry now) cs st)) =
      rt_next_stream_sequence (runtime_of st) + length cs"
  by (induction cs arbitrary: st) (auto simp: emit_one_expiry_def)

text \<open>The rows of a sweep, one per candidate, numbered on from the counter; the oldest rows give way.\<close>

definition expiry_rows :: "time \<Rightarrow> nat \<Rightarrow> pod_announcement list \<Rightarrow> (nat, announcement_stream_entry) omap" where
  "expiry_rows now next_seq cs =
     map (\<lambda>(i, a). (i, stream_row (SE_Expired, AnnouncementPayload a, now) i)) (enumerate next_seq cs)"

lemma length_expiry_rows [simp]: "length (expiry_rows now next_seq cs) = length cs"
  by (simp add: expiry_rows_def)

lemma drop_rolled: "k \<le> length xs \<Longrightarrow> drop j (drop k xs @ ys) = drop (j + k) (xs @ ys)"
  by (simp add: add.commute)

lemma emits_rows:
  "boot_log_ok st \<Longrightarrow> rt_next_stream_sequence (runtime_of st) + length cs \<le> u64_max \<Longrightarrow>
    st_announcement_stream_entries (fold (emit_one_expiry now) cs st) =
      drop (length (st_announcement_stream_entries st) + length cs - max_stream_entries)
        (st_announcement_stream_entries st @ expiry_rows now (rt_next_stream_sequence (runtime_of st)) cs)"
proof (induction cs arbitrary: st)
  case Nil
  then show ?case by (simp add: log_ok_def expiry_rows_def)
next
  case (Cons a cs)
  let ?E = "st_announcement_stream_entries st" and ?n = "rt_next_stream_sequence (runtime_of st)"
  let ?s = "emit_one_expiry now a st" and ?r = "stream_row (SE_Expired, AnnouncementPayload a, now) ?n"
  define k where "k = Suc (length ?E) - max_stream_entries"
  have room: "?n < u64_max" using Cons.prems(2) by simp
  have next_s: "rt_next_stream_sequence (runtime_of ?s) = Suc ?n"
    using room by (simp add: emit_one_expiry_def boot_log.append_next sat_add_def)
  have entries_s: "st_announcement_stream_entries ?s = drop k (?E @ [(?n, ?r)])"
    unfolding k_def using boot_log.appended[OF Cons.prems(1)] by (simp add: emit_one_expiry_def)
  have "boot_log_ok ?s"
    using boot_log.append_keeps[OF Cons.prems(1) room] by (simp add: emit_one_expiry_def)
  moreover have "Suc ?n + length cs \<le> u64_max" using Cons.prems(2) by simp
  ultimately have "st_announcement_stream_entries (fold (emit_one_expiry now) cs ?s) =
      drop (length (drop k (?E @ [(?n, ?r)])) + length cs - max_stream_entries)
        (drop k (?E @ [(?n, ?r)]) @ expiry_rows now (Suc ?n) cs)"
    using Cons.IH[of ?s] by (simp only: next_s entries_s)
  also have "\<dots> = drop (length ?E + length (a # cs) - max_stream_entries) ((?E @ [(?n, ?r)]) @ expiry_rows now (Suc ?n) cs)"
  proof -
    have k: "k \<le> length (?E @ [(?n, ?r)])" by (simp add: k_def)
    have "length (drop k (?E @ [(?n, ?r)])) + length cs - max_stream_entries + k =
        length ?E + length (a # cs) - max_stream_entries"
      by (simp add: k_def max_stream_entries_def)
    then show ?thesis by (simp only: drop_rolled[OF k])
  qed
  finally show ?case by (simp add: expiry_rows_def)
qed

lemma enumerate_mapped: "enumerate i (map g xs) = map (\<lambda>(i, x). (i, g x)) (enumerate i xs)"
  by (induction xs arbitrary: i) simp_all

lemma candidates_lapsed:
  "expiry_candidates st now = map (\<lambda>key. ka_announcement (the (om_get (st_known_pod_announcements st) key)))
     (filter (\<lambda>key. \<exists>k. om_get (st_known_pod_announcements st) key = Some k \<and>
          pa_expires_at (ka_announcement k) \<le> now) (rt_admitted_keys (runtime_of st)))"
proof -
  have "filter (\<lambda>a. \<not> pa_lease_is_active a now) (map ka_announcement (List.map_filter (om_get m) keys)) =
      map (\<lambda>key. ka_announcement (the (om_get m key)))
        (filter (\<lambda>key. \<exists>k. om_get m key = Some k \<and> pa_expires_at (ka_announcement k) \<le> now) keys)" for m keys
    by (induction keys) (auto simp: List.map_filter_simps pa_lease_is_active_def not_less split: option.splits)
  then show ?thesis by (simp add: expiry_candidates_def)
qed

lemma candidate_key:
  assumes "pods_ok x st"
  shows "set (map pa_key (expiry_candidates st now)) =
    {key \<in> set (rt_admitted_keys (runtime_of st)).
       \<exists>k. om_get (st_known_pod_announcements st) key = Some k \<and>
           \<not> pa_lease_is_active (ka_announcement k) now}"
    (is "?L = ?R")
proof -
  have cs: "set (expiry_candidates st now) =
      {ka_announcement v | key v. key \<in> set (rt_admitted_keys (runtime_of st)) \<and>
         om_get (st_known_pod_announcements st) key = Some v \<and>
         \<not> pa_lease_is_active (ka_announcement v) now}"
    by (auto simp: expiry_candidates_def set_map_filter)
  have "?L \<subseteq> ?R"
  proof
    fix key
    assume "key \<in> ?L"
    then obtain a where a: "a \<in> set (expiry_candidates st now)" and key: "key = pa_key a" by auto
    from a obtain key' v where "a = ka_announcement v" "key' \<in> set (rt_admitted_keys (runtime_of st))"
      "om_get (st_known_pod_announcements st) key' = Some v" "\<not> pa_lease_is_active (ka_announcement v) now"
      unfolding cs by blast
    with key pods_ok_stored[OF assms, of key' v] show "key \<in> ?R" by simp
  qed
  moreover have "?R \<subseteq> ?L"
  proof
    fix key
    assume "key \<in> ?R"
    then obtain v where v: "key \<in> set (rt_admitted_keys (runtime_of st))"
      "om_get (st_known_pod_announcements st) key = Some v" "\<not> pa_lease_is_active (ka_announcement v) now"
      by blast
    then have "ka_announcement v \<in> set (expiry_candidates st now)" unfolding cs by blast
    moreover have "pa_key (ka_announcement v) = key" using pods_ok_stored[OF assms v(2)] by simp
    ultimately show "key \<in> ?L" by (metis image_eqI set_map)
  qed
  ultimately show ?thesis by (rule subset_antisym)
qed

lemma emit_eq:
  "emit_expiry_transitions now st =
     (fold (emit_one_expiry now) (expiry_candidates st now)
        (fold unmark_bootstrap_admitted (stale_keys st) (fst (ensure_bootstrap_runtime st))),
      length (expiry_candidates st now))"
  by (simp add: emit_expiry_transitions_def Let_def expiry_candidates_def stale_keys_def)

lemma emit_keys:
  assumes ok: "pods_ok x st"
  shows "rt_admitted_keys (runtime_of (fst (emit_expiry_transitions now st))) =
    filter (current_key st now) (rt_admitted_keys (runtime_of st))"
proof -
  have "k \<notin> set (stale_keys st) \<and> k \<notin> set (map pa_key (expiry_candidates st now)) \<longleftrightarrow> current_key st now k"
    if "k \<in> set (rt_admitted_keys (runtime_of st))" for k
    using that unfolding candidate_key[OF ok] by (auto simp: stale_keys_def current_key_def)
  then show ?thesis
    by (auto simp: emit_eq emits_keys unmarks_keys simp del: set_map intro!: filter_cong)
qed

lemma emit_fields:
  "st_known_pod_announcements (fst (emit_expiry_transitions now st)) = st_known_pod_announcements st"
  "st_known_pod_withdrawals (fst (emit_expiry_transitions now st)) = st_known_pod_withdrawals st"
  by (simp_all add: emit_eq emits_fields unmarks_fields)

lemma emit_runtime_present:
  "st_bootstrap_runtime (fst (emit_expiry_transitions now st)) \<noteq> None"
proof -
  have u: "st_bootstrap_runtime (fold unmark_bootstrap_admitted ks s) \<noteq> None"
    if "st_bootstrap_runtime s \<noteq> None" for ks s
    using that by (induction ks arbitrary: s) (auto simp: unmark_bootstrap_admitted_def)
  have e: "st_bootstrap_runtime (fold (emit_one_expiry now) cs s) \<noteq> None"
    if "st_bootstrap_runtime s \<noteq> None" for cs s
    using that
    by (induction cs arbitrary: s)
      (auto simp: emit_one_expiry_def unmark_bootstrap_admitted_def append_stream_entry_def
        ensure_bootstrap_runtime_def prune_stream_entries_def Let_def split: option.splits)
  show ?thesis unfolding emit_eq fst_conv by (intro e u) (simp add: ensure_bootstrap_runtime_def)
qed

lemma emit_again:
  assumes ok: "pods_ok x st" and st': "st' = fst (emit_expiry_transitions now st)"
  shows "emit_expiry_transitions now st' = (st', 0)"
proof -
  have keys: "rt_admitted_keys (runtime_of st') = filter (current_key st now) (rt_admitted_keys (runtime_of st))"
    unfolding st' by (rule emit_keys[OF ok])
  have ann: "st_known_pod_announcements st' = st_known_pod_announcements st"
    unfolding st' by (rule emit_fields)
  have "expiry_candidates st' now = []" and "stale_keys st' = []"
    by (auto simp: expiry_candidates_def stale_keys_def keys ann current_key_def set_map_filter
        filter_empty_conv)
  moreover have "fst (ensure_bootstrap_runtime st') = st'"
  proof -
    obtain rt where "st_bootstrap_runtime st' = Some rt"
      using emit_runtime_present[of now st] st' by auto
    then show ?thesis by (cases st') (auto simp: ensure_bootstrap_runtime_def runtime_of_def)
  qed
  ultimately show ?thesis unfolding emit_eq[of now st'] by simp
qed

text \<open>A node that admitted one announcement at time 5.\<close>

lemma sample_admitted_state:
  "st_known_pod_announcements (sample_admitted 2 5) =
      [((4, ''p''), written empty_store (sample_announcement 2 5) dp_LOCAL 5)]"
  "st_announcement_stream_entries (sample_admitted 2 5) =
      [(1, stream_row (SE_Admitted, AnnouncementPayload (sample_announcement 2 5), 5) 1)]"
  "rt_next_stream_sequence (runtime_of (sample_admitted 2 5)) = 2"
  "rt_admitted_keys (runtime_of (sample_admitted 2 5)) = [(4, ''p'')]"
proof -
  have rp: "announcement_replay empty_store (sample_announcement 2 5) = None"
    and nw: "\<not> is_bootstrap_admitted empty_store (4, ''p'')"
    by (simp_all add: announcement_replay_def is_bootstrap_admitted_def empty_store_def)
  have rt: "runtime_of (sample_stored 2 5) = bootstrap_runtime_default"
    by (simp add: sample_stored_eq empty_store_def runtime_of_def)
  have rt2: "runtime_of (empty_store\<lparr>st_known_pod_announcements := m\<rparr>) = bootstrap_runtime_default" for m
    by (simp add: empty_store_def runtime_of_def)
  have e: "st_announcement_stream_entries empty_store = []" by (simp add: empty_store_def)
  have w: "ka_announcement (written empty_store (sample_announcement 2 5) dp_LOCAL 5) =
      sample_announcement 2 5"
    by (simp add: written_def known_after_delivery_def Let_def split: option.splits)
  note d = sample_admitted_def admit_applied[OF sample_gate(1) rp sample_refusal sample_retained]
  show "st_known_pod_announcements (sample_admitted 2 5) =
      [((4, ''p''), written empty_store (sample_announcement 2 5) dp_LOCAL 5)]"
    unfolding d by (simp add: apply_admission_fields sample_stored_eq written_def empty_store_def)
  show "st_announcement_stream_entries (sample_admitted 2 5) =
      [(1, stream_row (SE_Admitted, AnnouncementPayload (sample_announcement 2 5), 5) 1)]"
    unfolding d using nw
    by (simp add: apply_admission_eq Let_def boot_log.append_entries rt2 w bootstrap_runtime_default_def
        sample_stored_eq e prune_oldest_le max_stream_entries_def)
  show "rt_next_stream_sequence (runtime_of (sample_admitted 2 5)) = 2"
    unfolding d by (simp add: apply_admission_fields rt bootstrap_runtime_default_def sat_add_def u64_max_def)
  show "rt_admitted_keys (runtime_of (sample_admitted 2 5)) = [(4, ''p'')]"
    unfolding d by (simp add: apply_admission_fields rt w bootstrap_runtime_default_def os_insert_def)
qed

lemma sample_admitted_swept:
  "st_announcement_stream_entries (fst (emit_expiry_transitions 6 (sample_admitted 2 5))) =
      [(1, stream_row (SE_Admitted, AnnouncementPayload (sample_announcement 2 5), 5) 1)]"
  "rt_next_stream_sequence (runtime_of (fst (emit_expiry_transitions 6 (sample_admitted 2 5)))) = 2"
proof -
  have "expiry_candidates (sample_admitted 2 5) 6 = []"
    by (simp add: expiry_candidates_def sample_admitted_state List.map_filter_simps om_get_def
        written_def known_after_delivery_def Let_def split: option.splits)
  then show "st_announcement_stream_entries (fst (emit_expiry_transitions 6 (sample_admitted 2 5))) =
      [(1, stream_row (SE_Admitted, AnnouncementPayload (sample_announcement 2 5), 5) 1)]"
    and "rt_next_stream_sequence (runtime_of (fst (emit_expiry_transitions 6 (sample_admitted 2 5)))) = 2"
    by (simp_all add: emit_eq unmarks_fields sample_admitted_state)
qed

text \<open>C23: The sweep keeps exactly the admitted pods whose announcement is stored with an active lease and
  appends to the stream one Expired row for every admitted pod whose stored announcement has lapsed, in
  their order, numbered on from the counter (the oldest rows give way beyond 8192); it counts the
  lapsed pods, and it is terminal: sweeping again at the same time emits nothing and changes nothing.\<close>

theorem expiry_sweep_terminal:
  assumes reach: "bootstrap_reachable x st" and e: "emit_expiry_transitions now st = (st', n)"
    and lapsed: "lapsed = filter (\<lambda>key. \<exists>k. om_get (st_known_pod_announcements st) key = Some k \<and>
        pa_expires_at (ka_announcement k) \<le> now) (rt_admitted_keys (runtime_of st))"
  shows "rt_admitted_keys (runtime_of st') =
           filter (\<lambda>key. \<exists>k. om_get (st_known_pod_announcements st) key = Some k \<and>
                              now < pa_expires_at (ka_announcement k))
             (rt_admitted_keys (runtime_of st)) \<and>
         n = length lapsed \<and>
         (rt_next_stream_sequence (runtime_of st) + n \<le> u64_max \<longrightarrow>
            rt_next_stream_sequence (runtime_of st') = rt_next_stream_sequence (runtime_of st) + n) \<and>
         (rt_next_stream_sequence (runtime_of st) + n < u64_max \<longrightarrow>
            st_announcement_stream_entries st' =
              drop (length (st_announcement_stream_entries st) + n - 8192)
                (st_announcement_stream_entries st @
                 map (\<lambda>(i, key). (i, stream_row (SE_Expired, AnnouncementPayload
                     (ka_announcement (the (om_get (st_known_pod_announcements st) key))), now) i))
                   (enumerate (rt_next_stream_sequence (runtime_of st)) lapsed))) \<and>
         st_known_pod_announcements st' = st_known_pod_announcements st \<and>
         emit_expiry_transitions now st' = (st', 0)"
proof -
  have ok: "pods_ok x st" using bootstrap_reachable_ok[OF reach] by (simp add: boot_ok_def)
  have st': "st' = fst (emit_expiry_transitions now st)" and n: "n = length (expiry_candidates st now)"
    using e by (simp_all add: emit_eq)
  have keys: "rt_admitted_keys (runtime_of st') = filter (current_key st now) (rt_admitted_keys (runtime_of st))"
    unfolding st' by (rule emit_keys[OF ok])
  have ann: "st_known_pod_announcements st' = st_known_pod_announcements st"
    unfolding st' by (rule emit_fields)
  have "rt_next_stream_sequence (runtime_of st') = rt_next_stream_sequence (runtime_of st) + n"
    if "rt_next_stream_sequence (runtime_of st) + n \<le> u64_max"
    using that unfolding st' n emit_eq fst_conv by (subst emits_next) (simp_all add: unmarks_fields)
  moreover have "st_announcement_stream_entries st' = drop (length (st_announcement_stream_entries st) + n - max_stream_entries)
      (st_announcement_stream_entries st @
         expiry_rows now (rt_next_stream_sequence (runtime_of st)) (expiry_candidates st now))"
    if room: "rt_next_stream_sequence (runtime_of st) + n < u64_max"
  proof -
    let ?s = "fold unmark_bootstrap_admitted (stale_keys st) (fst (ensure_bootstrap_runtime st))"
    have s: "st_announcement_stream_entries ?s = st_announcement_stream_entries st"
      "rt_next_stream_sequence (runtime_of ?s) = rt_next_stream_sequence (runtime_of st)"
      by (simp_all add: unmarks_fields)
    have "boot_log_ok st" using bootstrap_reachable_ok[OF reach] room by (simp add: boot_ok_def stream_ok_def)
    then have "boot_log_ok ?s" by (simp add: s)
    then show ?thesis
      using emits_rows[of ?s "expiry_candidates st now" now] room unfolding st' n emit_eq fst_conv s by simp
  qed
  moreover have "expiry_rows now i (expiry_candidates st now) =
      map (\<lambda>(i, key). (i, stream_row (SE_Expired, AnnouncementPayload
        (ka_announcement (the (om_get (st_known_pod_announcements st) key))), now) i)) (enumerate i lapsed)" for i
    unfolding expiry_rows_def candidates_lapsed lapsed by (simp add: enumerate_mapped comp_def split_beta)
  moreover have "n = length lapsed" unfolding n lapsed candidates_lapsed by simp
  moreover have "emit_expiry_transitions now st' = (st', 0)" by (rule emit_again[OF ok st'])
  ultimately show ?thesis
    using keys ann by (simp add: max_stream_entries_def current_key_def[abs_def] pa_lease_is_active_def)
qed

theorem expiry_sweep_terminal_witness:
  "rt_admitted_keys (runtime_of (fst (emit_expiry_transitions 3000000000000000 (sample_admitted 2 5)))) = []"
proof -
  obtain st' n where e: "emit_expiry_transitions 3000000000000000 (sample_admitted 2 5) = (st', n)"
    by (cases "emit_expiry_transitions 3000000000000000 (sample_admitted 2 5)")
  have "\<not> (\<exists>k. om_get (st_known_pod_announcements (sample_admitted 2 5)) key = Some k \<and>
      3000000000000000 < pa_expires_at (ka_announcement k))" for key
    by (simp add: sample_admitted_state om_get_def announcement_lease_duration_def
        announcement_lease_duration_days_def)
  then show ?thesis
    using expiry_sweep_terminal[OF sample_admitted_reachable e refl] e by simp
qed

section \<open>Reading a page\<close>

lemma page_after:
  assumes "log_ok cap n m" and "after < u64_max"
  shows "page_entries after lim m = take lim (filter (\<lambda>e. after < se_sequence e) (om_vals m))"
proof -
  have seq: "\<forall>e \<in> set m. se_sequence (snd e) = fst e" using assms(1) by (simp add: log_ok_def)
  have "entries_after after m = filter (\<lambda>e. after < se_sequence (snd e)) m"
    unfolding entries_after_def using assms(2) seq by (intro filter_cong) (auto simp: Suc_le_eq)
  then show ?thesis
    by (simp add: page_entries_def om_vals_def take_map filter_map comp_def)
qed

lemma log_sequences:
  assumes "log_ok cap n m"
  shows "map se_sequence (om_vals m) = [n - length m ..< n]"
proof -
  have "map se_sequence (om_vals m) = map fst m"
    using assms by (auto simp: om_vals_def log_ok_def)
  with assms show ?thesis by (simp add: log_ok_def om_keys_def)
qed

lemma last_take_filter_bound:
  "xs \<noteq> [] \<Longrightarrow> xs = take l (filter P ys) \<Longrightarrow> last xs \<in> set ys"
  by (metis filter_is_subset in_set_takeD last_in_set subsetD)

text \<open>A sweep never moves the counter back.\<close>

lemma emit_one_mono:
  "rt_next_stream_sequence (runtime_of s) \<le> u64_max \<Longrightarrow>
   rt_next_stream_sequence (runtime_of s) \<le> rt_next_stream_sequence (runtime_of (fold (emit_one_expiry now) cs s))"
proof (induction cs arbitrary: s)
  case (Cons c cs)
  have "rt_next_stream_sequence (runtime_of s) \<le> rt_next_stream_sequence (runtime_of (emit_one_expiry now c s))"
    using Cons.prems by (simp add: emit_one_expiry_def sat_add_ge)
  also have "\<dots> \<le> rt_next_stream_sequence (runtime_of (fold (emit_one_expiry now) cs (emit_one_expiry now c s)))"
    by (rule Cons.IH) (simp add: emit_one_expiry_def)
  finally show ?case by simp
qed simp

lemma emit_next_mono:
  "stream_ok st \<Longrightarrow>
   rt_next_stream_sequence (runtime_of st) \<le> rt_next_stream_sequence (runtime_of (fst (emit_expiry_transitions now st)))"
  using emit_one_mono[of "fold unmark_bootstrap_admitted (stale_keys st) (fst (ensure_bootstrap_runtime st))"
      now "expiry_candidates st now"]
  by (simp add: emit_eq unmarks_fields stream_ok_def)

text \<open>A page of the stream is the first \<open>limit\<close> (1 to 100) retained entries after the cursor, in
  sequence order and without a gap; its next cursor is the position of its last entry, and the
  code parses it back to that position.\<close>

theorem stream_page_contents:
  assumes reach: "bootstrap_reachable x st"
    and r: "read_announcement_stream cursor limit en now st = (st', Inr page)"
    and room: "rt_next_stream_sequence (runtime_of st') < u64_max"
  shows "\<exists>after. parse_stream_cursor cursor = Inr after \<and>
     1 \<le> sp_limit page \<and> sp_limit page \<le> 100 \<and>
     sp_entries page = take (sp_limit page)
       (filter (\<lambda>e. after < se_sequence e) (om_vals (st_announcement_stream_entries st'))) \<and>
     map se_sequence (om_vals (st_announcement_stream_entries st')) =
       [rt_next_stream_sequence (runtime_of st') - length (st_announcement_stream_entries st')
         ..< rt_next_stream_sequence (runtime_of st')] \<and>
     (sp_entries page = [] \<longrightarrow> sp_next_cursor page = None) \<and>
     (sp_entries page \<noteq> [] \<longrightarrow> (\<exists>c. sp_next_cursor page = Some c \<and>
        parse_stream_cursor (Some c) = Inr (se_sequence (last (sp_entries page)))))"
proof -
  have "boot_ok x st'"
    using boot_ok_read[OF bootstrap_reachable_ok[OF reach], of cursor limit en now] r by simp
  then have ok: "boot_log_ok st'" using room by (simp add: boot_ok_def stream_ok_def)
  obtain after where after: "parse_stream_cursor cursor = Inr after"
    and hw: "after \<le> max (log_end (st_announcement_stream_entries st))
      (case st_bootstrap_runtime st of None \<Rightarrow> 0 | Some runtime \<Rightarrow> rt_next_stream_sequence runtime)"
    and st': "st' = fst (emit_expiry_transitions now st)"
    and page: "sp_entries page = page_entries after (sp_limit page) (st_announcement_stream_entries st')"
      "sp_next_cursor page = (if sp_entries page = [] then None
         else Some (encode_stream_cursor (se_sequence (last (sp_entries page)))))"
      "sp_limit page = clamp 1 max_stream_page_limit
         (case limit of None \<Rightarrow> default_stream_page_limit | Some l \<Rightarrow> l)"
    using r by (auto simp: read_announcement_stream_def Let_def split: if_splits sum.splits prod.splits)
  have lim: "1 \<le> sp_limit page" "sp_limit page \<le> 100"
    unfolding page(3) by (simp_all add: max_stream_page_limit_def)
  show ?thesis
  proof (cases "after < u64_max")
    case True
    have p: "sp_entries page = take (sp_limit page)
        (filter (\<lambda>e. after < se_sequence e) (om_vals (st_announcement_stream_entries st')))"
      using page(1) page_after[OF ok True] by simp
    have "parse_stream_cursor (Some (encode_stream_cursor (se_sequence (last (sp_entries page))))) =
        Inr (se_sequence (last (sp_entries page)))" if "sp_entries page \<noteq> []"
    proof (rule parse_encode_cursor)
      have "last (sp_entries page) \<in> set (om_vals (st_announcement_stream_entries st'))"
        using last_take_filter_bound[OF that p] .
      then have "se_sequence (last (sp_entries page)) \<in>
          set (map se_sequence (om_vals (st_announcement_stream_entries st')))" by simp
      then show "se_sequence (last (sp_entries page)) \<le> u64_max"
        using room unfolding log_sequences[OF ok] by simp
    qed
    then show ?thesis using after lim p page(2) log_sequences[OF ok] by auto
  next
    case False
    then have big: "after = u64_max" using parse_cursor_le[OF after] by simp
    have "boot_ok x st" using bootstrap_reachable_ok[OF reach] .
    then have so: "stream_ok st" by (simp add: boot_ok_def)
    have "rt_next_stream_sequence (runtime_of st) \<le> rt_next_stream_sequence (runtime_of st')"
      unfolding st' using emit_next_mono so by blast
    then have lt: "rt_next_stream_sequence (runtime_of st) < u64_max" using room by simp
    then have "boot_log_ok st" using so by (simp add: stream_ok_def)
    then have "log_end (st_announcement_stream_entries st) < u64_max"
      using lt log_ok_keys[of max_stream_entries "rt_next_stream_sequence (runtime_of st)"
          "st_announcement_stream_entries st"
          "fst (last (st_announcement_stream_entries st))"]
      by (auto simp: log_end_def sat_add_def om_keys_def u64_max_def)
    moreover have "(case st_bootstrap_runtime st of None \<Rightarrow> 0
        | Some runtime \<Rightarrow> rt_next_stream_sequence runtime) < u64_max"
      using lt by (auto simp: runtime_of_def u64_max_def split: option.splits)
    ultimately show ?thesis using hw big by simp
  qed
qed

theorem stream_page_contents_witness:
  "\<exists>page. read_announcement_stream None (Some 10) True 6 (sample_admitted 2 5) =
      (fst (emit_expiry_transitions 6 (sample_admitted 2 5)), Inr page) \<and>
    sp_limit page \<le> 100 \<and> map se_sequence (sp_entries page) = [1]"
proof -
  let ?st' = "fst (emit_expiry_transitions 6 (sample_admitted 2 5))"
  have "\<exists>page. read_announcement_stream None (Some 10) True 6 (sample_admitted 2 5) = (?st', Inr page) \<and>
      sp_limit page = 10"
    by (simp add: read_announcement_stream_def parse_stream_cursor_def Let_def clamp_def
        max_stream_page_limit_def split: prod.splits)
  then obtain page where r: "read_announcement_stream None (Some 10) True 6 (sample_admitted 2 5) =
      (?st', Inr page)" "sp_limit page = 10" by blast
  have "rt_next_stream_sequence (runtime_of ?st') < u64_max"
    by (simp add: sample_admitted_swept u64_max_def)
  from stream_page_contents[OF sample_admitted_reachable r(1) this] r
  show ?thesis
    by (auto simp: parse_stream_cursor_def sample_admitted_swept om_vals_def stream_row_def)
qed

section \<open>Withdrawals\<close>

text \<open>An applied withdrawal releases the pod from the admitted set, leaves no announcement that is
  not newer than it, and appends exactly one withdrawn row, whether or not the pod was admitted.\<close>

theorem withdrawal_admission_effect:
  assumes reach: "bootstrap_reachable x st" and room: "rt_next_stream_sequence (runtime_of st) < u64_max"
    and r: "admit_bootstrap_withdrawal x i w en now st = (st', Inr acc)"
    and new: "wa_outcome acc \<noteq> WK_Idempotent"
  shows "\<not> is_bootstrap_admitted st' (pw_origin_node_id w, pw_pod_slug w) \<and>
     (\<exists>kw. om_get (st_known_pod_withdrawals st') (pw_origin_node_id w, pw_pod_slug w) = Some kw \<and>
        kw_withdrawal kw = w) \<and>
     (\<exists>n row. wa_stream_sequence acc = Some n \<and> om_get (st_announcement_stream_entries st') n = Some row \<and>
        se_kind row = SE_Withdrawn \<and> se_payload row = WithdrawalPayload w \<and> se_sequence row = n \<and>
        rt_next_stream_sequence (runtime_of st') = n + 1)"
proof -
  obtain st1 k where rt: "retain_verified_pod_withdrawal x w None now st = (st1, Inr k)"
    and st': "st' = fst (apply_withdrawal k now st1)" and acc: "acc = snd (apply_withdrawal k now st1)"
    using r new by (auto simp: admit_bootstrap_withdrawal_def rejected_eq Let_def
        split: option.splits if_splits prod.splits sum.splits)
  have k: "kw_withdrawal k = w" and g: "om_get (st_known_pod_withdrawals st1) (pw_key w) = Some k"
    using retain_withdrawal_success[OF rt] by simp_all
  have "boot_ok x st1"
    using boot_ok_retain_withdrawal[OF bootstrap_reachable_ok[OF reach], of w None now] rt by simp
  moreover have rt1: "runtime_of st1 = runtime_of st"
    using retain_withdrawal_frame(1)[of x w None now st] rt by (simp add: runtime_of_def)
  ultimately have ok1: "boot_log_ok st1" using room by (simp add: boot_ok_def stream_ok_def)
  define st2 where "st2 = unmark_bootstrap_admitted (pw_key w)
      (record_admission_attempt (pw_origin_node_id w) now st1)"
  have ok2: "boot_log_ok st2" using ok1 by (simp add: st2_def)
  have st'2: "st' = fst (append_stream_entry (SE_Withdrawn, WithdrawalPayload w, now) st2)"
    using st' k by (simp add: apply_withdrawal_eq Let_def st2_def)
  have "om_get (st_announcement_stream_entries st') (rt_next_stream_sequence (runtime_of st)) =
      Some (stream_row (SE_Withdrawn, WithdrawalPayload w, now) (rt_next_stream_sequence (runtime_of st)))"
    using boot_log.append_readable[OF ok2] st'2 rt1 by (simp add: st2_def)
  moreover have "wa_stream_sequence acc = Some (rt_next_stream_sequence (runtime_of st))"
    using acc rt1 by (simp add: apply_withdrawal_eq Let_def)
  moreover have "rt_next_stream_sequence (runtime_of st') = rt_next_stream_sequence (runtime_of st) + 1"
    and "\<not> is_bootstrap_admitted st' (pw_key w)" and "st_known_pod_withdrawals st' = st_known_pod_withdrawals st1"
    using st'2 rt1 room by (simp_all add: st2_def is_admitted_runtime)
  ultimately show ?thesis using g k by (simp add: stream_row_def pw_key_def)
qed

theorem withdrawal_admission_effect_witness:
  "\<exists>st' acc. admit_bootstrap_withdrawal sample_ext 9 (sample_withdrawal 3 7) True 7 empty_store =
      (st', Inr acc) \<and> wa_stream_sequence acc = Some 1 \<and> \<not> is_bootstrap_admitted st' (4, ''p'')"
proof -
  let ?k = "\<lparr> kw_withdrawal = sample_withdrawal 3 7, kw_received_from_peer_id = None, kw_received_at = 7 \<rparr>"
  let ?st1 = "after_withdrawal (sample_withdrawal 3 7) None 7 empty_store"
  have rt: "retain_verified_pod_withdrawal sample_ext (sample_withdrawal 3 7) None 7 empty_store =
      (?st1, Inr ?k)"
    by (simp add: retain_withdrawal_verified withdrawal_overtaken_def empty_store_def)
  have nr: "\<not> rate_limit_would_exceed empty_store 4 7"
    by (simp add: rate_limit_would_exceed_def empty_store_def)
  have rp: "withdrawal_replay empty_store (sample_withdrawal 3 7) = None"
    by (simp add: withdrawal_replay_def empty_store_def)
  have r: "admit_bootstrap_withdrawal sample_ext 9 (sample_withdrawal 3 7) True 7 empty_store =
      (fst (apply_withdrawal ?k 7 ?st1), Inr (snd (apply_withdrawal ?k 7 ?st1)))"
    using rt nr rp by (simp add: admit_bootstrap_withdrawal_def split: prod.splits)
  have "runtime_of ?st1 = bootstrap_runtime_default"
    by (simp add: after_withdrawal_def empty_store_def runtime_of_def)
  then have a: "wa_outcome (snd (apply_withdrawal ?k 7 ?st1)) = WK_Admitted"
    "wa_stream_sequence (snd (apply_withdrawal ?k 7 ?st1)) = Some 1"
    by (simp_all add: apply_withdrawal_eq Let_def bootstrap_runtime_default_def)
  show ?thesis
    using withdrawal_admission_effect[OF bootstrap_reachable.start _ r] r a
    by (simp add: bootstrap_runtime_default_def u64_max_def)
qed

end
