(* ===== verification/Peer_Props.thy ===== *)
theory Peer_Props
  imports Peer_Node Bootstrap_Stream
begin

text \<open>
  The properties of the discovery-peer side: the endpoint policy, the admission of
  advertisements, and what an enabled peer serves.
\<close>

section \<open>The endpoint policy\<close>

lemma public_v4:
  assumes "\<not> non_public_address (V4 [a, b, c, d])"
  shows "a \<noteq> 10 \<and> \<not> (a = 172 \<and> 16 \<le> b \<and> b \<le> 31) \<and> \<not> (a = 192 \<and> b = 168) \<and> \<not> (a = 169 \<and> b = 254) \<and>
    \<not> (224 \<le> a \<and> a \<le> 239) \<and> [a, b, c, d] \<noteq> [0, 0, 0, 0] \<and> [a, b, c, d] \<noteq> [255, 255, 255, 255]"
  using assms by (auto simp: non_public_address_def v4_is_private_def v4_is_link_local_def v4_is_broadcast_def)

lemma bracket_not_loopback: "\<not> host_is_loopback (CHR ''['' # literal)"
proof -
  have "ascii_lower_char (CHR ''['') \<noteq> ascii_lower_char (CHR ''l'')"
    by (simp add: ascii_lower_char_def)
  then show ?thesis by (simp add: host_is_loopback_def host_ip_def parse_ip_bracket eq_ignore_ascii_case_def)
qed



text \<open>The policy does not reach IPv6 literals: the URL crate reports such a host in brackets, which
  the address parser refuses, so every bracketed host passes under HTTPS, private or not, and
  none counts as loopback under HTTP.\<close>

theorem ipv6_literals_escape_policy:
  assumes "trim value \<noteq> []" and "x_url_parse x (trim value) = Inr url"
    and "x_url_host x url = Some (CHR ''['' # literal)"
    and "trim_end_slashes (x_url_clear_fragment x (x_url_clear_query x (x_url_set_path x [] url))) \<noteq> []"
  shows "(x_url_scheme x url = ''https'' \<longrightarrow> normalize_discovery_peer_endpoint x value =
            Inr (trim_end_slashes (x_url_clear_fragment x (x_url_clear_query x (x_url_set_path x [] url))))) \<and>
         (x_url_scheme x url = ''http'' \<longrightarrow>
            normalize_discovery_peer_endpoint x value = Inl EP_Insecure)"
proof -
  have ip: "host_ip (CHR ''['' # literal) = None"
    by (simp add: host_ip_def parse_ip_bracket)
  then show ?thesis
    using bracket_not_loopback[of literal]
    unfolding normalize_discovery_peer_endpoint_def Let_def assms(2)
    using assms ip by simp
qed

definition bracket_ext :: ext where
  "bracket_ext = sample_ext\<lparr>x_url_host := (\<lambda>u. Some ''[fc00::1]'')\<rparr>"

theorem ipv6_literals_escape_policy_witness:
  "normalize_discovery_peer_endpoint bracket_ext ''https://[fc00::1]'' = Inr ''https://['' \<and>
   is_private_or_reserved (V6 [64512, 0, 0, 0, 0, 0, 0, 1])"
proof -
  have t: "trim ''https://[fc00::1]'' = ''https://[fc00::1]''"
    by (rule trim_plain) (simp add: is_plain_def)
  have p: "x_url_parse bracket_ext (trim ''https://[fc00::1]'') = Inr ''https://[fc00::1]''"
    and h: "x_url_host bracket_ext ''https://[fc00::1]'' = Some (CHR ''['' # ''fc00::1]'')"
    and s: "x_url_scheme bracket_ext ''https://[fc00::1]'' = ''https''"
    and n: "trim_end_slashes (x_url_clear_fragment bracket_ext (x_url_clear_query bracket_ext
      (x_url_set_path bracket_ext [] ''https://[fc00::1]''))) = ''https://[''"
    unfolding t by (simp_all add: bracket_ext_def sample_ext_def trim_end_slashes_def)
  have "normalize_discovery_peer_endpoint bracket_ext ''https://[fc00::1]'' = Inr ''https://[''"
    using ipv6_literals_escape_policy[OF _ p h] t n s by simp
  moreover have "is_private_or_reserved (V6 [64512, 0, 0, 0, 0, 0, 0, 1])"
    by (simp add: Let_def)
  ultimately show ?thesis by blast
qed

section \<open>Admission of advertisements\<close>

lemma advertisement_gate_passes:
  assumes "advertisement_gate x ad en now = None"
  shows "en" "estimated_payload_bytes x (json_peer_advertisement ad) \<le> 8192"
    "ad_node_id ad = ni_node_id (ad_signer ad)" "ad_protocol_version ad = ''stumble/1.0''"
    "normalize_discovery_peer_endpoint x (ad_public_endpoint ad) = Inr (ad_public_endpoint ad)"
    "now < ad_expires_at ad" "ad_verify x ad = Inr True"
  using assms
  by (auto simp: advertisement_gate_def max_peer_advertisement_payload_bytes_def
      ad_lease_is_active_def current_protocol_version_def split: if_splits sum.splits)

lemma identity_matches:
  "ensure_identity_matches_advertisement ad view = Inr u \<Longrightarrow>
   dv_node_id view = ad_node_id ad \<and> dv_public_key view = ni_public_key (ad_signer ad)"
  by (simp add: ensure_identity_matches_advertisement_def split: if_splits)

lemma record_peer_admission_keeps_known [simp]:
  "st_known_discovery_peer_advertisements (record_peer_admission_attempt node now st) =
   st_known_discovery_peer_advertisements st"
  by (simp add: record_peer_admission_attempt_def ensure_bootstrap_runtime_def Let_def
      split: option.splits)

lemma admit_probed_cases:
  assumes "admit_probed ad probe is_new now st = (st', res)"
  obtains (refused) r where "res = Inl r" "st' = st"
  | (admitted) acc view where "res = Inr acc" "da_outcome acc \<noteq> OK_Idempotent"
      "kd_advertisement (da_known acc) = ad"
      "\<not> peer_rate_limit_would_exceed st (ad_node_id ad) now"
      "probe (ad_public_endpoint ad) = Inr view" "dv_node_id view = ad_node_id ad"
      "dv_public_key view = ni_public_key (ad_signer ad)"
      "st' = record_peer_admission_attempt (ad_node_id ad) now
         (st\<lparr>st_known_discovery_peer_advertisements :=
            om_put (ad_node_id ad) (da_known acc) (st_known_discovery_peer_advertisements st)\<rparr>)"
proof (cases "peer_rate_limit_would_exceed st (ad_node_id ad) now")
  case True
  then show thesis using assms by (intro refused) (auto simp: admit_probed_def)
next
  case quiet: False
  show thesis
  proof (cases "probe (ad_public_endpoint ad)")
    case (Inl e)
    then show thesis using assms quiet by (intro refused) (cases e; auto simp: admit_probed_def)+
  next
    case Inr0: (Inr view)
    show thesis
    proof (cases "ensure_identity_matches_advertisement ad view")
      case (Inl e)
      then show thesis using assms quiet Inr0 by (intro refused) (auto simp: admit_probed_def)
    next
      case ok: (Inr u)
      show thesis
        using assms quiet Inr0 ok identity_matches[OF ok]
        by (intro admitted[of "\<lparr> da_outcome = (if is_new then OK_Admitted else OK_Renewed),
              da_known = \<lparr> kd_advertisement = ad, kd_received_at = now, kd_learned_from = [] \<rparr> \<rparr>" view])
          (simp_all add: admit_probed_def Let_def split: if_splits)
    qed
  qed
qed

text \<open>A peer advertisement is applied only if admission is enabled, the payload is within 8 KiB, the
  signer is the node and speaks this protocol, the endpoint is already in normal form, the lease
  is active, the signature valid, the limits are not exhausted and the endpoint answers with the
  advertised identity; it is then stored under its node, and a rejection changes nothing.\<close>

theorem peer_admission_requires_every_check:
  assumes "admit_discovery_peer_advertisement x ad probe en now st = (st', res)"
  shows "(\<forall>r. res = Inl r \<longrightarrow> st' = st) \<and>
     (\<forall>acc. res = Inr acc \<and> da_outcome acc = OK_Idempotent \<longrightarrow>
        st' = st \<and> kd_advertisement (da_known acc) = ad) \<and>
     (\<forall>acc. res = Inr acc \<and> da_outcome acc \<noteq> OK_Idempotent \<longrightarrow>
        en \<and> estimated_payload_bytes x (json_peer_advertisement ad) \<le> 8192 \<and>
        ad_node_id ad = ni_node_id (ad_signer ad) \<and> ad_protocol_version ad = ''stumble/1.0'' \<and>
        normalize_discovery_peer_endpoint x (ad_public_endpoint ad) = Inr (ad_public_endpoint ad) \<and>
        now < ad_expires_at ad \<and> ad_verify x ad = Inr True \<and>
        \<not> peer_rate_limit_would_exceed st (ad_node_id ad) now \<and>
        (\<exists>view. probe (ad_public_endpoint ad) = Inr view \<and> dv_node_id view = ad_node_id ad \<and>
           dv_public_key view = ni_public_key (ad_signer ad)) \<and>
        (\<exists>k. om_get (st_known_discovery_peer_advertisements st') (ad_node_id ad) = Some k \<and>
           kd_advertisement k = ad))"
proof (cases "advertisement_gate x ad en now")
  case (Some r)
  with assms show ?thesis by (auto simp: admit_discovery_peer_advertisement_def)
next
  case None
  note g = advertisement_gate_passes[OF None]
  show ?thesis
  proof (cases "\<exists>e. om_get (st_known_discovery_peer_advertisements st) (ad_node_id ad) = Some e \<and>
      kd_advertisement e = ad")
    case True
    then obtain e where "om_get (st_known_discovery_peer_advertisements st) (ad_node_id ad) = Some e"
      "kd_advertisement e = ad" by blast
    then have "st' = st" "res = Inr \<lparr> da_outcome = OK_Idempotent, da_known = e \<rparr>"
      using assms by (simp_all add: admit_discovery_peer_advertisement_def None)
    then show ?thesis using \<open>kd_advertisement e = ad\<close> by simp
  next
    case False
    then obtain is_new where "admit_probed ad probe is_new now st = (st', res)"
      using assms unfolding admit_discovery_peer_advertisement_def None
      by (cases "om_get (st_known_discovery_peer_advertisements st) (ad_node_id ad)") auto
    then show ?thesis
    proof (cases rule: admit_probed_cases)
      case (refused r)
      then show ?thesis by simp
    next
      case (admitted acc view)
      have "om_get (st_known_discovery_peer_advertisements st') (ad_node_id ad) = Some (da_known acc)"
        unfolding admitted(8) by simp
      moreover have "\<exists>view. probe (ad_public_endpoint ad) = Inr view \<and> dv_node_id view = ad_node_id ad \<and>
           dv_public_key view = ni_public_key (ad_signer ad)"
        using admitted(5-7) by blast
      ultimately show ?thesis using g admitted(1-4) by (intro conjI allI impI) simp_all
    qed
  qed
qed

definition sample_peer_probe :: discovery_peer_probe where
  "sample_peer_probe = fixed_discovery_peer_probe
     (Some (peer_identity_view_for_advertisement (sample_advertisement 2 6 0))) None"

definition sample_peer_store :: store where
  "sample_peer_store =
     fst (admit_discovery_peer_advertisement sample_ext (sample_advertisement 2 6 0) sample_peer_probe
       True 5 empty_store)"

lemma sample_ad_gate: "advertisement_gate sample_ext (sample_advertisement 2 6 0) True 5 = None"
proof -
  have f: "ad_node_id (sample_advertisement 2 6 0) = 6"
    "ni_node_id (ad_signer (sample_advertisement 2 6 0)) = 6"
    "ni_public_key (ad_signer (sample_advertisement 2 6 0)) = sample_key"
    "ad_protocol_version (sample_advertisement 2 6 0) = current_protocol_version"
    "ni_supported_protocol_version (ad_signer (sample_advertisement 2 6 0)) = current_protocol_version"
    "ad_capability (sample_advertisement 2 6 0) = AnnouncementServing"
    "ad_public_endpoint (sample_advertisement 2 6 0) = ''https://h''"
    "ad_lease_is_active (sample_advertisement 2 6 0) 5"
    by (simp_all add: sample_advertisement_def node_info_of_def sample_node_def ad_lease_is_active_def
        peer_advertisement_lease_duration_def peer_advertisement_lease_duration_days_def)
  have "estimated_payload_bytes sample_ext j = 4" for j
    by (simp add: estimated_payload_bytes_def sample_ext_def)
  with f show ?thesis by (simp add: advertisement_gate_def max_peer_advertisement_payload_bytes_def)
qed

lemma sample_peer_admit:
  "\<exists>acc. admit_discovery_peer_advertisement sample_ext (sample_advertisement 2 6 0) sample_peer_probe
     True 5 empty_store = (sample_peer_store, Inr acc) \<and> da_outcome acc = OK_Admitted \<and>
   st_known_discovery_peer_advertisements sample_peer_store =
     [(6, \<lparr> kd_advertisement = sample_advertisement 2 6 0, kd_received_at = 5, kd_learned_from = [] \<rparr>)]"
proof -
  have n: "ad_node_id (sample_advertisement 2 6 0) = 6" by (simp add: sample_advertisement_def)
  have r: "\<not> peer_rate_limit_would_exceed empty_store 6 5"
    by (simp add: peer_rate_limit_would_exceed_def empty_store_def)
  have g: "om_get (st_known_discovery_peer_advertisements empty_store) 6 = None"
    "st_known_discovery_peer_advertisements empty_store = []"
    by (simp_all add: empty_store_def)
  show ?thesis
    unfolding sample_peer_store_def
    by (simp add: admit_discovery_peer_advertisement_def sample_ad_gate n g r admit_probed_def Let_def
        sample_peer_probe_def fixed_discovery_peer_probe_def peer_identity_view_for_advertisement_def
        ensure_identity_matches_advertisement_def record_peer_admission_attempt_def
        ensure_bootstrap_runtime_def)
qed

theorem peer_admission_requires_every_check_witness:
  "\<exists>k. om_get (st_known_discovery_peer_advertisements sample_peer_store)
      (ad_node_id (sample_advertisement 2 6 0)) = Some k \<and> kd_advertisement k = sample_advertisement 2 6 0"
proof -
  obtain acc where r: "admit_discovery_peer_advertisement sample_ext (sample_advertisement 2 6 0)
      sample_peer_probe True 5 empty_store = (sample_peer_store, Inr acc)" "da_outcome acc = OK_Admitted"
    using sample_peer_admit by blast
  from r(2) have "da_outcome acc \<noteq> OK_Idempotent" by simp
  with peer_admission_requires_every_check[OF r(1)] show ?thesis by blast
qed

end
