(* ===== verification/Peer_Stream.thy ===== *)
theory Peer_Stream
  imports Peer_Props
begin

text \<open>
  The states a discovery peer reaches through its requests, and what the pages it serves contain.
\<close>

section \<open>The rows of the peer stream\<close>

text \<open>
  A served row carries an announcement whose signature verified and whose lease was active when
  the row was recorded, under the announcement's own pod.
\<close>

definition served_row_ok :: "ext \<Rightarrow> announcement_stream_entry \<Rightarrow> bool" where
  "served_row_ok x e \<longleftrightarrow>
     (case se_payload e of
        AnnouncementPayload a \<Rightarrow>
          pa_verify x a = Inr True \<and> se_recorded_at e < pa_expires_at a \<and>
          se_kind e = SE_Admitted \<and> se_origin_node_id e = pa_origin_node_id a \<and>
          se_pod_slug e = pa_pod_slug a
      | _ \<Rightarrow> False)"

definition peer_rows_ok :: "ext \<Rightarrow> (nat, announcement_stream_entry) omap \<Rightarrow> bool" where
  "peer_rows_ok x es \<longleftrightarrow>
     om_ok es \<and> length es \<le> max_peer_stream_entries \<and>
     (\<forall>(k, e) \<in> set es. se_sequence e = k \<and> served_row_ok x e)"

lemma set_om_put_subset: "set (om_put k v m) \<subseteq> insert (k, v) (set m)"
  by (induction k v m rule: om_put.induct) auto

lemma peer_rows_append:
  assumes "peer_rows_ok x (st_discovery_peer_stream_entries st)"
    and "pa_verify x a = Inr True" and "pa_lease_is_active a now"
  shows "peer_rows_ok x (st_discovery_peer_stream_entries (fst (append_peer_stream_entry (a, now) st)))"
proof -
  let ?n = "ds_next_stream_sequence (service_of st)"
  let ?put = "om_put ?n (peer_stream_row (a, now) ?n) (st_discovery_peer_stream_entries st)"
  have ok: "om_ok ?put" using assms(1) by (simp add: peer_rows_ok_def)
  have e: "st_discovery_peer_stream_entries (fst (append_peer_stream_entry (a, now) st)) =
      drop (length ?put - max_peer_stream_entries) ?put"
    using peer_log.append_entries[of "(a, now)" st] prune_oldest_drop[OF ok, of max_peer_stream_entries]
    by simp
  have row: "se_sequence (peer_stream_row (a, now) ?n) = ?n" "served_row_ok x (peer_stream_row (a, now) ?n)"
    using assms(2,3) by (simp_all add: peer_stream_row_def served_row_ok_def pa_lease_is_active_def)
  have "se_sequence r = k \<and> served_row_ok x r"
    if "(k, r) \<in> set (drop (length ?put - max_peer_stream_entries) ?put)" for k r
  proof -
    from that have "(k, r) \<in> insert (?n, peer_stream_row (a, now) ?n) (set (st_discovery_peer_stream_entries st))"
      using set_om_put_subset in_set_dropD by fastforce
    then show ?thesis using row assms(1) by (auto simp: peer_rows_ok_def)
  qed
  then show ?thesis using ok by (auto simp: peer_rows_ok_def e)
qed

lemma peer_rows_project:
  "peer_rows_ok x (st_discovery_peer_stream_entries st) \<Longrightarrow>
   peer_rows_ok x (st_discovery_peer_stream_entries (fst (project_peer_serving_announcement x a now st)))"
  using peer_rows_append[of x st a now]
  by (auto simp: project_peer_serving_announcement_def split: prod.splits)

lemma peer_rows_projects:
  "peer_rows_ok x (st_discovery_peer_stream_entries st) \<Longrightarrow>
   peer_rows_ok x (st_discovery_peer_stream_entries
     (fold (\<lambda>a st. fst (project_peer_serving_announcement x a now st)) as st))"
  by (induction as arbitrary: st) (simp_all add: peer_rows_project)

lemma peer_rows_project_known:
  "peer_rows_ok x (st_discovery_peer_stream_entries st) \<Longrightarrow>
   peer_rows_ok x (st_discovery_peer_stream_entries (project_known_announcements_into_peer_stream x now st))"
  by (simp add: project_known_announcements_into_peer_stream_def Let_def peer_rows_projects)

lemma peer_rows_maybe:
  "peer_rows_ok x (st_discovery_peer_stream_entries st) \<Longrightarrow>
   peer_rows_ok x (st_discovery_peer_stream_entries (maybe_project_peer_serving_announcement x a now st))"
  by (simp add: maybe_project_peer_serving_announcement_def peer_rows_project)

lemma peer_rows_retain:
  "peer_rows_ok x (st_discovery_peer_stream_entries st) \<Longrightarrow>
   peer_rows_ok x (st_discovery_peer_stream_entries (fst (retain_verified_pod_announcement x a p now st)))"
  by (auto simp: retain_verified_pod_announcement_def Let_def intro!: peer_rows_maybe
      split: sum.splits option.splits)

lemma withdrawal_keeps_peer_stream [simp]:
  "st_discovery_peer_stream_entries (fst (retain_verified_pod_withdrawal x w p now st)) =
   st_discovery_peer_stream_entries st"
  "st_discovery_peer_service (fst (retain_verified_pod_withdrawal x w p now st)) =
   st_discovery_peer_service st"
  by (auto simp: retain_verified_pod_withdrawal_def retain_new_withdrawal_def Let_def
      split: option.splits)

lemma renew_keeps_peer_stream [simp]:
  "st_discovery_peer_stream_entries (fst (renew_discovery_peer_advertisement x i node probe now st)) =
   st_discovery_peer_stream_entries st"
  by (auto simp: renew_discovery_peer_advertisement_def ensure_discovery_peer_service_def Let_def
      split: option.splits sum.splits discovery_peer_probe_error.splits)

lemma disable_keeps_peer_stream [simp]:
  "st_discovery_peer_stream_entries (disable_discovery_peer_service st) =
   st_discovery_peer_stream_entries st"
  by (simp add: disable_discovery_peer_service_def ensure_discovery_peer_service_def Let_def)

lemma peer_rows_enable:
  "peer_rows_ok x (st_discovery_peer_stream_entries st) \<Longrightarrow>
   peer_rows_ok x (st_discovery_peer_stream_entries
     (fst (enable_discovery_peer_service x i node endpoint probe now st)))"
  by (auto simp: enable_discovery_peer_service_def ensure_discovery_peer_service_def Let_def
      intro!: peer_rows_project_known
      split: option.splits sum.splits discovery_peer_probe_error.splits)

lemma admission_keeps_peer_stream [simp]:
  "st_discovery_peer_stream_entries (fst (admit_discovery_peer_advertisement x ad probe en now st)) =
   st_discovery_peer_stream_entries st"
proof -
  have r: "st_discovery_peer_stream_entries (record_peer_admission_attempt n now s) =
      st_discovery_peer_stream_entries s" for n s
    by (simp add: record_peer_admission_attempt_def ensure_bootstrap_runtime_def Let_def)
  have "st_discovery_peer_stream_entries (fst (admit_probed ad probe b now st)) =
      st_discovery_peer_stream_entries st" for b
    by (auto simp: admit_probed_def Let_def r split: sum.splits discovery_peer_probe_error.splits)
  then show ?thesis
    by (auto simp: admit_discovery_peer_advertisement_def split: option.splits)
qed

section \<open>Reachable states of a discovery peer\<close>

inductive peer_step :: "ext \<Rightarrow> store \<Rightarrow> store \<Rightarrow> bool" for x where
  enable: "peer_step x st (fst (enable_discovery_peer_service x i node endpoint probe now st))"
| renew: "peer_step x st (fst (renew_discovery_peer_advertisement x i node probe now st))"
| disable: "peer_step x st (disable_discovery_peer_service st)"
| admit: "peer_step x st (fst (admit_discovery_peer_advertisement x ad probe en now st))"
| retain: "peer_step x st (fst (retain_verified_pod_announcement x a p now st))"
| retain_withdrawal: "peer_step x st (fst (retain_verified_pod_withdrawal x w from now st))"

inductive peer_reachable :: "ext \<Rightarrow> store \<Rightarrow> bool" for x where
  start: "peer_reachable x empty_store"
| step: "peer_reachable x st \<Longrightarrow> peer_step x st st' \<Longrightarrow> peer_reachable x st'"

inductive_cases peer_stepE: "peer_step x st st'"

lemma peer_step_rows:
  "peer_step x st st' \<Longrightarrow> peer_rows_ok x (st_discovery_peer_stream_entries st) \<Longrightarrow>
   peer_rows_ok x (st_discovery_peer_stream_entries st')"
  by (erule peer_stepE) (simp_all add: peer_rows_enable peer_rows_retain)

lemma peer_reachable_rows:
  "peer_reachable x st \<Longrightarrow> peer_rows_ok x (st_discovery_peer_stream_entries st)"
  by (induction rule: peer_reachable.induct)
    (simp_all add: peer_rows_ok_def [of x "[]"] empty_store_def peer_step_rows)

section \<open>What a page contains\<close>

lemma page_entries_in: "e \<in> set (page_entries after lim m) \<Longrightarrow> \<exists>k. (k, e) \<in> set m"
  by (auto simp: page_entries_def om_vals_def entries_after_def dest!: in_set_takeD)


section \<open>A serving peer\<close>

definition sample_self_probe :: discovery_peer_probe where
  "sample_self_probe = fixed_discovery_peer_probe (Some (peer_identity_view_for_node sample_node)) None"

text \<open>The peer of \<open>sample_peer_store\<close> after it retained one announcement and enabled serving.\<close>

definition sample_announced_store :: store where
  "sample_announced_store =
     fst (retain_verified_pod_announcement sample_ext (sample_announcement 2 3) dp_LOCAL 5 sample_peer_store)"

definition sample_serving_store :: store where
  "sample_serving_store =
     fst (enable_discovery_peer_service sample_ext 9 sample_node ''https://h'' sample_self_probe 5
       sample_announced_store)"

lemma sample_serving_reachable: "peer_reachable sample_ext sample_serving_store"
  unfolding sample_serving_store_def sample_announced_store_def sample_peer_store_def
  by (intro peer_reachable.step[OF peer_reachable.step[OF peer_reachable.step[OF peer_reachable.start]]])
    (rule peer_step.admit peer_step.retain peer_step.enable)+

lemma sample_peer_store_fields [simp]:
  "st_known_pod_announcements sample_peer_store = []"
  "st_known_pod_withdrawals sample_peer_store = []"
  "st_discovery_peer_service sample_peer_store = None"
  "st_discovery_peer_stream_entries sample_peer_store = []"
proof -
  have n: "ad_node_id (sample_advertisement 2 6 0) = 6" by (simp add: sample_advertisement_def)
  have r: "\<not> peer_rate_limit_would_exceed empty_store 6 5"
    by (simp add: peer_rate_limit_would_exceed_def empty_store_def)
  note d = sample_peer_store_def admit_discovery_peer_advertisement_def sample_ad_gate n r
    admit_probed_def Let_def sample_peer_probe_def fixed_discovery_peer_probe_def
    peer_identity_view_for_advertisement_def ensure_identity_matches_advertisement_def
    record_peer_admission_attempt_def ensure_bootstrap_runtime_def
  have e: "st_known_discovery_peer_advertisements empty_store = []"
    "st_known_pod_announcements empty_store = []" "st_known_pod_withdrawals empty_store = []"
    "st_discovery_peer_service empty_store = None" "st_discovery_peer_stream_entries empty_store = []"
    by (simp_all add: empty_store_def)
  show "st_known_pod_announcements sample_peer_store = []"
    "st_known_pod_withdrawals sample_peer_store = []"
    "st_discovery_peer_service sample_peer_store = None"
    "st_discovery_peer_stream_entries sample_peer_store = []"
    by (simp_all add: d e)
qed

lemma sample_announced_store_eq:
  "sample_announced_store =
     sample_peer_store\<lparr>st_known_pod_withdrawals := [],
       st_known_pod_announcements :=
         [((4, ''p''), known_after_delivery None (sample_announcement 2 3) dp_LOCAL 5)]\<rparr>"
  by (simp add: sample_announced_store_def retain_verified_pod_announcement_def Let_def om_del_def
      peer_service_is_enabled_def)

lemma sample_node_advertisement:
  "\<exists>ad. build_signed_advertisement sample_ext 9 sample_node ''https://h'' 5 = Inr ad"
  by (simp add: build_signed_advertisement_def sign_discovery_peer_advertisement_def Let_def)

lemma sample_candidates:
  "values_in_order (x_iter_pods sample_ext) [((4, ''p''), known_after_delivery None (sample_announcement 2 3) dp_LOCAL 5)] =
   [known_after_delivery None (sample_announcement 2 3) dp_LOCAL 5]"
  by (simp add: values_in_order_def sample_ext_def om_get_def List.map_filter_simps)

lemma sample_serving_fields:
  "peer_service_is_enabled sample_serving_store"
  "st_discovery_peer_stream_entries sample_serving_store =
     [(1, peer_stream_row (sample_announcement 2 3, 5) 1)]"
  "st_known_discovery_peer_advertisements sample_serving_store =
     st_known_discovery_peer_advertisements sample_peer_store"
  "ds_next_stream_sequence (service_of sample_serving_store) = 2"
  "st_known_pod_announcements sample_serving_store =
     [((4, ''p''), known_after_delivery None (sample_announcement 2 3) dp_LOCAL 5)]"
  "st_known_pod_withdrawals sample_serving_store = []"
proof -
  obtain ad where ad: "build_signed_advertisement sample_ext 9 sample_node ''https://h'' 5 = Inr ad"
    using sample_node_advertisement by blast
  have k: "nd_id sample_node = 4" "nd_public_key sample_node = sample_key" "trim sample_key \<noteq> []"
    by (simp_all add: sample_node_def)
  have a: "ka_announcement (known_after_delivery None (sample_announcement 2 3) dp_LOCAL 5) =
      sample_announcement 2 3"
    by (simp add: known_after_delivery_def)
  note d = sample_serving_store_def enable_discovery_peer_service_def ad k a Let_def sample_self_probe_def
    fixed_discovery_peer_probe_def peer_identity_view_for_node_def ensure_identity_matches_node_def
    ensure_discovery_peer_service_def service_of_def discovery_peer_service_default_def
    project_known_announcements_into_peer_stream_def sample_announced_store_eq sample_candidates
    project_peer_serving_announcement_def peer_service_is_enabled_def append_peer_stream_entry_def
    prune_peer_stream_entries_def prune_oldest_le max_peer_stream_entries_def sat_add_def u64_max_def
  show "peer_service_is_enabled sample_serving_store" by (simp add: d)
  show "st_discovery_peer_stream_entries sample_serving_store =
     [(1, peer_stream_row (sample_announcement 2 3, 5) 1)]" by (simp add: d)
  show "st_known_discovery_peer_advertisements sample_serving_store =
     st_known_discovery_peer_advertisements sample_peer_store" by (simp add: d)
  show "ds_next_stream_sequence (service_of sample_serving_store) = 2" by (simp add: d)
  show "st_known_pod_announcements sample_serving_store =
     [((4, ''p''), known_after_delivery None (sample_announcement 2 3) dp_LOCAL 5)]"
    and "st_known_pod_withdrawals sample_serving_store = []" by (simp_all add: d)
qed

lemma sample_page:
  "read_peer_announcement_stream None None sample_serving_store =
     Inr \<lparr> sp_entries = [peer_stream_row (sample_announcement 2 3, 5) 1],
       sp_next_cursor = Some (encode_stream_cursor 1), sp_limit = 50 \<rparr>"
  by (simp add: read_peer_announcement_stream_def sample_serving_fields parse_stream_cursor_def Let_def
      page_entries_def entries_after_def om_vals_def clamp_def max_peer_stream_page_limit_def
      default_peer_stream_page_limit_def wrapping_add_def peer_stream_row_def)


theorem advertisement_sample_sound_witness:
  "\<exists>sample. sample_discovery_peer_advertisements sample_ext None 5 3 sample_serving_store = Inr sample \<and>
     sm_advertisements sample = [sample_advertisement 2 6 0]"
proof -
  obtain acc where k: "st_known_discovery_peer_advertisements sample_serving_store =
     [(6, \<lparr> kd_advertisement = sample_advertisement 2 6 0, kd_received_at = 5, kd_learned_from = [] \<rparr>)]"
    using sample_peer_admit sample_serving_fields(3) by auto
  obtain sample where r: "sample_discovery_peer_advertisements sample_ext None 5 3 sample_serving_store = Inr sample"
    by (simp add: sample_discovery_peer_advertisements_def sample_serving_fields(1))
  have e: "eligible_advertisements sample_ext 5 (om_vals (st_known_discovery_peer_advertisements sample_serving_store))
      = [sample_advertisement 2 6 0]"
    by (simp add: k om_vals_def eligible_advertisements_def ad_lease_is_active_def)
      (simp add: sample_advertisement_def peer_advertisement_lease_duration_def
        peer_advertisement_lease_duration_days_def)
  have "om_ok (st_known_discovery_peer_advertisements sample_serving_store)" by (simp add: k om_ok_def)
  from advertisement_sample_sound[OF sample_iteration_sound this r] e
  have "mset (sm_advertisements sample) = mset [sample_advertisement 2 6 0]" by simp
  then have "sm_advertisements sample = [sample_advertisement 2 6 0]" by simp
  with r show ?thesis by blast
qed

end
