(* ===== verification/Stream_Sync.thy ===== *)
theory Stream_Sync
  imports Stream_Log
begin

text \<open>
  The paged synchronization both clients share (\<open>stream_sync.rs\<close>): fetching pages before any
  store mutation, the classification of retain errors, the staging of one page and the draining of
  the fetched pages. The transport is a function of the call's number and the request, so that a
  remote may answer the same request differently over time; the failure type is a parameter.
\<close>

section \<open>Fetching\<close>

definition max_pages_per_endpoint :: nat where
  "max_pages_per_endpoint = 32"

definition default_sync_page_limit :: nat where
  "default_sync_page_limit = 50"

record 'e fetched_stream =
  fs_pages :: "announcement_stream_page list"
  fs_start_cursor :: "string option"
  fs_fetch_error :: "'e option"

type_synonym 'e page_fetch = "nat \<Rightarrow> bootstrap_stream_request \<Rightarrow> 'e + announcement_stream_page"

text \<open>\<open>Option<String>::unwrap_or_default\<close>, which the end-of-stream test compares with.\<close>

definition cursor_text :: "string option \<Rightarrow> string" where
  "cursor_text cursor = (case cursor of None \<Rightarrow> [] | Some text \<Rightarrow> text)"

definition stream_request :: "string option \<Rightarrow> bootstrap_stream_request" where
  "stream_request cursor = \<lparr> sr_cursor = cursor, sr_limit = Some default_sync_page_limit \<rparr>"

text \<open>The cursor to go on with, when the page does not end the stream.\<close>

definition continues :: "string option \<Rightarrow> announcement_stream_page \<Rightarrow> string option" where
  "continues cursor page =
     (case sp_next_cursor page of
        None \<Rightarrow> None
      | Some next \<Rightarrow> if next \<noteq> cursor_text cursor then Some next else None)"

text \<open>The loop; the first argument counts the iterations left.\<close>

fun fetch_pages ::
  "nat \<Rightarrow> nat \<Rightarrow> 'e page_fetch \<Rightarrow> string option \<Rightarrow> announcement_stream_page list \<times> 'e option" where
  "fetch_pages 0 call fetch cursor = ([], None)"
| "fetch_pages (Suc n) call fetch cursor =
     (case fetch call (stream_request cursor) of
        Inl error \<Rightarrow> ([], Some error)
      | Inr page \<Rightarrow>
          (case continues cursor page of
             None \<Rightarrow> ([page], None)
           | Some next \<Rightarrow>
               (case fetch_pages n (Suc call) fetch (Some next) of
                  (pages, error) \<Rightarrow> (page # pages, error))))"

definition fetch_stream_pages :: "string option \<Rightarrow> 'e page_fetch \<Rightarrow> 'e fetched_stream" where
  "fetch_stream_pages start_cursor fetch =
     (case fetch_pages max_pages_per_endpoint 0 fetch start_cursor of
        (pages, error) \<Rightarrow>
          \<lparr> fs_pages = pages, fs_start_cursor = start_cursor, fs_fetch_error = error \<rparr>)"

section \<open>Classifying retain errors\<close>

datatype retain_failure = RF_InvalidSignature string | RF_Validation string | RF_Protocol string

fun map_retain_error :: "store_error \<Rightarrow> string \<Rightarrow> retain_failure + unit" where
  "map_retain_error AnnouncementStale subject = Inr ()"
| "map_retain_error AnnouncementExpired subject = Inr ()"
| "map_retain_error AnnouncementWithdrawn subject = Inr ()"
| "map_retain_error WithdrawalStale subject = Inr ()"
| "map_retain_error InvalidSignature subject =
     Inl (RF_InvalidSignature (subject @ '' signature verification failed''))"
| "map_retain_error (Validation message) subject = Inl (RF_Validation message)"
| "map_retain_error (NotFound s) subject = Inl (RF_Protocol (store_error_to_string (NotFound s)))"
| "map_retain_error (Duplicate s) subject = Inl (RF_Protocol (store_error_to_string (Duplicate s)))"
| "map_retain_error TenantBoundary subject = Inl (RF_Protocol (store_error_to_string TenantBoundary))"
| "map_retain_error UntrustedPeer subject = Inl (RF_Protocol (store_error_to_string UntrustedPeer))"

section \<open>Applying and draining\<close>

definition apply_page_staged :: "(store \<Rightarrow> store \<times> ('e + 't)) \<Rightarrow> store \<Rightarrow> store \<times> ('e + 't)" where
  "apply_page_staged apply_page st =
     (case apply_page st of
        (st', Inr result) \<Rightarrow> (st', Inr result)
      | (st', Inl error) \<Rightarrow>
          (st'\<lparr>st_known_pod_announcements := st_known_pod_announcements st,
               st_known_pod_withdrawals := st_known_pod_withdrawals st\<rparr>,
           Inl error))"

record 'e stream_drain =
  sd_pages_applied :: nat
  sd_retained_announcements :: nat
  sd_retained_withdrawals :: nat
  sd_cursor :: "string option"
  sd_failure :: "'e option"

text \<open>
  The loop over the fetched pages. It carries the caller's record of the cursor (\<open>'r\<close>, updated
  by \<open>record_cursor\<close> after every applied page) and returns whether the stream ended.
\<close>

fun drain_pages ::
  "(string option \<Rightarrow> 'r \<Rightarrow> 'r)
    \<Rightarrow> (store \<Rightarrow> announcement_stream_page \<Rightarrow> store \<times> ('e + nat \<times> nat))
    \<Rightarrow> announcement_stream_page list \<Rightarrow> 'e stream_drain \<Rightarrow> 'r \<Rightarrow> store
    \<Rightarrow> store \<times> 'r \<times> 'e stream_drain \<times> bool" where
  "drain_pages record_cursor apply_page [] d r st = (st, r, d, False)"
| "drain_pages record_cursor apply_page (page # pages) d r st =
     (case apply_page st page of
        (st', Inl error) \<Rightarrow> (st', r, d\<lparr>sd_failure := Some error\<rparr>, False)
      | (st', Inr (announcements, withdrawals)) \<Rightarrow>
          let d' = d\<lparr>sd_retained_announcements := sat_add (sd_retained_announcements d) announcements,
                     sd_retained_withdrawals := sat_add (sd_retained_withdrawals d) withdrawals,
                     sd_pages_applied := sat_add (sd_pages_applied d) 1\<rparr>
          in case continues (sd_cursor d) page of
               Some next \<Rightarrow>
                 drain_pages record_cursor apply_page pages (d'\<lparr>sd_cursor := Some next\<rparr>)
                   (record_cursor (Some next) r) st'
             | None \<Rightarrow>
                 let cursor = (case sp_next_cursor page of
                                 Some next \<Rightarrow> Some next | None \<Rightarrow> sd_cursor d)
                 in (st', record_cursor cursor r, d'\<lparr>sd_cursor := cursor\<rparr>, True))"

definition drain_stream_pages ::
  "'e fetched_stream \<Rightarrow> (string option \<Rightarrow> 'r \<Rightarrow> 'r)
    \<Rightarrow> (store \<Rightarrow> announcement_stream_page \<Rightarrow> store \<times> ('e + nat \<times> nat)) \<Rightarrow> 'r \<Rightarrow> store
    \<Rightarrow> store \<times> 'r \<times> 'e stream_drain" where
  "drain_stream_pages fetched record_cursor apply_page r st =
     (case drain_pages record_cursor apply_page (fs_pages fetched)
             \<lparr> sd_pages_applied = 0, sd_retained_announcements = 0, sd_retained_withdrawals = 0,
               sd_cursor = fs_start_cursor fetched, sd_failure = None \<rparr> r st of
        (st', r', d, ended) \<Rightarrow>
          (st', r', if sd_failure d = None \<and> \<not> ended then d\<lparr>sd_failure := fs_fetch_error fetched\<rparr>
                    else d))"

section \<open>Bounds of a fetch\<close>

lemma fetch_pages_bounded: "length (fst (fetch_pages n call fetch cursor)) \<le> n"
proof (induction n call fetch cursor rule: fetch_pages.induct)
  case (2 n call fetch cursor)
  then show ?case by (auto simp: case_prod_unfold split: sum.splits option.splits)
qed simp

section \<open>What a drain applies\<close>

text \<open>The cursor after a list of applied pages.\<close>

fun last_cursor :: "string option \<Rightarrow> announcement_stream_page list \<Rightarrow> string option" where
  "last_cursor cursor [] = cursor"
| "last_cursor cursor (page # pages) =
     last_cursor (case sp_next_cursor page of Some next \<Rightarrow> Some next | None \<Rightarrow> cursor) pages"

text \<open>The store after applying every page of a list, when none of them fails.\<close>

fun apply_all ::
  "(store \<Rightarrow> announcement_stream_page \<Rightarrow> store \<times> ('e + nat \<times> nat)) \<Rightarrow> announcement_stream_page list
    \<Rightarrow> store \<Rightarrow> store option" where
  "apply_all apply_page [] st = Some st"
| "apply_all apply_page (page # pages) st =
     (case apply_page st page of
        (st', Inl _) \<Rightarrow> None
      | (st', Inr _) \<Rightarrow> apply_all apply_page pages st')"

lemma apply_all_append:
  "apply_all f (ps @ qs) st = (case apply_all f ps st of None \<Rightarrow> None | Some st' \<Rightarrow> apply_all f qs st')"
  by (induction f ps st rule: apply_all.induct) (auto split: prod.splits sum.splits)

lemma apply_all_preserves:
  assumes "apply_all f ps st = Some st'" and "P st" and "\<And>s p. P s \<Longrightarrow> P (fst (f s p))"
  shows "P st'"
  using assms(1,2)
proof (induction ps arbitrary: st)
  case (Cons p ps)
  then show ?case using assms(3)[of st p] by (cases "f st p"; cases "snd (f st p)") auto
qed simp

lemma continues_next: "continues cursor page = Some next \<Longrightarrow> sp_next_cursor page = Some next"
  by (auto simp: continues_def split: option.splits if_splits)

text \<open>A drain applies a prefix of the pages; it stops at the end of the stream or at a failing page.\<close>

lemma drain_pages_prefix:
  assumes "drain_pages rec f pages d r st = (st', r', d', ended)"
    and "sd_pages_applied d + length pages \<le> u64_max" and "sd_failure d = None"
    and "\<And>c c' r. rec c (rec c' r) = rec c r"
  shows "\<exists>applied rest st1. pages = applied @ rest \<and> apply_all f applied st = Some st1 \<and>
     sd_pages_applied d' = sd_pages_applied d + length applied \<and>
     sd_cursor d' = last_cursor (sd_cursor d) applied \<and>
     r' = (if applied = [] then r else rec (sd_cursor d') r) \<and>
     (case sd_failure d' of
        None \<Rightarrow> st' = st1 \<and> (ended \<or> rest = [])
      | Some e \<Rightarrow> \<not> ended \<and> (\<exists>page. rest \<noteq> [] \<and> page = hd rest \<and> f st1 page = (st', Inl e)))"
  using assms(1-3)
proof (induction pages arbitrary: d r st)
  case Nil
  then show ?case by simp
next
  case (Cons page pages)
  obtain st2 res where f: "f st page = (st2, res)" by (cases "f st page")
  show ?case
  proof (cases res)
    case (Inl e)
    then have "st' = st2" "r' = r" "d' = d\<lparr>sd_failure := Some e\<rparr>" "\<not> ended"
      using Cons.prems(1) f by simp_all
    then show ?thesis using f Inl by (intro exI[of _ "[]"] exI[of _ "page # pages"] exI[of _ st]) simp
  next
    case (Inr counts)
    obtain a w where c: "counts = (a, w)" by (cases counts)
    define d2 where "d2 = d\<lparr>sd_retained_announcements := sat_add (sd_retained_announcements d) a,
      sd_retained_withdrawals := sat_add (sd_retained_withdrawals d) w,
      sd_pages_applied := sat_add (sd_pages_applied d) 1\<rparr>"
    have d2: "sd_pages_applied d2 = Suc (sd_pages_applied d)" "sd_cursor d2 = sd_cursor d"
        "sd_failure d2 = None"
      using Cons.prems(2,3) by (simp_all add: d2_def sat_add_def)
    show ?thesis
    proof (cases "continues (sd_cursor d) page")
      case None
      let ?c = "case sp_next_cursor page of Some next \<Rightarrow> Some next | None \<Rightarrow> sd_cursor d"
      have "st' = st2" "r' = rec ?c r" "d' = d2\<lparr>sd_cursor := ?c\<rparr>" "ended"
        using Cons.prems(1) f Inr c None by (simp_all add: d2_def Let_def)
      then show ?thesis using f Inr c d2
        by (intro exI[of _ "[page]"] exI[of _ pages] exI[of _ st2]) simp
    next
      case (Some nxt)
      note nc = continues_next[OF Some]
      have "drain_pages rec f pages (d2\<lparr>sd_cursor := Some nxt\<rparr>) (rec (Some nxt) r) st2 = (st', r', d', ended)"
        using Cons.prems(1) f Inr c Some by (simp add: d2_def Let_def)
      from Cons.IH[OF this] Cons.prems(2) d2 obtain applied rest st1 where
        ih: "pages = applied @ rest" "apply_all f applied st2 = Some st1"
          "sd_pages_applied d' = Suc (sd_pages_applied d) + length applied"
          "sd_cursor d' = last_cursor (Some nxt) applied"
          "r' = (if applied = [] then rec (Some nxt) r else rec (sd_cursor d') (rec (Some nxt) r))"
          "case sd_failure d' of None \<Rightarrow> st' = st1 \<and> (ended \<or> rest = [])
           | Some e \<Rightarrow> \<not> ended \<and> (\<exists>page. rest \<noteq> [] \<and> page = hd rest \<and> f st1 page = (st', Inl e))"
        by auto
      have "r' = rec (sd_cursor d') r" using ih(4,5) assms(4) by (cases applied) simp_all
      then show ?thesis using ih f Inr c nc
        by (intro exI[of _ "page # applied"] exI[of _ rest] exI[of _ st1]) simp
    qed
  qed
qed

text \<open>Staging restores the two maps of a failing page.\<close>

lemma staged_failure:
  "apply_page_staged f st = (st', Inl e) \<Longrightarrow>
   st_known_pod_announcements st' = st_known_pod_announcements st \<and>
   st_known_pod_withdrawals st' = st_known_pod_withdrawals st \<and> (\<exists>st1. f st = (st1, Inl e))"
  by (auto simp: apply_page_staged_def split: prod.splits sum.splits)

lemma staged_success: "apply_page_staged f st = (st', Inr v) \<longleftrightarrow> f st = (st', Inr v)"
  by (auto simp: apply_page_staged_def split: prod.splits sum.splits)

section \<open>Fetching from a served log\<close>

text \<open>
  What a client may assume of a remote that serves a log: a request at a position within the log
  is answered with the rows after it, at most the requested fifty, and the position of the last
  of them; reading leaves the log as it is.
\<close>

locale page_server =
  fixes serve :: "'s \<Rightarrow> bootstrap_stream_request \<Rightarrow> 'e + announcement_stream_page"
    and log :: "'s \<Rightarrow> (nat, announcement_stream_entry) omap"
    and next_seq :: "'s \<Rightarrow> nat"
    and cap :: nat
    and ready :: "'s \<Rightarrow> bool"
  assumes ready_log: "ready s \<Longrightarrow> log_ok cap (next_seq s) (log s)"
    and serve_page: "ready s \<Longrightarrow> parse_stream_cursor cursor = Inr after \<Longrightarrow> after < next_seq s \<Longrightarrow>
      \<exists>page. serve s (stream_request cursor) = Inr page \<and>
        sp_entries page = page_entries after default_sync_page_limit (log s) \<and>
        sp_next_cursor page = (if sp_entries page = [] then None
          else Some (encode_stream_cursor (se_sequence (last (sp_entries page)))))"
begin

lemma entries_below:
  assumes "ready s" and "after < next_seq s"
  shows "\<forall>k \<in> set (om_keys (log s)). k < u64_max" and "after < u64_max"
  using ready_log[OF assms(1)] assms(2) by (auto simp: log_ok_def)

lemma last_row:
  assumes "ready s" and "take limit (entries_after after (log s)) \<noteq> []"
  shows "se_sequence (last (page_entries after limit (log s))) =
           fst (last (take limit (entries_after after (log s))))"
    and "fst (last (take limit (entries_after after (log s)))) < next_seq s"
proof -
  let ?es = "take limit (entries_after after (log s))"
  have "last ?es \<in> set ?es" using assms(2) by (rule last_in_set)
  then have l: "last ?es \<in> set (log s)" by (auto simp: entries_after_def dest: in_set_takeD)
  have "se_sequence (snd (last ?es)) = fst (last ?es)"
    using ready_log[OF assms(1)] l by (simp add: log_ok_def)
  then show "se_sequence (last (page_entries after limit (log s))) = fst (last ?es)"
    using assms(2) by (simp add: page_entries_def om_vals_def last_map)
  have "fst (last ?es) \<in> set (om_keys (log s))" using l by (simp add: om_keys_def)
  then show "fst (last ?es) < next_seq s" using log_ok_keys[OF ready_log[OF assms(1)]] by simp
qed

text \<open>
  A fetch of \<open>n\<close> pages returns, page after page, the first \<open>50 n\<close> rows after the start position.
\<close>

lemma fetch_pages_complete:
  assumes "ready s" and "parse_stream_cursor cursor = Inr after" and "after < next_seq s"
  shows "\<exists>pages. fetch_pages n call (\<lambda>_. serve s) cursor = (pages, None) \<and>
    concat (map sp_entries pages) = page_entries after (n * default_sync_page_limit) (log s)"
  using assms(2,3)
proof (induction n arbitrary: call cursor after)
  case 0
  show ?case by (simp add: page_entries_def om_vals_def)
next
  case (Suc n)
  let ?lim = default_sync_page_limit
  let ?es = "take ?lim (entries_after after (log s))"
  obtain page where page: "serve s (stream_request cursor) = Inr page"
      "sp_entries page = page_entries after ?lim (log s)"
      "sp_next_cursor page = (if sp_entries page = [] then None
         else Some (encode_stream_cursor (se_sequence (last (sp_entries page)))))"
    using serve_page[OF assms(1) Suc.prems] by blast
  have empty: "sp_entries page = [] \<longleftrightarrow> ?es = []"
    by (simp add: page(2) page_entries_def om_vals_def)
  show ?case
  proof (cases "?es = []")
    case True
    then have "entries_after after (log s) = []" by (simp add: default_sync_page_limit_def)
    then show ?thesis
      using True empty page by (simp add: continues_def page_entries_def om_vals_def)
  next
    case False
    let ?k = "fst (last ?es)"
    note row = last_row[OF assms(1) False]
    have next_cursor: "sp_next_cursor page = Some (encode_stream_cursor ?k)"
      using page(3) empty False row(1) by (simp add: page(2))
    have room: "\<forall>k \<in> set (om_keys (log s)). k < u64_max" "after < u64_max" "next_seq s \<le> u64_max"
      using entries_below[OF assms(1) Suc.prems(2)] ready_log[OF assms(1)] by (simp_all add: log_ok_def)
    have "last ?es \<in> set (entries_after after (log s))"
      using False by (metis in_set_takeD last_in_set)
    then have beyond: "after < ?k" using room(2) by (simp add: entries_after_def Suc_le_eq)
    have parse: "parse_stream_cursor (Some (encode_stream_cursor ?k)) = Inr ?k"
      using row(2) room(3) by (intro parse_encode_cursor) simp
    have "encode_stream_cursor ?k \<noteq> cursor_text cursor"
    proof
      assume eq: "encode_stream_cursor ?k = cursor_text cursor"
      show False
      proof (cases cursor)
        case None
        then show False
          using eq parse beyond by (simp add: cursor_text_def parse_stream_cursor_def encode_stream_cursor_def)
      next
        case (Some c)
        then have "parse_stream_cursor cursor = Inr ?k" using eq parse by (simp add: cursor_text_def)
        then show False using Suc.prems(1) beyond by simp
      qed
    qed
    then have go: "continues cursor page = Some (encode_stream_cursor ?k)"
      by (simp add: continues_def next_cursor)
    obtain pages where rest: "fetch_pages n (Suc call) (\<lambda>_. serve s) (Some (encode_stream_cursor ?k)) = (pages, None)"
        "concat (map sp_entries pages) = page_entries ?k (n * ?lim) (log s)"
      using Suc.IH[OF parse row(2)] by blast
    have split: "entries_after after (log s) = ?es @ entries_after ?k (log s)"
      using entries_after_split[OF log_ok_om_ok[OF ready_log[OF assms(1)]] room(1,2) refl False] .
    have "page_entries after (Suc n * ?lim) (log s) =
        page_entries after ?lim (log s) @ page_entries ?k (n * ?lim) (log s)"
    proof (cases "?lim \<le> length (entries_after after (log s))")
      case True
      then have "length ?es = ?lim" by simp
      then have "take (Suc n * ?lim) (entries_after after (log s)) =
          ?es @ take (n * ?lim) (entries_after ?k (log s))"
        by (subst split) simp
      then show ?thesis by (simp add: page_entries_def om_vals_def)
    next
      case False
      then have "?es = entries_after after (log s)" by simp
      then have "entries_after ?k (log s) = []" using split by simp
      then show ?thesis using False by (simp add: page_entries_def om_vals_def)
    qed
    then show ?thesis using page(1,2) go rest by simp
  qed
qed

lemma fetch_complete:
  assumes "ready s" and "parse_stream_cursor cursor = Inr after" and "after < next_seq s"
  shows "fs_fetch_error (fetch_stream_pages cursor (\<lambda>_. serve s)) = None"
    and "concat (map sp_entries (fs_pages (fetch_stream_pages cursor (\<lambda>_. serve s)))) =
           page_entries after 1600 (log s)"
  using fetch_pages_complete[OF assms, of max_pages_per_endpoint 0]
  by (auto simp: fetch_stream_pages_def max_pages_per_endpoint_def default_sync_page_limit_def
      split: prod.splits)

end

end
