(* ===== verification/Stream_Servers.thy ===== *)
theory Stream_Servers
  imports Peer_Stream Stream_Sync
begin

text \<open>
  The two announcement streams a node serves, as the remote end of the shared synchronization:
  the peer stream and the bootstrap stream provide the interface \<open>page_server\<close>, so a pass of the
  client's fetch loop against either returns the rows after its cursor without gap or repetition.
\<close>

section \<open>The peer stream keeps its log\<close>

text \<open>The counter saturates at the top of its type; below it the log invariant holds.\<close>

definition peer_stream_ok :: "store \<Rightarrow> bool" where
  "peer_stream_ok st \<longleftrightarrow>
     (ds_next_stream_sequence (service_of st) < u64_max \<longrightarrow> peer_log_ok st) \<and>
     1 \<le> ds_next_stream_sequence (service_of st) \<and> ds_next_stream_sequence (service_of st) \<le> u64_max"

lemma peer_stream_ok_append: "peer_stream_ok st \<Longrightarrow> peer_stream_ok (fst (append_peer_stream_entry an st))"
proof -
  assume ok: "peer_stream_ok st"
  show ?thesis
  proof (cases "ds_next_stream_sequence (service_of st) < u64_max")
    case True
    with ok have "peer_log_ok (fst (append_peer_stream_entry an st))"
      using peer_log.append_keeps[of st an] by (simp add: peer_stream_ok_def)
    then show ?thesis using ok True by (simp add: peer_stream_ok_def peer_log.append_next)
  next
    case False
    with ok show ?thesis by (simp add: peer_stream_ok_def peer_log.append_next sat_add_def)
  qed
qed

lemma peer_stream_ok_cong:
  "st_discovery_peer_stream_entries st' = st_discovery_peer_stream_entries st \<Longrightarrow>
   ds_next_stream_sequence (service_of st') = ds_next_stream_sequence (service_of st) \<Longrightarrow>
   peer_stream_ok st' = peer_stream_ok st"
  by (simp add: peer_stream_ok_def)

lemma peer_stream_ok_project:
  "peer_stream_ok st \<Longrightarrow> peer_stream_ok (fst (project_peer_serving_announcement x a now st))"
  using peer_stream_ok_append[of st "(a, now)"]
  by (auto simp: project_peer_serving_announcement_def split: prod.splits)

lemma peer_stream_ok_projects:
  "peer_stream_ok st \<Longrightarrow>
   peer_stream_ok (fold (\<lambda>a st. fst (project_peer_serving_announcement x a now st)) as st)"
  by (induction as arbitrary: st) (simp_all add: peer_stream_ok_project)

lemma peer_stream_ok_maybe:
  "peer_stream_ok st \<Longrightarrow> peer_stream_ok (maybe_project_peer_serving_announcement x a now st)"
  by (simp add: maybe_project_peer_serving_announcement_def peer_stream_ok_project)

lemma peer_stream_ok_maps [simp]:
  "peer_stream_ok (st\<lparr>st_known_pod_withdrawals := ws\<rparr>) = peer_stream_ok st"
  "peer_stream_ok (st\<lparr>st_known_pod_announcements := as\<rparr>) = peer_stream_ok st"
  by (simp_all add: peer_stream_ok_def service_of_def)

lemma peer_stream_ok_retain:
  "peer_stream_ok st \<Longrightarrow> peer_stream_ok (fst (retain_verified_pod_announcement x a p now st))"
  by (auto simp: retain_verified_pod_announcement_def Let_def intro!: peer_stream_ok_maybe
      split: sum.splits option.splits)

lemma peer_stream_ok_enable:
  "peer_stream_ok st \<Longrightarrow> peer_stream_ok (fst (enable_discovery_peer_service x i node endpoint probe now st))"
  by (auto simp: enable_discovery_peer_service_def ensure_discovery_peer_service_def Let_def
      project_known_announcements_into_peer_stream_def peer_stream_ok_def[of "st\<lparr>st_discovery_peer_service := s\<rparr>" for s]
      peer_stream_ok_def[of st]
      intro!: peer_stream_ok_projects
      split: option.splits sum.splits discovery_peer_probe_error.splits)

lemma renew_keeps_counter:
  "ds_next_stream_sequence (service_of (fst (renew_discovery_peer_advertisement x i node probe now st))) =
   ds_next_stream_sequence (service_of st)"
  by (auto simp: renew_discovery_peer_advertisement_def ensure_discovery_peer_service_def Let_def
      split: option.splits sum.splits discovery_peer_probe_error.splits)

lemma admission_keeps_service:
  "st_discovery_peer_service (fst (admit_discovery_peer_advertisement x ad probe en now st)) =
   st_discovery_peer_service st"
proof -
  have r: "st_discovery_peer_service (record_peer_admission_attempt n now s) =
      st_discovery_peer_service s" for n s
    by (simp add: record_peer_admission_attempt_def ensure_bootstrap_runtime_def Let_def)
  have "st_discovery_peer_service (fst (admit_probed ad probe b now st)) =
      st_discovery_peer_service st" for b
    by (auto simp: admit_probed_def Let_def r split: sum.splits discovery_peer_probe_error.splits)
  then show ?thesis
    by (auto simp: admit_discovery_peer_advertisement_def split: option.splits)
qed

lemma peer_stream_ok_unserved:
  "st_discovery_peer_stream_entries st' = st_discovery_peer_stream_entries st \<Longrightarrow>
   st_discovery_peer_service st' = st_discovery_peer_service st \<Longrightarrow>
   peer_stream_ok st \<Longrightarrow> peer_stream_ok st'"
  by (simp add: peer_stream_ok_def service_of_def)

lemma peer_step_stream_ok:
  assumes "peer_step x st st'" and ok: "peer_stream_ok st"
  shows "peer_stream_ok st'"
  using assms(1)
proof (cases rule: peer_step.cases)
  case (enable i node endpoint probe now)
  show ?thesis unfolding enable by (rule peer_stream_ok_enable[OF ok])
next
  case (retain a p now)
  show ?thesis unfolding retain by (rule peer_stream_ok_retain[OF ok])
next
  case (renew i node probe now)
  show ?thesis
    unfolding renew using ok
    by (subst peer_stream_ok_cong[OF renew_keeps_peer_stream renew_keeps_counter])
next
  case disable
  show ?thesis
    unfolding disable using ok
    by (subst peer_stream_ok_cong[OF disable_keeps_peer_stream disable_keeps_counter])
next
  case (admit ad probe en now)
  show ?thesis
    unfolding admit
    by (rule peer_stream_ok_unserved[OF admission_keeps_peer_stream admission_keeps_service ok])
next
  case (retain_withdrawal w sender now)
  show ?thesis
    unfolding retain_withdrawal by (rule peer_stream_ok_unserved[OF withdrawal_keeps_peer_stream ok])
qed

lemma peer_stream_ok_empty: "peer_stream_ok empty_store"
  by (simp add: peer_stream_ok_def service_of_def empty_store_def discovery_peer_service_default_def
      u64_max_def)

lemma peer_reachable_stream: "peer_reachable x st \<Longrightarrow> peer_stream_ok st"
  by (induction rule: peer_reachable.induct) (auto intro: peer_stream_ok_empty peer_step_stream_ok)

section \<open>Both streams provide the interface\<close>

definition serve_peer_page ::
  "store \<Rightarrow> bootstrap_stream_request \<Rightarrow> discovery_peer_admission_rejection_reason + announcement_stream_page" where
  "serve_peer_page st request = read_peer_announcement_stream (sr_cursor request) (sr_limit request) st"

definition serve_bootstrap_page ::
  "time \<times> store \<Rightarrow> bootstrap_stream_request \<Rightarrow> bootstrap_admission_rejection_reason + announcement_stream_page" where
  "serve_bootstrap_page s request =
     snd (read_announcement_stream (sr_cursor request) (sr_limit request) True (fst s) (snd s))"

definition peer_ready :: "store \<Rightarrow> bool" where
  "peer_ready st \<longleftrightarrow> peer_service_is_enabled st \<and> peer_log_ok st"

text \<open>The bootstrap sweep has run at the time of the pass, so that reading changes nothing more.\<close>

definition bootstrap_ready :: "time \<times> store \<Rightarrow> bool" where
  "bootstrap_ready s \<longleftrightarrow>
     st_bootstrap_runtime (snd s) \<noteq> None \<and> boot_log_ok (snd s) \<and>
     emit_expiry_transitions (fst s) (snd s) = (snd s, 0)"

interpretation peer_pages: page_server serve_peer_page st_discovery_peer_stream_entries
  "\<lambda>st. ds_next_stream_sequence (service_of st)" max_peer_stream_entries peer_ready
proof
  fix st cursor after
  assume ready: "peer_ready st" and p: "parse_stream_cursor cursor = Inr after"
    and a: "after < ds_next_stream_sequence (service_of st)"
  obtain service where s: "st_discovery_peer_service st = Some service"
    using ready by (cases "st_discovery_peer_service st") (simp_all add: peer_ready_def peer_service_is_enabled_def)
  then have "after < ds_next_stream_sequence service" using a by (simp add: service_of_def)
  then show "\<exists>page. serve_peer_page st (stream_request cursor) = Inr page \<and>
      sp_entries page = page_entries after default_sync_page_limit (st_discovery_peer_stream_entries st) \<and>
      sp_next_cursor page = (if sp_entries page = [] then None
        else Some (encode_stream_cursor (se_sequence (last (sp_entries page)))))"
    using ready p s by (simp add: serve_peer_page_def stream_request_def read_peer_announcement_stream_def
        peer_ready_def Let_def default_sync_page_limit_def clamp_def max_peer_stream_page_limit_def)
qed (simp add: peer_ready_def)

interpretation boot_pages: page_server serve_bootstrap_page "\<lambda>s. st_announcement_stream_entries (snd s)"
  "\<lambda>s. rt_next_stream_sequence (runtime_of (snd s))" max_stream_entries bootstrap_ready
proof
  fix s :: "time \<times> store" and cursor after
  assume ready: "bootstrap_ready s" and p: "parse_stream_cursor cursor = Inr after"
    and a: "after < rt_next_stream_sequence (runtime_of (snd s))"
  obtain rt where rt: "st_bootstrap_runtime (snd s) = Some rt"
    using ready by (auto simp: bootstrap_ready_def)
  then have "after < rt_next_stream_sequence rt" using a by (simp add: runtime_of_def)
  then show "\<exists>page. serve_bootstrap_page s (stream_request cursor) = Inr page \<and>
      sp_entries page = page_entries after default_sync_page_limit (st_announcement_stream_entries (snd s)) \<and>
      sp_next_cursor page = (if sp_entries page = [] then None
        else Some (encode_stream_cursor (se_sequence (last (sp_entries page)))))"
    using ready p rt by (simp add: serve_bootstrap_page_def stream_request_def read_announcement_stream_def
        bootstrap_ready_def Let_def default_sync_page_limit_def clamp_def max_stream_page_limit_def)
qed (simp add: bootstrap_ready_def)

section \<open>A pass of the client against a served stream\<close>

lemma peer_high_water:
  assumes "peer_log_ok st" and "st_discovery_peer_service st = Some service"
  shows "ds_next_stream_sequence service = ds_next_stream_sequence (service_of st)"
    and "log_end (st_discovery_peer_stream_entries st) \<le> ds_next_stream_sequence (service_of st)"
proof -
  let ?m = "st_discovery_peer_stream_entries st" and ?n = "ds_next_stream_sequence (service_of st)"
  have ok: "log_ok max_peer_stream_entries ?n ?m" using assms(1) by simp
  show "log_end ?m \<le> ?n"
  proof (cases "?m = []")
    case False
    then have "fst (last ?m) \<in> set (om_keys ?m)" by (simp add: om_keys_def)
    then show ?thesis
      using log_ok_keys[OF ok, of "fst (last ?m)"] False by (simp add: log_end_def sat_add_def min.coboundedI1 Suc_le_eq)
  qed (simp add: log_end_def)
qed (use assms(2) in \<open>simp add: service_of_def\<close>)

lemma first_page: "max_pages_per_endpoint = Suc 31"
  by (simp add: max_pages_per_endpoint_def)

text \<open>What the peer answers to a cursor at, and beyond, the next sequence number.\<close>

lemma peer_pass_at_end:
  assumes "peer_ready st" and "ds_next_stream_sequence (service_of st) < u64_max"
    and "parse_stream_cursor cursor = Inr after" and "after = ds_next_stream_sequence (service_of st)"
  shows "fetch_stream_pages cursor (\<lambda>_. serve_peer_page st) =
      \<lparr> fs_pages = [\<lparr> sp_entries = [], sp_next_cursor = None, sp_limit = 50 \<rparr>], fs_start_cursor = cursor,
        fs_fetch_error = None \<rparr>"
    and "filter (\<lambda>e. after < se_sequence e) (om_vals (st_discovery_peer_stream_entries st)) = []"
proof -
  have log: "log_ok max_peer_stream_entries (ds_next_stream_sequence (service_of st)) (st_discovery_peer_stream_entries st)"
    using assms(1) by (simp add: peer_ready_def)
  obtain service where s: "st_discovery_peer_service st = Some service"
    using assms(1) by (cases "st_discovery_peer_service st") (simp_all add: peer_ready_def peer_service_is_enabled_def)
  have "se_sequence e < ds_next_stream_sequence (service_of st)"
    if e: "e \<in> set (om_vals (st_discovery_peer_stream_entries st))" for e
  proof -
    obtain k where k: "(k, e) \<in> set (st_discovery_peer_stream_entries st)" using e by (auto simp: om_vals_def)
    then have "se_sequence e = k" using log by (auto simp: log_ok_def)
    moreover have "k \<in> set (om_keys (st_discovery_peer_stream_entries st))" using k by (force simp: om_keys_def)
    ultimately show ?thesis using log_ok_keys[OF log] by simp
  qed
  then show none: "filter (\<lambda>e. after < se_sequence e) (om_vals (st_discovery_peer_stream_entries st)) = []"
    unfolding assms(4) filter_empty_conv using less_asym by blast
  have "after < u64_max" using assms(2,4) by simp
  then have empty: "page_entries after 50 (st_discovery_peer_stream_entries st) = []"
    using page_after[OF log, of after 50] none by simp
  note hw = peer_high_water[OF conjunct2[OF assms(1)[unfolded peer_ready_def]] s]
  have "serve_peer_page st (stream_request cursor) = Inr \<lparr> sp_entries = [], sp_next_cursor = None, sp_limit = 50 \<rparr>"
    using assms(1,3,4) s hw empty
    by (simp add: serve_peer_page_def stream_request_def read_peer_announcement_stream_def peer_ready_def Let_def
        default_sync_page_limit_def clamp_def max_peer_stream_page_limit_def)
  then show "fetch_stream_pages cursor (\<lambda>_. serve_peer_page st) =
      \<lparr> fs_pages = [\<lparr> sp_entries = [], sp_next_cursor = None, sp_limit = 50 \<rparr>], fs_start_cursor = cursor,
        fs_fetch_error = None \<rparr>"
    unfolding fetch_stream_pages_def first_page fetch_pages.simps by (simp add: continues_def)
qed

lemma peer_pass_beyond:
  assumes "peer_ready st" and "parse_stream_cursor cursor = Inr after"
    and "ds_next_stream_sequence (service_of st) < after"
  shows "fetch_stream_pages cursor (\<lambda>_. serve_peer_page st) =
    \<lparr> fs_pages = [], fs_start_cursor = cursor, fs_fetch_error = Some DR_Malformed \<rparr>"
proof -
  obtain service where s: "st_discovery_peer_service st = Some service"
    using assms(1) by (cases "st_discovery_peer_service st") (simp_all add: peer_ready_def peer_service_is_enabled_def)
  note hw = peer_high_water[OF conjunct2[OF assms(1)[unfolded peer_ready_def]] s]
  have "serve_peer_page st (stream_request cursor) = Inl DR_Malformed"
    using assms s hw
    by (simp add: serve_peer_page_def stream_request_def read_peer_announcement_stream_def peer_ready_def Let_def)
  then show ?thesis
    unfolding fetch_stream_pages_def first_page fetch_pages.simps by simp
qed

text \<open>C21: A client's pass against a peer that serves, with a counter below its maximum, is complete or
  refused. From a cursor up to the peer's next sequence number it meets no error and returns, in order
  and without gap or repetition, the first 1600 rows after its cursor, in at most 32 pages; from a
  cursor beyond it, as after the peer lost its log, it gets no page and the error Malformed.\<close>

theorem peer_pass_complete:
  assumes "peer_reachable x st" and "peer_service_is_enabled st"
    and "ds_next_stream_sequence (service_of st) < u64_max" and "parse_stream_cursor cursor = Inr after"
    and "fetched = fetch_stream_pages cursor (\<lambda>_. serve_peer_page st)"
  shows "if after \<le> ds_next_stream_sequence (service_of st)
     then fs_fetch_error fetched = None \<and> length (fs_pages fetched) \<le> 32 \<and>
       concat (map sp_entries (fs_pages fetched)) =
         take 1600 (filter (\<lambda>e. after < se_sequence e) (om_vals (st_discovery_peer_stream_entries st)))
     else fs_fetch_error fetched = Some DR_Malformed \<and> fs_pages fetched = []"
proof -
  have log: "peer_log_ok st" using peer_reachable_stream[OF assms(1)] assms(3) by (simp add: peer_stream_ok_def)
  then have r: "peer_ready st" using assms(2) by (simp add: peer_ready_def)
  consider "after < ds_next_stream_sequence (service_of st)" | "after = ds_next_stream_sequence (service_of st)"
    | "ds_next_stream_sequence (service_of st) < after" by linarith
  then show ?thesis
  proof cases
    case 1
    have "length (fs_pages fetched) \<le> 32"
      using fetch_pages_bounded[of max_pages_per_endpoint 0 "\<lambda>_. serve_peer_page st" cursor]
      by (simp add: assms(5) fetch_stream_pages_def max_pages_per_endpoint_def case_prod_unfold)
    moreover have "after < u64_max" using assms(3) 1 by simp
    ultimately show ?thesis
      using peer_pages.fetch_complete[OF r assms(4) 1] page_after[OF log] 1 by (simp add: assms(5))
  next
    case 2
    from peer_pass_at_end[OF r assms(3,4) 2] 2 show ?thesis by (simp add: assms(5))
  next
    case 3
    from peer_pass_beyond[OF r assms(4) 3] 3 show ?thesis by (simp add: assms(5))
  qed
qed

theorem peer_pass_complete_witness:
  "concat (map sp_entries (fs_pages (fetch_stream_pages None (\<lambda>_. serve_peer_page sample_serving_store)))) =
     [peer_stream_row (sample_announcement 2 3, 5) 1] \<and>
   fs_fetch_error (fetch_stream_pages (Some (encode_stream_cursor 9)) (\<lambda>_. serve_peer_page sample_serving_store)) =
     Some DR_Malformed"
proof
  show "concat (map sp_entries (fs_pages (fetch_stream_pages None (\<lambda>_. serve_peer_page sample_serving_store)))) =
     [peer_stream_row (sample_announcement 2 3, 5) 1]"
    using peer_pass_complete[OF sample_serving_reachable sample_serving_fields(1) _ _ refl, of None 0]
    by (simp add: u64_max_def parse_stream_cursor_def sample_serving_fields om_vals_def peer_stream_row_def)
  have "parse_stream_cursor (Some (encode_stream_cursor 9)) = Inr 9"
    by (rule parse_encode_cursor) (simp add: u64_max_def)
  then show "fs_fetch_error (fetch_stream_pages (Some (encode_stream_cursor 9))
      (\<lambda>_. serve_peer_page sample_serving_store)) = Some DR_Malformed"
    using peer_pass_complete[OF sample_serving_reachable sample_serving_fields(1) _ _ refl,
        of "Some (encode_stream_cursor 9)" 9]
    by (simp add: u64_max_def sample_serving_fields)
qed

text \<open>Once the expiry sweep has run, a client's pass against a bootstrap node returns the first 1600
  rows after its cursor, in order and without gap or repetition.\<close>

theorem bootstrap_pass_complete:
  assumes "bootstrap_reachable x st" and "emit_expiry_transitions now st = (swept, n)"
    and "rt_next_stream_sequence (runtime_of swept) < u64_max"
    and "parse_stream_cursor cursor = Inr after" and "after < rt_next_stream_sequence (runtime_of swept)"
  shows "fs_fetch_error (fetch_stream_pages cursor (\<lambda>_. serve_bootstrap_page (now, swept))) = None \<and>
     concat (map sp_entries (fs_pages (fetch_stream_pages cursor (\<lambda>_. serve_bootstrap_page (now, swept))))) =
       take 1600 (filter (\<lambda>e. after < se_sequence e) (om_vals (st_announcement_stream_entries swept)))"
proof -
  have s: "swept = fst (emit_expiry_transitions now st)" using assms(2) by simp
  have ok: "boot_ok x st" by (rule bootstrap_reachable_ok[OF assms(1)])
  have "boot_ok x swept" unfolding s by (rule boot_ok_emit[OF ok])
  then have log: "boot_log_ok swept" using assms(3) by (simp add: boot_ok_def stream_ok_def)
  have "emit_expiry_transitions now swept = (swept, 0)"
    using ok by (intro emit_again[of x, OF _ s]) (simp add: boot_ok_def)
  then have "bootstrap_ready (now, swept)"
    using log emit_runtime_present[of now st] s by (simp add: bootstrap_ready_def)
  moreover have "after < u64_max" using assms(3,5) by simp
  ultimately show ?thesis
    using boot_pages.fetch_complete[of "(now, swept)" cursor after] assms(4,5) page_after[OF log] by simp
qed

theorem bootstrap_pass_complete_witness:
  "map se_sequence (concat (map sp_entries (fs_pages (fetch_stream_pages None
     (\<lambda>_. serve_bootstrap_page (6, fst (emit_expiry_transitions 6 (sample_admitted 2 5)))))))) = [1]"
proof -
  obtain n where e: "emit_expiry_transitions 6 (sample_admitted 2 5) =
      (fst (emit_expiry_transitions 6 (sample_admitted 2 5)), n)"
    by (cases "emit_expiry_transitions 6 (sample_admitted 2 5)") simp
  show ?thesis
    using bootstrap_pass_complete[OF sample_admitted_reachable e, of None 0]
    by (simp add: parse_stream_cursor_def sample_admitted_swept u64_max_def om_vals_def stream_row_def)
qed

end
