(* ===== verification/Bootstrap_Client.thy ===== *)
theory Bootstrap_Client
  imports Stream_Sync Pod_Retention
begin

text \<open>
  The outbound bootstrap client of a home node (\<open>bootstrap/client.rs\<close>): the user's ordered list of
  bootstrap endpoints with their synchronization progress, and a synchronization pass. The
  transport gives, for a base URL, a \<open>page_fetch\<close>; the identities \<open>Uuid::now_v7()\<close> returns are
  arguments.
\<close>

section \<open>The configured endpoints\<close>

type_synonym announcement_stream_client = "string \<Rightarrow> bootstrap_sync_failure page_fetch"

definition bf_new :: "bootstrap_sync_failure_kind \<Rightarrow> string \<Rightarrow> bootstrap_sync_failure" where
  "bf_new kind message = \<lparr> bf_kind = kind, bf_message = message \<rparr>"

definition bs_empty_sync_state :: "uuid \<Rightarrow> bootstrap_sync_state" where
  "bs_empty_sync_state endpoint_id =
     \<lparr> bs_endpoint_id = endpoint_id, bs_cursor = None, bs_last_success_at = None,
       bs_last_attempt_at = None, bs_last_error = None \<rparr>"

definition ensure_default_bootstrap_endpoint :: "uuid \<Rightarrow> time \<Rightarrow> store \<Rightarrow> store" where
  "ensure_default_bootstrap_endpoint new_id now st =
     (if st_bootstrap_endpoints st \<noteq> [] then st
      else st\<lparr>st_bootstrap_endpoints :=
                om_put new_id
                  \<lparr> be_id = new_id, be_label = ''Sponsored Bootstrap'',
                    be_base_url = default_sponsored_bootstrap_url, be_enabled = True, be_order = 0,
                    be_is_sponsored_default = True, be_created_at = now \<rparr>
                  (st_bootstrap_endpoints st),
              st_bootstrap_sync_states :=
                om_put new_id (bs_empty_sync_state new_id) (st_bootstrap_sync_states st)\<rparr>)"

text \<open>\<open>order\<close>, then time of creation, then identity.\<close>

definition endpoint_rank :: "bootstrap_endpoint_config \<Rightarrow> nat \<times> time \<times> uuid" where
  "endpoint_rank e = (be_order e, be_created_at e, be_id e)"

definition list_bootstrap_endpoints :: "ext \<Rightarrow> store \<Rightarrow> bootstrap_endpoint_config list" where
  "list_bootstrap_endpoints x st =
     sort_key endpoint_rank (values_in_order (x_iter_nodes x) (st_bootstrap_endpoints st))"

definition bootstrap_endpoint_statuses :: "ext \<Rightarrow> store \<Rightarrow> bootstrap_endpoint_status list" where
  "bootstrap_endpoint_statuses x st =
     map (\<lambda>e. \<lparr> bst_endpoint = e,
                bst_sync = (case om_get (st_bootstrap_sync_states st) (be_id e) of
                   Some s \<Rightarrow> s | None \<Rightarrow> bs_empty_sync_state (be_id e)) \<rparr>)
       (list_bootstrap_endpoints x st)"

text \<open>\<open>u32::saturating_add\<close>.\<close>

definition next_order :: "nat list \<Rightarrow> nat" where
  "next_order orders =
     (case orders of [] \<Rightarrow> 0 | _ \<Rightarrow> min (Max (set orders) + 1) (2 ^ 32 - 1))"

definition add_bootstrap_endpoint ::
  "ext \<Rightarrow> uuid \<Rightarrow> string \<Rightarrow> string \<Rightarrow> time \<Rightarrow> store
    \<Rightarrow> store \<times> (store_error + bootstrap_endpoint_config)" where
  "add_bootstrap_endpoint x new_id label base_url now st =
     (if trim label = [] then (st, Inl (Validation ''Bootstrap endpoint label must not be empty''))
      else case normalize_bootstrap_base_url x base_url of
        Inl e \<Rightarrow> (st, Inl e)
      | Inr url \<Rightarrow>
          if \<exists>e \<in> set (om_vals (st_bootstrap_endpoints st)). be_base_url e = url
          then (st, Inl (Duplicate (''Bootstrap endpoint '' @ url)))
          else
            let endpoint =
                  \<lparr> be_id = new_id, be_label = trim label, be_base_url = url, be_enabled = True,
                    be_order = next_order (map be_order (om_vals (st_bootstrap_endpoints st))),
                    be_is_sponsored_default = False, be_created_at = now \<rparr>
            in (st\<lparr>st_bootstrap_endpoints := om_put new_id endpoint (st_bootstrap_endpoints st),
                  st_bootstrap_sync_states :=
                    om_put new_id (bs_empty_sync_state new_id) (st_bootstrap_sync_states st)\<rparr>,
                Inr endpoint))"

text \<open>The text of an endpoint's identity is \<open>Uuid\<close>'s formatting, a parameter.\<close>

definition set_bootstrap_endpoint_enabled ::
  "(uuid \<Rightarrow> string) \<Rightarrow> uuid \<Rightarrow> bool \<Rightarrow> store \<Rightarrow> store \<times> (store_error + bootstrap_endpoint_config)" where
  "set_bootstrap_endpoint_enabled uuid_text endpoint_id enabled st =
     (case om_get (st_bootstrap_endpoints st) endpoint_id of
        None \<Rightarrow> (st, Inl (NotFound (''Bootstrap endpoint '' @ uuid_text endpoint_id)))
      | Some e \<Rightarrow>
          let endpoint = e\<lparr>be_enabled := enabled\<rparr>
          in (st\<lparr>st_bootstrap_endpoints := om_put endpoint_id endpoint (st_bootstrap_endpoints st)\<rparr>,
              Inr endpoint))"

definition remove_bootstrap_endpoint ::
  "(uuid \<Rightarrow> string) \<Rightarrow> uuid \<Rightarrow> store \<Rightarrow> store \<times> (store_error + bootstrap_endpoint_config)" where
  "remove_bootstrap_endpoint uuid_text endpoint_id st =
     (case om_get (st_bootstrap_endpoints st) endpoint_id of
        None \<Rightarrow> (st, Inl (NotFound (''Bootstrap endpoint '' @ uuid_text endpoint_id)))
      | Some endpoint \<Rightarrow>
          (st\<lparr>st_bootstrap_endpoints := om_del endpoint_id (st_bootstrap_endpoints st),
              st_bootstrap_sync_states := om_del endpoint_id (st_bootstrap_sync_states st)\<rparr>,
           Inr endpoint))"

section \<open>A synchronization pass\<close>

record bootstrap_endpoint_sync_plan =
  bp_endpoint :: bootstrap_endpoint_config
  bp_cursor :: "string option"

definition plan_bootstrap_sync :: "ext \<Rightarrow> store \<Rightarrow> bootstrap_endpoint_sync_plan list" where
  "plan_bootstrap_sync x st =
     map (\<lambda>e. \<lparr> bp_endpoint = e,
                bp_cursor = Option.bind (om_get (st_bootstrap_sync_states st) (be_id e)) bs_cursor \<rparr>)
       (filter be_enabled (list_bootstrap_endpoints x st))"

definition fetch_bootstrap_stream_pages ::
  "announcement_stream_client \<Rightarrow> string \<Rightarrow> string option \<Rightarrow> bootstrap_sync_failure fetched_stream" where
  "fetch_bootstrap_stream_pages client base_url start_cursor =
     fetch_stream_pages start_cursor (client base_url)"

fun bf_of_retain_failure :: "retain_failure \<Rightarrow> bootstrap_sync_failure" where
  "bf_of_retain_failure (RF_InvalidSignature message) = bf_new BF_InvalidSignature message"
| "bf_of_retain_failure (RF_Validation message) = bf_new BF_Validation message"
| "bf_of_retain_failure (RF_Protocol message) = bf_new BF_Protocol message"

definition bootstrap_map_retain_error :: "store_error \<Rightarrow> string \<Rightarrow> bootstrap_sync_failure + unit" where
  "bootstrap_map_retain_error error subject =
     (case map_retain_error error subject of
        Inl failure \<Rightarrow> Inl (bf_of_retain_failure failure) | Inr u \<Rightarrow> Inr u)"

text \<open>
  One entry of a page; the counters are those of the loop. The result is the failure that ends the
  page, or the new counters.
\<close>

definition apply_stream_entry ::
  "ext \<Rightarrow> string \<Rightarrow> time \<Rightarrow> announcement_stream_entry \<Rightarrow> nat \<times> nat \<Rightarrow> store
    \<Rightarrow> store \<times> (bootstrap_sync_failure + nat \<times> nat)" where
  "apply_stream_entry x base_url now entry counts st =
     (case counts of (announcements, withdrawals) \<Rightarrow>
        if se_kind entry = SE_Admitted \<or> se_kind entry = SE_Renewed
        then (case as_announcement (se_payload entry) of
                None \<Rightarrow> (st, Inl (bf_new BF_Malformed ''stream entry missing announcement payload''))
              | Some announcement \<Rightarrow>
                  (case retain_verified_pod_announcement x announcement (dp_bootstrap base_url) now st of
                     (st', Inr _) \<Rightarrow> (st', Inr (sat_add announcements 1, withdrawals))
                   | (st', Inl error) \<Rightarrow>
                       (case bootstrap_map_retain_error error ''announcement'' of
                          Inl failure \<Rightarrow> (st', Inl failure)
                        | Inr _ \<Rightarrow> (st', Inr counts))))
        else if se_kind entry = SE_Withdrawn
        then (case as_withdrawal (se_payload entry) of
                None \<Rightarrow> (st, Inl (bf_new BF_Malformed ''stream entry missing withdrawal payload''))
              | Some withdrawal \<Rightarrow>
                  (case retain_verified_pod_withdrawal x withdrawal None now st of
                     (st', Inr _) \<Rightarrow> (st', Inr (announcements, sat_add withdrawals 1))
                   | (st', Inl error) \<Rightarrow>
                       (case bootstrap_map_retain_error error ''withdrawal'' of
                          Inl failure \<Rightarrow> (st', Inl failure)
                        | Inr _ \<Rightarrow> (st', Inr counts))))
        else (st, Inr counts))"

fun apply_stream_entries ::
  "ext \<Rightarrow> string \<Rightarrow> time \<Rightarrow> announcement_stream_entry list \<Rightarrow> nat \<times> nat \<Rightarrow> store
    \<Rightarrow> store \<times> (bootstrap_sync_failure + nat \<times> nat)" where
  "apply_stream_entries x base_url now [] counts st = (st, Inr counts)"
| "apply_stream_entries x base_url now (entry # entries) counts st =
     (case apply_stream_entry x base_url now entry counts st of
        (st', Inl failure) \<Rightarrow> (st', Inl failure)
      | (st', Inr counts') \<Rightarrow> apply_stream_entries x base_url now entries counts' st')"

definition apply_stream_page ::
  "ext \<Rightarrow> string \<Rightarrow> time \<Rightarrow> announcement_stream_page \<Rightarrow> store
    \<Rightarrow> store \<times> (bootstrap_sync_failure + nat \<times> nat)" where
  "apply_stream_page x base_url now page st =
     apply_stream_entries x base_url now (sp_entries page) (0, 0) st"

definition apply_stream_page_staged ::
  "ext \<Rightarrow> string \<Rightarrow> time \<Rightarrow> store \<Rightarrow> announcement_stream_page
    \<Rightarrow> store \<times> (bootstrap_sync_failure + nat \<times> nat)" where
  "apply_stream_page_staged x base_url now st page =
     apply_page_staged (apply_stream_page x base_url now page) st"

definition bs_record_cursor :: "string option \<Rightarrow> bootstrap_sync_state \<Rightarrow> bootstrap_sync_state" where
  "bs_record_cursor cursor state = state\<lparr>bs_cursor := cursor\<rparr>"

definition bootstrap_outcome ::
  "bootstrap_endpoint_config \<Rightarrow> bootstrap_sync_failure option \<Rightarrow> bootstrap_sync_failure stream_drain
    \<Rightarrow> bootstrap_sync_endpoint_outcome" where
  "bootstrap_outcome endpoint error drain =
     \<lparr> bo_endpoint_id = be_id endpoint, bo_base_url = be_base_url endpoint, bo_ok = (error = None),
       bo_pages_fetched = sd_pages_applied drain,
       bo_retained_announcements = sd_retained_announcements drain,
       bo_retained_withdrawals = sd_retained_withdrawals drain,
       bo_cursor = sd_cursor drain, bo_error = error \<rparr>"

definition apply_bootstrap_stream_pages ::
  "ext \<Rightarrow> bootstrap_endpoint_config \<Rightarrow> bootstrap_sync_failure fetched_stream \<Rightarrow> time \<Rightarrow> store
    \<Rightarrow> store \<times> bootstrap_sync_endpoint_outcome" where
  "apply_bootstrap_stream_pages x endpoint fetched now st =
     (let found = (case om_get (st_bootstrap_sync_states st) (be_id endpoint) of
                     Some s \<Rightarrow> s | None \<Rightarrow> bs_empty_sync_state (be_id endpoint));
          state = found\<lparr>bs_last_attempt_at := Some now\<rparr>;
          (st1, state1, drain) = drain_stream_pages fetched bs_record_cursor
            (apply_stream_page_staged x (be_base_url endpoint) now) state st
      in case sd_failure drain of
           Some error \<Rightarrow>
             (st1\<lparr>st_bootstrap_sync_states :=
                   om_put (be_id endpoint) (state1\<lparr>bs_last_error := Some error\<rparr>)
                     (st_bootstrap_sync_states st1)\<rparr>,
              bootstrap_outcome endpoint (Some error) drain)
         | None \<Rightarrow>
             (st1\<lparr>st_bootstrap_sync_states :=
                   om_put (be_id endpoint)
                     (state1\<lparr>bs_cursor := sd_cursor drain, bs_last_success_at := Some now,
                             bs_last_error := None\<rparr>)
                     (st_bootstrap_sync_states st1)\<rparr>,
              bootstrap_outcome endpoint None drain))"

definition sync_one_endpoint ::
  "ext \<Rightarrow> announcement_stream_client \<Rightarrow> time \<Rightarrow> bootstrap_endpoint_sync_plan
    \<Rightarrow> store \<times> bootstrap_sync_report \<Rightarrow> store \<times> bootstrap_sync_report" where
  "sync_one_endpoint x client now plan acc =
     (case acc of (st, report) \<Rightarrow>
        let fetched = fetch_bootstrap_stream_pages client (be_base_url (bp_endpoint plan)) (bp_cursor plan);
            (st', outcome) = apply_bootstrap_stream_pages x (bp_endpoint plan) fetched now st
        in (st', \<lparr> br_outcomes = br_outcomes report @ [outcome],
                   br_retained_announcements =
                     sat_add (br_retained_announcements report) (bo_retained_announcements outcome),
                   br_retained_withdrawals =
                     sat_add (br_retained_withdrawals report) (bo_retained_withdrawals outcome) \<rparr>))"

definition sync_bootstrap_endpoints ::
  "ext \<Rightarrow> announcement_stream_client \<Rightarrow> time \<Rightarrow> store \<Rightarrow> store \<times> bootstrap_sync_report" where
  "sync_bootstrap_endpoints x client now st =
     fold (sync_one_endpoint x client now) (plan_bootstrap_sync x st)
       (st, \<lparr> br_outcomes = [], br_retained_announcements = 0, br_retained_withdrawals = 0 \<rparr>)"

section \<open>Privacy of the outbound request\<close>

text \<open>Absent fields are not serialized.\<close>

definition json_stream_request :: "bootstrap_stream_request \<Rightarrow> json" where
  "json_stream_request request =
     JObj ((case sr_cursor request of None \<Rightarrow> [] | Some c \<Rightarrow> [(''cursor'', JStr c)]) @
           (case sr_limit request of None \<Rightarrow> [] | Some l \<Rightarrow> [(''limit'', JInt (int l))]))"

definition private_request_keys :: "string list" where
  "private_request_keys =
     [''taste_profile'', ''subscriptions'', ''feedback'', ''source_affinity'', ''query'', ''interests'']"

definition request_is_public_only :: "bootstrap_stream_request \<Rightarrow> bool" where
  "request_is_public_only request =
     (case json_stream_request request of
        JObj object \<Rightarrow>
          (\<forall>key \<in> set (map fst object). key \<in> set [''cursor'', ''limit'']) \<and>
          list_all (\<lambda>key. key \<notin> set (map fst object)) private_request_keys
      | _ \<Rightarrow> False)"

end
