(* ===== verification/Bootstrap_Sync.thy ===== *)
theory Bootstrap_Sync
  imports Bootstrap_Client Peer_Stream
begin

text \<open>
  The properties of the bootstrap client: the endpoint list, the effect of a synchronization
  pass, its safety against a remote that sends anything, and the limits of the page rollback.
\<close>

section \<open>What a page writes\<close>

text \<open>Applying a page writes the two retention maps and, when the node serves, the peer stream.\<close>

definition retain_frame :: "store \<Rightarrow> store \<Rightarrow> bool" where
  "retain_frame st st' \<longleftrightarrow>
     st' = st\<lparr>st_known_pod_announcements := st_known_pod_announcements st',
              st_known_pod_withdrawals := st_known_pod_withdrawals st',
              st_discovery_peer_service := st_discovery_peer_service st',
              st_discovery_peer_stream_entries := st_discovery_peer_stream_entries st'\<rparr>"

lemma retain_frame_refl [simp]: "retain_frame st st"
  by (simp add: retain_frame_def)

lemma retain_frame_trans: "retain_frame a b \<Longrightarrow> retain_frame b c \<Longrightarrow> retain_frame a c"
  by (cases a; cases b; cases c) (auto simp: retain_frame_def)

lemma retain_frame_maps:
  "retain_frame a b \<Longrightarrow> retain_frame a (b\<lparr>st_known_pod_announcements := m\<rparr>)"
  "retain_frame a b \<Longrightarrow> retain_frame a (b\<lparr>st_known_pod_withdrawals := w\<rparr>)"
  "retain_frame a b \<Longrightarrow> retain_frame a (b\<lparr>st_known_pod_announcements := m, st_known_pod_withdrawals := w\<rparr>)"
  by (cases a; cases b; auto simp: retain_frame_def)+

lemma maybe_project_retain_frame:
  "retain_frame a b \<Longrightarrow> retain_frame a (maybe_project_peer_serving_announcement x an now b)"
proof -
  assume "retain_frame a b"
  moreover have "retain_frame b (maybe_project_peer_serving_announcement x an now b)"
    using maybe_project_frame[of b x an now] by (cases b) (auto simp: retain_frame_def peer_stream_frame_def)
  ultimately show ?thesis by (rule retain_frame_trans)
qed

lemma retain_announcement_writes: "retain_frame st (fst (retain_verified_pod_announcement x a p now st))"
  by (auto simp: retain_verified_pod_announcement_def Let_def
      intro!: maybe_project_retain_frame retain_frame_maps split: sum.splits option.splits)

lemma retain_withdrawal_writes: "retain_frame st (fst (retain_verified_pod_withdrawal x w p now st))"
  by (auto simp: retain_verified_pod_withdrawal_def retain_new_withdrawal_def Let_def
      intro!: retain_frame_maps split: option.splits)

lemma fst_classified:
  "fst (case r of (st', Inr v) \<Rightarrow> (st', Inr (g v))
        | (st', Inl e) \<Rightarrow> (case m e of Inl f \<Rightarrow> (st', Inl f) | Inr u \<Rightarrow> (st', Inr h))) = fst r"
  by (auto split: prod.splits sum.splits)

lemma apply_entry_cases:
  "fst (apply_stream_entry x url now e counts st) = st \<or>
   (\<exists>a. fst (apply_stream_entry x url now e counts st) =
      fst (retain_verified_pod_announcement x a (dp_bootstrap url) now st)) \<or>
   (\<exists>w. fst (apply_stream_entry x url now e counts st) =
      fst (retain_verified_pod_withdrawal x w None now st))"
proof (cases counts)
  case (Pair n m)
  show ?thesis
    by (cases "as_announcement (se_payload e)"; cases "as_withdrawal (se_payload e)")
      (auto simp: apply_stream_entry_def Pair fst_classified)
qed

lemma apply_page_induct:
  assumes "P st" and "\<And>s a. P s \<Longrightarrow> P (fst (retain_verified_pod_announcement x a (dp_bootstrap url) now s))"
    and "\<And>s w. P s \<Longrightarrow> P (fst (retain_verified_pod_withdrawal x w None now s))"
  shows "P (fst (apply_stream_page x url now page st))"
proof -
  have step: "P (fst (apply_stream_entry x url now e c s))" if "P s" for e c s
    using apply_entry_cases[of x url now e c s] assms(2,3)[OF that] that by metis
  have "P (fst (apply_stream_entries x url now es c s))" if "P s" for es c s
    using that
  proof (induction es arbitrary: c s)
    case (Cons e es)
    obtain s' r where r: "apply_stream_entry x url now e c s = (s', r)"
      by (cases "apply_stream_entry x url now e c s")
    then have "P s'" using step[OF Cons.prems, of e c] by simp
    with Cons.IH r show ?case by (cases r) simp_all
  qed simp
  then show ?thesis using assms(1) by (simp add: apply_stream_page_def)
qed

lemma staged_page_cases:
  "(\<exists>counts. apply_stream_page_staged x url now st page = (fst (apply_stream_page x url now page st), Inr counts)) \<or>
   (\<exists>e. apply_stream_page_staged x url now st page =
      ((fst (apply_stream_page x url now page st))\<lparr>st_known_pod_announcements := st_known_pod_announcements st,
         st_known_pod_withdrawals := st_known_pod_withdrawals st\<rparr>, Inl e))"
  by (auto simp: apply_stream_page_staged_def apply_page_staged_def split: prod.splits sum.splits)

lemma staged_page_writes: "retain_frame st (fst (apply_stream_page_staged x url now st page))"
proof -
  have "retain_frame st (fst (apply_stream_page x url now page st))"
    by (rule apply_page_induct)
      (auto intro: retain_frame_trans retain_announcement_writes retain_withdrawal_writes)
  then show ?thesis
    using staged_page_cases[of x url now st page] by (auto intro: retain_frame_maps)
qed

lemma staged_page_sound: "pods_ok x st \<Longrightarrow> pods_ok x (fst (apply_stream_page_staged x url now st page))"
proof -
  assume ok: "pods_ok x st"
  then have "pods_ok x (fst (apply_stream_page x url now page st))"
    by (rule apply_page_induct) (intro wf_intros; assumption)+
  moreover have "pods_ok x (s\<lparr>st_known_pod_announcements := st_known_pod_announcements st,
      st_known_pod_withdrawals := st_known_pod_withdrawals st\<rparr>)" for s
    using ok by (subst pods_ok_cong[of _ st]) simp_all
  ultimately show ?thesis using staged_page_cases[of x url now st page] by auto
qed

text \<open>The drain of one endpoint, taken apart.\<close>

lemma drain_endpoint:
  assumes d: "drain_stream_pages fetched bs_record_cursor (apply_stream_page_staged x url now) state st =
      (st1, state1, drain)"
    and len: "length (fs_pages fetched) \<le> u64_max"
  obtains applied rest st2 where "fs_pages fetched = applied @ rest"
    and "apply_all (apply_stream_page_staged x url now) applied st = Some st2"
    and "sd_pages_applied drain = length applied"
    and "sd_cursor drain = last_cursor (fs_start_cursor fetched) applied"
    and "state1 = (if applied = [] then state else state\<lparr>bs_cursor := sd_cursor drain\<rparr>)"
    and "st1 = st2 \<or> (\<exists>e page. rest \<noteq> [] \<and> page = hd rest \<and>
           apply_stream_page_staged x url now st2 page = (st1, Inl e) \<and> sd_failure drain = Some e)"
    and "sd_failure drain = None \<Longrightarrow> st1 = st2"
proof -
  define d0 :: "bootstrap_sync_failure stream_drain" where
    "d0 = \<lparr> sd_pages_applied = 0, sd_retained_announcements = 0, sd_retained_withdrawals = 0,
      sd_cursor = fs_start_cursor fetched, sd_failure = None \<rparr>"
  obtain s' r' d' ended where p: "drain_pages bs_record_cursor (apply_stream_page_staged x url now)
      (fs_pages fetched) d0 state st = (s', r', d', ended)" by (metis prod_cases4)
  have rec: "bs_record_cursor c (bs_record_cursor c' r) = bs_record_cursor c r" for c c' r
    by (simp add: bs_record_cursor_def)
  have res: "st1 = s'" "state1 = r'"
    "drain = (if sd_failure d' = None \<and> \<not> ended then d'\<lparr>sd_failure := fs_fetch_error fetched\<rparr> else d')"
    using d p by (simp_all add: drain_stream_pages_def d0_def)
  from drain_pages_prefix[OF p _ _ rec] len obtain applied rest st2 where
    h: "fs_pages fetched = applied @ rest" "apply_all (apply_stream_page_staged x url now) applied st = Some st2"
      "sd_pages_applied d' = length applied" "sd_cursor d' = last_cursor (fs_start_cursor fetched) applied"
      "r' = (if applied = [] then state else bs_record_cursor (sd_cursor d') state)"
      "case sd_failure d' of None \<Rightarrow> s' = st2 \<and> (ended \<or> rest = [])
       | Some e \<Rightarrow> \<not> ended \<and> (\<exists>page. rest \<noteq> [] \<and> page = hd rest \<and>
           apply_stream_page_staged x url now st2 page = (s', Inl e))"
    by (auto simp: d0_def)
  show thesis
  proof (rule that[OF h(1,2)])
    show "sd_pages_applied drain = length applied"
      and "sd_cursor drain = last_cursor (fs_start_cursor fetched) applied"
      using res(3) h(3,4) by simp_all
    show "state1 = (if applied = [] then state else state\<lparr>bs_cursor := sd_cursor drain\<rparr>)"
      using res(2,3) h(5) by (simp add: bs_record_cursor_def)
    show "st1 = st2 \<or> (\<exists>e page. rest \<noteq> [] \<and> page = hd rest \<and>
           apply_stream_page_staged x url now st2 page = (st1, Inl e) \<and> sd_failure drain = Some e)"
      using res(1,3) h(6) by (cases "sd_failure d'") auto
    show "st1 = st2" if "sd_failure drain = None"
      using that res(1,3) h(6) by (cases "sd_failure d'") (auto split: if_splits)
  qed
qed

section \<open>A home node\<close>

text \<open>A home node with the sponsored endpoint, and a remote that sends one announcement.\<close>

definition sample_client_store :: store where
  "sample_client_store = ensure_default_bootstrap_endpoint 5 0 empty_store"

definition sample_page_sent :: announcement_stream_page where
  "sample_page_sent =
     \<lparr> sp_entries = [peer_stream_row (sample_announcement 2 3, 5) 8], sp_next_cursor = None,
       sp_limit = 50 \<rparr>"

definition sample_client :: announcement_stream_client where
  "sample_client url call request = Inr sample_page_sent"

lemma sample_client_store_fields:
  "st_bootstrap_endpoints sample_client_store =
     [(5, \<lparr> be_id = 5, be_label = ''Sponsored Bootstrap'', be_base_url = default_sponsored_bootstrap_url,
            be_enabled = True, be_order = 0, be_is_sponsored_default = True, be_created_at = 0 \<rparr>)]"
  "st_bootstrap_sync_states sample_client_store = [(5, bs_empty_sync_state 5)]"
  "st_known_pod_announcements sample_client_store = []"
  "st_known_pod_withdrawals sample_client_store = []"
  "st_discovery_peer_service sample_client_store = None"
  by (simp_all add: sample_client_store_def ensure_default_bootstrap_endpoint_def empty_store_def)

lemma sample_client_store_ok: "pods_ok x sample_client_store"
  by (simp add: pods_ok_def sample_client_store_fields om.all_entries_def)

lemma sample_client_page:
  "apply_stream_page sample_ext url 6 sample_page_sent sample_client_store =
   (sample_client_store\<lparr>st_known_pod_withdrawals := [],
      st_known_pod_announcements :=
        [((4, ''p''), known_after_delivery None (sample_announcement 2 3) (dp_bootstrap url) 6)]\<rparr>,
    Inr (1, 0))"
  by (simp add: apply_stream_page_def apply_stream_entry_def sample_page_sent_def peer_stream_row_def
      retain_verified_pod_announcement_def Let_def sample_client_store_fields om_del_def
      peer_service_is_enabled_def sat_add_def u64_max_def)

lemma sample_client_fetch:
  "fetch_bootstrap_stream_pages sample_client url None =
     \<lparr> fs_pages = [sample_page_sent], fs_start_cursor = None, fs_fetch_error = None \<rparr>"
proof -
  have m: "max_pages_per_endpoint = Suc (max_pages_per_endpoint - 1)"
    by (simp add: max_pages_per_endpoint_def)
  have n: "sp_next_cursor sample_page_sent = None" by (simp add: sample_page_sent_def)
  show ?thesis
    unfolding fetch_bootstrap_stream_pages_def fetch_stream_pages_def
    by (subst m) (simp add: sample_client_def continues_def n)
qed

lemma sample_client_sync:
  "st_known_pod_announcements (fst (sync_bootstrap_endpoints sample_ext sample_client 6 sample_client_store)) =
     [((4, ''p''), known_after_delivery None (sample_announcement 2 3)
        (dp_bootstrap default_sponsored_bootstrap_url) 6)]"
proof -
  have l: "list_bootstrap_endpoints sample_ext sample_client_store =
      [\<lparr> be_id = 5, be_label = ''Sponsored Bootstrap'', be_base_url = default_sponsored_bootstrap_url,
         be_enabled = True, be_order = 0, be_is_sponsored_default = True, be_created_at = 0 \<rparr>]"
    by (simp add: list_bootstrap_endpoints_def values_in_order_def sample_client_store_fields
        sample_ext_def List.map_filter_simps om_get_def)
  have p: "plan_bootstrap_sync sample_ext sample_client_store =
      [\<lparr> bp_endpoint = \<lparr> be_id = 5, be_label = ''Sponsored Bootstrap'', be_base_url = default_sponsored_bootstrap_url,
         be_enabled = True, be_order = 0, be_is_sponsored_default = True, be_created_at = 0 \<rparr>, bp_cursor = None \<rparr>]"
    and n: "sp_next_cursor sample_page_sent = None"
    by (simp_all add: plan_bootstrap_sync_def l sample_client_store_fields om_get_def bs_empty_sync_state_def
        sample_page_sent_def)
  show ?thesis
    by (simp add: sync_bootstrap_endpoints_def p sync_one_endpoint_def sample_client_fetch Let_def
        apply_bootstrap_stream_pages_def drain_stream_pages_def continues_def apply_stream_page_staged_def
        apply_page_staged_def sample_client_page n)
qed

section \<open>The effect of a pass\<close>

text \<open>C22: One endpoint's pass applies a prefix of the fetched pages. The announcements and withdrawals are
  those after exactly that prefix (a failing page leaves no trace in them), the reported cursor is
  that of its last page, and the endpoint's progress records the attempt, the cursor, the time of
  success or the failure; no other endpoint's progress changes.\<close>

theorem endpoint_pass_effect:
  assumes r: "apply_bootstrap_stream_pages x endpoint fetched now st = (st', outcome)"
    and len: "length (fs_pages fetched) \<le> u64_max"
  shows "\<exists>applied rest st2. fs_pages fetched = applied @ rest \<and>
     apply_all (apply_stream_page_staged x (be_base_url endpoint) now) applied st = Some st2 \<and>
     bo_pages_fetched outcome = length applied \<and>
     st_known_pod_announcements st' = st_known_pod_announcements st2 \<and>
     st_known_pod_withdrawals st' = st_known_pod_withdrawals st2 \<and>
     bo_cursor outcome = last_cursor (fs_start_cursor fetched) applied \<and>
     (bo_ok outcome \<longleftrightarrow> bo_error outcome = None) \<and>
     (\<exists>s. om_get (st_bootstrap_sync_states st') (be_id endpoint) = Some s \<and>
        bs_last_attempt_at s = Some now \<and> bs_last_error s = bo_error outcome \<and>
        (bo_ok outcome \<longrightarrow> bs_last_success_at s = Some now \<and> bs_cursor s = bo_cursor outcome) \<and>
        (\<not> bo_ok outcome \<longrightarrow>
           bs_last_success_at s = Option.bind (om_get (st_bootstrap_sync_states st) (be_id endpoint)) bs_last_success_at \<and>
           (applied \<noteq> [] \<longrightarrow> bs_cursor s = bo_cursor outcome) \<and>
           (applied = [] \<longrightarrow>
              bs_cursor s = Option.bind (om_get (st_bootstrap_sync_states st) (be_id endpoint)) bs_cursor))) \<and>
     (\<forall>id. id \<noteq> be_id endpoint \<longrightarrow>
        om_get (st_bootstrap_sync_states st') id = om_get (st_bootstrap_sync_states st) id)"
proof -
  define state where "state = (case om_get (st_bootstrap_sync_states st) (be_id endpoint) of
      Some s \<Rightarrow> s | None \<Rightarrow> bs_empty_sync_state (be_id endpoint))\<lparr>bs_last_attempt_at := Some now\<rparr>"
  have state: "bs_last_attempt_at state = Some now"
    "bs_last_success_at state = Option.bind (om_get (st_bootstrap_sync_states st) (be_id endpoint)) bs_last_success_at"
    "bs_cursor state = Option.bind (om_get (st_bootstrap_sync_states st) (be_id endpoint)) bs_cursor"
    by (simp_all add: state_def bs_empty_sync_state_def split: option.splits)
  let ?f = "apply_stream_page_staged x (be_base_url endpoint) now"
  obtain st1 state1 drain where d: "drain_stream_pages fetched bs_record_cursor ?f state st = (st1, state1, drain)"
    by (metis prod_cases3)
  from drain_endpoint[OF d len] obtain applied rest st2 where
    h: "fs_pages fetched = applied @ rest" "apply_all ?f applied st = Some st2"
      "sd_pages_applied drain = length applied" "sd_cursor drain = last_cursor (fs_start_cursor fetched) applied"
      "state1 = (if applied = [] then state else state\<lparr>bs_cursor := sd_cursor drain\<rparr>)"
      "st1 = st2 \<or> (\<exists>e page. rest \<noteq> [] \<and> page = hd rest \<and> ?f st2 page = (st1, Inl e) \<and> sd_failure drain = Some e)" .
  have maps: "st_known_pod_announcements st1 = st_known_pod_announcements st2 \<and>
      st_known_pod_withdrawals st1 = st_known_pod_withdrawals st2"
    using h(6) staged_failure unfolding apply_stream_page_staged_def by metis
  have fr: "retain_frame st st2"
    by (rule apply_all_preserves[OF h(2)]) (auto intro: retain_frame_trans staged_page_writes)
  moreover have "retain_frame st2 st1" using h(6) staged_page_writes by (metis fst_conv retain_frame_refl)
  ultimately have "retain_frame st st1" by (rule retain_frame_trans)
  then have same: "st_bootstrap_sync_states st1 = st_bootstrap_sync_states st"
    by (cases st; cases st1) (simp add: retain_frame_def)
  note r' = r[unfolded apply_bootstrap_stream_pages_def Let_def, folded state_def, unfolded d]
  show ?thesis
  proof (cases "sd_failure drain")
    case None
    then show ?thesis
      using r' h(1-5) maps same state
      by (intro exI[of _ applied] exI[of _ rest] exI[of _ st2]) (auto simp: bootstrap_outcome_def)
  next
    case (Some e)
    then show ?thesis
      using r' h(1-5) maps same state
      by (intro exI[of _ applied] exI[of _ rest] exI[of _ st2]) (auto simp: bootstrap_outcome_def)
  qed
qed

theorem endpoint_pass_effect_witness:
  "\<exists>s. om_get (st_bootstrap_sync_states (fst (apply_bootstrap_stream_pages sample_ext
        (snd (hd (st_bootstrap_endpoints sample_client_store)))
        (fetch_bootstrap_stream_pages sample_client ''u'' None) 6 sample_client_store))) 5 = Some s \<and>
     bs_last_attempt_at s = Some 6"
proof -
  let ?e = "snd (hd (st_bootstrap_endpoints sample_client_store))"
  let ?r = "apply_bootstrap_stream_pages sample_ext ?e
      (fetch_bootstrap_stream_pages sample_client ''u'' None) 6 sample_client_store"
  obtain st' outcome where r: "?r = (st', outcome)" by (cases ?r)
  have len: "length (fs_pages (fetch_bootstrap_stream_pages sample_client ''u'' None)) \<le> u64_max"
    by (simp add: sample_client_fetch u64_max_def)
  have id: "be_id ?e = 5" by (simp add: sample_client_store_fields)
  obtain s where "om_get (st_bootstrap_sync_states st') (be_id ?e) = Some s" "bs_last_attempt_at s = Some 6"
    using endpoint_pass_effect[OF r len] by blast
  then show ?thesis using r id by (intro exI[of _ s]) simp
qed

section \<open>Safety against any remote\<close>

lemma pods_ok_sync_states [simp]:
  "pods_ok x (st\<lparr>st_bootstrap_sync_states := m\<rparr>) = pods_ok x st"
  "pods_ok x (st\<lparr>st_bootstrap_endpoints := es\<rparr>) = pods_ok x st"
  by (simp_all add: pods_ok_def)

lemma drain_pages_sound:
  assumes "\<And>s p. P s \<Longrightarrow> P (fst (f s p))" and "P st"
  shows "P (fst (drain_pages rec f pages d r st))"
  using assms(2)
proof (induction pages arbitrary: d r st)
  case (Cons page pages)
  obtain s' res where f: "f st page = (s', res)" by (cases "f st page")
  then have "P s'" using assms(1)[OF Cons.prems, of page] by simp
  with f Cons.IH show ?case by (cases res) (auto simp: Let_def split: option.splits)
qed simp

lemma endpoint_pass_sound:
  assumes "pods_ok x st"
  shows "pods_ok x (fst (apply_bootstrap_stream_pages x endpoint fetched now st))"
proof -
  have "pods_ok x (fst (drain_stream_pages fetched bs_record_cursor
      (apply_stream_page_staged x (be_base_url endpoint) now) state st))" for state
    using drain_pages_sound[of "pods_ok x" "apply_stream_page_staged x (be_base_url endpoint) now" st]
      assms staged_page_sound
    by (simp add: drain_stream_pages_def case_prod_unfold)
  then show ?thesis
    by (simp add: apply_bootstrap_stream_pages_def Let_def case_prod_unfold split: option.splits)
qed

lemma sync_sound:
  assumes "pods_ok x st"
  shows "pods_ok x (fst (sync_bootstrap_endpoints x client now st))"
proof -
  have "pods_ok x (fst (fold (sync_one_endpoint x client now) plans (s, report)))"
    if "pods_ok x s" for plans s report
    using that
  proof (induction plans arbitrary: s report)
    case (Cons plan plans)
    then show ?case
      using endpoint_pass_sound[OF Cons.prems, of "bp_endpoint plan"]
      by (simp add: sync_one_endpoint_def case_prod_unfold Let_def)
  qed simp
  then show ?thesis using assms by (simp add: sync_bootstrap_endpoints_def)
qed

text \<open>C1: Whatever the remotes send, after a synchronization every stored announcement carries its
  origin's valid signature under its own pod, every stored withdrawal likewise, and no announcement
  stands beside a withdrawal that is not older.\<close>

theorem synchronization_is_safe:
  assumes "pods_ok x st" and "sync_bootstrap_endpoints x client now st = (st', report)"
  shows "(\<forall>key k. om_get (st_known_pod_announcements st') key = Some k \<longrightarrow>
            pa_verify x (ka_announcement k) = Inr True \<and> pa_key (ka_announcement k) = key) \<and>
         (\<forall>key kw. om_get (st_known_pod_withdrawals st') key = Some kw \<longrightarrow>
            pw_verify x (kw_withdrawal kw) = Inr True \<and> pw_key (kw_withdrawal kw) = key) \<and>
         (\<forall>key k kw. om_get (st_known_pod_announcements st') key = Some k \<and>
            om_get (st_known_pod_withdrawals st') key = Some kw \<longrightarrow>
            pw_withdrawn_at (kw_withdrawal kw) < pa_announced_at (ka_announcement k))"
proof -
  have "pods_ok x st'" using sync_sound[OF assms(1), of client now] assms(2) by simp
  then show ?thesis by (auto simp: pods_ok_def om.all_entries_def)
qed

theorem synchronization_is_safe_witness:
  "pa_verify sample_ext (ka_announcement (known_after_delivery None (sample_announcement 2 3)
     (dp_bootstrap default_sponsored_bootstrap_url) 6)) = Inr True"
proof -
  obtain report where "sync_bootstrap_endpoints sample_ext sample_client 6 sample_client_store =
      (fst (sync_bootstrap_endpoints sample_ext sample_client 6 sample_client_store), report)"
    by (metis prod.collapse)
  from synchronization_is_safe[OF sample_client_store_ok this] show ?thesis
    unfolding sample_client_sync by (simp add: om_get_def)
qed

section \<open>The endpoint list\<close>

text \<open>Every endpoint is stored under its identity, and no two share a base URL.\<close>

definition endpoint_map_ok :: "(uuid, bootstrap_endpoint_config) omap \<Rightarrow> bool" where
  "endpoint_map_ok m \<longleftrightarrow>
     om_ok m \<and> om.all_entries (\<lambda>id e. be_id e = id) m \<and>
     (\<forall>i j a b. om_get m i = Some a \<longrightarrow> om_get m j = Some b \<longrightarrow>
        be_base_url a = be_base_url b \<longrightarrow> i = j)"

definition endpoints_ok :: "store \<Rightarrow> bool" where
  "endpoints_ok st \<longleftrightarrow> endpoint_map_ok (st_bootstrap_endpoints st)"

lemma endpoint_map_put:
  assumes ok: "endpoint_map_ok m" and e: "be_id e = k"
    and u: "\<And>j b. om_get m j = Some b \<Longrightarrow> be_base_url b = be_base_url e \<Longrightarrow> j = k"
  shows "endpoint_map_ok (om_put k e m)"
proof -
  have "i = j" if "om_get (om_put k e m) i = Some a" "om_get (om_put k e m) j = Some b"
    "be_base_url a = be_base_url b" for i j a b
  proof (cases "i = k"; cases "j = k")
    assume "i = k" "j \<noteq> k"
    then have "om_get m j = Some b" "be_base_url b = be_base_url e" using that by simp_all
    with u show "i = j" using \<open>i = k\<close> by blast
  next
    assume "i \<noteq> k" "j = k"
    then have "om_get m i = Some a" "be_base_url a = be_base_url e" using that by simp_all
    with u show "i = j" using \<open>j = k\<close> by blast
  next
    assume "i \<noteq> k" "j \<noteq> k"
    then have "om_get m i = Some a" "om_get m j = Some b" using that by simp_all
    with ok that(3) show "i = j" unfolding endpoint_map_ok_def by blast
  qed simp
  moreover have "om.all_entries (\<lambda>id e. be_id e = id) (om_put k e m)"
    using ok e by (intro om.all_entries_put) (simp_all add: endpoint_map_ok_def)
  ultimately show ?thesis using ok unfolding endpoint_map_ok_def by (metis om_ok_put)
qed

lemma endpoint_map_del: "endpoint_map_ok m \<Longrightarrow> endpoint_map_ok (om_del k m)"
  unfolding endpoint_map_ok_def by (auto intro: om.all_entries_del split: if_splits)

lemma endpoint_map_single: "be_id e = k \<Longrightarrow> endpoint_map_ok [(k, e)]"
  by (simp add: endpoint_map_ok_def om_ok_def om.all_entries_def om_get_def)

lemma endpoint_map_url: "endpoint_map_ok m \<Longrightarrow> om_get m i = Some a \<Longrightarrow> om_get m j = Some b \<Longrightarrow>
    be_base_url a = be_base_url b \<Longrightarrow> i = j"
  unfolding endpoint_map_ok_def by blast

lemma endpoint_map_id: "endpoint_map_ok m \<Longrightarrow> om_get m i = Some a \<Longrightarrow> be_id a = i"
  by (simp add: endpoint_map_ok_def om.all_entries_def)

lemma endpoints_distinct:
  assumes "endpoints_ok st"
  shows "distinct (om_vals (st_bootstrap_endpoints st))"
proof -
  have ok: "om_ok (st_bootstrap_endpoints st)" using assms by (simp add: endpoints_ok_def endpoint_map_ok_def)
  have "map be_id (om_vals (st_bootstrap_endpoints st)) = map fst (st_bootstrap_endpoints st)"
    using assms ok by (auto simp: endpoints_ok_def endpoint_map_ok_def om.all_entries_def om_vals_def om_get_iff)
  then show ?thesis using om_ok_distinct[OF ok] by (metis distinct_map)
qed

lemma endpoints_rank_inj:
  assumes "endpoints_ok st"
  shows "inj_on endpoint_rank (set (om_vals (st_bootstrap_endpoints st)))"
proof (rule inj_onI)
  fix a b
  assume "a \<in> set (om_vals (st_bootstrap_endpoints st))" "b \<in> set (om_vals (st_bootstrap_endpoints st))"
    and r: "endpoint_rank a = endpoint_rank b"
  then obtain i j where "om_get (st_bootstrap_endpoints st) i = Some a"
    "om_get (st_bootstrap_endpoints st) j = Some b"
    using assms om_vals_get unfolding endpoints_ok_def endpoint_map_ok_def by metis
  moreover from this have "be_id a = i" "be_id b = j"
    using assms endpoint_map_id by (auto simp: endpoints_ok_def)
  ultimately show "a = b" using r by (simp add: endpoint_rank_def)
qed

text \<open>C30: The endpoint list does not depend on the order in which the hash map visits its entries: it is
  the stored endpoints, each once, in ascending order of position, creation time and identity.\<close>

theorem endpoint_list_deterministic:
  assumes "iteration_sound x" and "endpoints_ok st"
  shows "mset (list_bootstrap_endpoints x st) = mset (om_vals (st_bootstrap_endpoints st)) \<and>
         sorted_wrt (\<lambda>a b. endpoint_rank a < endpoint_rank b) (list_bootstrap_endpoints x st) \<and>
         list_bootstrap_endpoints x st = sort_key endpoint_rank (om_vals (st_bootstrap_endpoints st))"
proof -
  let ?vs = "values_in_order (x_iter_nodes x) (st_bootstrap_endpoints st)"
  let ?l = "list_bootstrap_endpoints x st"
  have ok: "om_ok (st_bootstrap_endpoints st)" using assms(2) by (simp add: endpoints_ok_def endpoint_map_ok_def)
  have m: "mset ?vs = mset (om_vals (st_bootstrap_endpoints st))"
    using mset_values_in_order[OF ok, of "x_iter_nodes x"] assms(1) by (simp add: iteration_sound_def)
  then have ml: "mset ?l = mset (om_vals (st_bootstrap_endpoints st))" by (simp add: list_bootstrap_endpoints_def)
  have inj: "inj_on endpoint_rank (set ?l)"
    using endpoints_rank_inj[OF assms(2)] ml by (metis set_mset_mset)
  have dl: "distinct ?l" using endpoints_distinct[OF assms(2)] ml by (metis mset_eq_imp_distinct_iff)
  have inj2: "inj_on endpoint_rank (set (om_vals (st_bootstrap_endpoints st)))"
    by (rule endpoints_rank_inj[OF assms(2)])
  from dl have d: "distinct (map endpoint_rank ?l)" using inj by (auto simp: distinct_map)
  have "sorted (map endpoint_rank ?l)" by (simp add: list_bootstrap_endpoints_def)
  then have "sorted_wrt (<) (map endpoint_rank ?l)" using d by (simp add: strict_sorted_iff)
  moreover have "?l = sort_key endpoint_rank (om_vals (st_bootstrap_endpoints st))"
    using sort_key_inj_key_eq[OF ml [symmetric] inj2 \<open>sorted (map endpoint_rank ?l)\<close>] by simp
  ultimately show ?thesis using ml by (simp add: sorted_wrt_map)
qed

lemma sample_client_endpoints_ok: "endpoints_ok sample_client_store"
  by (simp add: endpoints_ok_def sample_client_store_fields endpoint_map_single)

theorem endpoint_list_deterministic_witness:
  "map be_id (list_bootstrap_endpoints sample_ext sample_client_store) = [5]"
proof -
  have "list_bootstrap_endpoints sample_ext sample_client_store =
      sort_key endpoint_rank (om_vals (st_bootstrap_endpoints sample_client_store))"
    using endpoint_list_deterministic[OF sample_iteration_sound sample_client_endpoints_ok] by blast
  then show ?thesis by (simp add: sample_client_store_fields om_vals_def)
qed

text \<open>The user's edits keep the endpoint list well formed: every endpoint sits under its identity and
  no two share a base URL.\<close>

theorem endpoint_edits_keep_list:
  assumes ok: "endpoints_ok st"
  shows "endpoints_ok (ensure_default_bootstrap_endpoint i now st) \<and>
         endpoints_ok (fst (add_bootstrap_endpoint x i label url now st)) \<and>
         endpoints_ok (fst (set_bootstrap_endpoint_enabled t i enabled st)) \<and>
         endpoints_ok (fst (remove_bootstrap_endpoint t i st))"
proof -
  let ?m = "st_bootstrap_endpoints st"
  have m: "endpoint_map_ok ?m" using ok by (simp add: endpoints_ok_def)
  have "endpoints_ok (ensure_default_bootstrap_endpoint i now st)"
    using ok by (simp add: ensure_default_bootstrap_endpoint_def endpoints_ok_def endpoint_map_single)
  moreover have "endpoints_ok (fst (add_bootstrap_endpoint x i label url now st))"
  proof -
    have put: "endpoint_map_ok (om_put i e ?m)"
      if "be_id e = i" "\<not> (\<exists>b \<in> set (om_vals ?m). be_base_url b = be_base_url e)" for e
    proof (rule endpoint_map_put[OF m that(1)])
      fix j b
      assume b: "om_get ?m j = Some b" "be_base_url b = be_base_url e"
      have "om_ok ?m" using m by (simp add: endpoint_map_ok_def)
      then have "b \<in> set (om_vals ?m)" using b(1) om_vals_get[of ?m b] by blast
      then show "j = i" using that(2) b(2) by blast
    qed
    show ?thesis
    proof (cases "normalize_bootstrap_base_url x url")
      case (Inr u)
      then show ?thesis
        using m put[of "\<lparr> be_id = i, be_label = trim label, be_base_url = u, be_enabled = True,
            be_order = next_order (map be_order (om_vals ?m)), be_is_sponsored_default = False,
            be_created_at = now \<rparr>"]
        by (simp add: add_bootstrap_endpoint_def endpoints_ok_def Let_def)
    qed (simp add: add_bootstrap_endpoint_def ok)
  qed
  moreover have "endpoints_ok (fst (set_bootstrap_endpoint_enabled t i enabled st))"
  proof (cases "om_get ?m i")
    case (Some e)
    have "endpoint_map_ok (om_put i (e\<lparr>be_enabled := enabled\<rparr>) ?m)"
      using endpoint_map_url[OF m _ Some] endpoint_map_id[OF m Some]
      by (intro endpoint_map_put[OF m]) simp_all
    with Some show ?thesis by (simp add: set_bootstrap_endpoint_enabled_def Let_def endpoints_ok_def)
  qed (use ok in \<open>simp add: set_bootstrap_endpoint_enabled_def\<close>)
  moreover have "endpoints_ok (fst (remove_bootstrap_endpoint t i st))"
    using ok by (auto simp: remove_bootstrap_endpoint_def endpoints_ok_def endpoint_map_del split: option.splits)
  ultimately show ?thesis by blast
qed

theorem endpoint_edits_keep_list_witness:
  "endpoints_ok (fst (add_bootstrap_endpoint sample_ext 6 ''l'' ''https://h'' 3 sample_client_store))"
  using endpoint_edits_keep_list[OF sample_client_endpoints_ok] by blast

section \<open>Endpoints as provenance\<close>

lemma retains_url_get:
  "om_ok (st_bootstrap_endpoints st) \<Longrightarrow>
   retains_bootstrap_url st u \<longleftrightarrow>
     (\<exists>i e. om_get (st_bootstrap_endpoints st) i = Some e \<and> be_enabled e \<and> be_base_url e = u)"
  unfolding retains_bootstrap_url_def list_ex_iff using om_vals_get by metis

text \<open>Removing or disabling an endpoint withdraws its provenance: its base URL no longer counts, every
  other one counts as before; so an announcement learned from it alone is no longer delivered, one
  with another source is delivered as before, and the stored announcements stay.\<close>

theorem dropped_endpoint_loses_provenance:
  assumes ok: "endpoints_ok st"
    and drop: "remove_bootstrap_endpoint t i st = (st', Inr e) \<or>
               set_bootstrap_endpoint_enabled t i False st = (st', Inr e)"
  shows "(\<forall>u. retains_bootstrap_url st' u \<longleftrightarrow> retains_bootstrap_url st u \<and> u \<noteq> be_base_url e) \<and>
     (\<forall>known policy. ka_received_from_bootstrap_urls known = [be_base_url e] \<and>
        ka_received_from_peer_id known = None \<and> ka_received_from_index_urls known = [] \<and>
        ka_received_from_discovery_peer_endpoints known = [] \<longrightarrow>
        \<not> announcement_delivery_is_active st' known policy) \<and>
     (\<forall>known policy. be_base_url e \<notin> set (ka_received_from_bootstrap_urls known) \<longrightarrow>
        announcement_delivery_is_active st' known policy = announcement_delivery_is_active st known policy) \<and>
     st_known_pod_announcements st' = st_known_pod_announcements st"
proof -
  have okm: "om_ok (st_bootstrap_endpoints st)" using ok by (simp add: endpoints_ok_def endpoint_map_ok_def)
  obtain e0 where e0: "om_get (st_bootstrap_endpoints st) i = Some e0" "be_base_url e0 = be_base_url e"
    using drop by (auto simp: remove_bootstrap_endpoint_def set_bootstrap_endpoint_enabled_def Let_def
        split: option.splits)
  have uniq: "j = i" if "om_get (st_bootstrap_endpoints st) j = Some b" "be_base_url b = be_base_url e" for j b
    using endpoint_map_url[OF _ that(1) e0(1)] ok that(2) e0(2) by (simp add: endpoints_ok_def)
  have fields: "st_known_pod_announcements st' = st_known_pod_announcements st"
    "st_outbound_discovery_peers st' = st_outbound_discovery_peers st"
    "st_discovery_peer_sync_states st' = st_discovery_peer_sync_states st"
    using drop by (auto simp: remove_bootstrap_endpoint_def set_bootstrap_endpoint_enabled_def Let_def
        split: option.splits)
  have eps: "st_bootstrap_endpoints st' = om_del i (st_bootstrap_endpoints st) \<or>
      (\<exists>d. st_bootstrap_endpoints st' = om_put i d (st_bootstrap_endpoints st) \<and> \<not> be_enabled d)"
    using drop by (auto simp: remove_bootstrap_endpoint_def set_bootstrap_endpoint_enabled_def Let_def
        split: option.splits)
  then have okm': "om_ok (st_bootstrap_endpoints st')" using okm by auto
  have url: "retains_bootstrap_url st' u \<longleftrightarrow> retains_bootstrap_url st u \<and> u \<noteq> be_base_url e" for u
  proof -
    have "retains_bootstrap_url st' u \<longleftrightarrow>
        (\<exists>j b. j \<noteq> i \<and> om_get (st_bootstrap_endpoints st) j = Some b \<and> be_enabled b \<and> be_base_url b = u)"
      unfolding retains_url_get[OF okm'] using eps
    proof
      assume "st_bootstrap_endpoints st' = om_del i (st_bootstrap_endpoints st)"
      then show "(\<exists>j b. om_get (st_bootstrap_endpoints st') j = Some b \<and> be_enabled b \<and> be_base_url b = u) \<longleftrightarrow>
          (\<exists>j b. j \<noteq> i \<and> om_get (st_bootstrap_endpoints st) j = Some b \<and> be_enabled b \<and> be_base_url b = u)"
        by auto
    next
      assume "\<exists>d. st_bootstrap_endpoints st' = om_put i d (st_bootstrap_endpoints st) \<and> \<not> be_enabled d"
      then show "(\<exists>j b. om_get (st_bootstrap_endpoints st') j = Some b \<and> be_enabled b \<and> be_base_url b = u) \<longleftrightarrow>
          (\<exists>j b. j \<noteq> i \<and> om_get (st_bootstrap_endpoints st) j = Some b \<and> be_enabled b \<and> be_base_url b = u)"
        by (elim exE conjE) (simp only: om_get_put, metis option.inject)
    qed
    also have "\<dots> \<longleftrightarrow> retains_bootstrap_url st u \<and> u \<noteq> be_base_url e"
    proof -
      have "j \<noteq> i \<longleftrightarrow> be_base_url b \<noteq> be_base_url e" if "om_get (st_bootstrap_endpoints st) j = Some b" for j b
        using uniq[OF that] that e0 by auto
      then show ?thesis unfolding retains_url_get[OF okm] by blast
    qed
    finally show ?thesis .
  qed
  have peers: "retains_discovery_peer_endpoint st' = retains_discovery_peer_endpoint st"
    by (rule ext) (simp add: retains_discovery_peer_endpoint_def fields)
  have "announcement_delivery_is_active st' known policy = announcement_delivery_is_active st known policy"
    if "be_base_url e \<notin> set (ka_received_from_bootstrap_urls known)" for known policy
  proof -
    have "list_ex (retains_bootstrap_url st') (ka_received_from_bootstrap_urls known) =
        list_ex (retains_bootstrap_url st) (ka_received_from_bootstrap_urls known)"
      using that by (auto simp: list_ex_iff url)
    then show ?thesis by (simp add: announcement_delivery_is_active_def Let_def peers)
  qed
  moreover have "\<not> announcement_delivery_is_active st' known policy"
    if "ka_received_from_bootstrap_urls known = [be_base_url e]" "ka_received_from_peer_id known = None"
      "ka_received_from_index_urls known = []" "ka_received_from_discovery_peer_endpoints known = []"
    for known policy
    using that by (simp add: announcement_delivery_is_active_def Let_def url)
  ultimately show ?thesis using url fields(1) by blast
qed

theorem dropped_endpoint_loses_provenance_witness:
  "retains_bootstrap_url sample_client_store default_sponsored_bootstrap_url \<and>
   \<not> retains_bootstrap_url (fst (remove_bootstrap_endpoint (\<lambda>_. []) 5 sample_client_store))
       default_sponsored_bootstrap_url"
proof -
  obtain e where r: "remove_bootstrap_endpoint (\<lambda>_. []) 5 sample_client_store =
      (fst (remove_bootstrap_endpoint (\<lambda>_. []) 5 sample_client_store), Inr e)"
    and e: "be_base_url e = default_sponsored_bootstrap_url"
    by (simp add: remove_bootstrap_endpoint_def sample_client_store_fields om_get_def)
  have "retains_bootstrap_url sample_client_store default_sponsored_bootstrap_url"
    by (simp add: retains_bootstrap_url_def sample_client_store_fields om_vals_def)
  moreover note dropped_endpoint_loses_provenance[OF sample_client_endpoints_ok disjI1[OF r],
      THEN conjunct1, THEN spec, of default_sponsored_bootstrap_url]
  ultimately show ?thesis using e by simp
qed

section \<open>The limits of the page rollback\<close>

text \<open>The rollback of a failing page restores the announcement and withdrawal maps only. On a node that
  serves a peer stream, an announcement of the failing page that had been retained stays in the
  served stream under the next sequence number although the store no longer holds it.\<close>

theorem failed_page_leaves_served_row:
  assumes "peer_service_is_enabled st" and "peer_log_ok st"
    and "retain_verified_pod_announcement x a (dp_bootstrap url) now st = (st1, Inr k)"
    and "sp_entries page = [good, bad]" and "se_kind good = SE_Admitted"
    and "se_payload good = AnnouncementPayload a"
    and "se_kind bad = SE_Admitted" and "se_payload bad = WithdrawalPayload w"
  shows "\<exists>st' f. apply_stream_page_staged x url now st page = (st', Inl f) \<and> bf_kind f = BF_Malformed \<and>
     st_known_pod_announcements st' = st_known_pod_announcements st \<and>
     st_known_pod_withdrawals st' = st_known_pod_withdrawals st \<and>
     om_get (st_discovery_peer_stream_entries st') (ds_next_stream_sequence (service_of st)) =
       Some (peer_stream_row (a, now) (ds_next_stream_sequence (service_of st)))"
proof -
  let ?f = "bf_new BF_Malformed ''stream entry missing announcement payload''"
  let ?st0 = "st\<lparr>st_known_pod_withdrawals := om_del (pa_key a) (st_known_pod_withdrawals st),
      st_known_pod_announcements := om_put (pa_key a) (written st a (dp_bootstrap url) now)
        (st_known_pod_announcements st)\<rparr>"
  let ?st' = "st1\<lparr>st_known_pod_announcements := st_known_pod_announcements st,
      st_known_pod_withdrawals := st_known_pod_withdrawals st\<rparr>"
  note s = retain_success[OF assms(3)]
  have ad: "pa_verify x a = Inr True" "pa_lease_is_active a now"
    using s(1) by (simp_all add: admissible_def)
  have "peer_service_is_enabled ?st0" using assms(1) by (simp add: peer_service_is_enabled_def)
  then have st1: "st1 = fst (append_peer_stream_entry (a, now) ?st0)"
    using maybe_project_enabled[of ?st0 x a now] ad s(4) by simp
  have seq: "service_of ?st0 = service_of st" by (simp add: service_of_def)
  have "peer_log_ok ?st0" using assms(2) by (simp add: seq)
  then have row: "om_get (st_discovery_peer_stream_entries st1) (ds_next_stream_sequence (service_of st)) =
      Some (peer_stream_row (a, now) (ds_next_stream_sequence (service_of st)))"
    using peer_log.append_readable[of ?st0 "(a, now)"] by (simp add: st1 seq)
  have "apply_stream_page x url now page st = (st1, Inl ?f)"
    using assms(3-8) by (simp add: apply_stream_page_def apply_stream_entry_def)
  then have "apply_stream_page_staged x url now st page = (?st', Inl ?f)"
    by (simp add: apply_stream_page_staged_def apply_page_staged_def)
  then show ?thesis using row by (simp add: bf_new_def)
qed

text \<open>The serving peer of theory Peer_Stream receives a page with a newer announcement and a row
  whose payload is not an announcement.\<close>

definition sample_bad_page :: announcement_stream_page where
  "sample_bad_page =
     \<lparr> sp_entries = [peer_stream_row (sample_announcement 3 4, 5) 8,
         (peer_stream_row (sample_announcement 3 4, 5) 9)\<lparr>se_payload := WithdrawalPayload (sample_withdrawal 4 2)\<rparr>],
       sp_next_cursor = None, sp_limit = 50 \<rparr>"

lemma sample_serving_retains:
  "\<exists>st1 k. retain_verified_pod_announcement sample_ext (sample_announcement 3 4) (dp_bootstrap ''b'') 6
     sample_serving_store = (st1, Inr k)"
proof -
  have "admissible sample_ext sample_serving_store (sample_announcement 3 4) 6"
    by (simp add: admissible_def sample_serving_fields)
  moreover have "\<not> superseded sample_serving_store (sample_announcement 3 4) 6"
    by (simp add: superseded_def sample_serving_fields om_get_def known_after_delivery_def
        at_least_preferred_rank preference_rank_def)
  ultimately show ?thesis using retain_accepted by blast
qed

theorem failed_page_leaves_served_row_witness:
  "\<exists>st' f. apply_stream_page_staged sample_ext ''b'' 6 sample_serving_store sample_bad_page = (st', Inl f) \<and>
     st_known_pod_announcements st' = st_known_pod_announcements sample_serving_store \<and>
     om_get (st_discovery_peer_stream_entries st') 2 = Some (peer_stream_row (sample_announcement 3 4, 6) 2)"
proof -
  obtain st1 k where r: "retain_verified_pod_announcement sample_ext (sample_announcement 3 4)
      (dp_bootstrap ''b'') 6 sample_serving_store = (st1, Inr k)"
    using sample_serving_retains by blast
  let ?bad = "(peer_stream_row (sample_announcement 3 4, 5) 9)\<lparr>se_payload := WithdrawalPayload (sample_withdrawal 4 2)\<rparr>"
  have log: "peer_log_ok sample_serving_store"
    by (simp add: sample_serving_fields log_ok_def om_keys_def peer_stream_row_def max_peer_stream_entries_def
        u64_max_def numeral_2_eq_2)
  have p: "sp_entries sample_bad_page = [peer_stream_row (sample_announcement 3 4, 5) 8, ?bad]"
    by (simp add: sample_bad_page_def)
  have g: "se_kind (peer_stream_row (sample_announcement 3 4, 5) 8) = SE_Admitted"
    "se_payload (peer_stream_row (sample_announcement 3 4, 5) 8) = AnnouncementPayload (sample_announcement 3 4)"
    "se_kind ?bad = SE_Admitted" "se_payload ?bad = WithdrawalPayload (sample_withdrawal 4 2)"
    by (simp_all add: peer_stream_row_def)
  show ?thesis
    using failed_page_leaves_served_row[OF sample_serving_fields(1) log r p g]
    unfolding sample_serving_fields(4) by blast
qed

end
