(* ===== verification/Peer_Client.thy ===== *)
theory Peer_Client
  imports Stream_Sync Peer_Node
begin

text \<open>
  The outbound side of discovery peers (\<open>discovery_peer/client/gossip.rs\<close> and
  \<open>discovery_peer/client/sync.rs\<close>): learning signed advertisements, selecting a bounded outbound
  set, synchronizing from it with backoff and eviction, and the readiness report. The transports
  are functions of the base URL; an operation that draws a random order takes its seed.
\<close>

section \<open>Gossip configuration (gossip.rs)\<close>

definition ensure_discovery_peer_gossip_config :: "store \<Rightarrow> store \<times> discovery_peer_gossip_config" where
  "ensure_discovery_peer_gossip_config st =
     (let config = (case st_discovery_peer_gossip_config st of
                      None \<Rightarrow> discovery_peer_gossip_default | Some c \<Rightarrow> c)
      in (st\<lparr>st_discovery_peer_gossip_config := Some config\<rparr>, config))"

definition peer_gossip_is_enabled :: "store \<Rightarrow> bool" where
  "peer_gossip_is_enabled st =
     (case st_discovery_peer_gossip_config st of
        None \<Rightarrow> True | Some config \<Rightarrow> gc_automatic_gossip_enabled config)"

definition set_automatic_peer_gossip_enabled ::
  "bool \<Rightarrow> time \<Rightarrow> store \<Rightarrow> store \<times> discovery_peer_gossip_config" where
  "set_automatic_peer_gossip_enabled enabled now st =
     (let (st1, config) = ensure_discovery_peer_gossip_config st;
          config' = config\<lparr>gc_automatic_gossip_enabled := enabled, gc_updated_at := Some now\<rparr>
      in (st1\<lparr>st_discovery_peer_gossip_config := Some config'\<rparr>, config'))"

definition max_outbound_peers :: "store \<Rightarrow> nat" where
  "max_outbound_peers st =
     clamp 1 max_outbound_discovery_peers
       (case st_discovery_peer_gossip_config st of
          None \<Rightarrow> default_max_outbound_discovery_peers
        | Some config \<Rightarrow> gc_max_outbound_peers config)"

section \<open>Learning an advertisement (gossip.rs)\<close>

definition df_new :: "discovery_peer_sync_failure_kind \<Rightarrow> string \<Rightarrow> discovery_peer_sync_failure" where
  "df_new kind message = \<lparr> df_kind = kind, df_message = message \<rparr>"

definition ps_empty_sync_state :: "uuid \<Rightarrow> discovery_peer_sync_state" where
  "ps_empty_sync_state node_id =
     \<lparr> ps_node_id = node_id, ps_cursor = None, ps_last_success_at = None, ps_last_attempt_at = None,
       ps_consecutive_failures = 0, ps_backoff_until = None, ps_health = Healthy,
       ps_last_error = None \<rparr>"

fun ep_debug :: "endpoint_policy_error \<Rightarrow> string" where
  "ep_debug EP_Malformed = ''Malformed''"
| "ep_debug EP_Insecure = ''Insecure''"
| "ep_debug EP_Private = ''Private''"

definition verify_peer_advertisement_locally ::
  "ext \<Rightarrow> discovery_peer_advertisement \<Rightarrow> discovery_peer_probe option \<Rightarrow> time
    \<Rightarrow> discovery_peer_sync_failure + unit" where
  "verify_peer_advertisement_locally x ad probe now =
     (if ad_node_id ad \<noteq> ni_node_id (ad_signer ad) \<or> trim (ni_public_key (ad_signer ad)) = []
      then Inl (df_new DF_Validation ''peer advertisement identity is inconsistent'')
      else if ad_protocol_version ad \<noteq> current_protocol_version \<or>
              ni_supported_protocol_version (ad_signer ad) \<noteq> current_protocol_version
      then Inl (df_new DF_IncompatibleProtocol ''peer advertisement protocol is incompatible'')
      else if ad_capability ad \<noteq> AnnouncementServing
      then Inl (df_new DF_Validation ''peer advertisement capability is not announcement_serving'')
      else case normalize_discovery_peer_endpoint x (ad_public_endpoint ad) of
        Inl e \<Rightarrow> Inl (df_new DF_Validation (''peer endpoint policy violation: '' @ ep_debug e))
      | Inr endpoint \<Rightarrow>
          if endpoint \<noteq> ad_public_endpoint ad
          then Inl (df_new DF_Malformed ''peer advertisement endpoint is not normalized'')
          else if \<not> ad_lease_is_active ad now
          then Inl (df_new DF_ExpiredAdvertisement ''peer advertisement lease is expired'')
          else if ad_verify x ad \<noteq> Inr True
          then Inl (df_new DF_InvalidSignature ''peer advertisement signature verification failed'')
          else case probe of
            None \<Rightarrow> Inr ()
          | Some probe_peer_endpoint \<Rightarrow>
              (case probe_peer_endpoint (ad_public_endpoint ad) of
                 Inl PP_Unreachable \<Rightarrow> Inl (df_new DF_Unreachable ''peer endpoint is not reachable'')
               | Inr view \<Rightarrow>
                   if dv_node_id view \<noteq> ad_node_id ad \<or>
                      dv_public_key view \<noteq> ni_public_key (ad_signer ad) \<or>
                      dv_protocol_version view \<noteq> ad_protocol_version ad
                   then Inl (df_new DF_Validation ''reachable peer identity does not match advertisement'')
                   else Inr ()))"

definition un_evict :: "discovery_peer_sync_state \<Rightarrow> discovery_peer_sync_state" where
  "un_evict sync =
     (if ps_health sync = Evicted
      then sync\<lparr>ps_health := Healthy, ps_consecutive_failures := 0, ps_backoff_until := None,
                ps_last_error := None\<rparr>
      else sync)"

text \<open>\<open>get_mut\<close> followed by a change of the found value.\<close>

definition om_modify :: "'k::linorder \<Rightarrow> ('v \<Rightarrow> 'v) \<Rightarrow> ('k, 'v) omap \<Rightarrow> ('k, 'v) omap" where
  "om_modify k f m = (case om_get m k of None \<Rightarrow> m | Some v \<Rightarrow> om_put k (f v) m)"

definition learn_discovery_peer_advertisement ::
  "ext \<Rightarrow> discovery_peer_advertisement \<Rightarrow> string option \<Rightarrow> discovery_peer_probe option \<Rightarrow> time \<Rightarrow> store
    \<Rightarrow> store \<times> (discovery_peer_sync_failure + known_discovery_peer_advertisement)" where
  "learn_discovery_peer_advertisement x ad learned_from probe now st =
     (case verify_peer_advertisement_locally x ad probe now of
        Inl e \<Rightarrow> (st, Inl e)
      | Inr _ \<Rightarrow>
          let node = ad_node_id ad;
              known_sources = (case om_get (st_known_discovery_peer_advertisements st) node of
                  None \<Rightarrow> [] | Some known \<Rightarrow> kd_learned_from known);
              sources = merged_urls learned_from known_sources;
              known = \<lparr> kd_advertisement = ad, kd_received_at = now, kd_learned_from = sources \<rparr>
          in (st\<lparr>st_known_discovery_peer_advertisements :=
                   om_put node known (st_known_discovery_peer_advertisements st),
                 st_discovery_peer_sync_states :=
                   om_modify node un_evict (st_discovery_peer_sync_states st),
                 st_outbound_discovery_peers :=
                   om_modify node (\<lambda>outbound. outbound\<lparr>op_public_endpoint := ad_public_endpoint ad,
                       op_advertisement_id := ad_id ad, op_protocol_version := ad_protocol_version ad,
                       op_learned_from := sources\<rparr>)
                     (st_outbound_discovery_peers st)\<rparr>,
              Inr known))"

section \<open>The outbound set (gossip.rs)\<close>

definition not_evicted :: "store \<Rightarrow> uuid \<Rightarrow> bool" where
  "not_evicted st node =
     (case om_get (st_discovery_peer_sync_states st) node of
        None \<Rightarrow> True | Some state \<Rightarrow> ps_health state \<noteq> Evicted)"

definition peer_rank :: "outbound_discovery_peer \<Rightarrow> time \<times> uuid" where
  "peer_rank peer = (op_selected_at peer, op_node_id peer)"

definition list_active_outbound_peers :: "ext \<Rightarrow> store \<Rightarrow> outbound_discovery_peer list" where
  "list_active_outbound_peers x st =
     sort_key peer_rank
       (filter (\<lambda>peer. not_evicted st (op_node_id peer))
         (values_in_order (x_iter_nodes x) (st_outbound_discovery_peers st)))"

definition outbound_discovery_peer_statuses :: "ext \<Rightarrow> store \<Rightarrow> outbound_discovery_peer_status list" where
  "outbound_discovery_peer_statuses x st =
     map (\<lambda>peer. \<lparr> os_peer = peer,
                   os_sync = (case om_get (st_discovery_peer_sync_states st) (op_node_id peer) of
                      Some s \<Rightarrow> s | None \<Rightarrow> ps_empty_sync_state (op_node_id peer)) \<rparr>)
       (list_active_outbound_peers x st)"

definition mark_peer_evicted :: "uuid \<Rightarrow> time \<Rightarrow> string \<Rightarrow> store \<Rightarrow> store" where
  "mark_peer_evicted node now message st =
     (let state = (case om_get (st_discovery_peer_sync_states st) node of
                     Some s \<Rightarrow> s | None \<Rightarrow> ps_empty_sync_state node)
      in st\<lparr>st_discovery_peer_sync_states :=
           om_put node
             (state\<lparr>ps_last_attempt_at := Some now, ps_health := Evicted,
                    ps_last_error := Some (df_new DF_ExpiredAdvertisement message)\<rparr>)
             (st_discovery_peer_sync_states st)\<rparr>)"

text \<open>An outbound peer whose stored advertisement no longer vouches for it.\<close>

definition peer_is_stale :: "ext \<Rightarrow> store \<Rightarrow> time \<Rightarrow> outbound_discovery_peer \<Rightarrow> uuid \<Rightarrow> bool" where
  "peer_is_stale x st now peer node =
     (case om_get (st_known_discovery_peer_advertisements st) node of
        None \<Rightarrow> False
      | Some known \<Rightarrow>
          let ad = kd_advertisement known
          in \<not> ad_lease_is_active ad now \<or> ad_protocol_version ad \<noteq> current_protocol_version \<or>
             ad_verify x ad \<noteq> Inr True \<or> ad_public_endpoint ad \<noteq> op_public_endpoint peer)"

definition drop_stale_peer :: "time \<Rightarrow> uuid \<Rightarrow> store \<Rightarrow> store" where
  "drop_stale_peer now node st =
     (let st1 = mark_peer_evicted node now ''peer advertisement no longer valid'' st
      in st1\<lparr>st_outbound_discovery_peers := om_del node (st_outbound_discovery_peers st1)\<rparr>)"

definition stale_peers :: "ext \<Rightarrow> store \<Rightarrow> time \<Rightarrow> uuid list" where
  "stale_peers x st now =
     List.map_filter (\<lambda>node.
         case om_get (st_outbound_discovery_peers st) node of
           None \<Rightarrow> None
         | Some peer \<Rightarrow> if peer_is_stale x st now peer node then Some node else None)
       (x_iter_nodes x (om_keys (st_outbound_discovery_peers st)))"

definition selection_candidates ::
  "ext \<Rightarrow> uuid option \<Rightarrow> time \<Rightarrow> store \<Rightarrow> (discovery_peer_advertisement \<times> string list) list" where
  "selection_candidates x local_node now st =
     map (\<lambda>known. (kd_advertisement known, kd_learned_from known))
       (filter (\<lambda>known.
           let ad = kd_advertisement known
           in ad_lease_is_active ad now \<and> ad_protocol_version ad = current_protocol_version \<and>
              ad_capability ad = AnnouncementServing \<and> ad_verify x ad = Inr True \<and>
              local_node \<noteq> Some (ad_node_id ad) \<and>
              om_get (st_outbound_discovery_peers st) (ad_node_id ad) = None \<and>
              not_evicted st (ad_node_id ad))
         (values_in_order (x_iter_nodes x) (st_known_discovery_peer_advertisements st)))"

definition select_one ::
  "time \<Rightarrow> discovery_peer_advertisement \<times> string list \<Rightarrow> store \<Rightarrow> store" where
  "select_one now candidate st =
     (case candidate of (ad, learned_from) \<Rightarrow>
        let node = ad_node_id ad;
            peer = \<lparr> op_node_id = node, op_public_endpoint = ad_public_endpoint ad,
                     op_advertisement_id = ad_id ad, op_protocol_version = ad_protocol_version ad,
                     op_selected_at = now, op_learned_from = learned_from \<rparr>;
            states = (case om_get (st_discovery_peer_sync_states st) node of
                        None \<Rightarrow> om_put node (ps_empty_sync_state node) (st_discovery_peer_sync_states st)
                      | Some _ \<Rightarrow> st_discovery_peer_sync_states st)
        in st\<lparr>st_outbound_discovery_peers := om_put node peer (st_outbound_discovery_peers st),
              st_discovery_peer_sync_states := om_modify node un_evict states\<rparr>)"

definition select_outbound_discovery_peers ::
  "ext \<Rightarrow> uuid option \<Rightarrow> time \<Rightarrow> nat \<Rightarrow> store \<Rightarrow> store \<times> outbound_discovery_peer list" where
  "select_outbound_discovery_peers x local_node now seed st =
     (if \<not> peer_gossip_is_enabled st then (st, list_active_outbound_peers x st)
      else
        let most = max_outbound_peers st;
            st1 = fold (drop_stale_peer now) (stale_peers x st now) st;
            active = filter (not_evicted st1) (x_iter_nodes x (om_keys (st_outbound_discovery_peers st1)))
        in if length active \<ge> most
           then (st1, List.map_filter (om_get (st_outbound_discovery_peers st1)) (sort active))
           else
             let candidates = shuffle seed (selection_candidates x local_node now st1);
                 st2 = fold (select_one now) (take (most - length active) candidates) st1
             in (st2, list_active_outbound_peers x st2))"

end
