(* ===== verification/Peer_Sync_Client.thy ===== *)
theory Peer_Sync_Client
  imports Peer_Client
begin

text \<open>
  Synchronization from the selected outbound peers (\<open>discovery_peer/client/sync.rs\<close>): the plan, one
  peer's pass with its health record, learning from samples, and the readiness report.
\<close>

section \<open>Health (record_peer_failure)\<close>

definition base_backoff_seconds :: int where
  "base_backoff_seconds = 30"

definition max_backoff_doublings :: nat where
  "max_backoff_doublings = 5"

text \<open>\<open>u32::saturating_add\<close>.\<close>

definition sat_add_u32 :: "nat \<Rightarrow> nat \<Rightarrow> nat" where
  "sat_add_u32 a b = min (a + b) (2 ^ 32 - 1)"

fun immediate_eviction :: "discovery_peer_sync_failure_kind \<Rightarrow> bool" where
  "immediate_eviction DF_InvalidSignature = True"
| "immediate_eviction DF_Flooding = True"
| "immediate_eviction DF_IncompatibleProtocol = True"
| "immediate_eviction DF_ExpiredAdvertisement = True"
| "immediate_eviction _ = False"

definition backoff_delay :: "nat \<Rightarrow> int" where
  "backoff_delay failures = base_backoff_seconds * 2 ^ (min failures max_backoff_doublings - 1)"

definition record_peer_failure ::
  "outbound_discovery_peer \<Rightarrow> discovery_peer_sync_state \<Rightarrow> discovery_peer_sync_failure \<Rightarrow> time \<Rightarrow> store
    \<Rightarrow> store \<times> discovery_peer_sync_state" where
  "record_peer_failure peer state error now st =
     (let failures = sat_add_u32 (ps_consecutive_failures state) 1;
          state1 = state\<lparr>ps_last_error := Some error, ps_consecutive_failures := failures\<rparr>
      in if immediate_eviction (df_kind error) \<or> failures \<ge> peer_failures_before_eviction
         then let state2 = state1\<lparr>ps_health := Evicted, ps_backoff_until := None\<rparr>
              in (st\<lparr>st_discovery_peer_sync_states :=
                       om_put (op_node_id peer) state2 (st_discovery_peer_sync_states st),
                     st_outbound_discovery_peers :=
                       om_del (op_node_id peer) (st_outbound_discovery_peers st)\<rparr>, state2)
         else let state2 = state1\<lparr>ps_backoff_until := Some (now + seconds (backoff_delay failures)),
                                  ps_health := BackedOff\<rparr>
              in (st\<lparr>st_discovery_peer_sync_states :=
                       om_put (op_node_id peer) state2 (st_discovery_peer_sync_states st)\<rparr>, state2))"

section \<open>The plan\<close>

record discovery_peer_sync_plan =
  pp_peer :: outbound_discovery_peer
  pp_cursor :: "string option"

definition ready_for_sync :: "store \<Rightarrow> time \<Rightarrow> outbound_discovery_peer \<Rightarrow> bool" where
  "ready_for_sync st now peer =
     (case om_get (st_discovery_peer_sync_states st) (op_node_id peer) of
        None \<Rightarrow> True
      | Some state \<Rightarrow>
          if ps_health state = Evicted then False
          else (case ps_backoff_until state of None \<Rightarrow> True | Some until \<Rightarrow> until \<le> now))"

definition plan_discovery_peer_sync :: "ext \<Rightarrow> store \<Rightarrow> time \<Rightarrow> discovery_peer_sync_plan list" where
  "plan_discovery_peer_sync x st now =
     (if \<not> peer_gossip_is_enabled st then []
      else map (\<lambda>peer. \<lparr> pp_peer = peer,
                         pp_cursor = Option.bind
                           (om_get (st_discovery_peer_sync_states st) (op_node_id peer)) ps_cursor \<rparr>)
             (filter (ready_for_sync st now) (list_active_outbound_peers x st)))"

section \<open>Applying a page\<close>

type_synonym discovery_peer_stream_client = "string \<Rightarrow> discovery_peer_sync_failure page_fetch"

definition fetch_discovery_peer_stream_pages ::
  "discovery_peer_stream_client \<Rightarrow> string \<Rightarrow> string option \<Rightarrow> discovery_peer_sync_failure fetched_stream" where
  "fetch_discovery_peer_stream_pages client base_url start_cursor =
     fetch_stream_pages start_cursor (client base_url)"

fun df_of_retain_failure :: "retain_failure \<Rightarrow> discovery_peer_sync_failure" where
  "df_of_retain_failure (RF_InvalidSignature message) = df_new DF_InvalidSignature message"
| "df_of_retain_failure (RF_Validation message) = df_new DF_Validation message"
| "df_of_retain_failure (RF_Protocol message) = df_new DF_Protocol message"

definition peer_map_retain_error :: "store_error \<Rightarrow> string \<Rightarrow> discovery_peer_sync_failure + unit" where
  "peer_map_retain_error error subject =
     (case map_retain_error error subject of
        Inl failure \<Rightarrow> Inl (df_of_retain_failure failure) | Inr u \<Rightarrow> Inr u)"

text \<open>A row whose payload does not fit its kind is skipped until there are too many of them.\<close>

record page_counts =
  pc_announcements :: nat
  pc_withdrawals :: nat
  pc_invalid :: nat

definition count_invalid ::
  "string \<Rightarrow> page_counts \<Rightarrow> discovery_peer_sync_failure + page_counts" where
  "count_invalid message counts =
     (let invalid = sat_add (pc_invalid counts) 1
      in if invalid > max_peer_invalid_entries_per_page then Inl (df_new DF_Flooding message)
         else Inr (counts\<lparr>pc_invalid := invalid\<rparr>))"

definition peer_retain_outcome ::
  "store_error \<Rightarrow> string \<Rightarrow> page_counts \<Rightarrow> discovery_peer_sync_failure + page_counts" where
  "peer_retain_outcome error subject counts =
     (if error = InvalidSignature
      then Inl (df_new DF_InvalidSignature (subject @ '' signature verification failed''))
      else case peer_map_retain_error error subject of
             Inl failure \<Rightarrow> Inl failure | Inr _ \<Rightarrow> Inr counts)"

definition apply_peer_stream_entry ::
  "ext \<Rightarrow> string \<Rightarrow> time \<Rightarrow> announcement_stream_entry \<Rightarrow> page_counts \<Rightarrow> store
    \<Rightarrow> store \<times> (discovery_peer_sync_failure + page_counts)" where
  "apply_peer_stream_entry x peer_endpoint now entry counts st =
     (if se_kind entry = SE_Admitted \<or> se_kind entry = SE_Renewed
      then (case as_announcement (se_payload entry) of
              None \<Rightarrow> (st, count_invalid ''peer stream flooded with malformed announcement entries'' counts)
            | Some announcement \<Rightarrow>
                (case retain_verified_pod_announcement x announcement (dp_discovery_peer peer_endpoint) now st of
                   (st', Inr _) \<Rightarrow>
                     (st', Inr (counts\<lparr>pc_announcements := sat_add (pc_announcements counts) 1\<rparr>))
                 | (st', Inl error) \<Rightarrow> (st', peer_retain_outcome error ''announcement'' counts)))
      else if se_kind entry = SE_Withdrawn
      then (case as_withdrawal (se_payload entry) of
              None \<Rightarrow> (st, count_invalid ''peer stream flooded with malformed withdrawal entries'' counts)
            | Some withdrawal \<Rightarrow>
                (case retain_verified_pod_withdrawal x withdrawal None now st of
                   (st', Inr _) \<Rightarrow>
                     (st', Inr (counts\<lparr>pc_withdrawals := sat_add (pc_withdrawals counts) 1\<rparr>))
                 | (st', Inl error) \<Rightarrow> (st', peer_retain_outcome error ''withdrawal'' counts)))
      else (st, Inr counts))"

fun apply_peer_stream_entries ::
  "ext \<Rightarrow> string \<Rightarrow> time \<Rightarrow> announcement_stream_entry list \<Rightarrow> page_counts \<Rightarrow> store
    \<Rightarrow> store \<times> (discovery_peer_sync_failure + page_counts)" where
  "apply_peer_stream_entries x peer_endpoint now [] counts st = (st, Inr counts)"
| "apply_peer_stream_entries x peer_endpoint now (entry # entries) counts st =
     (case apply_peer_stream_entry x peer_endpoint now entry counts st of
        (st', Inl failure) \<Rightarrow> (st', Inl failure)
      | (st', Inr counts') \<Rightarrow> apply_peer_stream_entries x peer_endpoint now entries counts' st')"

definition apply_peer_stream_page ::
  "ext \<Rightarrow> string \<Rightarrow> time \<Rightarrow> announcement_stream_page \<Rightarrow> store
    \<Rightarrow> store \<times> (discovery_peer_sync_failure + nat \<times> nat)" where
  "apply_peer_stream_page x peer_endpoint now page st =
     (case apply_peer_stream_entries x peer_endpoint now (sp_entries page)
             \<lparr> pc_announcements = 0, pc_withdrawals = 0, pc_invalid = 0 \<rparr> st of
        (st', Inl failure) \<Rightarrow> (st', Inl failure)
      | (st', Inr counts) \<Rightarrow> (st', Inr (pc_announcements counts, pc_withdrawals counts)))"

definition apply_peer_stream_page_staged ::
  "ext \<Rightarrow> string \<Rightarrow> time \<Rightarrow> store \<Rightarrow> announcement_stream_page
    \<Rightarrow> store \<times> (discovery_peer_sync_failure + nat \<times> nat)" where
  "apply_peer_stream_page_staged x peer_endpoint now st page =
     apply_page_staged (apply_peer_stream_page x peer_endpoint now page) st"

section \<open>One peer's pass\<close>

definition ps_record_cursor :: "string option \<Rightarrow> discovery_peer_sync_state \<Rightarrow> discovery_peer_sync_state" where
  "ps_record_cursor cursor state = state\<lparr>ps_cursor := cursor\<rparr>"

definition peer_outcome ::
  "outbound_discovery_peer \<Rightarrow> bool \<Rightarrow> nat \<Rightarrow> nat \<Rightarrow> nat \<Rightarrow> string option \<Rightarrow> discovery_peer_health
    \<Rightarrow> discovery_peer_sync_failure option \<Rightarrow> discovery_peer_sync_outcome" where
  "peer_outcome peer ok pages announcements withdrawals cursor health error =
     \<lparr> po_node_id = op_node_id peer, po_public_endpoint = op_public_endpoint peer, po_ok = ok,
       po_pages_fetched = pages, po_retained_announcements = announcements,
       po_retained_withdrawals = withdrawals, po_cursor = cursor, po_health = health,
       po_error = error \<rparr>"

definition apply_discovery_peer_stream_pages ::
  "ext \<Rightarrow> outbound_discovery_peer \<Rightarrow> discovery_peer_sync_failure fetched_stream \<Rightarrow> time \<Rightarrow> store
    \<Rightarrow> store \<times> discovery_peer_sync_outcome" where
  "apply_discovery_peer_stream_pages x peer fetched now st =
     (let found = (case om_get (st_discovery_peer_sync_states st) (op_node_id peer) of
                     Some s \<Rightarrow> s | None \<Rightarrow> ps_empty_sync_state (op_node_id peer));
          state = found\<lparr>ps_last_attempt_at := Some now\<rparr>;
          (st1, state1, drain) = drain_stream_pages fetched ps_record_cursor
            (apply_peer_stream_page_staged x (op_public_endpoint peer) now) state st
      in case sd_failure drain of
           Some error \<Rightarrow>
             (case record_peer_failure peer state1 error now st1 of
                (st2, state2) \<Rightarrow>
                  (st2, peer_outcome peer False (sd_pages_applied drain)
                     (sd_retained_announcements drain) (sd_retained_withdrawals drain)
                     (sd_cursor drain) (ps_health state2) (Some error)))
         | None \<Rightarrow>
             let state2 = state1\<lparr>ps_cursor := sd_cursor drain, ps_last_success_at := Some now,
                   ps_last_error := None, ps_consecutive_failures := 0, ps_backoff_until := None,
                   ps_health := Healthy\<rparr>
             in (st1\<lparr>st_discovery_peer_sync_states :=
                       om_put (op_node_id peer) state2 (st_discovery_peer_sync_states st1)\<rparr>,
                 peer_outcome peer True (sd_pages_applied drain) (sd_retained_announcements drain)
                   (sd_retained_withdrawals drain) (sd_cursor drain) Healthy None))"

definition expired_message :: string where
  "expired_message = ''peer advertisement expired before sync''"

definition evict_if_advertisement_expired ::
  "discovery_peer_sync_plan \<Rightarrow> time \<Rightarrow> store \<Rightarrow> store \<times> discovery_peer_sync_outcome option" where
  "evict_if_advertisement_expired plan now st =
     (let node = op_node_id (pp_peer plan);
          expired = (case om_get (st_known_discovery_peer_advertisements st) node of
                       None \<Rightarrow> False | Some known \<Rightarrow> \<not> ad_lease_is_active (kd_advertisement known) now)
      in if \<not> expired then (st, None)
         else
           let st1 = mark_peer_evicted node now expired_message st
           in (st1\<lparr>st_outbound_discovery_peers := om_del node (st_outbound_discovery_peers st1)\<rparr>,
               Some (peer_outcome (pp_peer plan) False 0 0 0 (pp_cursor plan) Evicted
                 (Some (df_new DF_ExpiredAdvertisement expired_message)))))"

section \<open>A pass over every peer\<close>

definition sync_one_peer ::
  "ext \<Rightarrow> discovery_peer_stream_client \<Rightarrow> time \<Rightarrow> discovery_peer_sync_plan
    \<Rightarrow> store \<times> discovery_peer_sync_report \<Rightarrow> store \<times> discovery_peer_sync_report" where
  "sync_one_peer x client now plan acc =
     (case acc of (st, report) \<Rightarrow>
        (case evict_if_advertisement_expired plan now st of
           (st1, Some outcome) \<Rightarrow>
             (st1, report\<lparr>pr_evicted := pr_evicted report @ [op_node_id (pp_peer plan)],
                          pr_outcomes := pr_outcomes report @ [outcome]\<rparr>)
         | (st1, None) \<Rightarrow>
             let fetched = fetch_discovery_peer_stream_pages client
                   (op_public_endpoint (pp_peer plan)) (pp_cursor plan);
                 (st2, outcome) = apply_discovery_peer_stream_pages x (pp_peer plan) fetched now st1;
                 gone = (po_health outcome = Evicted);
                 st3 = (if gone
                        then st2\<lparr>st_outbound_discovery_peers :=
                               om_del (po_node_id outcome) (st_outbound_discovery_peers st2)\<rparr>
                        else st2)
             in (st3, \<lparr> pr_outcomes = pr_outcomes report @ [outcome],
                        pr_retained_announcements =
                          sat_add (pr_retained_announcements report) (po_retained_announcements outcome),
                        pr_retained_withdrawals =
                          sat_add (pr_retained_withdrawals report) (po_retained_withdrawals outcome),
                        pr_evicted = (if gone then pr_evicted report @ [po_node_id outcome]
                                      else pr_evicted report) \<rparr>)))"

definition sync_outbound_discovery_peers ::
  "ext \<Rightarrow> discovery_peer_stream_client \<Rightarrow> time \<Rightarrow> store \<Rightarrow> store \<times> discovery_peer_sync_report" where
  "sync_outbound_discovery_peers x client now st =
     fold (sync_one_peer x client now) (plan_discovery_peer_sync x st now)
       (st, \<lparr> pr_outcomes = [], pr_retained_announcements = 0, pr_retained_withdrawals = 0,
             pr_evicted = [] \<rparr>)"

section \<open>Learning from samples\<close>

type_synonym peer_sample_client =
  "string \<Rightarrow> discovery_peer_sample_request
    \<Rightarrow> discovery_peer_sync_failure + discovery_peer_advertisement_sample"

type_synonym fetched_sample =
  "string \<times> (discovery_peer_sync_failure + discovery_peer_advertisement_sample)"

definition fetch_peer_advertisement_samples ::
  "peer_sample_client \<Rightarrow> string list \<Rightarrow> fetched_sample list" where
  "fetch_peer_advertisement_samples sample_client sources =
     (let request = \<lparr> dq_limit = Some (clamp 1 max_peer_sample_limit default_peer_sample_limit) \<rparr>
      in map (\<lambda>source. (source, sample_client source request)) (remdups_adj (sort sources)))"

record peer_learn_report =
  pl_retained :: nat
  pl_skipped_invalid :: nat
  pl_failed_sources :: "(string \<times> discovery_peer_sync_failure) list"
  pl_selected :: "outbound_discovery_peer list"

definition peer_learn_report_default :: peer_learn_report where
  "peer_learn_report_default =
     \<lparr> pl_retained = 0, pl_skipped_invalid = 0, pl_failed_sources = [], pl_selected = [] \<rparr>"

definition learn_one ::
  "ext \<Rightarrow> string \<Rightarrow> discovery_peer_probe option \<Rightarrow> time \<Rightarrow> discovery_peer_advertisement
    \<Rightarrow> store \<times> peer_learn_report \<Rightarrow> store \<times> peer_learn_report" where
  "learn_one x source probe now ad acc =
     (case acc of (st, report) \<Rightarrow>
        (case learn_discovery_peer_advertisement x ad (Some source) probe now st of
           (st', Inr _) \<Rightarrow> (st', report\<lparr>pl_retained := pl_retained report + 1\<rparr>)
         | (st', Inl _) \<Rightarrow> (st', report\<lparr>pl_skipped_invalid := pl_skipped_invalid report + 1\<rparr>)))"

definition learn_sample ::
  "ext \<Rightarrow> discovery_peer_probe option \<Rightarrow> time \<Rightarrow> fetched_sample
    \<Rightarrow> store \<times> peer_learn_report \<Rightarrow> store \<times> peer_learn_report" where
  "learn_sample x probe now fetched acc =
     (case fetched of
        (source, Inr sample) \<Rightarrow> fold (learn_one x source probe now) (sm_advertisements sample) acc
      | (source, Inl error) \<Rightarrow>
          (case acc of (st, report) \<Rightarrow>
             (st, report\<lparr>pl_failed_sources := pl_failed_sources report @ [(source, error)]\<rparr>)))"

definition retain_learned_samples_and_select ::
  "ext \<Rightarrow> fetched_sample list \<Rightarrow> discovery_peer_probe option \<Rightarrow> uuid option \<Rightarrow> time \<Rightarrow> nat \<Rightarrow> store
    \<Rightarrow> store \<times> peer_learn_report" where
  "retain_learned_samples_and_select x fetched probe local_node now seed st =
     (if \<not> peer_gossip_is_enabled st
      then (st, peer_learn_report_default\<lparr>pl_selected := list_active_outbound_peers x st\<rparr>)
      else
        let (st1, report) = fold (learn_sample x probe now) fetched (st, peer_learn_report_default);
            (st2, selected) = select_outbound_discovery_peers x local_node now seed st1
        in (st2, report\<lparr>pl_selected := selected\<rparr>))"

definition learn_peers_from_sample_sources ::
  "ext \<Rightarrow> peer_sample_client \<Rightarrow> string list \<Rightarrow> string list \<Rightarrow> discovery_peer_probe option
    \<Rightarrow> uuid option \<Rightarrow> time \<Rightarrow> nat \<Rightarrow> store \<Rightarrow> store \<times> peer_learn_report" where
  "learn_peers_from_sample_sources x sample_client bootstrap_base_urls peer_endpoints probe local_node
     now seed st =
     (if \<not> peer_gossip_is_enabled st
      then (st, peer_learn_report_default\<lparr>pl_selected := list_active_outbound_peers x st\<rparr>)
      else
        let sources = remdups_adj (sort (bootstrap_base_urls @ peer_endpoints))
        in retain_learned_samples_and_select x
             (fetch_peer_advertisement_samples sample_client sources) probe local_node now seed st)"

section \<open>Readiness\<close>

definition discovery_status_of :: "ext \<Rightarrow> store \<Rightarrow> discovery_status" where
  "discovery_status_of x st =
     (let enabled_count = length (filter be_enabled (om_vals (st_bootstrap_endpoints st)));
          any_bootstrap_success =
            list_ex (\<lambda>state. bs_last_success_at state \<noteq> None \<and>
                (case om_get (st_bootstrap_endpoints st) (bs_endpoint_id state) of
                   None \<Rightarrow> False | Some endpoint \<Rightarrow> be_enabled endpoint))
              (om_vals (st_bootstrap_sync_states st));
          any_peer_success =
            list_ex (\<lambda>state. ps_last_success_at state \<noteq> None \<and> ps_health state \<noteq> Evicted)
              (om_vals (st_discovery_peer_sync_states st));
          degraded = (if enabled_count = 0 then True
                      else \<not> any_bootstrap_success \<and> \<not> any_peer_success);
          (reason, message) =
            (if \<not> degraded
             then (None, ''discovery is operating with configured Bootstrap and/or Discovery Peers'')
             else if enabled_count = 0
             then (Some ''no_enabled_bootstrap'',
                   ''discovery is degraded: no enabled Bootstrap endpoint; direct Pod URLs still work'')
             else (Some ''no_viable_bootstrap'',
                   ''discovery is degraded: no viable Bootstrap contact yet; direct Pod URLs still work''))
      in \<lparr> dst_automatic_gossip_enabled = peer_gossip_is_enabled st,
           dst_enabled_bootstrap_count = enabled_count,
           dst_active_outbound_peer_count = length (list_active_outbound_peers x st),
           dst_degraded = degraded, dst_degraded_reason = reason, dst_message = message \<rparr>)"

end
