(* ===== verification/Peer_Sync.thy ===== *)
theory Peer_Sync
  imports Bootstrap_Sync Peer_Sync_Client
begin

text \<open>
  The properties of the discovery-peer client: what an accepted page of an untrusted peer
  contains, the failure policy, and the outbound set over every sequence of client operations.
\<close>

section \<open>What a peer page writes\<close>

lemma apply_peer_entry_cases:
  "fst (apply_peer_stream_entry x ep now e counts st) = st \<or>
   (\<exists>a. fst (apply_peer_stream_entry x ep now e counts st) =
      fst (retain_verified_pod_announcement x a (dp_discovery_peer ep) now st)) \<or>
   (\<exists>w. fst (apply_peer_stream_entry x ep now e counts st) =
      fst (retain_verified_pod_withdrawal x w None now st))"
proof (cases "se_kind e = SE_Admitted \<or> se_kind e = SE_Renewed")
  case True
  show ?thesis
  proof (cases "as_announcement (se_payload e)")
    case (Some a)
    with True have "fst (apply_peer_stream_entry x ep now e counts st) =
        fst (retain_verified_pod_announcement x a (dp_discovery_peer ep) now st)"
      by (auto simp: apply_peer_stream_entry_def split: prod.splits sum.splits)
    then show ?thesis by blast
  qed (simp add: apply_peer_stream_entry_def True)
next
  case False
  show ?thesis
  proof (cases "se_kind e = SE_Withdrawn")
    case w: True
    show ?thesis
    proof (cases "as_withdrawal (se_payload e)")
      case (Some v)
      with w have "fst (apply_peer_stream_entry x ep now e counts st) =
          fst (retain_verified_pod_withdrawal x v None now st)"
        by (auto simp: apply_peer_stream_entry_def split: prod.splits sum.splits)
      then show ?thesis by blast
    qed (simp add: apply_peer_stream_entry_def w)
  qed (use False in \<open>simp add: apply_peer_stream_entry_def\<close>)
qed

lemma apply_peer_entries_induct:
  assumes "P st" and ann: "\<And>s a. P s \<Longrightarrow> P (fst (retain_verified_pod_announcement x a (dp_discovery_peer ep) now s))"
    and wd: "\<And>s w. P s \<Longrightarrow> P (fst (retain_verified_pod_withdrawal x w None now s))"
  shows "P (fst (apply_peer_stream_entries x ep now es c st))"
  using assms(1)
proof (induction es arbitrary: c st)
  case (Cons e es)
  have step: "P (fst (apply_peer_stream_entry x ep now e c st))"
    using apply_peer_entry_cases[of x ep now e c st] ann[OF Cons.prems] wd[OF Cons.prems] Cons.prems by metis
  obtain s' r where "apply_peer_stream_entry x ep now e c st = (s', r)"
    by (cases "apply_peer_stream_entry x ep now e c st")
  with step Cons.IH show ?case by (cases r) simp_all
qed simp

lemma peer_page_store:
  "fst (apply_peer_stream_page x ep now page st) =
   fst (apply_peer_stream_entries x ep now (sp_entries page)
          \<lparr> pc_announcements = 0, pc_withdrawals = 0, pc_invalid = 0 \<rparr> st)"
  by (auto simp: apply_peer_stream_page_def split: prod.splits sum.splits)

lemma staged_peer_page_cases:
  "(\<exists>c. apply_peer_stream_page_staged x ep now st page = (fst (apply_peer_stream_page x ep now page st), Inr c)) \<or>
   (\<exists>e. apply_peer_stream_page_staged x ep now st page =
      ((fst (apply_peer_stream_page x ep now page st))\<lparr>st_known_pod_announcements := st_known_pod_announcements st,
         st_known_pod_withdrawals := st_known_pod_withdrawals st\<rparr>, Inl e))"
  by (auto simp: apply_peer_stream_page_staged_def apply_page_staged_def split: prod.splits sum.splits)

lemma staged_peer_page_writes: "retain_frame st (fst (apply_peer_stream_page_staged x ep now st page))"
proof -
  have "retain_frame st (fst (apply_peer_stream_page x ep now page st))"
    unfolding peer_page_store
    by (rule apply_peer_entries_induct)
      (auto intro: retain_frame_trans retain_announcement_writes retain_withdrawal_writes)
  then show ?thesis
    using staged_peer_page_cases[of x ep now st page] by (auto intro: retain_frame_maps)
qed

lemma staged_peer_page_sound:
  "pods_ok x st \<Longrightarrow> pods_ok x (fst (apply_peer_stream_page_staged x ep now st page))"
proof -
  assume ok: "pods_ok x st"
  then have "pods_ok x (fst (apply_peer_stream_page x ep now page st))"
    unfolding peer_page_store by (rule apply_peer_entries_induct) (intro wf_intros; assumption)+
  moreover have "pods_ok x (s\<lparr>st_known_pod_announcements := st_known_pod_announcements st,
      st_known_pod_withdrawals := st_known_pod_withdrawals st\<rparr>)" for s
    using ok by (subst pods_ok_cong[of _ st]) simp_all
  ultimately show ?thesis using staged_peer_page_cases[of x ep now st page] by auto
qed

lemma peer_drain_writes:
  "retain_frame st (fst (drain_stream_pages fetched rec (apply_peer_stream_page_staged x ep now) r st))"
proof -
  have "retain_frame st (fst (drain_pages rec (apply_peer_stream_page_staged x ep now) pages d r st))"
    for pages d
    by (rule drain_pages_sound) (auto intro: retain_frame_trans staged_peer_page_writes)
  then show ?thesis by (simp add: drain_stream_pages_def case_prod_unfold)
qed

lemma peer_drain_sound:
  "pods_ok x st \<Longrightarrow>
   pods_ok x (fst (drain_stream_pages fetched rec (apply_peer_stream_page_staged x ep now) r st))"
  using drain_pages_sound[of "pods_ok x" "apply_peer_stream_page_staged x ep now" st]
    staged_peer_page_sound
  by (simp add: drain_stream_pages_def case_prod_unfold)

section \<open>An accepted page\<close>

definition malformed_row :: "announcement_stream_entry \<Rightarrow> bool" where
  "malformed_row e \<longleftrightarrow>
     ((se_kind e = SE_Admitted \<or> se_kind e = SE_Renewed) \<and> as_announcement (se_payload e) = None) \<or>
     (se_kind e = SE_Withdrawn \<and> as_withdrawal (se_payload e) = None)"

definition signed_row :: "ext \<Rightarrow> announcement_stream_entry \<Rightarrow> bool" where
  "signed_row x e \<longleftrightarrow>
     (case se_payload e of
        AnnouncementPayload a \<Rightarrow> pa_verify x a = Inr True
      | WithdrawalPayload w \<Rightarrow> pw_verify x w = Inr True)"

lemma retain_error_unverified:
  "snd (retain_verified_pod_announcement x a p now st) = Inl e \<Longrightarrow> pa_verify x a \<noteq> Inr True \<Longrightarrow>
   e = InvalidSignature \<or> (\<exists>m. e = Validation m)"
  by (cases "validate_public_pod_url x (pa_public_pod_url a) (pa_pod_slug a)")
    (auto simp: retain_verified_pod_announcement_def dest: validate_error)

lemma retain_success_verified:
  "snd (retain_verified_pod_announcement x a p now st) = Inr k \<Longrightarrow> pa_verify x a = Inr True"
  by (cases "validate_public_pod_url x (pa_public_pod_url a) (pa_pod_slug a)")
    (auto simp: retain_verified_pod_announcement_def split: if_splits)

lemma retain_withdrawal_error_unverified:
  "snd (retain_verified_pod_withdrawal x w p now st) = Inl e \<Longrightarrow> pw_verify x w \<noteq> Inr True \<Longrightarrow>
   e = InvalidSignature"
  by (simp add: retain_verified_pod_withdrawal_def)


lemma retain_withdrawal_success_verified:
  "snd (retain_verified_pod_withdrawal x w p now st) = Inr k \<Longrightarrow> pw_verify x w = Inr True"
  by (auto simp: retain_verified_pod_withdrawal_def split: if_splits)

lemma retain_outcome_accepted:
  "peer_retain_outcome e s c = Inr c' \<Longrightarrow> c' = c \<and> e \<noteq> InvalidSignature \<and> (\<forall>m. e \<noteq> Validation m)"
  by (cases e) (auto simp: peer_retain_outcome_def peer_map_retain_error_def split: if_splits)

text \<open>An accepted row is malformed and counted, a notice of expiry, or signed.\<close>

definition counted :: "announcement_stream_entry \<Rightarrow> nat" where
  "counted e = (if malformed_row e then 1 else 0)"

lemma announcement_row_accepted:
  assumes r: "apply_peer_stream_entry x ep now e c st = (st', Inr c')"
    and k: "se_kind e = SE_Admitted \<or> se_kind e = SE_Renewed" and a: "as_announcement (se_payload e) = Some a"
  shows "pc_invalid c' = pc_invalid c \<and> signed_row x e \<and>
    pc_announcements c' \<le> Suc (pc_announcements c) \<and> pc_withdrawals c' = pc_withdrawals c"
proof -
  obtain s res where ret: "retain_verified_pod_announcement x a (dp_discovery_peer ep) now st = (s, res)"
    by (cases "retain_verified_pod_announcement x a (dp_discovery_peer ep) now st")
  have p: "se_payload e = AnnouncementPayload a" using a by (cases "se_payload e") simp_all
  show ?thesis
  proof (cases res)
    case (Inl err)
    then have "peer_retain_outcome err ''announcement'' c = Inr c'"
      using r k a ret by (simp add: apply_peer_stream_entry_def)
    from retain_outcome_accepted[OF this] have h: "c' = c" "err \<noteq> InvalidSignature" "\<forall>m. err \<noteq> Validation m"
      by blast+
    have "pa_verify x a = Inr True"
      using retain_error_unverified[of x a "dp_discovery_peer ep" now st err] ret Inl h(2,3) by auto
    then show ?thesis using h(1) p by (simp add: signed_row_def)
  next
    case (Inr known)
    then have "c' = c\<lparr>pc_announcements := sat_add (pc_announcements c) 1\<rparr>"
      using r k a ret by (simp add: apply_peer_stream_entry_def)
    moreover have "pa_verify x a = Inr True"
      using retain_success_verified[of x a "dp_discovery_peer ep" now st known] ret Inr by simp
    ultimately show ?thesis using p by (simp add: signed_row_def sat_add_def)
  qed
qed

lemma withdrawal_row_accepted:
  assumes r: "apply_peer_stream_entry x ep now e c st = (st', Inr c')"
    and k: "se_kind e = SE_Withdrawn" and w: "as_withdrawal (se_payload e) = Some w"
  shows "pc_invalid c' = pc_invalid c \<and> signed_row x e \<and>
    pc_announcements c' = pc_announcements c \<and> pc_withdrawals c' \<le> Suc (pc_withdrawals c)"
proof -
  obtain s res where ret: "retain_verified_pod_withdrawal x w None now st = (s, res)"
    by (cases "retain_verified_pod_withdrawal x w None now st")
  have p: "se_payload e = WithdrawalPayload w" using w by (cases "se_payload e") simp_all
  show ?thesis
  proof (cases res)
    case (Inl err)
    then have "peer_retain_outcome err ''withdrawal'' c = Inr c'"
      using r k w ret by (simp add: apply_peer_stream_entry_def)
    from retain_outcome_accepted[OF this] have h: "c' = c" "err \<noteq> InvalidSignature" by blast+
    have "pw_verify x w = Inr True"
      using retain_withdrawal_error_unverified[of x w None now st err] ret Inl h(2) by auto
    then show ?thesis using h(1) p by (simp add: signed_row_def)
  next
    case (Inr known)
    then have "c' = c\<lparr>pc_withdrawals := sat_add (pc_withdrawals c) 1\<rparr>"
      using r k w ret by (simp add: apply_peer_stream_entry_def)
    moreover have "pw_verify x w = Inr True"
      using retain_withdrawal_success_verified[of x w None now st known] ret Inr by simp
    ultimately show ?thesis using p by (simp add: signed_row_def sat_add_def)
  qed
qed

lemma malformed_row_accepted:
  assumes r: "apply_peer_stream_entry x ep now e c st = (st', Inr c')" and m: "malformed_row e"
  shows "pc_invalid c' = Suc (pc_invalid c) \<and> pc_invalid c' \<le> 3 \<and>
    pc_announcements c' = pc_announcements c \<and> pc_withdrawals c' = pc_withdrawals c"
proof -
  have "\<exists>msg. count_invalid msg c = Inr c'"
    using r m by (auto simp: apply_peer_stream_entry_def malformed_row_def split: if_splits)
  then show ?thesis
    by (auto simp: count_invalid_def Let_def sat_add_def u64_max_def max_peer_invalid_entries_per_page_def
        split: if_splits)
qed

lemma row_accepted:
  assumes r: "apply_peer_stream_entry x ep now e c st = (st', Inr c')"
  shows "pc_invalid c' = pc_invalid c + counted e \<and> (pc_invalid c \<le> 3 \<longrightarrow> pc_invalid c' \<le> 3) \<and>
    (malformed_row e \<or> se_kind e = SE_Expired \<or> signed_row x e) \<and>
    pc_announcements c' + pc_withdrawals c' + counted e \<le> Suc (pc_announcements c + pc_withdrawals c)"
proof (cases "malformed_row e")
  case True
  then show ?thesis using malformed_row_accepted[OF r] by (simp add: counted_def)
next
  case wf: False
  show ?thesis
  proof (cases "se_kind e")
    case SE_Expired
    then have "c' = c" using r by (simp add: apply_peer_stream_entry_def)
    then show ?thesis using wf SE_Expired by (simp add: counted_def)
  next
    case SE_Withdrawn
    then obtain w where "as_withdrawal (se_payload e) = Some w" using wf by (auto simp: malformed_row_def)
    from withdrawal_row_accepted[OF r SE_Withdrawn this] wf show ?thesis by (simp add: counted_def)
  next
    case SE_Admitted
    then obtain a where "as_announcement (se_payload e) = Some a" using wf by (auto simp: malformed_row_def)
    from announcement_row_accepted[OF r _ this] SE_Admitted wf show ?thesis by (simp add: counted_def)
  next
    case SE_Renewed
    then obtain a where "as_announcement (se_payload e) = Some a" using wf by (auto simp: malformed_row_def)
    from announcement_row_accepted[OF r _ this] SE_Renewed wf show ?thesis by (simp add: counted_def)
  qed
qed

lemma rows_accepted:
  assumes "apply_peer_stream_entries x ep now es c st = (st', Inr c')" and "pc_invalid c \<le> 3"
  shows "pc_invalid c' = pc_invalid c + length (filter malformed_row es) \<and> pc_invalid c' \<le> 3 \<and>
    (\<forall>e \<in> set es. malformed_row e \<or> se_kind e = SE_Expired \<or> signed_row x e) \<and>
    pc_announcements c' + pc_withdrawals c' + length (filter malformed_row es)
      \<le> pc_announcements c + pc_withdrawals c + length es"
  using assms
proof (induction es arbitrary: c st)
  case (Cons e es)
  from Cons.prems(1) obtain st1 c1 where step: "apply_peer_stream_entry x ep now e c st = (st1, Inr c1)"
    and rest: "apply_peer_stream_entries x ep now es c1 st1 = (st', Inr c')"
    by (auto split: prod.splits sum.splits)
  note h = row_accepted[OF step]
  have "pc_invalid c1 \<le> 3" using h Cons.prems(2) by blast
  note ih = Cons.IH[OF rest this]
  have len: "length (filter malformed_row (e # es)) = counted e + length (filter malformed_row es)"
    by (simp add: counted_def)
  from h ih show ?case unfolding len by (intro conjI ballI) (auto)
qed simp

text \<open>A page of an untrusted peer is accepted only if every row is a notice of expiry, carries its
  origin's valid signature, or is one of at most 3 malformed rows; the reported counts never exceed
  the rows that carry an artifact. One forged signature, or a fourth malformed row, fails the page.\<close>

theorem accepted_peer_page_is_signed:
  assumes "apply_peer_stream_page x peer_endpoint now page st = (st', Inr (announcements, withdrawals))"
  shows "(\<forall>e \<in> set (sp_entries page).
            malformed_row e \<or> se_kind e = SE_Expired \<or> signed_row x e) \<and>
         length (filter malformed_row (sp_entries page)) \<le> 3 \<and>
         announcements + withdrawals + length (filter malformed_row (sp_entries page))
           \<le> length (sp_entries page)"
proof -
  obtain c' where "apply_peer_stream_entries x peer_endpoint now (sp_entries page)
      \<lparr> pc_announcements = 0, pc_withdrawals = 0, pc_invalid = 0 \<rparr> st = (st', Inr c')"
    and "announcements = pc_announcements c'" "withdrawals = pc_withdrawals c'"
    using assms by (auto simp: apply_peer_stream_page_def split: prod.splits sum.splits)
  from rows_accepted[OF this(1)] this(2,3) show ?thesis by simp
qed


lemma sample_peer_page:
  "snd (apply_peer_stream_page sample_ext ep 6 sample_page_sent sample_client_store) = Inr (1, 0)"
  by (simp add: apply_peer_stream_page_def apply_peer_stream_entry_def sample_page_sent_def
      peer_stream_row_def retain_verified_pod_announcement_def Let_def sample_client_store_fields
      om_del_def peer_service_is_enabled_def sat_add_def u64_max_def)

theorem accepted_peer_page_is_signed_witness:
  "signed_row sample_ext (hd (sp_entries sample_page_sent))"
proof -
  obtain st' where r: "apply_peer_stream_page sample_ext ''e'' 6 sample_page_sent sample_client_store = (st', Inr (1, 0))"
    using sample_peer_page[of "''e''"] by (metis prod.collapse)
  have row: "hd (sp_entries sample_page_sent) \<in> set (sp_entries sample_page_sent)"
    "\<not> malformed_row (hd (sp_entries sample_page_sent))"
    "se_kind (hd (sp_entries sample_page_sent)) = SE_Admitted"
    by (simp_all add: sample_page_sent_def malformed_row_def peer_stream_row_def)
  from accepted_peer_page_is_signed[OF r, THEN conjunct1, rule_format, OF row(1)] row(2,3)
  show ?thesis by auto
qed

section \<open>Health of an outbound peer\<close>

text \<open>
  The states of a peer's health record: healthy without failures, backed off after one or two
  failures until 30 seconds per failure after the last attempt, or evicted.
\<close>

definition sync_state_ok :: "discovery_peer_sync_state \<Rightarrow> bool" where
  "sync_state_ok s \<longleftrightarrow>
     (case ps_health s of
        Healthy \<Rightarrow> ps_consecutive_failures s = 0 \<and> ps_backoff_until s = None
      | BackedOff \<Rightarrow> ps_consecutive_failures s \<in> {1, 2} \<and>
          (\<exists>t. ps_last_attempt_at s = Some t \<and>
               ps_backoff_until s = Some (t + seconds (30 * int (ps_consecutive_failures s))))
      | Evicted \<Rightarrow> True)"

lemma sync_state_ok_intros:
  "sync_state_ok (ps_empty_sync_state n)"
  "sync_state_ok s \<Longrightarrow> sync_state_ok (un_evict s)"
  "ps_health s = Evicted \<Longrightarrow> sync_state_ok s"
  "sync_state_ok (s\<lparr>ps_last_attempt_at := t, ps_health := Evicted, ps_last_error := e\<rparr>)"
  by (simp_all add: sync_state_ok_def ps_empty_sync_state_def un_evict_def)

lemma backoff_delay_values:
  "n < 3 \<Longrightarrow> 0 < n \<Longrightarrow> backoff_delay n = 30 * int n"
  by (cases "n = 1"; cases "n = 2") (auto simp: backoff_delay_def base_backoff_seconds_def max_backoff_doublings_def)

lemma record_peer_failure_cases:
  assumes r: "record_peer_failure peer s error now st = (st', s')" and attempt: "ps_last_attempt_at s = Some now"
  shows "st_discovery_peer_sync_states st' = om_put (op_node_id peer) s' (st_discovery_peer_sync_states st) \<and>
     st_known_discovery_peer_advertisements st' = st_known_discovery_peer_advertisements st \<and>
     ps_last_error s' = Some error \<and> ps_last_attempt_at s' = Some now \<and> sync_state_ok s' \<and>
     (ps_health s' = Evicted \<longleftrightarrow> immediate_eviction (df_kind error) \<or> 2 \<le> ps_consecutive_failures s) \<and>
     (ps_health s' = Evicted \<longrightarrow> st_outbound_discovery_peers st' =
        om_del (op_node_id peer) (st_outbound_discovery_peers st)) \<and>
     (ps_health s' \<noteq> Evicted \<longrightarrow> ps_health s' = BackedOff \<and>
        ps_consecutive_failures s' = Suc (ps_consecutive_failures s) \<and>
        st_outbound_discovery_peers st' = st_outbound_discovery_peers st)"
proof -
  have f: "sat_add_u32 n 1 \<ge> 3 \<longleftrightarrow> 2 \<le> n" "sat_add_u32 n 1 < 3 \<Longrightarrow> sat_add_u32 n 1 = Suc n" for n
    by (simp_all add: sat_add_u32_def)
  show ?thesis
  proof (cases "immediate_eviction (df_kind error) \<or> 3 \<le> sat_add_u32 (ps_consecutive_failures s) 1")
    case True
    then show ?thesis using r attempt f(1)
      by (auto simp: record_peer_failure_def Let_def peer_failures_before_eviction_def sync_state_ok_def)
  next
    case False
    define n where "n = sat_add_u32 (ps_consecutive_failures s) 1"
    have n: "n = Suc (ps_consecutive_failures s)" "n < 3" using False f(2) by (simp_all add: n_def)
    then have "ps_consecutive_failures s = 0 \<or> ps_consecutive_failures s = 1" by auto
    moreover have "backoff_delay n = 30 * int n" using n backoff_delay_values by simp
    moreover have "s' = s\<lparr>ps_last_error := Some error, ps_consecutive_failures := n,
        ps_backoff_until := Some (now + seconds (backoff_delay n)), ps_health := BackedOff\<rparr>"
      "st' = st\<lparr>st_discovery_peer_sync_states := om_put (op_node_id peer) s' (st_discovery_peer_sync_states st)\<rparr>"
      using r False by (auto simp: record_peer_failure_def Let_def peer_failures_before_eviction_def n_def)
    ultimately show ?thesis using n attempt False f(1) by (auto simp: sync_state_ok_def)
  qed
qed

text \<open>The state a pass starts from, and the maps of peers it leaves unless it fails.\<close>

definition sync_state_of :: "store \<Rightarrow> uuid \<Rightarrow> discovery_peer_sync_state" where
  "sync_state_of st node =
     (case om_get (st_discovery_peer_sync_states st) node of Some s \<Rightarrow> s | None \<Rightarrow> ps_empty_sync_state node)"

lemma peer_drain_state:
  assumes "drain_stream_pages fetched ps_record_cursor f s st = (st1, s1, drain)"
  shows "\<exists>c. s1 = s\<lparr>ps_cursor := c\<rparr>"
proof -
  have "\<exists>c. fst (snd (drain_pages ps_record_cursor f pages d s st)) = s\<lparr>ps_cursor := c\<rparr>" for pages d s st
  proof (induction pages arbitrary: d s st)
    case Nil
    show ?case by (intro exI[of _ "ps_cursor s"]) simp
  next
    case (Cons page pages)
    obtain st2 res where f: "f st page = (st2, res)" by (cases "f st page")
    show ?case
    proof (cases res)
      case (Inl e)
      then show ?thesis using f by (intro exI[of _ "ps_cursor s"]) simp
    next
      case (Inr counts)
      then show ?thesis
        using f Cons.IH[of _ "ps_record_cursor _ s"]
        by (cases counts) (auto simp: Let_def ps_record_cursor_def split: option.splits)
    qed
  qed
  moreover have "s1 = fst (snd (drain_pages ps_record_cursor f (fs_pages fetched)
      \<lparr> sd_pages_applied = 0, sd_retained_announcements = 0, sd_retained_withdrawals = 0,
        sd_cursor = fs_start_cursor fetched, sd_failure = None \<rparr> s st))"
    using assms by (simp add: drain_stream_pages_def case_prod_unfold)
  ultimately show ?thesis by simp
qed

text \<open>What one peer's pass does to the peer maps.\<close>

lemma peer_pass_cases:
  assumes r: "apply_discovery_peer_stream_pages x peer fetched now st = (st', out)"
  obtains s' where
    "st_discovery_peer_sync_states st' = om_put (op_node_id peer) s' (st_discovery_peer_sync_states st)"
    "st_known_discovery_peer_advertisements st' = st_known_discovery_peer_advertisements st"
    "ps_last_attempt_at s' = Some now" "sync_state_ok s'" "po_health out = ps_health s'"
    "po_node_id out = op_node_id peer" "po_ok out \<longleftrightarrow> po_error out = None"
    "po_ok out \<Longrightarrow> ps_health s' = Healthy \<and> ps_consecutive_failures s' = 0 \<and>
       ps_last_success_at s' = Some now \<and> ps_cursor s' = po_cursor out \<and>
       st_outbound_discovery_peers st' = st_outbound_discovery_peers st"
    "\<And>e. po_error out = Some e \<Longrightarrow>
       (ps_health s' = Evicted \<longleftrightarrow>
          immediate_eviction (df_kind e) \<or> 2 \<le> ps_consecutive_failures (sync_state_of st (op_node_id peer))) \<and>
       (ps_health s' = Evicted \<longrightarrow> st_outbound_discovery_peers st' =
          om_del (op_node_id peer) (st_outbound_discovery_peers st)) \<and>
       (ps_health s' \<noteq> Evicted \<longrightarrow> ps_health s' = BackedOff \<and>
          ps_consecutive_failures s' = Suc (ps_consecutive_failures (sync_state_of st (op_node_id peer))) \<and>
          st_outbound_discovery_peers st' = st_outbound_discovery_peers st)"
proof -
  define s0 where "s0 = (sync_state_of st (op_node_id peer))\<lparr>ps_last_attempt_at := Some now\<rparr>"
  obtain st1 s1 drain where d: "drain_stream_pages fetched ps_record_cursor
      (apply_peer_stream_page_staged x (op_public_endpoint peer) now) s0 st = (st1, s1, drain)"
    by (metis prod_cases3)
  obtain c where s1: "s1 = s0\<lparr>ps_cursor := c\<rparr>" using peer_drain_state[OF d] by blast
  have "retain_frame st st1"
    using peer_drain_writes[of st fetched ps_record_cursor x "op_public_endpoint peer" now s0] d by simp
  then have same: "st_discovery_peer_sync_states st1 = st_discovery_peer_sync_states st"
    "st_known_discovery_peer_advertisements st1 = st_known_discovery_peer_advertisements st"
    "st_outbound_discovery_peers st1 = st_outbound_discovery_peers st"
    by (cases st; cases st1; simp add: retain_frame_def)+
  note r' = r[unfolded apply_discovery_peer_stream_pages_def Let_def, folded sync_state_of_def, folded s0_def,
      unfolded d]
  show thesis
  proof (cases "sd_failure drain")
    case None
    then show ?thesis using r' same
      by (intro that) (auto simp: peer_outcome_def sync_state_ok_def s1 s0_def)
  next
    case (Some error)
    obtain st2 s2 where f: "record_peer_failure peer s1 error now st1 = (st2, s2)"
      by (cases "record_peer_failure peer s1 error now st1")
    have att: "ps_last_attempt_at s1 = Some now"
      and fl: "ps_consecutive_failures s1 = ps_consecutive_failures (sync_state_of st (op_node_id peer))"
      by (simp_all add: s1 s0_def)
    note h = record_peer_failure_cases[OF f att]
    have o: "st' = st2" "out = peer_outcome peer False (sd_pages_applied drain)
        (sd_retained_announcements drain) (sd_retained_withdrawals drain) (sd_cursor drain)
        (ps_health s2) (Some error)"
      using r' Some f by simp_all
    show ?thesis using h o same fl by (intro that[of s2]) (simp_all add: peer_outcome_def)
  qed
qed

text \<open>C37: What a pass against a peer leaves of its record. After a successful pass the peer is healthy with
  its failures cleared. After a failed one it is evicted if the failure was a forgery, flooding, a
  protocol mismatch or an expiry, or the third in a row; otherwise it is backed off, with one failure
  more, for 30 seconds per failure in a row. So a plan computed on the store the pass leaves has the
  peer only in the second case and after that time. (Learning a fresh advertisement in between, which
  revives an evicted peer, is not covered.)\<close>

theorem peer_failure_policy:
  assumes "apply_discovery_peer_stream_pages x peer fetched now st = (st', out)"
  shows "(po_ok out \<longleftrightarrow> po_error out = None) \<and>
     (po_ok out \<longrightarrow> ps_health (sync_state_of st' (op_node_id peer)) = Healthy \<and>
        ps_consecutive_failures (sync_state_of st' (op_node_id peer)) = 0 \<and>
        ps_last_success_at (sync_state_of st' (op_node_id peer)) = Some now) \<and>
     (\<forall>e. po_error out = Some e \<longrightarrow>
        (if df_kind e \<in> {DF_InvalidSignature, DF_Flooding, DF_IncompatibleProtocol, DF_ExpiredAdvertisement} \<or>
            2 \<le> ps_consecutive_failures (sync_state_of st (op_node_id peer))
         then ps_health (sync_state_of st' (op_node_id peer)) = Evicted
         else ps_health (sync_state_of st' (op_node_id peer)) = BackedOff \<and>
           ps_consecutive_failures (sync_state_of st' (op_node_id peer)) =
             ps_consecutive_failures (sync_state_of st (op_node_id peer)) + 1 \<and>
           ps_backoff_until (sync_state_of st' (op_node_id peer)) =
             Some (now + seconds (30 * (int (ps_consecutive_failures (sync_state_of st (op_node_id peer))) + 1))))) \<and>
     (\<forall>e plan later. po_error out = Some e \<and> plan \<in> set (plan_discovery_peer_sync x st' later) \<and>
        op_node_id (pp_peer plan) = op_node_id peer \<longrightarrow>
        df_kind e \<notin> {DF_InvalidSignature, DF_Flooding, DF_IncompatibleProtocol, DF_ExpiredAdvertisement} \<and>
        ps_consecutive_failures (sync_state_of st (op_node_id peer)) < 2 \<and>
        now + seconds (30 * (int (ps_consecutive_failures (sync_state_of st (op_node_id peer))) + 1)) \<le> later)"
proof -
  from peer_pass_cases[OF assms] obtain s' where
    h: "st_discovery_peer_sync_states st' = om_put (op_node_id peer) s' (st_discovery_peer_sync_states st)"
      "ps_last_attempt_at s' = Some now" "sync_state_ok s'" "po_ok out \<longleftrightarrow> po_error out = None"
      "po_ok out \<Longrightarrow> ps_health s' = Healthy \<and> ps_consecutive_failures s' = 0 \<and> ps_last_success_at s' = Some now"
    and bad: "\<And>e. po_error out = Some e \<Longrightarrow>
       (ps_health s' = Evicted \<longleftrightarrow>
          immediate_eviction (df_kind e) \<or> 2 \<le> ps_consecutive_failures (sync_state_of st (op_node_id peer))) \<and>
       (ps_health s' \<noteq> Evicted \<longrightarrow> ps_health s' = BackedOff \<and>
          ps_consecutive_failures s' = Suc (ps_consecutive_failures (sync_state_of st (op_node_id peer))))"
    by metis
  have st: "sync_state_of st' (op_node_id peer) = s'" using h(1) by (simp add: sync_state_of_def)
  have kinds: "immediate_eviction k \<longleftrightarrow>
      k \<in> {DF_InvalidSignature, DF_Flooding, DF_IncompatibleProtocol, DF_ExpiredAdvertisement}" for k
    by (cases k) simp_all
  have "df_kind e \<notin> {DF_InvalidSignature, DF_Flooding, DF_IncompatibleProtocol, DF_ExpiredAdvertisement} \<and>
        ps_consecutive_failures (sync_state_of st (op_node_id peer)) < 2 \<and>
        now + seconds (30 * (int (ps_consecutive_failures (sync_state_of st (op_node_id peer))) + 1)) \<le> later"
    if e: "po_error out = Some e" and p: "plan \<in> set (plan_discovery_peer_sync x st' later)"
      and n: "op_node_id (pp_peer plan) = op_node_id peer" for e plan later
  proof -
    have "ready_for_sync st' later (pp_peer plan)"
      using p by (auto simp: plan_discovery_peer_sync_def split: if_splits)
    then have alive: "ps_health s' \<noteq> Evicted" and due: "\<And>t. ps_backoff_until s' = Some t \<Longrightarrow> t \<le> later"
      using h(1) n by (auto simp: ready_for_sync_def split: if_splits)
    then have "ps_health s' = BackedOff"
      "ps_consecutive_failures s' = Suc (ps_consecutive_failures (sync_state_of st (op_node_id peer)))"
      using bad[OF e] by blast+
    moreover then have "ps_backoff_until s' = Some (now + seconds (30 * int (ps_consecutive_failures s')))"
      using h(2,3) by (auto simp: sync_state_ok_def)
    ultimately show ?thesis using due bad[OF e] alive kinds by (auto simp: algebra_simps)
  qed
  moreover have "if df_kind e \<in> {DF_InvalidSignature, DF_Flooding, DF_IncompatibleProtocol, DF_ExpiredAdvertisement} \<or>
        2 \<le> ps_consecutive_failures (sync_state_of st (op_node_id peer))
      then ps_health s' = Evicted
      else ps_health s' = BackedOff \<and>
        ps_consecutive_failures s' = ps_consecutive_failures (sync_state_of st (op_node_id peer)) + 1 \<and>
        ps_backoff_until s' =
          Some (now + seconds (30 * (int (ps_consecutive_failures (sync_state_of st (op_node_id peer))) + 1)))"
    if e: "po_error out = Some e" for e
  proof (cases "ps_health s' = Evicted")
    case True
    then show ?thesis using bad[OF e] kinds by auto
  next
    case False
    then have "ps_health s' = BackedOff"
      "ps_consecutive_failures s' = Suc (ps_consecutive_failures (sync_state_of st (op_node_id peer)))"
      using bad[OF e] by blast+
    moreover from this have "ps_backoff_until s' = Some (now + seconds (30 * int (ps_consecutive_failures s')))"
      using h(2,3) by (auto simp: sync_state_ok_def)
    ultimately show ?thesis using False bad[OF e] kinds by (auto simp: algebra_simps)
  qed
  ultimately show ?thesis using h(4,5) unfolding st by blast
qed

section \<open>The outbound set over every sequence of operations\<close>

definition endpoint_normal :: "ext \<Rightarrow> string \<Rightarrow> bool" where
  "endpoint_normal x e \<longleftrightarrow> normalize_discovery_peer_endpoint x e = Inr e"

definition client_ok :: "ext \<Rightarrow> store \<Rightarrow> bool" where
  "client_ok x st \<longleftrightarrow>
     om_ok (st_outbound_discovery_peers st) \<and> om_ok (st_discovery_peer_sync_states st) \<and>
     length (st_outbound_discovery_peers st) \<le> 8 \<and>
     (\<forall>n p. om_get (st_outbound_discovery_peers st) n = Some p \<longrightarrow>
        op_node_id p = n \<and> endpoint_normal x (op_public_endpoint p) \<and>
        (\<exists>s. om_get (st_discovery_peer_sync_states st) n = Some s \<and> ps_health s \<noteq> Evicted)) \<and>
     (\<forall>n s. om_get (st_discovery_peer_sync_states st) n = Some s \<longrightarrow> sync_state_ok s) \<and>
     (\<forall>n k. om_get (st_known_discovery_peer_advertisements st) n = Some k \<longrightarrow>
        ad_node_id (kd_advertisement k) = n \<and> endpoint_normal x (ad_public_endpoint (kd_advertisement k)))"

lemma client_ok_cong:
  "st_outbound_discovery_peers st' = st_outbound_discovery_peers st \<Longrightarrow>
   st_discovery_peer_sync_states st' = st_discovery_peer_sync_states st \<Longrightarrow>
   st_known_discovery_peer_advertisements st' = st_known_discovery_peer_advertisements st \<Longrightarrow>
   client_ok x st' = client_ok x st"
  by (simp add: client_ok_def)

lemma client_ok_empty: "client_ok x empty_store"
  by (simp add: client_ok_def empty_store_def)

lemma length_om_put_present: "om_ok m \<Longrightarrow> om_get m k \<noteq> None \<Longrightarrow> length (om_put k v m) = length m"
  using om_get_in_keys[of m k] by (simp add: length_om_put)

text \<open>A peer whose state becomes evicted leaves the set; otherwise only its state changes.\<close>

lemma client_ok_evict:
  assumes "client_ok x st" and "sync_state_ok s"
  shows "client_ok x (st\<lparr>st_discovery_peer_sync_states := om_put n s (st_discovery_peer_sync_states st),
      st_outbound_discovery_peers := om_del n (st_outbound_discovery_peers st)\<rparr>)"
  using assms length_om_del_le[of n "st_outbound_discovery_peers st"] by (auto simp: client_ok_def)

lemma client_ok_state:
  assumes "client_ok x st" and "sync_state_ok s" and "ps_health s \<noteq> Evicted"
  shows "client_ok x (st\<lparr>st_discovery_peer_sync_states := om_put n s (st_discovery_peer_sync_states st)\<rparr>)"
  using assms by (auto simp: client_ok_def)

lemma verified_locally:
  "verify_peer_advertisement_locally x ad probe now = Inr u \<Longrightarrow>
   endpoint_normal x (ad_public_endpoint ad) \<and> ad_verify x ad = Inr True \<and> ad_lease_is_active ad now \<and>
   ad_protocol_version ad = current_protocol_version \<and> ad_capability ad = AnnouncementServing \<and>
   ad_node_id ad = ni_node_id (ad_signer ad)"
  unfolding verify_peer_advertisement_locally_def endpoint_normal_def by (auto split: if_splits sum.splits)

lemma om_get_modify: "om_get (om_modify k f m) k' = (if k' = k then map_option f (om_get m k) else om_get m k')"
  by (simp add: om_modify_def split: option.splits)

lemma om_ok_modify: "om_ok m \<Longrightarrow> om_ok (om_modify k f m)"
  by (simp add: om_modify_def split: option.splits)

lemma length_om_modify: "om_ok m \<Longrightarrow> length (om_modify k f m) = length m"
  by (auto simp: om_modify_def length_om_put_present split: option.splits)

lemma un_evict_alive [simp]: "ps_health (un_evict s) \<noteq> Evicted"
  by (simp add: un_evict_def)

lemma client_ok_learn:
  assumes "client_ok x st"
  shows "client_ok x (fst (learn_discovery_peer_advertisement x ad src probe now st))"
proof (cases "verify_peer_advertisement_locally x ad probe now")
  case (Inr u)
  from verified_locally[OF this] have "endpoint_normal x (ad_public_endpoint ad)" by blast
  then show ?thesis
    using assms Inr
    by (fastforce simp: learn_discovery_peer_advertisement_def Let_def client_ok_def om_get_modify om_ok_modify
        length_om_modify intro: sync_state_ok_intros split: if_splits)
qed (simp add: learn_discovery_peer_advertisement_def assms)

lemma client_ok_marked:
  assumes "client_ok x st"
  shows "client_ok x (let st1 = mark_peer_evicted n now m st
      in st1\<lparr>st_outbound_discovery_peers := om_del n (st_outbound_discovery_peers st1)\<rparr>)"
proof -
  define s where "s = (case om_get (st_discovery_peer_sync_states st) n of
      Some s \<Rightarrow> s | None \<Rightarrow> ps_empty_sync_state n)"
  define s' where "s' = s\<lparr>ps_last_attempt_at := Some now, ps_health := Evicted,
      ps_last_error := Some (df_new DF_ExpiredAdvertisement m)\<rparr>"
  have "sync_state_ok s'" unfolding s'_def by (rule sync_state_ok_intros(4))
  from client_ok_evict[OF assms this, of n] show ?thesis
    unfolding mark_peer_evicted_def Let_def s_def[symmetric] s'_def[symmetric] by simp
qed

lemma client_ok_drop_stale: "client_ok x st \<Longrightarrow> client_ok x (drop_stale_peer now n st)"
  unfolding drop_stale_peer_def by (rule client_ok_marked)

lemma fold_preserves: "(\<And>a s. a \<in> set xs \<Longrightarrow> P s \<Longrightarrow> P (f a s)) \<Longrightarrow> P s \<Longrightarrow> P (fold f xs s)"
  by (induction xs arbitrary: s) auto

text \<open>A selected peer enters the set with a state that is not evicted.\<close>

lemma client_ok_enter:
  assumes ok: "client_ok x st" and room: "length (st_outbound_discovery_peers st) < 8"
    and p: "op_node_id p = n" "endpoint_normal x (op_public_endpoint p)"
    and s: "sync_state_ok s" "ps_health s \<noteq> Evicted"
  shows "client_ok x (st\<lparr>st_outbound_discovery_peers := om_put n p (st_outbound_discovery_peers st),
      st_discovery_peer_sync_states := om_put n s (st_discovery_peer_sync_states st)\<rparr>)"
proof -
  have "length (om_put n p (st_outbound_discovery_peers st)) \<le> 8"
    using length_om_put_le[of n p "st_outbound_discovery_peers st"] room by linarith
  then show ?thesis using ok p s by (auto simp: client_ok_def)
qed

lemma select_one_puts:
  assumes "om_ok (st_discovery_peer_sync_states st)"
  shows "select_one now (ad, src) st =
    st\<lparr>st_outbound_discovery_peers := om_put (ad_node_id ad)
        \<lparr> op_node_id = ad_node_id ad, op_public_endpoint = ad_public_endpoint ad,
          op_advertisement_id = ad_id ad, op_protocol_version = ad_protocol_version ad,
          op_selected_at = now, op_learned_from = src \<rparr> (st_outbound_discovery_peers st),
      st_discovery_peer_sync_states := om_put (ad_node_id ad) (un_evict (sync_state_of st (ad_node_id ad)))
        (st_discovery_peer_sync_states st)\<rparr>"
  using assms by (simp add: select_one_def Let_def sync_state_of_def om_modify_def om.put_put_same split: option.split)

lemma client_ok_select_one:
  assumes ok: "client_ok x st" and room: "length (st_outbound_discovery_peers st) < 8"
    and ad: "endpoint_normal x (ad_public_endpoint ad)"
  shows "client_ok x (select_one now (ad, src) st)"
proof -
  have "om_ok (st_discovery_peer_sync_states st)" and "sync_state_ok (sync_state_of st (ad_node_id ad))"
    using ok by (auto simp: client_ok_def sync_state_of_def sync_state_ok_intros(1) split: option.split)
  then show ?thesis
    unfolding select_one_puts[OF \<open>om_ok (st_discovery_peer_sync_states st)\<close>]
    by (intro client_ok_enter[OF ok room]) (simp_all add: ad sync_state_ok_intros(2))
qed

lemma select_one_length:
  "length (st_outbound_discovery_peers (select_one now c st)) \<le> Suc (length (st_outbound_discovery_peers st))"
  by (cases c) (simp add: select_one_def Let_def length_om_put_le)

lemma client_ok_select_all:
  assumes "client_ok x st" and "length (st_outbound_discovery_peers st) + length cs \<le> 8"
    and "\<forall>(ad, src) \<in> set cs. endpoint_normal x (ad_public_endpoint ad)"
  shows "client_ok x (fold (select_one now) cs st)"
  using assms
proof (induction cs arbitrary: st)
  case (Cons c cs)
  obtain ad src where c: "c = (ad, src)" by (cases c)
  have "client_ok x (select_one now c st)"
    unfolding c by (rule client_ok_select_one) (use Cons.prems c in auto)
  moreover have "length (st_outbound_discovery_peers (select_one now c st)) + length cs \<le> 8"
    using select_one_length[of now c st] Cons.prems(2) by simp
  ultimately show ?case using Cons by simp
qed simp

lemma candidates_normal:
  assumes "client_ok x st" and "(ad, src) \<in> set (selection_candidates x local now st)"
  shows "endpoint_normal x (ad_public_endpoint ad)"
proof -
  obtain known where "kd_advertisement known = ad"
    "known \<in> set (values_in_order (x_iter_nodes x) (st_known_discovery_peer_advertisements st))"
    using assms(2) by (auto simp: selection_candidates_def)
  moreover from this(2) obtain n where "om_get (st_known_discovery_peer_advertisements st) n = Some known"
    unfolding values_in_order_def set_map_filter by blast
  ultimately show ?thesis using assms(1) by (auto simp: client_ok_def)
qed

text \<open>In a well-formed client no selected peer is evicted, so the free places are what is left of 8.\<close>

lemma active_all:
  assumes "iteration_sound x" and "client_ok x st"
  shows "length (filter (not_evicted st) (x_iter_nodes x (om_keys (st_outbound_discovery_peers st)))) =
    length (st_outbound_discovery_peers st)"
proof -
  let ?ks = "x_iter_nodes x (om_keys (st_outbound_discovery_peers st))"
  have m: "mset ?ks = mset (om_keys (st_outbound_discovery_peers st))"
    using assms(1) by (simp add: iteration_sound_def)
  have "not_evicted st k" if "k \<in> set ?ks" for k
  proof -
    have "k \<in> set (om_keys (st_outbound_discovery_peers st))" using that m by (metis set_mset_mset)
    then obtain p where "om_get (st_outbound_discovery_peers st) k = Some p"
      using om_get_in_keys[of "st_outbound_discovery_peers st" k] by auto
    then obtain s where "om_get (st_discovery_peer_sync_states st) k = Some s" "ps_health s \<noteq> Evicted"
      using assms(2) by (auto simp: client_ok_def)
    then show ?thesis by (simp add: not_evicted_def)
  qed
  then have "filter (not_evicted st) ?ks = ?ks" by (simp add: filter_id_conv)
  moreover have "length ?ks = length (om_keys (st_outbound_discovery_peers st))"
    using m by (metis size_mset)
  ultimately show ?thesis by (simp add: om_keys_def)
qed

lemma max_outbound_le: "max_outbound_peers st \<le> 8"
  by (simp add: max_outbound_peers_def max_outbound_discovery_peers_def)

lemma client_ok_select:
  assumes it: "iteration_sound x" and ok: "client_ok x st"
  shows "client_ok x (fst (select_outbound_discovery_peers x local now seed st))"
proof -
  define st1 where "st1 = fold (drop_stale_peer now) (stale_peers x st now) st"
  have ok1: "client_ok x st1"
    unfolding st1_def by (rule fold_preserves) (simp_all add: ok client_ok_drop_stale)
  define cs where "cs = take (max_outbound_peers st - length (st_outbound_discovery_peers st1))
      (shuffle seed (selection_candidates x local now st1))"
  have "set cs \<subseteq> set (selection_candidates x local now st1)"
    using mset_shuffle[of seed "selection_candidates x local now st1"] set_take_subset
    unfolding cs_def by (metis set_mset_mset)
  then have cand: "\<forall>(ad, src) \<in> set cs. endpoint_normal x (ad_public_endpoint ad)"
    using candidates_normal[OF ok1] by fast
  have "length (st_outbound_discovery_peers st1) + length cs \<le> 8"
    using max_outbound_le[of st] ok1 by (auto simp: cs_def client_ok_def)
  then have "client_ok x (fold (select_one now) cs st1)"
    by (rule client_ok_select_all[OF ok1 _ cand])
  then show ?thesis
    using ok ok1 active_all[OF it ok1]
    by (simp add: select_outbound_discovery_peers_def Let_def flip: st1_def cs_def)
qed


text \<open>
  The steps of a node's peer client. A pass and an expiry check are steps of their own, on any
  peer and any fetched pages, because the tools fetch without holding the store: what they apply
  may have been planned on an earlier state.
\<close>

inductive client_step :: "ext \<Rightarrow> store \<Rightarrow> store \<Rightarrow> bool" for x :: ext where
  step_learn: "client_step x st (fst (learn_discovery_peer_advertisement x ad src probe now st))"
| step_samples: "client_step x st
    (fst (retain_learned_samples_and_select x fetched probe local now seed st))"
| step_select: "client_step x st (fst (select_outbound_discovery_peers x local now seed st))"
| step_expire: "client_step x st (fst (evict_if_advertisement_expired plan now st))"
| step_pass: "client_step x st (fst (apply_discovery_peer_stream_pages x peer pages now st))"
| step_sync: "client_step x st (fst (sync_outbound_discovery_peers x client now st))"
| step_toggle: "client_step x st (fst (set_automatic_peer_gossip_enabled enabled now st))"
| step_admit: "client_step x st (fst (admit_discovery_peer_advertisement x ad live en now st))"

inductive client_reachable :: "ext \<Rightarrow> store \<Rightarrow> bool" for x :: ext where
  client_start: "client_reachable x empty_store"
| client_next: "client_reachable x st \<Longrightarrow> client_step x st st' \<Longrightarrow> client_reachable x st'"

lemma client_ok_expire: "client_ok x st \<Longrightarrow> client_ok x (fst (evict_if_advertisement_expired plan now st))"
  using client_ok_marked[of x st "op_node_id (pp_peer plan)" now expired_message]
  by (simp add: evict_if_advertisement_expired_def Let_def)

lemma client_ok_pass:
  assumes ok: "client_ok x st"
  shows "client_ok x (fst (apply_discovery_peer_stream_pages x peer pages now st))"
proof -
  obtain st' out where r: "apply_discovery_peer_stream_pages x peer pages now st = (st', out)"
    by (cases "apply_discovery_peer_stream_pages x peer pages now st")
  from peer_pass_cases[OF r] obtain s' where
    h: "st_discovery_peer_sync_states st' = om_put (op_node_id peer) s' (st_discovery_peer_sync_states st)"
      "st_known_discovery_peer_advertisements st' = st_known_discovery_peer_advertisements st"
      "sync_state_ok s'"
    and out: "st_outbound_discovery_peers st' = st_outbound_discovery_peers st \<and> ps_health s' \<noteq> Evicted \<or>
      st_outbound_discovery_peers st' = om_del (op_node_id peer) (st_outbound_discovery_peers st)"
    by (metis discovery_peer_health.distinct(3) not_None_eq)
  from out show ?thesis
  proof
    assume a: "st_outbound_discovery_peers st' = st_outbound_discovery_peers st \<and> ps_health s' \<noteq> Evicted"
    from client_ok_state[OF ok h(3), of "op_node_id peer"] a show ?thesis
      unfolding r by (subst client_ok_cong) (simp_all add: h)
  next
    assume "st_outbound_discovery_peers st' = om_del (op_node_id peer) (st_outbound_discovery_peers st)"
    with client_ok_evict[OF ok h(3), of "op_node_id peer"] show ?thesis
      unfolding r by (subst client_ok_cong) (simp_all add: h)
  qed
qed

text \<open>The pass over every peer also drops a peer whose outcome is evicted.\<close>

lemma client_ok_drop:
  "client_ok x st \<Longrightarrow> client_ok x (st\<lparr>st_outbound_discovery_peers := om_del n (st_outbound_discovery_peers st)\<rparr>)"
  using length_om_del_le[of n "st_outbound_discovery_peers st"] by (auto simp: client_ok_def)

lemma client_ok_sync_one:
  assumes "client_ok x (fst acc)"
  shows "client_ok x (fst (sync_one_peer x client now plan acc))"
proof (cases acc)
  case (Pair st report)
  obtain st1 o1 where e: "evict_if_advertisement_expired plan now st = (st1, o1)"
    by (cases "evict_if_advertisement_expired plan now st")
  have ok1: "client_ok x st1" using client_ok_expire[of x st plan now] e assms Pair by simp
  show ?thesis
  proof (cases o1)
    case None
    let ?a = "apply_discovery_peer_stream_pages x (pp_peer plan)
        (fetch_discovery_peer_stream_pages client (op_public_endpoint (pp_peer plan)) (pp_cursor plan)) now st1"
    have ok2: "client_ok x (fst ?a)" by (rule client_ok_pass[OF ok1])
    obtain st2 o2 where a: "?a = (st2, o2)" by (cases ?a)
    then have "client_ok x st2" using ok2 by simp
    then show ?thesis
      using e None Pair a client_ok_drop[of x st2 "po_node_id o2"] by (simp add: sync_one_peer_def Let_def)
  qed (use e Pair ok1 in \<open>simp add: sync_one_peer_def\<close>)
qed

lemma client_ok_learn_sample:
  "client_ok x (fst acc) \<Longrightarrow> client_ok x (fst (learn_sample x probe now fetched acc))"
proof -
  assume ok: "client_ok x (fst acc)"
  have one: "client_ok x (fst (learn_one x src probe now ad a))" if "client_ok x (fst a)" for src ad a
    using client_ok_learn[OF that, of ad "Some src" probe now]
    by (auto simp: learn_one_def split: prod.splits sum.splits)
  show ?thesis
  proof (cases fetched)
    case (Pair src r)
    show ?thesis
    proof (cases r)
      case (Inr sample)
      have "client_ok x (fst (fold (learn_one x src probe now) (sm_advertisements sample) acc))"
        by (rule fold_preserves[where P = "\<lambda>a. client_ok x (fst a)"]) (simp_all add: ok one)
      then show ?thesis using Pair Inr by (simp add: learn_sample_def)
    qed (use Pair ok in \<open>cases acc; simp add: learn_sample_def\<close>)
  qed
qed

lemma client_ok_samples:
  assumes it: "iteration_sound x" and ok: "client_ok x st"
  shows "client_ok x (fst (retain_learned_samples_and_select x fetched probe local now seed st))"
proof -
  obtain st1 report where f: "fold (learn_sample x probe now) fetched (st, peer_learn_report_default) = (st1, report)"
    by (cases "fold (learn_sample x probe now) fetched (st, peer_learn_report_default)")
  have "client_ok x (fst (fold (learn_sample x probe now) fetched (st, peer_learn_report_default)))"
    by (rule fold_preserves[where P = "\<lambda>a. client_ok x (fst a)"]) (simp_all add: ok client_ok_learn_sample)
  then have "client_ok x st1" using f by simp
  from client_ok_select[OF it this, of local now seed] show ?thesis
    using ok f by (auto simp: retain_learned_samples_and_select_def split: prod.splits)
qed


lemma record_peer_admission_keeps_client [simp]:
  "st_outbound_discovery_peers (record_peer_admission_attempt node now st) = st_outbound_discovery_peers st"
  "st_discovery_peer_sync_states (record_peer_admission_attempt node now st) = st_discovery_peer_sync_states st"
  by (simp_all add: record_peer_admission_attempt_def ensure_bootstrap_runtime_def Let_def split: option.splits)

lemma client_ok_admit:
  assumes ok: "client_ok x st"
  shows "client_ok x (fst (admit_discovery_peer_advertisement x ad live en now st))"
proof (cases "advertisement_gate x ad en now")
  case None
  have n: "endpoint_normal x (ad_public_endpoint ad)"
    using advertisement_gate_passes(5)[OF None] by (simp add: endpoint_normal_def)
  have probed: "client_ok x (fst (admit_probed ad live b now st))" for b
  proof -
    obtain st' res where p: "admit_probed ad live b now st = (st', res)"
      by (cases "admit_probed ad live b now st")
    show ?thesis
    proof (cases rule: admit_probed_cases[OF p])
      case 1
      then show ?thesis using p ok by simp
    next
      case (2 acc view)
      then show ?thesis using p ok n by (auto simp: client_ok_def)
    qed
  qed
  then show ?thesis
    using ok None by (auto simp: admit_discovery_peer_advertisement_def Let_def split: option.splits)
qed (simp add: admit_discovery_peer_advertisement_def ok)

lemma client_ok_toggle: "client_ok x st \<Longrightarrow> client_ok x (fst (set_automatic_peer_gossip_enabled en now st))"
  by (subst client_ok_cong)
    (simp_all add: set_automatic_peer_gossip_enabled_def ensure_discovery_peer_gossip_config_def Let_def)

lemma client_ok_sync:
  assumes "client_ok x st"
  shows "client_ok x (fst (sync_outbound_discovery_peers x client now st))"
  unfolding sync_outbound_discovery_peers_def
  by (rule fold_preserves[where P = "\<lambda>a. client_ok x (fst a)"]) (simp_all add: assms client_ok_sync_one)

lemma client_reachable_ok:
  assumes "iteration_sound x" and "client_reachable x st"
  shows "client_ok x st"
  using assms(2)
proof induction
  case client_start
  show ?case by (rule client_ok_empty)
next
  case (client_next st st')
  from client_next(2,3) show ?case
    by cases (simp_all add: assms(1) client_ok_learn client_ok_samples client_ok_select client_ok_expire
        client_ok_pass client_ok_sync client_ok_toggle client_ok_admit)
qed

text \<open>C38: Over every sequence of the peer client's operations, with any remote and any interleaving of
  planned passes, at most 8 peers are selected; each sits under its identity with an endpoint that
  passed the endpoint policy; none is evicted; and a peer that is backed off has failed once or
  twice and waits until 30 seconds per failure after its last attempt.\<close>

theorem outbound_set_invariant:
  assumes "iteration_sound x" and "client_reachable x st"
  shows "length (st_outbound_discovery_peers st) \<le> 8 \<and>
     (\<forall>node peer. om_get (st_outbound_discovery_peers st) node = Some peer \<longrightarrow>
        op_node_id peer = node \<and>
        normalize_discovery_peer_endpoint x (op_public_endpoint peer) = Inr (op_public_endpoint peer) \<and>
        (\<exists>s. om_get (st_discovery_peer_sync_states st) node = Some s \<and>
           (ps_health s = Healthy \<and> ps_consecutive_failures s = 0 \<and> ps_backoff_until s = None \<or>
            ps_health s = BackedOff \<and> ps_consecutive_failures s \<in> {1, 2} \<and>
            (\<exists>t. ps_last_attempt_at s = Some t \<and>
                 ps_backoff_until s = Some (t + seconds (30 * int (ps_consecutive_failures s)))))))"
proof -
  have ok: "client_ok x st" by (rule client_reachable_ok[OF assms])
  have h: "ps_health s = Healthy \<and> ps_consecutive_failures s = 0 \<and> ps_backoff_until s = None \<or>
      ps_health s = BackedOff \<and> ps_consecutive_failures s \<in> {1, 2} \<and>
      (\<exists>t. ps_last_attempt_at s = Some t \<and>
         ps_backoff_until s = Some (t + seconds (30 * int (ps_consecutive_failures s))))"
    if "sync_state_ok s" "ps_health s \<noteq> Evicted" for s
    using that unfolding sync_state_ok_def by (cases "ps_health s") auto
  show ?thesis using ok h unfolding client_ok_def endpoint_normal_def by meson
qed


section \<open>A client with one selected peer\<close>

lemma sample_ad_fields [simp]:
  "ad_node_id (sample_advertisement i n t) = n" "ad_id (sample_advertisement i n t) = i"
  "ni_node_id (ad_signer (sample_advertisement i n t)) = n"
  "ni_public_key (ad_signer (sample_advertisement i n t)) = sample_key"
  "ad_protocol_version (sample_advertisement i n t) = current_protocol_version"
  "ni_supported_protocol_version (ad_signer (sample_advertisement i n t)) = current_protocol_version"
  "ad_capability (sample_advertisement i n t) = AnnouncementServing"
  "ad_public_endpoint (sample_advertisement i n t) = ''https://h''"
  "ad_lease_is_active (sample_advertisement i n t) now \<longleftrightarrow> now < t + peer_advertisement_lease_duration"
  by (simp_all add: sample_advertisement_def node_info_of_def sample_node_def ad_lease_is_active_def)

lemma sample_ad_normal: "normalize_discovery_peer_endpoint sample_ext ''https://h'' = Inr ''https://h''"
  using advertisement_gate_passes(5)[OF sample_ad_gate] by simp

lemma sample_ad_verified: "verify_peer_advertisement_locally sample_ext (sample_advertisement 2 6 0) None 5 = Inr ()"
  by (simp add: verify_peer_advertisement_locally_def sample_ad_normal peer_advertisement_lease_duration_def
      peer_advertisement_lease_duration_days_def)

definition sample_learned_store :: store where
  "sample_learned_store =
     fst (learn_discovery_peer_advertisement sample_ext (sample_advertisement 2 6 0) None None 5 empty_store)"

lemma sample_learned_fields:
  "st_known_discovery_peer_advertisements sample_learned_store =
     [(6, \<lparr> kd_advertisement = sample_advertisement 2 6 0, kd_received_at = 5, kd_learned_from = [] \<rparr>)]"
  "st_outbound_discovery_peers sample_learned_store = []" "st_discovery_peer_sync_states sample_learned_store = []"
  "st_discovery_peer_gossip_config sample_learned_store = None"
  by (simp_all add: sample_learned_store_def learn_discovery_peer_advertisement_def sample_ad_verified
      empty_store_def Let_def om_modify_def merged_urls_def)

definition sample_selected_store :: store where
  "sample_selected_store = fst (select_outbound_discovery_peers sample_ext None 5 0 sample_learned_store)"

definition sample_outbound :: outbound_discovery_peer where
  "sample_outbound =
     \<lparr> op_node_id = 6, op_public_endpoint = ''https://h'', op_advertisement_id = 2,
       op_protocol_version = current_protocol_version, op_selected_at = 5, op_learned_from = [] \<rparr>"

lemma sample_nodes_order [simp]: "x_iter_nodes sample_ext ks = ks"
  by (simp add: sample_ext_def)

lemma sample_peer_candidates:
  "selection_candidates sample_ext None 5 sample_learned_store = [(sample_advertisement 2 6 0, [])]"
  by (simp add: selection_candidates_def values_in_order_def sample_learned_fields List.map_filter_simps
      om_get_def not_evicted_def Let_def peer_advertisement_lease_duration_def
      peer_advertisement_lease_duration_days_def)

lemma sample_selected_eq:
  "sample_selected_store = select_one 5 (sample_advertisement 2 6 0, []) sample_learned_store"
  by (simp add: sample_selected_store_def select_outbound_discovery_peers_def peer_gossip_is_enabled_def
      sample_learned_fields stale_peers_def List.map_filter_simps max_outbound_peers_def
      default_max_outbound_discovery_peers_def max_outbound_discovery_peers_def clamp_def
      sample_peer_candidates shuffle_def Let_def)

lemma sample_selected_fields:
  "st_outbound_discovery_peers sample_selected_store = [(6, sample_outbound)]"
  "st_discovery_peer_sync_states sample_selected_store = [(6, ps_empty_sync_state 6)]"
  "st_discovery_peer_gossip_config sample_selected_store = None"
  "st_known_discovery_peer_advertisements sample_selected_store =
     st_known_discovery_peer_advertisements sample_learned_store"
  unfolding sample_selected_eq
  by (simp_all add: select_one_def sample_learned_fields sample_outbound_def om_modify_def om_get_def
      un_evict_def ps_empty_sync_state_def)

lemma sample_selected_reachable: "client_reachable sample_ext sample_selected_store"
proof -
  have "client_step sample_ext empty_store sample_learned_store"
    unfolding sample_learned_store_def by (rule step_learn)
  moreover have "client_step sample_ext sample_learned_store sample_selected_store"
    unfolding sample_selected_store_def by (rule step_select)
  ultimately show ?thesis by (blast intro: client_start client_next)
qed

theorem outbound_set_invariant_witness:
  "\<exists>peer. om_get (st_outbound_discovery_peers sample_selected_store) 6 = Some peer \<and>
     normalize_discovery_peer_endpoint sample_ext (op_public_endpoint peer) = Inr (op_public_endpoint peer)"
proof -
  have g: "om_get (st_outbound_discovery_peers sample_selected_store) 6 = Some sample_outbound"
    by (simp add: sample_selected_fields om_get_def)
  with outbound_set_invariant[OF sample_iteration_sound sample_selected_reachable, THEN conjunct2, rule_format, OF g]
  show ?thesis by blast
qed

definition sample_unreachable :: "discovery_peer_sync_failure fetched_stream" where
  "sample_unreachable =
     \<lparr> fs_pages = [], fs_start_cursor = None, fs_fetch_error = Some (df_new DF_Unreachable ''down'') \<rparr>"

definition sample_backed_off_store :: store where
  "sample_backed_off_store =
     fst (apply_discovery_peer_stream_pages sample_ext sample_outbound sample_unreachable 7 sample_selected_store)"

lemma sample_backed_off:
  "apply_discovery_peer_stream_pages sample_ext sample_outbound sample_unreachable 7 sample_selected_store =
   (sample_backed_off_store,
    peer_outcome sample_outbound False 0 0 0 None BackedOff (Some (df_new DF_Unreachable ''down'')))"
  "st_outbound_discovery_peers sample_backed_off_store = [(6, sample_outbound)]"
  "st_discovery_peer_gossip_config sample_backed_off_store = None"
  "st_discovery_peer_sync_states sample_backed_off_store =
     [(6, (ps_empty_sync_state 6)\<lparr>ps_last_attempt_at := Some 7, ps_consecutive_failures := 1,
        ps_last_error := Some (df_new DF_Unreachable ''down''), ps_backoff_until := Some (7 + seconds 30),
        ps_health := BackedOff\<rparr>)]"
  unfolding sample_backed_off_store_def
  by (simp_all add: apply_discovery_peer_stream_pages_def drain_stream_pages_def sample_unreachable_def
      record_peer_failure_def Let_def df_new_def sat_add_u32_def peer_failures_before_eviction_def
      backoff_delay_def base_backoff_seconds_def sample_selected_fields sample_outbound_def om_get_def
      ps_empty_sync_state_def)

theorem peer_failure_policy_witness:
  "ps_consecutive_failures (sync_state_of sample_selected_store 6) < 2 \<and>
   plan_discovery_peer_sync sample_ext sample_backed_off_store (7 + seconds 30) \<noteq> []"
proof -
  have l: "list_active_outbound_peers sample_ext sample_backed_off_store = [sample_outbound]"
    by (simp add: list_active_outbound_peers_def values_in_order_def sample_ext_def sample_backed_off
        List.map_filter_simps om_get_def not_evicted_def sample_outbound_def)
  have p: "\<lparr> pp_peer = sample_outbound, pp_cursor = None \<rparr>
      \<in> set (plan_discovery_peer_sync sample_ext sample_backed_off_store (7 + seconds 30))"
    by (simp add: plan_discovery_peer_sync_def peer_gossip_is_enabled_def sample_backed_off l
        ready_for_sync_def sample_outbound_def om_get_def ps_empty_sync_state_def)
  from peer_failure_policy[OF sample_backed_off(1), THEN conjunct2, THEN conjunct2, THEN conjunct2, rule_format,
      of "df_new DF_Unreachable ''down''" "\<lparr> pp_peer = sample_outbound, pp_cursor = None \<rparr>" "7 + seconds 30"] p
  show ?thesis by (auto simp: peer_outcome_def sample_outbound_def)
qed


section \<open>Eviction and learning\<close>

text \<open>An eviction does not outlast the next sample: whoever delivers an advertisement the node already
  stores, unchanged and still within its lease, makes the evicted peer healthy again with its
  failures forgotten, so the next selection may take it.\<close>

theorem replayed_advertisement_revives_evicted_peer:
  assumes "om_get (st_known_discovery_peer_advertisements st) (ad_node_id ad) = Some k"
    and "kd_advertisement k = ad"
    and "om_get (st_discovery_peer_sync_states st) (ad_node_id ad) = Some s" and "ps_health s = Evicted"
    and "verify_peer_advertisement_locally x ad probe now = Inr ()"
    and "learn_discovery_peer_advertisement x ad (Some source) probe now st = (st', res)"
  shows "kd_learned_from (the (om_get (st_known_discovery_peer_advertisements st') (ad_node_id ad))) =
           os_insert source (kd_learned_from k) \<and>
         om_get (st_discovery_peer_sync_states st') (ad_node_id ad) =
           Some (s\<lparr>ps_health := Healthy, ps_consecutive_failures := 0, ps_backoff_until := None,
                   ps_last_error := None\<rparr>) \<and>
         not_evicted st' (ad_node_id ad)"
  using assms
  by (auto simp: learn_discovery_peer_advertisement_def Let_def om_get_modify un_evict_def merged_urls_def
      not_evicted_def)

definition sample_evicted_store :: store where
  "sample_evicted_store = drop_stale_peer 7 6 sample_selected_store"

theorem replayed_advertisement_revives_evicted_peer_witness:
  "not_evicted (fst (learn_discovery_peer_advertisement sample_ext (sample_advertisement 2 6 0)
     (Some ''s'') None 5 sample_evicted_store)) 6"
proof -
  let ?s = "(ps_empty_sync_state 6)\<lparr>ps_last_attempt_at := Some 7, ps_health := Evicted,
      ps_last_error := Some (df_new DF_ExpiredAdvertisement ''peer advertisement no longer valid'')\<rparr>"
  have h: "om_get (st_known_discovery_peer_advertisements sample_evicted_store)
        (ad_node_id (sample_advertisement 2 6 0)) =
      Some \<lparr> kd_advertisement = sample_advertisement 2 6 0, kd_received_at = 5, kd_learned_from = [] \<rparr>"
    "om_get (st_discovery_peer_sync_states sample_evicted_store) (ad_node_id (sample_advertisement 2 6 0)) = Some ?s"
    by (simp_all add: sample_evicted_store_def drop_stale_peer_def mark_peer_evicted_def Let_def
        sample_learned_fields sample_selected_fields om_get_def)
  obtain st' res where l: "learn_discovery_peer_advertisement sample_ext (sample_advertisement 2 6 0)
      (Some ''s'') None 5 sample_evicted_store = (st', res)"
    by (cases "learn_discovery_peer_advertisement sample_ext (sample_advertisement 2 6 0)
      (Some ''s'') None 5 sample_evicted_store")
  have ev: "ps_health ?s = Evicted" by simp
  from replayed_advertisement_revives_evicted_peer[OF h(1) _ h(2) ev sample_ad_verified l]
  show ?thesis by (simp add: l)
qed

end
