(* ===== verification/Domain_Harness.thy ===== *)
theory Domain_Harness
  imports Store
begin

text \<open>
  Users, bearer tokens, Agent Harnesses and their grants (\<open>domain/harness.rs\<close>), the request context
  (\<open>domain/requests.rs\<close>) and Pod Roles (\<open>domain/trust.rs\<close>, \<open>domain/pods.rs\<close>). Constructors carry a
  prefix for their enum.
\<close>

record tenant =
  tn_id :: uuid
  tn_name :: string
  tn_slug :: string
  tn_created_at :: time

datatype tenant_role = TR_Owner | TR_Admin | TR_Member

record tenant_user =
  tu_tenant_id :: uuid
  tu_user_id :: uuid
  tu_role :: tenant_role
  tu_created_at :: time

record user =
  us_id :: uuid
  us_display_name :: string
  us_created_at :: time

record api_token =
  tk_id :: uuid
  tk_user_id :: uuid
  tk_tenant_id :: "uuid option"
  tk_token_hash :: string
  tk_label :: string
  tk_created_at :: time
  tk_last_used_at :: "time option"
  tk_revoked_at :: "time option"
  tk_harness_id :: "uuid option"

datatype agent_harness_kind = Interactive | Unattended

fun ahk_from_str :: "string \<Rightarrow> string + agent_harness_kind" where
  "ahk_from_str value =
     (if value = ''interactive'' then Inr Interactive
      else if value = ''unattended'' then Inr Unattended
      else Inl (''unknown Agent Harness kind: '' @ value))"

datatype harness_capability =
      Cap_FeedRead | Cap_Feedback | Cap_DiscoveryTasks | Cap_PersonalDiscoveryManagement
    | Cap_PersonalDiscoveryExecution | Cap_CandidateSubmission | Cap_PodCuration
    | Cap_PackageManagement | Cap_SubscriptionManagement | Cap_Administration | Cap_Approval
    | Cap_PodSimilarityEvidence

text \<open>The order derived for the enum is the order of its constructors.\<close>

fun cap_rank :: "harness_capability \<Rightarrow> nat" where
  "cap_rank Cap_FeedRead = 0"
| "cap_rank Cap_Feedback = 1"
| "cap_rank Cap_DiscoveryTasks = 2"
| "cap_rank Cap_PersonalDiscoveryManagement = 3"
| "cap_rank Cap_PersonalDiscoveryExecution = 4"
| "cap_rank Cap_CandidateSubmission = 5"
| "cap_rank Cap_PodCuration = 6"
| "cap_rank Cap_PackageManagement = 7"
| "cap_rank Cap_SubscriptionManagement = 8"
| "cap_rank Cap_Administration = 9"
| "cap_rank Cap_Approval = 10"
| "cap_rank Cap_PodSimilarityEvidence = 11"

fun cap_to_string :: "harness_capability \<Rightarrow> string" where
  "cap_to_string Cap_FeedRead = ''feed_read''"
| "cap_to_string Cap_Feedback = ''feedback''"
| "cap_to_string Cap_DiscoveryTasks = ''discovery_tasks''"
| "cap_to_string Cap_PersonalDiscoveryManagement = ''personal_discovery_management''"
| "cap_to_string Cap_PersonalDiscoveryExecution = ''personal_discovery_execution''"
| "cap_to_string Cap_CandidateSubmission = ''candidate_submission''"
| "cap_to_string Cap_PodCuration = ''pod_curation''"
| "cap_to_string Cap_PackageManagement = ''package_management''"
| "cap_to_string Cap_SubscriptionManagement = ''subscription_management''"
| "cap_to_string Cap_Administration = ''administration''"
| "cap_to_string Cap_Approval = ''approval''"
| "cap_to_string Cap_PodSimilarityEvidence = ''pod_similarity_evidence''"

definition dashes_to_underscores :: "string \<Rightarrow> string" where
  "dashes_to_underscores s = map (\<lambda>c. if c = CHR ''-'' then CHR ''_'' else c) s"

definition cap_from_str :: "string \<Rightarrow> string + harness_capability" where
  "cap_from_str value =
     (let v = dashes_to_underscores value
      in if v = ''feed_read'' then Inr Cap_FeedRead
         else if v = ''feedback'' then Inr Cap_Feedback
         else if v = ''discovery_tasks'' then Inr Cap_DiscoveryTasks
         else if v = ''personal_discovery_management'' then Inr Cap_PersonalDiscoveryManagement
         else if v = ''personal_discovery_execution'' then Inr Cap_PersonalDiscoveryExecution
         else if v = ''candidate_submission'' then Inr Cap_CandidateSubmission
         else if v = ''pod_curation'' then Inr Cap_PodCuration
         else if v = ''package_management'' then Inr Cap_PackageManagement
         else if v = ''subscription_management'' then Inr Cap_SubscriptionManagement
         else if v = ''administration'' then Inr Cap_Administration
         else if v = ''approval'' then Inr Cap_Approval
         else if v = ''pod_similarity_evidence'' then Inr Cap_PodSimilarityEvidence
         else Inl (''unknown harness capability: '' @ value))"

record harness_grant =
  hg_capabilities :: "harness_capability list"
  hg_pod_ids :: "uuid list option"

record agent_harness =
  ah_id :: uuid
  ah_user_id :: uuid
  ah_tenant_id :: "uuid option"
  ah_label :: string
  ah_kind :: agent_harness_kind
  ah_grant :: harness_grant
  ah_created_at :: time
  ah_revoked_at :: "time option"

datatype agent_harness_status = AHS_Active | AHS_Revoked

record agent_harness_view =
  av_harness :: agent_harness
  av_credential_fingerprint :: string
  av_status :: agent_harness_status

datatype harness_write_operation =
      HW_RegisterAgentHarness | HW_RevokeAgentHarness | HW_CreateTenant | HW_CreateDevToken
    | HW_AddTrustedPeer | HW_ReceivePodAnnouncement | HW_ReceivePodWithdrawal
    | HW_WithdrawPublicPod | HW_EndorsePublicPod | HW_ImportPodEvents | HW_CreatePod
    | HW_DeletePod | HW_JoinPod | HW_SetPrioritySubscription | HW_SubscribePublicPod
    | HW_SynchronizeSubscription | HW_SubmitLinkToPod | HW_SubmitCandidate
    | HW_SetPodCurationPolicy | HW_CurateCandidate | HW_ReviewCandidatePlacement
    | HW_RouteCandidatePlacement | HW_AddContentItemToPod | HW_RemoveSubmissionFromPod
    | HW_AddSubmissionAsset | HW_GenerateBrief | HW_CreateFeedBatch | HW_CompleteFeedBatch
    | HW_PatchSkillPack | HW_ImportSkillPack | HW_ForkSkillPack | HW_AddSourceToPod | HW_SaveLink
    | HW_RecordFeedFeedback | HW_BlockSource | HW_BlockTopic | HW_UpdatePreferences
    | HW_ResetLearnedTaste | HW_RetractInterestSeed | HW_CreateDiscoveryTask
    | HW_RequestPersonalDiscovery | HW_CreatePersonalDiscoverySchedule
    | HW_UpdatePersonalDiscoverySchedule | HW_DisablePersonalDiscoverySchedule
    | HW_RemovePersonalDiscoverySchedule | HW_ClaimDiscoveryTask | HW_RenewDiscoveryTaskLease
    | HW_CompleteDiscoveryTask | HW_FailDiscoveryTask | HW_CompleteDiscoveryResultBatch
    | HW_ReportDiscoverySourceAvailability | HW_DismissDiscoveryResultBatch
    | HW_MarkDiscoveryResultBatchReviewed | HW_ReviewDiscoveryResultItem
    | HW_AttemptDiscoveryResultsReadyNotification | HW_SubmitPodSimilarityAgentEvidence
    | HW_SetUserContext | HW_AddUserWatch | HW_RemoveUserWatch

record harness_write_audit =
  hw_id :: uuid
  hw_harness_id :: uuid
  hw_operation :: harness_write_operation
  hw_pod_id :: "uuid option"
  hw_occurred_at :: time

record auth_context =
  ctx_user_id :: "uuid option"
  ctx_tenant_id :: "uuid option"
  ctx_node_id :: uuid
  ctx_harness_id :: "uuid option"

datatype pod_role = Owner | Curator

record pod_role_assignment =
  ra_user_id :: uuid
  ra_pod_id :: uuid
  ra_role :: pod_role
  ra_created_at :: time

record register_agent_harness_request =
  rq_label :: string
  rq_kind :: agent_harness_kind
  rq_capabilities :: "harness_capability list"
  rq_pod_ids :: "uuid list option"

record register_agent_harness_response =
  rr_harness :: agent_harness
  rr_token :: string

record create_tenant_request =
  tq_name :: string
  tq_slug :: string

record dev_token_request =
  dq_user_id :: "uuid option"
  dq_tenant_slug :: "string option"
  dq_label :: string

record dev_token_response =
  dr_token :: string
  dr_token_hash :: string
  dr_user_id :: uuid
  dr_tenant_id :: "uuid option"

section \<open>Capabilities as an ordered type\<close>

instantiation harness_capability :: linorder
begin

definition less_eq_harness_capability :: "harness_capability \<Rightarrow> harness_capability \<Rightarrow> bool" where
  "less_eq_harness_capability a b \<longleftrightarrow> cap_rank a \<le> cap_rank b"

definition less_harness_capability :: "harness_capability \<Rightarrow> harness_capability \<Rightarrow> bool" where
  "less_harness_capability a b \<longleftrightarrow> cap_rank a < cap_rank b"

instance
proof
  fix a b :: harness_capability
  show "a \<le> b \<Longrightarrow> b \<le> a \<Longrightarrow> a = b"
    by (cases a; cases b) (simp_all add: less_eq_harness_capability_def)
qed (auto simp: less_eq_harness_capability_def less_harness_capability_def)

end

lemma cap_from_str_roundtrip: "cap_from_str (cap_to_string c) = Inr c"
  by (cases c) (simp_all add: cap_from_str_def dashes_to_underscores_def Let_def)

end
