(* ===== verification/Domain_Tasks.thy ===== *)
theory Domain_Tasks
  imports Domain_Harness
begin

text \<open>
  Discovery Tasks (\<open>domain/discovery.rs\<close>), their leases (\<open>domain/ids.rs\<close>) and the immutable plan a
  personal task points to (\<open>domain/personal_discovery.rs\<close>), with the reader of a task's target that
  accepts the current and the legacy wire form.
\<close>

section \<open>Leases and attempts\<close>

text \<open>\<open>DiscoveryLeaseSeconds::new\<close>: at least one second, at most seven days; the error carries the value.\<close>

definition max_lease_seconds :: nat where
  "max_lease_seconds = 604800"

definition u32_max :: nat where
  "u32_max = 4294967295"

definition lease_seconds_new :: "nat \<Rightarrow> nat + nat" where
  "lease_seconds_new value =
     (if value > u32_max then Inl value
      else if value = 0 then Inl 0
      else if value > max_lease_seconds then Inl value
      else Inr value)"

definition lease_seconds_from_str :: "string \<Rightarrow> nat + nat" where
  "lease_seconds_from_str s =
     (case parse_unsigned u64_max s of None \<Rightarrow> Inl 0 | Some value \<Rightarrow> lease_seconds_new value)"

definition lease_as_duration :: "nat \<Rightarrow> int" where
  "lease_as_duration lease = seconds (int lease)"

record discovery_task_lease =
  dl_harness_id :: uuid
  dl_claimed_at :: time
  dl_expires_at :: time

datatype discovery_task_state = DT_Pending | DT_Leased discovery_task_lease | DT_Completed | DT_TerminalFailure

datatype discovery_task_attempt_outcome = AO_Completed | AO_Failed string | AO_LeaseExpired

record discovery_task_attempt =
  at_harness_id :: uuid
  at_started_at :: time
  at_finished_at :: time
  at_outcome :: discovery_task_attempt_outcome

section \<open>Tasks\<close>

datatype discovery_task_origin =
    DO_Scheduled nat
  | DO_Immediate (do_instructions: string) (do_key: string) (do_requested_by: uuid)
  | DO_PersonalRequest string "uuid option"
  | DO_PersonalScheduled uuid

text \<open>A Pod at one Package version, or a Discovery Plan.\<close>

datatype discovery_task_target = TT_Pod uuid int | TT_Personal uuid

fun tt_pod :: "discovery_task_target \<Rightarrow> (uuid \<times> int) option" where
  "tt_pod (TT_Pod pod_id package_version) = Some (pod_id, package_version)"
| "tt_pod (TT_Personal plan_id) = None"

fun tt_discovery_plan_id :: "discovery_task_target \<Rightarrow> uuid option" where
  "tt_discovery_plan_id (TT_Personal plan_id) = Some plan_id"
| "tt_discovery_plan_id (TT_Pod pod_id package_version) = None"

record discovery_task =
  dt_id :: uuid
  dt_target :: discovery_task_target
  dt_origin :: discovery_task_origin
  dt_due_at :: time
  dt_state :: discovery_task_state
  dt_attempts :: "discovery_task_attempt list"
  dt_created_at :: time

record create_immediate_discovery_task_request =
  iq_pod_id :: uuid
  iq_instructions :: string
  iq_idempotency_key :: string

section \<open>The wire form of a target\<close>

text \<open>
  A task is written with its typed target and, for a Pod target, the two legacy fields; it is
  read from the typed target, from the legacy fields, or from both when they agree.
\<close>

record discovery_task_wire =
  tw_id :: uuid
  tw_target :: "discovery_task_target option"
  tw_pod_id :: "uuid option"
  tw_package_version :: "int option"
  tw_origin :: discovery_task_origin
  tw_due_at :: time
  tw_state :: discovery_task_state
  tw_attempts :: "discovery_task_attempt list"
  tw_created_at :: time

definition discovery_task_serialize :: "discovery_task \<Rightarrow> discovery_task_wire" where
  "discovery_task_serialize task =
     \<lparr> tw_id = dt_id task, tw_target = Some (dt_target task),
       tw_pod_id = map_option fst (tt_pod (dt_target task)),
       tw_package_version = map_option snd (tt_pod (dt_target task)),
       tw_origin = dt_origin task, tw_due_at = dt_due_at task, tw_state = dt_state task,
       tw_attempts = dt_attempts task, tw_created_at = dt_created_at task \<rparr>"

fun wire_target ::
  "discovery_task_target option \<Rightarrow> uuid option \<Rightarrow> int option \<Rightarrow> string + discovery_task_target" where
  "wire_target (Some target) None None = Inr target"
| "wire_target (Some (TT_Pod target_pod target_version)) (Some pod_id) (Some package_version) =
     (if target_pod = pod_id \<and> target_version = package_version
      then Inr (TT_Pod target_pod target_version)
      else Inl ''typed and legacy Discovery Task targets must agree'')"
| "wire_target (Some (TT_Personal plan_id)) (Some pod_id) (Some package_version) =
     Inl ''typed and legacy Discovery Task targets must agree''"
| "wire_target (Some target) pod_id package_version =
     Inl ''legacy Discovery Task target fields must be complete''"
| "wire_target None (Some pod_id) (Some package_version) = Inr (TT_Pod pod_id package_version)"
| "wire_target None None package_version = Inl ''missing field `target`''"
| "wire_target None (Some pod_id) None = Inl ''missing field `package_version`''"

definition discovery_task_deserialize :: "discovery_task_wire \<Rightarrow> string + discovery_task" where
  "discovery_task_deserialize wire =
     (case wire_target (tw_target wire) (tw_pod_id wire) (tw_package_version wire) of
        Inl e \<Rightarrow> Inl e
      | Inr target \<Rightarrow>
          Inr \<lparr> dt_id = tw_id wire, dt_target = target, dt_origin = tw_origin wire,
                dt_due_at = tw_due_at wire, dt_state = tw_state wire,
                dt_attempts = tw_attempts wire, dt_created_at = tw_created_at wire \<rparr>)"

section \<open>Plans\<close>

datatype source_affinity_signal =
    SA_Source string | SA_Publisher string | SA_AuthorOrAccount string | SA_Community string
  | SA_ReferrerContext string

fun sa_key :: "source_affinity_signal \<Rightarrow> string \<times> string" where
  "sa_key (SA_Source value) = (''source'', value)"
| "sa_key (SA_Publisher value) = (''publisher'', value)"
| "sa_key (SA_AuthorOrAccount value) = (''author_or_account'', value)"
| "sa_key (SA_Community value) = (''community'', value)"
| "sa_key (SA_ReferrerContext value) = (''referrer_context'', value)"

definition sa_eq_ignore_ascii_case :: "source_affinity_signal \<Rightarrow> source_affinity_signal \<Rightarrow> bool" where
  "sa_eq_ignore_ascii_case a b \<longleftrightarrow>
     fst (sa_key a) = fst (sa_key b) \<and> eq_ignore_ascii_case (snd (sa_key a)) (snd (sa_key b))"

datatype discovery_plan_source_role = Proven | Adjacent

datatype user_watch_kind = Timeline | Account | Site

record discovery_plan_watch =
  pwt_watch_id :: uuid
  pwt_url :: string
  pwt_kind :: user_watch_kind
  pwt_skill :: "string option"

record discovery_plan_topic =
  pt_value :: string
  pt_rationale :: string
  pt_temporary :: bool

record discovery_plan_source_neighborhood =
  sn_signal :: source_affinity_signal
  sn_rationale :: string
  sn_temporary :: bool
  sn_role :: discovery_plan_source_role
  sn_watch :: "discovery_plan_watch option"

record discovery_plan_allocation =
  al_proven :: nat
  al_adjacent :: nat

record discovery_plan_constraints =
  pc_max_per_domain :: nat
  pc_max_per_author_or_account :: nat
  pc_max_per_publisher :: nat
  pc_max_per_community :: nat
  pc_canonical_deduplication :: bool
  pc_suppress_recently_reviewed :: bool
  pc_blocked_topics :: "string list"
  pc_blocked_sources :: "string list"
  pc_blocked_source_affinities :: "source_affinity_signal list"

datatype personal_discovery_intent = PI_Topic string | PI_SimilarToUrl string

record discovery_plan =
  pl_id :: uuid
  pl_user_id :: uuid
  pl_tenant_id :: "uuid option"
  pl_result_count :: nat
  pl_topics :: "discovery_plan_topic list"
  pl_source_neighborhoods :: "discovery_plan_source_neighborhood list"
  pl_allocation :: discovery_plan_allocation
  pl_constraints :: discovery_plan_constraints
  pl_intent :: "personal_discovery_intent option"
  pl_created_at :: time

section \<open>Cadence\<close>

text \<open>
  \<open>SourceRuleCadence::period_start\<close> and \<open>PersonalDiscoveryCadence::period_start\<close>. The hour, the day
  and the week of a time are arithmetic on nanoseconds (the epoch is a Thursday); the first day of
  its month is chrono's calendar, a parameter.
\<close>

datatype source_rule_cadence = SC_OnDemand | SC_Hourly | SC_Daily | SC_Weekly | SC_Monthly

definition hour_start :: "time \<Rightarrow> time" where
  "hour_start now = now - now mod hours 1"

definition day_start :: "time \<Rightarrow> time" where
  "day_start now = now - now mod days 1"

definition days_from_monday :: "time \<Rightarrow> int" where
  "days_from_monday now = (now div days 1 + 3) mod 7"

definition week_start :: "time \<Rightarrow> time" where
  "week_start now = day_start now - days (days_from_monday now)"

fun source_rule_period_start :: "(time \<Rightarrow> time) \<Rightarrow> source_rule_cadence \<Rightarrow> time \<Rightarrow> time" where
  "source_rule_period_start month_start SC_OnDemand now = now"
| "source_rule_period_start month_start SC_Hourly now = hour_start now"
| "source_rule_period_start month_start SC_Daily now = day_start now"
| "source_rule_period_start month_start SC_Weekly now = week_start now"
| "source_rule_period_start month_start SC_Monthly now = month_start now"

end
