(* ===== verification/Domain_Content.thy ===== *)
theory Domain_Content
  imports Domain_Tasks "HOL-Library.Word"
begin

text \<open>
  Candidates, their evidence and the retained content (\<open>domain/candidates.rs\<close>, \<open>domain/content.rs\<close>),
  with the merge of several submissions into one reference. An \<open>f32\<close> is its 32 bits.
\<close>

type_synonym f32 = "32 word"

section \<open>Confidence\<close>

text \<open>
  The bits of a finite number from zero to one are those up to the bits of 1.0, and those of the
  negative zero, which compares equal to zero.
\<close>

definition f32_one :: f32 where
  "f32_one = 0x3F800000"

definition f32_negative_zero :: f32 where
  "f32_negative_zero = 0x80000000"

definition candidate_confidence_new :: "f32 \<Rightarrow> f32 + f32" where
  "candidate_confidence_new value =
     (if value \<le> f32_one \<or> value = f32_negative_zero then Inr value else Inl value)"

section \<open>Evidence\<close>

datatype candidate_content_type =
    CT_Article | CT_Video | CT_Audio | CT_Image | CT_Podcast | CT_Repository | CT_Dataset | CT_Other

datatype media_reference_type = MR_Image | MR_Video

record media_reference =
  mr_media_type :: media_reference_type
  mr_url :: string

datatype candidate_review_state = CR_Pending | CR_Accepted

record candidate =
  cd_id :: uuid
  cd_tenant_id :: "uuid option"
  cd_source_url :: string
  cd_canonical_url :: string
  cd_review_state :: candidate_review_state
  cd_created_at :: time

record candidate_source_metadata =
  csm_title :: "string option"
  csm_author :: "string option"
  csm_published_at :: "time option"

record candidate_interest_seed_metadata =
  cis_publisher :: "string option"
  cis_community :: "string option"

record candidate_provenance =
  cpv_discovered_at :: time
  cpv_discovery_method :: string
  cpv_referrer_url :: "string option"

record proposed_candidate_placement =
  pcp_pod_id :: uuid
  pcp_reason :: string
  pcp_confidence :: f32

record candidate_task_context =
  ctc_task_id :: uuid
  ctc_package_version :: int

record candidate_submission_evidence =
  ce_source_url :: string
  ce_source_metadata :: candidate_source_metadata
  ce_permitted_excerpt :: "string option"
  ce_summary :: "string option"
  ce_content_type :: candidate_content_type
  ce_media_references :: "media_reference list"
  ce_tags :: "string list"
  ce_provenance :: candidate_provenance
  ce_harness_idempotency_key :: string
  ce_client_idempotency_key :: string

text \<open>Who a submission is for: a User, Pods, or a claimed personal task with its pinned plan.\<close>

datatype candidate_submission_target =
    CS_PodPlacements "proposed_candidate_placement list" "candidate_task_context option"
  | CS_User uuid bool candidate_interest_seed_metadata
  | CS_PersonalDiscovery uuid uuid uuid discovery_plan_source_role candidate_interest_seed_metadata

datatype candidate_acquisition_origin = CA_AgentDiscovery | CA_InteractiveUser

fun cst_placements :: "candidate_submission_target \<Rightarrow> proposed_candidate_placement list" where
  "cst_placements (CS_PodPlacements placements task_context) = placements"
| "cst_placements _ = []"

fun cst_acquisition_origin :: "candidate_submission_target \<Rightarrow> candidate_acquisition_origin" where
  "cst_acquisition_origin (CS_User user_id learn seed) = CA_InteractiveUser"
| "cst_acquisition_origin _ = CA_AgentDiscovery"

fun cst_learning_enabled :: "candidate_submission_target \<Rightarrow> bool" where
  "cst_learning_enabled (CS_User user_id learn seed) = learn"
| "cst_learning_enabled _ = False"

fun cst_task_context :: "candidate_submission_target \<Rightarrow> candidate_task_context option" where
  "cst_task_context (CS_PodPlacements placements task_context) = task_context"
| "cst_task_context _ = None"

fun cst_personal_discovery_task_id :: "candidate_submission_target \<Rightarrow> uuid option" where
  "cst_personal_discovery_task_id (CS_PersonalDiscovery user_id task_id plan_id role facts) = Some task_id"
| "cst_personal_discovery_task_id _ = None"

fun cst_interest_seed_metadata :: "candidate_submission_target \<Rightarrow> candidate_interest_seed_metadata option" where
  "cst_interest_seed_metadata (CS_User user_id learn seed) = Some seed"
| "cst_interest_seed_metadata _ = None"

fun cst_personal_source_facts :: "candidate_submission_target \<Rightarrow> candidate_interest_seed_metadata option" where
  "cst_personal_source_facts (CS_PersonalDiscovery user_id task_id plan_id role facts) = Some facts"
| "cst_personal_source_facts _ = None"

record candidate_submission =
  cs_id :: uuid
  cs_candidate_id :: uuid
  cs_tenant_id :: "uuid option"
  cs_submitted_by :: uuid
  cs_target :: candidate_submission_target
  cs_evidence :: candidate_submission_evidence
  cs_created_at :: time

section \<open>The merged reference\<close>

record candidate_reference =
  crf_source_url :: string
  crf_source_metadata :: candidate_source_metadata
  crf_permitted_excerpt :: "string option"
  crf_summary :: "string option"
  crf_content_type :: candidate_content_type
  crf_media_references :: "media_reference list"
  crf_tags :: "string list"
  crf_provenance :: candidate_provenance

definition candidate_reference_from :: "candidate_submission \<Rightarrow> candidate_reference" where
  "candidate_reference_from s =
     (let e = cs_evidence s in
      \<lparr> crf_source_url = ce_source_url e, crf_source_metadata = ce_source_metadata e,
        crf_permitted_excerpt = ce_permitted_excerpt e, crf_summary = ce_summary e,
        crf_content_type = ce_content_type e, crf_media_references = ce_media_references e,
        crf_tags = ce_tags e, crf_provenance = ce_provenance e \<rparr>)"

definition or_else :: "'a option \<Rightarrow> 'a option \<Rightarrow> 'a option" where
  "or_else a b = (case a of None \<Rightarrow> b | Some v \<Rightarrow> Some v)"

fun push_missing :: "'a list \<Rightarrow> 'a list \<Rightarrow> 'a list" where
  "push_missing retained [] = retained"
| "push_missing retained (value # rest) =
     push_missing (if value \<in> set retained then retained else retained @ [value]) rest"

definition merge_submission :: "candidate_submission \<Rightarrow> candidate_reference \<Rightarrow> candidate_reference" where
  "merge_submission s r =
     (let e = cs_evidence s; m = crf_source_metadata r in
      r\<lparr>crf_source_metadata :=
          \<lparr> csm_title = or_else (csm_title m) (csm_title (ce_source_metadata e)),
            csm_author = or_else (csm_author m) (csm_author (ce_source_metadata e)),
            csm_published_at = or_else (csm_published_at m) (csm_published_at (ce_source_metadata e)) \<rparr>,
        crf_permitted_excerpt := or_else (crf_permitted_excerpt r) (ce_permitted_excerpt e),
        crf_summary := or_else (crf_summary r) (ce_summary e),
        crf_media_references := push_missing (crf_media_references r) (ce_media_references e),
        crf_tags := push_missing (crf_tags r) (ce_tags e)\<rparr>)"

definition candidate_reference_from_submissions ::
  "candidate_submission list \<Rightarrow> candidate_reference option" where
  "candidate_reference_from_submissions submissions =
     (let ordered = sort_key (\<lambda>s. (cs_created_at s, cs_id s)) submissions
      in if ordered = [] then None
         else Some (fold merge_submission (rev ordered) (candidate_reference_from (last ordered))))"

section \<open>Retained content\<close>

record submission =
  sb_id :: uuid
  sb_tenant_id :: "uuid option"
  sb_url :: string
  sb_canonical_url :: string
  sb_title :: string
  sb_source_metadata :: candidate_source_metadata
  sb_description :: "string option"
  sb_domain :: string
  sb_submitted_by :: "uuid option"
  sb_discovered_by_crawler :: bool
  sb_submitter_note :: "string option"
  sb_summary :: "string option"
  sb_provenance :: "candidate_provenance list"
  sb_media_references :: "media_reference list"
  sb_tags :: "string list"
  sb_embedding :: "f32 list option"
  sb_created_at :: time
  sb_origin_event_id :: "uuid option"

end
