(* ===== verification/Domain_Pods.thy ===== *)
theory Domain_Pods
  imports Domain_Content "HOL-Library.Option_ord"
begin

text \<open>
  Pods, their packages, placements and subscriptions (\<open>domain/pods.rs\<close>, \<open>domain/content.rs\<close>,
  \<open>domain/candidates.rs\<close>, \<open>domain/federation.rs\<close>, \<open>domain/trust.rs\<close>, \<open>domain/requests.rs\<close>), the sensitive
  changes and their proposals (\<open>domain/harness.rs\<close>), and the part of the store that holds them.
\<close>

section \<open>Pods and packages\<close>

record pod_rules =
  ru_pod_id :: uuid
  ru_blocked_topics :: "string list"
  ru_blocked_domains :: "string list"
  ru_auto_promote_crawler_candidates :: bool
  ru_federate_sources :: bool

record create_pod_request =
  cq_name :: string
  cq_slug :: string
  cq_description :: string
  cq_visibility :: visibility

record pod_package_contents =
  pc_context_md :: string
  pc_skill_md :: string
  pc_sources_yaml :: string
  pc_filters_yaml :: string
  pc_examples_good_md :: string
  pc_examples_bad_md :: string

record create_private_pod_with_package_request =
  cw_name :: string
  cw_slug :: string
  cw_description :: string
  cw_package :: pod_package_contents

record created_pod_package =
  cp_pod :: pod
  cp_package :: pod_skill_pack

record skill_pack_patch =
  sp_context_md :: "string option"
  sp_pod_yaml :: "string option"
  sp_skill_md :: "string option"
  sp_sources_yaml :: "string option"
  sp_filters_yaml :: "string option"
  sp_examples_good_md :: "string option"
  sp_examples_bad_md :: "string option"

record validation_report =
  vr_valid :: bool
  vr_errors :: "string list"
  vr_warnings :: "string list"

datatype pod_creation_package =
    PCP_Default | PCP_Initial pod_package_contents | PCP_Derived pod_skill_pack

record create_pod_lifecycle_request =
  cl_pod :: create_pod_request
  cl_package :: pod_creation_package

section \<open>Package documents (skill_pack.rs)\<close>

text \<open>
  A Source Rule as its YAML document has it, before the code's own checks of its texts and
  addresses: what to inspect, what to seek, and how often.
\<close>

datatype inspection_kind =
    IK_Publication string
  | IK_Website string
  | IK_Domain string
  | IK_SearchTopic string
  | IK_Timeline string
  | IK_Account string

record source_rule_suggestion =
  sr_inspect :: inspection_kind
  sr_seek_description :: string
  sr_cadence :: source_rule_cadence

datatype pod_package_validation_error =
    PV_EmptyComponent string
  | PV_ContextContainsInstructions
  | PV_InvalidSourceRules string
  | PV_InvalidFilters string

fun pv_to_string :: "pod_package_validation_error \<Rightarrow> string" where
  "pv_to_string (PV_EmptyComponent component) = component @ '' is empty''"
| "pv_to_string PV_ContextContainsInstructions =
     ''CONTEXT.md must describe subject scope and boundaries, not agent instructions''"
| "pv_to_string (PV_InvalidSourceRules reason) =
     ''sources.yaml must contain declarative non-executable Source Rules without credentials: '' @ reason"
| "pv_to_string (PV_InvalidFilters reason) = ''filters.yaml is not valid YAML: '' @ reason"

section \<open>Curation\<close>

definition default_confidence_threshold :: f32 where
  "default_confidence_threshold = 0x3F4CCCCD"

datatype curation_policy = CP_Manual | CP_Assisted f32 | CP_Autonomous f32

definition curation_policy_default :: curation_policy where
  "curation_policy_default = CP_Assisted default_confidence_threshold"

fun is_autonomous :: "curation_policy \<Rightarrow> bool" where
  "is_autonomous (CP_Autonomous threshold) = True"
| "is_autonomous _ = False"

datatype pod_placement_status = PS_Pending | PS_Accepted | PS_Rejected | PS_Reversed

datatype curation_path =
    CPath_CandidateProposal | CPath_ManualReview | CPath_AssistedAutomatic
  | CPath_AutonomousAutomatic | CPath_RoutingAgent | CPath_AddToPod

datatype curation_actor = CA_Harness uuid | CA_User uuid | CA_NodeAgent

text \<open>A rationale is non-empty text without surrounding white space.\<close>

definition curation_rationale_new :: "string \<Rightarrow> string option" where
  "curation_rationale_new value = (if trim value = [] then None else Some (trim value))"

definition curation_rationale_error :: string where
  "curation_rationale_error = ''curation rationale must not be empty''"

record placement_audit_entry =
  pe_status :: pod_placement_status
  pe_curation_path :: curation_path
  pe_actor :: curation_actor
  pe_note :: "string option"
  pe_occurred_at :: time

record accepted_placement_projection =
  ap_content_item_id :: uuid
  ap_pod_id :: uuid
  ap_reason :: string
  ap_curation_path :: curation_path
  ap_origin_node_id :: uuid
  ap_accepted_at :: time

record feed_content_reference =
  fr_content_item_id :: uuid
  fr_source_url :: string
  fr_canonical_url :: string
  fr_title :: string
  fr_permitted_description :: "string option"
  fr_summary :: "string option"
  fr_media_references :: "media_reference list"
  fr_source :: string
  fr_tags :: "string list"

record placement_tombstone =
  pt_content_reference :: feed_content_reference
  pt_origin_placement :: accepted_placement_projection
  pt_withdrawn_at :: time

record pod_placement =
  pp_candidate_id :: uuid
  pp_pod_id :: uuid
  pp_content_item_id :: "uuid option"
  pp_reason :: string
  pp_confidence :: f32
  pp_source_submission_ids :: "uuid list"
  pp_origin_placements :: "accepted_placement_projection list"
  pp_origin_withdrawals :: "placement_tombstone list"
  pp_status :: pod_placement_status
  pp_curation_path :: curation_path
  pp_actor :: curation_actor
  pp_audit_history :: "placement_audit_entry list"
  pp_created_at :: time
  pp_updated_at :: time

record submission_pod =
  sbp_submission_id :: uuid
  sbp_pod_id :: uuid
  sbp_created_at :: time

datatype submission_asset_type = SAT_RepresentativeImage | SAT_ReadableSnapshot

datatype submission_asset_source = AS_PageImage | AS_PageText | AS_AiGenerated | AS_UserProvided

record submission_asset =
  as_id :: uuid
  as_tenant_id :: "uuid option"
  as_submission_id :: uuid
  as_asset_type :: submission_asset_type
  as_source :: submission_asset_source
  as_url :: "string option"
  as_local_path :: "string option"
  as_mime_type :: "string option"
  as_alt_text :: "string option"
  as_created_at :: time

datatype crawler_source_type = CST_Rss | CST_Atom | CST_Sitemap | CST_Webpage

record crawler_source =
  cr_id :: uuid
  cr_tenant_id :: "uuid option"
  cr_pod_id :: uuid
  cr_source_type :: crawler_source_type
  cr_url :: string
  cr_enabled :: bool
  cr_crawl_interval_minutes :: int
  cr_last_crawled_at :: "time option"
  cr_origin_event_id :: "uuid option"

section \<open>Subscriptions and trusted peers\<close>

record synchronization_failure =
  sf_code :: string
  sf_message :: string
  sf_retryable :: bool
  sf_occurred_at :: time

record subscription =
  su_id :: uuid
  su_user_id :: uuid
  su_tenant_id :: "uuid option"
  su_public_pod_url :: string
  su_origin_node_id :: uuid
  su_origin_public_key :: string
  su_pod_slug :: string
  su_local_pod_id :: uuid
  su_is_priority :: bool
  su_last_event_hash :: "string option"
  su_created_at :: time
  su_synchronized_at :: time
  su_last_sync_failure :: "synchronization_failure option"

definition subscription_new_local ::
  "(uuid \<Rightarrow> string) \<Rightarrow> uuid \<Rightarrow> uuid \<Rightarrow> pod \<Rightarrow> node_identity \<Rightarrow> time \<Rightarrow> subscription" where
  "subscription_new_local uuid_text new_id user_id pod node created_at =
     \<lparr> su_id = new_id, su_user_id = user_id, su_tenant_id = pd_tenant_id pod,
       su_public_pod_url = ''stumble://local/pods/'' @ uuid_text (pd_id pod),
       su_origin_node_id = nd_id node, su_origin_public_key = nd_public_key node,
       su_pod_slug = pd_slug pod, su_local_pod_id = pd_id pod, su_is_priority = False,
       su_last_event_hash = None, su_created_at = created_at, su_synchronized_at = created_at,
       su_last_sync_failure = None \<rparr>"

datatype trust_level = TL_ReadOnly | TL_ReadWrite

record trusted_peer =
  tpe_peer_id :: uuid
  tpe_node_id :: uuid
  tpe_tenant_id :: "uuid option"
  tpe_display_name :: string
  tpe_base_url :: string
  tpe_public_key :: string
  tpe_trust_level :: trust_level
  tpe_enabled :: bool
  tpe_created_at :: time

datatype trust_policy_change =
    TC_AddIndexNode string string
  | TC_RemoveIndexNode string
  | TC_BlockPod uuid string
  | TC_BlockNode uuid
  | TC_BlockSource string
  | TC_BlockTopic string

section \<open>Sensitive changes (domain/harness.rs)\<close>

datatype sensitive_change =
    SC_CreatePublicPod create_pod_request
  | SC_CreatePublicPodLifecycle create_pod_lifecycle_request
  | SC_PublishPod uuid
  | SC_ExpandPodVisibility uuid visibility
  | SC_ExpandHarnessGrant uuid "harness_capability list" "uuid list option"
  | SC_AddTrustedPeer uuid string string string
  | SC_RemoveTrustedPeer uuid
  | SC_ChangeTrustPolicy trust_policy_change
  | SC_RevisePublicPodPackage uuid int skill_pack_patch
  | SC_RemovePublicSubmissionFromPod uuid uuid
  | SC_EnableAutonomousCuration uuid f32
  | SC_GrantPodRole uuid uuid pod_role
  | SC_RevokePodRole uuid uuid pod_role
  | SC_DeletePod uuid

datatype proposal_status = PR_Pending | PR_Accepted | PR_Rejected | PR_Expired

datatype proposal_resource =
    RS_Pod uuid
  | RS_PodSlug string
  | RS_AgentHarness uuid
  | RS_TrustedPeerUrl string
  | RS_TrustPolicy uuid
  | RS_PodPackage uuid
  | RS_PodCurationPolicy uuid
  | RS_PodRoles uuid
  | RS_SubmissionPlacement uuid uuid

record proposal_resource_diff =
  rd_resource :: proposal_resource
  rd_before :: json
  rd_after :: json

datatype proposal_decision_actor = DA_Harness uuid | DA_Owner uuid

datatype proposal_allowed_action = PA_Approve | PA_Reject

record pending_proposal =
  pr_id :: uuid
  pr_requested_change :: sensitive_change
  pr_affected_resources :: "proposal_resource list"
  pr_expected_consequences :: "string list"
  pr_structured_diff :: "proposal_resource_diff list"
  pr_proposer :: uuid
  pr_user_id :: uuid
  pr_tenant_id :: "uuid option"
  pr_created_at :: time
  pr_expires_at :: time
  pr_status :: proposal_status
  pr_decided_by :: "proposal_decision_actor option"
  pr_decided_at :: "time option"
  pr_rejection_reason :: "string option"

datatype create_pod_outcome = CO_Created pod | CO_PendingApproval pending_proposal

record deleted_pod =
  dp_pod_id :: uuid
  dp_slug :: string
  dp_withdrawn :: bool

datatype delete_pod_outcome = DPO_Deleted deleted_pod | DPO_PendingApproval pending_proposal

datatype pod_visibility_outcome = VO_Updated pod | VO_PendingApproval pending_proposal

datatype trust_policy_change_outcome = TO_Applied trust_policy | TO_PendingApproval pending_proposal

datatype pod_package_revision_outcome = RO_Revised pod_skill_pack | RO_PendingApproval pending_proposal

section \<open>Source availability (domain/personal_discovery.rs)\<close>

datatype source_availability_state =
    SV_Available | SV_AuthenticationRequired | SV_SessionExpired | SV_Inaccessible
  | SV_BrowserGrantIneligible

definition sv_authentication_required :: "source_availability_state \<Rightarrow> bool" where
  "sv_authentication_required s \<longleftrightarrow> s = SV_AuthenticationRequired \<or> s = SV_SessionExpired"

definition sv_is_available :: "source_availability_state \<Rightarrow> bool" where
  "sv_is_available s \<longleftrightarrow> s = SV_Available"

fun sv_fingerprint_label :: "source_availability_state \<Rightarrow> string" where
  "sv_fingerprint_label SV_Available = ''available''"
| "sv_fingerprint_label SV_AuthenticationRequired = ''authentication_required''"
| "sv_fingerprint_label SV_SessionExpired = ''session_expired''"
| "sv_fingerprint_label SV_Inaccessible = ''inaccessible''"
| "sv_fingerprint_label SV_BrowserGrantIneligible = ''browser_grant_ineligible''"

record reported_source_availability =
  rsa_source :: string
  rsa_state :: source_availability_state
  rsa_reason :: string

definition rsa_state_fingerprint :: "reported_source_availability \<Rightarrow> string" where
  "rsa_state_fingerprint r =
     map ascii_lower_char (trim (rsa_source r)) @ '':'' @ sv_fingerprint_label (rsa_state r)"

record discovery_task_source_availability =
  tsa_task_id :: uuid
  tsa_user_id :: uuid
  tsa_tenant_id :: "uuid option"
  tsa_reported_by :: uuid
  tsa_reports :: "reported_source_availability list"
  tsa_browser_grant_eligible_sources :: "string list option"
  tsa_updated_at :: time

section \<open>The collections\<close>

text \<open>
  The fields of \<open>InMemoryStore\<close> behind Pods, content and approvals, in its order. A set of pairs is
  an ascending list; a map of notes is one of text by its key.
\<close>

record pod_store =
  pst_pending_proposals :: "(uuid, pending_proposal) omap"
  pst_pod_curation_policies :: "(uuid, curation_policy) omap"
  pst_pod_placements :: "(uuid \<times> uuid, pod_placement) omap"
  pst_accepted_placements :: "(uuid \<times> uuid, accepted_placement_projection) omap"
  pst_placement_tombstones :: "placement_tombstone list"
  pst_trusted_peers :: "(uuid, trusted_peer) omap"
  pst_trust_policies :: "(uuid \<times> uuid option, trust_policy) omap"
  pst_subscriptions :: "(uuid, subscription) omap"
  pst_pod_rules :: "(uuid, pod_rules) omap"
  pst_pod_package_versions :: "(uuid \<times> int, pod_skill_pack) omap"
  pst_submissions :: "(uuid, submission) omap"
  pst_submission_pods :: "submission_pod list"
  pst_submission_assets :: "(uuid, submission_asset) omap"
  pst_crawler_sources :: "(uuid, crawler_source) omap"
  pst_source_availability :: "(uuid, discovery_task_source_availability) omap"
  pst_saves :: "(uuid \<times> uuid) list"
  pst_private_notes :: "(uuid \<times> uuid, string) omap"
  pst_reading_history :: "(uuid \<times> uuid) list"

definition empty_pod_store :: pod_store where
  "empty_pod_store =
     \<lparr> pst_pending_proposals = [], pst_pod_curation_policies = [], pst_pod_placements = [],
       pst_accepted_placements = [], pst_placement_tombstones = [], pst_trusted_peers = [],
       pst_trust_policies = [], pst_subscriptions = [], pst_pod_rules = [],
       pst_pod_package_versions = [], pst_submissions = [], pst_submission_pods = [],
       pst_submission_assets = [], pst_crawler_sources = [], pst_source_availability = [],
       pst_saves = [], pst_private_notes = [], pst_reading_history = [] \<rparr>"

end
