(* ===== verification/Domain_Discovery.thy ===== *)
theory Domain_Discovery
  imports Domain_Pods
begin

text \<open>
  The data of Personal Discovery and of local similarity (\<open>domain/personal_discovery.rs\<close>,
  \<open>domain/taste.rs\<close>, \<open>domain/user_context.rs\<close>, \<open>domain/federation.rs\<close>): preferences and learned
  taste, watches, result batches, availability facts and notices, schedules, endorsements, Explore
  samples and agent evidence, and the collections of the store that hold them. A count of the type
  \<open>u16\<close> or \<open>u32\<close> is a number; where it is added to, its width is written out.
\<close>

section \<open>Learned taste\<close>

datatype learned_taste_signal =
    LT_Topic string
  | LT_Source string
  | LT_Publisher string
  | LT_AuthorOrAccount string
  | LT_Community string
  | LT_ReferrerContext string

fun lt_key :: "learned_taste_signal \<Rightarrow> string \<times> string" where
  "lt_key (LT_Topic v) = (''topic'', v)"
| "lt_key (LT_Source v) = (''source'', v)"
| "lt_key (LT_Publisher v) = (''publisher'', v)"
| "lt_key (LT_AuthorOrAccount v) = (''author_or_account'', v)"
| "lt_key (LT_Community v) = (''community'', v)"
| "lt_key (LT_ReferrerContext v) = (''referrer_context'', v)"

fun lt_source_affinity :: "learned_taste_signal \<Rightarrow> source_affinity_signal option" where
  "lt_source_affinity (LT_Topic v) = None"
| "lt_source_affinity (LT_Source v) = Some (SA_Source v)"
| "lt_source_affinity (LT_Publisher v) = Some (SA_Publisher v)"
| "lt_source_affinity (LT_AuthorOrAccount v) = Some (SA_AuthorOrAccount v)"
| "lt_source_affinity (LT_Community v) = Some (SA_Community v)"
| "lt_source_affinity (LT_ReferrerContext v) = Some (SA_ReferrerContext v)"

text \<open>Signals are ordered by their key, which determines them.\<close>

lemma lt_key_inject: "lt_key a = lt_key b \<longleftrightarrow> a = b"
  by (cases a; cases b) auto

lemma sa_key_inject: "sa_key a = sa_key b \<longleftrightarrow> a = b"
  by (cases a; cases b) auto

instantiation learned_taste_signal :: linorder
begin

definition "a \<le> b \<longleftrightarrow> lt_key a \<le> lt_key b" for a b :: learned_taste_signal

definition "a < b \<longleftrightarrow> lt_key a < lt_key b" for a b :: learned_taste_signal

instance
  by standard (auto simp: less_eq_learned_taste_signal_def less_learned_taste_signal_def order_less_le lt_key_inject)

end

instantiation source_affinity_signal :: linorder
begin

definition "a \<le> b \<longleftrightarrow> sa_key a \<le> sa_key b" for a b :: source_affinity_signal

definition "a < b \<longleftrightarrow> sa_key a < sa_key b" for a b :: source_affinity_signal

instance
  by standard (auto simp: less_eq_source_affinity_signal_def less_source_affinity_signal_def order_less_le sa_key_inject)

end

datatype learned_taste_evidence_kind =
  TK_UserSubmission | TK_Save | TK_MoreLikeThis | TK_LessLikeThis | TK_Dismiss | TK_AddToPod

datatype taste_evidence_direction = TD_Supporting | TD_Opposing

record interest_seed_signal_evidence =
  ise_signal :: learned_taste_signal
  ise_provenance :: candidate_provenance

record interest_seed =
  is_user_id :: uuid
  is_tenant_id :: "uuid option"
  is_candidate_id :: uuid
  is_evidence :: "interest_seed_signal_evidence list"
  is_created_at :: time
  is_retracted_at :: "time option"

record taste_learning_evidence =
  tl_id :: uuid
  tl_user_id :: uuid
  tl_tenant_id :: "uuid option"
  tl_signal :: learned_taste_signal
  tl_kind :: learned_taste_evidence_kind
  tl_direction :: taste_evidence_direction
  tl_created_at :: time

record learned_taste_weight =
  lw_signal :: learned_taste_signal
  lw_weight :: f32
  lw_supporting_signals :: nat
  lw_opposing_signals :: nat
  lw_evidence_summary :: "(learned_taste_evidence_kind \<times> nat) list"

record source_affinity =
  saf_signal :: source_affinity_signal
  saf_weight :: f32
  saf_supporting_seeds :: nat
  saf_supporting_feedback :: nat
  saf_opposing_feedback :: nat
  saf_explicitly_blocked :: bool

record user_preferences =
  up_user_id :: uuid
  up_tenant_id :: "uuid option"
  up_interests :: "string list"
  up_blocked_topics :: "string list"
  up_blocked_sources :: "string list"
  up_blocked_source_affinities :: "source_affinity_signal list"
  up_recurrence_penalty_days :: nat

section \<open>Watches\<close>

datatype user_watch_cadence = WC_Hourly | WC_Daily | WC_Weekly

datatype personal_discovery_cadence = PDC_Hourly | PDC_Daily | PDC_Weekly | PDC_Monthly

text \<open>The start of a period; the first instant of a month comes from the calendar.\<close>

fun personal_period_start :: "(time \<Rightarrow> time) \<Rightarrow> personal_discovery_cadence \<Rightarrow> time \<Rightarrow> time" where
  "personal_period_start month_start PDC_Hourly now = hour_start now"
| "personal_period_start month_start PDC_Daily now = day_start now"
| "personal_period_start month_start PDC_Weekly now = week_start now"
| "personal_period_start month_start PDC_Monthly now = month_start now"

fun watch_period_start :: "user_watch_cadence \<Rightarrow> time \<Rightarrow> time" where
  "watch_period_start WC_Hourly now = hour_start now"
| "watch_period_start WC_Daily now = day_start now"
| "watch_period_start WC_Weekly now = week_start now"

record user_watch =
  uw_id :: uuid
  uw_user_id :: uuid
  uw_tenant_id :: "uuid option"
  uw_url :: string
  uw_kind :: user_watch_kind
  uw_cadence :: user_watch_cadence
  uw_skill :: "string option"
  uw_last_availability :: "reported_source_availability option"
  uw_last_planned_at :: "time option"
  uw_created_at :: time

definition watch_is_due :: "time \<Rightarrow> user_watch \<Rightarrow> bool" where
  "watch_is_due now w \<longleftrightarrow>
     (case uw_last_planned_at w of None \<Rightarrow> True
      | Some last_planned_at \<Rightarrow> last_planned_at < watch_period_start (uw_cadence w) now)"

section \<open>Requests, plans' basis, leads\<close>

record request_personal_discovery =
  rpd_intent :: "personal_discovery_intent option"
  rpd_result_count :: "nat option"
  rpd_idempotency_key :: string
  rpd_browser_grant_eligible_sources :: "string list option"

datatype discovery_plan_basis =
    PB_ExplicitTopic string
  | PB_CorroboratedTopic string
  | PB_CorroboratedSource source_affinity_signal

record personal_discovery_readiness =
  prd_ready :: bool
  prd_basis :: "discovery_plan_basis list"

datatype discovery_lead_provenance =
    LP_PodAnnouncement uuid uuid string
  | LP_ExploreSample uuid uuid string
  | LP_Endorsement uuid uuid string
  | LP_PublicContentReference uuid uuid string

text \<open>The derived order: by constructor, then field by field.\<close>

fun lp_rank :: "discovery_lead_provenance \<Rightarrow> nat \<times> uuid \<times> uuid \<times> string" where
  "lp_rank (LP_PodAnnouncement a b s) = (0, a, b, s)"
| "lp_rank (LP_ExploreSample a b s) = (1, a, b, s)"
| "lp_rank (LP_Endorsement a b s) = (2, a, b, s)"
| "lp_rank (LP_PublicContentReference a b s) = (3, a, b, s)"

record discovery_lead =
  ld_signal :: source_affinity_signal
  ld_public_topics :: "string list"
  ld_provenance :: discovery_lead_provenance
  ld_local_relevance :: f32

section \<open>Schedules\<close>

datatype personal_discovery_delivery_mode = NotifyWhenSupported | QueueOnly

record personal_discovery_schedule_intent =
  si_focus_topics :: "string list"
  si_avoid_topics :: "string list"

record personal_discovery_schedule =
  ps_id :: uuid
  ps_user_id :: uuid
  ps_tenant_id :: "uuid option"
  ps_name :: string
  ps_cadence :: personal_discovery_cadence
  ps_intent :: personal_discovery_schedule_intent
  ps_result_count :: nat
  ps_delivery_mode :: personal_discovery_delivery_mode
  ps_enabled :: bool
  ps_created_at :: time
  ps_updated_at :: time

datatype personal_discovery_schedule_backpressure =
    BP_None
  | BP_UnreviewedBatch uuid uuid
  | BP_InFlightTask uuid

record create_personal_discovery_schedule_request =
  csr_name :: string
  csr_cadence :: personal_discovery_cadence
  csr_intent :: personal_discovery_schedule_intent
  csr_result_count :: "nat option"
  csr_delivery_mode :: personal_discovery_delivery_mode

record update_personal_discovery_schedule_request =
  usr_name :: "string option"
  usr_cadence :: "personal_discovery_cadence option"
  usr_intent :: "personal_discovery_schedule_intent option"
  usr_result_count :: "nat option"
  usr_delivery_mode :: "personal_discovery_delivery_mode option"
  usr_enabled :: "bool option"

record personal_discovery_schedule_status =
  pss_schedule :: personal_discovery_schedule
  pss_readiness_dormant :: bool
  pss_backpressure :: personal_discovery_schedule_backpressure
  pss_current_period_start :: time
  pss_current_period_task_id :: "uuid option"

record discovery_results_ready_event =
  rre_id :: uuid
  rre_user_id :: uuid
  rre_tenant_id :: "uuid option"
  rre_schedule_id :: uuid
  rre_batch_id :: uuid
  rre_task_id :: uuid
  rre_delivery_mode :: personal_discovery_delivery_mode
  rre_created_at :: time
  rre_notification_attempted_at :: "time option"

section \<open>Result batches\<close>

datatype discovery_result_batch_state = DB_Ready | DB_Reviewed | DB_Dismissed

datatype discovery_result_notification_state = DN_NotApplicable | DN_Pending | DN_Delivered

datatype discovery_result_item_action = RA_Save | RA_AddToPod | RA_MoreLikeThis | RA_NotForMe | RA_Ignore

datatype discovery_result_item_review =
    Unreviewed
  | Reviewed discovery_result_item_action time "discovery_result_item_action option" "uuid option" "uuid option"

record discovery_result_item =
  dri_position :: nat
  dri_candidate_id :: uuid
  dri_submission_id :: uuid
  dri_canonical_url :: string
  dri_allocation_role :: discovery_plan_source_role
  dri_review :: discovery_result_item_review

datatype discovery_result_availability_reason =
    AR_InsufficientProven nat nat
  | AR_InsufficientAdjacent nat nat
  | AR_DomainCap string nat
  | AR_AuthorOrAccountCap string nat
  | AR_PublisherCap string nat
  | AR_CommunityCap string nat
  | AR_Blocked string
  | AR_CanonicalDuplicate string
  | AR_RecentlyReviewed string
  | AR_SourceUnavailable string string
  | AR_Reallocated discovery_plan_source_role discovery_plan_source_role nat
  | AR_Underfilled nat nat
  | AR_AuthenticationSkippedScheduled string string
  | AR_AuthenticationAssistanceRequested string string
  | AR_BrowserGrantIneligible string string

record discovery_result_batch =
  drb_id :: uuid
  drb_user_id :: uuid
  drb_tenant_id :: "uuid option"
  drb_task_id :: uuid
  drb_plan_id :: uuid
  drb_state :: discovery_result_batch_state
  drb_notification_state :: discovery_result_notification_state
  drb_requested_size :: nat
  drb_allocation :: discovery_plan_allocation
  drb_allocation_filled :: discovery_plan_allocation
  drb_items :: "discovery_result_item list"
  drb_source_availability :: "discovery_result_availability_reason list"
  drb_created_at :: time
  drb_reviewed_at :: "time option"
  drb_dismissed_at :: "time option"

record discovery_result_item_learning_link =
  ll_batch_id :: uuid
  ll_candidate_id :: uuid
  ll_evidence_ids :: "uuid list"

record complete_discovery_result_batch_request =
  cbr_task_id :: uuid
  cbr_submission_ids :: "uuid list"
  cbr_source_availability :: "reported_source_availability list"
  cbr_browser_grant_eligible_sources :: "string list option"

section \<open>Availability notices\<close>

record authentication_needed_notice =
  an_id :: uuid
  an_user_id :: uuid
  an_tenant_id :: "uuid option"
  an_source :: string
  an_state_fingerprint :: string
  an_task_id :: uuid
  an_first_emitted_at :: time
  an_delivery_pending :: bool

datatype authentication_needed_notice_outcome =
    NO_ShouldNotify authentication_needed_notice
  | NO_Suppressed authentication_needed_notice
  | NO_ScheduledSkip string
  | NO_NotApplicable string

record report_discovery_source_availability_request =
  rsr_task_id :: uuid
  rsr_reports :: "reported_source_availability list"
  rsr_browser_grant_eligible_sources :: "string list option"

section \<open>Endorsements, samples, agent evidence\<close>

record pod_endorsement =
  pe_id :: uuid
  pe_endorsing_node_id :: uuid
  pe_signer :: node_info
  pe_endorsing_pod_slug :: string
  pe_endorsing_announcement_id :: uuid
  pe_endorsed_node_id :: uuid
  pe_endorsed_pod_slug :: string
  pe_endorsed_announcement_id :: uuid
  pe_reason :: string
  pe_endorsed_at :: time
  pe_signature :: string

record pod_explore_samples =
  px_id :: uuid
  px_announcement_id :: uuid
  px_origin_node_id :: uuid
  px_signer :: node_info
  px_pod_slug :: string
  px_samples :: "feed_content_reference list"
  px_sampled_at :: time
  px_signature :: string

record announcement_reference =
  aref_announcement_id :: uuid
  aref_origin_node_id :: uuid
  aref_pod_slug :: string

record submit_agent_evidence_request =
  sae_left_announcement_id :: uuid
  sae_right_announcement_id :: uuid
  sae_confidence :: f32
  sae_explanation :: string
  sae_public_inputs :: "announcement_reference list"
  sae_model_provenance :: string
  sae_harness_idempotency_key :: string
  sae_freshness_hours :: "nat option"

record pod_similarity_agent_evidence =
  pae_id :: uuid
  pae_user_id :: uuid
  pae_tenant_id :: "uuid option"
  pae_submitted_by :: uuid
  pae_left :: announcement_reference
  pae_right :: announcement_reference
  pae_confidence :: f32
  pae_explanation :: string
  pae_public_inputs :: "announcement_reference list"
  pae_model_provenance :: string
  pae_harness_idempotency_key :: string
  pae_submitted_at :: time
  pae_expires_at :: time

section \<open>The collections\<close>

record discovery_store =
  ds_result_batches :: "(uuid, discovery_result_batch) omap"
  ds_learning_links :: "discovery_result_item_learning_link list"
  ds_schedules :: "(uuid, personal_discovery_schedule) omap"
  ds_ready_events :: "(uuid, discovery_results_ready_event) omap"
  ds_notices :: "authentication_needed_notice list"
  ds_candidates :: "(uuid, candidate) omap"
  ds_candidate_submissions :: "(uuid, candidate_submission) omap"
  ds_interest_seeds :: "(uuid \<times> uuid, interest_seed) omap"
  ds_taste_evidence :: "taste_learning_evidence list"
  ds_preferences :: "(uuid \<times> uuid option, user_preferences) omap"
  ds_watches :: "(uuid, user_watch) omap"
  ds_endorsements :: "(uuid, pod_endorsement) omap"
  ds_explore_samples :: "(uuid, pod_explore_samples) omap"
  ds_agent_evidence :: "(uuid, pod_similarity_agent_evidence) omap"

definition empty_discovery_store :: discovery_store where
  "empty_discovery_store =
     \<lparr> ds_result_batches = [], ds_learning_links = [], ds_schedules = [], ds_ready_events = [], ds_notices = [],
       ds_candidates = [], ds_candidate_submissions = [], ds_interest_seeds = [], ds_taste_evidence = [],
       ds_preferences = [], ds_watches = [], ds_endorsements = [], ds_explore_samples = [],
       ds_agent_evidence = [] \<rparr>"

end
