(* ===== verification/Home_Store.thy ===== *)
theory Home_Store
  imports Domain_Tasks Domain_Discovery
begin

text \<open>
  The state behind the agent-facing tools: the collections of \<open>InMemoryStore\<close> that hold Users,
  bearer tokens, harnesses, roles, the write audit, tasks and plans (the collections of theory
  Store are its component \<open>hs_core\<close>, those of theory Domain_Pods its component \<open>hs_pods\<close>, those of theory Domain_Discovery its
  component \<open>hs_discovery\<close>), the
  tools' errors, and the authorization every tool starts
  with (\<open>agent_tools/mod.rs\<close>, \<open>agent_tools/shared.rs\<close>, \<open>agent_tools/discover/helpers.rs\<close>).
\<close>

section \<open>Errors\<close>

text \<open>
  Every failure of a tool. The transparent ones of parts that are not modelled carry their message.
\<close>

datatype agent_tools_error =
    AT_ExploreRequest string
  | AT_SampleFetch string
  | AT_CurationRationale string
  | AT_Store store_error
  | AT_Signing string
  | AT_Persistence string
  | AT_LockPoisoned
  | AT_BadUrl string
  | AT_Forbidden string
  | AT_TaskLeaseConflict
  | AT_TaskTerminal
  | AT_TaskLeaseRequired
  | AT_CandidateHarnessRequired
  | AT_CandidateTaskRequired
  | AT_CandidateTaskLeaseRequired
  | AT_CandidatePackageVersionMismatch
  | AT_CandidateIdempotencyConflict
  | AT_PersonalDiscoveryNotReady
  | AT_PersonalDiscoveryIdempotencyConflict
  | AT_NodeNotInitialized
  | AT_NodeAlreadyInitialized
  | AT_IncompatibleProtocol string string
  | AT_BootstrapRejected bootstrap_admission_rejection_reason string
  | AT_IndexSearch index_search_failure_kind string
  | AT_RelayDisabled
  | AT_RelayPayloadTooLarge
  | AT_DiscoveryPeerRejected discovery_peer_admission_rejection_reason string

section \<open>The store\<close>

record home_store =
  hs_core :: store
  hs_tenants :: "(uuid, tenant) omap"
  hs_tenant_users :: "tenant_user list"
  hs_users :: "(uuid, user) omap"
  hs_api_tokens :: "(uuid, api_token) omap"
  hs_agent_harnesses :: "(uuid, agent_harness) omap"
  hs_harness_write_audit :: "harness_write_audit list"
  hs_pod_roles :: "pod_role_assignment list"
  hs_discovery_tasks :: "(uuid, discovery_task) omap"
  hs_discovery_plans :: "(uuid, discovery_plan) omap"
  hs_pods :: pod_store
  hs_discovery :: discovery_store

definition empty_home_store :: home_store where
  "empty_home_store =
     \<lparr> hs_core = empty_store, hs_tenants = [], hs_tenant_users = [], hs_users = [], hs_api_tokens = [], hs_agent_harnesses = [],
       hs_harness_write_audit = [], hs_pod_roles = [], hs_discovery_tasks = [],
       hs_discovery_plans = [], hs_pods = empty_pod_store,
       hs_discovery = empty_discovery_store \<rparr>"

text \<open>
  What the tools take from outside: the crates of theory Externals, the textual form of an identity, SHA-256 and hexadecimal
  text, the orders in which hash maps visit their keys, the latest representable time, the first
  instant of a month, the YAML reader (the rules of a document, the text of an error for a value the
  code's checks refuse, the error of a document that is no YAML), the Unicode tables behind
  lower-casing, the pieces of a text
  between the characters that are no letters or digits, an \<open>f32\<close> with two decimals, a text in its \<open>Debug\<close> form, the order in which a hash set visits signals, the accessors of \<open>url::Url\<close>, and the database. The database answers an attempt to persist with success, or with an error and the state it reloaded.
\<close>

record tools_env =
  te_ext :: ext
  te_uuid_str :: "uuid \<Rightarrow> string"
  te_sha256_hex :: "string \<Rightarrow> string"
  te_order :: "uuid list \<Rightarrow> uuid list"
  te_order_versions :: "(uuid \<times> int) list \<Rightarrow> (uuid \<times> int) list"
  te_order_pairs :: "(uuid \<times> uuid) list \<Rightarrow> (uuid \<times> uuid) list"
  te_latest_time :: time
  te_month_start :: "time \<Rightarrow> time"
  te_yaml_source_rules :: "string \<Rightarrow> string + source_rule_suggestion list"
  te_yaml_custom_error :: "string \<Rightarrow> string list \<Rightarrow> string"
  te_yaml_value :: "string \<Rightarrow> string option"
  te_lowercase :: "string \<Rightarrow> string"
  te_words :: "string \<Rightarrow> string list"
  te_debug_string :: "string \<Rightarrow> string"
  te_order_signals :: "learned_taste_signal list \<Rightarrow> learned_taste_signal list"
  te_f32_two_decimals :: "f32 \<Rightarrow> string"
  te_url_username :: "string \<Rightarrow> string"
  te_url_password :: "string \<Rightarrow> string option"
  te_url_query :: "string \<Rightarrow> string option"
  te_url_fragment :: "string \<Rightarrow> string option"
  te_url_port :: "string \<Rightarrow> nat option"
  te_url_domain :: "string \<Rightarrow> string option"
  te_url_clear_port :: "string \<Rightarrow> string"
  te_url_query_pairs :: "string \<Rightarrow> (string \<times> string) list"
  te_url_extend_pairs :: "string \<Rightarrow> (string \<times> string) list \<Rightarrow> string"
  te_persistence :: "(home_store \<Rightarrow> (string \<times> home_store) option) option"

text \<open>\<open>persist_locked\<close>: without a database it succeeds; a failed write restores the reloaded state.\<close>

definition persist_locked :: "tools_env \<Rightarrow> home_store \<Rightarrow> home_store \<times> (agent_tools_error + unit)" where
  "persist_locked env st =
     (case te_persistence env of
        None \<Rightarrow> (st, Inr ())
      | Some database \<Rightarrow>
          (case database st of
             None \<Rightarrow> (st, Inr ())
           | Some (message, authoritative) \<Rightarrow> (authoritative, Inl (AT_Persistence message))))"

text \<open>The end of every changing tool: \<open>self.persist_locked(&mut store)?; Ok(result)\<close>.\<close>

definition persisted :: "tools_env \<Rightarrow> 'r \<Rightarrow> home_store \<Rightarrow> home_store \<times> (agent_tools_error + 'r)" where
  "persisted env result st =
     (case persist_locked env st of
        (st', Inl e) \<Rightarrow> (st', Inl e)
      | (st', Inr _) \<Rightarrow> (st', Inr result))"

section \<open>Queries\<close>

definition assert_tenant :: "uuid option \<Rightarrow> uuid option \<Rightarrow> store_error + unit" where
  "assert_tenant actual expected =
     (if actual = expected \<or> actual = None then Inr () else Inl TenantBoundary)"

definition default_node :: "ext \<Rightarrow> store \<Rightarrow> store_error + node_identity" where
  "default_node x st =
     (let nodes = values_in_order (x_iter_nodes x) (st_node_identities st)
      in case find (\<lambda>n. nd_tenant_id n = None) nodes of
           Some n \<Rightarrow> Inr n
         | None \<Rightarrow> (case nodes of n # _ \<Rightarrow> Inr n | [] \<Rightarrow> Inl (NotFound ''node identity'')))"

definition uuid_values :: "tools_env \<Rightarrow> (uuid, 'v) omap \<Rightarrow> 'v list" where
  "uuid_values env m = values_in_order (te_order env) m"

definition uuid_entries :: "tools_env \<Rightarrow> (uuid, 'v) omap \<Rightarrow> (uuid \<times> 'v) list" where
  "uuid_entries env m =
     List.map_filter (\<lambda>k. map_option (Pair k) (om_get m k)) (te_order env (om_keys m))"

definition tenant_by_slug :: "tools_env \<Rightarrow> home_store \<Rightarrow> string \<Rightarrow> store_error + tenant" where
  "tenant_by_slug env st slug =
     (case find (\<lambda>t. tn_slug t = slug) (uuid_values env (hs_tenants st)) of
        Some t \<Rightarrow> Inr t | None \<Rightarrow> Inl (NotFound (''tenant '' @ slug)))"

text \<open>\<open>min_by_key\<close> over the Users by creation time and identity.\<close>

definition user_rank :: "user \<Rightarrow> time \<times> uuid" where
  "user_rank u = (us_created_at u, us_id u)"

fun min_by_rank :: "('a \<Rightarrow> 'b::linorder) \<Rightarrow> 'a list \<Rightarrow> 'a option" where
  "min_by_rank f [] = None"
| "min_by_rank f (x # xs) =
     (case min_by_rank f xs of None \<Rightarrow> Some x | Some y \<Rightarrow> if f y < f x then Some y else Some x)"

definition local_owner_user_id :: "tools_env \<Rightarrow> home_store \<Rightarrow> uuid option" where
  "local_owner_user_id env st = map_option us_id (min_by_rank user_rank (uuid_values env (hs_users st)))"

section \<open>Authorization (agent_tools/shared.rs)\<close>

text \<open>A context without a harness is the owner's; a harness must be live and match the context.\<close>

definition harness_for_context ::
  "home_store \<Rightarrow> auth_context \<Rightarrow> agent_tools_error + agent_harness option" where
  "harness_for_context st ctx =
     (case ctx_harness_id ctx of
        None \<Rightarrow> Inr None
      | Some harness_id \<Rightarrow>
          (case om_get (hs_agent_harnesses st) harness_id of
             None \<Rightarrow> Inl (AT_Forbidden ''harness grant is revoked or missing'')
           | Some harness \<Rightarrow>
               if ah_revoked_at harness \<noteq> None
               then Inl (AT_Forbidden ''harness grant is revoked or missing'')
               else if Some (ah_user_id harness) \<noteq> ctx_user_id ctx \<or>
                       ah_tenant_id harness \<noteq> ctx_tenant_id ctx
               then Inl (AT_Forbidden ''harness grant does not match the authorization context'')
               else Inr (Some harness)))"

definition grant_covers_pod :: "harness_grant \<Rightarrow> uuid \<Rightarrow> bool" where
  "grant_covers_pod grant pod_id =
     (case hg_pod_ids grant of None \<Rightarrow> True | Some allowed \<Rightarrow> pod_id \<in> set allowed)"

definition lacks_curation_role :: "home_store \<Rightarrow> auth_context \<Rightarrow> uuid \<Rightarrow> bool" where
  "lacks_curation_role st ctx pod_id =
     (case ctx_user_id ctx of
        None \<Rightarrow> False
      | Some user_id \<Rightarrow>
          \<not> list_ex (\<lambda>r. ra_user_id r = user_id \<and> ra_pod_id r = pod_id \<and>
                         (ra_role r = Owner \<or> ra_role r = Curator)) (hs_pod_roles st))"

definition authorize_harness ::
  "tools_env \<Rightarrow> home_store \<Rightarrow> auth_context \<Rightarrow> harness_capability \<Rightarrow> uuid option
    \<Rightarrow> agent_tools_error + unit" where
  "authorize_harness env st ctx capability pod =
     (case harness_for_context st ctx of
        Inl e \<Rightarrow> Inl e
      | Inr None \<Rightarrow> Inr ()
      | Inr (Some harness) \<Rightarrow>
          if capability \<notin> set (hg_capabilities (ah_grant harness))
          then Inl (AT_Forbidden (''harness grant lacks '' @ cap_to_string capability))
          else case pod of
            None \<Rightarrow> Inr ()
          | Some pod_id \<Rightarrow>
              if \<not> grant_covers_pod (ah_grant harness) pod_id
              then Inl (AT_Forbidden (''harness grant does not include Pod '' @ te_uuid_str env pod_id))
              else if capability = Cap_PodCuration \<and> lacks_curation_role st ctx pod_id
              then Inl (AT_Forbidden (''User has no Pod Role for Pod '' @ te_uuid_str env pod_id))
              else Inr ())"

text \<open>The audit row of a write by a harness; the owner's own writes are not audited.\<close>

definition record_harness_write_at ::
  "auth_context \<Rightarrow> harness_write_operation \<Rightarrow> uuid option \<Rightarrow> time \<Rightarrow> uuid \<Rightarrow> home_store \<Rightarrow> home_store" where
  "record_harness_write_at ctx operation pod_id occurred_at new_id st =
     (case ctx_harness_id ctx of
        None \<Rightarrow> st
      | Some harness_id \<Rightarrow>
          st\<lparr>hs_harness_write_audit := hs_harness_write_audit st @
               [\<lparr> hw_id = new_id, hw_harness_id = harness_id, hw_operation = operation,
                  hw_pod_id = pod_id, hw_occurred_at = occurred_at \<rparr>]\<rparr>)"

section \<open>Personal Discovery authority (agent_tools/discover/helpers.rs)\<close>

definition unscoped_kind ::
  "home_store \<Rightarrow> auth_context \<Rightarrow> agent_harness_kind \<Rightarrow> string \<Rightarrow> agent_tools_error + unit" where
  "unscoped_kind st ctx kind message =
     (case harness_for_context st ctx of
        Inl e \<Rightarrow> Inl e
      | Inr None \<Rightarrow> Inr ()
      | Inr (Some harness) \<Rightarrow>
          if ah_kind harness \<noteq> kind \<or> hg_pod_ids (ah_grant harness) \<noteq> None
          then Inl (AT_Forbidden message) else Inr ())"

definition authorize_personal_discovery_management ::
  "tools_env \<Rightarrow> home_store \<Rightarrow> auth_context \<Rightarrow> agent_tools_error + unit" where
  "authorize_personal_discovery_management env st ctx =
     (case authorize_harness env st ctx Cap_PersonalDiscoveryManagement None of
        Inl e \<Rightarrow> Inl e
      | Inr _ \<Rightarrow> unscoped_kind st ctx Interactive
          ''Personal Discovery management requires an unscoped interactive grant'')"

definition authorize_personal_discovery_execution ::
  "tools_env \<Rightarrow> home_store \<Rightarrow> auth_context \<Rightarrow> agent_tools_error + unit" where
  "authorize_personal_discovery_execution env st ctx =
     (case authorize_harness env st ctx Cap_PersonalDiscoveryExecution None of
        Inl e \<Rightarrow> Inl e
      | Inr _ \<Rightarrow> unscoped_kind st ctx Unattended
          ''Personal Discovery execution requires an unscoped unattended grant'')"

definition authorize_discovery_task ::
  "tools_env \<Rightarrow> home_store \<Rightarrow> auth_context \<Rightarrow> discovery_task \<Rightarrow> agent_tools_error + uuid option" where
  "authorize_discovery_task env st ctx task =
     (case dt_target task of
        TT_Pod pod_id _ \<Rightarrow>
          (case authorize_harness env st ctx Cap_DiscoveryTasks (Some pod_id) of
             Inl e \<Rightarrow> Inl e | Inr _ \<Rightarrow> Inr (Some pod_id))
      | TT_Personal plan_id \<Rightarrow>
          (case authorize_personal_discovery_execution env st ctx of
             Inl e \<Rightarrow> Inl e
           | Inr _ \<Rightarrow>
               (case om_get (hs_discovery_plans st) plan_id of
                  None \<Rightarrow> Inl (AT_Store (NotFound ''Discovery Plan''))
                | Some plan \<Rightarrow>
                    if ctx_user_id ctx \<noteq> Some (pl_user_id plan) \<or>
                       ctx_tenant_id ctx \<noteq> pl_tenant_id plan
                    then Inl (AT_Forbidden ''Personal Discovery task belongs to another User'')
                    else Inr None)))"

definition authorized_discovery_task_mutation ::
  "tools_env \<Rightarrow> home_store \<Rightarrow> auth_context \<Rightarrow> uuid \<Rightarrow> agent_tools_error + uuid option \<times> uuid" where
  "authorized_discovery_task_mutation env st ctx task_id =
     (case om_get (hs_discovery_tasks st) task_id of
        None \<Rightarrow> Inl (AT_Store (NotFound ''Discovery Task''))
      | Some task \<Rightarrow>
          (case authorize_discovery_task env st ctx task of
             Inl e \<Rightarrow> Inl e
           | Inr pod_id \<Rightarrow>
               (case ctx_harness_id ctx of
                  None \<Rightarrow> Inl (AT_Forbidden ''task mutation requires an Agent Harness'')
                | Some harness_id \<Rightarrow> Inr (pod_id, harness_id))))"

end
