(* ===== verification/Harness_Admin.thy ===== *)
theory Harness_Admin
  imports Home_Store
begin

text \<open>
  Registration, revocation and inspection of Agent Harnesses (\<open>agent_tools/node/harness.rs\<close>), with
  what they show: grants are what the owner may give, a revoked harness is refused everywhere, and
  a token is kept only as its hash.
\<close>

section \<open>Operations\<close>

definition normalize_capabilities :: "harness_capability list \<Rightarrow> harness_capability list" where
  "normalize_capabilities capabilities = remdups_adj (sort capabilities)"

definition normalize_pod_ids :: "uuid list \<Rightarrow> uuid list" where
  "normalize_pod_ids pod_ids = remdups_adj (sort pod_ids)"

definition privileged :: "harness_capability \<Rightarrow> bool" where
  "privileged c \<longleftrightarrow> c = Cap_Administration \<or> c = Cap_Approval"

text \<open>\<open>hash_api_token\<close> (signing.rs): a domain-separated digest.\<close>

definition hash_api_token :: "tools_env \<Rightarrow> string \<Rightarrow> string" where
  "hash_api_token env token = te_sha256_hex env (''stumble-api-token-v1:'' @ token)"

text \<open>Every Pod of the requested scope exists and is in the caller's tenant.\<close>

fun check_pod_scope ::
  "tools_env \<Rightarrow> home_store \<Rightarrow> auth_context \<Rightarrow> uuid list \<Rightarrow> agent_tools_error + unit" where
  "check_pod_scope env st ctx [] = Inr ()"
| "check_pod_scope env st ctx (pod_id # pod_ids) =
     (case om_get (st_pods (hs_core st)) pod_id of
        None \<Rightarrow> Inl (AT_Store (NotFound (''pod '' @ te_uuid_str env pod_id)))
      | Some pod \<Rightarrow>
          (case assert_tenant (pd_tenant_id pod) (ctx_tenant_id ctx) of
             Inl e \<Rightarrow> Inl (AT_Store e)
           | Inr _ \<Rightarrow> check_pod_scope env st ctx pod_ids))"

text \<open>
  The owner registers a harness. The branch for a caller with a harness, which the code keeps
  after refusing every such caller, cannot be reached. \<open>ids\<close> are the drawn identities (harness,
  token row, audit row), \<open>token\<close> the drawn bearer token.
\<close>

definition register_agent_harness ::
  "tools_env \<Rightarrow> uuid \<times> uuid \<times> uuid \<Rightarrow> string \<Rightarrow> time \<Rightarrow> auth_context \<Rightarrow> register_agent_harness_request
    \<Rightarrow> home_store \<Rightarrow> home_store \<times> (agent_tools_error + register_agent_harness_response)" where
  "register_agent_harness env ids token now ctx request st =
     (if ctx_harness_id ctx \<noteq> None
      then (st, Inl (AT_Forbidden ''only the Home Node Owner may register an Agent Harness directly''))
      else case authorize_harness env st ctx Cap_Administration None of
        Inl e \<Rightarrow> (st, Inl e)
      | Inr _ \<Rightarrow>
      if trim (rq_label request) = []
      then (st, Inl (AT_Store (Validation ''Agent Harness label must not be empty'')))
      else case (case ctx_user_id ctx of Some u \<Rightarrow> Some u | None \<Rightarrow> local_owner_user_id env st) of
        None \<Rightarrow> (st, Inl (AT_Store (Validation ''an Agent Harness must belong to a User'')))
      | Some user_id \<Rightarrow>
      (case check_pod_scope env st ctx (case rq_pod_ids request of None \<Rightarrow> [] | Some ids \<Rightarrow> ids) of
        Inl e \<Rightarrow> (st, Inl e)
      | Inr _ \<Rightarrow>
      let capabilities = normalize_capabilities (rq_capabilities request) in
      if rq_kind request = Unattended \<and> list_ex privileged capabilities
      then (st, Inl (AT_Forbidden ''unattended harnesses cannot receive administration or approval''))
      else if length capabilities > 1 \<and> list_ex privileged capabilities
      then (st, Inl (AT_Store (Validation ''bootstrap administration and approval grants must be isolated'')))
      else
        (case ids of (harness_id, token_id, audit_id) \<Rightarrow>
        let harness = \<lparr> ah_id = harness_id, ah_user_id = user_id, ah_tenant_id = ctx_tenant_id ctx,
              ah_label = rq_label request, ah_kind = rq_kind request,
              ah_grant = \<lparr> hg_capabilities = capabilities,
                          hg_pod_ids = map_option normalize_pod_ids (rq_pod_ids request) \<rparr>,
              ah_created_at = now, ah_revoked_at = None \<rparr>;
            api_token = \<lparr> tk_id = token_id, tk_user_id = user_id, tk_tenant_id = ctx_tenant_id ctx,
              tk_token_hash = hash_api_token env token,
              tk_label = ''Harness: '' @ rq_label request, tk_created_at = now,
              tk_last_used_at = None, tk_revoked_at = None, tk_harness_id = Some harness_id \<rparr>;
            st1 = st\<lparr>hs_agent_harnesses := om_put harness_id harness (hs_agent_harnesses st),
                     hs_api_tokens := om_put token_id api_token (hs_api_tokens st)\<rparr>
        in persisted env \<lparr> rr_harness = harness, rr_token = token \<rparr>
             (record_harness_write_at ctx HW_RegisterAgentHarness None now audit_id st1))))"

text \<open>\<open>values_mut\<close> with a filter: the matching values are changed in place.\<close>

definition om_map_where :: "('v \<Rightarrow> bool) \<Rightarrow> ('v \<Rightarrow> 'v) \<Rightarrow> ('k, 'v) omap \<Rightarrow> ('k, 'v) omap" where
  "om_map_where P f m = map (\<lambda>(k, v). (k, if P v then f v else v)) m"

definition revoke_agent_harness ::
  "tools_env \<Rightarrow> uuid \<Rightarrow> time \<Rightarrow> auth_context \<Rightarrow> uuid \<Rightarrow> home_store
    \<Rightarrow> home_store \<times> (agent_tools_error + unit)" where
  "revoke_agent_harness env audit_id now ctx harness_id st =
     (if ctx_harness_id ctx \<noteq> None
      then (st, Inl (AT_Forbidden ''only the Home Node Owner may revoke an Agent Harness directly''))
      else case authorize_harness env st ctx Cap_Administration None of
        Inl e \<Rightarrow> (st, Inl e)
      | Inr _ \<Rightarrow>
      (case om_get (hs_agent_harnesses st) harness_id of
         None \<Rightarrow> (st, Inl (AT_Store (NotFound (''agent harness '' @ te_uuid_str env harness_id))))
       | Some harness \<Rightarrow>
           let st1 = st\<lparr>hs_agent_harnesses :=
                         om_put harness_id (harness\<lparr>ah_revoked_at := Some now\<rparr>) (hs_agent_harnesses st),
                       hs_api_tokens :=
                         om_map_where (\<lambda>t. tk_harness_id t = Some harness_id)
                           (\<lambda>t. t\<lparr>tk_revoked_at := Some now\<rparr>) (hs_api_tokens st)\<rparr>
           in persisted env ()
                (record_harness_write_at ctx HW_RevokeAgentHarness None now audit_id st1)))"

definition agent_harness_view_of ::
  "tools_env \<Rightarrow> home_store \<Rightarrow> agent_harness \<Rightarrow> agent_tools_error + agent_harness_view" where
  "agent_harness_view_of env st harness =
     (case find (\<lambda>t. tk_harness_id t = Some (ah_id harness)) (uuid_values env (hs_api_tokens st)) of
        None \<Rightarrow> Inl (AT_Store (NotFound (''credential for Agent Harness '' @ te_uuid_str env (ah_id harness))))
      | Some t \<Rightarrow>
          Inr \<lparr> av_harness = harness,
                av_credential_fingerprint = ''sha256:'' @ take 12 (tk_token_hash t),
                av_status = (if ah_revoked_at harness \<noteq> None then AHS_Revoked else AHS_Active) \<rparr>)"

definition agent_harness_of ::
  "tools_env \<Rightarrow> auth_context \<Rightarrow> uuid \<Rightarrow> home_store \<Rightarrow> agent_tools_error + agent_harness_view" where
  "agent_harness_of env ctx harness_id st =
     (case authorize_harness env st ctx Cap_Administration None of
        Inl e \<Rightarrow> Inl e
      | Inr _ \<Rightarrow>
          (case om_get (hs_agent_harnesses st) harness_id of
             None \<Rightarrow> Inl (AT_Store (NotFound (''Agent Harness '' @ te_uuid_str env harness_id)))
           | Some harness \<Rightarrow>
               (case assert_tenant (ah_tenant_id harness) (ctx_tenant_id ctx) of
                  Inl e \<Rightarrow> Inl (AT_Store e)
                | Inr _ \<Rightarrow> agent_harness_view_of env st harness)))"

text \<open>\<open>collect\<close> into a \<open>Result\<close>: the first failure, or every view.\<close>

fun collect_results :: "('e + 'a) list \<Rightarrow> 'e + 'a list" where
  "collect_results [] = Inr []"
| "collect_results (r # rs) =
     (case r of
        Inl e \<Rightarrow> Inl e
      | Inr a \<Rightarrow> (case collect_results rs of Inl e \<Rightarrow> Inl e | Inr as \<Rightarrow> Inr (a # as)))"

definition list_agent_harnesses ::
  "tools_env \<Rightarrow> auth_context \<Rightarrow> home_store \<Rightarrow> agent_tools_error + agent_harness_view list" where
  "list_agent_harnesses env ctx st =
     (case authorize_harness env st ctx Cap_Administration None of
        Inl e \<Rightarrow> Inl e
      | Inr _ \<Rightarrow>
          (case collect_results (map (agent_harness_view_of env st)
                  (filter (\<lambda>h. ah_tenant_id h = ctx_tenant_id ctx)
                    (uuid_values env (hs_agent_harnesses st)))) of
             Inl e \<Rightarrow> Inl e
           | Inr views \<Rightarrow> Inr (sort_key (\<lambda>v. ah_created_at (av_harness v)) views)))"

definition list_harness_write_audit ::
  "tools_env \<Rightarrow> auth_context \<Rightarrow> home_store \<Rightarrow> agent_tools_error + harness_write_audit list" where
  "list_harness_write_audit env ctx st =
     (case authorize_harness env st ctx Cap_Administration None of
        Inl e \<Rightarrow> Inl e | Inr _ \<Rightarrow> Inr (hs_harness_write_audit st))"

definition require_harness_capability ::
  "tools_env \<Rightarrow> auth_context \<Rightarrow> harness_capability \<Rightarrow> home_store \<Rightarrow> agent_tools_error + unit" where
  "require_harness_capability env ctx capability st = authorize_harness env st ctx capability None"

end
