(* ===== verification/Accounts.thy ===== *)
theory Accounts
  imports Harness_Admin
begin

text \<open>
  Tenants, development tokens and authentication (\<open>agent_tools/node/constructors.rs\<close>): the contexts
  a request can run under. Drawn identities, tokens and keys are arguments.
\<close>

section \<open>Contexts of the owner\<close>

definition default_auth_context :: "tools_env \<Rightarrow> home_store \<Rightarrow> agent_tools_error + auth_context" where
  "default_auth_context env st =
     (case default_node (te_ext env) (hs_core st) of
        Inl e \<Rightarrow> Inl (AT_Store e)
      | Inr node \<Rightarrow> Inr \<lparr> ctx_user_id = None, ctx_tenant_id = nd_tenant_id node,
                         ctx_node_id = nd_id node, ctx_harness_id = None \<rparr>)"

definition local_owner_auth_context :: "tools_env \<Rightarrow> home_store \<Rightarrow> agent_tools_error + auth_context" where
  "local_owner_auth_context env st =
     (case default_node (te_ext env) (hs_core st) of
        Inl e \<Rightarrow> Inl (AT_Store e)
      | Inr node \<Rightarrow> Inr \<lparr> ctx_user_id = local_owner_user_id env st, ctx_tenant_id = nd_tenant_id node,
                         ctx_node_id = nd_id node, ctx_harness_id = None \<rparr>)"

section \<open>Tenants and development tokens\<close>

text \<open>\<open>create_node_identity\<close> (signing.rs): a key pair from the drawn 32-byte secret.\<close>

definition create_node_identity ::
  "ext \<Rightarrow> uuid \<Rightarrow> string \<Rightarrow> time \<Rightarrow> string \<Rightarrow> uuid option \<Rightarrow> node_identity" where
  "create_node_identity x new_id secret now display_name tenant_id =
     \<lparr> nd_id = new_id, nd_tenant_id = tenant_id, nd_display_name = display_name,
       nd_public_key = x_b64_encode x (x_ed_public x secret),
       nd_private_key = x_b64_encode x secret, nd_created_at = now \<rparr>"

text \<open>A tool that may run without a context checks authority only when it has one.\<close>

definition authorize_if_given ::
  "tools_env \<Rightarrow> home_store \<Rightarrow> auth_context option \<Rightarrow> harness_capability \<Rightarrow> agent_tools_error + unit" where
  "authorize_if_given env st ctx capability =
     (case ctx of None \<Rightarrow> Inr () | Some c \<Rightarrow> authorize_harness env st c capability None)"

definition record_if_given ::
  "auth_context option \<Rightarrow> harness_write_operation \<Rightarrow> time \<Rightarrow> uuid \<Rightarrow> home_store \<Rightarrow> home_store" where
  "record_if_given ctx operation now audit_id st =
     (case ctx of None \<Rightarrow> st | Some c \<Rightarrow> record_harness_write_at c operation None now audit_id st)"

definition create_tenant_inner ::
  "tools_env \<Rightarrow> uuid \<times> uuid \<times> uuid \<Rightarrow> string \<Rightarrow> time \<Rightarrow> auth_context option \<Rightarrow> create_tenant_request
    \<Rightarrow> home_store \<Rightarrow> home_store \<times> (agent_tools_error + tenant)" where
  "create_tenant_inner env ids secret now ctx request st =
     (case authorize_if_given env st ctx Cap_Administration of
        Inl e \<Rightarrow> (st, Inl e)
      | Inr _ \<Rightarrow>
          if list_ex (\<lambda>t. tn_slug t = tq_slug request) (om_vals (hs_tenants st))
          then (st, Inl (AT_Store (Duplicate (''tenant '' @ tq_slug request))))
          else
            (case ids of (tenant_id, node_id, audit_id) \<Rightarrow>
             let tenant = \<lparr> tn_id = tenant_id, tn_name = tq_name request, tn_slug = tq_slug request,
                           tn_created_at = now \<rparr>;
                 node = create_node_identity (te_ext env) node_id secret now
                          (tq_name request @ '' managed node'') (Some tenant_id);
                 core = hs_core st;
                 st1 = st\<lparr>hs_tenants := om_put tenant_id tenant (hs_tenants st),
                          hs_core := core\<lparr>st_node_identities :=
                            om_put node_id node (st_node_identities core)\<rparr>\<rparr>
             in persisted env tenant (record_if_given ctx HW_CreateTenant now audit_id st1)))"

text \<open>The User a development token is for: an existing one is kept, a new one is added.\<close>

definition ensure_user :: "uuid \<Rightarrow> time \<Rightarrow> home_store \<Rightarrow> home_store" where
  "ensure_user user_id now st =
     (case om_get (hs_users st) user_id of
        Some _ \<Rightarrow> st
      | None \<Rightarrow> st\<lparr>hs_users := om_put user_id
          \<lparr> us_id = user_id, us_display_name = ''Remote Agent User'', us_created_at = now \<rparr> (hs_users st)\<rparr>)"

definition ensure_tenant_member :: "uuid option \<Rightarrow> uuid \<Rightarrow> time \<Rightarrow> home_store \<Rightarrow> home_store" where
  "ensure_tenant_member tenant user_id now st =
     (case tenant of
        None \<Rightarrow> st
      | Some tenant_id \<Rightarrow>
          if list_ex (\<lambda>t. tu_tenant_id t = tenant_id \<and> tu_user_id t = user_id) (hs_tenant_users st)
          then st
          else st\<lparr>hs_tenant_users := hs_tenant_users st @
                 [\<lparr> tu_tenant_id = tenant_id, tu_user_id = user_id, tu_role = TR_Member,
                    tu_created_at = now \<rparr>]\<rparr>)"

text \<open>A development token's harness is interactive, with no capability and no Pod scope.\<close>

definition create_dev_token_inner ::
  "tools_env \<Rightarrow> uuid \<times> uuid \<times> uuid \<times> uuid \<Rightarrow> string \<Rightarrow> time \<Rightarrow> auth_context option \<Rightarrow> dev_token_request
    \<Rightarrow> home_store \<Rightarrow> home_store \<times> (agent_tools_error + dev_token_response)" where
  "create_dev_token_inner env ids token now ctx request st =
     (case authorize_if_given env st ctx Cap_Administration of
        Inl e \<Rightarrow> (st, Inl e)
      | Inr _ \<Rightarrow>
      (case (case dq_tenant_slug request of
               None \<Rightarrow> Inr None
             | Some slug \<Rightarrow> (case tenant_by_slug env st slug of
                              Inl e \<Rightarrow> Inl e | Inr t \<Rightarrow> Inr (Some (tn_id t)))) of
         Inl e \<Rightarrow> (st, Inl (AT_Store e))
       | Inr tenant \<Rightarrow>
           (case ids of (drawn_user, harness_id, token_id, audit_id) \<Rightarrow>
            let user_id = (case dq_user_id request of None \<Rightarrow> drawn_user | Some u \<Rightarrow> u);
                st1 = ensure_tenant_member tenant user_id now (ensure_user user_id now st);
                harness = \<lparr> ah_id = harness_id, ah_user_id = user_id, ah_tenant_id = tenant,
                  ah_label = dq_label request, ah_kind = Interactive,
                  ah_grant = \<lparr> hg_capabilities = [], hg_pod_ids = None \<rparr>,
                  ah_created_at = now, ah_revoked_at = None \<rparr>;
                row = \<lparr> tk_id = token_id, tk_user_id = user_id, tk_tenant_id = tenant,
                  tk_token_hash = hash_api_token env token, tk_label = dq_label request,
                  tk_created_at = now, tk_last_used_at = None, tk_revoked_at = None,
                  tk_harness_id = Some harness_id \<rparr>;
                st2 = st1\<lparr>hs_agent_harnesses := om_put harness_id harness (hs_agent_harnesses st1),
                          hs_api_tokens := om_put token_id row (hs_api_tokens st1)\<rparr>
            in persisted env
                 \<lparr> dr_token = token, dr_token_hash = hash_api_token env token, dr_user_id = user_id,
                   dr_tenant_id = tenant \<rparr>
                 (record_if_given ctx HW_CreateDevToken now audit_id st2))))"

section \<open>Authentication\<close>

text \<open>A token's harness, if it has one, exists and is not revoked.\<close>

definition token_harness_live :: "home_store \<Rightarrow> api_token \<Rightarrow> bool" where
  "token_harness_live st t =
     (case tk_harness_id t of
        None \<Rightarrow> True
      | Some harness_id \<Rightarrow>
          (case om_get (hs_agent_harnesses st) harness_id of
             None \<Rightarrow> False | Some harness \<Rightarrow> ah_revoked_at harness = None))"

definition authenticate_token ::
  "tools_env \<Rightarrow> time \<Rightarrow> string \<Rightarrow> home_store \<Rightarrow> home_store \<times> (agent_tools_error + auth_context option)" where
  "authenticate_token env now token st =
     (case find (\<lambda>(_, t). tk_token_hash t = hash_api_token env token \<and> tk_revoked_at t = None)
             (uuid_entries env (hs_api_tokens st)) of
        None \<Rightarrow> (st, Inr None)
      | Some (token_id, t) \<Rightarrow>
          if \<not> token_harness_live st t then (st, Inr None)
          else case node_for_tenant (te_ext env) (hs_core st) (tk_tenant_id t) of
            Inl e \<Rightarrow> (st, Inl (AT_Store e))
          | Inr node \<Rightarrow>
              persisted env
                (Some \<lparr> ctx_user_id = Some (tk_user_id t), ctx_tenant_id = tk_tenant_id t,
                        ctx_node_id = nd_id node, ctx_harness_id = tk_harness_id t \<rparr>)
                (st\<lparr>hs_api_tokens := om_put token_id (t\<lparr>tk_last_used_at := Some now\<rparr>)
                      (hs_api_tokens st)\<rparr>))"

definition node_info_tool :: "tools_env \<Rightarrow> auth_context \<Rightarrow> home_store \<Rightarrow> agent_tools_error + node_info" where
  "node_info_tool env ctx st =
     (case harness_for_context st ctx of
        Inl e \<Rightarrow> Inl e
      | Inr _ \<Rightarrow>
          (case node_for_tenant (te_ext env) (hs_core st) (ctx_tenant_id ctx) of
             Inl e \<Rightarrow> Inl (AT_Store e)
           | Inr node \<Rightarrow>
               Inr \<lparr> ni_node_id = nd_id node, ni_display_name = nd_display_name node,
                     ni_public_key = nd_public_key node,
                     ni_supported_protocol_version = current_protocol_version \<rparr>))"

end
