(* ===== verification/Skill_Packs.thy ===== *)
theory Skill_Packs
  imports Home_Store
begin

text \<open>
  Portable Pod Packages (\<open>skill_pack.rs\<close>): the package a new Pod starts with, the checks of a
  package's texts and Source Rules, and the edits that make a new version. Reading YAML and parsing
  a URL are the crates'; every check on what they return is the code's.
\<close>

section \<open>Text\<close>

fun find_sub :: "'a list \<Rightarrow> 'a list \<Rightarrow> nat option" where
  "find_sub p [] = (if p = [] then Some 0 else None)"
| "find_sub p (c # cs) =
     (if starts_with p (c # cs) then Some 0 else map_option Suc (find_sub p cs))"

definition contains :: "'a list \<Rightarrow> 'a list \<Rightarrow> bool" where
  "contains s p \<longleftrightarrow> find_sub p s \<noteq> None"

definition ascii_lower :: "string \<Rightarrow> string" where
  "ascii_lower s = map ascii_lower_char s"

text \<open>\<open>str::replace\<close> with a non-empty pattern: the second argument counts what a match still covers.\<close>

fun replace_from :: "string \<Rightarrow> string \<Rightarrow> nat \<Rightarrow> string \<Rightarrow> string" where
  "replace_from p r k [] = []"
| "replace_from p r (Suc k) (c # cs) = replace_from p r k cs"
| "replace_from p r 0 (c # cs) =
     (if starts_with p (c # cs) then r @ replace_from p r (length p - 1) cs
      else c # replace_from p r 0 cs)"

definition unlines :: "string list \<Rightarrow> string" where
  "unlines ls = concat (map (\<lambda>l. l @ [CHR 0x0A]) ls)"

fun join_with :: "string \<Rightarrow> string list \<Rightarrow> string" where
  "join_with sep [] = []"
| "join_with sep [s] = s"
| "join_with sep (s # t # ss) = s @ sep @ join_with sep (t # ss)"

section \<open>Credentials in Source Rules\<close>

definition credential_names :: "string list" where
  "credential_names =
     [''api_key'', ''apikey'', ''access_token'', ''refresh_token'', ''id_token'', ''auth_token'',
      ''bearer_token'', ''token'', ''client_secret'', ''secret'', ''password'']"

definition has_credential_assignment :: "string \<Rightarrow> bool" where
  "has_credential_assignment value \<longleftrightarrow>
     list_ex (\<lambda>n. contains value (n @ ''='') \<or> contains value (n @ '':'')) credential_names \<or>
     contains value ''authorization:''"

definition validate_credential_free_url :: "tools_env \<Rightarrow> string \<Rightarrow> string + unit" where
  "validate_credential_free_url env url =
     (if x_url_scheme (te_ext env) url \<notin> {''http'', ''https''}
      then Inl ''website URL must use HTTP or HTTPS''
      else if te_url_username env url \<noteq> [] \<or> te_url_password env url \<noteq> None
      then Inl ''URL user information is not allowed''
      else if te_url_query env url \<noteq> None then Inl ''URL query parameters are not allowed''
      else if te_url_fragment env url \<noteq> None then Inl ''URL fragments are not allowed''
      else Inr ())"

definition next_http_scheme :: "string \<Rightarrow> nat option" where
  "next_http_scheme value =
     (case (find_sub ''http://'' value, find_sub ''https://'' value) of
        (None, b) \<Rightarrow> b
      | (a, None) \<Rightarrow> a
      | (Some a, Some b) \<Rightarrow> Some (min a b))"

text \<open>An embedded address ends before white space or a closing mark.\<close>

definition is_url_end :: "char \<Rightarrow> bool" where
  "is_url_end c \<longleftrightarrow>
     c \<in> {CHR '')'', CHR '']'', CHR ''}'', CHR '','', CHR '';'', CHR ''<'', CHR ''>'', CHR 0x22, CHR 0x27}"

fun url_length :: "string \<Rightarrow> nat" where
  "url_length [] = 0"
| "url_length (c # cs) =
     (if is_url_end c \<or> strip_one white_space_encodings (c # cs) \<noteq> None then 0
      else Suc (url_length cs))"

lemma find_sub_starts: "find_sub p s = Some n \<Longrightarrow> starts_with p (drop n s)"
  by (induction p s arbitrary: n rule: find_sub.induct) (auto split: if_splits)

lemma starts_with_map_hd: "starts_with (p # ps) (map f s) \<Longrightarrow> s \<noteq> [] \<and> f (hd s) = p"
  by (cases s) auto

lemma next_http_scheme_hd:
  "next_http_scheme (ascii_lower rest) = Some n \<Longrightarrow>
    drop n rest \<noteq> [] \<and> ascii_lower_char (hd (drop n rest)) = CHR ''h''"
  unfolding next_http_scheme_def ascii_lower_def
  by (auto simp: min_def drop_map split: option.splits if_splits dest!: find_sub_starts starts_with_map_hd)

lemma lower_h:
  assumes "ascii_lower_char c = CHR ''h''"
  shows "c = CHR ''h'' \<or> c = CHR ''H''"
proof (cases "65 \<le> (of_char c :: nat) \<and> (of_char c :: nat) \<le> 90")
  case True
  then have "char_of (of_char c + 32 :: nat) = CHR ''h''"
    using assms by (simp add: ascii_lower_char_def)
  then have "of_char (char_of (of_char c + 32 :: nat) :: char) = (104 :: nat)"
    by simp
  then have "of_char c = (72 :: nat)"
    using True by simp
  then have "char_of (of_char c :: nat) = (char_of (72 :: nat) :: char)"
    by simp
  moreover have "char_of (72 :: nat) = CHR ''H''"
    by code_simp
  ultimately show ?thesis by simp
next
  case False
  then show ?thesis using assms by (auto simp: ascii_lower_char_def Let_def)
qed

lemma url_length_scheme:
  assumes "next_http_scheme (ascii_lower rest) = Some n"
  shows "0 < url_length (drop n rest)" and "n < length rest"
proof -
  obtain c cs where d: "drop n rest = c # cs" and "ascii_lower_char c = CHR ''h''"
    using next_http_scheme_hd[OF assms] by (cases "drop n rest") auto
  then have "c = CHR ''h'' \<or> c = CHR ''H''"
    by (simp add: lower_h)
  then have "\<not> is_url_end c" and plain: "is_plain c"
    by (auto simp: is_url_end_def is_plain_def)
  have "strip_one white_space_encodings (c # cs) = None"
    using plain white_space_heads(1) unfolding strip_one_def
    by (auto simp: find_None_iff list_all_iff dest!: starts_with_hd split: option.splits)
  with \<open>\<not> is_url_end c\<close> show "0 < url_length (drop n rest)"
    by (simp add: d)
  show "n < length rest"
    using d by (metis drop_all leI list.distinct(1))
qed

lemma url_scan_shrinks:
  assumes "next_http_scheme (ascii_lower rest) = Some n"
  shows "length rest - (url_length (drop n rest) + n) < length rest"
  using url_length_scheme[OF assms] by linarith

text \<open>
  The scan of a text for embedded addresses: it ends because every address it finds has at least
  one byte before the next mark.
\<close>

function check_embedded_urls :: "tools_env \<Rightarrow> string \<Rightarrow> string + unit" where
  "check_embedded_urls env rest =
     (case next_http_scheme (ascii_lower rest) of
        None \<Rightarrow> Inr ()
      | Some n \<Rightarrow>
          let candidate = drop n rest; size = url_length candidate
          in case x_url_parse (te_ext env) (take size candidate) of
               Inl _ \<Rightarrow> Inl ''invalid embedded URL''
             | Inr url \<Rightarrow>
                 (case validate_credential_free_url env url of
                    Inl e \<Rightarrow> Inl e
                  | Inr _ \<Rightarrow> check_embedded_urls env (drop size candidate)))"
  by pat_completeness auto

termination
  by (relation "measure (\<lambda>(env, rest). length rest)")
    (auto simp: url_scan_shrinks)

declare check_embedded_urls.simps [simp del]

definition validate_credential_free_text :: "tools_env \<Rightarrow> string \<Rightarrow> string + unit" where
  "validate_credential_free_text env value =
     (case check_embedded_urls env value of
        Inl e \<Rightarrow> Inl e
      | Inr _ \<Rightarrow>
          if has_credential_assignment (ascii_lower value)
          then Inl ''embedded credentials are not allowed'' else Inr ())"

text \<open>An address of a rule; the URL crate's own error is passed on.\<close>

definition credential_free_url_error :: "tools_env \<Rightarrow> string \<Rightarrow> string option" where
  "credential_free_url_error env value =
     (case x_url_parse (te_ext env) value of
        Inl e \<Rightarrow> Some e
      | Inr url \<Rightarrow>
          (case validate_credential_free_url env url of Inl e \<Rightarrow> Some e | Inr _ \<Rightarrow> None))"

definition is_label_char :: "char \<Rightarrow> bool" where
  "is_label_char c \<longleftrightarrow>
     (let n = of_char c :: nat
      in 48 \<le> n \<and> n \<le> 57 \<or> 65 \<le> n \<and> n \<le> 90 \<or> 97 \<le> n \<and> n \<le> 122 \<or> c = CHR ''-'')"

definition label_is_valid :: "string \<Rightarrow> bool" where
  "label_is_valid label \<longleftrightarrow>
     label \<noteq> [] \<and> length label \<le> 63 \<and> hd label \<noteq> CHR ''-'' \<and> last label \<noteq> CHR ''-'' \<and>
     list_all is_label_char label"

definition domain_name_error :: "tools_env \<Rightarrow> string \<Rightarrow> string option" where
  "domain_name_error env value =
     (case x_url_parse (te_ext env) (''https://'' @ value) of
        Inl e \<Rightarrow> Some e
      | Inr parsed \<Rightarrow>
          if CHR ''.'' \<in> set value \<and> length value \<le> 253 \<and>
             list_all label_is_valid (split_on (CHR ''.'') value) \<and>
             te_url_domain env parsed = Some value \<and> te_url_port env parsed = None \<and>
             x_url_path (te_ext env) parsed = ''/'' \<and> te_url_query env parsed = None \<and>
             te_url_fragment env parsed = None
          then None else Some ''invalid credential-free domain name'')"

definition text_error :: "tools_env \<Rightarrow> string \<Rightarrow> string option" where
  "text_error env value =
     (case validate_credential_free_text env value of Inl e \<Rightarrow> Some e | Inr _ \<Rightarrow> None)"

fun inspection_error :: "tools_env \<Rightarrow> inspection_kind \<Rightarrow> string option" where
  "inspection_error env (IK_Publication name) = text_error env name"
| "inspection_error env (IK_SearchTopic topic) = text_error env topic"
| "inspection_error env (IK_Website url) = credential_free_url_error env url"
| "inspection_error env (IK_Timeline url) = credential_free_url_error env url"
| "inspection_error env (IK_Account url) = credential_free_url_error env url"
| "inspection_error env (IK_Domain domain) = domain_name_error env domain"

text \<open>
  \<open>InspectionKind::is_empty\<close>. A parsed URL's text is never empty, so an accepted address is not.
\<close>

fun inspection_is_empty :: "inspection_kind \<Rightarrow> bool" where
  "inspection_is_empty (IK_Publication name) \<longleftrightarrow> trim name = []"
| "inspection_is_empty (IK_SearchTopic topic) \<longleftrightarrow> trim topic = []"
| "inspection_is_empty (IK_Domain domain) \<longleftrightarrow> domain = []"
| "inspection_is_empty _ \<longleftrightarrow> False"

section \<open>Reading the rules\<close>

definition rule_errors :: "tools_env \<Rightarrow> source_rule_suggestion \<Rightarrow> string list" where
  "rule_errors env rule =
     List.map_filter (\<lambda>e. e) [inspection_error env (sr_inspect rule), text_error env (sr_seek_description rule)]"

definition read_source_rules :: "tools_env \<Rightarrow> string \<Rightarrow> string + source_rule_suggestion list" where
  "read_source_rules env sources_yaml =
     (case te_yaml_source_rules env sources_yaml of
        Inl e \<Rightarrow> Inl e
      | Inr rules \<Rightarrow>
          (case concat (map (rule_errors env) rules) of
             [] \<Rightarrow> Inr rules
           | errors \<Rightarrow> Inl (te_yaml_custom_error env sources_yaml errors)))"

definition source_rule_cadences ::
  "tools_env \<Rightarrow> string \<Rightarrow> pod_package_validation_error + source_rule_cadence list" where
  "source_rule_cadences env sources_yaml =
     (case read_source_rules env sources_yaml of
        Inl e \<Rightarrow> Inl (PV_InvalidSourceRules e)
      | Inr rules \<Rightarrow> Inr (map sr_cadence rules))"

section \<open>Validation of a package\<close>

definition components_of :: "pod_package_contents \<Rightarrow> (string \<times> string) list" where
  "components_of c =
     [(''CONTEXT.md'', pc_context_md c), (''SKILL.md'', pc_skill_md c),
      (''sources.yaml'', pc_sources_yaml c), (''filters.yaml'', pc_filters_yaml c),
      (''examples.good.md'', pc_examples_good_md c), (''examples.bad.md'', pc_examples_bad_md c)]"

definition empty_component_errors :: "pod_package_contents \<Rightarrow> pod_package_validation_error list" where
  "empty_component_errors c =
     map (\<lambda>(component, _). PV_EmptyComponent component)
       (filter (\<lambda>(_, value). trim value = []) (components_of c))"

definition context_errors :: "tools_env \<Rightarrow> pod_package_contents \<Rightarrow> pod_package_validation_error list" where
  "context_errors env c =
     (let context_md = te_lowercase env (pc_context_md c)
      in if contains context_md ''## instructions'' \<or> contains context_md ''ignore harness'' \<or>
            contains context_md ''you must''
         then [PV_ContextContainsInstructions] else [])"

definition rule_is_incomplete :: "source_rule_suggestion \<Rightarrow> bool" where
  "rule_is_incomplete rule \<longleftrightarrow> inspection_is_empty (sr_inspect rule) \<or> trim (sr_seek_description rule) = []"

definition source_errors :: "tools_env \<Rightarrow> pod_package_contents \<Rightarrow> pod_package_validation_error list" where
  "source_errors env c =
     (if trim (pc_sources_yaml c) = [] then []
      else case read_source_rules env (pc_sources_yaml c) of
        Inl e \<Rightarrow> [PV_InvalidSourceRules e]
      | Inr [] \<Rightarrow> [PV_InvalidSourceRules ''at least one Source Rule is required'']
      | Inr rules \<Rightarrow>
          map (\<lambda>_. PV_InvalidSourceRules ''each rule requires inspect, seek, and schedule'')
            (filter rule_is_incomplete rules))"

definition filter_errors :: "tools_env \<Rightarrow> pod_package_contents \<Rightarrow> pod_package_validation_error list" where
  "filter_errors env c =
     (if trim (pc_filters_yaml c) = [] then []
      else case te_yaml_value env (pc_filters_yaml c) of
        Some e \<Rightarrow> [PV_InvalidFilters e] | None \<Rightarrow> [])"

definition pod_package_validation_errors ::
  "tools_env \<Rightarrow> pod_package_contents \<Rightarrow> pod_package_validation_error list" where
  "pod_package_validation_errors env c =
     empty_component_errors c @ context_errors env c @ source_errors env c @ filter_errors env c"

definition validate_pod_package_contents :: "tools_env \<Rightarrow> pod_package_contents \<Rightarrow> validation_report" where
  "validate_pod_package_contents env c =
     (let errors = pod_package_validation_errors env c
      in \<lparr> vr_valid = (errors = []), vr_errors = map pv_to_string errors,
           vr_warnings = (if trim (pc_skill_md c) \<noteq> [] \<and> CHR ''#'' \<notin> set (pc_skill_md c)
                          then [''SKILL.md has no headings''] else []) \<rparr>)"

definition validate_pod_package_contents_typed ::
  "tools_env \<Rightarrow> pod_package_contents \<Rightarrow> pod_package_validation_error list + unit" where
  "validate_pod_package_contents_typed env c =
     (case pod_package_validation_errors env c of [] \<Rightarrow> Inr () | errors \<Rightarrow> Inl errors)"

definition contents_of_pack :: "pod_skill_pack \<Rightarrow> pod_package_contents" where
  "contents_of_pack k =
     \<lparr> pc_context_md = pk_context_md k, pc_skill_md = pk_skill_md k,
       pc_sources_yaml = pk_sources_yaml k, pc_filters_yaml = pk_filters_yaml k,
       pc_examples_good_md = pk_examples_good_md k, pc_examples_bad_md = pk_examples_bad_md k \<rparr>"

definition validate_skill_pack :: "tools_env \<Rightarrow> pod_skill_pack \<Rightarrow> validation_report" where
  "validate_skill_pack env k = validate_pod_package_contents env (contents_of_pack k)"

end
