(* ===== verification/Task_Queue.thy ===== *)
theory Task_Queue
  imports Accounts Pod_Retention Skill_Packs
begin

text \<open>
  The Discovery Task queue (\<open>agent_tools/discover/tasks.rs\<close>, \<open>agent_tools/discover/helpers.rs\<close>): a
  task is created, leased to one harness at a time, renewed, and finished by completion or failure;
  the third failed or expired attempt is terminal. The wall clock and the drawn identities of the
  audit rows are arguments (\<open>clock\<close>, \<open>audit_id\<close>); a loop that creates several tasks takes its draws
  from a function of the number already created.
\<close>

section \<open>Leases that ran out\<close>

definition max_discovery_task_attempts :: nat where
  "max_discovery_task_attempts = 3"

definition task_live_lease :: "discovery_task \<Rightarrow> time \<Rightarrow> bool" where
  "task_live_lease task now \<longleftrightarrow>
     (case dt_state task of DT_Leased lease \<Rightarrow> dl_expires_at lease > now | _ \<Rightarrow> False)"

definition task_is_finished :: "discovery_task \<Rightarrow> bool" where
  "task_is_finished task \<longleftrightarrow> dt_state task = DT_Completed \<or> dt_state task = DT_TerminalFailure"

definition task_with_expired_lease_recorded :: "discovery_task \<Rightarrow> time \<Rightarrow> discovery_task" where
  "task_with_expired_lease_recorded task now =
     (case dt_state task of
        DT_Leased lease \<Rightarrow>
          if dl_expires_at lease > now then task
          else
            let attempts = dt_attempts task @
                  [\<lparr> at_harness_id = dl_harness_id lease, at_started_at = dl_claimed_at lease,
                     at_finished_at = dl_expires_at lease, at_outcome = AO_LeaseExpired \<rparr>]
            in task\<lparr>dt_attempts := attempts,
                    dt_state := (if length attempts \<ge> max_discovery_task_attempts
                                 then DT_TerminalFailure else DT_Pending)\<rparr>
      | _ \<Rightarrow> task)"

section \<open>Creation\<close>

text \<open>
  The tasks that are due for one Package: one per Source Rule with a cadence, unless the task of
  this rule, Package version and period exists. \<open>k\<close> counts the rules.
\<close>

definition scheduled_task_exists ::
  "home_store \<Rightarrow> nat \<Rightarrow> discovery_task_target \<Rightarrow> time \<Rightarrow> bool" where
  "scheduled_task_exists st k target due_at =
     list_ex (\<lambda>task. dt_origin task = DO_Scheduled k \<and> dt_target task = target \<and> dt_due_at task = due_at)
       (om_vals (hs_discovery_tasks st))"

fun materialize_rules ::
  "tools_env \<Rightarrow> (nat \<Rightarrow> uuid \<times> uuid \<times> time) \<Rightarrow> time \<Rightarrow> auth_context \<Rightarrow> uuid \<Rightarrow> int \<Rightarrow> nat
    \<Rightarrow> source_rule_cadence list \<Rightarrow> home_store \<times> discovery_task list \<Rightarrow> home_store \<times> discovery_task list" where
  "materialize_rules env draw now ctx pod_id version k [] acc = acc"
| "materialize_rules env draw now ctx pod_id version k (cadence # cadences) (st, created) =
     materialize_rules env draw now ctx pod_id version (Suc k) cadences
       (if cadence = SC_OnDemand then (st, created)
        else
          let due_at = source_rule_period_start (te_month_start env) cadence now;
              target = TT_Pod pod_id version
          in if scheduled_task_exists st k target due_at then (st, created)
             else
               case draw (length created) of (task_id, audit_id, clock) \<Rightarrow>
               let task = \<lparr> dt_id = task_id, dt_target = target, dt_origin = DO_Scheduled k,
                     dt_due_at = due_at, dt_state = DT_Pending, dt_attempts = [],
                     dt_created_at = now \<rparr>
               in (record_harness_write_at ctx HW_CreateDiscoveryTask (Some pod_id) clock audit_id
                     (st\<lparr>hs_discovery_tasks := om_put task_id task (hs_discovery_tasks st)\<rparr>),
                   created @ [task]))"

text \<open>A Package that cannot be read stops the loop; the tasks created before it stay in memory.\<close>

fun materialize_packages ::
  "tools_env \<Rightarrow> (nat \<Rightarrow> uuid \<times> uuid \<times> time) \<Rightarrow> time \<Rightarrow> auth_context \<Rightarrow> pod_skill_pack list
    \<Rightarrow> home_store \<times> discovery_task list \<Rightarrow> home_store \<times> (agent_tools_error + discovery_task list)" where
  "materialize_packages env draw now ctx [] acc = (fst acc, Inr (snd acc))"
| "materialize_packages env draw now ctx (package # packages) acc =
     (case package_version_new (pk_version package) of
        Inl v \<Rightarrow> (fst acc, Inl (AT_Store (Validation (package_version_error_to_string v))))
      | Inr version \<Rightarrow>
          (case source_rule_cadences env (pk_sources_yaml package) of
             Inl e \<Rightarrow> (fst acc, Inl (AT_Store (Validation (pv_to_string e))))
           | Inr cadences \<Rightarrow>
               materialize_packages env draw now ctx packages
                 (materialize_rules env draw now ctx (pk_pod_id package) version 0 cadences acc)))"

text \<open>The Packages a caller's grant covers.\<close>

definition packages_in_scope :: "tools_env \<Rightarrow> agent_harness option \<Rightarrow> home_store \<Rightarrow> pod_skill_pack list" where
  "packages_in_scope env harness st =
     filter (\<lambda>package.
         case (case harness of None \<Rightarrow> None | Some h \<Rightarrow> hg_pod_ids (ah_grant h)) of
           None \<Rightarrow> True
         | Some pods \<Rightarrow> pk_pod_id package \<in> set pods)
       (uuid_values env (st_pod_skill_packs (hs_core st)))"

definition materialize_due_discovery_tasks ::
  "tools_env \<Rightarrow> (nat \<Rightarrow> uuid \<times> uuid \<times> time) \<Rightarrow> auth_context \<Rightarrow> time \<Rightarrow> home_store
    \<Rightarrow> home_store \<times> (agent_tools_error + discovery_task list)" where
  "materialize_due_discovery_tasks env draw ctx now st =
     (case authorize_harness env st ctx Cap_DiscoveryTasks None of
        Inl e \<Rightarrow> (st, Inl e)
      | Inr _ \<Rightarrow>
      (case harness_for_context st ctx of
         Inl e \<Rightarrow> (st, Inl e)
       | Inr harness \<Rightarrow>
           (case materialize_packages env draw now ctx (packages_in_scope env harness st) (st, []) of
              (st', Inl e) \<Rightarrow> (st', Inl e)
            | (st', Inr created) \<Rightarrow> persisted env created st')))"

text \<open>The task a harness created before under the same idempotency key.\<close>

definition same_request :: "uuid \<Rightarrow> string \<Rightarrow> discovery_task \<Rightarrow> bool" where
  "same_request requested_by key task \<longleftrightarrow>
     (case dt_origin task of
        DO_Immediate _ key' creator \<Rightarrow> creator = requested_by \<and> key' = key | _ \<Rightarrow> False)"

definition create_immediate_discovery_task ::
  "tools_env \<Rightarrow> uuid \<times> uuid \<times> time \<Rightarrow> auth_context \<Rightarrow> create_immediate_discovery_task_request \<Rightarrow> time
    \<Rightarrow> home_store \<Rightarrow> home_store \<times> (agent_tools_error + discovery_task)" where
  "create_immediate_discovery_task env draw ctx request now st =
     (case authorize_harness env st ctx Cap_DiscoveryTasks (Some (iq_pod_id request)) of
        Inl e \<Rightarrow> (st, Inl e)
      | Inr _ \<Rightarrow>
      (case ctx_harness_id ctx of
         None \<Rightarrow> (st, Inl (AT_Forbidden ''immediate tasks require an Agent Harness''))
       | Some requested_by \<Rightarrow>
      if trim (iq_instructions request) = [] \<or> trim (iq_idempotency_key request) = []
      then (st, Inl (AT_Store (Validation
              ''immediate task instructions and idempotency key must not be empty'')))
      else
      (case find (same_request requested_by (iq_idempotency_key request))
              (uuid_values env (hs_discovery_tasks st)) of
         Some existing \<Rightarrow> (st, Inr existing)
       | None \<Rightarrow>
      (case om_get (st_pod_skill_packs (hs_core st)) (iq_pod_id request) of
         None \<Rightarrow> (st, Inl (AT_Store (NotFound ''Pod Package'')))
       | Some package \<Rightarrow>
      (case package_version_new (pk_version package) of
         Inl v \<Rightarrow> (st, Inl (AT_Store (Validation (package_version_error_to_string v))))
       | Inr version \<Rightarrow>
         (case draw of (task_id, audit_id, clock) \<Rightarrow>
          let task = \<lparr> dt_id = task_id, dt_target = TT_Pod (iq_pod_id request) version,
                dt_origin = DO_Immediate (iq_instructions request) (iq_idempotency_key request) requested_by,
                dt_due_at = now, dt_state = DT_Pending, dt_attempts = [], dt_created_at = now \<rparr>
          in persisted env task
               (record_harness_write_at ctx HW_CreateDiscoveryTask (Some (iq_pod_id request)) clock audit_id
                  (st\<lparr>hs_discovery_tasks := om_put task_id task (hs_discovery_tasks st)\<rparr>))))))))"

section \<open>Reading\<close>

text \<open>What a list shows: the tasks the caller may act on, expired leases shown as recorded.\<close>

definition visible_discovery_tasks ::
  "tools_env \<Rightarrow> auth_context \<Rightarrow> time \<Rightarrow> home_store \<Rightarrow> agent_tools_error + discovery_task list" where
  "visible_discovery_tasks env ctx now st =
     (case (authorize_personal_discovery_execution env st ctx,
            authorize_harness env st ctx Cap_DiscoveryTasks None) of
        (Inl _, Inl e) \<Rightarrow> Inl e
      | _ \<Rightarrow> Inr (map (\<lambda>task. task_with_expired_lease_recorded task now)
               (filter (\<lambda>task. \<not> isl (authorize_discovery_task env st ctx task))
                 (uuid_values env (hs_discovery_tasks st)))))"

text \<open>The filter of \<open>list_ready_discovery_tasks\<close>.\<close>

definition ready_discovery_tasks :: "time \<Rightarrow> discovery_task list \<Rightarrow> discovery_task list" where
  "ready_discovery_tasks now tasks = filter (\<lambda>t. dt_state t = DT_Pending \<and> dt_due_at t \<le> now) tasks"

definition discovery_task_status ::
  "tools_env \<Rightarrow> auth_context \<Rightarrow> uuid \<Rightarrow> time \<Rightarrow> home_store \<Rightarrow> agent_tools_error + discovery_task" where
  "discovery_task_status env ctx task_id now st =
     (case om_get (hs_discovery_tasks st) task_id of
        None \<Rightarrow> Inl (AT_Store (NotFound ''Discovery Task''))
      | Some task \<Rightarrow>
          (case authorize_discovery_task env st ctx task of
             Inl e \<Rightarrow> Inl e
           | Inr _ \<Rightarrow> Inr (task_with_expired_lease_recorded task now)))"

text \<open>
  \<open>discovery_plan\<close>: a plan is read by the interactive owner it belongs to, or by the worker that
  holds an unexpired lease of a task for it.
\<close>

definition plan_assigned_to :: "home_store \<Rightarrow> uuid \<Rightarrow> uuid \<Rightarrow> time \<Rightarrow> bool" where
  "plan_assigned_to st plan_id harness_id now =
     list_ex (\<lambda>task. tt_discovery_plan_id (dt_target task) = Some plan_id \<and>
         (case dt_state task of
            DT_Leased lease \<Rightarrow> dl_harness_id lease = harness_id \<and> dl_expires_at lease > now
          | _ \<Rightarrow> False))
       (om_vals (hs_discovery_tasks st))"

definition discovery_plan_of ::
  "tools_env \<Rightarrow> auth_context \<Rightarrow> uuid \<Rightarrow> time \<Rightarrow> home_store \<Rightarrow> agent_tools_error + discovery_plan" where
  "discovery_plan_of env ctx plan_id clock st =
     (case om_get (hs_discovery_plans st) plan_id of
        None \<Rightarrow> Inl (AT_Store (NotFound ''Discovery Plan''))
      | Some plan \<Rightarrow>
          if \<not> isl (authorize_personal_discovery_management env st ctx) \<and>
             ctx_user_id ctx = Some (pl_user_id plan) \<and> ctx_tenant_id ctx = pl_tenant_id plan
          then Inr plan
          else
          (case authorize_personal_discovery_execution env st ctx of
             Inl e \<Rightarrow> Inl e
           | Inr _ \<Rightarrow>
               (case ctx_harness_id ctx of
                  None \<Rightarrow> Inl AT_TaskLeaseRequired
                | Some harness_id \<Rightarrow>
                    if plan_assigned_to st plan_id harness_id clock then Inr plan
                    else Inl AT_TaskLeaseRequired)))"

section \<open>Leasing\<close>

text \<open>\<open>checked_add_signed\<close>: the sum, if chrono can represent it.\<close>

definition lease_expiry :: "tools_env \<Rightarrow> time \<Rightarrow> nat \<Rightarrow> time option" where
  "lease_expiry env now lease =
     (let t = now + lease_as_duration lease in if t \<le> te_latest_time env then Some t else None)"

definition put_task :: "uuid \<Rightarrow> discovery_task \<Rightarrow> home_store \<Rightarrow> home_store" where
  "put_task task_id task st = st\<lparr>hs_discovery_tasks := om_put task_id task (hs_discovery_tasks st)\<rparr>"

definition lease_out_of_range :: agent_tools_error where
  "lease_out_of_range =
     AT_Store (Validation ''lease expiration is outside the supported time range'')"

text \<open>The task of a mutation; it exists, since the mutation was authorized on it.\<close>

definition task_at :: "home_store \<Rightarrow> uuid \<Rightarrow> discovery_task option" where
  "task_at st task_id = om_get (hs_discovery_tasks st) task_id"

text \<open>
  A claim first records an expired lease, in memory even when the claim is then refused because
  that was the last attempt.
\<close>

definition claim_discovery_task ::
  "tools_env \<Rightarrow> uuid \<Rightarrow> time \<Rightarrow> auth_context \<Rightarrow> uuid \<Rightarrow> time \<Rightarrow> nat \<Rightarrow> home_store
    \<Rightarrow> home_store \<times> (agent_tools_error + discovery_task)" where
  "claim_discovery_task env audit_id clock ctx task_id now lease_duration st =
     (case authorized_discovery_task_mutation env st ctx task_id of
        Inl e \<Rightarrow> (st, Inl e)
      | Inr (pod_id, harness_id) \<Rightarrow>
      (case lease_expiry env now lease_duration of
         None \<Rightarrow> (st, Inl lease_out_of_range)
       | Some expires_at \<Rightarrow>
      (case task_at st task_id of
         None \<Rightarrow> (st, Inl (AT_Store (NotFound ''Discovery Task'')))
       | Some stored \<Rightarrow>
           let task = task_with_expired_lease_recorded stored now;
               st1 = put_task task_id task st
           in if task_is_finished task then (st1, Inl AT_TaskTerminal)
              else if task_live_lease task now then (st1, Inl AT_TaskLeaseConflict)
              else
                let leased = task\<lparr>dt_state := DT_Leased
                      \<lparr> dl_harness_id = harness_id, dl_claimed_at = now, dl_expires_at = expires_at \<rparr>\<rparr>
                in persisted env leased
                     (record_harness_write_at ctx HW_ClaimDiscoveryTask pod_id clock audit_id
                        (put_task task_id leased st)))))"

text \<open>The lease a harness holds now.\<close>

definition held_lease :: "discovery_task \<Rightarrow> uuid \<Rightarrow> time \<Rightarrow> discovery_task_lease option" where
  "held_lease task harness_id now =
     (case dt_state task of
        DT_Leased lease \<Rightarrow>
          if dl_harness_id lease \<noteq> harness_id \<or> dl_expires_at lease \<le> now then None else Some lease
      | _ \<Rightarrow> None)"

definition renew_discovery_task_lease ::
  "tools_env \<Rightarrow> uuid \<Rightarrow> time \<Rightarrow> auth_context \<Rightarrow> uuid \<Rightarrow> time \<Rightarrow> nat \<Rightarrow> home_store
    \<Rightarrow> home_store \<times> (agent_tools_error + discovery_task)" where
  "renew_discovery_task_lease env audit_id clock ctx task_id now lease_duration st =
     (case authorized_discovery_task_mutation env st ctx task_id of
        Inl e \<Rightarrow> (st, Inl e)
      | Inr (pod_id, harness_id) \<Rightarrow>
      (case lease_expiry env now lease_duration of
         None \<Rightarrow> (st, Inl lease_out_of_range)
       | Some expires_at \<Rightarrow>
      (case task_at st task_id of
         None \<Rightarrow> (st, Inl (AT_Store (NotFound ''Discovery Task'')))
       | Some task \<Rightarrow>
      (case held_lease task harness_id now of
         None \<Rightarrow> (st, Inl AT_TaskLeaseRequired)
       | Some lease \<Rightarrow>
           let renewed = task\<lparr>dt_state := DT_Leased (lease\<lparr>dl_expires_at := expires_at\<rparr>)\<rparr>
           in persisted env renewed
                (record_harness_write_at ctx HW_RenewDiscoveryTaskLease pod_id clock audit_id
                   (put_task task_id renewed st))))))"

section \<open>Finishing\<close>

definition attempt_outcome :: "string option \<Rightarrow> discovery_task_attempt_outcome" where
  "attempt_outcome failure = (case failure of Some reason \<Rightarrow> AO_Failed reason | None \<Rightarrow> AO_Completed)"

text \<open>The state after an attempt was appended.\<close>

definition state_after_attempt :: "discovery_task_attempt list \<Rightarrow> discovery_task_state" where
  "state_after_attempt attempts =
     (if attempts \<noteq> [] \<and> at_outcome (last attempts) = AO_Completed then DT_Completed
      else if length attempts \<ge> max_discovery_task_attempts then DT_TerminalFailure
      else DT_Pending)"

definition is_personal_target :: "discovery_task_target \<Rightarrow> bool" where
  "is_personal_target target = (case target of TT_Personal _ \<Rightarrow> True | TT_Pod _ _ \<Rightarrow> False)"

definition finish_discovery_task ::
  "tools_env \<Rightarrow> uuid \<Rightarrow> time \<Rightarrow> auth_context \<Rightarrow> uuid \<Rightarrow> time \<Rightarrow> string option \<Rightarrow> home_store
    \<Rightarrow> home_store \<times> (agent_tools_error + discovery_task)" where
  "finish_discovery_task env audit_id clock ctx task_id now failure st =
     (case authorized_discovery_task_mutation env st ctx task_id of
        Inl e \<Rightarrow> (st, Inl e)
      | Inr (pod_id, harness_id) \<Rightarrow>
      (case task_at st task_id of
         None \<Rightarrow> (st, Inl (AT_Store (NotFound ''Discovery Task'')))
       | Some task \<Rightarrow>
      (case held_lease task harness_id now of
         None \<Rightarrow> (st, Inl AT_TaskLeaseRequired)
       | Some lease \<Rightarrow>
      if failure = None \<and> is_personal_target (dt_target task)
      then (st, Inl (AT_Store (Validation
        ''Personal Discovery tasks complete only through complete_discovery_result_batch'')))
      else
        let attempts = dt_attempts task @
              [\<lparr> at_harness_id = harness_id, at_started_at = dl_claimed_at lease,
                 at_finished_at = now, at_outcome = attempt_outcome failure \<rparr>];
            finished = task\<lparr>dt_attempts := attempts, dt_state := state_after_attempt attempts\<rparr>;
            operation = (if dt_state finished = DT_Completed then HW_CompleteDiscoveryTask
                         else HW_FailDiscoveryTask)
        in persisted env finished
             (record_harness_write_at ctx operation pod_id clock audit_id (put_task task_id finished st)))))"

definition complete_discovery_task ::
  "tools_env \<Rightarrow> uuid \<Rightarrow> time \<Rightarrow> auth_context \<Rightarrow> uuid \<Rightarrow> time \<Rightarrow> home_store
    \<Rightarrow> home_store \<times> (agent_tools_error + discovery_task)" where
  "complete_discovery_task env audit_id clock ctx task_id now st =
     finish_discovery_task env audit_id clock ctx task_id now None st"

definition fail_discovery_task ::
  "tools_env \<Rightarrow> uuid \<Rightarrow> time \<Rightarrow> auth_context \<Rightarrow> uuid \<Rightarrow> time \<Rightarrow> string \<Rightarrow> home_store
    \<Rightarrow> home_store \<times> (agent_tools_error + discovery_task)" where
  "fail_discovery_task env audit_id clock ctx task_id now reason st =
     (if trim reason = [] then (st, Inl (AT_Store (Validation ''failure reason must not be empty'')))
      else finish_discovery_task env audit_id clock ctx task_id now (Some reason) st)"

end
