(* ===== verification/Account_Props.thy ===== *)
theory Account_Props
  imports Accounts Sample
begin

text \<open>
  What authentication and grants keep over every sequence of account operations: every token belongs
  to a harness of its User, and a revocation is permanent.
\<close>

section \<open>Map updates\<close>

lemma om_get_map_where: "om_get (om_map_where P f m) k = map_option (\<lambda>v. if P v then f v else v) (om_get m k)"
  by (induction m) (auto simp: om_map_where_def om_get_def split: prod.splits)

lemma om_keys_map_where [simp]: "om_keys (om_map_where P f m) = om_keys m"
  by (induction m) (auto simp: om_map_where_def)

lemma om_ok_map_where [simp]: "om_ok (om_map_where P f m) \<longleftrightarrow> om_ok m"
  by (simp add: om_ok_def om_map_where_def comp_def case_prod_unfold)

lemma uuid_entries_get: "(k, v) \<in> set (uuid_entries env m) \<Longrightarrow> om_get m k = Some v"
  by (auto simp: uuid_entries_def set_map_filter)

section \<open>The invariant\<close>

text \<open>
  Every token belongs to a harness of the same User and tenant; every grant is one a registration may
  give, unless grants were expanded since, which the Boolean says.
\<close>

definition grant_allowed :: "agent_harness \<Rightarrow> bool" where
  "grant_allowed h \<longleftrightarrow>
     (\<forall>c \<in> set (hg_capabilities (ah_grant h)). privileged c \<longrightarrow>
        ah_kind h = Interactive \<and> hg_capabilities (ah_grant h) = [c])"

definition accounts_ok :: "bool \<Rightarrow> home_store \<Rightarrow> bool" where
  "accounts_ok ex st \<longleftrightarrow>
     (\<forall>k t. om_get (hs_api_tokens st) k = Some t \<longrightarrow>
        (\<exists>h hs. tk_harness_id t = Some h \<and> om_get (hs_agent_harnesses st) h = Some hs \<and>
           tk_user_id t = ah_user_id hs \<and> tk_tenant_id t = ah_tenant_id hs)) \<and>
     (\<forall>h hs. om_get (hs_agent_harnesses st) h = Some hs \<longrightarrow> ah_id hs = h \<and> (ex \<or> grant_allowed hs))"

definition persistence_ok :: "tools_env \<Rightarrow> bool" where
  "persistence_ok env \<longleftrightarrow>
     (case te_persistence env of None \<Rightarrow> True | Some database \<Rightarrow> \<forall>st. database st = None)"

lemma persisted_ok [simp]: "persistence_ok env \<Longrightarrow> persisted env r st = (st, Inr r)"
  by (auto simp: persisted_def persist_locked_def persistence_ok_def split: option.splits)

lemma record_write_frame [simp]:
  "hs_api_tokens (record_harness_write_at ctx op p t i st) = hs_api_tokens st"
  "hs_agent_harnesses (record_harness_write_at ctx op p t i st) = hs_agent_harnesses st"
  "hs_core (record_harness_write_at ctx op p t i st) = hs_core st"
  "hs_discovery_tasks (record_harness_write_at ctx op p t i st) = hs_discovery_tasks st"
  "hs_discovery_plans (record_harness_write_at ctx op p t i st) = hs_discovery_plans st"
  by (simp_all add: record_harness_write_at_def split: option.splits)

lemma record_if_given_frame [simp]:
  "hs_api_tokens (record_if_given ctx op t i st) = hs_api_tokens st"
  "hs_agent_harnesses (record_if_given ctx op t i st) = hs_agent_harnesses st"
  by (simp_all add: record_if_given_def split: option.splits)

lemma ensure_frame [simp]:
  "hs_api_tokens (ensure_tenant_member tn u t st) = hs_api_tokens st"
  "hs_agent_harnesses (ensure_tenant_member tn u t st) = hs_agent_harnesses st"
  "hs_api_tokens (ensure_user u t st) = hs_api_tokens st"
  "hs_agent_harnesses (ensure_user u t st) = hs_agent_harnesses st"
  by (simp_all add: ensure_tenant_member_def ensure_user_def split: option.splits)

text \<open>
  The operations on accounts, by any caller. An identity that is drawn is not in use.
\<close>

inductive account_step :: "tools_env \<Rightarrow> home_store \<Rightarrow> home_store \<Rightarrow> bool" for env :: tools_env where
  step_register:
    "om_get (hs_agent_harnesses st) h = None \<Longrightarrow> om_get (hs_api_tokens st) t = None \<Longrightarrow>
     account_step env st (fst (register_agent_harness env (h, t, a) token now ctx request st))"
| step_dev_token:
    "om_get (hs_agent_harnesses st) h = None \<Longrightarrow> om_get (hs_api_tokens st) t = None \<Longrightarrow>
     account_step env st (fst (create_dev_token_inner env (u, h, t, a) token now given req st))"
| step_tenant: "account_step env st (fst (create_tenant_inner env ids secret now given treq st))"
| step_revoke: "account_step env st (fst (revoke_agent_harness env a now ctx h st))"
| step_authenticate: "account_step env st (fst (authenticate_token env now token st))"

text \<open>What one step writes to the two maps.\<close>

lemma accounts_ok_new:
  assumes ok: "accounts_ok ex st" and fresh: "om_get (hs_agent_harnesses st) h = None"
    and hs: "ah_id hs = h" "ex \<or> grant_allowed hs"
    and t: "tk_harness_id t = Some h" "tk_user_id t = ah_user_id hs" "tk_tenant_id t = ah_tenant_id hs"
    and st': "hs_agent_harnesses st' = om_put h hs (hs_agent_harnesses st)"
      "hs_api_tokens st' = om_put k t (hs_api_tokens st)"
  shows "accounts_ok ex st'"
proof -
  have "\<exists>h' hs'. tk_harness_id t' = Some h' \<and> om_get (hs_agent_harnesses st') h' = Some hs' \<and>
      tk_user_id t' = ah_user_id hs' \<and> tk_tenant_id t' = ah_tenant_id hs'"
    if "om_get (hs_api_tokens st') k' = Some t'" for k' t'
  proof (cases "k' = k")
    case True
    then show ?thesis using that st' t by auto
  next
    case False
    then have "om_get (hs_api_tokens st) k' = Some t'" using that st' by simp
    then obtain h' hs' where "tk_harness_id t' = Some h'" "om_get (hs_agent_harnesses st) h' = Some hs'"
      "tk_user_id t' = ah_user_id hs'" "tk_tenant_id t' = ah_tenant_id hs'"
      using ok unfolding accounts_ok_def by blast
    moreover from this(2) fresh have "h' \<noteq> h" by auto
    ultimately show ?thesis using st' by simp
  qed
  moreover have "ah_id hs' = h' \<and> (ex \<or> grant_allowed hs')" if "om_get (hs_agent_harnesses st') h' = Some hs'" for h' hs'
    using that st' hs ok by (auto simp: accounts_ok_def split: if_splits)
  ultimately show ?thesis unfolding accounts_ok_def by blast
qed

lemma normalized_set [simp]: "set (normalize_capabilities cs) = set cs"
  by (simp add: normalize_capabilities_def)

lemma short_list_single: "x \<in> set xs \<Longrightarrow> \<not> length xs > 1 \<Longrightarrow> xs = [x]"
  by (cases xs) auto

lemma accounts_ok_register:
  assumes p: "persistence_ok env" and ok: "accounts_ok ex st"
    and fresh: "om_get (hs_agent_harnesses st) h = None"
  shows "accounts_ok ex (fst (register_agent_harness env (h, t, a) token now ctx request st))"
proof -
  let ?caps = "normalize_capabilities (rq_capabilities request)"
  have allowed: "grant_allowed hs"
    if "hg_capabilities (ah_grant hs) = ?caps" "ah_kind hs = rq_kind request"
      "\<not> (rq_kind request = Unattended \<and> list_ex privileged ?caps)"
      "\<not> (length ?caps > 1 \<and> list_ex privileged ?caps)" for hs
    unfolding grant_allowed_def that(1,2)
  proof (intro ballI impI conjI)
    fix c assume c: "c \<in> set ?caps" "privileged c"
    then have ex: "list_ex privileged ?caps" by (auto simp: list_ex_iff)
    then show "rq_kind request = Interactive" using that(3) by (cases "rq_kind request") auto
    show "?caps = [c]" using short_list_single[OF c(1)] that(4) ex by blast
  qed
  show ?thesis
    unfolding register_agent_harness_def Let_def
    using p ok by (auto simp: split: sum.splits option.splits intro!: accounts_ok_new[OF ok fresh] allowed)
qed

text \<open>A changed token keeps whose it is; a changed harness keeps its owner and its grant.\<close>

definition same_token :: "api_token \<Rightarrow> api_token \<Rightarrow> bool" where
  "same_token t t' \<longleftrightarrow> tk_harness_id t' = tk_harness_id t \<and> tk_user_id t' = tk_user_id t \<and>
     tk_tenant_id t' = tk_tenant_id t"

definition same_harness :: "agent_harness \<Rightarrow> agent_harness \<Rightarrow> bool" where
  "same_harness h h' \<longleftrightarrow> ah_id h' = ah_id h \<and> ah_user_id h' = ah_user_id h \<and>
     ah_tenant_id h' = ah_tenant_id h \<and> ah_kind h' = ah_kind h \<and> ah_grant h' = ah_grant h"

lemma same_refl [simp]: "same_token t t" "same_harness h h"
  by (simp_all add: same_token_def same_harness_def)

lemma accounts_ok_change:
  assumes ok: "accounts_ok ex st"
    and toks: "\<And>k t'. om_get (hs_api_tokens st') k = Some t' \<Longrightarrow>
      \<exists>t. om_get (hs_api_tokens st) k = Some t \<and> same_token t t'"
    and keep: "\<And>h hs. om_get (hs_agent_harnesses st) h = Some hs \<Longrightarrow>
      \<exists>hs'. om_get (hs_agent_harnesses st') h = Some hs' \<and> same_harness hs hs'"
    and only: "\<And>h hs'. om_get (hs_agent_harnesses st') h = Some hs' \<Longrightarrow>
      \<exists>hs. om_get (hs_agent_harnesses st) h = Some hs \<and> same_harness hs hs'"
  shows "accounts_ok ex st'"
  unfolding accounts_ok_def
proof (intro conjI allI impI)
  fix k t' assume "om_get (hs_api_tokens st') k = Some t'"
  then obtain t where t: "om_get (hs_api_tokens st) k = Some t" "same_token t t'" using toks by blast
  then obtain h hs where h: "tk_harness_id t = Some h" "om_get (hs_agent_harnesses st) h = Some hs"
    "tk_user_id t = ah_user_id hs" "tk_tenant_id t = ah_tenant_id hs" using ok unfolding accounts_ok_def by blast
  then obtain hs' where "om_get (hs_agent_harnesses st') h = Some hs'" "same_harness hs hs'" using keep by blast
  then show "\<exists>h hs. tk_harness_id t' = Some h \<and> om_get (hs_agent_harnesses st') h = Some hs \<and>
      tk_user_id t' = ah_user_id hs \<and> tk_tenant_id t' = ah_tenant_id hs"
    using t(2) h by (auto simp: same_token_def same_harness_def)
next
  fix h hs' assume "om_get (hs_agent_harnesses st') h = Some hs'"
  then obtain hs where hs: "om_get (hs_agent_harnesses st) h = Some hs" "same_harness hs hs'" using only by blast
  then have "ah_id hs = h" "ex \<or> grant_allowed hs" using ok unfolding accounts_ok_def by blast+
  then show "ah_id hs' = h" "ex \<or> grant_allowed hs'" using hs(2) by (simp_all add: same_harness_def grant_allowed_def)
qed

lemma accounts_ok_same: "accounts_ok ex st \<Longrightarrow> hs_api_tokens st' = hs_api_tokens st \<Longrightarrow>
    hs_agent_harnesses st' = hs_agent_harnesses st \<Longrightarrow> accounts_ok ex st'"
  by (simp add: accounts_ok_def)

lemma accounts_ok_tenant:
  assumes "persistence_ok env" "accounts_ok ex st"
  shows "accounts_ok ex (fst (create_tenant_inner env ids secret now given treq st))"
  unfolding create_tenant_inner_def Let_def
  using assms by (auto split: sum.splits prod.splits elim: accounts_ok_same)

lemma accounts_ok_dev_token:
  assumes p: "persistence_ok env" and ok: "accounts_ok ex st" and fresh: "om_get (hs_agent_harnesses st) h = None"
  shows "accounts_ok ex (fst (create_dev_token_inner env (u, h, t, a) token now given req st))"
  unfolding create_dev_token_inner_def Let_def
  using p ok by (auto simp: grant_allowed_def split: sum.splits intro!: accounts_ok_new[OF ok fresh])

lemma revoke_cases:
  assumes "persistence_ok env"
  obtains (refused) e where "revoke_agent_harness env a now ctx h st = (st, Inl e)"
  | (revoked) hs where "ctx_harness_id ctx = None" "om_get (hs_agent_harnesses st) h = Some hs"
      "snd (revoke_agent_harness env a now ctx h st) = Inr ()"
      "hs_agent_harnesses (fst (revoke_agent_harness env a now ctx h st)) =
         om_put h (hs\<lparr>ah_revoked_at := Some now\<rparr>) (hs_agent_harnesses st)"
      "hs_api_tokens (fst (revoke_agent_harness env a now ctx h st)) =
         om_map_where (\<lambda>t. tk_harness_id t = Some h) (\<lambda>t. t\<lparr>tk_revoked_at := Some now\<rparr>) (hs_api_tokens st)"
proof (cases "\<exists>e. revoke_agent_harness env a now ctx h st = (st, Inl e)")
  case True
  then show thesis using refused by blast
next
  case False
  then have none: "ctx_harness_id ctx = None"
    by (cases "ctx_harness_id ctx") (force simp: revoke_agent_harness_def)+
  moreover obtain u where "authorize_harness env st ctx Cap_Administration None = Inr u"
    using False none by (auto simp: revoke_agent_harness_def split: sum.splits)
  moreover obtain hs where hs: "om_get (hs_agent_harnesses st) h = Some hs"
    using False none calculation(2) by (cases "om_get (hs_agent_harnesses st) h") (auto simp: revoke_agent_harness_def)
  ultimately show thesis
    by (intro revoked[of hs]) (simp_all add: revoke_agent_harness_def Let_def assms)
qed

lemma accounts_ok_revoke:
  assumes p: "persistence_ok env" and ok: "accounts_ok ex st"
  shows "accounts_ok ex (fst (revoke_agent_harness env a now ctx h st))"
  using p
proof (cases rule: revoke_cases[where a = a and now = now and ctx = ctx and h = h and st = st])
  case (refused e)
  then show ?thesis using ok by simp
next
  case (revoked hs)
  show ?thesis
    by (rule accounts_ok_change[OF ok])
      (use revoked in \<open>auto simp: om_get_map_where same_token_def same_harness_def split: if_splits option.splits\<close>)
qed

lemma authenticate_cases:
  assumes "persistence_ok env"
  obtains (unchanged) r where "authenticate_token env now token st = (st, r)" "\<forall>ctx. r \<noteq> Inr (Some ctx)"
  | (known) k t ctx where "om_get (hs_api_tokens st) k = Some t" "token_harness_live st t"
      "tk_revoked_at t = None" "tk_token_hash t = hash_api_token env token"
      "authenticate_token env now token st =
         (st\<lparr>hs_api_tokens := om_put k (t\<lparr>tk_last_used_at := Some now\<rparr>) (hs_api_tokens st)\<rparr>, Inr (Some ctx))"
      "ctx_user_id ctx = Some (tk_user_id t)" "ctx_tenant_id ctx = tk_tenant_id t"
      "ctx_harness_id ctx = tk_harness_id t"
proof (cases "find (\<lambda>(_, t). tk_token_hash t = hash_api_token env token \<and> tk_revoked_at t = None)
             (uuid_entries env (hs_api_tokens st))")
  case None
  then show thesis by (intro unchanged[of "Inr None"]) (simp_all add: authenticate_token_def)
next
  case (Some kt)
  obtain k t where kt: "kt = (k, t)" by fastforce
  have found: "(k, t) \<in> set (uuid_entries env (hs_api_tokens st))"
    "tk_token_hash t = hash_api_token env token" "tk_revoked_at t = None"
    using Some kt by (auto simp: find_Some_iff) (metis nth_mem)
  show thesis
  proof (cases "token_harness_live st t")
    case False
    then show thesis
      using Some kt by (intro unchanged[of "Inr None"]) (simp_all add: authenticate_token_def)
  next
    case True
    show thesis
    proof (cases "node_for_tenant (te_ext env) (hs_core st) (tk_tenant_id t)")
      case (Inl e)
      then show thesis
        using Some kt True by (intro unchanged[of "Inl (AT_Store e)"]) (simp_all add: authenticate_token_def)
    next
      case (Inr node)
      define ctx where "ctx = \<lparr> ctx_user_id = Some (tk_user_id t), ctx_tenant_id = tk_tenant_id t,
        ctx_node_id = nd_id node, ctx_harness_id = tk_harness_id t \<rparr>"
      show thesis
        using Some kt True found Inr assms
        by (intro known[OF uuid_entries_get[OF found(1)] True, of ctx])
          (simp_all add: authenticate_token_def ctx_def)
    qed
  qed
qed

lemma accounts_ok_authenticate:
  assumes p: "persistence_ok env" and ok: "accounts_ok ex st"
  shows "accounts_ok ex (fst (authenticate_token env now token st))"
  using p
proof (cases rule: authenticate_cases[where now = now and token = token and st = st])
  case (unchanged r)
  then show ?thesis using ok by simp
next
  case (known k t ctx)
  show ?thesis
    by (rule accounts_ok_change[OF ok]) (use known in \<open>auto simp: same_token_def split: if_splits\<close>)
qed

lemma accounts_ok_step:
  assumes "account_step env st st'" "persistence_ok env" "accounts_ok ex st"
  shows "accounts_ok ex st'"
  using assms
  by (cases rule: account_step.cases)
    (auto intro: accounts_ok_register accounts_ok_dev_token accounts_ok_tenant accounts_ok_revoke
       accounts_ok_authenticate)

section \<open>Authority of a bearer token\<close>

lemma authorize_harness_grants:
  assumes "authorize_harness env st ctx c pod = Inr u" "ctx_harness_id ctx = Some h"
  shows "\<exists>hs. om_get (hs_agent_harnesses st) h = Some hs \<and> ah_revoked_at hs = None \<and>
    ctx_user_id ctx = Some (ah_user_id hs) \<and> ctx_tenant_id ctx = ah_tenant_id hs \<and>
    c \<in> set (hg_capabilities (ah_grant hs)) \<and> (\<forall>p \<in> set_option pod. grant_covers_pod (ah_grant hs) p)"
  using assms
  by (auto simp: authorize_harness_def harness_for_context_def split: option.splits if_splits)

lemma authenticated_has_harness:
  assumes auth: "authenticate_token env now token st = (st', Inr (Some ctx))"
    and "accounts_ok ex st" and p: "persistence_ok env"
  shows "\<exists>h. ctx_harness_id ctx = Some h"
  using p
proof (cases rule: authenticate_cases[where now = now and token = token and st = st])
  case (unchanged r)
  then show ?thesis using auth by auto
next
  case (known k t ctx')
  then have "\<exists>h. tk_harness_id t = Some h" using assms(2) unfolding accounts_ok_def by blast
  then show ?thesis using known auth by simp
qed

section \<open>Revocation\<close>

definition revoked_in :: "uuid \<Rightarrow> home_store \<Rightarrow> bool" where
  "revoked_in h st \<longleftrightarrow>
     (case om_get (hs_agent_harnesses st) h of None \<Rightarrow> False | Some hs \<Rightarrow> ah_revoked_at hs \<noteq> None)"

lemma revoked_register:
  assumes "persistence_ok env" "revoked_in h st" "om_get (hs_agent_harnesses st) h' = None"
  shows "revoked_in h (fst (register_agent_harness env (h', t, a) token now ctx request st))"
  unfolding register_agent_harness_def Let_def
  using assms by (auto simp: revoked_in_def split: sum.splits option.splits)

lemma revoked_dev_token:
  assumes "persistence_ok env" "revoked_in h st" "om_get (hs_agent_harnesses st) h' = None"
  shows "revoked_in h (fst (create_dev_token_inner env (u, h', t, a) token now given req st))"
  unfolding create_dev_token_inner_def Let_def
  using assms by (auto simp: revoked_in_def split: sum.splits option.splits)

lemma revoked_tenant:
  assumes "persistence_ok env" "revoked_in h st"
  shows "revoked_in h (fst (create_tenant_inner env ids secret now given treq st))"
  unfolding create_tenant_inner_def Let_def
  using assms by (auto simp: revoked_in_def split: sum.splits prod.splits option.splits)

lemma revoked_revoke:
  assumes p: "persistence_ok env" and r: "revoked_in h st"
  shows "revoked_in h (fst (revoke_agent_harness env a now ctx h' st))"
  using p
proof (cases rule: revoke_cases[where a = a and now = now and ctx = ctx and h = h' and st = st])
  case (refused e)
  then show ?thesis using r by simp
next
  case (revoked hs)
  then show ?thesis using r by (auto simp: revoked_in_def)
qed

lemma revoked_authenticate:
  assumes p: "persistence_ok env" and r: "revoked_in h st"
  shows "revoked_in h (fst (authenticate_token env now token st))"
  using p
proof (cases rule: authenticate_cases[where now = now and token = token and st = st])
  case (unchanged res)
  then show ?thesis using r by simp
next
  case (known k t ctx)
  then show ?thesis using r by (simp add: revoked_in_def)
qed

lemma revoked_step:
  assumes "account_step env st st'" "persistence_ok env" "revoked_in h st"
  shows "revoked_in h st'"
  using assms
  by (cases rule: account_step.cases)
    (simp_all add: revoked_register revoked_dev_token revoked_tenant revoked_revoke revoked_authenticate)

lemma revoked_steps:
  assumes "(account_step env)\<^sup>*\<^sup>* st st'" "persistence_ok env" "revoked_in h st"
  shows "revoked_in h st'"
  using assms(1,3) by (induction rule: rtranclp_induct) (auto intro: revoked_step assms(2))

lemma revoked_not_authenticated:
  assumes p: "persistence_ok env" and r: "revoked_in h st"
    and auth: "snd (authenticate_token env now token st) = Inr (Some ctx)"
  shows "ctx_harness_id ctx \<noteq> Some h"
  using p
proof (cases rule: authenticate_cases[where now = now and token = token and st = st])
  case (unchanged res)
  then show ?thesis using auth by simp
next
  case (known k t ctx')
  then show ?thesis
    using auth r by (auto simp: token_harness_live_def revoked_in_def split: option.splits)
qed

lemma revoked_not_authorized:
  "revoked_in h st \<Longrightarrow> ctx_harness_id ctx = Some h \<Longrightarrow> isl (authorize_harness env st ctx c pod)"
  by (auto simp: authorize_harness_def harness_for_context_def revoked_in_def split: option.splits)

text \<open>C32: A revocation is final, while the database accepts every write. Once the owner's revocation of a
  harness succeeded, no sequence of account operations brings it back: every tool refuses a context of that harness, and no bearer
  token authenticates as it.\<close>

theorem revoked_harness_stays_out:
  assumes "persistence_ok env"
    and "revoke_agent_harness env audit_id now ctx h st = (st1, Inr ())"
    and "(account_step env)\<^sup>*\<^sup>* st1 st2"
  shows "(ctx_harness_id ctx' = Some h \<longrightarrow> isl (authorize_harness env st2 ctx' capability pod)) \<and>
    (\<forall>later token ctx''. snd (authenticate_token env later token st2) = Inr (Some ctx'') \<longrightarrow>
       ctx_harness_id ctx'' \<noteq> Some h)"
proof -
  have "revoked_in h st1"
    using assms(1)
  proof (cases rule: revoke_cases[where a = audit_id and now = now and ctx = ctx and h = h and st = st])
    case (refused e)
    then show ?thesis using assms(2) by simp
  next
    case (revoked hs)
    then show ?thesis using assms(2) by (simp add: revoked_in_def)
  qed
  then have "revoked_in h st2" using revoked_steps assms(1,3) by blast
  then show ?thesis
    using revoked_not_authorized revoked_not_authenticated assms(1) by blast
qed

section \<open>Witnesses\<close>

lemma pair_of_snd: "snd x = y \<Longrightarrow> x = (fst x, y)"
  by auto

definition sample_tools :: tools_env where
  "sample_tools =
     \<lparr> te_ext = sample_ext, te_uuid_str = (\<lambda>_. ''u''), te_sha256_hex = (\<lambda>s. s), te_order = (\<lambda>ks. ks),
       te_order_versions = (\<lambda>ks. ks), te_order_pairs = (\<lambda>ks. ks),
       te_latest_time = 1000000000000, te_month_start = (\<lambda>_. 0), te_yaml_source_rules = (\<lambda>_. Inr []),
       te_yaml_custom_error = (\<lambda>doc errors. concat errors), te_yaml_value = (\<lambda>_. None),
       te_lowercase = map ascii_lower_char, te_words = (\<lambda>_. []), te_debug_string = (\<lambda>s. s), te_order_signals = (\<lambda>ks. ks), te_f32_two_decimals = (\<lambda>_. []), te_url_username = (\<lambda>_. []), te_url_password = (\<lambda>_. None),
       te_url_query = (\<lambda>_. None), te_url_fragment = (\<lambda>_. None), te_url_port = (\<lambda>_. None),
       te_url_domain = Some, te_url_clear_port = (\<lambda>u. u), te_url_query_pairs = (\<lambda>_. []),
       te_url_extend_pairs = (\<lambda>u _. u),
       te_persistence = None \<rparr>"

definition sample_home :: home_store where
  "sample_home = empty_home_store\<lparr>hs_core := empty_store\<lparr>st_node_identities := [(4, sample_node)]\<rparr>\<rparr>"

definition sample_owner :: auth_context where
  "sample_owner = \<lparr> ctx_user_id = Some 3, ctx_tenant_id = None, ctx_node_id = 4, ctx_harness_id = None \<rparr>"

definition sample_registration :: register_agent_harness_request where
  "sample_registration =
     \<lparr> rq_label = ''l'', rq_kind = Unattended, rq_capabilities = [Cap_DiscoveryTasks], rq_pod_ids = None \<rparr>"

definition sample_registered :: home_store where
  "sample_registered =
     fst (register_agent_harness sample_tools (5, 6, 7) ''t'' 2 sample_owner sample_registration sample_home)"

definition sample_bearer :: auth_context where
  "sample_bearer = \<lparr> ctx_user_id = Some 3, ctx_tenant_id = None, ctx_node_id = 4, ctx_harness_id = Some 5 \<rparr>"

lemma te_order_of:
  "te_order sample_tools = (\<lambda>ks. ks)" "te_ext sample_tools = sample_ext" "x_iter_nodes sample_ext = (\<lambda>ks. ks)"
  by (simp_all add: sample_tools_def sample_ext_def)

lemma sample_tools_ok: "persistence_ok sample_tools"
  by (simp add: persistence_ok_def sample_tools_def)

lemma sample_registered_eq:
  "hs_core sample_registered = hs_core sample_home"
  "hs_agent_harnesses sample_registered =
     [(5, \<lparr> ah_id = 5, ah_user_id = 3, ah_tenant_id = None, ah_label = ''l'', ah_kind = Unattended,
        ah_grant = \<lparr> hg_capabilities = [Cap_DiscoveryTasks], hg_pod_ids = None \<rparr>,
        ah_created_at = 2, ah_revoked_at = None \<rparr>)]"
  "hs_api_tokens sample_registered =
     [(6, \<lparr> tk_id = 6, tk_user_id = 3, tk_tenant_id = None,
        tk_token_hash = hash_api_token sample_tools ''t'', tk_label = ''Harness: l'', tk_created_at = 2,
        tk_last_used_at = None, tk_revoked_at = None, tk_harness_id = Some 5 \<rparr>)]"
  by (simp_all add: sample_registered_def register_agent_harness_def sample_owner_def sample_registration_def
      authorize_harness_def harness_for_context_def trim_plain is_plain_def list_all_iff sample_tools_ok privileged_def
      normalize_capabilities_def sample_home_def empty_home_store_def Let_def)

lemma sample_bearer_authenticates:
  "snd (authenticate_token sample_tools 9 ''t'' sample_registered) = Inr (Some sample_bearer)"
  by (simp add: authenticate_token_def sample_registered_eq uuid_entries_def token_harness_live_def
      node_for_tenant_def sample_home_def sample_tools_ok sample_bearer_def om_get_def om_keys_def
      sample_node_def values_in_order_def Let_def List.map_filter_simps te_order_of)

lemma sample_bearer_authorized:
  "authorize_harness sample_tools (fst (authenticate_token sample_tools 9 ''t'' sample_registered))
     sample_bearer Cap_DiscoveryTasks (Some 8) = Inr ()"
  by (simp add: authenticate_token_def sample_registered_eq uuid_entries_def token_harness_live_def
      node_for_tenant_def sample_home_def sample_tools_ok sample_bearer_def om_get_def om_keys_def
      sample_node_def values_in_order_def Let_def List.map_filter_simps te_order_of authorize_harness_def
      harness_for_context_def grant_covers_pod_def)

lemma sample_revoked: "snd (revoke_agent_harness sample_tools 8 9 sample_owner 5 sample_registered) = Inr ()"
  by (simp add: revoke_agent_harness_def sample_owner_def authorize_harness_def harness_for_context_def
      sample_registered_eq sample_tools_ok om_get_def Let_def)

theorem revoked_harness_stays_out_witness:
  "isl (authorize_harness sample_tools
     (fst (revoke_agent_harness sample_tools 8 9 sample_owner 5 sample_registered))
     sample_bearer Cap_DiscoveryTasks None)"
  using revoked_harness_stays_out[OF sample_tools_ok
      pair_of_snd[OF sample_revoked] rtranclp.rtrancl_refl, where ctx' = sample_bearer]
  by (simp add: sample_bearer_def)

end
