(* ===== verification/Task_Spec.thy ===== *)
theory Task_Spec
  imports Task_Queue Account_Props
begin

text \<open>
  What the task queue promises, apart from who may call it and what is audited: an abstract step of
  a harness at a time on the map of tasks. The operations of theory Task_Queue implement it, and the
  life of a task follows from it alone.
\<close>

section \<open>The abstract queue\<close>

text \<open>Two tasks for one piece of work: a Source Rule in one period, or one idempotency key.\<close>

definition same_work :: "discovery_task \<Rightarrow> discovery_task \<Rightarrow> bool" where
  "same_work t t' \<longleftrightarrow>
     (case (dt_origin t, dt_origin t') of
        (DO_Scheduled k, DO_Scheduled k') \<Rightarrow>
          k' = k \<and> dt_target t' = dt_target t \<and> dt_due_at t' = dt_due_at t
      | (DO_Immediate _ key h, DO_Immediate _ key' h') \<Rightarrow> key' = key \<and> h' = h
      | _ \<Rightarrow> False)"

inductive queue_step ::
  "uuid option \<Rightarrow> time \<Rightarrow> (uuid, discovery_task) omap \<Rightarrow> (uuid, discovery_task) omap \<Rightarrow> bool"
  for caller :: "uuid option" and now :: time where
  queue_create:
    "om_get m (dt_id t) = None \<Longrightarrow> dt_state t = DT_Pending \<Longrightarrow> dt_attempts t = [] \<Longrightarrow>
     (\<forall>i t'. om_get m i = Some t' \<longrightarrow> \<not> same_work t t') \<Longrightarrow>
     queue_step caller now m (om_put (dt_id t) t m)"
| queue_expire:
    "om_get m i = Some t \<Longrightarrow> queue_step caller now m (om_put i (task_with_expired_lease_recorded t now) m)"
| queue_claim:
    "om_get m i = Some t \<Longrightarrow> r = task_with_expired_lease_recorded t now \<Longrightarrow> dt_state r = DT_Pending \<Longrightarrow>
     caller = Some h \<Longrightarrow>
     queue_step caller now m (om_put i (r\<lparr>dt_state := DT_Leased
       \<lparr> dl_harness_id = h, dl_claimed_at = now, dl_expires_at = e \<rparr>\<rparr>) m)"
| queue_renew:
    "om_get m i = Some t \<Longrightarrow> caller = Some h \<Longrightarrow> held_lease t h now = Some lease \<Longrightarrow>
     queue_step caller now m (om_put i (t\<lparr>dt_state := DT_Leased (lease\<lparr>dl_expires_at := e\<rparr>)\<rparr>) m)"
| queue_finish:
    "om_get m i = Some t \<Longrightarrow> caller = Some h \<Longrightarrow> held_lease t h now = Some lease \<Longrightarrow>
     at_harness_id a = h \<Longrightarrow> at_started_at a = dl_claimed_at lease \<Longrightarrow> at_finished_at a = now \<Longrightarrow>
     queue_step caller now m (om_put i (t\<lparr>dt_attempts := dt_attempts t @ [a],
       dt_state := state_after_attempt (dt_attempts t @ [a])\<rparr>) m)"

section \<open>The life of one task\<close>

definition no_success :: "discovery_task_attempt list \<Rightarrow> bool" where
  "no_success attempts \<longleftrightarrow> (\<forall>a \<in> set attempts. at_outcome a \<noteq> AO_Completed)"

definition task_ok :: "discovery_task \<Rightarrow> bool" where
  "task_ok t \<longleftrightarrow>
     (case dt_state t of
        DT_Pending \<Rightarrow> length (dt_attempts t) < max_discovery_task_attempts \<and> no_success (dt_attempts t)
      | DT_Leased _ \<Rightarrow> length (dt_attempts t) < max_discovery_task_attempts \<and> no_success (dt_attempts t)
      | DT_Completed \<Rightarrow> dt_attempts t \<noteq> [] \<and> length (dt_attempts t) \<le> max_discovery_task_attempts \<and>
          at_outcome (last (dt_attempts t)) = AO_Completed \<and> no_success (butlast (dt_attempts t))
      | DT_TerminalFailure \<Rightarrow>
          length (dt_attempts t) = max_discovery_task_attempts \<and> no_success (dt_attempts t))"

text \<open>A task keeps its identity and its work; its history only grows; once finished it is fixed.\<close>

definition task_evolves :: "discovery_task \<Rightarrow> discovery_task \<Rightarrow> bool" where
  "task_evolves t t' \<longleftrightarrow>
     dt_id t' = dt_id t \<and> dt_target t' = dt_target t \<and> dt_origin t' = dt_origin t \<and>
     dt_due_at t' = dt_due_at t \<and> dt_created_at t' = dt_created_at t \<and>
     take (length (dt_attempts t)) (dt_attempts t') = dt_attempts t \<and>
     (task_is_finished t \<longrightarrow> t' = t)"

definition queue_ok :: "(uuid, discovery_task) omap \<Rightarrow> bool" where
  "queue_ok m \<longleftrightarrow> om_ok m \<and>
     (\<forall>i t. om_get m i = Some t \<longrightarrow> dt_id t = i \<and> task_ok t) \<and>
     (\<forall>i j t t'. om_get m i = Some t \<longrightarrow> om_get m j = Some t' \<longrightarrow> same_work t t' \<longrightarrow> i = j)"

lemma task_evolves_refl [simp]: "task_evolves t t"
  by (simp add: task_evolves_def)

lemma take_take_prefix: "take (length xs) ys = xs \<Longrightarrow> take (length ys) zs = ys \<Longrightarrow> take (length xs) zs = xs"
  by (metis length_take min.absorb_iff2 nat_le_linear take_all take_take)

lemma task_evolves_trans:
  assumes "task_evolves t t'" "task_evolves t' t''"
  shows "task_evolves t t''"
  using assms take_take_prefix[of "dt_attempts t" "dt_attempts t'" "dt_attempts t''"]
  unfolding task_evolves_def by (auto simp: task_is_finished_def)

lemma same_work_evolves:
  "task_evolves t t' \<Longrightarrow> same_work s t' = same_work s t"
  "task_evolves t t' \<Longrightarrow> same_work t' s = same_work t s"
  by (cases "dt_origin t"; cases "dt_origin s"; simp add: task_evolves_def same_work_def)+

lemma same_work_sym: "same_work t t' \<Longrightarrow> same_work t' t"
  by (auto simp: same_work_def split: discovery_task_origin.splits)

lemma expired_cases:
  obtains (same) "task_with_expired_lease_recorded t now = t"
  | (lapsed) lease where "dt_state t = DT_Leased lease" "dl_expires_at lease \<le> now"
      "task_with_expired_lease_recorded t now =
         t\<lparr>dt_attempts := dt_attempts t @ [\<lparr> at_harness_id = dl_harness_id lease,
             at_started_at = dl_claimed_at lease, at_finished_at = dl_expires_at lease,
             at_outcome = AO_LeaseExpired \<rparr>],
           dt_state := (if Suc (length (dt_attempts t)) \<ge> max_discovery_task_attempts
                        then DT_TerminalFailure else DT_Pending)\<rparr>"
proof (cases "dt_state t")
  case (DT_Leased lease)
  show thesis
  proof (cases "dl_expires_at lease > now")
    case True
    then show thesis using DT_Leased by (intro same) (simp add: task_with_expired_lease_recorded_def)
  next
    case False
    then show thesis
      using DT_Leased by (intro lapsed[of lease]) (simp_all add: task_with_expired_lease_recorded_def Let_def)
  qed
qed (auto intro: same simp: task_with_expired_lease_recorded_def)

lemma task_ok_expired: "task_ok t \<Longrightarrow> task_ok (task_with_expired_lease_recorded t now)"
  by (cases rule: expired_cases[of t now])
    (auto simp: task_ok_def no_success_def max_discovery_task_attempts_def split: discovery_task_state.splits)

lemma task_evolves_expired: "task_evolves t (task_with_expired_lease_recorded t now)"
  by (cases rule: expired_cases[of t now]) (auto simp: task_evolves_def task_is_finished_def)

lemma held_lease_state: "held_lease t h now = Some lease \<Longrightarrow>
    dt_state t = DT_Leased lease \<and> dl_harness_id lease = h \<and> now < dl_expires_at lease"
  by (auto simp: held_lease_def split: discovery_task_state.splits if_splits)

lemma task_ok_finish:
  assumes "task_ok t" "dt_state t = DT_Leased lease"
  shows "task_ok (t\<lparr>dt_attempts := dt_attempts t @ [a], dt_state := state_after_attempt (dt_attempts t @ [a])\<rparr>)"
  using assms by (auto simp: task_ok_def state_after_attempt_def no_success_def max_discovery_task_attempts_def)

text \<open>One abstract step changes one task, along its life, or adds one that is new work.\<close>

lemma queue_step_cases:
  assumes "queue_step caller now m m'"
  obtains (new) t where "m' = om_put (dt_id t) t m" "om_get m (dt_id t) = None" "task_ok t"
      "\<forall>i t'. om_get m i = Some t' \<longrightarrow> \<not> same_work t t'"
  | (change) i t t' where "m' = om_put i t' m" "om_get m i = Some t" "task_evolves t t'" "task_ok t \<Longrightarrow> task_ok t'"
      "\<And>lease. dt_state t = DT_Leased lease \<Longrightarrow> now < dl_expires_at lease \<Longrightarrow>
         caller \<noteq> Some (dl_harness_id lease) \<Longrightarrow> t' = t"
  using assms
proof (cases rule: queue_step.cases)
  case (queue_create t)
  then show thesis
    by (intro new[of t]) (auto simp: task_ok_def no_success_def max_discovery_task_attempts_def)
next
  case (queue_expire i t)
  then show thesis
    by (rule change[OF _ _ task_evolves_expired task_ok_expired])
      (simp_all add: task_with_expired_lease_recorded_def)
next
  case (queue_claim i t r h e)
  have "task_evolves r (r\<lparr>dt_state := DT_Leased \<lparr> dl_harness_id = h, dl_claimed_at = now, dl_expires_at = e \<rparr>\<rparr>)"
    using queue_claim(4) by (simp add: task_evolves_def task_is_finished_def)
  then have ev: "task_evolves t (r\<lparr>dt_state := DT_Leased \<lparr> dl_harness_id = h, dl_claimed_at = now, dl_expires_at = e \<rparr>\<rparr>)"
    using task_evolves_trans task_evolves_expired queue_claim(3) by blast
  have live: "\<not> now < dl_expires_at lease" if "dt_state t = DT_Leased lease" for lease
    using that queue_claim(3,4) by (auto simp: task_with_expired_lease_recorded_def split: if_splits)
  have ok: "task_ok (r\<lparr>dt_state := DT_Leased \<lparr> dl_harness_id = h, dl_claimed_at = now, dl_expires_at = e \<rparr>\<rparr>)"
    if "task_ok t"
    using task_ok_expired[OF that, of now] queue_claim(3,4) by (simp add: task_ok_def)
  show thesis by (rule change[OF queue_claim(1,2) ev ok]) (use live in auto)
next
  case (queue_renew i t h lease e)
  have st: "dt_state t = DT_Leased lease" "dl_harness_id lease = h" using held_lease_state queue_renew(4) by blast+
  then have "task_evolves t (t\<lparr>dt_state := DT_Leased (lease\<lparr>dl_expires_at := e\<rparr>)\<rparr>)"
    by (simp add: task_evolves_def task_is_finished_def)
  then show thesis
    by (rule change[OF queue_renew(1,2)]) (use st queue_renew(3) in \<open>auto simp: task_ok_def\<close>)
next
  case (queue_finish i t h lease a)
  have st: "dt_state t = DT_Leased lease" "dl_harness_id lease = h" using held_lease_state queue_finish(4) by blast+
  then have "task_evolves t (t\<lparr>dt_attempts := dt_attempts t @ [a], dt_state := state_after_attempt (dt_attempts t @ [a])\<rparr>)"
    by (simp add: task_evolves_def task_is_finished_def)
  then show thesis
    by (rule change[OF queue_finish(1,2)]) (use st queue_finish(3) task_ok_finish in auto)
qed

lemma queue_ok_step:
  assumes s: "queue_step caller now m m'" and ok: "queue_ok m"
  shows "queue_ok m'"
  using s
proof (cases rule: queue_step_cases)
  case (new t)
  have "dt_id s = i \<and> task_ok s" if "om_get m' i = Some s" for i s
    using that new ok by (auto simp: queue_ok_def split: if_splits)
  moreover have "i = j" if "om_get m' i = Some s" "om_get m' j = Some s'" "same_work s s'" for i j s s'
    using that new ok same_work_sym unfolding queue_ok_def by (auto split: if_splits)
  moreover have "om_ok m'" using new(1) ok by (simp add: queue_ok_def)
  ultimately show ?thesis unfolding queue_ok_def by blast
next
  case (change i t t')
  then have t: "dt_id t = i" "task_ok t" using ok unfolding queue_ok_def by blast+
  then have "dt_id t' = i" using change(3) by (simp add: task_evolves_def)
  then have "dt_id s = j \<and> task_ok s" if "om_get m' j = Some s" for j s
    using that change t ok by (auto simp: queue_ok_def split: if_splits)
  moreover have "j = k" if "om_get m' j = Some s" "om_get m' k = Some s'" "same_work s s'" for j k s s'
  proof -
    note at = that
    obtain r r' where "om_get m j = Some r" "om_get m k = Some r'" "task_evolves r s" "task_evolves r' s'"
      using at(1,2) change(1-3) by (auto split: if_splits)
    moreover from this have "same_work r r'" using at(3) same_work_evolves by blast
    ultimately show ?thesis using ok unfolding queue_ok_def by blast
  qed
  moreover have "om_ok m'" using change(1) ok by (simp add: queue_ok_def)
  ultimately show ?thesis unfolding queue_ok_def by blast
qed

lemma queue_step_evolves:
  assumes "queue_step caller now m m'" "om_get m i = Some t"
  shows "\<exists>t'. om_get m' i = Some t' \<and> task_evolves t t'"
  using assms(1)
  by (cases rule: queue_step_cases) (use assms(2) in auto)

lemma queue_step_other:
  assumes "queue_step caller now m m'" "om_get m i = Some t"
    "dt_state t = DT_Leased lease" "now < dl_expires_at lease" "caller \<noteq> Some (dl_harness_id lease)"
  shows "om_get m' i = Some t"
  using assms(1)
  by (cases rule: queue_step_cases) (use assms(2-) in auto)

end
