(* ===== verification/Task_Refine.thy ===== *)
theory Task_Refine
  imports Task_Spec
begin

text \<open>
  The operations of the task queue implement the abstract queue of theory Task_Spec: whatever a
  caller does, whether it is refused or not, the map of tasks moves by abstract steps of that
  caller's harness at that time, and nothing else that authorization reads is changed.
\<close>

section \<open>The store around the tasks\<close>

definition same_authority :: "home_store \<Rightarrow> home_store \<Rightarrow> bool" where
  "same_authority st st' \<longleftrightarrow>
     hs_core st' = hs_core st \<and> hs_agent_harnesses st' = hs_agent_harnesses st \<and>
     hs_pod_roles st' = hs_pod_roles st \<and> hs_discovery_plans st' = hs_discovery_plans st"

lemma same_authority_refl [simp]: "same_authority st st"
  by (simp add: same_authority_def)

lemma same_authority_trans: "same_authority a b \<Longrightarrow> same_authority b c \<Longrightarrow> same_authority a c"
  by (simp add: same_authority_def)

lemma record_write_roles [simp]: "hs_pod_roles (record_harness_write_at ctx op p t i st) = hs_pod_roles st"
  by (simp add: record_harness_write_at_def split: option.splits)

lemma same_authority_put [simp]:
  "same_authority st (record_harness_write_at ctx op p t i (put_task k task st))"
  "same_authority st (put_task k task st)"
  by (simp_all add: same_authority_def put_task_def)

lemma tasks_put [simp]: "hs_discovery_tasks (put_task k task st) = om_put k task (hs_discovery_tasks st)"
  by (simp add: put_task_def)

lemma same_authority_fields:
  assumes "same_authority st st'"
  shows "hs_core st' = hs_core st" "hs_agent_harnesses st' = hs_agent_harnesses st"
    "hs_pod_roles st' = hs_pod_roles st" "hs_discovery_plans st' = hs_discovery_plans st"
  using assms by (simp_all add: same_authority_def)

lemma same_authority_context:
  "same_authority st st' \<Longrightarrow> harness_for_context st' ctx = harness_for_context st ctx"
  unfolding harness_for_context_def same_authority_fields by (rule refl)

lemma same_authority_authorize:
  "same_authority st st' \<Longrightarrow> authorize_harness env st' ctx c pod = authorize_harness env st ctx c pod"
  unfolding authorize_harness_def lacks_curation_role_def same_authority_context same_authority_fields
  by (rule refl)

lemma same_authority_execution:
  "same_authority st st' \<Longrightarrow>
   authorize_personal_discovery_execution env st' ctx = authorize_personal_discovery_execution env st ctx"
  unfolding authorize_personal_discovery_execution_def unscoped_kind_def same_authority_context
    same_authority_authorize
  by (rule refl)

lemma same_authority_task:
  "same_authority st st' \<Longrightarrow> dt_target t' = dt_target t \<Longrightarrow>
   authorize_discovery_task env st' ctx t' = authorize_discovery_task env st ctx t"
  unfolding authorize_discovery_task_def same_authority_execution same_authority_authorize
    same_authority_fields
  by simp

definition orders_ok :: "tools_env \<Rightarrow> bool" where
  "orders_ok env \<longleftrightarrow> (\<forall>ks. set (te_order env ks) = set ks)"

lemma set_uuid_values:
  "orders_ok env \<Longrightarrow> set (uuid_values env m) = {v. \<exists>k. om_get m k = Some v}"
proof -
  assume o: "orders_ok env"
  have "v \<in> set (uuid_values env m) \<longleftrightarrow> (\<exists>k. om_get m k = Some v)" for v
    using o om_get_in_keys[of m]
    by (fastforce simp: uuid_values_def values_in_order_def set_map_filter orders_ok_def)
  then show ?thesis by blast
qed

section \<open>Refinement\<close>

text \<open>What every operation does, seen from the abstract queue.\<close>

definition refines_queue :: "uuid option \<Rightarrow> time \<Rightarrow> home_store \<Rightarrow> home_store \<Rightarrow> bool" where
  "refines_queue caller now st st' \<longleftrightarrow>
     (queue_step caller now)\<^sup>*\<^sup>* (hs_discovery_tasks st) (hs_discovery_tasks st') \<and> same_authority st st'"

lemma refines_refl [simp]: "refines_queue caller now st st"
  by (simp add: refines_queue_def)

lemma refines_trans: "refines_queue c n a b \<Longrightarrow> refines_queue c n b d \<Longrightarrow> refines_queue c n a d"
  unfolding refines_queue_def using same_authority_trans rtranclp_trans by metis

lemma refines_put:
  assumes "queue_step caller now (hs_discovery_tasks st) (om_put i task (hs_discovery_tasks st))"
  shows "refines_queue caller now st (put_task i task st)"
    and "refines_queue caller now st (record_harness_write_at ctx op p t a (put_task i task st))"
  using assms by (auto simp: refines_queue_def)

lemma mutation_authorized:
  assumes "authorized_discovery_task_mutation env st ctx i = Inr (pod, h)"
  obtains t where "om_get (hs_discovery_tasks st) i = Some t" "authorize_discovery_task env st ctx t = Inr pod"
    "ctx_harness_id ctx = Some h"
  using assms by (auto simp: authorized_discovery_task_mutation_def split: option.splits sum.splits)

lemma recorded_pending:
  "\<not> task_is_finished (task_with_expired_lease_recorded t now) \<Longrightarrow>
   \<not> task_live_lease (task_with_expired_lease_recorded t now) now \<Longrightarrow>
   dt_state (task_with_expired_lease_recorded t now) = DT_Pending"
  by (cases "dt_state t")
    (auto simp: task_with_expired_lease_recorded_def task_is_finished_def task_live_lease_def Let_def split: if_splits)

text \<open>The branches of a claim.\<close>

lemma claim_cases:
  assumes "persistence_ok env"
  obtains (refused) e where "claim_discovery_task env a clock ctx i now lease st = (st, Inl e)"
  | (unavailable) t e where "om_get (hs_discovery_tasks st) i = Some t"
      "claim_discovery_task env a clock ctx i now lease st =
         (put_task i (task_with_expired_lease_recorded t now) st, Inl e)"
  | (claimed) t r h pod expires t' where "om_get (hs_discovery_tasks st) i = Some t"
      "r = task_with_expired_lease_recorded t now" "dt_state r = DT_Pending"
      "ctx_harness_id ctx = Some h" "authorize_discovery_task env st ctx t = Inr pod"
      "lease_expiry env now lease = Some expires"
      "t' = r\<lparr>dt_state := DT_Leased \<lparr> dl_harness_id = h, dl_claimed_at = now, dl_expires_at = expires \<rparr>\<rparr>"
      "claim_discovery_task env a clock ctx i now lease st =
         (record_harness_write_at ctx HW_ClaimDiscoveryTask pod clock a (put_task i t' st), Inr t')"
proof (cases "authorized_discovery_task_mutation env st ctx i")
  case (Inl e)
  then show thesis by (intro refused) (simp add: claim_discovery_task_def)
next
  case (Inr ph)
  obtain pod h where ph: "ph = (pod, h)" by fastforce
  from Inr[unfolded ph] obtain t where t: "om_get (hs_discovery_tasks st) i = Some t"
    "authorize_discovery_task env st ctx t = Inr pod" "ctx_harness_id ctx = Some h"
    by (rule mutation_authorized)
  show thesis
  proof (cases "lease_expiry env now lease")
    case None
    then show thesis using Inr ph by (intro refused) (simp add: claim_discovery_task_def)
  next
    case (Some expires)
    define r where "r = task_with_expired_lease_recorded t now"
    define t' where "t' = r\<lparr>dt_state := DT_Leased \<lparr> dl_harness_id = h, dl_claimed_at = now, dl_expires_at = expires \<rparr>\<rparr>"
    have step: "claim_discovery_task env a clock ctx i now lease st =
        (if task_is_finished r then (put_task i r st, Inl AT_TaskTerminal)
         else if task_live_lease r now then (put_task i r st, Inl AT_TaskLeaseConflict)
         else (record_harness_write_at ctx HW_ClaimDiscoveryTask pod clock a (put_task i t' st), Inr t'))"
      using Inr ph t Some assms by (simp add: claim_discovery_task_def task_at_def Let_def r_def t'_def)
    show thesis
    proof (cases "task_is_finished r \<or> task_live_lease r now")
      case True
      then show thesis
        by (intro unavailable[OF t(1), of "if task_is_finished r then AT_TaskTerminal else AT_TaskLeaseConflict"])
          (auto simp: step r_def[symmetric])
    next
      case False
      then have "dt_state r = DT_Pending" using recorded_pending unfolding r_def by blast
      then show thesis using claimed[OF t(1) r_def _ t(3,2) Some t'_def] step False by simp
    qed
  qed
qed

lemma claim_refines:
  assumes "persistence_ok env"
  shows "refines_queue (ctx_harness_id ctx) now st (fst (claim_discovery_task env a clock ctx i now lease st))"
  using assms
proof (cases rule: claim_cases[where a = a and clock = clock and ctx = ctx and i = i and now = now and lease = lease and st = st])
  case (refused e)
  then show ?thesis by simp
next
  case (unavailable t e)
  then show ?thesis by (simp add: refines_put(1)[OF queue_expire])
next
  case (claimed t r h pod expires t')
  show ?thesis unfolding claimed(7,8) fst_conv by (rule refines_put(2)[OF queue_claim[OF claimed(1-4)]])
qed

text \<open>The branches of a renewal and of a completion or failure.\<close>

lemma renew_cases:
  assumes "persistence_ok env"
  obtains (refused) e where "renew_discovery_task_lease env a clock ctx i now lease st = (st, Inl e)"
  | (renewed) t h pod held expires where "om_get (hs_discovery_tasks st) i = Some t"
      "ctx_harness_id ctx = Some h" "held_lease t h now = Some held"
      "fst (renew_discovery_task_lease env a clock ctx i now lease st) =
         record_harness_write_at ctx HW_RenewDiscoveryTaskLease pod clock a
           (put_task i (t\<lparr>dt_state := DT_Leased (held\<lparr>dl_expires_at := expires\<rparr>)\<rparr>) st)"
proof (cases "\<exists>e. renew_discovery_task_lease env a clock ctx i now lease st = (st, Inl e)")
  case True
  then show thesis using refused by blast
next
  case False
  then obtain ph where ph: "authorized_discovery_task_mutation env st ctx i = Inr ph"
    by (cases "authorized_discovery_task_mutation env st ctx i") (auto simp: renew_discovery_task_lease_def)
  obtain pod h where eq: "ph = (pod, h)" by fastforce
  from ph[unfolded eq] obtain t where t: "om_get (hs_discovery_tasks st) i = Some t"
    "authorize_discovery_task env st ctx t = Inr pod" "ctx_harness_id ctx = Some h" by (rule mutation_authorized)
  obtain expires where ex: "lease_expiry env now lease = Some expires"
    using False ph eq by (cases "lease_expiry env now lease") (auto simp: renew_discovery_task_lease_def)
  obtain held where held: "held_lease t h now = Some held"
    using False ph eq ex t by (cases "held_lease t h now") (auto simp: renew_discovery_task_lease_def task_at_def)
  show thesis
    by (rule renewed[OF t(1,3) held, of pod expires])
      (use ph eq t ex held assms in \<open>simp add: renew_discovery_task_lease_def task_at_def Let_def\<close>)
qed

lemma renew_refines:
  assumes "persistence_ok env"
  shows "refines_queue (ctx_harness_id ctx) now st (fst (renew_discovery_task_lease env a clock ctx i now lease st))"
  using assms
proof (cases rule: renew_cases[where a = a and clock = clock and ctx = ctx and i = i and now = now and lease = lease and st = st])
  case (refused e)
  then show ?thesis by simp
next
  case (renewed t h pod held expires)
  show ?thesis unfolding renewed(4) by (rule refines_put(2)[OF queue_renew[OF renewed(1-3)]])
qed

lemma finish_success:
  assumes "persistence_ok env"
    and "om_get (hs_discovery_tasks st) i = Some t" "authorize_discovery_task env st ctx t = Inr pod"
    and "ctx_harness_id ctx = Some h" "held_lease t h now = Some held"
    and "\<not> (failure = None \<and> is_personal_target (dt_target t))"
    and "attempt = \<lparr> at_harness_id = h, at_started_at = dl_claimed_at held, at_finished_at = now,
           at_outcome = attempt_outcome failure \<rparr>"
    and "t' = t\<lparr>dt_attempts := dt_attempts t @ [attempt], dt_state := state_after_attempt (dt_attempts t @ [attempt])\<rparr>"
  shows "\<exists>op. finish_discovery_task env a clock ctx i now failure st =
    (record_harness_write_at ctx op pod clock a (put_task i t' st), Inr t')"
  by (rule exI[of _ "if dt_state t' = DT_Completed then HW_CompleteDiscoveryTask else HW_FailDiscoveryTask"])
    (use assms in \<open>simp add: finish_discovery_task_def authorized_discovery_task_mutation_def task_at_def Let_def\<close>)

lemma finish_cases:
  assumes "persistence_ok env"
  obtains (refused) e where "finish_discovery_task env a clock ctx i now failure st = (st, Inl e)"
  | (finished) t h pod held op attempt where "om_get (hs_discovery_tasks st) i = Some t"
      "ctx_harness_id ctx = Some h" "held_lease t h now = Some held"
      "at_harness_id attempt = h" "at_started_at attempt = dl_claimed_at held" "at_finished_at attempt = now"
      "fst (finish_discovery_task env a clock ctx i now failure st) =
         record_harness_write_at ctx op pod clock a
           (put_task i (t\<lparr>dt_attempts := dt_attempts t @ [attempt],
              dt_state := state_after_attempt (dt_attempts t @ [attempt])\<rparr>) st)"
proof (cases "\<exists>e. finish_discovery_task env a clock ctx i now failure st = (st, Inl e)")
  case True
  then show thesis using refused by blast
next
  case False
  then obtain ph where ph: "authorized_discovery_task_mutation env st ctx i = Inr ph"
    by (cases "authorized_discovery_task_mutation env st ctx i") (auto simp: finish_discovery_task_def)
  obtain pod h where eq: "ph = (pod, h)" by fastforce
  from ph[unfolded eq] obtain t where t: "om_get (hs_discovery_tasks st) i = Some t"
    "authorize_discovery_task env st ctx t = Inr pod" "ctx_harness_id ctx = Some h" by (rule mutation_authorized)
  obtain held where held: "held_lease t h now = Some held"
    using False ph eq t by (cases "held_lease t h now") (auto simp: finish_discovery_task_def task_at_def)
  have "\<not> (failure = None \<and> is_personal_target (dt_target t))"
    using False ph eq t held by (auto simp: finish_discovery_task_def task_at_def)
  from finish_success[OF assms t held this refl refl, of a clock] obtain op where
    "finish_discovery_task env a clock ctx i now failure st =
      (record_harness_write_at ctx op pod clock a
        (put_task i (t\<lparr>dt_attempts := dt_attempts t @ [\<lparr> at_harness_id = h, at_started_at = dl_claimed_at held,
            at_finished_at = now, at_outcome = attempt_outcome failure \<rparr>],
          dt_state := state_after_attempt (dt_attempts t @ [\<lparr> at_harness_id = h, at_started_at = dl_claimed_at held,
            at_finished_at = now, at_outcome = attempt_outcome failure \<rparr>])\<rparr>) st),
       Inr (t\<lparr>dt_attempts := dt_attempts t @ [\<lparr> at_harness_id = h, at_started_at = dl_claimed_at held,
            at_finished_at = now, at_outcome = attempt_outcome failure \<rparr>],
          dt_state := state_after_attempt (dt_attempts t @ [\<lparr> at_harness_id = h, at_started_at = dl_claimed_at held,
            at_finished_at = now, at_outcome = attempt_outcome failure \<rparr>])\<rparr>))" by blast
  then show thesis by (intro finished[OF t(1,3) held]) simp_all
qed

lemma finish_refines:
  assumes "persistence_ok env"
  shows "refines_queue (ctx_harness_id ctx) now st (fst (finish_discovery_task env a clock ctx i now failure st))"
  using assms
proof (cases rule: finish_cases[where a = a and clock = clock and ctx = ctx and i = i and now = now and failure = failure and st = st])
  case (refused e)
  then show ?thesis by simp
next
  case (finished t h pod held op attempt)
  show ?thesis unfolding finished(7) by (rule refines_put(2)[OF queue_finish[OF finished(1-6)]])
qed

end
