(* ===== verification/Pod_Json.thy ===== *)
theory Pod_Json
  imports Domain_Pods Signing
begin

text \<open>
  The \<open>Serialize\<close> implementations of the values that signed events and structured diffs carry:
  Pods, packages, grants, peers, policies, roles, placements and content. A field that is absent
  is \<open>null\<close>; an enum is its wire name, a tagged one an object with its tag.
\<close>

section \<open>Wire names\<close>

fun visibility_wire :: "visibility \<Rightarrow> string" where
  "visibility_wire Public = ''public''"
| "visibility_wire InviteOnly = ''invite_only''"
| "visibility_wire Private = ''private''"

fun pod_role_wire :: "pod_role \<Rightarrow> string" where
  "pod_role_wire Owner = ''owner''"
| "pod_role_wire Curator = ''curator''"

fun trust_level_wire :: "trust_level \<Rightarrow> string" where
  "trust_level_wire TL_ReadOnly = ''read_only''"
| "trust_level_wire TL_ReadWrite = ''read_write''"

fun curation_path_wire :: "curation_path \<Rightarrow> string" where
  "curation_path_wire CPath_CandidateProposal = ''candidate_proposal''"
| "curation_path_wire CPath_ManualReview = ''manual_review''"
| "curation_path_wire CPath_AssistedAutomatic = ''assisted_automatic''"
| "curation_path_wire CPath_AutonomousAutomatic = ''autonomous_automatic''"
| "curation_path_wire CPath_RoutingAgent = ''routing_agent''"
| "curation_path_wire CPath_AddToPod = ''add_to_pod''"

fun media_type_wire :: "media_reference_type \<Rightarrow> string" where
  "media_type_wire MR_Image = ''image''"
| "media_type_wire MR_Video = ''video''"

section \<open>Pods and packages\<close>

definition json_visibility :: "visibility \<Rightarrow> json" where
  "json_visibility v = JObj [(''visibility'', JStr (visibility_wire v))]"

definition json_pod :: "pod \<Rightarrow> json" where
  "json_pod p = JObj
     [(''id'', JUuid (pd_id p)),
      (''tenant_id'', json_opt JUuid (pd_tenant_id p)),
      (''name'', JStr (pd_name p)),
      (''slug'', JStr (pd_slug p)),
      (''description'', JStr (pd_description p)),
      (''visibility'', JStr (visibility_wire (pd_visibility p))),
      (''created_by'', json_opt JUuid (pd_created_by p)),
      (''created_at'', JTime (pd_created_at p)),
      (''origin_node_id'', json_opt JUuid (pd_origin_node_id p))]"

definition json_package :: "pod_skill_pack \<Rightarrow> json" where
  "json_package k = JObj
     [(''id'', JUuid (pk_id k)),
      (''pod_id'', JUuid (pk_pod_id k)),
      (''version'', JInt (pk_version k)),
      (''context_md'', JStr (pk_context_md k)),
      (''pod_yaml'', JStr (pk_pod_yaml k)),
      (''skill_md'', JStr (pk_skill_md k)),
      (''sources_yaml'', JStr (pk_sources_yaml k)),
      (''filters_yaml'', JStr (pk_filters_yaml k)),
      (''examples_good_md'', JStr (pk_examples_good_md k)),
      (''examples_bad_md'', JStr (pk_examples_bad_md k)),
      (''owner_id'', json_opt JUuid (pk_owner_id k)),
      (''proposer_harness_id'', json_opt JUuid (pk_proposer_harness_id k)),
      (''created_at'', JTime (pk_created_at k)),
      (''updated_at'', JTime (pk_updated_at k))]"

definition json_create_pod_request :: "create_pod_request \<Rightarrow> json" where
  "json_create_pod_request r = JObj
     [(''name'', JStr (cq_name r)),
      (''slug'', JStr (cq_slug r)),
      (''description'', JStr (cq_description r)),
      (''visibility'', JStr (visibility_wire (cq_visibility r)))]"

definition json_package_contents :: "pod_package_contents \<Rightarrow> json" where
  "json_package_contents c = JObj
     [(''context_md'', JStr (pc_context_md c)),
      (''skill_md'', JStr (pc_skill_md c)),
      (''sources_yaml'', JStr (pc_sources_yaml c)),
      (''filters_yaml'', JStr (pc_filters_yaml c)),
      (''examples_good_md'', JStr (pc_examples_good_md c)),
      (''examples_bad_md'', JStr (pc_examples_bad_md c))]"

fun json_creation_package :: "pod_creation_package \<Rightarrow> json" where
  "json_creation_package PCP_Default = JObj [(''kind'', JStr ''default'')]"
| "json_creation_package (PCP_Initial c) =
     JObj [(''kind'', JStr ''initial''), (''package'', json_package_contents c)]"
| "json_creation_package (PCP_Derived k) =
     JObj [(''kind'', JStr ''derived''), (''source_package'', json_package k)]"

definition json_lifecycle_request :: "create_pod_lifecycle_request \<Rightarrow> json" where
  "json_lifecycle_request r = JObj
     [(''pod'', json_create_pod_request (cl_pod r)),
      (''package'', json_creation_package (cl_package r))]"

section \<open>Grants, peers, policies and roles\<close>

definition json_grant :: "harness_grant \<Rightarrow> json" where
  "json_grant g = JObj
     [(''capabilities'', JArr (map (\<lambda>c. JStr (cap_to_string c)) (hg_capabilities g))),
      (''pod_ids'', json_opt (\<lambda>ids. JArr (map JUuid ids)) (hg_pod_ids g))]"

definition json_trusted_peer :: "trusted_peer \<Rightarrow> json" where
  "json_trusted_peer p = JObj
     [(''id'', JUuid (tpe_peer_id p)),
      (''node_id'', JUuid (tpe_node_id p)),
      (''tenant_id'', json_opt JUuid (tpe_tenant_id p)),
      (''display_name'', JStr (tpe_display_name p)),
      (''base_url'', JStr (tpe_base_url p)),
      (''public_key'', JStr (tpe_public_key p)),
      (''trust_level'', JStr (trust_level_wire (tpe_trust_level p))),
      (''enabled'', JBool (tpe_enabled p)),
      (''created_at'', JTime (tpe_created_at p))]"

definition json_index_node :: "index_node \<Rightarrow> json" where
  "json_index_node n = JObj [(''label'', JStr (ix_label n)), (''base_url'', JStr (ix_base_url n))]"

definition json_blocked_pod :: "blocked_pod \<Rightarrow> json" where
  "json_blocked_pod b = JObj
     [(''origin_node_id'', JUuid (bp_origin_node_id b)), (''pod_slug'', JStr (bp_pod_slug b))]"

definition json_trust_policy :: "trust_policy \<Rightarrow> json" where
  "json_trust_policy p = JObj
     [(''user_id'', JUuid (tp_user_id p)),
      (''tenant_id'', json_opt JUuid (tp_tenant_id p)),
      (''index_nodes'', JArr (map json_index_node (tp_index_nodes p))),
      (''blocked_pods'', JArr (map json_blocked_pod (tp_blocked_pods p))),
      (''blocked_nodes'', JArr (map JUuid (tp_blocked_nodes p))),
      (''blocked_sources'', JArr (map JStr (tp_blocked_sources p))),
      (''blocked_topics'', JArr (map JStr (tp_blocked_topics p)))]"

fun json_curation_policy :: "curation_policy \<Rightarrow> json" where
  "json_curation_policy CP_Manual = JObj [(''mode'', JStr ''manual'')]"
| "json_curation_policy (CP_Assisted threshold) =
     JObj [(''mode'', JStr ''assisted''), (''confidence_threshold'', JF32 threshold)]"
| "json_curation_policy (CP_Autonomous threshold) =
     JObj [(''mode'', JStr ''autonomous''), (''confidence_threshold'', JF32 threshold)]"

definition json_policy_of :: "curation_policy \<Rightarrow> json" where
  "json_policy_of p = JObj [(''curation_policy'', json_curation_policy p)]"

definition json_role_assignment :: "pod_role_assignment \<Rightarrow> json" where
  "json_role_assignment a = JObj
     [(''user_id'', JUuid (ra_user_id a)),
      (''pod_id'', JUuid (ra_pod_id a)),
      (''role'', JStr (pod_role_wire (ra_role a))),
      (''created_at'', JTime (ra_created_at a))]"

section \<open>Placements and content\<close>

definition json_accepted_placement :: "accepted_placement_projection \<Rightarrow> json" where
  "json_accepted_placement a = JObj
     [(''content_item_id'', JUuid (ap_content_item_id a)),
      (''pod_id'', JUuid (ap_pod_id a)),
      (''reason'', JStr (ap_reason a)),
      (''curation_path'', JStr (curation_path_wire (ap_curation_path a))),
      (''origin_node_id'', JUuid (ap_origin_node_id a)),
      (''accepted_at'', JTime (ap_accepted_at a))]"

definition json_media_reference :: "media_reference \<Rightarrow> json" where
  "json_media_reference m = JObj
     [(''media_type'', JStr (media_type_wire (mr_media_type m))), (''url'', JStr (mr_url m))]"

definition json_source_metadata :: "candidate_source_metadata \<Rightarrow> json" where
  "json_source_metadata m = JObj
     [(''title'', json_opt JStr (csm_title m)),
      (''author'', json_opt JStr (csm_author m)),
      (''published_at'', json_opt JTime (csm_published_at m))]"

definition json_provenance :: "candidate_provenance \<Rightarrow> json" where
  "json_provenance p = JObj
     [(''discovered_at'', JTime (cpv_discovered_at p)),
      (''discovery_method'', JStr (cpv_discovery_method p)),
      (''referrer_url'', json_opt JStr (cpv_referrer_url p))]"

definition json_content_reference :: "feed_content_reference \<Rightarrow> json" where
  "json_content_reference r = JObj
     [(''content_item_id'', JUuid (fr_content_item_id r)),
      (''source_url'', JStr (fr_source_url r)),
      (''canonical_url'', JStr (fr_canonical_url r)),
      (''title'', JStr (fr_title r)),
      (''permitted_description'', json_opt JStr (fr_permitted_description r)),
      (''summary'', json_opt JStr (fr_summary r)),
      (''media_references'', JArr (map json_media_reference (fr_media_references r))),
      (''source'', JStr (fr_source r)),
      (''tags'', JArr (map JStr (fr_tags r)))]"

definition json_tombstone :: "placement_tombstone \<Rightarrow> json" where
  "json_tombstone t = JObj
     [(''content_reference'', json_content_reference (pt_content_reference t)),
      (''origin_placement'', json_accepted_placement (pt_origin_placement t)),
      (''withdrawn_at'', JTime (pt_withdrawn_at t))]"

text \<open>The public part of a retained submission: its submitter, note and embedding stay local.\<close>

definition json_content_item :: "submission \<Rightarrow> json" where
  "json_content_item s = JObj
     [(''id'', JUuid (sb_id s)),
      (''source_url'', JStr (sb_url s)),
      (''canonical_url'', JStr (sb_canonical_url s)),
      (''title'', JStr (sb_title s)),
      (''source_metadata'', json_source_metadata (sb_source_metadata s)),
      (''permitted_description'', json_opt JStr (sb_description s)),
      (''domain'', JStr (sb_domain s)),
      (''summary'', json_opt JStr (sb_summary s)),
      (''provenance'', JArr (map json_provenance (sb_provenance s))),
      (''media_references'', JArr (map json_media_reference (sb_media_references s))),
      (''tags'', JArr (map JStr (sb_tags s))),
      (''created_at'', JTime (sb_created_at s)),
      (''origin_event_id'', json_opt JUuid (sb_origin_event_id s))]"

definition feed_content_reference_of :: "submission \<Rightarrow> feed_content_reference" where
  "feed_content_reference_of s =
     \<lparr> fr_content_item_id = sb_id s, fr_source_url = sb_url s,
       fr_canonical_url = sb_canonical_url s, fr_title = sb_title s,
       fr_permitted_description = sb_description s, fr_summary = sb_summary s,
       fr_media_references = sb_media_references s, fr_source = sb_domain s,
       fr_tags = sb_tags s \<rparr>"

section \<open>Comparison of values\<close>

text \<open>\<open>serde_json\<close> compares numbers by value, so the two zeros are equal.\<close>

primrec json_norm :: "json \<Rightarrow> json" where
  "json_norm JNull = JNull"
| "json_norm (JBool b) = JBool b"
| "json_norm (JInt i) = JInt i"
| "json_norm (JStr s) = JStr s"
| "json_norm (JUuid u) = JUuid u"
| "json_norm (JTime t) = JTime t"
| "json_norm (JF32 w) = JF32 (if w = f32_negative_zero then 0 else w)"
| "json_norm (JArr xs) = JArr (map json_norm xs)"
| "json_norm (JObj obj) = JObj (map (map_prod id json_norm) obj)"

definition json_eq :: "json \<Rightarrow> json \<Rightarrow> bool" where
  "json_eq a b \<longleftrightarrow> json_norm a = json_norm b"

section \<open>What a value determines\<close>

lemma json_eq_refl [simp]: "json_eq j j"
  by (simp add: json_eq_def)

lemma json_norm_opt_uuid [simp]: "json_norm (json_opt JUuid u) = json_opt JUuid u"
  by (cases u) (simp_all add: json_opt_def)

lemma visibility_wire_inj [simp]: "visibility_wire v = visibility_wire w \<longleftrightarrow> v = w"
  by (cases v; cases w) simp_all

lemma pod_role_wire_inj [simp]: "pod_role_wire r = pod_role_wire q \<longleftrightarrow> r = q"
  by (cases r; cases q) simp_all

lemma cap_to_string_inj [simp]: "cap_to_string c = cap_to_string d \<longleftrightarrow> c = d"
  by (cases c; cases d) simp_all

lemma json_eq_visibility [simp]: "json_eq (json_visibility v) (json_visibility w) \<longleftrightarrow> v = w"
  by (simp add: json_eq_def json_visibility_def)

lemma json_eq_role [simp]: "json_eq (json_role_assignment a) (json_role_assignment b) \<longleftrightarrow> a = b"
  by (cases a; cases b) (auto simp: json_eq_def json_role_assignment_def)

lemma json_eq_arr [simp]: "json_eq (JArr xs) (JArr ys) \<longleftrightarrow> list_all2 json_eq xs ys"
  by (auto simp: json_eq_def list_all2_conv_all_nth map_equality_iff)

lemma json_eq_roles: "json_eq (JArr (map json_role_assignment rs)) (JArr (map json_role_assignment qs)) \<longleftrightarrow> rs = qs"
  by (simp add: list_all2_map1 list_all2_map2 list_all2_eq)

end
