(* ===== verification/Pod_Events.thy ===== *)
theory Pod_Events
  imports Pod_Json Home_Store Pod_Retention
begin

text \<open>
  Signed Pod events (\<open>signing.rs\<close>) and the reads of the event log (\<open>store/queries.rs\<close>). An event
  carries the hash of the Pod's previous one, so the events of a slug form a chain.

  An operation draws identities and reads the clock several times; \<open>draws\<close> gives, for each of its
  drawing places, the identity drawn and the time read there.
\<close>

type_synonym draws = "nat \<Rightarrow> uuid \<times> time"

section \<open>Signing an event\<close>

definition canonical_event ::
  "uuid \<Rightarrow> pod_event_type \<Rightarrow> string \<Rightarrow> uuid \<Rightarrow> json \<Rightarrow> time \<Rightarrow> string option \<Rightarrow> json" where
  "canonical_event event_id event_type slug author payload created_at previous = JObj
     [(''event_id'', JUuid event_id),
      (''event_type'', JStr (pet_as_wire event_type)),
      (''pod_slug'', JStr slug),
      (''author_node_id'', JUuid author),
      (''payload_json'', payload),
      (''created_at'', JTime created_at),
      (''previous_event_hash'', json_opt JStr previous)]"

definition event_value :: "event_log_row \<Rightarrow> json" where
  "event_value e =
     canonical_event (ev_event_id e) (ev_event_type e) (ev_pod_slug e) (ev_author_node_id e)
       (ev_payload_json e) (ev_created_at e) (ev_previous_event_hash e)"

definition sign_public_event ::
  "tools_env \<Rightarrow> uuid \<times> time \<Rightarrow> node_identity \<Rightarrow> pod_event_type \<Rightarrow> string \<Rightarrow> json \<Rightarrow> string option
    \<Rightarrow> signing_error + event_log_row" where
  "sign_public_event env drawn node event_type slug payload previous =
     (case canonical_bytes (te_ext env)
             (canonical_event (fst drawn) event_type slug (nd_id node) payload (snd drawn) previous) of
        Inl e \<Rightarrow> Inl e
      | Inr bytes \<Rightarrow>
          (case sign_payload (te_ext env) node bytes of
             Inl e \<Rightarrow> Inl e
           | Inr signature \<Rightarrow>
               Inr \<lparr> ev_event_id = fst drawn, ev_tenant_id = nd_tenant_id node,
                     ev_event_type = event_type, ev_pod_slug = slug, ev_author_node_id = nd_id node,
                     ev_author_display_name = Some (nd_display_name node),
                     ev_payload_json = payload, ev_created_at = snd drawn,
                     ev_previous_event_hash = previous, ev_content_hash = te_sha256_hex env bytes,
                     ev_signature = signature, ev_imported_from_peer_id = None,
                     ev_verified = True \<rparr>))"

definition verify_event :: "tools_env \<Rightarrow> event_log_row \<Rightarrow> string \<Rightarrow> signing_error + bool" where
  "verify_event env e public_key =
     (case canonical_bytes (te_ext env) (event_value e) of
        Inl err \<Rightarrow> Inl err
      | Inr bytes \<Rightarrow>
          if te_sha256_hex env bytes \<noteq> ev_content_hash e then Inr False
          else verify_payload (te_ext env) public_key (ev_signature e) bytes)"

section \<open>The event log (store/queries.rs)\<close>

definition latest_hash :: "event_log_row list \<Rightarrow> string \<Rightarrow> string option" where
  "latest_hash log slug = map_option ev_content_hash (find (\<lambda>e. ev_pod_slug e = slug) (rev log))"

definition latest_event_hash :: "store \<Rightarrow> string \<Rightarrow> string option" where
  "latest_event_hash st slug = latest_hash (st_event_log st) slug"

text \<open>The events of a Pod from its most recent publication on; all of them when it never was.\<close>

fun from_last_publication :: "event_log_row list \<Rightarrow> event_log_row list option" where
  "from_last_publication [] = None"
| "from_last_publication (e # es) =
     (case from_last_publication es of
        Some later \<Rightarrow> Some later
      | None \<Rightarrow> if ev_event_type e = PodPublished then Some (e # es) else None)"

definition public_events_for_pod :: "store \<Rightarrow> string \<Rightarrow> event_log_row list" where
  "public_events_for_pod st slug =
     (let events = filter (\<lambda>e. ev_pod_slug e = slug \<and> pet_is_federated (ev_event_type e)) (st_event_log st)
      in case from_last_publication events of Some later \<Rightarrow> later | None \<Rightarrow> events)"

definition portable_package_events_for_pod :: "store \<Rightarrow> string \<Rightarrow> event_log_row list" where
  "portable_package_events_for_pod st slug =
     filter (\<lambda>e. ev_pod_slug e = slug \<and> pet_is_portable_package (ev_event_type e)) (st_event_log st)"

definition pod_by_slug :: "tools_env \<Rightarrow> store \<Rightarrow> string \<Rightarrow> uuid option \<Rightarrow> store_error + pod" where
  "pod_by_slug env st slug tenant =
     (let pods = values_in_order (te_order env) (st_pods st)
      in case find (\<lambda>p. pd_slug p = slug \<and> pd_tenant_id p = tenant) pods of
           Some p \<Rightarrow> Inr p
         | None \<Rightarrow>
             (case find (\<lambda>p. pd_slug p = slug \<and> pd_tenant_id p = None) pods of
                Some p \<Rightarrow> Inr p | None \<Rightarrow> Inl (NotFound (''pod '' @ slug))))"

text \<open>\<open>Packages\<close> are stored once per version.\<close>

definition insert_pod_package_version :: "tools_env \<Rightarrow> pod_skill_pack \<Rightarrow> home_store \<Rightarrow> store_error + home_store" where
  "insert_pod_package_version env package st =
     (case package_version_new (pk_version package) of
        Inl v \<Rightarrow> Inl (Validation (package_version_error_to_string v))
      | Inr version \<Rightarrow>
          let key = (pk_pod_id package, version); p = hs_pods st
          in if om_get (pst_pod_package_versions p) key \<noteq> None
             then Inl (Duplicate (''Pod Package version '' @ nat_dec (nat version) @ '' for Pod '' @
                    te_uuid_str env (pk_pod_id package)))
             else Inr (st\<lparr>hs_pods := p\<lparr>pst_pod_package_versions :=
                    om_put key package (pst_pod_package_versions p)\<rparr>\<rparr>))"

section \<open>Writes of the collections\<close>

text \<open>One writer per collection the operations below change, each leaving every other one.\<close>

definition set_pods :: "(uuid, pod) omap \<Rightarrow> home_store \<Rightarrow> home_store" where
  "set_pods v st = (let c = hs_core st in st\<lparr>hs_core := c\<lparr>st_pods := v\<rparr>\<rparr>)"

definition set_skill_packs :: "(uuid, pod_skill_pack) omap \<Rightarrow> home_store \<Rightarrow> home_store" where
  "set_skill_packs v st = (let c = hs_core st in st\<lparr>hs_core := c\<lparr>st_pod_skill_packs := v\<rparr>\<rparr>)"

definition set_core :: "store \<Rightarrow> home_store \<Rightarrow> home_store" where
  "set_core v st = st\<lparr>hs_core := v\<rparr>"

definition push_event :: "event_log_row \<Rightarrow> home_store \<Rightarrow> home_store" where
  "push_event e st = (let c = hs_core st in st\<lparr>hs_core := c\<lparr>st_event_log := st_event_log c @ [e]\<rparr>\<rparr>)"

text \<open>\<open>store.event_log.push(sign_public_event(.., store.latest_event_hash(slug))?)\<close>.\<close>

definition log_event ::
  "tools_env \<Rightarrow> uuid \<times> time \<Rightarrow> node_identity \<Rightarrow> pod_event_type \<Rightarrow> string \<Rightarrow> json \<Rightarrow> home_store
    \<Rightarrow> agent_tools_error + home_store" where
  "log_event env drawn node event_type slug payload st =
     (case sign_public_event env drawn node event_type slug payload (latest_event_hash (hs_core st) slug) of
        Inl e \<Rightarrow> Inl (AT_Signing (signing_error_to_string e))
      | Inr e \<Rightarrow> Inr (push_event e st))"

section \<open>The chain\<close>

text \<open>
  A log whose every event names the hash of the Pod's previous one and verifies under the key of
  the node that is its author.
\<close>

definition authored :: "tools_env \<Rightarrow> (uuid, node_identity) omap \<Rightarrow> event_log_row \<Rightarrow> bool" where
  "authored env nodes e \<longleftrightarrow>
     (\<exists>node. om_get nodes (ev_author_node_id e) = Some node \<and>
             verify_event env e (nd_public_key node) = Inr True)"

definition chained :: "tools_env \<Rightarrow> (uuid, node_identity) omap \<Rightarrow> event_log_row list \<Rightarrow> bool" where
  "chained env nodes log \<longleftrightarrow>
     (\<forall>i < length log. authored env nodes (log ! i) \<and>
        ev_previous_event_hash (log ! i) = latest_hash (take i log) (ev_pod_slug (log ! i)))"

lemma chained_Nil [simp]: "chained env nodes []"
  by (simp add: chained_def)

lemma chained_snoc:
  "chained env nodes (log @ [e]) \<longleftrightarrow>
     chained env nodes log \<and> authored env nodes e \<and>
     ev_previous_event_hash e = latest_hash log (ev_pod_slug e)"
  unfolding chained_def by (simp add: All_less_Suc nth_append conj_ac)

text \<open>An event signed with a node's key pair verifies under its public key.\<close>

lemma signed_event_verifies:
  assumes "signatures_sound (te_ext env)" and "key_pair_of (te_ext env) node sk"
    and "sign_public_event env drawn node event_type slug payload previous = Inr e"
  shows "verify_event env e (nd_public_key node) = Inr True"
proof -
  obtain bytes signature where bytes: "canonical_bytes (te_ext env)
      (canonical_event (fst drawn) event_type slug (nd_id node) payload (snd drawn) previous) = Inr bytes"
    and signature: "sign_payload (te_ext env) node bytes = Inr signature"
    using assms(3) by (auto simp: sign_public_event_def split: sum.splits)
  with assms(3) have "event_value e =
      canonical_event (fst drawn) event_type slug (nd_id node) payload (snd drawn) previous"
    and "ev_content_hash e = te_sha256_hex env bytes" and "ev_signature e = signature"
    by (auto simp: sign_public_event_def event_value_def)
  then show ?thesis
    using bytes verify_signed_payload[OF assms(1,2) signature] by (simp add: verify_event_def)
qed

lemma signed_event_fields:
  assumes "sign_public_event env drawn node event_type slug payload previous = Inr e"
  shows "ev_author_node_id e = nd_id node" and "ev_pod_slug e = slug"
    and "ev_event_type e = event_type" and "ev_payload_json e = payload"
    and "ev_previous_event_hash e = previous" and "ev_imported_from_peer_id e = None"
  using assms by (auto simp: sign_public_event_def split: sum.splits)

text \<open>The hash pins the signed part of an event, when the serializer and the digest do not collide.\<close>

lemma canonical_event_inj:
  "event_value a = event_value b \<longleftrightarrow>
     ev_event_id a = ev_event_id b \<and> ev_event_type a = ev_event_type b \<and> ev_pod_slug a = ev_pod_slug b \<and>
     ev_author_node_id a = ev_author_node_id b \<and> ev_payload_json a = ev_payload_json b \<and>
     ev_created_at a = ev_created_at b \<and> ev_previous_event_hash a = ev_previous_event_hash b"
proof -
  have "pet_as_wire (ev_event_type a) = pet_as_wire (ev_event_type b) \<longleftrightarrow> ev_event_type a = ev_event_type b"
    by (metis pet_from_as_wire option.inject)
  then show ?thesis by (simp add: event_value_def canonical_event_def)
qed

lemma push_event_simps [simp]:
  "hs_pods (push_event e st) = hs_pods st"
  "st_event_log (hs_core (push_event e st)) = st_event_log (hs_core st) @ [e]"
  "st_pods (hs_core (push_event e st)) = st_pods (hs_core st)"
  "st_node_identities (hs_core (push_event e st)) = st_node_identities (hs_core st)"
  "hs_pod_roles (push_event e st) = hs_pod_roles st"
  "hs_agent_harnesses (push_event e st) = hs_agent_harnesses st"
  by (simp_all add: push_event_def Let_def)

lemma log_eventE:
  assumes "log_event env drawn node event_type slug payload st = Inr st'"
  obtains e where
    "sign_public_event env drawn node event_type slug payload (latest_event_hash (hs_core st) slug) = Inr e"
    and "st' = push_event e st"
  using assms by (auto simp: log_event_def split: sum.splits)

text \<open>Every event an operation logs extends the chain.\<close>

lemma log_event_chained:
  assumes "signatures_sound (te_ext env)" and "key_pair_of (te_ext env) node sk"
    and node: "om_get (st_node_identities (hs_core st)) (nd_id node) = Some node"
    and "log_event env drawn node event_type slug payload st = Inr st'"
    and "chained env (st_node_identities (hs_core st)) (st_event_log (hs_core st))"
  shows "chained env (st_node_identities (hs_core st')) (st_event_log (hs_core st'))"
proof -
  obtain e where s: "sign_public_event env drawn node event_type slug payload
      (latest_event_hash (hs_core st) slug) = Inr e" and st': "st' = push_event e st"
    using assms(4) by (rule log_eventE)
  show ?thesis
    using assms(5) node signed_event_fields[OF s] signed_event_verifies[OF assms(1,2) s]
    by (simp add: st' chained_snoc authored_def latest_event_hash_def)
qed

end
