(* ===== verification/Tool_Monad.thy ===== *)
theory Tool_Monad
  imports Pod_Events
begin

text \<open>
  Tools as state passing with failure: a tool maps the store to the store it leaves and a result or
  an error. A failing step keeps what the steps before it wrote, as a handler that returns early
  does; \<open>staged\<close> is the handler that works on a clone and stores it only on success.

  What an operation keeps of the store is the locale \<open>store_invariant\<close>: from the invariant's laws
  about the single writes it derives that whole handlers keep it.
\<close>

type_synonym 'a tool = "home_store \<Rightarrow> home_store \<times> (agent_tools_error + 'a)"

definition ret :: "'a \<Rightarrow> 'a tool" where
  "ret a st = (st, Inr a)"

definition failing :: "agent_tools_error \<Rightarrow> 'a tool" where
  "failing e st = (st, Inl e)"

definition bind_tool :: "'a tool \<Rightarrow> ('a \<Rightarrow> 'b tool) \<Rightarrow> 'b tool" where
  "bind_tool m f st = (case m st of (st', Inl e) \<Rightarrow> (st', Inl e) | (st', Inr a) \<Rightarrow> f a st')"

text \<open>Read the store; read it with a chance to fail; check a condition; write.\<close>

definition gets :: "(home_store \<Rightarrow> 'a) \<Rightarrow> 'a tool" where
  "gets f st = (st, Inr (f st))"

definition reads :: "(home_store \<Rightarrow> agent_tools_error + 'a) \<Rightarrow> 'a tool" where
  "reads f st = (st, f st)"

definition require_that :: "(home_store \<Rightarrow> bool) \<Rightarrow> agent_tools_error \<Rightarrow> unit tool" where
  "require_that P e st = (st, if P st then Inr () else Inl e)"

definition writes :: "(home_store \<Rightarrow> home_store) \<Rightarrow> unit tool" where
  "writes f st = (f st, Inr ())"

text \<open>A write that can fail before it changes anything.\<close>

definition updates :: "(home_store \<Rightarrow> agent_tools_error + home_store) \<Rightarrow> unit tool" where
  "updates f st = (case f st of Inl e \<Rightarrow> (st, Inl e) | Inr st' \<Rightarrow> (st', Inr ()))"

definition staged :: "'a tool \<Rightarrow> 'a tool" where
  "staged m st = (case m st of (st', Inl e) \<Rightarrow> (st, Inl e) | (st', Inr a) \<Rightarrow> (st', Inr a))"

text \<open>\<open>persist_locked(&mut store)?\<close> and the value the tool answers with.\<close>

definition persist :: "tools_env \<Rightarrow> 'a \<Rightarrow> 'a tool" where
  "persist env a = persisted env a"

text \<open>A missing value is an error.\<close>

definition ok_or :: "agent_tools_error \<Rightarrow> 'a option \<Rightarrow> agent_tools_error + 'a" where
  "ok_or e v = (case v of None \<Rightarrow> Inl e | Some a \<Rightarrow> Inr a)"

definition store_result :: "store_error + 'a \<Rightarrow> agent_tools_error + 'a" where
  "store_result r = (case r of Inl e \<Rightarrow> Inl (AT_Store e) | Inr a \<Rightarrow> Inr a)"

text \<open>A tool of the discovery part of the store, lifted to the whole.\<close>

definition on_core :: "(store \<Rightarrow> store \<times> (store_error + 'a)) \<Rightarrow> 'a tool" where
  "on_core f st = (case f (hs_core st) of (core, r) \<Rightarrow> (set_core core st, store_result r))"

section \<open>Success\<close>

lemma bind_Inr: "bind_tool m f st = (st', Inr b) \<longleftrightarrow> (\<exists>s a. m st = (s, Inr a) \<and> f a s = (st', Inr b))"
  by (auto simp: bind_tool_def split: prod.splits sum.splits)

lemma bind_run:
  "m st = (s, Inr a) \<Longrightarrow> bind_tool m f st = f a s"
  "m st = (s, Inl e) \<Longrightarrow> bind_tool m f st = (s, Inl e)"
  by (simp_all add: bind_tool_def)

lemma gets_Inr [simp]: "gets f st = (st', Inr a) \<longleftrightarrow> st' = st \<and> a = f st"
  by (auto simp: gets_def)

lemma reads_Inr [simp]: "reads f st = (st', Inr a) \<longleftrightarrow> st' = st \<and> f st = Inr a"
  by (auto simp: reads_def)

lemma require_Inr [simp]: "require_that P e st = (st', Inr u) \<longleftrightarrow> st' = st \<and> P st"
  by (auto simp: require_that_def)

lemma writes_Inr [simp]: "writes f st = (st', Inr u) \<longleftrightarrow> st' = f st"
  by (auto simp: writes_def)

lemma updates_Inr [simp]: "updates f st = (st', Inr u) \<longleftrightarrow> f st = Inr st'"
  by (auto simp: updates_def split: sum.splits)

lemma ret_Inr [simp]: "ret a st = (st', Inr b) \<longleftrightarrow> st' = st \<and> b = a"
  by (auto simp: ret_def)

lemma failing_Inr [simp]: "failing e st \<noteq> (st', Inr b)"
  by (simp add: failing_def)

lemma staged_Inr [simp]: "staged m st = (st', Inr a) \<longleftrightarrow> m st = (st', Inr a)"
  by (auto simp: staged_def split: prod.splits sum.splits)

lemma ok_or_Inr [simp]: "ok_or e v = Inr a \<longleftrightarrow> v = Some a"
  by (auto simp: ok_or_def split: option.splits)

lemma store_result_Inr [simp]: "store_result r = Inr a \<longleftrightarrow> r = Inr a"
  by (auto simp: store_result_def split: sum.splits)

lemma staged_Inl: "staged m st = (st', Inl e) \<Longrightarrow> st' = st"
  by (auto simp: staged_def split: prod.splits sum.splits)

section \<open>What a tool keeps\<close>

definition keeps :: "(home_store \<Rightarrow> bool) \<Rightarrow> 'a tool \<Rightarrow> bool" where
  "keeps I m \<longleftrightarrow> (\<forall>st. I st \<longrightarrow> I (fst (m st)))"

named_theorems keep_rules "what a combinator of tools keeps"

lemma keepsD: "keeps I m \<Longrightarrow> m st = (st', r) \<Longrightarrow> I st \<Longrightarrow> I st'"
  unfolding keeps_def by (metis fst_conv)

lemma keeps_ret [keep_rules]: "keeps I (ret a)"
  by (simp add: keeps_def ret_def)

lemma keeps_failing [keep_rules]: "keeps I (failing e)"
  by (simp add: keeps_def failing_def)

lemma keeps_gets [keep_rules]: "keeps I (gets f)"
  by (simp add: keeps_def gets_def)

lemma keeps_reads [keep_rules]: "keeps I (reads f)"
  by (simp add: keeps_def reads_def)

lemma keeps_require [keep_rules]: "keeps I (require_that P e)"
  by (simp add: keeps_def require_that_def)

lemma keeps_bind [keep_rules]: "keeps I m \<Longrightarrow> (\<And>a. keeps I (f a)) \<Longrightarrow> keeps I (bind_tool m f)"
  by (fastforce simp: keeps_def bind_tool_def split: prod.splits sum.splits)

lemma keeps_staged [keep_rules]: "keeps I m \<Longrightarrow> keeps I (staged m)"
  by (fastforce simp: keeps_def staged_def split: prod.splits sum.splits)

lemma keeps_writes: "(\<And>st. I st \<Longrightarrow> I (f st)) \<Longrightarrow> keeps I (writes f)"
  by (simp add: keeps_def writes_def)

lemma keeps_updates: "(\<And>st st'. I st \<Longrightarrow> f st = Inr st' \<Longrightarrow> I st') \<Longrightarrow> keeps I (updates f)"
  by (auto simp: keeps_def updates_def split: sum.splits)

lemma keeps_if [keep_rules]: "keeps I m \<Longrightarrow> keeps I n \<Longrightarrow> keeps I (if b then m else n)"
  by simp

lemma keeps_case_option [keep_rules]:
  "keeps I m \<Longrightarrow> (\<And>a. keeps I (f a)) \<Longrightarrow> keeps I (case v of None \<Rightarrow> m | Some a \<Rightarrow> f a)"
  by (cases v) simp_all

lemma keeps_case_sum [keep_rules]:
  "(\<And>e. keeps I (g e)) \<Longrightarrow> (\<And>a. keeps I (f a)) \<Longrightarrow> keeps I (case v of Inl e \<Rightarrow> g e | Inr a \<Rightarrow> f a)"
  by (cases v) simp_all

lemma keeps_Let [keep_rules]: "keeps I (f a) \<Longrightarrow> keeps I (let x = a in f x)"
  by simp

text \<open>A step that only runs from states the earlier steps have shown something about.\<close>

lemma keeps_bindI:
  assumes "keeps I m"
    and "\<And>st st' a. I st \<Longrightarrow> m st = (st', Inr a) \<Longrightarrow> I (fst (f a st'))"
  shows "keeps I (bind_tool m f)"
  unfolding keeps_def
proof (intro allI impI)
  fix st assume st: "I st"
  obtain s r where m: "m st = (s, r)" by (cases "m st")
  then have "I s" using assms(1) st by (auto simp: keeps_def dest: spec[of _ st])
  then show "I (fst (bind_tool m f st))"
    using m assms(2)[OF st] by (cases r) (simp_all add: bind_tool_def)
qed

section \<open>Invariants\<close>

text \<open>An invariant of the store that does not read the audit of harness writes.\<close>

locale audit_invariant =
  fixes I :: "home_store \<Rightarrow> bool"
  assumes inv_audit: "I (st\<lparr>hs_harness_write_audit := rows\<rparr>) \<longleftrightarrow> I st"
begin

lemma inv_record: "I (record_harness_write_at ctx operation pod now new_id st) \<longleftrightarrow> I st"
  by (simp add: record_harness_write_at_def inv_audit split: option.splits)

lemma keeps_record: "keeps I (writes (record_harness_write_at ctx operation pod now new_id))"
  by (rule keeps_writes) (simp add: inv_record)

end

text \<open>One that also survives an attempt to persist: what the tail of every changing tool needs.\<close>

locale store_invariant = audit_invariant I for I :: "home_store \<Rightarrow> bool" +
  fixes env :: tools_env
  assumes inv_persist: "I st \<Longrightarrow> I (fst (persisted env () st))"
begin

lemma keeps_persist: "keeps I (persist env a)"
proof -
  have "fst (persisted env a st) = fst (persisted env () st)" for st
    by (simp add: persisted_def split: prod.splits sum.splits)
  then show ?thesis using inv_persist by (simp add: keeps_def persist_def)
qed

end

text \<open>
  A failed write replaces the store by what the database reloads. Nothing is claimed of that database
  but that what it reloads has the property at hand; while it has it, so does the store of any attempt.
\<close>

definition reload_holds :: "tools_env \<Rightarrow> (home_store \<Rightarrow> bool) \<Rightarrow> bool" where
  "reload_holds env J \<longleftrightarrow>
     (\<forall>database st message reloaded. te_persistence env = Some database \<longrightarrow>
        database st = Some (message, reloaded) \<longrightarrow> J reloaded)"

lemma persisted_cases:
  obtains "persisted env a st = (st, Inr a)"
  | database message reloaded where "te_persistence env = Some database"
      "database st = Some (message, reloaded)" "persisted env a st = (reloaded, Inl (AT_Persistence message))"
proof (cases "te_persistence env")
  case None
  then show ?thesis using that(1) by (simp add: persisted_def persist_locked_def)
next
  case (Some database)
  then show ?thesis
    using that by (cases "database st") (auto simp: persisted_def persist_locked_def)
qed

lemma reload_persisted: "reload_holds env J \<Longrightarrow> J st \<Longrightarrow> J (fst (persisted env a st))"
  by (rule persisted_cases[of env a st]) (auto simp: reload_holds_def)

lemma persist_success: "persist env a st = (st', Inr b) \<Longrightarrow> st' = st \<and> b = a"
  by (rule persisted_cases[of env a st]) (simp_all add: persist_def)

end
