(* ===== verification/Package_Edits.thy ===== *)
theory Package_Edits
  imports Skill_Packs
begin

text \<open>
  The package of a new Pod, and the operations that make one package from another
  (\<open>skill_pack.rs\<close>): patch, import, export and fork, with the allowlist of portable files.
\<close>

section \<open>The first package\<close>

fun visibility_debug :: "visibility \<Rightarrow> string" where
  "visibility_debug Public = ''Public''"
| "visibility_debug InviteOnly = ''InviteOnly''"
| "visibility_debug Private = ''Private''"

definition default_pod_yaml :: "pod \<Rightarrow> string" where
  "default_pod_yaml pod =
     unlines
       [''name: '' @ pd_name pod,
        ''slug: '' @ pd_slug pod,
        ''description: '' @ pd_description pod,
        ''visibility: '' @ visibility_debug (pd_visibility pod),
        [],
        ''default_modes:'',
        ''  - deep_match'',
        ''  - adjacent'',
        ''  - old_gem'',
        ''  - human_pick'',
        ''  - rabbit_hole'',
        [],
        ''positive_signals:'',
        ''  - working demo'',
        ''  - visual artifact'',
        ''  - implementation detail'',
        ''  - independent research'',
        ''  - unusual interaction pattern'',
        [],
        ''negative_signals:'',
        ''  - politics'',
        ''  - generic AI hype'',
        ''  - VC announcement'',
        ''  - no artifact'',
        ''  - engagement bait'',
        [],
        ''brief_style:'',
        ''  tone: concise'',
        ''  max_items: 7'',
        ''  include_why_it_matters: true'',
        ''  include_user_fit: true'']"

definition default_skill_md :: "pod \<Rightarrow> string" where
  "default_skill_md pod =
     unlines
       [''---'',
        ''name: '' @ pd_slug pod @ ''-pod'',
        ''description: Use when discovering, submitting, summarizing, or curating links for the '' @ pd_name pod @ '' pod.'',
        ''---'',
        [],
        ''# '' @ pd_name pod @ '' Pod'',
        [],
        ''## Purpose'',
        [],
        pd_description pod,
        [],
        ''## Prefer'',
        [],
        ''- Interactive demos'',
        ''- Independent research'',
        ''- Clear artifacts'',
        ''- Specific implementation details'',
        ''- Weird but practical experiments'',
        ''- Older links that still feel alive'',
        [],
        ''## Avoid'',
        [],
        ''- Political discourse'',
        ''- VC announcements'',
        ''- Engagement bait'',
        ''- Generic AI hype'',
        ''- Product launches with no artifact'',
        [],
        ''## Submission Guidance'',
        [],
        ''Include why the link belongs, what idea it unlocks, and whether it is practical, speculative, aesthetic, or technical.'']"

definition default_context_md :: "pod \<Rightarrow> string" where
  "default_context_md pod =
     unlines
       [''# '' @ pd_name pod,
        [],
        ''## Scope'',
        [],
        pd_description pod,
        [],
        ''## Boundaries'',
        [],
        ''This context defines the Pod subject; curation instructions belong in SKILL.md.'']"

definition default_sources_yaml :: string where
  "default_sources_yaml =
     unlines
       [''source_rules:'',
        ''  - inspect:'',
        ''      kind: publication'',
        ''      name: sources relevant to this Pod subject'',
        ''    seek:'',
        ''      description: durable material within the Pod scope'',
        ''    schedule:'',
        ''      cadence: on_demand'']"

definition default_filters_yaml :: string where
  "default_filters_yaml =
     unlines
       [''blocked_topics: []'',
        ''blocked_domains: []'',
        ''downrank:'',
        ''  - generic AI hype'',
        ''  - VC announcement'',
        ''  - product launch without artifact'',
        ''auto_promote_crawler_candidates: false'']"

definition default_examples_good_md :: string where
  "default_examples_good_md =
     unlines
       [''# Good examples'',
        [],
        ''- Links with artifacts, demos, clear notes, or durable ideas.'']"

definition default_examples_bad_md :: string where
  "default_examples_bad_md =
     unlines
       [''# Bad examples'',
        [],
        ''- Engagement bait, politics, generic hype, or thin launches.'']"

definition default_skill_pack :: "uuid \<Rightarrow> time \<Rightarrow> pod \<Rightarrow> pod_skill_pack" where
  "default_skill_pack new_id now pod =
     \<lparr> pk_id = new_id, pk_pod_id = pd_id pod, pk_version = 1,
       pk_context_md = default_context_md pod, pk_pod_yaml = default_pod_yaml pod,
       pk_skill_md = default_skill_md pod, pk_sources_yaml = default_sources_yaml,
       pk_filters_yaml = default_filters_yaml, pk_examples_good_md = default_examples_good_md,
       pk_examples_bad_md = default_examples_bad_md, pk_owner_id = pd_created_by pod,
       pk_proposer_harness_id = None, pk_created_at = now, pk_updated_at = now \<rparr>"

section \<open>New versions\<close>

text \<open>\<open>version += 1\<close> on an \<open>i32\<close>, as the release build computes it.\<close>

definition next_version :: "int \<Rightarrow> int" where
  "next_version v = (if v = 2147483647 then - 2147483648 else v + 1)"

definition given :: "'a option \<Rightarrow> 'a \<Rightarrow> 'a" where
  "given v old = (case v of None \<Rightarrow> old | Some new \<Rightarrow> new)"

definition patched_skill_pack :: "time \<Rightarrow> pod_skill_pack \<Rightarrow> skill_pack_patch \<Rightarrow> pod_skill_pack" where
  "patched_skill_pack now k p =
     k\<lparr>pk_context_md := given (sp_context_md p) (pk_context_md k),
       pk_pod_yaml := given (sp_pod_yaml p) (pk_pod_yaml k),
       pk_skill_md := given (sp_skill_md p) (pk_skill_md k),
       pk_sources_yaml := given (sp_sources_yaml p) (pk_sources_yaml k),
       pk_filters_yaml := given (sp_filters_yaml p) (pk_filters_yaml k),
       pk_examples_good_md := given (sp_examples_good_md p) (pk_examples_good_md k),
       pk_examples_bad_md := given (sp_examples_bad_md p) (pk_examples_bad_md k),
       pk_version := next_version (pk_version k), pk_updated_at := now\<rparr>"

definition forked_skill_pack ::
  "tools_env \<Rightarrow> uuid \<Rightarrow> time \<Rightarrow> pod_skill_pack \<Rightarrow> pod \<Rightarrow> pod_skill_pack" where
  "forked_skill_pack env new_id now source target =
     source\<lparr>pk_id := new_id, pk_pod_id := pd_id target, pk_version := 1,
       pk_owner_id := pd_created_by target, pk_proposer_harness_id := None,
       pk_created_at := now, pk_updated_at := now,
       pk_pod_yaml := replace_from ''slug:''
         (''# forked_from_skill_pack: '' @ te_uuid_str env (pk_id source) @ [CHR 0x0A] @ ''slug:'')
         0 (pk_pod_yaml source)\<rparr>"

section \<open>Portable files\<close>

type_synonym package_files = "(string, string) omap"

definition portable_package_files :: "string list" where
  "portable_package_files =
     [''CONTEXT.md'', ''SKILL.md'', ''sources.yaml'', ''filters.yaml'', ''examples.good.md'',
      ''examples.bad.md'', ''events.jsonl'']"

definition exported_files :: "pod_skill_pack \<Rightarrow> string \<Rightarrow> package_files" where
  "exported_files k events_jsonl =
     fold (\<lambda>(name, content). om_put name content)
       [(''CONTEXT.md'', pk_context_md k), (''SKILL.md'', pk_skill_md k),
        (''sources.yaml'', pk_sources_yaml k), (''filters.yaml'', pk_filters_yaml k),
        (''examples.good.md'', pk_examples_good_md k), (''examples.bad.md'', pk_examples_bad_md k),
        (''events.jsonl'', events_jsonl)] []"

definition imported_skill_pack :: "time \<Rightarrow> pod_skill_pack \<Rightarrow> package_files \<Rightarrow> pod_skill_pack" where
  "imported_skill_pack now k files =
     k\<lparr>pk_context_md := given (om_get files ''CONTEXT.md'') (pk_context_md k),
       pk_skill_md := given (om_get files ''SKILL.md'') (pk_skill_md k),
       pk_sources_yaml := given (om_get files ''sources.yaml'') (pk_sources_yaml k),
       pk_filters_yaml := given (om_get files ''filters.yaml'') (pk_filters_yaml k),
       pk_examples_good_md := given (om_get files ''examples.good.md'') (pk_examples_good_md k),
       pk_examples_bad_md := given (om_get files ''examples.bad.md'') (pk_examples_bad_md k),
       pk_version := next_version (pk_version k), pk_updated_at := now\<rparr>"

definition unsupported_file_message :: "tools_env \<Rightarrow> string \<Rightarrow> string" where
  "unsupported_file_message env name =
     (let lower = te_lowercase env name
      in if contains lower ''grant'' \<or> contains lower ''credential'' \<or> contains lower ''permission''
         then ''portable Pod Package cannot contain node-local authority file '' @ name
         else ''portable Pod Package contains unsupported file '' @ name)"

definition validate_portable_package_files :: "tools_env \<Rightarrow> package_files \<Rightarrow> store_error + unit" where
  "validate_portable_package_files env files =
     (case find (\<lambda>required. om_get files required = None) portable_package_files of
        Some required \<Rightarrow> Inl (Validation (''portable Pod Package is missing '' @ required))
      | None \<Rightarrow>
          (case find (\<lambda>name. name \<notin> set portable_package_files) (om_keys files) of
             Some name \<Rightarrow> Inl (Validation (unsupported_file_message env name))
           | None \<Rightarrow> Inr ()))"

definition required_file :: "package_files \<Rightarrow> string \<Rightarrow> store_error + string" where
  "required_file files name =
     (case om_get files name of
        None \<Rightarrow> Inl (Validation (''portable Pod Package is missing '' @ name))
      | Some content \<Rightarrow> Inr content)"

definition pod_package_contents_from_files ::
  "tools_env \<Rightarrow> package_files \<Rightarrow> store_error + pod_package_contents" where
  "pod_package_contents_from_files env files =
     (case validate_portable_package_files env files of
        Inl e \<Rightarrow> Inl e
      | Inr _ \<Rightarrow>
      (case required_file files ''CONTEXT.md'' of Inl e \<Rightarrow> Inl e | Inr context_md \<Rightarrow>
      (case required_file files ''SKILL.md'' of Inl e \<Rightarrow> Inl e | Inr skill_md \<Rightarrow>
      (case required_file files ''sources.yaml'' of Inl e \<Rightarrow> Inl e | Inr sources_yaml \<Rightarrow>
      (case required_file files ''filters.yaml'' of Inl e \<Rightarrow> Inl e | Inr filters_yaml \<Rightarrow>
      (case required_file files ''examples.good.md'' of Inl e \<Rightarrow> Inl e | Inr examples_good_md \<Rightarrow>
      (case required_file files ''examples.bad.md'' of Inl e \<Rightarrow> Inl e | Inr examples_bad_md \<Rightarrow>
         Inr \<lparr> pc_context_md = context_md, pc_skill_md = skill_md, pc_sources_yaml = sources_yaml,
               pc_filters_yaml = filters_yaml, pc_examples_good_md = examples_good_md,
               pc_examples_bad_md = examples_bad_md \<rparr>)))))))"

definition complete_package_patch :: "pod_package_contents \<Rightarrow> skill_pack_patch" where
  "complete_package_patch c =
     \<lparr> sp_context_md = Some (pc_context_md c), sp_pod_yaml = None,
       sp_skill_md = Some (pc_skill_md c), sp_sources_yaml = Some (pc_sources_yaml c),
       sp_filters_yaml = Some (pc_filters_yaml c),
       sp_examples_good_md = Some (pc_examples_good_md c),
       sp_examples_bad_md = Some (pc_examples_bad_md c) \<rparr>"

definition package_contents_match :: "pod_skill_pack \<Rightarrow> pod_package_contents \<Rightarrow> bool" where
  "package_contents_match k c \<longleftrightarrow>
     pk_context_md k = pc_context_md c \<and> pk_skill_md k = pc_skill_md c \<and>
     pk_sources_yaml k = pc_sources_yaml c \<and> pk_filters_yaml k = pc_filters_yaml c \<and>
     pk_examples_good_md k = pc_examples_good_md c \<and> pk_examples_bad_md k = pc_examples_bad_md c"

section \<open>Round trips\<close>

lemma exported_file:
  "om_get (exported_files k events) ''CONTEXT.md'' = Some (pk_context_md k)"
  "om_get (exported_files k events) ''SKILL.md'' = Some (pk_skill_md k)"
  "om_get (exported_files k events) ''sources.yaml'' = Some (pk_sources_yaml k)"
  "om_get (exported_files k events) ''filters.yaml'' = Some (pk_filters_yaml k)"
  "om_get (exported_files k events) ''examples.good.md'' = Some (pk_examples_good_md k)"
  "om_get (exported_files k events) ''examples.bad.md'' = Some (pk_examples_bad_md k)"
  "om_get (exported_files k events) ''events.jsonl'' = Some events"
  by (simp_all add: exported_files_def del: om_put.simps)

lemma exported_file_names: "set (om_keys (exported_files k events)) = set portable_package_files"
  by (auto simp: exported_files_def portable_package_files_def simp del: om_put.simps)

lemma exported_files_valid: "validate_portable_package_files env (exported_files k events) = Inr ()"
proof -
  have "find (\<lambda>required. om_get (exported_files k events) required = None) portable_package_files = None"
    by (simp add: portable_package_files_def exported_file)
  moreover have "find (\<lambda>name. name \<notin> set portable_package_files) (om_keys (exported_files k events)) = None"
    by (simp add: find_None_iff exported_file_names)
  ultimately show ?thesis by (simp add: validate_portable_package_files_def)
qed

lemma export_contents:
  "pod_package_contents_from_files env (exported_files k events) = Inr (contents_of_pack k)"
  by (simp add: pod_package_contents_from_files_def exported_files_valid required_file_def
      contents_of_pack_def exported_file)

lemma contents_match_iff: "package_contents_match k c \<longleftrightarrow> contents_of_pack k = c"
  by (cases c) (auto simp: package_contents_match_def contents_of_pack_def)

lemma imported_export_contents:
  "contents_of_pack (imported_skill_pack now existing (exported_files k events)) = contents_of_pack k"
  by (simp add: imported_skill_pack_def contents_of_pack_def exported_file given_def)

lemma patched_contents:
  "contents_of_pack (patched_skill_pack now k (complete_package_patch c)) = c"
  by (simp add: patched_skill_pack_def complete_package_patch_def contents_of_pack_def given_def)

end
