(* ===== verification/Pod_Lifecycle.thy ===== *)
theory Pod_Lifecycle
  imports Tool_Monad Package_Edits Harness_Admin
begin

text \<open>
  Who may act on a Pod, its creation with a first package, its visibility and its deletion
  (\<open>agent_tools/pod/helpers_1.rs\<close>, \<open>helpers_2.rs\<close>, \<open>agent_tools/shared.rs\<close>). What a change needs an
  approval for is theory Proposals.
\<close>

section \<open>Authority\<close>

definition authorize_harness_for_new_pod ::
  "tools_env \<Rightarrow> auth_context \<Rightarrow> harness_capability \<Rightarrow> home_store \<Rightarrow> agent_tools_error + unit" where
  "authorize_harness_for_new_pod env ctx capability st =
     (case authorize_harness env st ctx capability None of
        Inl e \<Rightarrow> Inl e
      | Inr _ \<Rightarrow>
          (case Option.bind (ctx_harness_id ctx) (om_get (hs_agent_harnesses st)) of
             None \<Rightarrow> Inr ()
           | Some harness \<Rightarrow>
               if hg_pod_ids (ah_grant harness) \<noteq> None
               then Inl (AT_Forbidden ''a Pod-scoped harness grant cannot create a new Pod'')
               else Inr ()))"

definition authorize_harness_pod_scope ::
  "tools_env \<Rightarrow> auth_context \<Rightarrow> uuid \<Rightarrow> home_store \<Rightarrow> agent_tools_error + unit" where
  "authorize_harness_pod_scope env ctx pod_id st =
     (case harness_for_context st ctx of
        Inl e \<Rightarrow> Inl e
      | Inr None \<Rightarrow> Inr ()
      | Inr (Some harness) \<Rightarrow>
          if grant_covers_pod (ah_grant harness) pod_id then Inr ()
          else Inl (AT_Forbidden (''harness grant does not include Pod '' @ te_uuid_str env pod_id)))"

definition has_role :: "home_store \<Rightarrow> uuid \<Rightarrow> uuid \<Rightarrow> pod_role \<Rightarrow> bool" where
  "has_role st user_id pod_id role \<longleftrightarrow>
     list_ex (\<lambda>a. ra_user_id a = user_id \<and> ra_pod_id a = pod_id \<and> ra_role a = role) (hs_pod_roles st)"

definition authorize_pod_role_owner ::
  "tools_env \<Rightarrow> auth_context \<Rightarrow> uuid \<Rightarrow> home_store \<Rightarrow> agent_tools_error + unit" where
  "authorize_pod_role_owner env ctx pod_id st =
     (case authorize_harness env st ctx Cap_PodCuration (Some pod_id) of
        Inl e \<Rightarrow> Inl e
      | Inr _ \<Rightarrow>
          if (case ctx_user_id ctx of None \<Rightarrow> False | Some u \<Rightarrow> has_role st u pod_id Owner) then Inr ()
          else Inl (AT_Forbidden (''User is not an Owner of Pod '' @ te_uuid_str env pod_id)))"

definition tenant_node :: "tools_env \<Rightarrow> auth_context \<Rightarrow> home_store \<Rightarrow> agent_tools_error + node_identity" where
  "tenant_node env ctx st = store_result (node_for_tenant (te_ext env) (hs_core st) (ctx_tenant_id ctx))"

definition stored_pod :: "string \<Rightarrow> tools_env \<Rightarrow> uuid \<Rightarrow> home_store \<Rightarrow> agent_tools_error + pod" where
  "stored_pod noun env pod_id st =
     ok_or (AT_Store (NotFound (noun @ te_uuid_str env pod_id))) (om_get (st_pods (hs_core st)) pod_id)"

definition in_tenant :: "auth_context \<Rightarrow> uuid option \<Rightarrow> agent_tools_error + unit" where
  "in_tenant ctx tenant = store_result (assert_tenant tenant (ctx_tenant_id ctx))"

definition is_remote :: "pod \<Rightarrow> node_identity \<Rightarrow> bool" where
  "is_remote pod node \<longleftrightarrow>
     (case pd_origin_node_id pod of None \<Rightarrow> False | Some origin \<Rightarrow> origin \<noteq> nd_id node)"

definition authorize_local_pod_curation ::
  "tools_env \<Rightarrow> auth_context \<Rightarrow> uuid \<Rightarrow> home_store \<Rightarrow> agent_tools_error + unit" where
  "authorize_local_pod_curation env ctx pod_id st =
     (case authorize_harness env st ctx Cap_PodCuration (Some pod_id) of
        Inl e \<Rightarrow> Inl e
      | Inr _ \<Rightarrow>
      (case stored_pod ''Pod '' env pod_id st of Inl e \<Rightarrow> Inl e | Inr pod \<Rightarrow>
      (case in_tenant ctx (pd_tenant_id pod) of Inl e \<Rightarrow> Inl e | Inr _ \<Rightarrow>
      (case tenant_node env ctx st of Inl e \<Rightarrow> Inl e | Inr node \<Rightarrow>
         if is_remote pod node
         then Inl (AT_Forbidden (''remote Pod '' @ te_uuid_str env pod_id @ '' cannot receive local curation''))
         else Inr ()))))"

definition ensure_direct_package_revision_allowed_for_origin ::
  "tools_env \<Rightarrow> auth_context \<Rightarrow> pod \<Rightarrow> home_store \<Rightarrow> agent_tools_error + unit" where
  "ensure_direct_package_revision_allowed_for_origin env ctx pod st =
     (case tenant_node env ctx st of
        Inl e \<Rightarrow> Inl e
      | Inr node \<Rightarrow>
          if is_remote pod node
          then Inl (AT_Store (Validation ''remote Pod Packages may change only through verified synchronization''))
          else Inr ())"

definition ensure_direct_package_revision_allowed ::
  "tools_env \<Rightarrow> auth_context \<Rightarrow> pod \<Rightarrow> home_store \<Rightarrow> agent_tools_error + unit" where
  "ensure_direct_package_revision_allowed env ctx pod st =
     (case ensure_direct_package_revision_allowed_for_origin env ctx pod st of
        Inl e \<Rightarrow> Inl e
      | Inr _ \<Rightarrow>
          if pd_visibility pod = Public
          then Inl (AT_Store (Validation ''public Package Revisions require Pending Proposal approval''))
          else Inr ())"

definition ensure_package_base_version :: "pod_skill_pack \<Rightarrow> int \<Rightarrow> agent_tools_error + unit" where
  "ensure_package_base_version existing base_version =
     (case package_version_new (pk_version existing) of
        Inl v \<Rightarrow> Inl (AT_Store (Validation (package_version_error_to_string v)))
      | Inr version \<Rightarrow>
          if version \<noteq> base_version
          then Inl (AT_Store (Validation ''Package Revision base version is stale'')) else Inr ())"

definition curation_actor_of :: "auth_context \<Rightarrow> curation_actor" where
  "curation_actor_of ctx =
     (case ctx_harness_id ctx of
        Some h \<Rightarrow> CA_Harness h
      | None \<Rightarrow> (case ctx_user_id ctx of Some u \<Rightarrow> CA_User u | None \<Rightarrow> CA_NodeAgent))"

fun visibility_exposure :: "visibility \<Rightarrow> nat" where
  "visibility_exposure Private = 0"
| "visibility_exposure InviteOnly = 1"
| "visibility_exposure Public = 2"

definition private_inbox_slug :: "tools_env \<Rightarrow> uuid \<Rightarrow> string" where
  "private_inbox_slug env user_id = ''inbox-'' @ te_uuid_str env user_id"

definition is_private_inbox :: "tools_env \<Rightarrow> pod \<Rightarrow> bool" where
  "is_private_inbox env pod \<longleftrightarrow>
     (case pd_created_by pod of None \<Rightarrow> False | Some u \<Rightarrow> pd_slug pod = private_inbox_slug env u)"

section \<open>Creation\<close>

datatype pod_creation_mode = PM_Canonical | PM_SimpleCreate | PM_PrivatePackage | PM_LegacyPublic

fun creation_event_type :: "pod_creation_mode \<Rightarrow> pod_event_type" where
  "creation_event_type PM_PrivatePackage = PrivatePodPackageCreated"
| "creation_event_type _ = PodCreated"

definition records_audit :: "pod_creation_mode \<Rightarrow> bool" where
  "records_audit mode \<longleftrightarrow> mode \<noteq> PM_LegacyPublic"

text \<open>
  A derived package must be stored as given. The code looks the stored one up by the identity the
  versions of a package share and compares the first one its map yields.
\<close>

definition validate_creation_package ::
  "tools_env \<Rightarrow> auth_context \<Rightarrow> pod_creation_package \<Rightarrow> home_store \<Rightarrow> agent_tools_error + unit" where
  "validate_creation_package env ctx package st =
     (case package of
        PCP_Default \<Rightarrow> Inr ()
      | PCP_Initial contents \<Rightarrow>
          let report = validate_pod_package_contents env contents
          in if vr_valid report then Inr ()
             else Inl (AT_Store (Validation (join_with '', '' (vr_errors report))))
      | PCP_Derived source_package \<Rightarrow>
          (case ok_or (AT_Store (NotFound ''source Pod Package''))
                  (find (\<lambda>k. pk_id k = pk_id source_package)
                    (values_in_order (te_order_versions env) (pst_pod_package_versions (hs_pods st)))) of
             Inl e \<Rightarrow> Inl e
           | Inr source \<Rightarrow>
           (case stored_pod ''pod '' env (pk_pod_id source) st of Inl e \<Rightarrow> Inl e | Inr source_pod \<Rightarrow>
           (case in_tenant ctx (pd_tenant_id source_pod) of Inl e \<Rightarrow> Inl e | Inr _ \<Rightarrow>
           (case authorize_harness env st ctx Cap_PackageManagement (Some (pd_id source_pod)) of
              Inl e \<Rightarrow> Inl e
            | Inr _ \<Rightarrow>
                if source \<noteq> source_package
                then Inl (AT_Store (Validation ''derived source Pod Package does not match stored provenance''))
                else Inr ())))))"

definition proposer_user :: "uuid option \<Rightarrow> home_store \<Rightarrow> uuid option" where
  "proposer_user proposer st =
     map_option ah_user_id (Option.bind proposer (om_get (hs_agent_harnesses st)))"

definition pod_owner ::
  "tools_env \<Rightarrow> auth_context \<Rightarrow> uuid option \<Rightarrow> pod_creation_mode \<Rightarrow> home_store
    \<Rightarrow> agent_tools_error + uuid option" where
  "pod_owner env ctx proposer mode st =
     (let required = (\<lambda>message v. case v of None \<Rightarrow> Inl (AT_Store (Validation message)) | Some u \<Rightarrow> Inr (Some u))
      in case mode of
           PM_PrivatePackage \<Rightarrow> required ''private Pod Package requires an owner'' (ctx_user_id ctx)
         | PM_Canonical \<Rightarrow>
             required ''Pod creation requires an owner'' (or_else (proposer_user proposer st) (ctx_user_id ctx))
         | PM_SimpleCreate \<Rightarrow>
             required ''Pod creation requires an owner''
               (or_else (or_else (proposer_user proposer st) (ctx_user_id ctx)) (local_owner_user_id env st))
         | PM_LegacyPublic \<Rightarrow> Inr (proposer_user proposer st))"

definition new_pod ::
  "uuid \<times> time \<Rightarrow> auth_context \<Rightarrow> create_pod_request \<Rightarrow> uuid option \<Rightarrow> node_identity \<Rightarrow> pod" where
  "new_pod drawn ctx request owner_id node =
     \<lparr> pd_id = fst drawn, pd_tenant_id = ctx_tenant_id ctx, pd_name = cq_name request,
       pd_slug = cq_slug request, pd_description = cq_description request,
       pd_visibility = cq_visibility request, pd_created_by = owner_id, pd_created_at = snd drawn,
       pd_origin_node_id = Some (nd_id node) \<rparr>"

definition initial_pod_yaml :: "pod \<Rightarrow> string" where
  "initial_pod_yaml pod =
     unlines [''name: '' @ pd_name pod, ''slug: '' @ pd_slug pod,
       ''description: '' @ pd_description pod, ''visibility: '' @ visibility_wire (pd_visibility pod)]"

definition first_package ::
  "tools_env \<Rightarrow> uuid \<times> time \<Rightarrow> pod \<Rightarrow> uuid option \<Rightarrow> pod_creation_package \<Rightarrow> pod_skill_pack" where
  "first_package env drawn pod proposer package =
     (case package of
        PCP_Default \<Rightarrow> default_skill_pack (fst drawn) (snd drawn) pod
      | PCP_Initial c \<Rightarrow>
          \<lparr> pk_id = fst drawn, pk_pod_id = pd_id pod, pk_version = 1,
            pk_context_md = pc_context_md c, pk_pod_yaml = initial_pod_yaml pod,
            pk_skill_md = pc_skill_md c, pk_sources_yaml = pc_sources_yaml c,
            pk_filters_yaml = pc_filters_yaml c, pk_examples_good_md = pc_examples_good_md c,
            pk_examples_bad_md = pc_examples_bad_md c, pk_owner_id = pd_created_by pod,
            pk_proposer_harness_id = proposer, pk_created_at = pd_created_at pod,
            pk_updated_at = pd_created_at pod \<rparr>
      | PCP_Derived source \<Rightarrow> forked_skill_pack env (fst drawn) (snd drawn) source pod)
     \<lparr>pk_version := 1, pk_proposer_harness_id := proposer\<rparr>"

definition slug_taken :: "auth_context \<Rightarrow> string \<Rightarrow> home_store \<Rightarrow> bool" where
  "slug_taken ctx slug st \<longleftrightarrow>
     list_ex (\<lambda>p. pd_slug p = slug \<and> pd_tenant_id p = ctx_tenant_id ctx) (om_vals (st_pods (hs_core st)))"

definition owner_role :: "pod \<Rightarrow> pod_role_assignment list" where
  "owner_role pod =
     (case pd_created_by pod of
        None \<Rightarrow> []
      | Some u \<Rightarrow> [\<lparr> ra_user_id = u, ra_pod_id = pd_id pod, ra_role = Owner, ra_created_at = pd_created_at pod \<rparr>])"

definition add_pod :: "pod \<Rightarrow> home_store \<Rightarrow> home_store" where
  "add_pod pod st =
     (let p = hs_pods st in
      (set_pods (om_put (pd_id pod) pod (st_pods (hs_core st))) st)
        \<lparr>hs_pods := p\<lparr>pst_pod_rules := om_put (pd_id pod)
            \<lparr> ru_pod_id = pd_id pod, ru_blocked_topics = [], ru_blocked_domains = [],
              ru_auto_promote_crawler_candidates = False,
              ru_federate_sources = (pd_visibility pod = Public) \<rparr> (pst_pod_rules p)\<rparr>,
         hs_pod_roles := hs_pod_roles st @ owner_role pod\<rparr>)"

definition put_skill_pack :: "uuid \<Rightarrow> pod_skill_pack \<Rightarrow> home_store \<Rightarrow> home_store" where
  "put_skill_pack pod_id package st =
     set_skill_packs (om_put pod_id package (st_pod_skill_packs (hs_core st))) st"

definition json_pod_and_package :: "pod \<Rightarrow> pod_skill_pack \<Rightarrow> json" where
  "json_pod_and_package pod package = JObj [(''pod'', json_pod pod), (''package'', json_package package)]"

text \<open>The drawing places: the Pod, its package, the event, the audit row.\<close>

definition stage_pod_lifecycle ::
  "tools_env \<Rightarrow> draws \<Rightarrow> auth_context \<Rightarrow> create_pod_lifecycle_request \<Rightarrow> uuid option
    \<Rightarrow> pod_creation_mode \<Rightarrow> created_pod_package tool" where
  "stage_pod_lifecycle env d ctx request proposer mode =
     bind_tool (reads (validate_creation_package env ctx (cl_package request))) (\<lambda>_.
     bind_tool (require_that (\<lambda>st. \<not> slug_taken ctx (cq_slug (cl_pod request)) st)
       (AT_Store (Duplicate (''pod '' @ cq_slug (cl_pod request))))) (\<lambda>_.
     bind_tool (reads (tenant_node env ctx)) (\<lambda>node.
     bind_tool (reads (pod_owner env ctx proposer mode)) (\<lambda>owner_id.
     let pod = new_pod (d 0) ctx (cl_pod request) owner_id node;
         package = first_package env (d 1) pod proposer (cl_package request)
     in
     bind_tool (writes (add_pod pod)) (\<lambda>_.
     bind_tool (updates (\<lambda>st. store_result (insert_pod_package_version env package st))) (\<lambda>_.
     bind_tool (writes (put_skill_pack (pd_id pod) package)) (\<lambda>_.
     bind_tool (updates (log_event env (d 2) node (creation_event_type mode) (pd_slug pod)
       (json_pod_and_package pod package))) (\<lambda>_.
     bind_tool (if records_audit mode
       then writes (record_harness_write_at ctx HW_CreatePod (Some (pd_id pod)) (snd (d 3)) (fst (d 3)))
       else ret ()) (\<lambda>_.
     ret \<lparr> cp_pod = pod, cp_package = package \<rparr>)))))))))"

definition create_pod_lifecycle_locked ::
  "tools_env \<Rightarrow> draws \<Rightarrow> auth_context \<Rightarrow> create_pod_lifecycle_request \<Rightarrow> uuid option
    \<Rightarrow> pod_creation_mode \<Rightarrow> created_pod_package tool" where
  "create_pod_lifecycle_locked env d ctx request proposer mode =
     staged (stage_pod_lifecycle env d ctx request proposer mode)"

definition create_pod_lifecycle_immediately ::
  "tools_env \<Rightarrow> draws \<Rightarrow> auth_context \<Rightarrow> create_pod_lifecycle_request \<Rightarrow> pod_creation_mode
    \<Rightarrow> created_pod_package tool" where
  "create_pod_lifecycle_immediately env d ctx request mode =
     bind_tool (reads (authorize_harness_for_new_pod env ctx Cap_PodCuration)) (\<lambda>_.
     bind_tool (if cl_package request = PCP_Default then ret ()
       else reads (authorize_harness_for_new_pod env ctx Cap_PackageManagement)) (\<lambda>_.
     staged (bind_tool (stage_pod_lifecycle env d ctx request (ctx_harness_id ctx) mode) (persist env))))"

definition create_pod ::
  "tools_env \<Rightarrow> draws \<Rightarrow> auth_context \<Rightarrow> create_pod_request \<Rightarrow> pod tool" where
  "create_pod env d ctx request =
     (if cq_visibility request = Public
      then failing (AT_Store (Validation ''public exposure requires a Pending Proposal''))
      else bind_tool (create_pod_lifecycle_immediately env d ctx
             \<lparr> cl_pod = request, cl_package = PCP_Default \<rparr> PM_SimpleCreate) (\<lambda>created. ret (cp_pod created)))"

definition create_private_pod_with_package ::
  "tools_env \<Rightarrow> draws \<Rightarrow> auth_context \<Rightarrow> create_private_pod_with_package_request
    \<Rightarrow> created_pod_package tool" where
  "create_private_pod_with_package env d ctx request =
     create_pod_lifecycle_immediately env d ctx
       \<lparr> cl_pod = \<lparr> cq_name = cw_name request, cq_slug = cw_slug request,
                   cq_description = cw_description request, cq_visibility = Private \<rparr>,
         cl_package = PCP_Initial (cw_package request) \<rparr> PM_PrivatePackage"

section \<open>Visibility\<close>

definition with_visibility :: "uuid \<Rightarrow> visibility \<Rightarrow> pod \<Rightarrow> home_store \<Rightarrow> home_store" where
  "with_visibility pod_id visibility pod st =
     (let p = hs_pods st; st1 = set_pods (om_put pod_id (pod\<lparr>pd_visibility := visibility\<rparr>) (st_pods (hs_core st))) st
      in case om_get (pst_pod_rules p) pod_id of
           None \<Rightarrow> st1
         | Some rules \<Rightarrow> st1\<lparr>hs_pods := p\<lparr>pst_pod_rules :=
             om_put pod_id (rules\<lparr>ru_federate_sources := (visibility = Public)\<rparr>) (pst_pod_rules p)\<rparr>\<rparr>)"

definition json_placed_item :: "submission \<Rightarrow> accepted_placement_projection \<Rightarrow> json" where
  "json_placed_item item placement =
     JObj [(''content_item'', json_content_item item), (''accepted_placement'', json_accepted_placement placement)]"

text \<open>The accepted content that travels with a Pod that becomes public, one event each.\<close>

fun emit_placements ::
  "tools_env \<Rightarrow> draws \<Rightarrow> node_identity \<Rightarrow> string \<Rightarrow> nat \<Rightarrow> accepted_placement_projection list \<Rightarrow> unit tool" where
  "emit_placements env d node slug i [] = ret ()"
| "emit_placements env d node slug i (placement # placements) =
     bind_tool (reads (\<lambda>st. ok_or (AT_Store (NotFound ''Content Item''))
       (om_get (pst_submissions (hs_pods st)) (ap_content_item_id placement)))) (\<lambda>item.
     bind_tool (updates (log_event env (d i) node ContentItemPlaced slug (json_placed_item item placement))) (\<lambda>_.
     emit_placements env d node slug (Suc i) placements))"

definition placements_of_pod :: "tools_env \<Rightarrow> uuid \<Rightarrow> home_store \<Rightarrow> accepted_placement_projection list" where
  "placements_of_pod env pod_id st =
     sort_key (\<lambda>p. (ap_accepted_at p, ap_content_item_id p))
       (filter (\<lambda>p. ap_pod_id p = pod_id)
         (values_in_order (te_order_pairs env) (pst_accepted_placements (hs_pods st))))"

definition stored_package :: "string \<Rightarrow> uuid \<Rightarrow> home_store \<Rightarrow> agent_tools_error + pod_skill_pack" where
  "stored_package noun pod_id st =
     ok_or (AT_Store (NotFound noun)) (om_get (st_pod_skill_packs (hs_core st)) pod_id)"

definition publish_pod_events ::
  "tools_env \<Rightarrow> draws \<Rightarrow> auth_context \<Rightarrow> uuid \<Rightarrow> pod \<Rightarrow> node_identity tool" where
  "publish_pod_events env d ctx pod_id pod =
     bind_tool (reads (tenant_node env ctx)) (\<lambda>node.
     bind_tool (reads (stored_package ''Pod Package'' pod_id)) (\<lambda>package.
     bind_tool (updates (log_event env (d 0) node PodPublished (pd_slug pod)
       (json_pod_and_package pod package))) (\<lambda>_. ret node)))"

definition apply_expand_pod_visibility ::
  "tools_env \<Rightarrow> draws \<Rightarrow> auth_context \<Rightarrow> uuid \<Rightarrow> visibility \<Rightarrow> unit tool" where
  "apply_expand_pod_visibility env d ctx pod_id visibility =
     bind_tool (reads (stored_pod ''pod '' env pod_id)) (\<lambda>pod.
     bind_tool (reads (\<lambda>_. in_tenant ctx (pd_tenant_id pod))) (\<lambda>_.
     bind_tool (require_that (\<lambda>_. visibility_exposure (pd_visibility pod) < visibility_exposure visibility)
       (AT_Store (Validation ''approved visibility must expand exposure''))) (\<lambda>_.
     bind_tool (writes (with_visibility pod_id visibility pod)) (\<lambda>_.
     if visibility \<noteq> Public then ret ()
     else bind_tool (publish_pod_events env d ctx pod_id (pod\<lparr>pd_visibility := visibility\<rparr>)) (\<lambda>node.
          bind_tool (gets (placements_of_pod env pod_id)) (\<lambda>placements.
          emit_placements env d node (pd_slug pod) 1 placements))))))"

section \<open>Deletion\<close>

definition om_filter :: "('k \<Rightarrow> 'v \<Rightarrow> bool) \<Rightarrow> ('k, 'v) omap \<Rightarrow> ('k, 'v) omap" where
  "om_filter P m = filter (\<lambda>(k, v). P k v) m"

text \<open>Content that no placement and no Save refers to any more goes, with what hangs on it.\<close>

definition drop_submission :: "uuid \<Rightarrow> pod_store \<Rightarrow> pod_store" where
  "drop_submission submission_id p =
     p\<lparr>pst_submissions := om_del submission_id (pst_submissions p),
       pst_submission_assets := om_filter (\<lambda>_ a. as_submission_id a \<noteq> submission_id) (pst_submission_assets p),
       pst_reading_history := filter (\<lambda>(_, s). s \<noteq> submission_id) (pst_reading_history p),
       pst_private_notes := om_filter (\<lambda>(_, s) _. s \<noteq> submission_id) (pst_private_notes p)\<rparr>"

definition drop_unused_submission :: "uuid \<Rightarrow> pod_store \<Rightarrow> pod_store" where
  "drop_unused_submission submission_id p =
     (if list_ex (\<lambda>l. sbp_submission_id l = submission_id) (pst_submission_pods p) \<or>
         list_ex (\<lambda>(_, saved). saved = submission_id) (pst_saves p)
      then p else drop_submission submission_id p)"

definition drop_pod_content :: "uuid \<Rightarrow> pod_store \<Rightarrow> pod_store" where
  "drop_pod_content pod_id p =
     (let submission_ids = map sbp_submission_id (filter (\<lambda>l. sbp_pod_id l = pod_id) (pst_submission_pods p))
      in fold drop_unused_submission submission_ids
           (p\<lparr>pst_submission_pods := filter (\<lambda>l. sbp_pod_id l \<noteq> pod_id) (pst_submission_pods p),
              pst_accepted_placements := om_filter (\<lambda>(_, placed) _. placed \<noteq> pod_id) (pst_accepted_placements p),
              pst_pod_placements := om_filter (\<lambda>(_, placed) _. placed \<noteq> pod_id) (pst_pod_placements p)\<rparr>))"

definition is_pod_task :: "uuid \<Rightarrow> discovery_task \<Rightarrow> bool" where
  "is_pod_task pod_id task \<longleftrightarrow> (case tt_pod (dt_target task) of None \<Rightarrow> False | Some (p, _) \<Rightarrow> p = pod_id)"

definition drop_pod_records :: "uuid \<Rightarrow> uuid list \<Rightarrow> pod_store \<Rightarrow> pod_store" where
  "drop_pod_records pod_id task_ids p =
     p\<lparr>pst_source_availability := fold om_del task_ids (pst_source_availability p),
       pst_subscriptions := om_filter (\<lambda>_ s. su_local_pod_id s \<noteq> pod_id) (pst_subscriptions p),
       pst_pod_rules := om_del pod_id (pst_pod_rules p),
       pst_pod_package_versions := om_filter (\<lambda>(id1, _) _. id1 \<noteq> pod_id) (pst_pod_package_versions p),
       pst_pod_curation_policies := om_del pod_id (pst_pod_curation_policies p),
       pst_crawler_sources := om_filter (\<lambda>_ s. cr_pod_id s \<noteq> pod_id) (pst_crawler_sources p)\<rparr>"

definition without_pod :: "uuid \<Rightarrow> agent_harness \<Rightarrow> agent_harness" where
  "without_pod pod_id h =
     h\<lparr>ah_grant := (ah_grant h)\<lparr>hg_pod_ids :=
        map_option (filter (\<lambda>p. p \<noteq> pod_id)) (hg_pod_ids (ah_grant h))\<rparr>\<rparr>"

definition purge_pod :: "uuid \<Rightarrow> home_store \<Rightarrow> home_store" where
  "purge_pod pod_id st =
     (let task_ids = om_keys (om_filter (\<lambda>_. is_pod_task pod_id) (hs_discovery_tasks st));
          p = drop_pod_records pod_id task_ids (drop_pod_content pod_id (hs_pods st));
          st1 = st\<lparr>hs_pods := p,
                   hs_discovery_tasks := om_filter (\<lambda>_ t. \<not> is_pod_task pod_id t) (hs_discovery_tasks st),
                   hs_pod_roles := filter (\<lambda>a. ra_pod_id a \<noteq> pod_id) (hs_pod_roles st),
                   hs_agent_harnesses := om_map_where (\<lambda>_. True) (without_pod pod_id) (hs_agent_harnesses st)\<rparr>
      in set_pods (om_del pod_id (st_pods (hs_core st1)))
           (set_skill_packs (om_del pod_id (st_pod_skill_packs (hs_core st1))) st1))"

text \<open>The drawing places: the withdrawal, its audit row, the row of the deletion.\<close>

definition withdraw_if_public ::
  "tools_env \<Rightarrow> draws \<Rightarrow> auth_context \<Rightarrow> pod \<Rightarrow> uuid \<Rightarrow> node_identity \<Rightarrow> time \<Rightarrow> bool tool" where
  "withdraw_if_public env d ctx pod pod_id node now =
     (if pd_visibility pod \<noteq> Public then ret False
      else
        bind_tool (on_core (issue_origin_pod_withdrawal (te_ext env) (fst (d 0)) node (pd_slug pod) None now)) (\<lambda>_.
        bind_tool (writes (record_harness_write_at ctx HW_WithdrawPublicPod (Some pod_id) now (fst (d 1)))) (\<lambda>_.
        ret True)))"

definition delete_owned_pod_locked ::
  "tools_env \<Rightarrow> draws \<Rightarrow> auth_context \<Rightarrow> uuid \<Rightarrow> time \<Rightarrow> deleted_pod tool" where
  "delete_owned_pod_locked env d ctx pod_id now =
     bind_tool (reads (stored_pod ''pod '' env pod_id)) (\<lambda>pod.
     bind_tool (reads (\<lambda>_. in_tenant ctx (pd_tenant_id pod))) (\<lambda>_.
     bind_tool (require_that (\<lambda>_. \<not> is_private_inbox env pod)
       (AT_Store (Validation ''the private Inbox cannot be deleted''))) (\<lambda>_.
     bind_tool (reads (tenant_node env ctx)) (\<lambda>node.
     bind_tool (require_that (\<lambda>_. \<not> is_remote pod node)
       (AT_Store (Validation ''this Pod is a replica of a remote Origin; unsubscribe instead of deleting''))) (\<lambda>_.
     bind_tool (withdraw_if_public env d ctx pod pod_id node now) (\<lambda>withdrawn.
     bind_tool (writes (purge_pod pod_id)) (\<lambda>_.
     bind_tool (writes (record_harness_write_at ctx HW_DeletePod (Some pod_id) now (fst (d 2)))) (\<lambda>_.
     ret \<lparr> dp_pod_id = pod_id, dp_slug = pd_slug pod, dp_withdrawn = withdrawn \<rparr>))))))))"

definition delete_pod_immediately ::
  "tools_env \<Rightarrow> draws \<Rightarrow> auth_context \<Rightarrow> uuid \<Rightarrow> time \<Rightarrow> deleted_pod tool" where
  "delete_pod_immediately env d ctx pod_id now =
     bind_tool (reads (authorize_pod_role_owner env ctx pod_id)) (\<lambda>_.
     staged (bind_tool (delete_owned_pod_locked env d ctx pod_id now) (persist env)))"

end
