(* ===== verification/Task_Props.thy ===== *)
theory Task_Props
  imports Task_Refine Pod_Lifecycle
begin

text \<open>
  Creation of tasks, the step relation of the whole queue, and what holds of every history: the
  life of a task, the exclusive lease, the idempotency key, and one task per Source Rule and period.
\<close>

section \<open>Creation\<close>

lemma om_get_in_vals: "om_get m k = Some v \<Longrightarrow> v \<in> set (om_vals m)"
  by (force simp: om_get_def om_vals_def dest!: map_of_SomeD)

definition fresh_draws :: "(nat \<Rightarrow> uuid \<times> 'b) \<Rightarrow> nat \<Rightarrow> home_store \<Rightarrow> bool" where
  "fresh_draws draw n st \<longleftrightarrow>
     inj (\<lambda>j. fst (draw j)) \<and> (\<forall>j \<ge> n. om_get (hs_discovery_tasks st) (fst (draw j)) = None)"

lemma fresh_draws_put:
  "fresh_draws draw n st \<Longrightarrow> draw n = (i, d) \<Longrightarrow> hs_discovery_tasks st' = om_put i t (hs_discovery_tasks st) \<Longrightarrow>
   fresh_draws draw (Suc n) st'"
  unfolding fresh_draws_def
  by (auto simp: inj_def) (metis Suc_n_not_le_n fst_conv)

lemma rules_refine:
  assumes "fresh_draws draw (length created) st"
    and "materialize_rules env draw now ctx pod version k cadences (st, created) = (st', created')"
  shows "refines_queue caller now st st' \<and> fresh_draws draw (length created') st'"
  using assms
proof (induction cadences arbitrary: k st created)
  case Nil
  then show ?case by simp
next
  case (Cons cadence cadences)
  define due where "due = source_rule_period_start (te_month_start env) cadence now"
  show ?case
  proof (cases "cadence = SC_OnDemand \<or> scheduled_task_exists st k (TT_Pod pod version) due")
    case True
    then have "materialize_rules env draw now ctx pod version (Suc k) cadences (st, created) = (st', created')"
      using Cons.prems(2) by (auto simp: due_def Let_def split: if_splits)
    then show ?thesis using Cons.IH Cons.prems(1) by blast
  next
    case False
    obtain i a clock where d: "draw (length created) = (i, a, clock)" by (cases "draw (length created)") auto
    define task where "task = \<lparr> dt_id = i, dt_target = TT_Pod pod version, dt_origin = DO_Scheduled k,
      dt_due_at = due, dt_state = DT_Pending, dt_attempts = [], dt_created_at = now \<rparr>"
    define st1 where "st1 = record_harness_write_at ctx HW_CreateDiscoveryTask (Some pod) clock a (put_task i task st)"
    have rest: "materialize_rules env draw now ctx pod version (Suc k) cadences (st1, created @ [task]) = (st', created')"
      using Cons.prems(2) False d by (simp add: due_def Let_def st1_def task_def put_task_def)
    have none: "om_get (hs_discovery_tasks st) i = None"
      using Cons.prems(1) d unfolding fresh_draws_def by (metis fst_conv order_refl)
    have "\<not> same_work task t'" if "om_get (hs_discovery_tasks st) j = Some t'" for j t'
      using False om_get_in_vals[OF that]
      by (auto simp: task_def same_work_def scheduled_task_exists_def list_ex_iff split: discovery_task_origin.splits)
    then have "queue_step caller now (hs_discovery_tasks st) (om_put (dt_id task) task (hs_discovery_tasks st))"
      by (intro queue_create) (auto simp: task_def none)
    then have "refines_queue caller now st st1"
      unfolding st1_def using refines_put(2) by (simp add: task_def)
    moreover have "fresh_draws draw (length (created @ [task])) st1"
      using fresh_draws_put[OF Cons.prems(1) d, of st1 task] by (simp add: st1_def)
    ultimately show ?thesis using Cons.IH[OF _ rest] refines_trans by blast
  qed
qed

lemma packages_refine:
  assumes "fresh_draws draw (length (snd acc)) (fst acc)"
    and "materialize_packages env draw now ctx packages acc = (st', r)"
  shows "refines_queue caller now (fst acc) st'"
  using assms
proof (induction packages arbitrary: acc)
  case Nil
  then show ?case by simp
next
  case (Cons package packages)
  show ?case
  proof (cases "package_version_new (pk_version package)")
    case (Inl v)
    then show ?thesis using Cons.prems(2) by simp
  next
    case (Inr version)
    show ?thesis
    proof (cases "source_rule_cadences env (pk_sources_yaml package)")
      case (Inl e)
      then show ?thesis using Cons.prems(2) Inr by simp
    next
      case (Inr cadences)
      obtain st1 created1 where m: "materialize_rules env draw now ctx (pk_pod_id package) version 0 cadences
          (fst acc, snd acc) = (st1, created1)" by fastforce
      have "refines_queue caller now (fst acc) st1" "fresh_draws draw (length created1) st1"
        using rules_refine[OF Cons.prems(1) m, of caller] by simp_all
      moreover have "materialize_packages env draw now ctx packages (st1, created1) = (st', r)"
        using Cons.prems(2) Inr m \<open>package_version_new (pk_version package) = Inr version\<close> by simp
      ultimately show ?thesis using Cons.IH[of "(st1, created1)"] refines_trans by auto
    qed
  qed
qed

lemma materialize_refines:
  assumes p: "persistence_ok env" and fresh: "fresh_draws draw 0 st"
  shows "refines_queue caller now st (fst (materialize_due_discovery_tasks env draw ctx now st))"
proof (cases "authorize_harness env st ctx Cap_DiscoveryTasks None")
  case (Inl e)
  then show ?thesis by (simp add: materialize_due_discovery_tasks_def)
next
  case a: (Inr u)
  show ?thesis
  proof (cases "harness_for_context st ctx")
    case (Inl e)
    then show ?thesis using a by (simp add: materialize_due_discovery_tasks_def)
  next
    case (Inr harness)
    obtain st' r where m: "materialize_packages env draw now ctx (packages_in_scope env harness st) (st, []) = (st', r)"
      by fastforce
    have "refines_queue caller now st st'" using packages_refine[OF _ m, of caller] fresh by simp
    then show ?thesis
      using a Inr m p by (cases r) (simp_all add: materialize_due_discovery_tasks_def)
  qed
qed

text \<open>The branches of an immediate creation.\<close>

lemma immediate_cases:
  assumes "persistence_ok env"
  obtains (refused) e where "create_immediate_discovery_task env (i, a, clock) ctx request now st = (st, Inl e)"
  | (existing) h t where "ctx_harness_id ctx = Some h"
      "find (same_request h (iq_idempotency_key request)) (uuid_values env (hs_discovery_tasks st)) = Some t"
      "create_immediate_discovery_task env (i, a, clock) ctx request now st = (st, Inr t)"
  | (created) h t version where "ctx_harness_id ctx = Some h"
      "find (same_request h (iq_idempotency_key request)) (uuid_values env (hs_discovery_tasks st)) = None"
      "t = \<lparr> dt_id = i, dt_target = TT_Pod (iq_pod_id request) version,
         dt_origin = DO_Immediate (iq_instructions request) (iq_idempotency_key request) h,
         dt_due_at = now, dt_state = DT_Pending, dt_attempts = [], dt_created_at = now \<rparr>"
      "create_immediate_discovery_task env (i, a, clock) ctx request now st =
         (record_harness_write_at ctx HW_CreateDiscoveryTask (Some (iq_pod_id request)) clock a
            (put_task i t st), Inr t)"
proof (cases "\<exists>e. create_immediate_discovery_task env (i, a, clock) ctx request now st = (st, Inl e)")
  case True
  then show thesis using refused by blast
next
  case False
  note ok = False[unfolded create_immediate_discovery_task_def]
  obtain u where u: "authorize_harness env st ctx Cap_DiscoveryTasks (Some (iq_pod_id request)) = Inr u"
    using ok by (cases "authorize_harness env st ctx Cap_DiscoveryTasks (Some (iq_pod_id request))") auto
  obtain h where h: "ctx_harness_id ctx = Some h" using ok u by (cases "ctx_harness_id ctx") auto
  have filled: "\<not> (trim (iq_instructions request) = [] \<or> trim (iq_idempotency_key request) = [])"
    using ok u h by (auto split: if_splits)
  show thesis
  proof (cases "find (same_request h (iq_idempotency_key request)) (uuid_values env (hs_discovery_tasks st))")
    case (Some t)
    then show thesis using existing[OF h Some] u h filled by (simp add: create_immediate_discovery_task_def)
  next
    case None
    obtain package where pk: "om_get (st_pod_skill_packs (hs_core st)) (iq_pod_id request) = Some package"
      using ok u h filled None by (cases "om_get (st_pod_skill_packs (hs_core st)) (iq_pod_id request)") auto
    obtain version where v: "package_version_new (pk_version package) = Inr version"
      using ok u h filled None pk by (cases "package_version_new (pk_version package)") auto
    show thesis
      by (rule created[OF h None refl, of version])
        (use u h filled None pk v assms in \<open>simp add: create_immediate_discovery_task_def Let_def put_task_def\<close>)
  qed
qed

lemma no_same_request:
  assumes "orders_ok env" "find (same_request h key) (uuid_values env m) = None" "om_get m i = Some t'"
    "dt_origin t = DO_Immediate instr key h"
  shows "\<not> same_work t t'"
proof -
  have "t' \<in> set (uuid_values env m)" unfolding set_uuid_values[OF assms(1)] using assms(3) by blast
  moreover have "\<not> (\<exists>x. x \<in> set (uuid_values env m) \<and> same_request h key x)"
    using assms(2) unfolding find_None_iff .
  ultimately have "\<not> same_request h key t'" by blast
  then show ?thesis using assms(4) by (cases "dt_origin t'") (auto simp: same_work_def same_request_def)
qed

lemma immediate_refines:
  assumes p: "persistence_ok env" and o: "orders_ok env" and fresh: "om_get (hs_discovery_tasks st) i = None"
  shows "refines_queue caller now st (fst (create_immediate_discovery_task env (i, a, clock) ctx request now st))"
  using p
proof (cases rule: immediate_cases[where i = i and a = a and clock = clock and ctx = ctx and request = request and now = now and st = st])
  case (refused e)
  then show ?thesis by simp
next
  case (existing h t)
  then show ?thesis by simp
next
  case (created h t version)
  have "queue_step caller now (hs_discovery_tasks st) (om_put (dt_id t) t (hs_discovery_tasks st))"
    using no_same_request[OF o created(2)] fresh created(3) by (intro queue_create) auto
  then show ?thesis unfolding created(4) fst_conv using refines_put(2) created(3) by simp
qed

section \<open>The whole queue\<close>

text \<open>
  One operation by a caller at a time; a drawn identity is not in use. \<open>clock\<close> is what the wall
  clock shows when the audit row is written, which may differ from the time of the operation.
\<close>

inductive task_step :: "tools_env \<Rightarrow> uuid option \<Rightarrow> time \<Rightarrow> home_store \<Rightarrow> home_store \<Rightarrow> bool"
  for env :: tools_env where
  step_claim: "task_step env (ctx_harness_id ctx) now st (fst (claim_discovery_task env a clock ctx i now lease st))"
| step_renew: "task_step env (ctx_harness_id ctx) now st (fst (renew_discovery_task_lease env a clock ctx i now lease st))"
| step_complete: "task_step env (ctx_harness_id ctx) now st (fst (complete_discovery_task env a clock ctx i now st))"
| step_fail: "task_step env (ctx_harness_id ctx) now st (fst (fail_discovery_task env a clock ctx i now reason st))"
| step_immediate: "om_get (hs_discovery_tasks st) i = None \<Longrightarrow>
    task_step env (ctx_harness_id ctx) now st (fst (create_immediate_discovery_task env (i, a, clock) ctx request now st))"
| step_materialize: "fresh_draws draw 0 st \<Longrightarrow>
    task_step env (ctx_harness_id ctx) now st (fst (materialize_due_discovery_tasks env draw ctx now st))"

definition any_task_step :: "tools_env \<Rightarrow> home_store \<Rightarrow> home_store \<Rightarrow> bool" where
  "any_task_step env st st' \<longleftrightarrow> (\<exists>caller now. task_step env caller now st st')"

definition task_reachable :: "tools_env \<Rightarrow> home_store \<Rightarrow> bool" where
  "task_reachable env st \<longleftrightarrow> (\<exists>st0. hs_discovery_tasks st0 = [] \<and> (any_task_step env)\<^sup>*\<^sup>* st0 st)"

lemma task_step_refines:
  assumes "task_step env caller now st st'" and p: "persistence_ok env" and o: "orders_ok env"
  shows "refines_queue caller now st st'"
  using assms(1)
proof (cases rule: task_step.cases)
  case (step_claim ctx a clock i lease)
  then show ?thesis using claim_refines[OF p] by simp
next
  case (step_renew ctx a clock i lease)
  then show ?thesis using renew_refines[OF p] by simp
next
  case (step_complete ctx a clock i)
  then show ?thesis using finish_refines[OF p] by (simp add: complete_discovery_task_def)
next
  case (step_fail ctx a clock i reason)
  then show ?thesis using finish_refines[OF p] by (simp add: fail_discovery_task_def)
next
  case (step_immediate i ctx a clock request)
  then show ?thesis using immediate_refines[OF p o] by simp
next
  case (step_materialize draw ctx)
  then show ?thesis using materialize_refines[OF p] by simp
qed

lemma queue_steps_ok: "(queue_step c n)\<^sup>*\<^sup>* m m' \<Longrightarrow> queue_ok m \<Longrightarrow> queue_ok m'"
  by (induction rule: rtranclp_induct) (auto intro: queue_ok_step)

lemma queue_steps_evolve:
  "(queue_step c n)\<^sup>*\<^sup>* m m' \<Longrightarrow> om_get m i = Some t \<Longrightarrow> \<exists>t'. om_get m' i = Some t' \<and> task_evolves t t'"
proof (induction rule: rtranclp_induct)
  case base
  then show ?case by auto
next
  case (step m1 m2)
  then obtain t1 where t1: "om_get m1 i = Some t1" "task_evolves t t1" by blast
  then show ?case using queue_step_evolves[OF step(2) t1(1)] task_evolves_trans by blast
qed

lemma queue_steps_other:
  assumes "(queue_step c n)\<^sup>*\<^sup>* m m'" "om_get m i = Some t"
    "dt_state t = DT_Leased lease" "n < dl_expires_at lease" "c \<noteq> Some (dl_harness_id lease)"
  shows "om_get m' i = Some t"
  using assms(1,2) by (induction rule: rtranclp_induct) (auto intro: queue_step_other[OF _ _ assms(3-5)])

lemma any_steps:
  assumes "(any_task_step env)\<^sup>*\<^sup>* st st'" and p: "persistence_ok env" and o: "orders_ok env"
  shows "same_authority st st'" "queue_ok (hs_discovery_tasks st) \<Longrightarrow> queue_ok (hs_discovery_tasks st')"
    "om_get (hs_discovery_tasks st) i = Some t \<Longrightarrow>
      \<exists>t'. om_get (hs_discovery_tasks st') i = Some t' \<and> task_evolves t t'"
  using assms(1)
proof (induction rule: rtranclp_induct)
  case base
  { case 1 show ?case by simp }
  { case 2 then show ?case by simp }
  { case 3 then show ?case by auto }
next
  case (step st1 st2)
  obtain c n where "task_step env c n st1 st2" using step(2) unfolding any_task_step_def by blast
  then have r: "(queue_step c n)\<^sup>*\<^sup>* (hs_discovery_tasks st1) (hs_discovery_tasks st2)" "same_authority st1 st2"
    using task_step_refines[OF _ p o] unfolding refines_queue_def by blast+
  { case 1 show ?case using step(3) r(2) same_authority_trans by blast }
  { case 2 then show ?case using step(4) r(1) queue_steps_ok by blast }
  { case 3 then show ?case using step(5) queue_steps_evolve[OF r(1)] task_evolves_trans by blast }
qed

lemma queue_ok_reachable:
  assumes "task_reachable env st" "persistence_ok env" "orders_ok env"
  shows "queue_ok (hs_discovery_tasks st)"
proof -
  obtain st0 where "hs_discovery_tasks st0 = []" and steps: "(any_task_step env)\<^sup>*\<^sup>* st0 st"
    using assms(1) unfolding task_reachable_def by blast
  then have "queue_ok (hs_discovery_tasks st0)" by (simp add: queue_ok_def om_ok_def)
  then show ?thesis using any_steps(2)[OF steps assms(2,3)] by blast
qed

text \<open>C33: While the database accepts every write, the operations of the task queue, refused or not, are
  steps of the abstract queue by the calling harness at that time, and change nothing that authorization
  reads.\<close>

theorem task_operations_refine_queue:
  assumes "persistence_ok env" and "orders_ok env" and "task_step env caller now st st'"
  shows "(queue_step caller now)\<^sup>*\<^sup>* (hs_discovery_tasks st) (hs_discovery_tasks st') \<and>
    hs_core st' = hs_core st \<and> hs_agent_harnesses st' = hs_agent_harnesses st \<and>
    hs_pod_roles st' = hs_pod_roles st \<and> hs_discovery_plans st' = hs_discovery_plans st"
  using task_step_refines[OF assms(3,1,2)] unfolding refines_queue_def same_authority_def .

text \<open>
  A history of the queue: its operations, and the deletion of Pods (of those that \<open>P\<close> allows), which
  removes the tasks of the Pod.
\<close>

definition history_step :: "tools_env \<Rightarrow> (uuid \<Rightarrow> bool) \<Rightarrow> home_store \<Rightarrow> home_store \<Rightarrow> bool" where
  "history_step env P st st' \<longleftrightarrow> any_task_step env st st' \<or> (\<exists>pod_id. P pod_id \<and> st' = purge_pod pod_id st)"

lemma purge_tasks:
  "hs_discovery_tasks (purge_pod pod_id st) = om_filter (\<lambda>_ t. \<not> is_pod_task pod_id t) (hs_discovery_tasks st)"
  by (simp add: purge_pod_def set_pods_def set_skill_packs_def Let_def)

lemma om_ok_filter: "om_ok m \<Longrightarrow> om_ok (om_filter P m)"
  by (simp add: om_ok_def om_filter_def sorted_wrt_filter sorted_wrt_map)

lemma om_get_filter: "om_ok m \<Longrightarrow> om_get (om_filter P m) k = Some v \<longleftrightarrow> om_get m k = Some v \<and> P k v"
  using om_ok_filter[of m P] by (simp add: om_get_iff) (simp add: om_filter_def)

lemma queue_ok_purge:
  assumes "queue_ok m"
  shows "queue_ok (om_filter P m)"
proof -
  have m: "om_ok m" using assms by (simp add: queue_ok_def)
  show ?thesis
    using assms unfolding queue_ok_def om_get_filter[OF m] by (blast intro: om_ok_filter)
qed

lemma history_step_ok:
  assumes "history_step env P st st'" "persistence_ok env" "orders_ok env" "queue_ok (hs_discovery_tasks st)"
  shows "queue_ok (hs_discovery_tasks st')"
  using assms any_steps(2)[OF r_into_rtranclp] unfolding history_step_def by (auto simp: purge_tasks queue_ok_purge)

lemma history_ok:
  "(history_step env P)\<^sup>*\<^sup>* st st' \<Longrightarrow> persistence_ok env \<Longrightarrow> orders_ok env \<Longrightarrow>
     queue_ok (hs_discovery_tasks st) \<Longrightarrow> queue_ok (hs_discovery_tasks st')"
  by (induction rule: rtranclp_induct) (auto intro: history_step_ok)

lemma history_evolves:
  assumes "(history_step env (\<lambda>pod_id. \<not> is_pod_task pod_id t))\<^sup>*\<^sup>* st st'" "persistence_ok env" "orders_ok env"
    and "om_get (hs_discovery_tasks st) i = Some t" "queue_ok (hs_discovery_tasks st)"
  shows "\<exists>t'. om_get (hs_discovery_tasks st') i = Some t' \<and> task_evolves t t'"
  using assms(1)
proof (induction rule: rtranclp_induct)
  case base
  then show ?case using assms(4) by auto
next
  case (step st1 st2)
  then obtain t1 where t1: "om_get (hs_discovery_tasks st1) i = Some t1" "task_evolves t t1" by blast
  have ok: "queue_ok (hs_discovery_tasks st1)" using history_ok[OF step(1) assms(2,3,5)] .
  from step(2) consider "any_task_step env st1 st2"
    | pod_id where "\<not> is_pod_task pod_id t" "st2 = purge_pod pod_id st1"
    unfolding history_step_def by blast
  then show ?case
  proof cases
    case 1
    obtain t2 where "om_get (hs_discovery_tasks st2) i = Some t2" "task_evolves t1 t2"
      using any_steps(3)[OF r_into_rtranclp[of "any_task_step env", OF 1] assms(2,3) t1(1)] by blast
    then show ?thesis using t1(2) task_evolves_trans by blast
  next
    case 2
    have "dt_target t1 = dt_target t" using t1(2) by (simp add: task_evolves_def)
    then have "om_get (hs_discovery_tasks st2) i = Some t1"
      using 2 t1(1) ok by (simp add: purge_tasks om_get_filter is_pod_task_def queue_ok_def)
    then show ?thesis using t1(2) by blast
  qed
qed

text \<open>C35: The life of a task, while the database accepts every write. In every history of the queue's own
  operations (claim, renew, complete, fail, immediate work, materialization) and deletions of Pods, a
  stored task is under its own identity; while it is pending or leased it has had fewer than three
  attempts and no success; it is completed exactly by its last attempt, and a terminal failure has had
  three attempts without success. As long as its own Pod is not deleted, the task stays, for the same
  work, its recorded attempts are a prefix of the later ones, and a finished task is never changed
  again. Personal tasks are created, and completed with a batch, by other tools, which are not among
  these steps.\<close>

theorem task_lifecycle:
  assumes "persistence_ok env" and "orders_ok env"
    and "hs_discovery_tasks st0 = []" and "(history_step env (\<lambda>_. True))\<^sup>*\<^sup>* st0 st"
    and "om_get (hs_discovery_tasks st) i = Some t"
    and "(history_step env (\<lambda>pod_id. \<not> is_pod_task pod_id t))\<^sup>*\<^sup>* st st'"
  shows "dt_id t = i \<and> task_ok t \<and>
    (\<exists>t'. om_get (hs_discovery_tasks st') i = Some t' \<and> task_ok t' \<and> task_evolves t t')"
proof -
  have "queue_ok (hs_discovery_tasks st0)" using assms(3) by (simp add: queue_ok_def om_ok_def)
  note ok = history_ok[OF assms(4,1,2) this]
  obtain t' where "om_get (hs_discovery_tasks st') i = Some t'" "task_evolves t t'"
    using history_evolves[OF assms(6,1,2,5) ok] by blast
  moreover from this have "task_ok t'" using history_ok[OF assms(6,1,2) ok] unfolding queue_ok_def by blast
  ultimately show ?thesis using ok assms(5) unfolding queue_ok_def by blast
qed

section \<open>The exclusive lease\<close>

text \<open>Steps of other callers before a time.\<close>

definition others_before :: "tools_env \<Rightarrow> uuid option \<Rightarrow> time \<Rightarrow> home_store \<Rightarrow> home_store \<Rightarrow> bool" where
  "others_before env holder deadline st st' \<longleftrightarrow>
     (\<exists>caller now. caller \<noteq> holder \<and> now < deadline \<and> task_step env caller now st st')"

lemma others_keep_lease:
  assumes "(others_before env (Some (dl_harness_id lease)) (dl_expires_at lease))\<^sup>*\<^sup>* st st'"
    and p: "persistence_ok env" and o: "orders_ok env"
    and "om_get (hs_discovery_tasks st) i = Some t" and l: "dt_state t = DT_Leased lease"
  shows "om_get (hs_discovery_tasks st') i = Some t \<and> same_authority st st'"
  using assms(1,4)
proof (induction rule: rtranclp_induct)
  case base
  then show ?case by simp
next
  case (step st1 st2)
  obtain c n where "task_step env c n st1 st2" and c: "c \<noteq> Some (dl_harness_id lease)" "n < dl_expires_at lease"
    using step(2) unfolding others_before_def by blast
  then have "(queue_step c n)\<^sup>*\<^sup>* (hs_discovery_tasks st1) (hs_discovery_tasks st2)" "same_authority st1 st2"
    using task_step_refines[OF _ p o] unfolding refines_queue_def by blast+
  then show ?case using step(3,4) queue_steps_other[OF _ _ l c(2,1)] same_authority_trans by blast
qed

text \<open>C34: A claimed Pod task belongs to its harness until the lease ends, while the database accepts every
  write. Whatever other callers do before that with the operations of the queue (claim, renew, complete
  and fail any task, request immediate work, materialize due work), the task stays exactly as it was
  claimed, and at any time before the end the holder completes it with one successful attempt of its
  own. The deletion of the Pod, which removes the task, and a revocation of the harness, which stops the
  holder, are not among these operations.\<close>

theorem claimed_task_is_exclusive:
  assumes "persistence_ok env" and "orders_ok env"
    and "claim_discovery_task env a clock ctx i now lease st = (st1, Inr t)"
    and "dt_target t = TT_Pod pod version"
    and "(others_before env (ctx_harness_id ctx) (now + lease_as_duration lease))\<^sup>*\<^sup>* st1 st2"
    and "later < now + lease_as_duration lease"
  shows "om_get (hs_discovery_tasks st2) i = Some t \<and>
    (\<exists>st3 t'. complete_discovery_task env a' clock' ctx i later st2 = (st3, Inr t') \<and>
       om_get (hs_discovery_tasks st3) i = Some t' \<and> dt_state t' = DT_Completed \<and>
       (\<exists>attempt. dt_attempts t' = dt_attempts t @ [attempt] \<and>
          ctx_harness_id ctx = Some (at_harness_id attempt) \<and> at_started_at attempt = now))"
  using assms(1)
proof (cases rule: claim_cases[where a = a and clock = clock and ctx = ctx and i = i and now = now and lease = lease and st = st])
  case (refused e)
  then show ?thesis using assms(3) by simp
next
  case (unavailable s e)
  then show ?thesis using assms(3) by simp
next
  case (claimed s r h p expires t')
  define l where "l = \<lparr> dl_harness_id = h, dl_claimed_at = now, dl_expires_at = expires \<rparr>"
  have t: "t = r\<lparr>dt_state := DT_Leased l\<rparr>" "st1 = record_harness_write_at ctx HW_ClaimDiscoveryTask p clock a (put_task i t st)"
    using claimed(7,8) assms(3) by (simp_all add: l_def)
  have ex: "expires = now + lease_as_duration lease"
    using claimed(6) by (simp add: lease_expiry_def Let_def split: if_splits)
  have at1: "om_get (hs_discovery_tasks st1) i = Some t" "dt_state t = DT_Leased l" "same_authority st st1"
    using t by simp_all
  have at2: "om_get (hs_discovery_tasks st2) i = Some t" "same_authority st1 st2"
    using others_keep_lease[OF _ assms(1,2) at1(1,2)] assms(5) claimed(4) ex by (simp_all add: l_def)
  have "task_evolves s r" using task_evolves_expired claimed(2) by simp
  then have "dt_target t = dt_target s" using t(1) by (simp add: task_evolves_def)
  then have auth: "authorize_discovery_task env st2 ctx t = Inr p"
    using same_authority_task[OF same_authority_trans[OF at1(3) at2(2)]] claimed(5) by simp
  have held: "held_lease t h later = Some l"
    using at1(2) assms(6) ex by (simp add: held_lease_def l_def)
  from finish_success[OF assms(1) at2(1) auth claimed(4) held _ refl refl, of None a' clock'] assms(4)
  obtain op where f: "finish_discovery_task env a' clock' ctx i later None st2 =
      (record_harness_write_at ctx op p clock' a'
        (put_task i (t\<lparr>dt_attempts := dt_attempts t @ [\<lparr> at_harness_id = h, at_started_at = now,
            at_finished_at = later, at_outcome = AO_Completed \<rparr>], dt_state := DT_Completed\<rparr>) st2),
       Inr (t\<lparr>dt_attempts := dt_attempts t @ [\<lparr> at_harness_id = h, at_started_at = now,
            at_finished_at = later, at_outcome = AO_Completed \<rparr>], dt_state := DT_Completed\<rparr>))"
    by (auto simp: is_personal_target_def attempt_outcome_def state_after_attempt_def l_def)
  show ?thesis
    using at2(1) f claimed(4) by (simp add: complete_discovery_task_def)
qed

section \<open>Work is created once\<close>

lemma find_unique:
  assumes "x \<in> set xs" "P x" "\<And>y. y \<in> set xs \<Longrightarrow> P y \<Longrightarrow> y = x"
  shows "find P xs = Some x"
proof (cases "find P xs")
  case None
  then show ?thesis using assms(1,2) unfolding find_None_iff by blast
next
  case (Some y)
  then have "y \<in> set xs" "P y" by (rule find_in_set)+
  then show ?thesis using assms(3) Some by simp
qed

text \<open>A successful request leaves its task in the store.\<close>

lemma immediate_stored:
  assumes "persistence_ok env" "orders_ok env" "queue_ok (hs_discovery_tasks st)"
    and "create_immediate_discovery_task env (i, a, clock) ctx request now st = (st1, Inr t)"
  obtains h where "ctx_harness_id ctx = Some h" "om_get (hs_discovery_tasks st1) (dt_id t) = Some t"
    "same_request h (iq_idempotency_key request) t"
  using assms(1)
proof (cases rule: immediate_cases[where i = i and a = a and clock = clock and ctx = ctx and request = request and now = now and st = st])
  case (refused e)
  then show thesis using assms(4) by simp
next
  case (existing h s)
  then have s: "s = t" "st1 = st" using assms(4) by simp_all
  have found: "t \<in> set (uuid_values env (hs_discovery_tasks st))" "same_request h (iq_idempotency_key request) t"
    using find_in_set[OF existing(2)] s(1) by simp_all
  from found(1) obtain k where k: "om_get (hs_discovery_tasks st) k = Some t"
    unfolding set_uuid_values[OF assms(2)] by blast
  then have "dt_id t = k" using assms(3) unfolding queue_ok_def by blast
  then show thesis using that[OF existing(1)] k s(2) found(2) by simp
next
  case (created h s version)
  then have s: "s = t" "om_get (hs_discovery_tasks st1) i = Some t" using assms(4) by auto
  show thesis by (rule that[OF created(1)]) (use s created(3) in \<open>auto simp: same_request_def\<close>)
qed

text \<open>The stored task is the only answer to its request.\<close>

lemma request_finds:
  assumes "orders_ok env" "queue_ok m" "om_get m i = Some t" "same_request h key t"
  shows "find (same_request h key) (uuid_values env m) = Some t"
proof (rule find_unique[of t])
  show "t \<in> set (uuid_values env m)" unfolding set_uuid_values[OF assms(1)] using assms(3) by blast
  fix s assume s: "s \<in> set (uuid_values env m)" "same_request h key s"
  then obtain k where k: "om_get m k = Some s" unfolding set_uuid_values[OF assms(1)] by blast
  have "same_work s t" using s(2) assms(4)
    by (auto simp: same_request_def same_work_def split: discovery_task_origin.splits)
  then have "k = i" using k assms(2,3) unfolding queue_ok_def by blast
  then show "s = t" using k assms(3) by simp
qed (rule assms(4))

text \<open>A granted request is granted again while authority is unchanged.\<close>

lemma immediate_again:
  assumes "create_immediate_discovery_task env draw ctx request now st = (st1, Inr t)" "same_authority st st2"
    and "ctx_harness_id ctx = Some h"
    and "find (same_request h (iq_idempotency_key request)) (uuid_values env (hs_discovery_tasks st2)) = Some t'"
  shows "create_immediate_discovery_task env draw' ctx request later st2 = (st2, Inr t')"
proof -
  obtain u where u: "authorize_harness env st ctx Cap_DiscoveryTasks (Some (iq_pod_id request)) = Inr u"
    using assms(1) by (auto simp: create_immediate_discovery_task_def split: sum.splits)
  moreover have "\<not> (trim (iq_instructions request) = [] \<or> trim (iq_idempotency_key request) = [])"
    using assms(1,3) by (auto simp: create_immediate_discovery_task_def split: sum.splits if_splits)
  ultimately show ?thesis
    using assms(3,4) same_authority_authorize[OF assms(2)] by (simp add: create_immediate_discovery_task_def)
qed

text \<open>A request for immediate work is created at most once per harness and idempotency key: after
  it succeeded, and whatever happened to the queue since, the same request returns the task it
  created or found, as it now is, and changes nothing.\<close>

theorem immediate_request_is_idempotent:
  assumes "persistence_ok env" and "orders_ok env" and "task_reachable env st"
    and "om_get (hs_discovery_tasks st) i = None"
    and "create_immediate_discovery_task env (i, a, clock) ctx request now st = (st1, Inr t)"
    and "(any_task_step env)\<^sup>*\<^sup>* st1 st2"
  shows "\<exists>t'. create_immediate_discovery_task env (i', a', clock') ctx request later st2 = (st2, Inr t') \<and>
    dt_id t' = dt_id t \<and> om_get (hs_discovery_tasks st2) (dt_id t) = Some t'"
proof -
  note ok = queue_ok_reachable[OF assms(3,1,2)]
  have "any_task_step env st st1"
    unfolding any_task_step_def using step_immediate[OF assms(4), of env ctx now a clock request] assms(5) by auto
  then have steps: "(any_task_step env)\<^sup>*\<^sup>* st st2" using assms(6) by (rule converse_rtranclp_into_rtranclp)
  have same: "same_authority st st2" and ok2: "queue_ok (hs_discovery_tasks st2)"
    using any_steps(1,2)[OF steps assms(1,2)] ok by blast+
  obtain h where h: "ctx_harness_id ctx = Some h" "om_get (hs_discovery_tasks st1) (dt_id t) = Some t"
    "same_request h (iq_idempotency_key request) t" using immediate_stored[OF assms(1,2) ok assms(5)] .
  obtain t' where t': "om_get (hs_discovery_tasks st2) (dt_id t) = Some t'" "task_evolves t t'"
    using any_steps(3)[OF assms(6,1,2) h(2)] by blast
  have "same_request h (iq_idempotency_key request) t'"
    using h(3) t'(2) by (simp add: same_request_def task_evolves_def)
  from immediate_again[OF assms(5) same h(1) request_finds[OF assms(2) ok2 t'(1) this]]
  show ?thesis using t' by (auto simp: task_evolves_def)
qed

text \<open>The scheduled work of one Source Rule in one period is in the store.\<close>

definition work_stored :: "home_store \<Rightarrow> nat \<Rightarrow> discovery_task_target \<Rightarrow> time \<Rightarrow> bool" where
  "work_stored st k target due \<longleftrightarrow>
     (\<exists>i t. om_get (hs_discovery_tasks st) i = Some t \<and> dt_origin t = DO_Scheduled k \<and>
        dt_target t = target \<and> dt_due_at t = due)"

definition rules_stored :: "tools_env \<Rightarrow> time \<Rightarrow> home_store \<Rightarrow> uuid \<Rightarrow> int \<Rightarrow> nat \<Rightarrow> source_rule_cadence list \<Rightarrow> bool" where
  "rules_stored env now st pod version k cadences \<longleftrightarrow>
     (\<forall>j < length cadences. cadences ! j \<noteq> SC_OnDemand \<longrightarrow>
        work_stored st (k + j) (TT_Pod pod version) (source_rule_period_start (te_month_start env) (cadences ! j) now))"

definition package_stored :: "tools_env \<Rightarrow> time \<Rightarrow> home_store \<Rightarrow> pod_skill_pack \<Rightarrow> bool" where
  "package_stored env now st package \<longleftrightarrow>
     (\<exists>version cadences. package_version_new (pk_version package) = Inr version \<and>
        source_rule_cadences env (pk_sources_yaml package) = Inr cadences \<and>
        rules_stored env now st (pk_pod_id package) version 0 cadences)"

lemma exists_iff_stored:
  "om_ok (hs_discovery_tasks st) \<Longrightarrow> scheduled_task_exists st k target due = work_stored st k target due"
  unfolding scheduled_task_exists_def work_stored_def list_ex_iff Bex_def om_vals_get by blast

lemma work_stored_evolves:
  assumes "\<And>i t. om_get (hs_discovery_tasks st) i = Some t \<Longrightarrow>
      \<exists>t'. om_get (hs_discovery_tasks st') i = Some t' \<and> task_evolves t t'"
    and "work_stored st k target due"
  shows "work_stored st' k target due"
proof -
  obtain i t where t: "om_get (hs_discovery_tasks st) i = Some t" "dt_origin t = DO_Scheduled k"
    "dt_target t = target" "dt_due_at t = due" using assms(2) unfolding work_stored_def by blast
  obtain t' where t': "om_get (hs_discovery_tasks st') i = Some t'" "task_evolves t t'" using assms(1)[OF t(1)] by blast
  then have "dt_origin t' = DO_Scheduled k \<and> dt_target t' = target \<and> dt_due_at t' = due"
    using t unfolding task_evolves_def by simp
  then show ?thesis using t'(1) unfolding work_stored_def by blast
qed

lemma package_stored_evolves:
  assumes "\<And>i t. om_get (hs_discovery_tasks st) i = Some t \<Longrightarrow>
      \<exists>t'. om_get (hs_discovery_tasks st') i = Some t' \<and> task_evolves t t'"
    and "package_stored env now st package"
  shows "package_stored env now st' package"
  using assms(2) work_stored_evolves[OF assms(1)] unfolding package_stored_def rules_stored_def by blast

lemma refines_evolves:
  "refines_queue c n st st' \<Longrightarrow> om_get (hs_discovery_tasks st) i = Some t \<Longrightarrow>
   \<exists>t'. om_get (hs_discovery_tasks st') i = Some t' \<and> task_evolves t t'"
  unfolding refines_queue_def using queue_steps_evolve by blast

lemma refines_queue_ok: "refines_queue c n st st' \<Longrightarrow> queue_ok (hs_discovery_tasks st) \<Longrightarrow> queue_ok (hs_discovery_tasks st')"
  unfolding refines_queue_def using queue_steps_ok by blast

text \<open>A pass over the rules of a Package stores the work of each.\<close>

lemma rules_done:
  assumes "fresh_draws draw (length created) st" "queue_ok (hs_discovery_tasks st)"
    and "materialize_rules env draw now ctx pod version k cadences (st, created) = (st', created')"
  shows "rules_stored env now st' pod version k cadences"
  using assms
proof (induction cadences arbitrary: k st created)
  case Nil
  then show ?case by (simp add: rules_stored_def)
next
  case (Cons cadence cadences)
  let ?due = "source_rule_period_start (te_month_start env) cadence now"
  obtain st1 created1 where first: "materialize_rules env draw now ctx pod version k [cadence] (st, created) = (st1, created1)"
    by fastforce
  then have rest: "materialize_rules env draw now ctx pod version (Suc k) cadences (st1, created1) = (st', created')"
    using Cons.prems(3) by simp
  have r1: "refines_queue None now st st1" "fresh_draws draw (length created1) st1"
    using rules_refine[OF Cons.prems(1) first] by blast+
  have ok1: "queue_ok (hs_discovery_tasks st1)" using refines_queue_ok[OF r1(1) Cons.prems(2)] .
  have r2: "refines_queue None now st1 st'" using rules_refine[OF r1(2) rest] by blast
  have "work_stored st1 k (TT_Pod pod version) ?due" if "cadence \<noteq> SC_OnDemand"
  proof (cases "scheduled_task_exists st k (TT_Pod pod version) ?due")
    case True
    moreover have "om_ok (hs_discovery_tasks st)" using Cons.prems(2) by (simp add: queue_ok_def)
    moreover have "st1 = st" using first that True by (simp add: Let_def)
    ultimately show ?thesis using exists_iff_stored by simp
  next
    case False
    obtain i a clock where d: "draw (length created) = (i, a, clock)" by (cases "draw (length created)") auto
    then have "st1 = record_harness_write_at ctx HW_CreateDiscoveryTask (Some pod) clock a
        (put_task i \<lparr> dt_id = i, dt_target = TT_Pod pod version, dt_origin = DO_Scheduled k,
          dt_due_at = ?due, dt_state = DT_Pending, dt_attempts = [], dt_created_at = now \<rparr> st)"
      using first that False by (simp add: Let_def put_task_def)
    then show ?thesis unfolding work_stored_def by (intro exI[of _ i]) simp
  qed
  then have head: "cadence \<noteq> SC_OnDemand \<longrightarrow> work_stored st' k (TT_Pod pod version) ?due"
    using work_stored_evolves[OF refines_evolves[OF r2]] by blast
  have tail: "rules_stored env now st' pod version (Suc k) cadences" using Cons.IH[OF r1(2) ok1 rest] .
  show ?case unfolding rules_stored_def
  proof (intro allI impI)
    fix j assume "j < length (cadence # cadences)" "(cadence # cadences) ! j \<noteq> SC_OnDemand"
    then show "work_stored st' (k + j) (TT_Pod pod version)
        (source_rule_period_start (te_month_start env) ((cadence # cadences) ! j) now)"
      using head tail unfolding rules_stored_def by (cases j) auto
  qed
qed

lemma packages_done:
  assumes "fresh_draws draw (length (snd acc)) (fst acc)" "queue_ok (hs_discovery_tasks (fst acc))"
    and "materialize_packages env draw now ctx packages acc = (st', Inr created)"
  shows "\<forall>package \<in> set packages. package_stored env now st' package"
  using assms
proof (induction packages arbitrary: acc)
  case Nil
  then show ?case by simp
next
  case (Cons package packages)
  obtain version where v: "package_version_new (pk_version package) = Inr version"
    using Cons.prems(3) by (cases "package_version_new (pk_version package)") auto
  obtain cadences where c: "source_rule_cadences env (pk_sources_yaml package) = Inr cadences"
    using Cons.prems(3) v by (cases "source_rule_cadences env (pk_sources_yaml package)") auto
  obtain st1 created1 where m: "materialize_rules env draw now ctx (pk_pod_id package) version 0 cadences
      (fst acc, snd acc) = (st1, created1)" by fastforce
  have rest: "materialize_packages env draw now ctx packages (st1, created1) = (st', Inr created)"
    using Cons.prems(3) v c m by simp
  have r1: "refines_queue None now (fst acc) st1" "fresh_draws draw (length created1) st1"
    using rules_refine[OF Cons.prems(1) m] by blast+
  have ok1: "queue_ok (hs_discovery_tasks st1)" using refines_queue_ok[OF r1(1) Cons.prems(2)] .
  have r2: "refines_queue None now st1 st'" using packages_refine[OF _ rest] r1(2) by simp
  have "package_stored env now st1 package"
    using rules_done[OF Cons.prems(1,2) m] v c unfolding package_stored_def by blast
  then have "package_stored env now st' package" using package_stored_evolves[OF refines_evolves[OF r2]] by blast
  moreover have "\<forall>package \<in> set packages. package_stored env now st' package"
    using Cons.IH[OF _ _ rest] r1(2) ok1 by simp
  ultimately show ?case by simp
qed

lemma rules_idle:
  assumes "rules_stored env now st pod version k cadences" "om_ok (hs_discovery_tasks st)"
  shows "materialize_rules env draw now ctx pod version k cadences (st, created) = (st, created)"
  using assms(1)
proof (induction cadences arbitrary: k)
  case Nil
  then show ?case by simp
next
  case (Cons cadence cadences)
  have "rules_stored env now st pod version (Suc k) cadences"
    unfolding rules_stored_def
  proof (intro allI impI)
    fix j assume "j < length cadences" "cadences ! j \<noteq> SC_OnDemand"
    then show "work_stored st (Suc k + j) (TT_Pod pod version)
        (source_rule_period_start (te_month_start env) (cadences ! j) now)"
      using Cons.prems[unfolded rules_stored_def, rule_format, of "Suc j"] by simp
  qed
  moreover have "cadence = SC_OnDemand \<or> scheduled_task_exists st k (TT_Pod pod version)
      (source_rule_period_start (te_month_start env) cadence now)"
    using Cons.prems[unfolded rules_stored_def, rule_format, of 0] exists_iff_stored[OF assms(2)] by auto
  ultimately show ?case using Cons.IH[of "Suc k"] by (auto simp: Let_def)
qed

lemma packages_idle:
  assumes "\<forall>package \<in> set packages. package_stored env now st package" "om_ok (hs_discovery_tasks st)"
  shows "materialize_packages env draw now ctx packages (st, created) = (st, Inr created)"
  using assms(1)
proof (induction packages)
  case Nil
  then show ?case by simp
next
  case (Cons package packages)
  then obtain version cadences where "package_version_new (pk_version package) = Inr version"
    "source_rule_cadences env (pk_sources_yaml package) = Inr cadences"
    "rules_stored env now st (pk_pod_id package) version 0 cadences" by (auto simp: package_stored_def)
  then show ?case using Cons rules_idle[OF _ assms(2)] by simp
qed

definition same_periods :: "tools_env \<Rightarrow> time \<Rightarrow> time \<Rightarrow> bool" where
  "same_periods env now later \<longleftrightarrow>
     list_all (\<lambda>c. source_rule_period_start (te_month_start env) c later = source_rule_period_start (te_month_start env) c now)
       [SC_Hourly, SC_Daily, SC_Weekly, SC_Monthly]"

lemma package_stored_later:
  assumes "same_periods env now later" "package_stored env now st package"
  shows "package_stored env later st package"
proof -
  have p: "source_rule_period_start (te_month_start env) c later = source_rule_period_start (te_month_start env) c now"
    if "c \<noteq> SC_OnDemand" for c
    using assms(1) that by (cases c) (simp_all add: same_periods_def)
  show ?thesis using assms(2) p unfolding package_stored_def rules_stored_def by metis
qed

text \<open>C36: Recurring work is created once per Source Rule and period, while the database accepts every
  write. After the due tasks were materialized, and whatever queue operations (claim, renew, complete,
  fail, immediate work, materialization) came since, materializing again in the same hour, so in the
  same day, week and month, creates nothing and changes nothing, whatever became of the tasks.\<close>

theorem materialization_is_once_per_period:
  assumes "persistence_ok env" and "orders_ok env" and "task_reachable env st" and "fresh_draws draw 0 st"
    and "materialize_due_discovery_tasks env draw ctx now st = (st1, Inr created)"
    and "(any_task_step env)\<^sup>*\<^sup>* st1 st2" and "same_periods env now later"
  shows "materialize_due_discovery_tasks env draw' ctx later st2 = (st2, Inr [])"
proof -
  note ok = queue_ok_reachable[OF assms(3,1,2)]
  obtain u where auth: "authorize_harness env st ctx Cap_DiscoveryTasks None = Inr u"
    using assms(5) by (cases "authorize_harness env st ctx Cap_DiscoveryTasks None")
      (auto simp: materialize_due_discovery_tasks_def)
  obtain harness where har: "harness_for_context st ctx = Inr harness"
    using assms(5) auth by (cases "harness_for_context st ctx") (auto simp: materialize_due_discovery_tasks_def)
  obtain s r where m: "materialize_packages env draw now ctx (packages_in_scope env harness st) (st, []) = (s, r)"
    by fastforce
  then have s: "s = st1" "r = Inr created"
    using assms(1,5) auth har by (cases r; simp add: materialize_due_discovery_tasks_def)+
  have "any_task_step env st st1"
    unfolding any_task_step_def using step_materialize[OF assms(4), of env ctx now] assms(5) by auto
  then have steps: "(any_task_step env)\<^sup>*\<^sup>* st st2" using assms(6) by (rule converse_rtranclp_into_rtranclp)
  have same: "same_authority st st2" and ok2: "queue_ok (hs_discovery_tasks st2)"
    using any_steps(1,2)[OF steps assms(1,2)] ok by blast+
  have "\<forall>package \<in> set (packages_in_scope env harness st). package_stored env now st1 package"
    using packages_done[OF _ _ m[unfolded s]] assms(4) ok by simp
  then have "\<forall>package \<in> set (packages_in_scope env harness st). package_stored env later st2 package"
    using package_stored_evolves[OF any_steps(3)[OF assms(6,1,2)]] package_stored_later[OF assms(7)] by blast
  moreover have "packages_in_scope env harness st2 = packages_in_scope env harness st"
    unfolding packages_in_scope_def same_authority_fields[OF same] by (rule refl)
  ultimately have "materialize_packages env draw' later ctx (packages_in_scope env harness st2) (st2, []) = (st2, Inr [])"
    using packages_idle ok2 by (simp add: queue_ok_def)
  then show ?thesis
    using auth har assms(1) same_authority_authorize[OF same] same_authority_context[OF same]
    by (simp add: materialize_due_discovery_tasks_def)
qed

section \<open>Witnesses\<close>

definition sample_queue_tools :: tools_env where
  "sample_queue_tools = sample_tools\<lparr>te_yaml_source_rules := (\<lambda>_. Inr (map (\<lambda>cadence.
       \<lparr> sr_inspect = IK_Publication ''p'', sr_seek_description = ''d'', sr_cadence = cadence \<rparr>)
       [SC_OnDemand, SC_Hourly]))\<rparr>"

lemma sample_cadences [simp]: "source_rule_cadences sample_queue_tools y = Inr [SC_OnDemand, SC_Hourly]"
  by (simp add: source_rule_cadences_def read_source_rules_def rule_errors_def text_error_def
      validate_credential_free_text_def check_embedded_urls.simps next_http_scheme_def
      ascii_lower_def ascii_lower_char_def has_credential_assignment_def contains_def
      credential_names_def sample_queue_tools_def sample_tools_def List.map_filter_simps)

text \<open>The home of theory Account_Props, with a Package and an unattended harness.\<close>

definition sample_queue :: home_store where
  "sample_queue = sample_registered\<lparr>hs_discovery_tasks := [],
     hs_core := empty_store\<lparr>st_pod_skill_packs := [(7, sample_pack)]\<rparr>\<rparr>"

definition sample_immediate :: create_immediate_discovery_task_request where
  "sample_immediate = \<lparr> iq_pod_id = 7, iq_instructions = ''i'', iq_idempotency_key = ''k'' \<rparr>"

definition sample_task :: discovery_task where
  "sample_task = \<lparr> dt_id = 20, dt_target = TT_Pod 7 1, dt_origin = DO_Immediate ''i'' ''k'' 5, dt_due_at = 10,
     dt_state = DT_Pending, dt_attempts = [], dt_created_at = 10 \<rparr>"

definition sample_with_task :: home_store where
  "sample_with_task =
     record_harness_write_at sample_bearer HW_CreateDiscoveryTask (Some 7) 11 21 (put_task 20 sample_task sample_queue)"

definition sample_claimed :: discovery_task where
  "sample_claimed = sample_task\<lparr>dt_state := DT_Leased
     \<lparr> dl_harness_id = 5, dl_claimed_at = 12, dl_expires_at = 12 + lease_as_duration 60 \<rparr>\<rparr>"

definition sample_draw :: "nat \<Rightarrow> uuid \<times> uuid \<times> time" where
  "sample_draw n = (30 + n, 40 + n, 11)"

lemma sample_queue_tools_ok: "persistence_ok sample_queue_tools" "orders_ok sample_queue_tools"
  by (simp_all add: sample_queue_tools_def sample_tools_def persistence_ok_def orders_ok_def)

lemma sample_bearer_context:
  "hs_agent_harnesses st = hs_agent_harnesses sample_registered \<Longrightarrow>
   authorize_harness sample_queue_tools st sample_bearer Cap_DiscoveryTasks pod = Inr ()"
  "hs_agent_harnesses st = hs_agent_harnesses sample_registered \<Longrightarrow>
   \<exists>h. harness_for_context st sample_bearer = Inr (Some h) \<and> hg_pod_ids (ah_grant h) = None"
  by (simp_all add: authorize_harness_def harness_for_context_def sample_registered_eq sample_bearer_def om_get_def
      grant_covers_pod_def split: option.splits)

lemma sample_queue_reachable: "task_reachable sample_queue_tools sample_queue"
  unfolding task_reachable_def by (intro exI[of _ sample_queue]) (simp add: sample_queue_def)

lemma sample_immediate_created:
  "create_immediate_discovery_task sample_queue_tools (20, 21, 11) sample_bearer sample_immediate 10 sample_queue =
     (sample_with_task, Inr sample_task)"
proof -
  have "authorize_harness sample_queue_tools sample_queue sample_bearer Cap_DiscoveryTasks (Some 7) = Inr ()"
    by (rule sample_bearer_context(1)) (simp add: sample_queue_def)
  then show ?thesis
    by (simp add: create_immediate_discovery_task_def sample_immediate_def sample_bearer_def trim_plain is_plain_def
        list_all_iff uuid_values_def values_in_order_def sample_queue_def om_get_def om_keys_def sample_queue_tools_ok
        sample_queue_tools_def te_order_of List.map_filter_simps sample_pack_def package_version_new_def sample_task_def
        sample_with_task_def put_task_def Let_def persisted_def persist_locked_def sample_tools_def)
qed

lemma sample_claim:
  "snd (claim_discovery_task sample_queue_tools 22 13 sample_bearer 20 12 60 sample_with_task) = Inr sample_claimed"
proof -
  have t: "om_get (hs_discovery_tasks sample_with_task) 20 = Some sample_task"
    by (simp add: sample_with_task_def)
  have "authorize_harness sample_queue_tools sample_with_task sample_bearer Cap_DiscoveryTasks (Some 7) = Inr ()"
    by (rule sample_bearer_context(1)) (simp add: sample_with_task_def sample_queue_def put_task_def)
  then have "authorize_discovery_task sample_queue_tools sample_with_task sample_bearer sample_task = Inr (Some 7)"
    by (simp add: authorize_discovery_task_def sample_task_def)
  then show ?thesis using t
    by (simp add: claim_discovery_task_def authorized_discovery_task_mutation_def task_at_def sample_bearer_def
        lease_expiry_def lease_as_duration_def sample_queue_tools_ok Let_def sample_task_def sample_claimed_def
        task_with_expired_lease_recorded_def task_is_finished_def task_live_lease_def sample_queue_tools_def sample_tools_def
        persisted_def persist_locked_def)
qed

lemma sample_fresh: "fresh_draws sample_draw 0 sample_queue"
  by (simp add: fresh_draws_def sample_draw_def sample_queue_def inj_def)

lemma sample_with_task_reachable: "task_reachable sample_queue_tools sample_with_task"
proof -
  have "any_task_step sample_queue_tools sample_queue sample_with_task"
    unfolding any_task_step_def
    using step_immediate[of sample_queue 20 sample_queue_tools sample_bearer 10 21 11 sample_immediate]
      sample_immediate_created by (auto simp: sample_queue_def)
  then show ?thesis unfolding task_reachable_def by (intro exI[of _ sample_queue]) (auto simp: sample_queue_def)
qed

theorem task_operations_refine_queue_witness:
  "(queue_step (Some 5) 12)\<^sup>*\<^sup>* (hs_discovery_tasks sample_with_task)
     (hs_discovery_tasks (fst (claim_discovery_task sample_queue_tools 22 13 sample_bearer 20 12 60 sample_with_task)))"
  using task_operations_refine_queue[OF sample_queue_tools_ok
      step_claim[of sample_queue_tools sample_bearer 12 sample_with_task 22 13 20 60]]
  by (simp add: sample_bearer_def)

theorem task_lifecycle_witness:
  "\<exists>t'. om_get (hs_discovery_tasks
      (fst (claim_discovery_task sample_queue_tools 22 13 sample_bearer 20 12 60 sample_with_task))) 20 = Some t' \<and>
     task_ok t' \<and> task_evolves sample_task t'"
proof -
  have t: "om_get (hs_discovery_tasks sample_with_task) 20 = Some sample_task" by (simp add: sample_with_task_def)
  have "any_task_step sample_queue_tools sample_with_task
      (fst (claim_discovery_task sample_queue_tools 22 13 sample_bearer 20 12 60 sample_with_task))"
    unfolding any_task_step_def
    using step_claim[of sample_queue_tools sample_bearer 12 sample_with_task 22 13 20 60] by blast
  then have s: "history_step sample_queue_tools P sample_with_task
      (fst (claim_discovery_task sample_queue_tools 22 13 sample_bearer 20 12 60 sample_with_task))" for P
    unfolding history_step_def by blast
  obtain st0 where "hs_discovery_tasks st0 = []" and "(any_task_step sample_queue_tools)\<^sup>*\<^sup>* st0 sample_with_task"
    using sample_with_task_reachable unfolding task_reachable_def by blast
  moreover from this(2) have "(history_step sample_queue_tools (\<lambda>_. True))\<^sup>*\<^sup>* st0 sample_with_task"
    by (rule mono_rtranclp[rule_format, rotated]) (simp add: history_step_def)
  ultimately show ?thesis
    using task_lifecycle[OF sample_queue_tools_ok _ _ t r_into_rtranclp, OF _ _ s] by blast
qed

theorem claimed_task_is_exclusive_witness:
  "\<exists>st3 t'. complete_discovery_task sample_queue_tools 23 14 sample_bearer 20 14
      (fst (claim_discovery_task sample_queue_tools 22 13 sample_bearer 20 12 60 sample_with_task)) = (st3, Inr t') \<and>
     dt_state t' = DT_Completed"
  using claimed_task_is_exclusive[OF sample_queue_tools_ok pair_of_snd[OF sample_claim] _ rtranclp.rtrancl_refl,
      of 7 1 14 23 14]
  by (auto simp: sample_claimed_def sample_task_def lease_as_duration_def)

theorem immediate_request_is_idempotent_witness:
  "\<exists>t'. create_immediate_discovery_task sample_queue_tools (50, 51, 52) sample_bearer sample_immediate 60
      sample_with_task = (sample_with_task, Inr t') \<and> dt_id t' = 20"
proof -
  have none: "om_get (hs_discovery_tasks sample_queue) 20 = None" by (simp add: sample_queue_def)
  show ?thesis
    using immediate_request_is_idempotent[OF sample_queue_tools_ok sample_queue_reachable none
        sample_immediate_created rtranclp.rtrancl_refl, of 50 51 52 60]
    by (auto simp: sample_task_def)
qed

lemma sample_materialize:
  "\<exists>st1 created. materialize_due_discovery_tasks sample_queue_tools sample_draw sample_bearer 10 sample_queue = (st1, Inr created)"
proof -
  have a: "authorize_harness sample_queue_tools sample_queue sample_bearer Cap_DiscoveryTasks None = Inr ()"
    by (rule sample_bearer_context(1)) (simp add: sample_queue_def)
  obtain h where h: "harness_for_context sample_queue sample_bearer = Inr (Some h)" "hg_pod_ids (ah_grant h) = None"
    using sample_bearer_context(2)[of sample_queue] by (auto simp: sample_queue_def)
  have "packages_in_scope sample_queue_tools (Some h) sample_queue = [sample_pack]"
    using h by (simp add: packages_in_scope_def uuid_values_def values_in_order_def sample_queue_def om_keys_def
        om_get_def sample_queue_tools_def te_order_of List.map_filter_simps)
  moreover have "\<exists>s c. materialize_packages sample_queue_tools sample_draw 10 sample_bearer [sample_pack] (sample_queue, [])
      = (s, Inr c)"
    by (cases "materialize_rules sample_queue_tools sample_draw 10 sample_bearer 7 1 0 [SC_OnDemand, SC_Hourly] (sample_queue, [])")
      (simp add: sample_pack_def package_version_new_def del: materialize_rules.simps)
  ultimately show ?thesis
    using a h sample_queue_tools_ok(1) by (auto simp: materialize_due_discovery_tasks_def)
qed

theorem materialization_is_once_per_period_witness:
  "\<exists>st1 created. materialize_due_discovery_tasks sample_queue_tools sample_draw sample_bearer 10 sample_queue =
       (st1, Inr created) \<and>
     materialize_due_discovery_tasks sample_queue_tools sample_draw sample_bearer 10 st1 = (st1, Inr [])"
proof -
  obtain st1 created where m: "materialize_due_discovery_tasks sample_queue_tools sample_draw sample_bearer 10 sample_queue =
      (st1, Inr created)" using sample_materialize by blast
  have "same_periods sample_queue_tools 10 10" by (simp add: same_periods_def)
  then show ?thesis
    using materialization_is_once_per_period[OF sample_queue_tools_ok sample_queue_reachable sample_fresh m
        rtranclp.rtrancl_refl] m by blast
qed

end
