(* ===== verification/Domain_Feed.thy ===== *)
theory Domain_Feed
  imports Domain_Content
begin

text \<open>
  The constraints of a Feed Batch (\<open>domain/feed.rs\<close>): percentages, caps, the mix they make with its
  validation, overrides, and the kinds of feed items. Values of \<open>u8\<close>, \<open>u16\<close>, \<open>u32\<close> and \<open>usize\<close>
  that only pass through checks are natural numbers with the bound of their type as parsed.
\<close>

section \<open>Percentages and caps\<close>

definition u8_max :: nat where
  "u8_max = 255"

datatype feed_mix_error =
    FE_Percentage nat
  | FE_PercentageParse string
  | FE_CapParse string
  | FE_ZeroCap
  | FE_TargetTotal

definition feed_percentage_new :: "nat \<Rightarrow> feed_mix_error + nat" where
  "feed_percentage_new value = (if value > 100 then Inl (FE_Percentage value) else Inr value)"

definition feed_percentage_from_str :: "string \<Rightarrow> feed_mix_error + nat" where
  "feed_percentage_from_str s =
     (case parse_unsigned u8_max s of
        None \<Rightarrow> Inl (FE_PercentageParse s) | Some value \<Rightarrow> feed_percentage_new value)"

definition feed_cap_new :: "nat \<Rightarrow> feed_mix_error + nat" where
  "feed_cap_new value = (if value = 0 then Inl FE_ZeroCap else Inr value)"

definition feed_cap_from_str :: "string \<Rightarrow> feed_mix_error + nat" where
  "feed_cap_from_str s =
     (case parse_unsigned u64_max s of
        None \<Rightarrow> Inl (FE_CapParse s) | Some value \<Rightarrow> feed_cap_new value)"

section \<open>The mix\<close>

record feed_mix =
  fx_high_value_percent :: nat
  fx_exploration_percent :: nat
  fx_old_gem_percent :: nat
  fx_per_pod_cap :: nat
  fx_per_source_cap :: nat

definition feed_mix_default :: feed_mix where
  "feed_mix_default =
     \<lparr> fx_high_value_percent = 80, fx_exploration_percent = 10, fx_old_gem_percent = 10,
       fx_per_pod_cap = 3, fx_per_source_cap = 2 \<rparr>"

definition feed_mix_new :: "nat \<Rightarrow> nat \<Rightarrow> nat \<Rightarrow> nat \<Rightarrow> nat \<Rightarrow> feed_mix_error + feed_mix" where
  "feed_mix_new high_value exploration old_gem per_pod per_source =
     (case feed_percentage_new high_value of Inl e \<Rightarrow> Inl e | Inr h \<Rightarrow>
      case feed_percentage_new exploration of Inl e \<Rightarrow> Inl e | Inr x \<Rightarrow>
      case feed_percentage_new old_gem of Inl e \<Rightarrow> Inl e | Inr g \<Rightarrow>
      if h + x + g > 100 then Inl FE_TargetTotal
      else
      case feed_cap_new per_pod of Inl e \<Rightarrow> Inl e | Inr p \<Rightarrow>
      case feed_cap_new per_source of Inl e \<Rightarrow> Inl e | Inr s \<Rightarrow>
      Inr \<lparr> fx_high_value_percent = h, fx_exploration_percent = x, fx_old_gem_percent = g,
            fx_per_pod_cap = p, fx_per_source_cap = s \<rparr>)"

definition feed_mix_with_targets :: "nat \<Rightarrow> nat \<Rightarrow> nat \<Rightarrow> feed_mix \<Rightarrow> feed_mix_error + feed_mix" where
  "feed_mix_with_targets high_value exploration old_gem mix =
     feed_mix_new high_value exploration old_gem (fx_per_pod_cap mix) (fx_per_source_cap mix)"

definition feed_mix_with_caps :: "nat \<Rightarrow> nat \<Rightarrow> feed_mix \<Rightarrow> feed_mix_error + feed_mix" where
  "feed_mix_with_caps per_pod per_source mix =
     feed_mix_new (fx_high_value_percent mix) (fx_exploration_percent mix) (fx_old_gem_percent mix)
       per_pod per_source"

record feed_mix_overrides =
  fo_high_value_percent :: "nat option"
  fo_exploration_percent :: "nat option"
  fo_old_gem_percent :: "nat option"
  fo_per_pod_cap :: "nat option"
  fo_per_source_cap :: "nat option"

definition unwrap_or :: "'a option \<Rightarrow> 'a \<Rightarrow> 'a" where
  "unwrap_or a b = (case a of None \<Rightarrow> b | Some v \<Rightarrow> v)"

definition feed_mix_resolve :: "feed_mix_overrides \<Rightarrow> feed_mix \<Rightarrow> feed_mix_error + feed_mix" where
  "feed_mix_resolve overrides defaults =
     feed_mix_new
       (unwrap_or (fo_high_value_percent overrides) (fx_high_value_percent defaults))
       (unwrap_or (fo_exploration_percent overrides) (fx_exploration_percent defaults))
       (unwrap_or (fo_old_gem_percent overrides) (fx_old_gem_percent defaults))
       (unwrap_or (fo_per_pod_cap overrides) (fx_per_pod_cap defaults))
       (unwrap_or (fo_per_source_cap overrides) (fx_per_source_cap defaults))"

section \<open>Requests and items\<close>

record batch_intent =
  bi_focus_topics :: "string list"
  bi_avoid_topics :: "string list"

datatype feed_item_kind = FK_Subscribed | FK_Exploration | FK_OldGem

datatype feed_batch_state = FB_Ready | FB_CaughtUp

definition max_recurrence_penalty_days :: nat where
  "max_recurrence_penalty_days = 36500"

definition default_recurrence_penalty_days :: nat where
  "default_recurrence_penalty_days = 30"

definition recurrence_penalty_days_new :: "nat \<Rightarrow> nat + nat" where
  "recurrence_penalty_days_new value =
     (if value > max_recurrence_penalty_days then Inl value else Inr value)"

record feed_batch_request =
  fq_size :: nat
  fq_recurrence_penalty_days :: "nat option"
  fq_feed_mix :: feed_mix
  fq_batch_intent :: batch_intent

definition feed_batch_request_new :: "nat \<Rightarrow> feed_batch_request option" where
  "feed_batch_request_new batch_size =
     (if batch_size < 1 \<or> batch_size > 100 then None
      else Some \<lparr> fq_size = batch_size, fq_recurrence_penalty_days = None, fq_feed_mix = feed_mix_default,
                  fq_batch_intent = \<lparr> bi_focus_topics = [], bi_avoid_topics = [] \<rparr> \<rparr>)"

datatype feedback_kind =
    FD_Interesting | FD_NotForMe | FD_Dismissed | FD_Saved | FD_BlockSource | FD_BlockTopic

definition feedback_kind_from_str :: "string \<Rightarrow> string + feedback_kind" where
  "feedback_kind_from_str value =
     (let name = dashes_to_underscores value in
      if name = ''interesting'' \<or> name = ''more_like_this'' then Inr FD_Interesting
      else if name = ''not_for_me'' \<or> name = ''less_like_this'' then Inr FD_NotForMe
      else if name = ''dismissed'' \<or> name = ''dismiss'' then Inr FD_Dismissed
      else if name = ''saved'' \<or> name = ''save'' then Inr FD_Saved
      else if name = ''block_source'' then Inr FD_BlockSource
      else if name = ''block_topic'' then Inr FD_BlockTopic
      else Inl value)"

section \<open>What a valid mix is\<close>

definition feed_mix_ok :: "feed_mix \<Rightarrow> bool" where
  "feed_mix_ok mix \<longleftrightarrow>
     fx_high_value_percent mix + fx_exploration_percent mix + fx_old_gem_percent mix \<le> 100 \<and>
     0 < fx_per_pod_cap mix \<and> fx_per_pod_cap mix \<le> u64_max \<and>
     0 < fx_per_source_cap mix \<and> fx_per_source_cap mix \<le> u64_max"

lemma feed_mix_new_ok:
  "feed_mix_new h x g p s = Inr mix \<Longrightarrow> p \<le> u64_max \<Longrightarrow> s \<le> u64_max \<Longrightarrow> feed_mix_ok mix"
  by (auto simp: feed_mix_new_def feed_cap_new_def feed_mix_ok_def split: sum.splits if_splits)

lemma feed_mix_default_ok [simp]: "feed_mix_ok feed_mix_default"
  by (simp add: feed_mix_ok_def feed_mix_default_def u64_max_def)

end
