(* ===== verification/Feed_Mix.thy ===== *)
theory Feed_Mix
  imports Domain_Feed Store
begin

text \<open>
  Selection of a Feed Batch from ranked candidates (\<open>feed_mix.rs\<close>) and the caps on exploration of
  one Origin (\<open>pod_similarity/caps.rs\<close>, \<open>apply_exploration_origin_caps\<close> in
  \<open>agent_tools/discover/helpers.rs\<close>). Full Unicode lower-casing is the argument \<open>lower\<close>. A hash map
  of counters is a map from keys to numbers; an absent key counts zero.
\<close>

section \<open>Candidates and their order\<close>

record ranked_feed_candidate =
  rf_item :: submission
  rf_recurrence_penalty_applied :: bool
  rf_score :: f32
  rf_reasons :: "string list"
  rf_kind :: feed_item_kind
  rf_pod_ids :: "uuid list"
  rf_priority_pod_ids :: "uuid list"
  rf_trial_exposure :: bool

text \<open>
  \<open>f32::total_cmp\<close> compares the bits as signed integers after flipping all but the sign bit of a
  negative number.
\<close>

definition total_cmp_key :: "f32 \<Rightarrow> int" where
  "total_cmp_key w = sint (if bit w 31 then xor w 0x7FFFFFFF else w)"

text \<open>
  \<open>compare_feed_candidates\<close>: higher score, then newer, then the canonical URL. Sorting by a
  comparison that is a total preorder is sorting by its rank.
\<close>

definition feed_rank :: "ranked_feed_candidate \<Rightarrow> int \<times> int \<times> string" where
  "feed_rank c =
     (- total_cmp_key (rf_score c), - sb_created_at (rf_item c), sb_canonical_url (rf_item c))"

definition sort_feed_candidates :: "ranked_feed_candidate list \<Rightarrow> ranked_feed_candidate list" where
  "sort_feed_candidates candidates = sort_key feed_rank candidates"

definition normalized_intent_topics :: "(string \<Rightarrow> string) \<Rightarrow> string list \<Rightarrow> string list" where
  "normalized_intent_topics lower topics = filter (\<lambda>t. t \<noteq> []) (map (\<lambda>t. lower (trim t)) topics)"

text \<open>\<open>str::contains\<close>.\<close>

fun contains :: "string \<Rightarrow> string \<Rightarrow> bool" where
  "contains needle [] = (needle = [])"
| "contains needle (c # cs) = (take (length needle) (c # cs) = needle \<or> contains needle cs)"

definition content_matches_any_topic :: "(string \<Rightarrow> string) \<Rightarrow> submission \<Rightarrow> string list \<Rightarrow> bool" where
  "content_matches_any_topic lower item topics =
     list_ex (\<lambda>topic.
         list_ex (\<lambda>tag. eq_ignore_ascii_case tag topic) (sb_tags item) \<or>
         contains topic (lower (sb_title item)) \<or>
         (case sb_summary item of None \<Rightarrow> False | Some summary \<Rightarrow> contains topic (lower summary)))
       topics"

section \<open>The state of a selection\<close>

record selection_state =
  ss_selected :: "ranked_feed_candidate list"
  ss_pod_counts :: "(uuid, nat) omap"
  ss_source_counts :: "(string, nat) omap"

definition selection_start :: selection_state where
  "selection_start = \<lparr> ss_selected = [], ss_pod_counts = [], ss_source_counts = [] \<rparr>"

definition count_of :: "('k, nat) omap \<Rightarrow> 'k \<Rightarrow> nat" where
  "count_of m k = (case om_get m k of None \<Rightarrow> 0 | Some n \<Rightarrow> n)"

definition count_up :: "('k::linorder) \<Rightarrow> ('k, nat) omap \<Rightarrow> ('k, nat) omap" where
  "count_up k m = om_put k (sat_add (count_of m k) 1) m"

definition source_key :: "(string \<Rightarrow> string) \<Rightarrow> ranked_feed_candidate \<Rightarrow> string" where
  "source_key lower c = lower (sb_domain (rf_item c))"

definition can_select ::
  "(string \<Rightarrow> string) \<Rightarrow> feed_mix \<Rightarrow> ranked_feed_candidate \<Rightarrow> selection_state \<Rightarrow> bool" where
  "can_select lower mix c st \<longleftrightarrow>
     count_of (ss_source_counts st) (source_key lower c) < fx_per_source_cap mix \<and>
     rf_pod_ids c \<noteq> [] \<and>
     list_all (\<lambda>pod_id. count_of (ss_pod_counts st) pod_id < fx_per_pod_cap mix) (rf_pod_ids c)"

definition push_candidate ::
  "(string \<Rightarrow> string) \<Rightarrow> ranked_feed_candidate \<Rightarrow> selection_state \<Rightarrow> selection_state" where
  "push_candidate lower c st =
     st\<lparr>ss_pod_counts := fold count_up (rf_pod_ids c) (ss_pod_counts st),
        ss_source_counts := count_up (source_key lower c) (ss_source_counts st),
        ss_selected := ss_selected st @ [c]\<rparr>"

section \<open>Selection\<close>

text \<open>
  \<open>select_candidates\<close>: from the front, at most \<open>limit\<close> candidates that the caps allow; the others
  stay in their order.
\<close>

fun select_candidates ::
  "(string \<Rightarrow> string) \<Rightarrow> feed_mix \<Rightarrow> nat \<Rightarrow> ranked_feed_candidate list \<Rightarrow> selection_state
    \<Rightarrow> ranked_feed_candidate list \<times> selection_state" where
  "select_candidates lower mix limit [] st = ([], st)"
| "select_candidates lower mix 0 (c # cs) st = (c # cs, st)"
| "select_candidates lower mix (Suc limit) (c # cs) st =
     (if can_select lower mix c st
      then select_candidates lower mix limit cs (push_candidate lower c st)
      else (case select_candidates lower mix (Suc limit) cs st of (rest, st') \<Rightarrow> (c # rest, st')))"

definition priority_reason :: string where
  "priority_reason = ''Priority Subscription guaranteed bounded representation''"

text \<open>The first candidate that represents a Pod, and the candidates without it.\<close>

fun take_first :: "('a \<Rightarrow> bool) \<Rightarrow> 'a list \<Rightarrow> ('a \<times> 'a list) option" where
  "take_first P [] = None"
| "take_first P (x # xs) =
     (if P x then Some (x, xs)
      else (case take_first P xs of None \<Rightarrow> None | Some (y, rest) \<Rightarrow> Some (y, x # rest)))"

fun select_priority_pods ::
  "(string \<Rightarrow> string) \<Rightarrow> feed_mix \<Rightarrow> nat \<Rightarrow> uuid list \<Rightarrow> nat \<Rightarrow> uuid list
    \<Rightarrow> ranked_feed_candidate list \<Rightarrow> selection_state \<Rightarrow> ranked_feed_candidate list \<times> selection_state" where
  "select_priority_pods lower mix limit represented selected_items [] cs st = (cs, st)"
| "select_priority_pods lower mix limit represented selected_items (pod_id # pods) cs st =
     (if selected_items \<ge> limit then (cs, st)
      else if pod_id \<in> set represented
      then select_priority_pods lower mix limit represented selected_items pods cs st
      else case take_first (\<lambda>c. pod_id \<in> set (rf_priority_pod_ids c) \<and> can_select lower mix c st) cs of
        None \<Rightarrow> select_priority_pods lower mix limit represented selected_items pods cs st
      | Some (c, rest) \<Rightarrow>
          let chosen = c\<lparr>rf_reasons := rf_reasons c @ [priority_reason]\<rparr>
          in select_priority_pods lower mix limit (represented @ rf_priority_pod_ids chosen)
               (selected_items + 1) pods rest (push_candidate lower chosen st))"

definition priority_pods :: "ranked_feed_candidate list \<Rightarrow> uuid list" where
  "priority_pods cs = remdups_adj (sort (concat (map rf_priority_pod_ids cs)))"

definition select_priority_candidates ::
  "(string \<Rightarrow> string) \<Rightarrow> feed_mix \<Rightarrow> nat \<Rightarrow> ranked_feed_candidate list \<Rightarrow> selection_state
    \<Rightarrow> ranked_feed_candidate list \<times> selection_state" where
  "select_priority_candidates lower mix limit cs st =
     select_priority_pods lower mix limit [] 0 (priority_pods cs) cs st"

text \<open>The share of a batch: \<open>size.saturating_mul(percent) / 100\<close>.\<close>

definition share :: "nat \<Rightarrow> nat \<Rightarrow> nat" where
  "share batch percent = min (batch * percent) u64_max div 100"

definition of_kind :: "feed_item_kind \<Rightarrow> ranked_feed_candidate list \<Rightarrow> ranked_feed_candidate list" where
  "of_kind kind cs = filter (\<lambda>c. rf_kind c = kind) cs"

definition compose_feed_candidates ::
  "(string \<Rightarrow> string) \<Rightarrow> ranked_feed_candidate list \<Rightarrow> nat \<Rightarrow> feed_mix \<Rightarrow> ranked_feed_candidate list" where
  "compose_feed_candidates lower candidates batch mix =
     (let subscribed_target = share batch (fx_high_value_percent mix);
          exploration_target = share batch (fx_exploration_percent mix);
          old_gem_target = share batch (fx_old_gem_percent mix);
          (subscribed, st1) = select_priority_candidates lower mix (min (max subscribed_target 1) batch)
                                (of_kind FK_Subscribed candidates) selection_start;
          (subscribed, st2) = select_candidates lower mix
                                (subscribed_target - length (ss_selected st1)) subscribed st1;
          (exploration, st3) = select_candidates lower mix exploration_target
                                 (of_kind FK_Exploration candidates) st2;
          (old_gems, st4) = select_candidates lower mix old_gem_target
                              (of_kind FK_OldGem candidates) st3;
          backfill = sort_feed_candidates (subscribed @ exploration @ old_gems);
          (_, st5) = select_candidates lower mix (batch - length (ss_selected st4)) backfill st4
      in ss_selected st5)"

section \<open>Caps on the exploration of one Origin\<close>

definition max_origin_explore_samples :: nat where
  "max_origin_explore_samples = 10"

definition max_results_per_origin :: nat where
  "max_results_per_origin = 3"

definition max_trial_items_per_origin :: nat where
  "max_trial_items_per_origin = 1"

record exploration_caps =
  xc_per_origin :: nat
  xc_per_pod :: nat
  xc_per_source :: nat
  xc_per_origin_trial :: nat

definition exploration_caps_from_feed_mix :: "feed_mix \<Rightarrow> exploration_caps" where
  "exploration_caps_from_feed_mix mix =
     \<lparr> xc_per_origin = max_results_per_origin, xc_per_pod = fx_per_pod_cap mix,
       xc_per_source = fx_per_source_cap mix, xc_per_origin_trial = max_trial_items_per_origin \<rparr>"

definition explore_defaults :: exploration_caps where
  "explore_defaults =
     \<lparr> xc_per_origin = max_results_per_origin, xc_per_pod = 1,
       xc_per_source = max_origin_explore_samples, xc_per_origin_trial = max_results_per_origin \<rparr>"

record cap_tracker =
  xt_origin_counts :: "(uuid, nat) omap"
  xt_origin_trial_counts :: "(uuid, nat) omap"
  xt_pod_counts :: "(uuid \<times> string, nat) omap"
  xt_source_counts :: "(string, nat) omap"

definition tracker_new :: cap_tracker where
  "tracker_new =
     \<lparr> xt_origin_counts = [], xt_origin_trial_counts = [], xt_pod_counts = [], xt_source_counts = [] \<rparr>"

definition can_admit_origin :: "cap_tracker \<Rightarrow> uuid \<Rightarrow> exploration_caps \<Rightarrow> bool" where
  "can_admit_origin t origin caps \<longleftrightarrow> count_of (xt_origin_counts t) origin < xc_per_origin caps"

definition can_admit_trial :: "cap_tracker \<Rightarrow> uuid \<Rightarrow> exploration_caps \<Rightarrow> bool" where
  "can_admit_trial t origin caps \<longleftrightarrow> count_of (xt_origin_trial_counts t) origin < xc_per_origin_trial caps"

definition can_admit_pod ::
  "(string \<Rightarrow> string) \<Rightarrow> cap_tracker \<Rightarrow> uuid \<Rightarrow> string \<Rightarrow> exploration_caps \<Rightarrow> bool" where
  "can_admit_pod lower t origin slug caps \<longleftrightarrow> count_of (xt_pod_counts t) (origin, lower slug) < xc_per_pod caps"

definition can_admit_source :: "(string \<Rightarrow> string) \<Rightarrow> cap_tracker \<Rightarrow> string \<Rightarrow> exploration_caps \<Rightarrow> bool" where
  "can_admit_source lower t source caps \<longleftrightarrow> count_of (xt_source_counts t) (lower source) < xc_per_source caps"

text \<open>The counters of the tracker are plain sums, which a batch cannot overflow.\<close>

definition count_one :: "('k::linorder) \<Rightarrow> ('k, nat) omap \<Rightarrow> ('k, nat) omap" where
  "count_one k m = om_put k (count_of m k + 1) m"

definition tracker_record ::
  "(string \<Rightarrow> string) \<Rightarrow> uuid \<Rightarrow> string \<Rightarrow> string option \<Rightarrow> bool \<Rightarrow> cap_tracker \<Rightarrow> cap_tracker" where
  "tracker_record lower origin slug source trial t =
     t\<lparr>xt_origin_counts := count_one origin (xt_origin_counts t),
       xt_pod_counts := count_one (origin, lower slug) (xt_pod_counts t),
       xt_origin_trial_counts :=
         (if trial then count_one origin (xt_origin_trial_counts t) else xt_origin_trial_counts t),
       xt_source_counts :=
         (case source of None \<Rightarrow> xt_source_counts t
          | Some s \<Rightarrow> count_one (lower s) (xt_source_counts t))\<rparr>"

definition feed_caps :: exploration_caps where
  "feed_caps =
     \<lparr> xc_per_origin = max_results_per_origin, xc_per_pod = u64_max, xc_per_source = u64_max,
       xc_per_origin_trial = max_trial_items_per_origin \<rparr>"

definition local_node :: "ext \<Rightarrow> store \<Rightarrow> uuid option" where
  "local_node x st =
     (case values_in_order (x_iter_nodes x) (st_node_identities st) of [] \<Rightarrow> None | n # _ \<Rightarrow> Some (nd_id n))"

text \<open>The Origin of a candidate: that of its first Pod in the store, else the local node.\<close>

fun first_origin :: "store \<Rightarrow> uuid option \<Rightarrow> uuid list \<Rightarrow> uuid option" where
  "first_origin st node [] = None"
| "first_origin st node (pod_id # pods) =
     (case om_get (st_pods st) pod_id of
        None \<Rightarrow> first_origin st node pods
      | Some pod \<Rightarrow> (case pd_origin_node_id pod of None \<Rightarrow> node | Some origin \<Rightarrow> Some origin))"

definition candidate_origin :: "ext \<Rightarrow> store \<Rightarrow> ranked_feed_candidate \<Rightarrow> uuid option" where
  "candidate_origin x st c =
     (case first_origin st (local_node x st) (rf_pod_ids c) of
        None \<Rightarrow> local_node x st | Some origin \<Rightarrow> Some origin)"

definition candidate_slug :: "store \<Rightarrow> ranked_feed_candidate \<Rightarrow> string" where
  "candidate_slug st c =
     (case rf_pod_ids c of
        [] \<Rightarrow> []
      | pod_id # _ \<Rightarrow> (case om_get (st_pods st) pod_id of None \<Rightarrow> [] | Some pod \<Rightarrow> pd_slug pod))"

fun keep_within_caps ::
  "(string \<Rightarrow> string) \<Rightarrow> ext \<Rightarrow> store \<Rightarrow> cap_tracker \<Rightarrow> ranked_feed_candidate list
    \<Rightarrow> ranked_feed_candidate list" where
  "keep_within_caps lower x st t [] = []"
| "keep_within_caps lower x st t (c # cs) =
     (if rf_kind c \<noteq> FK_Exploration then c # keep_within_caps lower x st t cs
      else case candidate_origin x st c of
        None \<Rightarrow> c # keep_within_caps lower x st t cs
      | Some origin \<Rightarrow>
          if \<not> can_admit_origin t origin feed_caps then keep_within_caps lower x st t cs
          else if rf_trial_exposure c \<and> \<not> can_admit_trial t origin feed_caps
          then keep_within_caps lower x st t cs
          else c # keep_within_caps lower x st
                 (tracker_record lower origin (candidate_slug st c) (Some (sb_domain (rf_item c)))
                    (rf_trial_exposure c) t) cs)"

definition apply_exploration_origin_caps ::
  "(string \<Rightarrow> string) \<Rightarrow> ext \<Rightarrow> store \<Rightarrow> ranked_feed_candidate list \<Rightarrow> ranked_feed_candidate list" where
  "apply_exploration_origin_caps lower x st selected = keep_within_caps lower x st tracker_new selected"

end
