(* ===== verification/Feed_Props.thy ===== *)
theory Feed_Props
  imports Feed_Mix Sample
begin

text \<open>
  What a selected feed satisfies: diversity caps, the caps of one Origin, each item at most once,
  and its size, which may exceed the requested size by one.
\<close>

section \<open>Counters\<close>

definition counts_ok :: "('k, nat) omap \<Rightarrow> bool" where
  "counts_ok m \<longleftrightarrow> (\<forall>k. count_of m k \<le> u64_max)"

lemma count_of_up: "count_of (count_up k m) k' = (if k' = k then sat_add (count_of m k) 1 else count_of m k')"
  by (simp add: count_up_def count_of_def)

lemma counts_ok_up [simp]: "counts_ok m \<Longrightarrow> counts_ok (count_up k m)"
  by (simp add: counts_ok_def count_of_up)

lemma sat_add_more: "n \<le> u64_max \<Longrightarrow> n \<le> sat_add n 1"
  by (simp add: sat_add_def)

lemma counts_fold:
  assumes "counts_ok m"
  shows "counts_ok (fold count_up ks m) \<and> count_of m k \<le> count_of (fold count_up ks m) k \<and>
    (k \<in> set ks \<and> count_of m k < u64_max \<longrightarrow> Suc (count_of m k) \<le> count_of (fold count_up ks m) k)"
  using assms
proof (induction ks arbitrary: m)
  case Nil
  then show ?case by simp
next
  case (Cons k' ks)
  have ok: "counts_ok (count_up k' m)" using Cons.prems by simp
  have "count_of m k \<le> count_of (count_up k' m) k"
    using Cons.prems sat_add_more by (simp add: count_of_up counts_ok_def)
  moreover have "Suc (count_of m k) \<le> count_of (count_up k' m) k" if "k = k'" "count_of m k < u64_max"
    using that by (simp add: count_of_up)
  ultimately show ?case using Cons.IH[OF ok] by (auto intro: order_trans le_trans)
qed

section \<open>The caps of a selection\<close>

definition from_source :: "(string \<Rightarrow> string) \<Rightarrow> string \<Rightarrow> ranked_feed_candidate list \<Rightarrow> nat" where
  "from_source lower d cs = length (filter (\<lambda>c. source_key lower c = d) cs)"

definition from_pod :: "uuid \<Rightarrow> ranked_feed_candidate list \<Rightarrow> nat" where
  "from_pod p cs = length (filter (\<lambda>c. p \<in> set (rf_pod_ids c)) cs)"

definition selection_ok :: "(string \<Rightarrow> string) \<Rightarrow> feed_mix \<Rightarrow> selection_state \<Rightarrow> bool" where
  "selection_ok lower mix st \<longleftrightarrow> counts_ok (ss_pod_counts st) \<and>
     (\<forall>d. from_source lower d (ss_selected st) \<le> count_of (ss_source_counts st) d \<and>
        from_source lower d (ss_selected st) \<le> fx_per_source_cap mix) \<and>
     (\<forall>p. from_pod p (ss_selected st) \<le> count_of (ss_pod_counts st) p \<and>
        from_pod p (ss_selected st) \<le> fx_per_pod_cap mix)"

lemma selection_ok_start: "selection_ok lower mix selection_start"
  by (simp add: selection_ok_def selection_start_def from_source_def from_pod_def counts_ok_def count_of_def)

lemma selection_ok_push:
  assumes ok: "selection_ok lower mix st" and mix: "feed_mix_ok mix" and can: "can_select lower mix c st"
  shows "selection_ok lower mix (push_candidate lower c st)"
proof -
  let ?new = "push_candidate lower c st"
  have counts: "counts_ok (ss_pod_counts st)" using ok by (simp add: selection_ok_def)
  have "from_source lower d (ss_selected ?new) \<le> count_of (ss_source_counts ?new) d \<and>
      from_source lower d (ss_selected ?new) \<le> fx_per_source_cap mix" for d
  proof (cases "d = source_key lower c")
    case True
    have less: "count_of (ss_source_counts st) d < fx_per_source_cap mix"
      using can True by (simp add: can_select_def)
    moreover have "from_source lower d (ss_selected st) \<le> count_of (ss_source_counts st) d"
      using ok by (simp add: selection_ok_def)
    moreover have "count_of (ss_source_counts st) d < u64_max" using less mix by (simp add: feed_mix_ok_def)
    ultimately show ?thesis using True by (simp add: push_candidate_def from_source_def count_of_up)
  next
    case False
    then show ?thesis using ok by (simp add: selection_ok_def push_candidate_def from_source_def count_of_up)
  qed
  moreover have "from_pod p (ss_selected ?new) \<le> count_of (ss_pod_counts ?new) p \<and>
      from_pod p (ss_selected ?new) \<le> fx_per_pod_cap mix" for p
  proof (cases "p \<in> set (rf_pod_ids c)")
    case True
    have less: "count_of (ss_pod_counts st) p < fx_per_pod_cap mix"
      using can True by (auto simp: can_select_def list_all_iff)
    moreover have "from_pod p (ss_selected st) \<le> count_of (ss_pod_counts st) p"
      using ok by (simp add: selection_ok_def)
    moreover have "Suc (count_of (ss_pod_counts st) p) \<le> count_of (ss_pod_counts ?new) p"
      using counts_fold[OF counts, of "rf_pod_ids c" p] True less mix by (simp add: push_candidate_def feed_mix_ok_def)
    ultimately show ?thesis using True by (simp add: push_candidate_def from_pod_def)
  next
    case False
    then show ?thesis
      using ok counts_fold[OF counts, of "rf_pod_ids c" p]
      by (auto simp: selection_ok_def push_candidate_def from_pod_def intro: order_trans)
  qed
  moreover have "counts_ok (ss_pod_counts ?new)"
    using counts_fold[OF counts] by (simp add: push_candidate_def)
  ultimately show ?thesis by (simp add: selection_ok_def)
qed

lemma can_select_reasons [simp]: "can_select lower mix (c\<lparr>rf_reasons := r\<rparr>) st = can_select lower mix c st"
  by (simp add: can_select_def source_key_def)

section \<open>One pass\<close>

definition items :: "ranked_feed_candidate list \<Rightarrow> submission multiset" where
  "items cs = mset (map rf_item cs)"

lemma items_simps [simp]:
  "items [] = {#}" "items (c # cs) = add_mset (rf_item c) (items cs)" "items (cs @ ds) = items cs + items ds"
  by (simp_all add: items_def)

lemma selected_push [simp]: "ss_selected (push_candidate lower c st) = ss_selected st @ [c]"
  by (simp add: push_candidate_def)

lemma select_pass:
  assumes "feed_mix_ok mix" "selection_ok lower mix st"
    "select_candidates lower mix limit cs st = (rest, st')"
  shows "selection_ok lower mix st' \<and> length (ss_selected st') \<le> length (ss_selected st) + limit \<and>
    items (ss_selected st') + items rest = items (ss_selected st) + items cs"
  using assms
proof (induction lower mix limit cs st arbitrary: rest rule: select_candidates.induct)
  case (1 lower mix limit st)
  then show ?case by simp
next
  case (2 lower mix c cs st)
  then show ?case by auto
next
  case (3 lower mix limit c cs st)
  show ?case
  proof (cases "can_select lower mix c st")
    case True
    then show ?thesis
      using "3.IH"(1)[OF True "3.prems"(1) selection_ok_push[OF "3.prems"(2,1) True]] "3.prems"(3) True by simp
  next
    case False
    obtain r s where "select_candidates lower mix (Suc limit) cs st = (r, s)" by fastforce
    then show ?thesis using "3.IH"(2)[OF False "3.prems"(1,2)] "3.prems"(3) False by auto
  qed
qed

lemma take_first_Some:
  "take_first P xs = Some (y, rest) \<Longrightarrow> P y \<and> mset xs = add_mset y (mset rest)"
  by (induction xs arbitrary: rest) (auto split: if_splits option.splits)

lemma priority_pass:
  assumes "feed_mix_ok mix" "selection_ok lower mix st"
    "select_priority_pods lower mix limit represented n pods cs st = (rest, st')" "n \<le> limit"
  shows "selection_ok lower mix st' \<and> length (ss_selected st') + n \<le> length (ss_selected st) + limit \<and>
    items (ss_selected st') + items rest = items (ss_selected st) + items cs"
  using assms(2-4)
proof (induction pods arbitrary: represented n cs st)
  case Nil
  then show ?case by simp
next
  case (Cons p pods)
  show ?case
  proof (cases "n \<ge> limit \<or> p \<in> set represented \<or>
      take_first (\<lambda>c. p \<in> set (rf_priority_pod_ids c) \<and> can_select lower mix c st) cs = None")
    case True
    then show ?thesis using Cons.prems Cons.IH[OF Cons.prems(1), of represented n cs] by (auto split: if_splits)
  next
    case False
    then obtain c r where first: "take_first (\<lambda>c. p \<in> set (rf_priority_pod_ids c) \<and> can_select lower mix c st) cs
      = Some (c, r)" by auto
    let ?c = "c\<lparr>rf_reasons := rf_reasons c @ [priority_reason]\<rparr>"
    have can: "can_select lower mix ?c st" and cs: "items cs = add_mset (rf_item c) (items r)"
      using take_first_Some[OF first] by (simp_all add: items_def)
    have "select_priority_pods lower mix limit (represented @ rf_priority_pod_ids ?c) (n + 1) pods r
        (push_candidate lower ?c st) = (rest, st')" "n + 1 \<le> limit"
      using Cons.prems(2) False first by simp_all
    from Cons.IH[OF selection_ok_push[OF Cons.prems(1) assms(1) can] this]
    show ?thesis using cs by simp
  qed
qed

section \<open>Composition\<close>

lemma share_sum:
  assumes "h + x + g \<le> 100"
  shows "share n h + share n x + share n g \<le> n"
proof -
  have "share n p \<le> n * p div 100" for p by (simp add: share_def div_le_mono)
  then have "share n h + share n x + share n g \<le> n * h div 100 + n * x div 100 + n * g div 100"
    by (meson add_mono)
  also have "\<dots> \<le> (n * h + n * x + n * g) div 100" by linarith
  also have "\<dots> = n * (h + x + g) div 100" by (simp add: algebra_simps)
  also have "\<dots> \<le> n * 100 div 100" using assms by (intro div_le_mono mult_le_mono2)
  finally show ?thesis by simp
qed

lemma items_of_kinds: "items (of_kind FK_Subscribed cs) + items (of_kind FK_Exploration cs) + items (of_kind FK_OldGem cs) = items cs"
proof (induction cs)
  case (Cons c cs)
  then show ?case by (cases "rf_kind c") (auto simp: of_kind_def ac_simps)
qed (simp add: of_kind_def)

lemma items_sort [simp]: "items (sort_feed_candidates cs) = items cs"
  by (simp add: items_def sort_feed_candidates_def)

lemma compose_spec:
  assumes mix: "feed_mix_ok mix"
  obtains st where "compose_feed_candidates lower candidates n mix = ss_selected st" "selection_ok lower mix st"
    "items (ss_selected st) \<subseteq># items candidates"
    "length (ss_selected st) \<le> n \<or> share n (fx_high_value_percent mix) = 0 \<and> length (ss_selected st) \<le> Suc n"
proof -
  let ?h = "share n (fx_high_value_percent mix)"
  let ?x = "share n (fx_exploration_percent mix)"
  let ?g = "share n (fx_old_gem_percent mix)"
  obtain s1 st1 where p1: "select_priority_candidates lower mix (min (max ?h 1) n) (of_kind FK_Subscribed candidates)
      selection_start = (s1, st1)" by fastforce
  obtain s2 st2 where p2: "select_candidates lower mix (?h - length (ss_selected st1)) s1 st1 = (s2, st2)" by fastforce
  obtain e st3 where p3: "select_candidates lower mix ?x (of_kind FK_Exploration candidates) st2 = (e, st3)" by fastforce
  obtain g st4 where p4: "select_candidates lower mix ?g (of_kind FK_OldGem candidates) st3 = (g, st4)" by fastforce
  obtain r st5 where p5: "select_candidates lower mix (n - length (ss_selected st4))
      (sort_feed_candidates (s2 @ e @ g)) st4 = (r, st5)" by fastforce
  note q1 = priority_pass[OF mix selection_ok_start p1[unfolded select_priority_candidates_def] le0]
  note q2 = select_pass[OF mix conjunct1[OF q1] p2]
  note q3 = select_pass[OF mix conjunct1[OF q2] p3]
  note q4 = select_pass[OF mix conjunct1[OF q3] p4]
  note q5 = select_pass[OF mix conjunct1[OF q4] p5]
  have eq: "compose_feed_candidates lower candidates n mix = ss_selected st5"
    using p1 p2 p3 p4 p5 by (simp add: compose_feed_candidates_def Let_def)
  have "items (ss_selected st5) + items r = items candidates"
  proof (rule multiset_eqI)
    fix a
    have "count (items (ss_selected st1)) a + count (items s1) a = count (items (of_kind FK_Subscribed candidates)) a"
      using arg_cong[OF conjunct2[OF conjunct2[OF q1]], of "\<lambda>m. count m a"] by (simp add: selection_start_def)
    moreover note arg_cong[OF conjunct2[OF conjunct2[OF q2]], of "\<lambda>m. count m a"]
      arg_cong[OF conjunct2[OF conjunct2[OF q3]], of "\<lambda>m. count m a"]
      arg_cong[OF conjunct2[OF conjunct2[OF q4]], of "\<lambda>m. count m a"]
      arg_cong[OF conjunct2[OF conjunct2[OF q5]], of "\<lambda>m. count m a"]
      arg_cong[OF items_of_kinds[of candidates], of "\<lambda>m. count m a"]
    ultimately show "count (items (ss_selected st5) + items r) a = count (items candidates) a" by simp
  qed
  then have sub: "items (ss_selected st5) \<subseteq># items candidates"
    by (metis mset_subset_eq_add_left)
  have "?h + ?x + ?g \<le> n" using share_sum mix by (simp add: feed_mix_ok_def)
  moreover have "length (ss_selected st1) \<le> max ?h 1" "length (ss_selected st1) \<le> n"
    using q1 by (auto simp: selection_start_def)
  ultimately have "length (ss_selected st5) \<le> n \<or> ?h = 0 \<and> length (ss_selected st5) \<le> Suc n"
    using q2 q3 q4 q5 by auto
  then show thesis using that eq q5 sub by blast
qed

section \<open>The caps of one Origin\<close>

definition from_origin :: "ext \<Rightarrow> store \<Rightarrow> uuid \<Rightarrow> ranked_feed_candidate list \<Rightarrow> nat" where
  "from_origin x st origin cs =
     length (filter (\<lambda>c. rf_kind c = FK_Exploration \<and> candidate_origin x st c = Some origin) cs)"

definition trials_from_origin :: "ext \<Rightarrow> store \<Rightarrow> uuid \<Rightarrow> ranked_feed_candidate list \<Rightarrow> nat" where
  "trials_from_origin x st origin cs =
     length (filter (\<lambda>c. rf_kind c = FK_Exploration \<and> candidate_origin x st c = Some origin \<and> rf_trial_exposure c) cs)"

lemma count_of_one: "count_of (count_one k m) k' = (if k' = k then Suc (count_of m k) else count_of m k')"
  by (simp add: count_one_def count_of_def)

lemma origin_caps_kept:
  assumes "\<forall>k. count_of (xt_origin_counts t) k \<le> max_results_per_origin"
    "\<forall>k. count_of (xt_origin_trial_counts t) k \<le> max_trial_items_per_origin"
  shows "count_of (xt_origin_counts t) origin + from_origin x st origin (keep_within_caps lower x st t cs)
      \<le> max_results_per_origin \<and>
    count_of (xt_origin_trial_counts t) origin + trials_from_origin x st origin (keep_within_caps lower x st t cs)
      \<le> max_trial_items_per_origin"
  using assms
proof (induction lower x st t cs rule: keep_within_caps.induct)
  case (1 lower x st t)
  then show ?case by (simp add: from_origin_def trials_from_origin_def)
next
  case (2 lower x st t c cs)
  show ?case
  proof (cases "rf_kind c = FK_Exploration")
    case False
    then show ?thesis using "2.IH"(1) "2.prems" by (simp add: from_origin_def trials_from_origin_def)
  next
    case kind: True
    show ?thesis
    proof (cases "candidate_origin x st c")
      case None
      then show ?thesis using "2.IH"(2) "2.prems" kind by (simp add: from_origin_def trials_from_origin_def)
    next
      case (Some home)
      show ?thesis
      proof (cases "can_admit_origin t home feed_caps \<and> (rf_trial_exposure c \<longrightarrow> can_admit_trial t home feed_caps)")
        case False
        then have "keep_within_caps lower x st t (c # cs) = keep_within_caps lower x st t cs"
          using kind Some by auto
        then show ?thesis using "2.IH"(3,4) "2.prems" kind Some False by auto
      next
        case True
        let ?t = "tracker_record lower home (candidate_slug st c) (Some (sb_domain (rf_item c))) (rf_trial_exposure c) t"
        have eq: "keep_within_caps lower x st t (c # cs) = c # keep_within_caps lower x st ?t cs"
          using kind Some True by auto
        have "\<forall>k. count_of (xt_origin_counts ?t) k \<le> max_results_per_origin"
          "\<forall>k. count_of (xt_origin_trial_counts ?t) k \<le> max_trial_items_per_origin"
          using "2.prems" True
          by (auto simp: tracker_record_def count_of_one can_admit_origin_def can_admit_trial_def feed_caps_def Suc_le_eq)
        from "2.IH"(5)[OF _ Some _ _ this] show ?thesis
          using kind Some True unfolding eq
          by (auto simp: from_origin_def trials_from_origin_def tracker_record_def count_of_one split: if_splits)
      qed
    qed
  qed
qed

lemma kept_part:
  "items (keep_within_caps lower x st t cs) \<subseteq># items cs \<and>
   length (filter P (keep_within_caps lower x st t cs)) \<le> length (filter P cs)"
proof (induction cs arbitrary: t)
  case Nil
  then show ?case by simp
next
  case (Cons c cs)
  have "keep_within_caps lower x st t (c # cs) = keep_within_caps lower x st t cs \<or>
      (\<exists>t'. keep_within_caps lower x st t (c # cs) = c # keep_within_caps lower x st t' cs)"
    by (auto split: option.splits)
  then show ?case
  proof
    assume "keep_within_caps lower x st t (c # cs) = keep_within_caps lower x st t cs"
    then show ?thesis using Cons[of t] by (auto intro: subset_mset.order_trans)
  next
    assume "\<exists>t'. keep_within_caps lower x st t (c # cs) = c # keep_within_caps lower x st t' cs"
    then obtain t' where "keep_within_caps lower x st t (c # cs) = c # keep_within_caps lower x st t' cs" by blast
    then show ?thesis using Cons[of t'] by simp
  qed
qed

section \<open>The properties\<close>

text \<open>C39: a composed feed keeps every cap, whatever the candidates: at most the mix's number of items
  of one source and of one Pod, at most three explored items and one trial of one Origin; it has no
  item that was not a candidate and none more often than it was. It is no longer than requested when
  the mix gives subscribed content at least one place, and otherwise at most one longer.\<close>

theorem feed_selection_keeps_caps:
  assumes "feed_mix_ok mix"
    and "feed = apply_exploration_origin_caps lower x st (compose_feed_candidates lower candidates n mix)"
  shows "from_source lower d feed \<le> fx_per_source_cap mix \<and> from_pod p feed \<le> fx_per_pod_cap mix \<and>
    from_origin x st origin feed \<le> 3 \<and> trials_from_origin x st origin feed \<le> 1 \<and>
    mset (map rf_item feed) \<subseteq># mset (map rf_item candidates) \<and>
    (if 0 < n * fx_high_value_percent mix div 100 then length feed \<le> n else length feed \<le> Suc n)"
proof -
  obtain s where s: "compose_feed_candidates lower candidates n mix = ss_selected s" "selection_ok lower mix s"
    "items (ss_selected s) \<subseteq># items candidates"
    "length (ss_selected s) \<le> n \<or> share n (fx_high_value_percent mix) = 0 \<and> length (ss_selected s) \<le> Suc n"
    using compose_spec[OF assms(1)] by blast
  have feed: "feed = keep_within_caps lower x st tracker_new (ss_selected s)"
    using assms(2) s(1) by (simp add: apply_exploration_origin_caps_def)
  have part: "items feed \<subseteq># items candidates" "\<And>P. length (filter P feed) \<le> length (filter P (ss_selected s))"
    using kept_part[of lower x st tracker_new "ss_selected s"] s(3) feed by (auto intro: subset_mset.order_trans)
  have "from_source lower d feed \<le> fx_per_source_cap mix" "from_pod p feed \<le> fx_per_pod_cap mix"
    using s(2) part(2)[of "\<lambda>c. source_key lower c = d"] part(2)[of "\<lambda>c. p \<in> set (rf_pod_ids c)"]
    unfolding selection_ok_def from_source_def from_pod_def by (meson le_trans)+
  moreover have "from_origin x st origin feed \<le> 3 \<and> trials_from_origin x st origin feed \<le> 1"
    using origin_caps_kept[of tracker_new origin x st lower "ss_selected s"] feed
    by (simp add: tracker_new_def count_of_def max_results_per_origin_def max_trial_items_per_origin_def)
  moreover have "length feed \<le> length (ss_selected s)" using part(2)[of "\<lambda>_. True"] by simp
  then have "if 0 < n * fx_high_value_percent mix div 100 then length feed \<le> n else length feed \<le> Suc n"
    using s(4) by (auto simp: share_def u64_max_def div_eq_0_iff min_def split: if_splits)
  ultimately show ?thesis using part(1) unfolding items_def by blast
qed

text \<open>C40: a feed can be longer than was requested. With a mix that has no place for subscribed content,
  a batch of one item still gets an item of a Priority Subscription first, and then its full share of
  exploration.\<close>

theorem feed_can_exceed_requested_size:
  assumes "feed_mix_ok mix" and "fx_high_value_percent mix = 0" and "fx_exploration_percent mix = 100"
    and "rf_kind c = FK_Subscribed" and "rf_priority_pod_ids c = [p]" and "rf_pod_ids c = [p]"
    and "rf_kind c' = FK_Exploration" and "rf_pod_ids c' = [p']" and "p' \<noteq> p"
    and "source_key lower c' \<noteq> source_key lower c"
  shows "map rf_item (compose_feed_candidates lower [c, c'] 1 mix) = [rf_item c, rf_item c']"
proof -
  have caps: "0 < fx_per_pod_cap mix" "0 < fx_per_source_cap mix" "fx_old_gem_percent mix = 0"
    using assms(1-3) by (simp_all add: feed_mix_ok_def)
  have shares: "share 1 0 = 0" "share 1 100 = 1" by (simp_all add: share_def u64_max_def)
  let ?c = "c\<lparr>rf_reasons := rf_reasons c @ [priority_reason]\<rparr>"
  let ?st = "push_candidate lower ?c selection_start"
  have k: "of_kind FK_Subscribed [c, c'] = [c]" "of_kind FK_Exploration [c, c'] = [c']" "of_kind FK_OldGem [c, c'] = []"
    using assms(4,7) by (simp_all add: of_kind_def)
  have can: "can_select lower mix c selection_start"
    using assms(6) caps by (simp add: can_select_def selection_start_def count_of_def)
  have pass1: "select_priority_candidates lower mix 1 [c] selection_start = ([], ?st)"
    using assms(5) can by (simp add: select_priority_candidates_def priority_pods_def Let_def)
  have can': "can_select lower mix c' ?st"
    using assms(6,8,9,10) caps
    by (simp add: can_select_def push_candidate_def selection_start_def count_of_up source_key_def)
      (simp add: count_of_def)
  show ?thesis
    unfolding compose_feed_candidates_def Let_def assms(2,3) caps(3) shares k
    using pass1 can' by (simp add: selection_start_def sort_feed_candidates_def)
qed

section \<open>Witnesses\<close>

definition sample_submission :: "uuid \<Rightarrow> string \<Rightarrow> submission" where
  "sample_submission i domain =
     \<lparr> sb_id = i, sb_tenant_id = None, sb_url = domain, sb_canonical_url = domain, sb_title = ''t'',
       sb_source_metadata = \<lparr> csm_title = None, csm_author = None, csm_published_at = None \<rparr>,
       sb_description = None, sb_domain = domain, sb_submitted_by = None, sb_discovered_by_crawler = False,
       sb_submitter_note = None, sb_summary = None, sb_provenance = [], sb_media_references = [],
       sb_tags = [], sb_embedding = None, sb_created_at = 2, sb_origin_event_id = None \<rparr>"

definition sample_candidate :: "uuid \<Rightarrow> string \<Rightarrow> feed_item_kind \<Rightarrow> uuid list \<Rightarrow> ranked_feed_candidate" where
  "sample_candidate i domain kind priority =
     \<lparr> rf_item = sample_submission i domain, rf_recurrence_penalty_applied = False, rf_score = f32_one,
       rf_reasons = [], rf_kind = kind, rf_pod_ids = [i], rf_priority_pod_ids = priority,
       rf_trial_exposure = False \<rparr>"

definition sample_mix :: feed_mix where
  "sample_mix =
     \<lparr> fx_high_value_percent = 0, fx_exploration_percent = 100, fx_old_gem_percent = 0,
       fx_per_pod_cap = 3, fx_per_source_cap = 2 \<rparr>"

lemma sample_mix_ok: "feed_mix_ok sample_mix"
  by (simp add: feed_mix_ok_def sample_mix_def u64_max_def)

theorem feed_selection_keeps_caps_witness:
  "length (apply_exploration_origin_caps id sample_ext empty_store (compose_feed_candidates id
     [sample_candidate 2 ''a'' FK_Subscribed [2], sample_candidate 3 ''b'' FK_Exploration []] 1 sample_mix)) \<le> 2"
  using feed_selection_keeps_caps[OF sample_mix_ok refl, where lower = id and x = sample_ext and st = empty_store and
      candidates = "[sample_candidate 2 ''a'' FK_Subscribed [2], sample_candidate 3 ''b'' FK_Exploration []]" and n = 1 and d = "''a''" and p = 2
      and origin = 4]
  by (simp add: sample_mix_def numeral_2_eq_2)

theorem feed_can_exceed_requested_size_witness:
  "length (compose_feed_candidates id
     [sample_candidate 2 ''a'' FK_Subscribed [2], sample_candidate 3 ''b'' FK_Exploration []] 1 sample_mix) = 2"
proof -
  have "map rf_item (compose_feed_candidates id
     [sample_candidate 2 ''a'' FK_Subscribed [2], sample_candidate 3 ''b'' FK_Exploration []] 1 sample_mix) =
     [sample_submission 2 ''a'', sample_submission 3 ''b'']"
    using feed_can_exceed_requested_size[OF sample_mix_ok, where c = "sample_candidate 2 ''a'' FK_Subscribed [2]" and p = 2
        and c' = "sample_candidate 3 ''b'' FK_Exploration []" and p' = 3 and lower = id]
    by (simp add: sample_mix_def sample_candidate_def source_key_def sample_submission_def)
  from arg_cong[OF this, of length] show ?thesis by simp
qed

end
