(* ===== verification/Trust_Policy.thy ===== *)
theory Trust_Policy
  imports Pod_Lifecycle
begin

text \<open>
  Edits of a User's Trust Policy and the addresses they name (\<open>agent_tools/sync/helpers.rs\<close>,
  \<open>agent_tools/shared.rs\<close>), and results without state.
\<close>

section \<open>Results\<close>

definition and_then :: "'e + 'a \<Rightarrow> ('a \<Rightarrow> 'e + 'b) \<Rightarrow> 'e + 'b" where
  "and_then r f = (case r of Inl e \<Rightarrow> Inl e | Inr a \<Rightarrow> f a)"

definition checked :: "bool \<Rightarrow> 'e \<Rightarrow> 'e + unit" where
  "checked b e = (if b then Inr () else Inl e)"

lemma and_then_Inr [simp]: "and_then r f = Inr b \<longleftrightarrow> (\<exists>a. r = Inr a \<and> f a = Inr b)"
  by (auto simp: and_then_def split: sum.splits)

lemma checked_Inr [simp]: "checked b e = Inr u \<longleftrightarrow> b"
  by (simp add: checked_def)

definition invalid :: "string \<Rightarrow> agent_tools_error" where
  "invalid message = AT_Store (Validation message)"

section \<open>Public addresses\<close>

definition parse_public_url :: "tools_env \<Rightarrow> string \<Rightarrow> string \<Rightarrow> agent_tools_error + string" where
  "parse_public_url env value field =
     (case x_url_parse (te_ext env) value of
        Inl e \<Rightarrow> Inl (invalid (field @ '' is not a valid URL: '' @ e))
      | Inr url \<Rightarrow>
          if te_url_username env url \<noteq> [] \<or> te_url_password env url \<noteq> None
          then Inl (invalid (field @ '' must not include credentials'')) else Inr url)"

definition public_url_is_loopback :: "tools_env \<Rightarrow> string \<Rightarrow> bool" where
  "public_url_is_loopback env url \<longleftrightarrow>
     (case x_url_host (te_ext env) url of None \<Rightarrow> False | Some host \<Rightarrow> host_is_loopback host)"

definition validate_public_scheme_and_host :: "tools_env \<Rightarrow> string \<Rightarrow> string \<Rightarrow> agent_tools_error + unit" where
  "validate_public_scheme_and_host env url field =
     (let scheme = x_url_scheme (te_ext env) url in
      if scheme \<notin> {''http'', ''https''} then Inl (invalid (field @ '' must use http or https''))
      else if x_url_host (te_ext env) url = None then Inl (invalid (field @ '' must include a host''))
      else if \<not> public_url_is_loopback env url \<and> scheme \<noteq> ''https''
      then Inl (invalid (field @ '' must use https unless it is loopback-only''))
      else Inr ())"

definition validate_public_base_url :: "tools_env \<Rightarrow> string \<Rightarrow> string \<Rightarrow> agent_tools_error + string" where
  "validate_public_base_url env value field =
     and_then (parse_public_url env value field) (\<lambda>parsed.
     let url = x_url_clear_fragment (te_ext env) (x_url_clear_query (te_ext env) parsed)
     in and_then (validate_public_scheme_and_host env url field) (\<lambda>_. Inr url))"

definition normalized_url :: "string \<Rightarrow> string" where
  "normalized_url url = trim_end_slashes url"

section \<open>Edits of a policy\<close>

definition insert_normalized_policy_term ::
  "tools_env \<Rightarrow> string list \<Rightarrow> string \<Rightarrow> string \<Rightarrow> agent_tools_error + string list" where
  "insert_normalized_policy_term env terms value field =
     (let v = te_lowercase env (trim value)
      in if v = [] then Inl (invalid (field @ '' must not be empty'')) else Inr (os_insert v terms))"

definition add_index_node :: "string \<Rightarrow> string \<Rightarrow> index_node list \<Rightarrow> index_node list" where
  "add_index_node label base_url nodes =
     (if list_ex (\<lambda>n. ix_base_url n = base_url) nodes then nodes
      else sort_key ix_base_url (nodes @ [\<lparr> ix_label = label, ix_base_url = base_url \<rparr>]))"

fun apply_trust_policy_change ::
  "tools_env \<Rightarrow> trust_policy \<Rightarrow> trust_policy_change \<Rightarrow> agent_tools_error + trust_policy" where
  "apply_trust_policy_change env policy (TC_AddIndexNode label base_url) =
     (if trim label = [] then Inl (invalid ''Index Node label must not be empty'')
      else and_then (validate_public_base_url env base_url ''base_url'') (\<lambda>url.
        Inr (policy\<lparr>tp_index_nodes :=
          add_index_node (trim label) (normalized_url url) (tp_index_nodes policy)\<rparr>)))"
| "apply_trust_policy_change env policy (TC_RemoveIndexNode base_url) =
     and_then (validate_public_base_url env base_url ''base_url'') (\<lambda>url.
       let kept = filter (\<lambda>n. ix_base_url n \<noteq> normalized_url url) (tp_index_nodes policy)
       in if length kept = length (tp_index_nodes policy)
          then Inl (AT_Store (NotFound (''Index Node '' @ normalized_url url)))
          else Inr (policy\<lparr>tp_index_nodes := kept\<rparr>))"
| "apply_trust_policy_change env policy (TC_BlockPod origin_node_id pod_slug) =
     (let slug = te_lowercase env (trim pod_slug)
      in if slug = [] then Inl (invalid ''blocked Pod slug must not be empty'')
         else Inr (policy\<lparr>tp_blocked_pods := os_insert (BlockedPod origin_node_id slug) (tp_blocked_pods policy)\<rparr>))"
| "apply_trust_policy_change env policy (TC_BlockNode node_id) =
     Inr (policy\<lparr>tp_blocked_nodes := os_insert node_id (tp_blocked_nodes policy)\<rparr>)"
| "apply_trust_policy_change env policy (TC_BlockSource source) =
     and_then (insert_normalized_policy_term env (tp_blocked_sources policy) source ''blocked source'') (\<lambda>sources.
       Inr (policy\<lparr>tp_blocked_sources := sources\<rparr>))"
| "apply_trust_policy_change env policy (TC_BlockTopic topic) =
     and_then (insert_normalized_policy_term env (tp_blocked_topics policy) topic ''blocked topic'') (\<lambda>topics.
       Inr (policy\<lparr>tp_blocked_topics := topics\<rparr>))"

definition stored_policy :: "uuid \<Rightarrow> uuid option \<Rightarrow> home_store \<Rightarrow> trust_policy" where
  "stored_policy user_id tenant_id st =
     (case om_get (pst_trust_policies (hs_pods st)) (user_id, tenant_id) of
        None \<Rightarrow> trust_policy_new user_id tenant_id | Some policy \<Rightarrow> policy)"

definition put_policy :: "uuid \<times> uuid option \<Rightarrow> trust_policy \<Rightarrow> home_store \<Rightarrow> home_store" where
  "put_policy key policy st =
     (let p = hs_pods st
      in st\<lparr>hs_pods := p\<lparr>pst_trust_policies := om_put key policy (pst_trust_policies p)\<rparr>\<rparr>)"

definition trust_policy_of :: "tools_env \<Rightarrow> auth_context \<Rightarrow> home_store \<Rightarrow> agent_tools_error + trust_policy" where
  "trust_policy_of env ctx st =
     and_then (authorize_harness env st ctx Cap_FeedRead None) (\<lambda>_.
     and_then (ok_or (invalid ''Trust Policy requires an authenticated User'') (ctx_user_id ctx)) (\<lambda>user_id.
     Inr (stored_policy user_id (ctx_tenant_id ctx) st)))"

definition trusted_peers_of :: "tools_env \<Rightarrow> auth_context \<Rightarrow> home_store \<Rightarrow> agent_tools_error + trusted_peer list" where
  "trusted_peers_of env ctx st =
     and_then (authorize_harness env st ctx Cap_Administration None) (\<lambda>_.
     Inr (sort_key tpe_base_url (filter (\<lambda>p. tpe_tenant_id p = ctx_tenant_id ctx \<and> tpe_enabled p)
       (uuid_values env (pst_trusted_peers (hs_pods st))))))"

definition trusted_peer_of ::
  "tools_env \<Rightarrow> auth_context \<Rightarrow> uuid \<Rightarrow> home_store \<Rightarrow> agent_tools_error + trusted_peer" where
  "trusted_peer_of env ctx peer_id st =
     and_then (authorize_harness env st ctx Cap_Administration None) (\<lambda>_.
     (case om_get (pst_trusted_peers (hs_pods st)) peer_id of
        None \<Rightarrow> Inl (AT_Store UntrustedPeer)
      | Some peer \<Rightarrow>
          if tpe_tenant_id peer = ctx_tenant_id ctx \<and> tpe_enabled peer then Inr peer
          else Inl (AT_Store UntrustedPeer)))"

end
