(* ===== verification/Proposals.thy ===== *)
theory Proposals
  imports Trust_Policy
begin

text \<open>
  Pending Proposals (\<open>agent_tools/node/proposals.rs\<close>, \<open>agent_tools/shared.rs\<close>): what a harness may
  propose and what its proposal records, who may read it, who may decide it, and its expiry.
  What a decision does is theory Approvals.
\<close>

section \<open>What a proposal records\<close>

type_synonym proposal_details = "proposal_resource list \<times> string list \<times> proposal_resource_diff list"

definition one_diff :: "proposal_resource \<Rightarrow> string list \<Rightarrow> json \<Rightarrow> json \<Rightarrow> proposal_details" where
  "one_diff resource consequences before after =
     ([resource], consequences, [\<lparr> rd_resource = resource, rd_before = before, rd_after = after \<rparr>])"

fun role_rank :: "pod_role \<Rightarrow> nat" where
  "role_rank Owner = 0"
| "role_rank Curator = 1"

definition roles_of_pod :: "uuid \<Rightarrow> pod_role_assignment list \<Rightarrow> pod_role_assignment list" where
  "roles_of_pod pod_id roles =
     sort_key (\<lambda>a. (ra_user_id a, role_rank (ra_role a))) (filter (\<lambda>a. ra_pod_id a = pod_id) roles)"

definition pod_roles_value :: "uuid \<Rightarrow> pod_role_assignment list \<Rightarrow> json" where
  "pod_roles_value pod_id roles = JArr (map json_role_assignment (roles_of_pod pod_id roles))"

definition owner_count :: "uuid \<Rightarrow> pod_role_assignment list \<Rightarrow> nat" where
  "owner_count pod_id roles =
     length (filter (\<lambda>a. ra_pod_id a = pod_id \<and> ra_role a = Owner) roles)"

fun grant_scope_expands :: "uuid list option \<Rightarrow> uuid list option \<Rightarrow> bool" where
  "grant_scope_expands current None = True"
| "grant_scope_expands (Some current) (Some requested) = list_all (\<lambda>p. p \<in> set requested) current"
| "grant_scope_expands None (Some requested) = False"

text \<open>A stored Pod of the caller's tenant.\<close>

definition tenant_pod :: "tools_env \<Rightarrow> auth_context \<Rightarrow> uuid \<Rightarrow> home_store \<Rightarrow> agent_tools_error + pod" where
  "tenant_pod env ctx pod_id st =
     and_then (stored_pod ''pod '' env pod_id st) (\<lambda>pod.
     and_then (in_tenant ctx (pd_tenant_id pod)) (\<lambda>_. Inr pod))"

definition proposes_new_pod ::
  "tools_env \<Rightarrow> auth_context \<Rightarrow> create_pod_request \<Rightarrow> string \<Rightarrow> home_store \<Rightarrow> agent_tools_error + unit" where
  "proposes_new_pod env ctx request message st =
     and_then (checked (cq_visibility request = Public) (invalid message)) (\<lambda>_.
     checked (\<not> slug_taken ctx (cq_slug request) st)
       (AT_Store (Duplicate (''pod '' @ cq_slug request))))"

definition details_create_public_pod ::
  "tools_env \<Rightarrow> auth_context \<Rightarrow> create_pod_request \<Rightarrow> home_store \<Rightarrow> agent_tools_error + proposal_details" where
  "details_create_public_pod env ctx request st =
     and_then (authorize_harness_for_new_pod env ctx Cap_PodCuration st) (\<lambda>_.
     and_then (proposes_new_pod env ctx request ''CreatePublicPod requires public visibility'' st) (\<lambda>_.
     Inr (one_diff (RS_PodSlug (cq_slug request))
       [''A new Pod and its signed Package become immediately available through federation and Explore surfaces.'']
       JNull (json_create_pod_request request))))"

definition details_create_public_lifecycle ::
  "tools_env \<Rightarrow> auth_context \<Rightarrow> create_pod_lifecycle_request \<Rightarrow> home_store
    \<Rightarrow> agent_tools_error + proposal_details" where
  "details_create_public_lifecycle env ctx request st =
     and_then (authorize_harness_for_new_pod env ctx Cap_PodCuration st) (\<lambda>_.
     and_then (if cl_package request = PCP_Default then Inr ()
               else authorize_harness_for_new_pod env ctx Cap_PackageManagement st) (\<lambda>_.
     and_then (proposes_new_pod env ctx (cl_pod request)
       ''public Pod lifecycle creation requires public visibility'' st) (\<lambda>_.
     and_then (validate_creation_package env ctx (cl_package request) st) (\<lambda>_.
     Inr (one_diff (RS_PodSlug (cq_slug (cl_pod request)))
       [''A new Pod and its selected signed Package become available atomically through federation and Explore surfaces.'']
       JNull (json_lifecycle_request request))))))"

definition details_publish_pod ::
  "tools_env \<Rightarrow> auth_context \<Rightarrow> uuid \<Rightarrow> home_store \<Rightarrow> agent_tools_error + proposal_details" where
  "details_publish_pod env ctx pod_id st =
     and_then (authorize_harness env st ctx Cap_PodCuration (Some pod_id)) (\<lambda>_.
     and_then (tenant_pod env ctx pod_id st) (\<lambda>pod.
     and_then (checked (pd_visibility pod \<noteq> Public) (invalid ''Pod is already public'')) (\<lambda>_.
     Inr (one_diff (RS_Pod pod_id)
       [''The Pod and its signed public events become available through federation and Explore surfaces.'']
       (json_visibility (pd_visibility pod)) (json_visibility Public)))))"

definition details_expand_visibility ::
  "tools_env \<Rightarrow> auth_context \<Rightarrow> uuid \<Rightarrow> visibility \<Rightarrow> home_store \<Rightarrow> agent_tools_error + proposal_details" where
  "details_expand_visibility env ctx pod_id visibility st =
     and_then (authorize_pod_role_owner env ctx pod_id st) (\<lambda>_.
     and_then (tenant_pod env ctx pod_id st) (\<lambda>pod.
     and_then (checked (visibility_exposure (pd_visibility pod) < visibility_exposure visibility)
       (invalid ''Pending Proposals only apply to visibility expansion'')) (\<lambda>_.
     Inr (one_diff (RS_Pod pod_id) [''The Pod becomes visible to a broader audience.'']
       (json_visibility (pd_visibility pod)) (json_visibility visibility)))))"

text \<open>A grant may only grow: in capabilities and in the Pods it covers.\<close>

definition grant_expands :: "harness_grant \<Rightarrow> harness_capability list \<Rightarrow> uuid list option \<Rightarrow> bool" where
  "grant_expands grant capabilities pod_ids \<longleftrightarrow>
     list_all (\<lambda>c. c \<in> set capabilities) (hg_capabilities grant) \<and>
     grant_scope_expands (hg_pod_ids grant) pod_ids"

definition details_expand_grant ::
  "tools_env \<Rightarrow> auth_context \<Rightarrow> uuid \<Rightarrow> harness_capability list \<Rightarrow> uuid list option \<Rightarrow> home_store
    \<Rightarrow> agent_tools_error + proposal_details" where
  "details_expand_grant env ctx harness_id capabilities pod_ids st =
     and_then (authorize_harness env st ctx Cap_Administration None) (\<lambda>_.
     and_then (ok_or (AT_Store (NotFound (''Agent Harness '' @ te_uuid_str env harness_id)))
       (om_get (hs_agent_harnesses st) harness_id)) (\<lambda>target.
     and_then (in_tenant ctx (ah_tenant_id target)) (\<lambda>_.
     and_then (check_pod_scope env st ctx (case pod_ids of None \<Rightarrow> [] | Some ids \<Rightarrow> ids)) (\<lambda>_.
     let normalized = normalize_capabilities capabilities in
     and_then (checked (grant_expands (ah_grant target) normalized pod_ids)
       (invalid ''sensitive grant change must only expand authority'')) (\<lambda>_.
     and_then (checked (\<not> (ah_kind target = Unattended \<and> list_ex privileged normalized))
       (AT_Forbidden ''unattended harnesses cannot receive administration or approval'')) (\<lambda>_.
     Inr (one_diff (RS_AgentHarness harness_id)
       [''The Harness Grant gains additional authority for future requests.'']
       (json_grant (ah_grant target))
       (json_grant \<lparr> hg_capabilities = normalized,
                     hg_pod_ids = map_option normalize_pod_ids pod_ids \<rparr>))))))))"

definition peer_known :: "auth_context \<Rightarrow> uuid \<Rightarrow> string \<Rightarrow> home_store \<Rightarrow> bool" where
  "peer_known ctx node_id base_url st \<longleftrightarrow>
     list_ex (\<lambda>p. tpe_tenant_id p = ctx_tenant_id ctx \<and>
         (tpe_base_url p = base_url \<or> (node_id \<noteq> 0 \<and> tpe_node_id p = node_id)))
       (om_vals (pst_trusted_peers (hs_pods st)))"

definition details_add_peer ::
  "tools_env \<Rightarrow> auth_context \<Rightarrow> uuid \<Rightarrow> string \<Rightarrow> string \<Rightarrow> string \<Rightarrow> home_store
    \<Rightarrow> agent_tools_error + proposal_details" where
  "details_add_peer env ctx node_id display_name base_url public_key st =
     and_then (authorize_harness env st ctx Cap_Administration None) (\<lambda>_.
     and_then (checked (trim display_name \<noteq> [] \<and> trim public_key \<noteq> [] \<and>
         (case x_url_parse (te_ext env) base_url of Inl _ \<Rightarrow> False | Inr _ \<Rightarrow> True))
       (invalid ''trusted peer name, URL, and public key must be valid'')) (\<lambda>_.
     and_then (checked (\<not> peer_known ctx node_id base_url st)
       (AT_Store (Duplicate (''trusted peer '' @ base_url)))) (\<lambda>_.
     Inr (one_diff (RS_TrustedPeerUrl base_url)
       [''The Home Node will trust signed public data from this peer.'']
       JNull
       (JObj [(''node_id'', JUuid node_id), (''display_name'', JStr display_name),
              (''base_url'', JStr base_url), (''public_key'', JStr public_key),
              (''trust_level'', JStr (trust_level_wire TL_ReadOnly)), (''enabled'', JBool True)])))))"

definition details_remove_peer ::
  "tools_env \<Rightarrow> auth_context \<Rightarrow> uuid \<Rightarrow> home_store \<Rightarrow> agent_tools_error + proposal_details" where
  "details_remove_peer env ctx peer_id st =
     and_then (authorize_harness env st ctx Cap_Administration None) (\<lambda>_.
     and_then (ok_or (AT_Store (NotFound (''trusted peer '' @ te_uuid_str env peer_id)))
       (om_get (pst_trusted_peers (hs_pods st)) peer_id)) (\<lambda>peer.
     and_then (in_tenant ctx (tpe_tenant_id peer)) (\<lambda>_.
     and_then (checked (tpe_enabled peer) (invalid ''trusted peer is already disabled'')) (\<lambda>_.
     Inr (one_diff (RS_TrustedPeerUrl (tpe_base_url peer))
       [''The peer can no longer exchange signed public discovery data with this Home Node.'']
       (json_trusted_peer peer) (json_trusted_peer (peer\<lparr>tpe_enabled := False\<rparr>)))))))"

definition details_change_trust_policy ::
  "tools_env \<Rightarrow> auth_context \<Rightarrow> uuid \<Rightarrow> uuid option \<Rightarrow> trust_policy_change \<Rightarrow> home_store
    \<Rightarrow> agent_tools_error + proposal_details" where
  "details_change_trust_policy env ctx user_id tenant_id change st =
     and_then (authorize_harness env st ctx Cap_Administration None) (\<lambda>_.
     let current = stored_policy user_id tenant_id st in
     and_then (apply_trust_policy_change env current change) (\<lambda>prospective.
     Inr (one_diff (RS_TrustPolicy user_id)
       [''The Home Node'' @ [CHR 0x27] @ ''s local public Pod discovery rules change.'']
       (json_trust_policy current) (json_trust_policy prospective))))"

definition check_revised_package :: "tools_env \<Rightarrow> pod_skill_pack \<Rightarrow> agent_tools_error + unit" where
  "check_revised_package env package =
     (let report = validate_skill_pack env package
      in checked (vr_valid report) (invalid (join_with '', '' (vr_errors report))))"

definition check_public_base_version :: "pod_skill_pack \<Rightarrow> int \<Rightarrow> agent_tools_error + unit" where
  "check_public_base_version existing base_version =
     (case package_version_new (pk_version existing) of
        Inl v \<Rightarrow> Inl (invalid (package_version_error_to_string v))
      | Inr version \<Rightarrow>
          checked (version = base_version) (invalid ''public Package Revision base version is stale''))"

text \<open>The proposed package carries the time at which the proposal is made.\<close>

definition details_revise_package ::
  "tools_env \<Rightarrow> time \<Rightarrow> auth_context \<Rightarrow> uuid \<Rightarrow> int \<Rightarrow> skill_pack_patch \<Rightarrow> home_store
    \<Rightarrow> agent_tools_error + proposal_details" where
  "details_revise_package env clock ctx pod_id base_version patch st =
     and_then (authorize_harness env st ctx Cap_PackageManagement (Some pod_id)) (\<lambda>_.
     and_then (tenant_pod env ctx pod_id st) (\<lambda>pod.
     and_then (checked (pd_visibility pod = Public)
       (invalid ''this proposal type requires a public Pod'')) (\<lambda>_.
     and_then (ensure_direct_package_revision_allowed_for_origin env ctx pod st) (\<lambda>_.
     and_then (stored_package ''skill pack'' pod_id st) (\<lambda>existing.
     and_then (check_public_base_version existing base_version) (\<lambda>_.
     let prospective = patched_skill_pack clock existing patch in
     and_then (check_revised_package env prospective) (\<lambda>_.
     Inr ([RS_Pod pod_id, RS_PodPackage pod_id],
          [''The signed public Pod Package changes for current and future subscribers.''],
          [\<lparr> rd_resource = RS_PodPackage pod_id, rd_before = json_package existing,
             rd_after = json_package prospective \<rparr>]))))))))"

definition placed_in_pod :: "uuid \<Rightarrow> uuid \<Rightarrow> home_store \<Rightarrow> bool" where
  "placed_in_pod pod_id submission_id st \<longleftrightarrow>
     list_ex (\<lambda>l. sbp_pod_id l = pod_id \<and> sbp_submission_id l = submission_id)
       (pst_submission_pods (hs_pods st))"

definition json_accepted :: "bool \<Rightarrow> json" where
  "json_accepted b = JObj [(''accepted'', JBool b)]"

definition details_remove_submission ::
  "tools_env \<Rightarrow> auth_context \<Rightarrow> uuid \<Rightarrow> uuid \<Rightarrow> home_store \<Rightarrow> agent_tools_error + proposal_details" where
  "details_remove_submission env ctx pod_id submission_id st =
     and_then (authorize_harness env st ctx Cap_PodCuration (Some pod_id)) (\<lambda>_.
     and_then (tenant_pod env ctx pod_id st) (\<lambda>pod.
     and_then (checked (pd_visibility pod = Public)
       (invalid ''this proposal type requires a public Pod'')) (\<lambda>_.
     and_then (checked (placed_in_pod pod_id submission_id st)
       (AT_Store (NotFound (''submission '' @ te_uuid_str env submission_id @ '' in pod '' @ pd_slug pod)))) (\<lambda>_.
     Inr (one_diff (RS_SubmissionPlacement pod_id submission_id)
       [''The public Pod Placement is withdrawn from future federation and discovery.'']
       (json_accepted True) (json_accepted False))))))"

definition curation_policy_of :: "uuid \<Rightarrow> home_store \<Rightarrow> curation_policy" where
  "curation_policy_of pod_id st =
     (case om_get (pst_pod_curation_policies (hs_pods st)) pod_id of
        None \<Rightarrow> curation_policy_default | Some policy \<Rightarrow> policy)"

definition details_autonomous_curation ::
  "tools_env \<Rightarrow> auth_context \<Rightarrow> uuid \<Rightarrow> f32 \<Rightarrow> home_store \<Rightarrow> agent_tools_error + proposal_details" where
  "details_autonomous_curation env ctx pod_id threshold st =
     and_then (authorize_local_pod_curation env ctx pod_id st) (\<lambda>_.
     let current = curation_policy_of pod_id st in
     and_then (checked (\<not> is_autonomous current) (invalid ''Pod already uses Autonomous Curation'')) (\<lambda>_.
     Inr (one_diff (RS_PodCurationPolicy pod_id)
       [''The Pod may accept qualifying Candidate Placements without manual or trusted-source review.'']
       (json_policy_of current) (json_policy_of (CP_Autonomous threshold)))))"

definition granted_roles ::
  "uuid \<Rightarrow> uuid \<Rightarrow> pod_role \<Rightarrow> time \<Rightarrow> pod_role_assignment list \<Rightarrow> pod_role_assignment list" where
  "granted_roles pod_id user_id role now roles =
     filter (\<lambda>a. ra_pod_id a \<noteq> pod_id \<or> ra_user_id a \<noteq> user_id) roles @
     [\<lparr> ra_user_id = user_id, ra_pod_id = pod_id, ra_role = role, ra_created_at = now \<rparr>]"

definition role_missing :: "tools_env \<Rightarrow> uuid \<Rightarrow> agent_tools_error" where
  "role_missing env user_id = AT_Store (NotFound (''Pod Role for User '' @ te_uuid_str env user_id))"

definition details_grant_role ::
  "tools_env \<Rightarrow> time \<Rightarrow> auth_context \<Rightarrow> uuid \<Rightarrow> uuid \<Rightarrow> pod_role \<Rightarrow> home_store
    \<Rightarrow> agent_tools_error + proposal_details" where
  "details_grant_role env now ctx pod_id user_id role st =
     and_then (authorize_pod_role_owner env ctx pod_id st) (\<lambda>_.
     and_then (checked (om_get (hs_users st) user_id \<noteq> None)
       (AT_Store (NotFound (''User '' @ te_uuid_str env user_id)))) (\<lambda>_.
     and_then (checked (\<not> has_role st user_id pod_id role)
       (AT_Store (Duplicate (''Pod Role for User '' @ te_uuid_str env user_id)))) (\<lambda>_.
     and_then (checked (\<not> (role \<noteq> Owner \<and> has_role st user_id pod_id Owner \<and>
                            owner_count pod_id (hs_pod_roles st) = 1))
       (invalid ''cannot replace the last Pod Owner'')) (\<lambda>_.
     Inr (one_diff (RS_PodRoles pod_id) [''The User gains explicit authority over this Pod.'']
       (pod_roles_value pod_id (hs_pod_roles st))
       (pod_roles_value pod_id (granted_roles pod_id user_id role now (hs_pod_roles st))))))))"

definition is_assignment :: "uuid \<Rightarrow> uuid \<Rightarrow> pod_role \<Rightarrow> pod_role_assignment \<Rightarrow> bool" where
  "is_assignment pod_id user_id role a \<longleftrightarrow>
     ra_pod_id a = pod_id \<and> ra_user_id a = user_id \<and> ra_role a = role"

definition details_revoke_role ::
  "tools_env \<Rightarrow> auth_context \<Rightarrow> uuid \<Rightarrow> uuid \<Rightarrow> pod_role \<Rightarrow> home_store
    \<Rightarrow> agent_tools_error + proposal_details" where
  "details_revoke_role env ctx pod_id user_id role st =
     and_then (authorize_pod_role_owner env ctx pod_id st) (\<lambda>_.
     and_then (ok_or (role_missing env user_id)
       (find (is_assignment pod_id user_id role) (hs_pod_roles st))) (\<lambda>assignment.
     and_then (checked (\<not> (ra_role assignment = Owner \<and> owner_count pod_id (hs_pod_roles st) = 1))
       (invalid ''cannot revoke the last Pod Owner'')) (\<lambda>_.
     Inr (one_diff (RS_PodRoles pod_id) [''The User loses explicit authority over this Pod.'']
       (pod_roles_value pod_id (hs_pod_roles st))
       (pod_roles_value pod_id (filter (\<lambda>a. a \<noteq> assignment) (hs_pod_roles st)))))))"

text \<open>A Pod its Owner may delete: of this node, and not the Inbox.\<close>

definition deletable_pod :: "tools_env \<Rightarrow> auth_context \<Rightarrow> uuid \<Rightarrow> home_store \<Rightarrow> agent_tools_error + pod" where
  "deletable_pod env ctx pod_id st =
     and_then (authorize_pod_role_owner env ctx pod_id st) (\<lambda>_.
     and_then (tenant_pod env ctx pod_id st) (\<lambda>pod.
     and_then (checked (\<not> is_private_inbox env pod)
       (invalid ''the private Inbox cannot be deleted'')) (\<lambda>_.
     and_then (tenant_node env ctx st) (\<lambda>node.
     and_then (checked (\<not> is_remote pod node)
       (invalid ''this Pod is a replica of a remote Origin; unsubscribe instead of deleting'')) (\<lambda>_.
     Inr pod)))))"

definition details_delete_pod ::
  "tools_env \<Rightarrow> auth_context \<Rightarrow> uuid \<Rightarrow> home_store \<Rightarrow> agent_tools_error + proposal_details" where
  "details_delete_pod env ctx pod_id st =
     and_then (deletable_pod env ctx pod_id st) (\<lambda>pod.
     and_then (checked (pd_visibility pod = Public)
       (invalid ''this proposal type requires a public Pod'')) (\<lambda>_.
     Inr (one_diff (RS_Pod pod_id)
       [''The local Pod and its local placements are removed.'',
        ''A Pod Withdrawal ends new public discovery.'',
        ''Existing Subscriptions and previously synchronized copies on other nodes stay.'']
       (json_visibility (pd_visibility pod)) JNull)))"

fun proposal_details ::
  "tools_env \<Rightarrow> time \<Rightarrow> time \<Rightarrow> auth_context \<Rightarrow> agent_harness \<Rightarrow> sensitive_change \<Rightarrow> home_store
    \<Rightarrow> agent_tools_error + proposal_details" where
  "proposal_details env clock now ctx proposer (SC_CreatePublicPod request) st =
     details_create_public_pod env ctx request st"
| "proposal_details env clock now ctx proposer (SC_CreatePublicPodLifecycle request) st =
     details_create_public_lifecycle env ctx request st"
| "proposal_details env clock now ctx proposer (SC_PublishPod pod_id) st = details_publish_pod env ctx pod_id st"
| "proposal_details env clock now ctx proposer (SC_ExpandPodVisibility pod_id visibility) st =
     details_expand_visibility env ctx pod_id visibility st"
| "proposal_details env clock now ctx proposer (SC_ExpandHarnessGrant harness_id capabilities pod_ids) st =
     details_expand_grant env ctx harness_id capabilities pod_ids st"
| "proposal_details env clock now ctx proposer (SC_AddTrustedPeer node_id name base_url public_key) st =
     details_add_peer env ctx node_id name base_url public_key st"
| "proposal_details env clock now ctx proposer (SC_RemoveTrustedPeer peer_id) st =
     details_remove_peer env ctx peer_id st"
| "proposal_details env clock now ctx proposer (SC_ChangeTrustPolicy change) st =
     details_change_trust_policy env ctx (ah_user_id proposer) (ah_tenant_id proposer) change st"
| "proposal_details env clock now ctx proposer (SC_RevisePublicPodPackage pod_id base_version patch) st =
     details_revise_package env clock ctx pod_id base_version patch st"
| "proposal_details env clock now ctx proposer (SC_RemovePublicSubmissionFromPod pod_id submission_id) st =
     details_remove_submission env ctx pod_id submission_id st"
| "proposal_details env clock now ctx proposer (SC_EnableAutonomousCuration pod_id threshold) st =
     details_autonomous_curation env ctx pod_id threshold st"
| "proposal_details env clock now ctx proposer (SC_GrantPodRole pod_id user_id role) st =
     details_grant_role env now ctx pod_id user_id role st"
| "proposal_details env clock now ctx proposer (SC_RevokePodRole pod_id user_id role) st =
     details_revoke_role env ctx pod_id user_id role st"
| "proposal_details env clock now ctx proposer (SC_DeletePod pod_id) st = details_delete_pod env ctx pod_id st"

section \<open>Creating a proposal\<close>

definition put_proposal :: "pending_proposal \<Rightarrow> home_store \<Rightarrow> home_store" where
  "put_proposal proposal st =
     (let p = hs_pods st
      in st\<lparr>hs_pods := p\<lparr>pst_pending_proposals := om_put (pr_id proposal) proposal (pst_pending_proposals p)\<rparr>\<rparr>)"

text \<open>The harness of the call, under the identity the call named.\<close>

definition the_proposer :: "auth_context \<Rightarrow> home_store \<Rightarrow> agent_tools_error + uuid \<times> agent_harness" where
  "the_proposer ctx st =
     (let required = AT_Forbidden ''Pending Proposals require an authenticated Agent Harness'' in
      and_then (ok_or required (ctx_harness_id ctx)) (\<lambda>proposer.
      and_then (harness_for_context st ctx) (\<lambda>h.
      and_then (ok_or required h) (\<lambda>harness. Inr (proposer, harness)))))"

definition new_proposal ::
  "uuid \<Rightarrow> uuid \<times> agent_harness \<Rightarrow> sensitive_change \<Rightarrow> proposal_details \<Rightarrow> time \<Rightarrow> time \<Rightarrow> pending_proposal" where
  "new_proposal new_id proposer change details now expires_at =
     (case details of (resources, consequences, differences) \<Rightarrow>
        \<lparr> pr_id = new_id, pr_requested_change = change, pr_affected_resources = resources,
          pr_expected_consequences = consequences, pr_structured_diff = differences,
          pr_proposer = fst proposer, pr_user_id = ah_user_id (snd proposer),
          pr_tenant_id = ah_tenant_id (snd proposer), pr_created_at = now, pr_expires_at = expires_at,
          pr_status = PR_Pending, pr_decided_by = None, pr_decided_at = None,
          pr_rejection_reason = None \<rparr>)"

definition create_pending_proposal ::
  "tools_env \<Rightarrow> draws \<Rightarrow> auth_context \<Rightarrow> sensitive_change \<Rightarrow> time \<Rightarrow> time \<Rightarrow> pending_proposal tool" where
  "create_pending_proposal env d ctx change now expires_at =
     bind_tool (reads (the_proposer ctx)) (\<lambda>proposer.
     bind_tool (require_that (\<lambda>_. now < expires_at \<and> expires_at \<le> now + days 7)
       (invalid ''Pending Proposal expiry must be within seven days'')) (\<lambda>_.
     bind_tool (reads (proposal_details env (snd (d 0)) now ctx (snd proposer) change)) (\<lambda>details.
     let proposal = new_proposal (fst (d 0)) proposer change details now expires_at in
     bind_tool (writes (put_proposal proposal)) (\<lambda>_.
     persist env proposal))))"

text \<open>
  The relative expiry of the transports. A \<open>u64\<close> that is no \<open>i64\<close> is refused; a sum beyond the
  latest representable time is a panic, \<open>None\<close>.
\<close>

definition i64_max :: nat where
  "i64_max = 9223372036854775807"

definition create_pending_proposal_from_request ::
  "tools_env \<Rightarrow> draws \<Rightarrow> auth_context \<Rightarrow> sensitive_change \<Rightarrow> nat \<Rightarrow> time \<Rightarrow> home_store
    \<Rightarrow> (home_store \<times> (agent_tools_error + pending_proposal)) option" where
  "create_pending_proposal_from_request env d ctx change expires_in now st =
     (if i64_max < expires_in then Some (st, Inl (invalid ''Pending Proposal expiry is too large''))
      else if te_latest_time env < now + seconds (int expires_in) then None
      else Some (create_pending_proposal env d ctx change now (now + seconds (int expires_in)) st))"

definition DEFAULT_PENDING_PROPOSAL_SECONDS :: nat where
  "DEFAULT_PENDING_PROPOSAL_SECONDS = 3600"

text \<open>The proposal a tool makes when it needs one; within the calendar it is the request above.\<close>

definition propose ::
  "tools_env \<Rightarrow> draws \<Rightarrow> auth_context \<Rightarrow> sensitive_change \<Rightarrow> time \<Rightarrow> pending_proposal tool" where
  "propose env d ctx change now =
     create_pending_proposal env d ctx change now (now + seconds (int DEFAULT_PENDING_PROPOSAL_SECONDS))"

lemma propose_is_request:
  "now + hours 1 \<le> te_latest_time env \<Longrightarrow>
     create_pending_proposal_from_request env d ctx change DEFAULT_PENDING_PROPOSAL_SECONDS now st =
     Some (propose env d ctx change now st)"
  by (simp add: create_pending_proposal_from_request_def propose_def DEFAULT_PENDING_PROPOSAL_SECONDS_def
      i64_max_def)

section \<open>Readers and approvers\<close>

fun resource_pod :: "proposal_resource \<Rightarrow> uuid option" where
  "resource_pod (RS_Pod pod_id) = Some pod_id"
| "resource_pod (RS_PodPackage pod_id) = Some pod_id"
| "resource_pod (RS_PodCurationPolicy pod_id) = Some pod_id"
| "resource_pod (RS_PodRoles pod_id) = Some pod_id"
| "resource_pod (RS_SubmissionPlacement pod_id submission_id) = Some pod_id"
| "resource_pod _ = None"

definition approval_scope_allows :: "agent_harness \<Rightarrow> pending_proposal \<Rightarrow> bool" where
  "approval_scope_allows harness proposal \<longleftrightarrow>
     list_all (\<lambda>resource. case resource_pod resource of
         Some pod_id \<Rightarrow> grant_covers_pod (ah_grant harness) pod_id
       | None \<Rightarrow> hg_pod_ids (ah_grant harness) = None) (pr_affected_resources proposal)"

definition stored_proposal :: "tools_env \<Rightarrow> uuid \<Rightarrow> home_store \<Rightarrow> agent_tools_error + pending_proposal" where
  "stored_proposal env proposal_id st =
     ok_or (AT_Store (NotFound (''Pending Proposal '' @ te_uuid_str env proposal_id)))
       (om_get (pst_pending_proposals (hs_pods st)) proposal_id)"

definition may_read :: "agent_harness \<Rightarrow> pending_proposal \<Rightarrow> bool" where
  "may_read harness proposal \<longleftrightarrow>
     ah_tenant_id harness = pr_tenant_id proposal \<and> ah_user_id harness = pr_user_id proposal \<and>
     (ah_id harness = pr_proposer proposal \<or>
      (Cap_Approval \<in> set (hg_capabilities (ah_grant harness)) \<and> approval_scope_allows harness proposal))"

definition authorize_proposal_reader ::
  "tools_env \<Rightarrow> auth_context \<Rightarrow> uuid \<Rightarrow> home_store \<Rightarrow> agent_tools_error + unit" where
  "authorize_proposal_reader env ctx proposal_id st =
     and_then (stored_proposal env proposal_id st) (\<lambda>proposal.
     and_then (harness_for_context st ctx) (\<lambda>h. case h of
       None \<Rightarrow> checked (ctx_tenant_id ctx = pr_tenant_id proposal \<and>
           (ctx_user_id ctx = None \<or> ctx_user_id ctx = Some (pr_user_id proposal)))
         (AT_Forbidden ''Pending Proposal belongs to another User or tenant'')
     | Some harness \<Rightarrow> checked (may_read harness proposal)
         (AT_Forbidden ''harness cannot inspect this Pending Proposal'')))"

definition authorize_independent_approver ::
  "tools_env \<Rightarrow> auth_context \<Rightarrow> uuid \<Rightarrow> home_store \<Rightarrow> agent_tools_error + proposal_decision_actor" where
  "authorize_independent_approver env ctx proposal_id st =
     and_then (stored_proposal env proposal_id st) (\<lambda>proposal.
     and_then (harness_for_context st ctx) (\<lambda>h. case h of
       None \<Rightarrow>
         and_then (checked (ctx_tenant_id ctx = pr_tenant_id proposal \<and>
             ctx_user_id ctx = Some (pr_user_id proposal))
           (AT_Forbidden ''approval must belong to the proposal User and tenant'')) (\<lambda>_.
         Inr (DA_Owner (pr_user_id proposal)))
     | Some harness \<Rightarrow>
         and_then (authorize_harness env st ctx Cap_Approval None) (\<lambda>_.
         and_then (checked (ah_kind harness = Interactive)
           (AT_Forbidden ''approval requires an interactive Agent Harness'')) (\<lambda>_.
         and_then (checked (ah_tenant_id harness = pr_tenant_id proposal \<and>
             ah_user_id harness = pr_user_id proposal)
           (AT_Forbidden ''approval must belong to the proposal User and tenant'')) (\<lambda>_.
         and_then (checked (approval_scope_allows harness proposal)
           (AT_Forbidden ''approval Harness Grant does not cover the affected resources'')) (\<lambda>_.
         and_then (checked (pr_proposer proposal \<noteq> ah_id harness)
           (AT_Forbidden ''a harness cannot approve its own Pending Proposal'')) (\<lambda>_.
         Inr (DA_Harness (ah_id harness)))))))))"

section \<open>Expiry and reads\<close>

definition expired_proposal :: "time \<Rightarrow> pending_proposal \<Rightarrow> pending_proposal" where
  "expired_proposal now proposal =
     (if pr_status proposal = PR_Pending \<and> pr_expires_at proposal \<le> now
      then proposal\<lparr>pr_status := PR_Expired, pr_decided_at := Some now\<rparr> else proposal)"

definition expire_proposal ::
  "tools_env \<Rightarrow> uuid \<Rightarrow> time \<Rightarrow> home_store \<Rightarrow> agent_tools_error + home_store" where
  "expire_proposal env proposal_id now st =
     and_then (stored_proposal env proposal_id st) (\<lambda>proposal.
     let p = hs_pods st
     in Inr (st\<lparr>hs_pods := p\<lparr>pst_pending_proposals :=
       om_put proposal_id (expired_proposal now proposal) (pst_pending_proposals p)\<rparr>\<rparr>))"

definition pending_proposal_of ::
  "tools_env \<Rightarrow> auth_context \<Rightarrow> uuid \<Rightarrow> time \<Rightarrow> pending_proposal tool" where
  "pending_proposal_of env ctx proposal_id now =
     bind_tool (reads (authorize_proposal_reader env ctx proposal_id)) (\<lambda>_.
     bind_tool (updates (expire_proposal env proposal_id now)) (\<lambda>_.
     bind_tool (reads (stored_proposal env proposal_id)) (persist env)))"

fun expire_all :: "tools_env \<Rightarrow> time \<Rightarrow> uuid list \<Rightarrow> home_store \<Rightarrow> agent_tools_error + home_store" where
  "expire_all env now [] st = Inr st"
| "expire_all env now (proposal_id # ids) st =
     and_then (expire_proposal env proposal_id now st) (expire_all env now ids)"

definition visible_proposals :: "tools_env \<Rightarrow> auth_context \<Rightarrow> home_store \<Rightarrow> pending_proposal list" where
  "visible_proposals env ctx st =
     sort_key pr_created_at
       (filter (\<lambda>p. authorize_proposal_reader env ctx (pr_id p) st = Inr ())
         (uuid_values env (pst_pending_proposals (hs_pods st))))"

definition list_pending_proposals ::
  "tools_env \<Rightarrow> auth_context \<Rightarrow> time \<Rightarrow> pending_proposal list tool" where
  "list_pending_proposals env ctx now =
     bind_tool (reads (\<lambda>st. harness_for_context st ctx)) (\<lambda>_.
     bind_tool (updates (\<lambda>st. expire_all env now
       (te_order env (om_keys (pst_pending_proposals (hs_pods st)))) st)) (\<lambda>_.
     bind_tool (gets (visible_proposals env ctx)) (persist env)))"

definition pending_proposal_allowed_actions ::
  "tools_env \<Rightarrow> auth_context \<Rightarrow> uuid \<Rightarrow> home_store
    \<Rightarrow> agent_tools_error + proposal_allowed_action list" where
  "pending_proposal_allowed_actions env ctx proposal_id st =
     and_then (stored_proposal env proposal_id st) (\<lambda>proposal.
     and_then (authorize_proposal_reader env ctx proposal_id st) (\<lambda>_.
     Inr (if pr_status proposal = PR_Pending \<and>
             (case authorize_independent_approver env ctx proposal_id st of Inl _ \<Rightarrow> False | Inr _ \<Rightarrow> True)
          then [PA_Approve, PA_Reject] else [])))"

end
