(* ===== verification/Approvals.thy ===== *)
theory Approvals
  imports Proposals
begin

text \<open>
  Decisions on Pending Proposals (\<open>agent_tools/node/proposals.rs\<close>) and the sensitive changes an
  approval applies (\<open>agent_tools/shared.rs\<close>): the recorded difference must still describe the
  store, and a change that fails leaves the store as it was.
\<close>

section \<open>The recorded difference\<close>

definition json_or_null :: "('a \<Rightarrow> json) \<Rightarrow> 'a option \<Rightarrow> json" where
  "json_or_null f v = (case v of None \<Rightarrow> JNull | Some a \<Rightarrow> f a)"

fun current_value :: "tools_env \<Rightarrow> uuid option \<Rightarrow> home_store \<Rightarrow> proposal_resource \<Rightarrow> json" where
  "current_value env tenant_id st (RS_Pod pod_id) =
     json_or_null (\<lambda>p. json_visibility (pd_visibility p)) (om_get (st_pods (hs_core st)) pod_id)"
| "current_value env tenant_id st (RS_PodSlug slug) =
     json_or_null json_pod (find (\<lambda>p. pd_tenant_id p = tenant_id \<and> pd_slug p = slug)
       (values_in_order (te_order env) (st_pods (hs_core st))))"
| "current_value env tenant_id st (RS_AgentHarness harness_id) =
     json_or_null (\<lambda>h. json_grant (ah_grant h)) (om_get (hs_agent_harnesses st) harness_id)"
| "current_value env tenant_id st (RS_TrustedPeerUrl base_url) =
     json_or_null json_trusted_peer (find (\<lambda>p. tpe_tenant_id p = tenant_id \<and> tpe_base_url p = base_url)
       (uuid_values env (pst_trusted_peers (hs_pods st))))"
| "current_value env tenant_id st (RS_TrustPolicy user_id) =
     json_trust_policy (stored_policy user_id tenant_id st)"
| "current_value env tenant_id st (RS_PodPackage pod_id) =
     json_or_null json_package (om_get (st_pod_skill_packs (hs_core st)) pod_id)"
| "current_value env tenant_id st (RS_PodCurationPolicy pod_id) =
     json_policy_of (curation_policy_of pod_id st)"
| "current_value env tenant_id st (RS_PodRoles pod_id) = pod_roles_value pod_id (hs_pod_roles st)"
| "current_value env tenant_id st (RS_SubmissionPlacement pod_id submission_id) =
     json_accepted (placed_in_pod pod_id submission_id st)"

definition validate_structured_diff ::
  "tools_env \<Rightarrow> pending_proposal \<Rightarrow> home_store \<Rightarrow> agent_tools_error + unit" where
  "validate_structured_diff env proposal st =
     checked (list_all (\<lambda>difference.
         json_eq (current_value env (pr_tenant_id proposal) st (rd_resource difference))
           (rd_before difference)) (pr_structured_diff proposal))
       (invalid ''proposal structured diff is stale; create a new Pending Proposal'')"

section \<open>Applying a change\<close>

definition apply_publish_pod :: "tools_env \<Rightarrow> draws \<Rightarrow> auth_context \<Rightarrow> uuid \<Rightarrow> unit tool" where
  "apply_publish_pod env d ctx pod_id =
     bind_tool (reads (tenant_pod env ctx pod_id)) (\<lambda>pod.
     bind_tool (require_that (\<lambda>_. pd_visibility pod \<noteq> Public) (invalid ''Pod is already public'')) (\<lambda>_.
     bind_tool (writes (with_visibility pod_id Public pod)) (\<lambda>_.
     bind_tool (publish_pod_events env d ctx pod_id (pod\<lparr>pd_visibility := Public\<rparr>)) (\<lambda>_. ret ()))))"

definition apply_expand_grant ::
  "tools_env \<Rightarrow> auth_context \<Rightarrow> uuid \<Rightarrow> harness_capability list \<Rightarrow> uuid list option \<Rightarrow> home_store
    \<Rightarrow> agent_tools_error + home_store" where
  "apply_expand_grant env ctx harness_id capabilities pod_ids st =
     and_then (ok_or (AT_Store (NotFound (''Agent Harness '' @ te_uuid_str env harness_id)))
       (om_get (hs_agent_harnesses st) harness_id)) (\<lambda>target.
     and_then (checked (ah_tenant_id target = ctx_tenant_id ctx) (AT_Store TenantBoundary)) (\<lambda>_.
     let requested = normalize_capabilities capabilities in
     and_then (checked (grant_expands (ah_grant target) requested pod_ids)
       (invalid ''Harness Grant changed after proposal creation'')) (\<lambda>_.
     Inr (st\<lparr>hs_agent_harnesses := om_put harness_id
       (target\<lparr>ah_grant := \<lparr> hg_capabilities = requested,
                            hg_pod_ids = map_option normalize_pod_ids pod_ids \<rparr>\<rparr>)
       (hs_agent_harnesses st)\<rparr>))))"

definition put_peer :: "uuid \<Rightarrow> trusted_peer \<Rightarrow> home_store \<Rightarrow> home_store" where
  "put_peer peer_id peer st =
     (let p = hs_pods st
      in st\<lparr>hs_pods := p\<lparr>pst_trusted_peers := om_put peer_id peer (pst_trusted_peers p)\<rparr>\<rparr>)"

definition apply_add_peer ::
  "uuid \<times> time \<Rightarrow> auth_context \<Rightarrow> uuid \<Rightarrow> string \<Rightarrow> string \<Rightarrow> string \<Rightarrow> home_store
    \<Rightarrow> agent_tools_error + home_store" where
  "apply_add_peer drawn ctx node_id display_name base_url public_key st =
     and_then (checked (\<not> peer_known ctx node_id base_url st)
       (AT_Store (Duplicate (''trusted peer '' @ base_url)))) (\<lambda>_.
     Inr (put_peer (fst drawn)
       \<lparr> tpe_peer_id = fst drawn, tpe_node_id = node_id, tpe_tenant_id = ctx_tenant_id ctx,
         tpe_display_name = display_name, tpe_base_url = base_url, tpe_public_key = public_key,
         tpe_trust_level = TL_ReadOnly, tpe_enabled = True, tpe_created_at = snd drawn \<rparr> st))"

definition apply_remove_peer ::
  "tools_env \<Rightarrow> auth_context \<Rightarrow> uuid \<Rightarrow> home_store \<Rightarrow> agent_tools_error + home_store" where
  "apply_remove_peer env ctx peer_id st =
     and_then (ok_or (AT_Store (NotFound (''trusted peer '' @ te_uuid_str env peer_id)))
       (om_get (pst_trusted_peers (hs_pods st)) peer_id)) (\<lambda>peer.
     and_then (checked (tpe_tenant_id peer = ctx_tenant_id ctx) (AT_Store TenantBoundary)) (\<lambda>_.
     and_then (checked (tpe_enabled peer) (invalid ''trusted peer is already disabled'')) (\<lambda>_.
     Inr (put_peer peer_id (peer\<lparr>tpe_enabled := False\<rparr>) st))))"

text \<open>The policy that changes is the one of the User of the harness that proposed it.\<close>

definition apply_change_trust_policy ::
  "tools_env \<Rightarrow> auth_context \<Rightarrow> uuid \<Rightarrow> trust_policy_change \<Rightarrow> home_store \<Rightarrow> agent_tools_error + home_store" where
  "apply_change_trust_policy env ctx proposer change st =
     and_then (ok_or (AT_Store (NotFound (''Agent Harness '' @ te_uuid_str env proposer)))
       (om_get (hs_agent_harnesses st) proposer)) (\<lambda>harness.
     let user_id = ah_user_id harness in
     and_then (apply_trust_policy_change env (stored_policy user_id (ctx_tenant_id ctx) st) change) (\<lambda>policy.
     Inr (put_policy (user_id, ctx_tenant_id ctx) policy st)))"

text \<open>\<open>sign_public_event\<close> as a tool sees it; the event is logged later.\<close>

definition event_for ::
  "tools_env \<Rightarrow> uuid \<times> time \<Rightarrow> node_identity \<Rightarrow> pod_event_type \<Rightarrow> string \<Rightarrow> json \<Rightarrow> home_store
    \<Rightarrow> agent_tools_error + event_log_row" where
  "event_for env drawn node event_type slug payload st =
     (case sign_public_event env drawn node event_type slug payload (latest_event_hash (hs_core st) slug) of
        Inl e \<Rightarrow> Inl (AT_Signing (signing_error_to_string e))
      | Inr e \<Rightarrow> Inr e)"

definition json_package_only :: "pod_skill_pack \<Rightarrow> json" where
  "json_package_only package = JObj [(''package'', json_package package)]"

text \<open>A new version of a package: signed, stored, logged, announced.\<close>

definition store_revision ::
  "tools_env \<Rightarrow> uuid \<times> time \<Rightarrow> node_identity \<Rightarrow> pod_event_type \<Rightarrow> uuid \<Rightarrow> string \<Rightarrow> pod_skill_pack \<Rightarrow> unit tool" where
  "store_revision env drawn node event_type pod_id slug package =
     bind_tool (reads (event_for env drawn node event_type slug (json_package_only package))) (\<lambda>event.
     bind_tool (updates (\<lambda>st. store_result (insert_pod_package_version env package st))) (\<lambda>_.
     bind_tool (writes (put_skill_pack pod_id package)) (\<lambda>_.
     writes (push_event event))))"

definition refresh_announcement ::
  "tools_env \<Rightarrow> uuid \<Rightarrow> uuid \<Rightarrow> time \<Rightarrow> unit tool" where
  "refresh_announcement env new_id pod_id now =
     bind_tool (on_core (refresh_public_pod_announcement_if_needed (te_ext env) (te_uuid_str env)
       new_id pod_id now)) (\<lambda>_. ret ())"

definition stamped_package :: "time \<Rightarrow> uuid option \<Rightarrow> pod_skill_pack \<Rightarrow> pod_skill_pack" where
  "stamped_package now proposer package =
     package\<lparr>pk_created_at := now, pk_updated_at := now, pk_proposer_harness_id := proposer\<rparr>"

definition apply_revise_package ::
  "tools_env \<Rightarrow> draws \<Rightarrow> auth_context \<Rightarrow> uuid \<Rightarrow> uuid \<Rightarrow> int \<Rightarrow> skill_pack_patch \<Rightarrow> unit tool" where
  "apply_revise_package env d ctx proposer pod_id base_version patch =
     bind_tool (reads (stored_pod ''pod '' env pod_id)) (\<lambda>pod.
     bind_tool (reads (stored_package ''skill pack'' pod_id)) (\<lambda>existing.
     bind_tool (reads (\<lambda>_. check_public_base_version existing base_version)) (\<lambda>_.
     let patched = patched_skill_pack (snd (d 0)) existing patch in
     bind_tool (reads (\<lambda>_. check_revised_package env patched)) (\<lambda>_.
     let package = stamped_package (snd (d 1)) (Some proposer) patched in
     bind_tool (reads (tenant_node env ctx)) (\<lambda>node.
     bind_tool (store_revision env (d 2) node PodSkillPackUpdated pod_id (pd_slug pod) package) (\<lambda>_.
     refresh_announcement env (fst (d 3)) pod_id (snd (d 1))))))))"

subsection \<open>Withdrawing a placement\<close>

definition origin_placement_identity :: "accepted_placement_projection \<Rightarrow> uuid \<times> uuid \<times> uuid \<times> time" where
  "origin_placement_identity p =
     (ap_content_item_id p, ap_pod_id p, ap_origin_node_id p, ap_accepted_at p)"

definition reversed_placement :: "auth_context \<Rightarrow> time \<Rightarrow> pod_placement \<Rightarrow> pod_placement" where
  "reversed_placement ctx withdrawn_at placement =
     placement\<lparr>pp_status := PS_Reversed, pp_curation_path := CPath_ManualReview,
       pp_actor := curation_actor_of ctx, pp_updated_at := withdrawn_at,
       pp_audit_history := pp_audit_history placement @
         [\<lparr> pe_status = PS_Reversed, pe_curation_path = CPath_ManualReview,
            pe_actor = curation_actor_of ctx,
            pe_note = curation_rationale_new ''approved public placement reversal'',
            pe_occurred_at = withdrawn_at \<rparr>]\<rparr>"

definition is_accepted_placement :: "uuid \<Rightarrow> uuid \<Rightarrow> pod_placement \<Rightarrow> bool" where
  "is_accepted_placement pod_id content_item_id p \<longleftrightarrow>
     pp_pod_id p = pod_id \<and> pp_content_item_id p = Some content_item_id \<and> pp_status p = PS_Accepted"

text \<open>Only the first accepted placement the map yields is reversed.\<close>

definition first_accepted_placement ::
  "tools_env \<Rightarrow> uuid \<Rightarrow> uuid \<Rightarrow> (uuid \<times> uuid, pod_placement) omap \<Rightarrow> ((uuid \<times> uuid) \<times> pod_placement) option" where
  "first_accepted_placement env pod_id content_item_id m =
     find (\<lambda>(_, placement). is_accepted_placement pod_id content_item_id placement)
       (List.map_filter (\<lambda>k. map_option (Pair k) (om_get m k)) (te_order_pairs env (om_keys m)))"

definition reverse_first_placement ::
  "tools_env \<Rightarrow> auth_context \<Rightarrow> uuid \<Rightarrow> uuid \<Rightarrow> time \<Rightarrow> pod_store \<Rightarrow> pod_store" where
  "reverse_first_placement env ctx pod_id content_item_id withdrawn_at p =
     (case first_accepted_placement env pod_id content_item_id (pst_pod_placements p) of
        None \<Rightarrow> p
      | Some (k, placement) \<Rightarrow>
          p\<lparr>pst_pod_placements := om_put k (reversed_placement ctx withdrawn_at placement)
              (pst_pod_placements p)\<rparr>)"

definition originates_from :: "uuid \<Rightarrow> placement_tombstone \<Rightarrow> pod_placement \<Rightarrow> bool" where
  "originates_from content_item_id tombstone placement \<longleftrightarrow>
     pp_content_item_id placement = Some content_item_id \<and>
     origin_placement_identity (pt_origin_placement tombstone) \<in>
       origin_placement_identity ` set (pp_origin_placements placement)"

definition add_withdrawal :: "placement_tombstone \<Rightarrow> pod_placement \<Rightarrow> pod_placement" where
  "add_withdrawal tombstone placement =
     placement\<lparr>pp_origin_withdrawals := pp_origin_withdrawals placement @ [tombstone]\<rparr>"

definition tombstone_placement ::
  "uuid \<Rightarrow> uuid \<Rightarrow> placement_tombstone \<Rightarrow> pod_store \<Rightarrow> pod_store" where
  "tombstone_placement content_item_id pod_id tombstone p =
     p\<lparr>pst_pod_placements := om_map_where (originates_from content_item_id tombstone)
         (add_withdrawal tombstone) (pst_pod_placements p),
       pst_accepted_placements := om_del (content_item_id, pod_id) (pst_accepted_placements p),
       pst_placement_tombstones := pst_placement_tombstones p @ [tombstone]\<rparr>"

definition set_pod_store :: "(pod_store \<Rightarrow> pod_store) \<Rightarrow> home_store \<Rightarrow> home_store" where
  "set_pod_store f st = st\<lparr>hs_pods := f (hs_pods st)\<rparr>"

definition json_tombstoned :: "placement_tombstone \<Rightarrow> json" where
  "json_tombstoned t = JObj [(''placement_tombstone'', json_tombstone t)]"

definition json_legacy_removal :: "uuid \<Rightarrow> json" where
  "json_legacy_removal submission_id =
     JObj [(''submission_id'', JUuid submission_id), (''submission_purged'', JBool False)]"

definition withdraw_placement ::
  "tools_env \<Rightarrow> uuid \<times> time \<Rightarrow> node_identity \<Rightarrow> string \<Rightarrow> uuid \<Rightarrow> uuid \<Rightarrow> time
    \<Rightarrow> accepted_placement_projection option \<Rightarrow> unit tool" where
  "withdraw_placement env drawn node slug pod_id submission_id withdrawn_at origin =
     (case origin of
        Some placement \<Rightarrow>
          bind_tool (reads (\<lambda>st. ok_or (AT_Store (NotFound ''Content Reference''))
            (map_option feed_content_reference_of (om_get (pst_submissions (hs_pods st)) submission_id)))) (\<lambda>reference.
          let tombstone = \<lparr> pt_content_reference = reference, pt_origin_placement = placement,
                            pt_withdrawn_at = withdrawn_at \<rparr> in
          bind_tool (writes (set_pod_store (tombstone_placement submission_id pod_id tombstone))) (\<lambda>_.
          updates (log_event env drawn node PlacementTombstoned slug (json_tombstoned tombstone))))
      | None \<Rightarrow>
          updates (log_event env drawn node LegacyLinkRemoved slug (json_legacy_removal submission_id)))"

definition unlink_submission :: "uuid \<Rightarrow> uuid \<Rightarrow> pod_store \<Rightarrow> pod_store" where
  "unlink_submission pod_id submission_id p =
     p\<lparr>pst_submission_pods := filter (\<lambda>l. \<not> (sbp_pod_id l = pod_id \<and> sbp_submission_id l = submission_id))
         (pst_submission_pods p)\<rparr>"

definition apply_remove_submission ::
  "tools_env \<Rightarrow> draws \<Rightarrow> auth_context \<Rightarrow> uuid \<Rightarrow> uuid \<Rightarrow> unit tool" where
  "apply_remove_submission env d ctx pod_id submission_id =
     bind_tool (reads (tenant_pod env ctx pod_id)) (\<lambda>pod.
     bind_tool (reads (tenant_node env ctx)) (\<lambda>node.
     bind_tool (gets (\<lambda>st. om_get (pst_accepted_placements (hs_pods st)) (submission_id, pod_id))) (\<lambda>origin.
     bind_tool (require_that (placed_in_pod pod_id submission_id)
       (invalid ''public Pod Placement changed after proposal creation'')) (\<lambda>_.
     bind_tool (writes (set_pod_store (unlink_submission pod_id submission_id))) (\<lambda>_.
     let withdrawn_at = snd (d 0) in
     bind_tool (writes (set_pod_store
       (reverse_first_placement env ctx pod_id submission_id withdrawn_at))) (\<lambda>_.
     bind_tool (withdraw_placement env (d 1) node (pd_slug pod) pod_id submission_id withdrawn_at origin) (\<lambda>_.
     refresh_announcement env (fst (d 2)) pod_id withdrawn_at)))))))"

subsection \<open>Curation and roles\<close>

definition put_curation_policy :: "uuid \<Rightarrow> curation_policy \<Rightarrow> home_store \<Rightarrow> home_store" where
  "put_curation_policy pod_id policy st =
     (let p = hs_pods st
      in st\<lparr>hs_pods := p\<lparr>pst_pod_curation_policies := om_put pod_id policy (pst_pod_curation_policies p)\<rparr>\<rparr>)"

definition apply_autonomous_curation ::
  "tools_env \<Rightarrow> auth_context \<Rightarrow> uuid \<Rightarrow> f32 \<Rightarrow> home_store \<Rightarrow> agent_tools_error + home_store" where
  "apply_autonomous_curation env ctx pod_id threshold st =
     and_then (stored_pod ''Pod '' env pod_id st) (\<lambda>pod.
     and_then (in_tenant ctx (pd_tenant_id pod)) (\<lambda>_.
     Inr (put_curation_policy pod_id (CP_Autonomous threshold) st)))"

definition revoked_roles ::
  "uuid \<Rightarrow> uuid \<Rightarrow> pod_role \<Rightarrow> pod_role_assignment list \<Rightarrow> pod_role_assignment list" where
  "revoked_roles pod_id user_id role roles =
     filter (\<lambda>a. ra_pod_id a \<noteq> pod_id \<or> ra_user_id a \<noteq> user_id \<or> ra_role a \<noteq> role) roles"

definition apply_revoke_role ::
  "tools_env \<Rightarrow> uuid \<Rightarrow> uuid \<Rightarrow> pod_role \<Rightarrow> home_store \<Rightarrow> agent_tools_error + home_store" where
  "apply_revoke_role env pod_id user_id role st =
     (let kept = revoked_roles pod_id user_id role (hs_pod_roles st)
      in and_then (checked (length kept \<noteq> length (hs_pod_roles st)) (role_missing env user_id)) (\<lambda>_.
         Inr (st\<lparr>hs_pod_roles := kept\<rparr>)))"

definition without_result :: "'a tool \<Rightarrow> unit tool" where
  "without_result m = bind_tool m (\<lambda>_. ret ())"

fun apply_sensitive_change ::
  "tools_env \<Rightarrow> draws \<Rightarrow> auth_context \<Rightarrow> uuid \<Rightarrow> sensitive_change \<Rightarrow> unit tool" where
  "apply_sensitive_change env d ctx proposer (SC_CreatePublicPod request) =
     without_result (create_pod_lifecycle_locked env d ctx
       \<lparr> cl_pod = request, cl_package = PCP_Default \<rparr> (Some proposer) PM_LegacyPublic)"
| "apply_sensitive_change env d ctx proposer (SC_CreatePublicPodLifecycle request) =
     without_result (create_pod_lifecycle_locked env d ctx request (Some proposer) PM_Canonical)"
| "apply_sensitive_change env d ctx proposer (SC_PublishPod pod_id) = apply_publish_pod env d ctx pod_id"
| "apply_sensitive_change env d ctx proposer (SC_ExpandPodVisibility pod_id visibility) =
     apply_expand_pod_visibility env d ctx pod_id visibility"
| "apply_sensitive_change env d ctx proposer (SC_ExpandHarnessGrant harness_id capabilities pod_ids) =
     updates (apply_expand_grant env ctx harness_id capabilities pod_ids)"
| "apply_sensitive_change env d ctx proposer (SC_AddTrustedPeer node_id name base_url public_key) =
     updates (apply_add_peer (d 0) ctx node_id name base_url public_key)"
| "apply_sensitive_change env d ctx proposer (SC_RemoveTrustedPeer peer_id) =
     updates (apply_remove_peer env ctx peer_id)"
| "apply_sensitive_change env d ctx proposer (SC_ChangeTrustPolicy change) =
     updates (apply_change_trust_policy env ctx proposer change)"
| "apply_sensitive_change env d ctx proposer (SC_RevisePublicPodPackage pod_id base_version patch) =
     apply_revise_package env d ctx proposer pod_id base_version patch"
| "apply_sensitive_change env d ctx proposer (SC_RemovePublicSubmissionFromPod pod_id submission_id) =
     apply_remove_submission env d ctx pod_id submission_id"
| "apply_sensitive_change env d ctx proposer (SC_EnableAutonomousCuration pod_id threshold) =
     updates (apply_autonomous_curation env ctx pod_id threshold)"
| "apply_sensitive_change env d ctx proposer (SC_GrantPodRole pod_id user_id role) =
     writes (\<lambda>st. st\<lparr>hs_pod_roles := granted_roles pod_id user_id role (snd (d 0)) (hs_pod_roles st)\<rparr>)"
| "apply_sensitive_change env d ctx proposer (SC_RevokePodRole pod_id user_id role) =
     updates (apply_revoke_role env pod_id user_id role)"
| "apply_sensitive_change env d ctx proposer (SC_DeletePod pod_id) =
     without_result (delete_owned_pod_locked env d ctx pod_id (snd (d 3)))"

section \<open>Decisions\<close>

definition terminal_proposal :: agent_tools_error where
  "terminal_proposal = invalid ''Pending Proposal is terminal''"

text \<open>Expire it if its time has come; one that is no longer pending is an error, once recorded.\<close>

definition live_proposal :: "tools_env \<Rightarrow> uuid \<Rightarrow> time \<Rightarrow> pending_proposal tool" where
  "live_proposal env proposal_id now =
     bind_tool (updates (expire_proposal env proposal_id now)) (\<lambda>_.
     bind_tool (reads (stored_proposal env proposal_id)) (\<lambda>proposal.
     if pr_status proposal \<noteq> PR_Pending
     then bind_tool (persist env ()) (\<lambda>_. failing terminal_proposal)
     else ret proposal))"

definition decide ::
  "tools_env \<Rightarrow> uuid \<Rightarrow> (pending_proposal \<Rightarrow> pending_proposal) \<Rightarrow> pending_proposal tool" where
  "decide env proposal_id f =
     bind_tool (reads (stored_proposal env proposal_id)) (\<lambda>proposal.
     bind_tool (writes (set_pod_store (\<lambda>p. p\<lparr>pst_pending_proposals :=
       om_put proposal_id (f proposal) (pst_pending_proposals p)\<rparr>))) (\<lambda>_.
     persist env (f proposal)))"

definition accepted_by :: "proposal_decision_actor \<Rightarrow> time \<Rightarrow> pending_proposal \<Rightarrow> pending_proposal" where
  "accepted_by approver now proposal =
     proposal\<lparr>pr_status := PR_Accepted, pr_decided_by := Some approver, pr_decided_at := Some now\<rparr>"

definition rejected_by ::
  "proposal_decision_actor \<Rightarrow> time \<Rightarrow> string \<Rightarrow> pending_proposal \<Rightarrow> pending_proposal" where
  "rejected_by approver now reason proposal =
     proposal\<lparr>pr_status := PR_Rejected, pr_decided_by := Some approver, pr_decided_at := Some now,
       pr_rejection_reason := Some reason\<rparr>"

definition approve_pending_proposal ::
  "tools_env \<Rightarrow> draws \<Rightarrow> auth_context \<Rightarrow> uuid \<Rightarrow> time \<Rightarrow> pending_proposal tool" where
  "approve_pending_proposal env d ctx proposal_id now =
     bind_tool (reads (authorize_independent_approver env ctx proposal_id)) (\<lambda>approver.
     bind_tool (live_proposal env proposal_id now) (\<lambda>proposal.
     bind_tool (reads (validate_structured_diff env proposal)) (\<lambda>_.
     bind_tool (staged (apply_sensitive_change env d ctx (pr_proposer proposal)
       (pr_requested_change proposal))) (\<lambda>_.
     decide env proposal_id (accepted_by approver now)))))"

definition reject_pending_proposal ::
  "tools_env \<Rightarrow> auth_context \<Rightarrow> uuid \<Rightarrow> time \<Rightarrow> string \<Rightarrow> pending_proposal tool" where
  "reject_pending_proposal env ctx proposal_id now reason =
     bind_tool (require_that (\<lambda>_. trim reason \<noteq> []) (invalid ''rejection reason must not be empty'')) (\<lambda>_.
     bind_tool (reads (authorize_independent_approver env ctx proposal_id)) (\<lambda>approver.
     bind_tool (live_proposal env proposal_id now) (\<lambda>_.
     decide env proposal_id (rejected_by approver now reason))))"

end
