(* ===== verification/Tool_Laws.thy ===== *)
theory Tool_Laws
  imports Approvals Account_Props
begin

text \<open>
  What the handlers on Pods and proposals keep. An invariant of the Pods, the event log, the node
  identities, the roles and the proposals is kept by every handler when it is kept by the few writes
  that touch those: an event logged, a Pod added, a Pod purged, a visibility changed. The locale
  \<open>pod_laws\<close> states those laws once and derives the handlers; each invariant of the later theories is
  an interpretation.
\<close>

section \<open>What the invariants look at\<close>

abbreviation proposals :: "home_store \<Rightarrow> (uuid, pending_proposal) omap" where
  "proposals st \<equiv> pst_pending_proposals (hs_pods st)"

definition core_view :: "store \<Rightarrow> (uuid, pod) omap \<times> event_log_row list \<times> (uuid, node_identity) omap" where
  "core_view c = (st_pods c, st_event_log c, st_node_identities c)"

definition tool_view where
  "tool_view st = (core_view (hs_core st), hs_pod_roles st, proposals st)"

named_theorems view_frame "equations: a write that leaves the view alone"

lemma core_view_updates [view_frame]:
  "core_view (c\<lparr>st_known_pod_announcements := a\<rparr>) = core_view c"
  "core_view (c\<lparr>st_known_pod_withdrawals := w\<rparr>) = core_view c"
  "core_view (c\<lparr>st_discovery_peer_service := s\<rparr>) = core_view c"
  "core_view (c\<lparr>st_discovery_peer_stream_entries := e\<rparr>) = core_view c"
  "core_view (c\<lparr>st_pod_skill_packs := p\<rparr>) = core_view c"
  by (simp_all add: core_view_def)

lemma core_view_project [view_frame]:
  "core_view (maybe_project_peer_serving_announcement x a now c) = core_view c"
  by (simp add: maybe_project_peer_serving_announcement_def project_peer_serving_announcement_def
      append_peer_stream_entry_def ensure_discovery_peer_service_def prune_peer_stream_entries_def
      view_frame Let_def split: prod.splits)

lemma core_view_retain [view_frame]:
  "core_view (fst (retain_verified_pod_announcement x a provenance now c)) = core_view c"
  by (simp add: retain_verified_pod_announcement_def view_frame Let_def split: sum.splits option.splits)

lemma core_view_withdraw_new [view_frame]:
  "core_view (fst (retain_new_withdrawal key announced w peer now c)) = core_view c"
  by (simp add: retain_new_withdrawal_def view_frame Let_def split: option.splits)

lemma core_view_retain_withdrawal [view_frame]:
  "core_view (fst (retain_verified_pod_withdrawal x w peer now c)) = core_view c"
  by (simp add: retain_verified_pod_withdrawal_def view_frame Let_def split: option.splits)

text \<open>A result whose store has the same view, through the branches of a case analysis.\<close>

definition leaves_core :: "store \<Rightarrow> store \<times> 'r \<Rightarrow> bool" where
  "leaves_core c m \<longleftrightarrow> core_view (fst m) = core_view c"

lemma leaves_core_cases:
  "leaves_core c (c, r)"
  "leaves_core c m \<Longrightarrow> leaves_core c n \<Longrightarrow> leaves_core c (if b then m else n)"
  "leaves_core c m \<Longrightarrow> (\<And>a. leaves_core c (f a)) \<Longrightarrow> leaves_core c (case v of None \<Rightarrow> m | Some a \<Rightarrow> f a)"
  "(\<And>e. leaves_core c (g e)) \<Longrightarrow> (\<And>a. leaves_core c (f' a)) \<Longrightarrow>
     leaves_core c (case w of Inl e \<Rightarrow> g e | Inr a \<Rightarrow> f' a)"
  by (simp_all add: leaves_core_def split: option.split sum.split)

lemma leaves_core_bind:
  "leaves_core c k \<Longrightarrow>
     leaves_core c (case k of (c', Inl e) \<Rightarrow> (c', g e) | (c', Inr a) \<Rightarrow> (c', h a))"
  by (auto simp: leaves_core_def split: prod.splits sum.splits)

lemma leaves_core_retained:
  "leaves_core c (retain_verified_pod_announcement x a provenance now c)"
  "leaves_core c (retain_verified_pod_withdrawal x w peer now c)"
  by (simp_all add: leaves_core_def view_frame)

lemma leaves_core_issue: "leaves_core c (issue_and_retain_origin_pod_announcement x i node pod url now c)"
  unfolding issue_and_retain_origin_pod_announcement_def
  by (intro leaves_core_cases leaves_core_bind leaves_core_retained)

lemma leaves_core_issue_withdrawal: "leaves_core c (issue_origin_pod_withdrawal x i node slug url now c)"
  unfolding issue_origin_pod_withdrawal_def Let_def
  by (intro leaves_core_cases leaves_core_bind leaves_core_retained)

lemma leaves_core_refresh:
  "leaves_core c (refresh_public_pod_announcement_if_needed x uuid_text new_id pod_id now c)"
  unfolding refresh_public_pod_announcement_if_needed_def Let_def
  by (intro leaves_core_cases leaves_core_bind leaves_core_issue)

lemma core_view_issued [view_frame]:
  "core_view (fst (issue_and_retain_origin_pod_announcement x i node pod url now c)) = core_view c"
  "core_view (fst (issue_origin_pod_withdrawal x i node slug purl now c)) = core_view c"
  "core_view (fst (refresh_public_pod_announcement_if_needed x uuid_text new_id pod_id now c)) = core_view c"
  using leaves_core_issue leaves_core_issue_withdrawal leaves_core_refresh by (simp_all add: leaves_core_def)

lemma tool_view_core: "core_view c = core_view (hs_core st) \<Longrightarrow> tool_view (set_core c st) = tool_view st"
  by (simp add: tool_view_def set_core_def)

lemma tool_view_on_core:
  assumes "\<And>c. core_view (fst (f c)) = core_view c"
  shows "tool_view (fst (on_core f st)) = tool_view st"
proof -
  obtain c r where c: "f (hs_core st) = (c, r)" by fastforce
  then have "core_view c = core_view (hs_core st)" using assms[of "hs_core st"] by simp
  then show ?thesis by (simp add: on_core_def c tool_view_core)
qed

lemma tool_view_writes [view_frame]:
  "tool_view (put_skill_pack pod_id package st) = tool_view st"
  "tool_view (put_policy key policy st) = tool_view st"
  "tool_view (put_peer peer_id peer st) = tool_view st"
  "tool_view (put_curation_policy pod_id cp st) = tool_view st"
  "tool_view (record_harness_write_at ctx op target now i st) = tool_view st"
  "tool_view (set_pod_store (unlink_submission pod_id s) st) = tool_view st"
  "tool_view (set_pod_store (reverse_first_placement env ctx pod_id s t) st) = tool_view st"
  "tool_view (set_pod_store (tombstone_placement s pod_id tombstone) st) = tool_view st"
  by (simp_all add: tool_view_def core_view_def put_skill_pack_def set_skill_packs_def put_policy_def put_peer_def
      put_curation_policy_def record_harness_write_at_def set_pod_store_def unlink_submission_def
      reverse_first_placement_def tombstone_placement_def Let_def split: option.splits)

lemma tool_view_updates [view_frame]:
  "store_result (insert_pod_package_version env package st) = Inr st' \<Longrightarrow> tool_view st' = tool_view st"
  "apply_expand_grant env ctx h caps pods st = Inr st' \<Longrightarrow> tool_view st' = tool_view st"
  "apply_add_peer d0 ctx n name url key st = Inr st' \<Longrightarrow> tool_view st' = tool_view st"
  "apply_remove_peer env ctx peer st = Inr st' \<Longrightarrow> tool_view st' = tool_view st"
  "apply_change_trust_policy env ctx h change st = Inr st' \<Longrightarrow> tool_view st' = tool_view st"
  "apply_autonomous_curation env ctx pod threshold st = Inr st' \<Longrightarrow> tool_view st' = tool_view st"
proof -
  show "store_result (insert_pod_package_version env package st) = Inr st' \<Longrightarrow> tool_view st' = tool_view st"
    by (auto simp: insert_pod_package_version_def tool_view_def Let_def split: sum.splits if_splits)
  show "apply_expand_grant env ctx h caps pods st = Inr st' \<Longrightarrow> tool_view st' = tool_view st"
    by (auto simp: apply_expand_grant_def tool_view_def Let_def)
qed (auto simp: apply_add_peer_def apply_remove_peer_def apply_change_trust_policy_def apply_autonomous_curation_def
    view_frame Let_def)

lemma push_event_latest [simp]: "latest_event_hash (hs_core (put_skill_pack p k st)) slug = latest_event_hash (hs_core st) slug"
  by (simp add: latest_event_hash_def put_skill_pack_def set_skill_packs_def Let_def)

lemma store_revision_failed: "store_revision env drawn node ty pod_id slug package st = (st', Inl e) \<Longrightarrow> st' = st"
  by (cases "event_for env drawn node ty slug (json_package_only package) st";
      cases "insert_pod_package_version env package st")
    (simp_all add: store_revision_def bind_tool_def reads_def updates_def writes_def store_result_def)

lemma store_revision_done:
  "store_revision env drawn node ty pod_id slug package st = (st', Inr u) \<Longrightarrow>
     \<exists>e s. event_for env drawn node ty slug (json_package_only package) st = Inr e \<and>
       insert_pod_package_version env package st = Inr s \<and> st' = push_event e (put_skill_pack pod_id package s)"
  by (simp add: store_revision_def bind_Inr)

lemma event_for_signed:
  "event_for env drawn node ty slug payload st = Inr e \<Longrightarrow>
     sign_public_event env drawn node ty slug payload (latest_event_hash (hs_core st) slug) = Inr e"
  by (simp add: event_for_def split: sum.splits)

lemma bind_reads: "bind_tool (reads f) g st = (case f st of Inl e \<Rightarrow> (st, Inl e) | Inr a \<Rightarrow> g a st)"
  by (simp add: bind_tool_def reads_def)

lemma bind_require: "bind_tool (require_that P e) g st = (if P st then g () st else (st, Inl e))"
  by (simp add: bind_tool_def require_that_def)

lemma bind_writes: "bind_tool (writes f) g st = g () (f st)"
  by (simp add: bind_tool_def writes_def)

lemma bind_staged:
  "m st = (s, Inr a) \<Longrightarrow> bind_tool (staged m) g st = g a s"
  "m st = (s, Inl e) \<Longrightarrow> bind_tool (staged m) g st = (st, Inl e)"
  by (simp_all add: bind_tool_def staged_def)

lemma persistence_reload: "persistence_ok env \<Longrightarrow> reload_holds env J"
  by (auto simp: persistence_ok_def reload_holds_def split: option.splits)

lemma keeps_at: "keeps I m \<Longrightarrow> I st \<Longrightarrow> I (fst (m st))"
  by (simp add: keeps_def)

lemma keeps_reading:
  "(\<And>st a. f st = Inr a \<Longrightarrow> I st \<Longrightarrow> I (fst (g a st))) \<Longrightarrow> keeps I (bind_tool (reads f) g)"
  by (simp add: keeps_def bind_reads split: sum.split)

section \<open>The laws\<close>

locale pod_laws = audit_invariant I for I :: "home_store \<Rightarrow> bool" +
  fixes env :: tools_env
    and new_pod_ok :: "pod \<Rightarrow> bool"
  assumes inv_view: "tool_view st' = tool_view st \<Longrightarrow> I st \<Longrightarrow> I st'"
    and inv_event: "I s \<Longrightarrow> tenant_node env ctx s = Inr node \<Longrightarrow> I st \<Longrightarrow>
          log_event env drawn node ty slug payload st = Inr st' \<Longrightarrow> I st'"
    and inv_add: "new_pod_ok pod \<Longrightarrow> I st \<Longrightarrow> I (add_pod pod st)"
    and inv_purge: "I st \<Longrightarrow> I (purge_pod pod_id st)"
begin

definition local_node :: "node_identity \<Rightarrow> bool" where
  "local_node node \<longleftrightarrow> (\<exists>s ctx. I s \<and> tenant_node env ctx s = Inr node)"

lemma keeps_node:
  "(\<And>node. local_node node \<Longrightarrow> keeps I (f node)) \<Longrightarrow> keeps I (bind_tool (reads (tenant_node env ctx)) f)"
  by (rule keeps_bindI[OF keeps_reads]) (auto simp: local_node_def keeps_def)

lemma keeps_view_writes: "(\<And>st. tool_view (f st) = tool_view st) \<Longrightarrow> keeps I (writes f)"
  by (rule keeps_writes) (blast intro: inv_view)

lemma keeps_view_updates: "(\<And>st st'. f st = Inr st' \<Longrightarrow> tool_view st' = tool_view st) \<Longrightarrow> keeps I (updates f)"
  by (rule keeps_updates) (blast intro: inv_view)

lemma keeps_view_core: "(\<And>c. core_view (fst (f c)) = core_view c) \<Longrightarrow> keeps I (on_core f)"
  unfolding keeps_def using inv_view tool_view_on_core by blast

lemma keeps_event: "local_node node \<Longrightarrow> keeps I (updates (log_event env drawn node ty slug payload))"
  by (rule keeps_updates) (auto simp: local_node_def intro: inv_event)

lemma keeps_audit: "keeps I (writes (record_harness_write_at ctx operation target now i))"
  by (rule keeps_record)

lemma keeps_create_staged:
  assumes "\<And>owner node. new_pod_ok (new_pod (d 0) ctx (cl_pod request) owner node)"
  shows "keeps I (stage_pod_lifecycle env d ctx request proposer mode)"
  unfolding stage_pod_lifecycle_def Let_def
  by (intro keep_rules keeps_node keeps_event keeps_audit keeps_view_writes keeps_view_updates
      keeps_writes[of I "add_pod p" for p] inv_add assms)
    (simp_all add: view_frame)

lemma keeps_create:
  assumes "\<And>owner node. new_pod_ok (new_pod (d 0) ctx (cl_pod request) owner node)"
  shows "keeps I (create_pod_lifecycle_locked env d ctx request proposer mode)"
  unfolding create_pod_lifecycle_locked_def by (intro keep_rules keeps_create_staged assms)

lemma keeps_publish_events: "keeps I (publish_pod_events env d ctx pod_id pod)"
  unfolding publish_pod_events_def by (intro keeps_node keep_rules keeps_event)

lemma keeps_emit: "local_node node \<Longrightarrow> keeps I (emit_placements env d node slug i placements)"
  by (induction placements arbitrary: i) (auto intro!: keep_rules keeps_event)

lemma keeps_refresh: "keeps I (refresh_announcement env new_id pod_id now)"
  unfolding refresh_announcement_def by (intro keep_rules keeps_view_core view_frame)

text \<open>A revision is signed before the version is stored and logged after: the log is unchanged between.\<close>

lemma keeps_revision:
  assumes "local_node node"
  shows "keeps I (store_revision env drawn node ty pod_id slug package)"
  unfolding keeps_def
proof (intro allI impI)
  fix st assume st: "I st"
  obtain st' r where run: "store_revision env drawn node ty pod_id slug package st = (st', r)" by fastforce
  show "I (fst (store_revision env drawn node ty pod_id slug package st))"
  proof (cases r)
    case (Inl e)
    then have "st' = st" using run by (simp add: store_revision_failed)
    then show ?thesis using st run by simp
  next
    case (Inr u)
    then obtain e s where e: "event_for env drawn node ty slug (json_package_only package) st = Inr e"
      and s: "insert_pod_package_version env package st = Inr s"
      and st': "st' = push_event e (put_skill_pack pod_id package s)"
      using store_revision_done[of env drawn node ty pod_id slug package st st' u] run by blast
    have v: "tool_view s = tool_view st" by (rule tool_view_updates(1)[of env package]) (simp add: s)
    then have log: "latest_event_hash (hs_core s) slug = latest_event_hash (hs_core st) slug"
      by (simp add: tool_view_def core_view_def latest_event_hash_def)
    have logged: "log_event env drawn node ty slug (json_package_only package) (put_skill_pack pod_id package s) = Inr st'"
      using event_for_signed[OF e] by (simp add: log_event_def log st')
    have kept: "I (put_skill_pack pod_id package s)"
      using inv_view[OF _ st] v by (simp add: view_frame)
    obtain s0 ctx where "I s0" "tenant_node env ctx s0 = Inr node"
      using assms by (auto simp: local_node_def)
    from inv_event[OF this kept logged] show ?thesis using run by simp
  qed
qed

lemma keeps_revise: "keeps I (apply_revise_package env d ctx proposer pod_id base patch)"
  unfolding apply_revise_package_def Let_def
  by (intro keep_rules keeps_node keeps_revision keeps_refresh)

lemma keeps_withdraw_placement:
  "local_node node \<Longrightarrow> keeps I (withdraw_placement env drawn node slug pod_id s t origin)"
  unfolding withdraw_placement_def Let_def
  by (intro keep_rules keeps_view_writes keeps_event view_frame)

lemma keeps_remove_submission: "keeps I (apply_remove_submission env d ctx pod_id s)"
proof -
  have "keeps I (bind_tool (reads (tenant_pod env ctx pod_id)) f)" if "\<And>pod. keeps I (f pod)" for f
    using that by (intro keep_rules)
  then show ?thesis
    unfolding apply_remove_submission_def Let_def
    by (intro keeps_node keep_rules keeps_view_writes keeps_withdraw_placement keeps_refresh view_frame)
qed

lemma keeps_withdraw_pod: "keeps I (withdraw_if_public env d ctx pod pod_id node now)"
  unfolding withdraw_if_public_def by (intro keep_rules keeps_view_core keeps_audit view_frame)

lemma keeps_delete: "keeps I (delete_owned_pod_locked env d ctx pod_id now)"
  unfolding delete_owned_pod_locked_def
  by (intro keep_rules keeps_withdraw_pod keeps_audit keeps_writes[of I "purge_pod p" for p] inv_purge)

end

text \<open>The handlers that persist what they did.\<close>

locale persisting_laws = pod_laws + store_invariant I env
begin

lemma keeps_create_immediately:
  assumes "\<And>owner node. new_pod_ok (new_pod (d 0) ctx (cl_pod request) owner node)"
  shows "keeps I (create_pod_lifecycle_immediately env d ctx request mode)"
  unfolding create_pod_lifecycle_immediately_def
  by (intro keep_rules keeps_create_staged keeps_persist assms)

lemma keeps_delete_immediately: "keeps I (delete_pod_immediately env d ctx pod_id now)"
  unfolding delete_pod_immediately_def by (intro keep_rules keeps_delete keeps_persist)

end

text \<open>An invariant that also survives a change of visibility.\<close>

locale visible_laws = pod_laws +
  assumes inv_visibility: "om_get (st_pods (hs_core st)) pod_id = Some pod \<Longrightarrow> I st \<Longrightarrow>
    I (with_visibility pod_id visibility pod st)"
begin

lemma keeps_publish: "keeps I (apply_publish_pod env d ctx pod_id)"
  unfolding apply_publish_pod_def
proof (rule keeps_reading)
  fix st pod
  assume "tenant_pod env ctx pod_id st = Inr pod" "I st"
  then have "I (with_visibility pod_id Public pod st)"
    by (intro inv_visibility) (auto simp: tenant_pod_def stored_pod_def)
  moreover have "keeps I (bind_tool (publish_pod_events env d ctx pod_id p) (\<lambda>_. ret ()))" for p
    by (intro keep_rules keeps_publish_events)
  ultimately show "I (fst (bind_tool (require_that (\<lambda>_. pd_visibility pod \<noteq> Public) (invalid ''Pod is already public''))
      (\<lambda>_. bind_tool (writes (with_visibility pod_id Public pod)) (\<lambda>_.
        bind_tool (publish_pod_events env d ctx pod_id (pod\<lparr>pd_visibility := Public\<rparr>)) (\<lambda>_. ret ()))) st))"
    using \<open>I st\<close> by (simp add: bind_require bind_writes keeps_at)
qed

lemma keeps_publish_all:
  "keeps I (bind_tool (publish_pod_events env d ctx pod_id pod)
     (\<lambda>node. bind_tool (gets f) (\<lambda>placements. emit_placements env d node slug i placements)))"
proof (rule keeps_bindI[OF keeps_publish_events])
  fix st st' node
  assume "I st" and run: "publish_pod_events env d ctx pod_id pod st = (st', Inr node)"
  then have "I st'" using keepsD[OF keeps_publish_events] by blast
  moreover have "tenant_node env ctx st = Inr node"
    using run by (auto simp: publish_pod_events_def bind_Inr)
  then have "local_node node" using \<open>I st\<close> unfolding local_node_def by blast
  ultimately show "I (fst (bind_tool (gets f) (\<lambda>placements. emit_placements env d node slug i placements) st'))"
    by (rule keeps_at[OF keeps_bind[OF keeps_gets keeps_emit], rotated])
qed

lemma keeps_expand: "keeps I (apply_expand_pod_visibility env d ctx pod_id visibility)"
  unfolding apply_expand_pod_visibility_def
proof (rule keeps_reading)
  fix st pod
  assume "stored_pod ''pod '' env pod_id st = Inr pod" "I st"
  then have "I (with_visibility pod_id visibility pod st)"
    by (intro inv_visibility) (auto simp: stored_pod_def)
  then show "I (fst (bind_tool (reads (\<lambda>_. in_tenant ctx (pd_tenant_id pod))) (\<lambda>_.
      bind_tool (require_that (\<lambda>_. visibility_exposure (pd_visibility pod) < visibility_exposure visibility)
        (AT_Store (Validation ''approved visibility must expand exposure''))) (\<lambda>_.
      bind_tool (writes (with_visibility pod_id visibility pod)) (\<lambda>_.
      if visibility \<noteq> Public then ret ()
      else bind_tool (publish_pod_events env d ctx pod_id (pod\<lparr>pd_visibility := visibility\<rparr>)) (\<lambda>node.
           bind_tool (gets (placements_of_pod env pod_id)) (\<lambda>placements.
           emit_placements env d node (pd_slug pod) 1 placements))))) st))"
    using \<open>I st\<close> keeps_at[OF keeps_publish_all, where st = "with_visibility pod_id visibility pod st"]
    by (cases "visibility = Public") (simp_all add: bind_reads bind_require bind_writes ret_def split: sum.split)
qed

lemma keeps_apply:
  assumes "\<And>request owner node. new_pod_ok (new_pod (d 0) ctx request owner node)"
    and "\<And>pod user role. change = SC_GrantPodRole pod user role \<Longrightarrow>
      keeps I (writes (\<lambda>st. st\<lparr>hs_pod_roles := granted_roles pod user role (snd (d 0)) (hs_pod_roles st)\<rparr>))"
    and "\<And>pod user role. change = SC_RevokePodRole pod user role \<Longrightarrow>
      keeps I (updates (apply_revoke_role env pod user role))"
  shows "keeps I (apply_sensitive_change env d ctx proposer change)"
proof (cases change)
  case (SC_GrantPodRole pod user role)
  then show ?thesis using assms(2) by simp
next
  case (SC_RevokePodRole pod user role)
  then show ?thesis using assms(3) by simp
qed (simp_all add: without_result_def, (intro keep_rules keeps_create assms(1) keeps_publish keeps_expand
    keeps_revise keeps_remove_submission keeps_delete keeps_view_updates; (erule view_frame)?)+)

end

end
