(* ===== verification/Approval_Props.thy ===== *)
theory Approval_Props
  imports Tool_Laws
begin

text \<open>
  What the approval of sensitive changes guarantees: who decides, that a decision is taken once, that
  an approval that fails applies nothing; and, with approved expansions of grants in view, what a
  bearer token gives.
\<close>

section \<open>Applying a change leaves the proposals alone\<close>

lemma tool_view_eqs:
  "tool_view st' = tool_view st \<longleftrightarrow>
     st_pods (hs_core st') = st_pods (hs_core st) \<and> st_event_log (hs_core st') = st_event_log (hs_core st) \<and>
     st_node_identities (hs_core st') = st_node_identities (hs_core st) \<and>
     hs_pod_roles st' = hs_pod_roles st \<and> proposals st' = proposals st"
  by (simp add: tool_view_def core_view_def)

lemma proposals_drop [simp]:
  "pst_pending_proposals (fold drop_unused_submission ss p) = pst_pending_proposals p"
  by (induction ss arbitrary: p) (simp_all add: drop_unused_submission_def drop_submission_def)

lemma proposals_writes [simp]:
  "proposals (add_pod pod st) = proposals st"
  "proposals (with_visibility pod_id visibility pod st) = proposals st"
  "proposals (purge_pod pod_id st) = proposals st"
  by (simp_all add: set_pods_def set_skill_packs_def add_pod_def with_visibility_def purge_pod_def
      drop_pod_records_def drop_pod_content_def Let_def split: option.splits)

interpretation proposals_kept: visible_laws "\<lambda>st. proposals st = P" env "\<lambda>_. True"
  for P env
  by unfold_locales (auto simp: tool_view_eqs elim: log_eventE)

lemma apply_leaves_proposals:
  assumes "apply_sensitive_change env d ctx proposer change st = (st', r)"
  shows "proposals st' = proposals st"
proof -
  have "keeps (\<lambda>s. proposals s = proposals st) (apply_sensitive_change env d ctx proposer change)"
    by (rule proposals_kept.keeps_apply)
      (auto intro!: keeps_writes keeps_updates simp: apply_revoke_role_def Let_def)
  from keepsD[OF this assms] show ?thesis by blast
qed

section \<open>The course of a decision\<close>

definition with_proposal :: "uuid \<Rightarrow> pending_proposal \<Rightarrow> home_store \<Rightarrow> home_store" where
  "with_proposal i p st =
     (let q = hs_pods st in st\<lparr>hs_pods := q\<lparr>pst_pending_proposals := om_put i p (pst_pending_proposals q)\<rparr>\<rparr>)"

lemma with_proposal_frame [simp]:
  "proposals (with_proposal i p st) = om_put i p (proposals st)"
  "hs_core (with_proposal i p st) = hs_core st"
  "hs_pod_roles (with_proposal i p st) = hs_pod_roles st"
  "hs_agent_harnesses (with_proposal i p st) = hs_agent_harnesses st"
  "hs_users (with_proposal i p st) = hs_users st"
  by (simp_all add: with_proposal_def Let_def)

lemma expire_proposal_eq:
  "expire_proposal env i now st =
     (case om_get (proposals st) i of
        None \<Rightarrow> Inl (AT_Store (NotFound (''Pending Proposal '' @ te_uuid_str env i)))
      | Some p \<Rightarrow> Inr (with_proposal i (expired_proposal now p) st))"
  by (simp add: expire_proposal_def stored_proposal_def ok_or_def and_then_def with_proposal_def Let_def
      split: option.splits)

lemma persist_ok: "persistence_ok env \<Longrightarrow> persist env a st = (st, Inr a)"
  by (simp add: persist_def)

lemma expired_pending [simp]: "pr_status (expired_proposal now p) = PR_Pending \<longleftrightarrow> pr_status p = PR_Pending \<and> now < pr_expires_at p"
  by (auto simp: expired_proposal_def)

lemma expired_live: "pr_status p = PR_Pending \<Longrightarrow> now < pr_expires_at p \<Longrightarrow> expired_proposal now p = p"
  by (simp add: expired_proposal_def)

lemma live_proposal_eq:
  assumes "persistence_ok env"
  shows "live_proposal env i now st =
     (case om_get (proposals st) i of
        None \<Rightarrow> (st, Inl (AT_Store (NotFound (''Pending Proposal '' @ te_uuid_str env i))))
      | Some p \<Rightarrow> (with_proposal i (expired_proposal now p) st,
          if pr_status p = PR_Pending \<and> now < pr_expires_at p then Inr p else Inl terminal_proposal))"
  by (auto simp: live_proposal_def bind_tool_def updates_def expire_proposal_eq reads_def stored_proposal_def
      ok_or_def ret_def failing_def expired_live persist_ok[OF assms] split: option.splits)

lemma decide_eq:
  assumes "persistence_ok env" and "om_get (proposals st) i = Some p"
  shows "decide env i f st = (with_proposal i (f p) st, Inr (f p))"
  using assms(2)
  by (simp add: persist_ok[OF assms(1)] decide_def bind_tool_def reads_def stored_proposal_def ok_or_def writes_def set_pod_store_def
      with_proposal_def Let_def)

text \<open>Who may decide a proposal, and as whom the decision is recorded.\<close>

definition may_decide :: "home_store \<Rightarrow> auth_context \<Rightarrow> pending_proposal \<Rightarrow> proposal_decision_actor \<Rightarrow> bool" where
  "may_decide st ctx p actor \<longleftrightarrow>
     (case ctx_harness_id ctx of
        None \<Rightarrow> ctx_user_id ctx = Some (pr_user_id p) \<and> ctx_tenant_id ctx = pr_tenant_id p \<and>
                actor = DA_Owner (pr_user_id p)
      | Some h \<Rightarrow>
          (\<exists>harness. om_get (hs_agent_harnesses st) h = Some harness \<and> ah_revoked_at harness = None \<and>
             ah_kind harness = Interactive \<and> Cap_Approval \<in> set (hg_capabilities (ah_grant harness)) \<and>
             ah_user_id harness = pr_user_id p \<and> ah_tenant_id harness = pr_tenant_id p \<and>
             ah_id harness \<noteq> pr_proposer p \<and> approval_scope_allows harness p \<and>
             actor = DA_Harness (ah_id harness)))"

lemma approver_may_decide:
  "authorize_independent_approver env ctx i st = Inr actor \<longleftrightarrow>
     (\<exists>p. om_get (proposals st) i = Some p \<and> may_decide st ctx p actor \<and>
        (\<exists>h. harness_for_context st ctx = Inr h))"
proof (cases "harness_for_context st ctx")
  case (Inr h)
  then show ?thesis
    by (cases h)
      (auto simp: authorize_independent_approver_def stored_proposal_def may_decide_def authorize_harness_def
        harness_for_context_def split: option.splits if_splits)
qed (simp add: authorize_independent_approver_def)

text \<open>An approval fails and changes nothing but an expiry, or applies and records the decision.\<close>

lemma approve_live_eq:
  assumes ok: "persistence_ok env" and auth: "authorize_independent_approver env ctx i st = Inr actor"
    and p: "om_get (proposals st) i = Some p" and live: "pr_status p = PR_Pending" "now < pr_expires_at p"
  shows "approve_pending_proposal env d ctx i now st =
     (case validate_structured_diff env p (with_proposal i p st) of
        Inl e \<Rightarrow> (with_proposal i p st, Inl e)
      | Inr _ \<Rightarrow>
          (case apply_sensitive_change env d ctx (pr_proposer p) (pr_requested_change p) (with_proposal i p st) of
             (s, Inl e) \<Rightarrow> (with_proposal i p st, Inl e)
           | (s, Inr _) \<Rightarrow> (with_proposal i (accepted_by actor now p) s, Inr (accepted_by actor now p))))"
proof -
  obtain s u where a: "apply_sensitive_change env d ctx (pr_proposer p) (pr_requested_change p)
      (with_proposal i p st) = (s, u)" by fastforce
  have "om_get (proposals s) i = Some p" using apply_leaves_proposals[OF a] by simp
  note dec = decide_eq[OF ok this]
  have l: "live_proposal env i now st = (with_proposal i p st, Inr p)"
    by (simp add: live_proposal_eq[OF ok] p live expired_live)
  show ?thesis
    by (simp add: approve_pending_proposal_def bind_tool_def reads_def auth l staged_def a dec split: sum.split)
qed

lemma approve_dead_eq:
  assumes ok: "persistence_ok env" and auth: "authorize_independent_approver env ctx i st = Inr actor"
    and p: "om_get (proposals st) i = Some p" and dead: "\<not> (pr_status p = PR_Pending \<and> now < pr_expires_at p)"
  shows "approve_pending_proposal env d ctx i now st =
     (with_proposal i (expired_proposal now p) st, Inl terminal_proposal)"
  using dead by (auto simp: approve_pending_proposal_def bind_tool_def reads_def auth live_proposal_eq[OF ok] p)

lemma approve_refused_eq:
  "authorize_independent_approver env ctx i st = Inl e \<Longrightarrow> approve_pending_proposal env d ctx i now st = (st, Inl e)"
  by (simp add: approve_pending_proposal_def bind_tool_def reads_def)

lemma approve_cases:
  assumes ok: "persistence_ok env" and run: "approve_pending_proposal env d ctx i now st = (st', r)"
  obtains
    (refused) e where "r = Inl e" "st' = st"
  | (failed) e p where "r = Inl e" "om_get (proposals st) i = Some p"
      "st' = with_proposal i (expired_proposal now p) st"
  | (applied) p actor s where "om_get (proposals st) i = Some p" "pr_status p = PR_Pending" "now < pr_expires_at p"
      "may_decide st ctx p actor" "validate_structured_diff env p (with_proposal i p st) = Inr ()"
      "apply_sensitive_change env d ctx (pr_proposer p) (pr_requested_change p) (with_proposal i p st) = (s, Inr ())"
      "st' = with_proposal i (accepted_by actor now p) s" "r = Inr (accepted_by actor now p)"
proof (cases "authorize_independent_approver env ctx i st")
  case (Inl e)
  from approve_refused_eq[OF this] run show thesis by (intro refused) auto
next
  case auth: (Inr actor)
  obtain p where p: "om_get (proposals st) i = Some p" and m: "may_decide st ctx p actor"
    using auth by (auto simp: approver_may_decide)
  show thesis
  proof (cases "pr_status p = PR_Pending \<and> now < pr_expires_at p")
    case False
    from approve_dead_eq[OF ok auth p this] run show thesis
      by (intro failed[OF _ p]) auto
  next
    case True
    obtain s u where a: "apply_sensitive_change env d ctx (pr_proposer p) (pr_requested_change p)
        (with_proposal i p st) = (s, u)" by fastforce
    have eq: "approve_pending_proposal env d ctx i now st =
        (case validate_structured_diff env p (with_proposal i p st) of
           Inl e \<Rightarrow> (with_proposal i p st, Inl e)
         | Inr _ \<Rightarrow> (case u of Inl e \<Rightarrow> (with_proposal i p st, Inl e)
             | Inr _ \<Rightarrow> (with_proposal i (accepted_by actor now p) s, Inr (accepted_by actor now p))))"
      by (simp only: approve_live_eq[OF ok auth p conjunct1[OF True] conjunct2[OF True]] a prod.case)
    note e = expired_live[OF conjunct1[OF True] conjunct2[OF True]]
    show thesis
    proof (cases "validate_structured_diff env p (with_proposal i p st)")
      case (Inl err)
      with eq run show thesis by (intro failed[OF _ p]) (auto simp: e)
    next
      case v: (Inr w)
      show thesis
      proof (cases u)
        case (Inl err)
        with eq run v show thesis by (intro failed[OF _ p]) (auto simp: e)
      next
        case (Inr w')
        with eq run v a show thesis
          by (intro applied[OF p conjunct1[OF True] conjunct2[OF True] m]) auto
      qed
    qed
  qed
qed

section \<open>Whatever the database answers\<close>

text \<open>An answer of the database that it could not write: the store is the one it reloaded.\<close>

definition failed_write :: "tools_env \<Rightarrow> agent_tools_error \<Rightarrow> home_store \<Rightarrow> bool" where
  "failed_write env e st' \<longleftrightarrow>
     (\<exists>database st message. te_persistence env = Some database \<and> database st = Some (message, st') \<and>
        e = AT_Persistence message)"

lemma persist_Inl: "persist env a st = (st', Inl e) \<Longrightarrow> failed_write env e st'"
  by (rule persisted_cases[of env a st]) (auto simp: persist_def failed_write_def)

lemma live_proposal_Inr:
  "live_proposal env i now st = (s, Inr p) \<longleftrightarrow>
     om_get (proposals st) i = Some p \<and> pr_status p = PR_Pending \<and> now < pr_expires_at p \<and> s = with_proposal i p st"
  by (auto simp: live_proposal_def bind_Inr expire_proposal_eq stored_proposal_def expired_live split: option.splits if_splits)

lemma live_proposal_Inl:
  assumes "live_proposal env i now st = (s, Inl e)"
  obtains (missing) "s = st"
  | (terminal) p where "om_get (proposals st) i = Some p" "\<not> (pr_status p = PR_Pending \<and> now < pr_expires_at p)"
      "s = with_proposal i (expired_proposal now p) st"
  | (unwritten) "failed_write env e s"
proof (cases "om_get (proposals st) i")
  case None
  then show thesis
    using assms by (intro missing) (simp add: live_proposal_def bind_tool_def updates_def expire_proposal_eq)
next
  case (Some p)
  then have dead: "\<not> (pr_status p = PR_Pending \<and> now < pr_expires_at p)"
    using assms by (auto simp: live_proposal_def bind_tool_def updates_def expire_proposal_eq reads_def
        stored_proposal_def ok_or_def ret_def expired_live)
  then have run: "live_proposal env i now st =
      bind_tool (persist env ()) (\<lambda>_. failing terminal_proposal) (with_proposal i (expired_proposal now p) st)"
    using Some by (auto simp: live_proposal_def bind_tool_def updates_def expire_proposal_eq reads_def
        stored_proposal_def ok_or_def)
  obtain s' r where k: "persist env () (with_proposal i (expired_proposal now p) st) = (s', r)" by fastforce
  show thesis
  proof (cases r)
    case (Inl e')
    then show thesis using run assms k persist_Inl[of env] by (intro unwritten) (auto simp: bind_tool_def)
  next
    case (Inr u)
    then show thesis
      using run assms k persist_success[of env "()"] by (intro terminal[OF Some dead]) (auto simp: bind_tool_def failing_def)
  qed
qed

text \<open>A decision stores the decided proposal and attempts to persist.\<close>

lemma decide_run:
  "om_get (proposals st) i = Some p \<Longrightarrow> decide env i f st = persist env (f p) (with_proposal i (f p) st)"
  by (simp add: decide_def bind_tool_def reads_def stored_proposal_def ok_or_def writes_def set_pod_store_def
      with_proposal_def Let_def)

text \<open>An approval that fails found nothing to decide, decided nothing, or could not write.\<close>

lemma approve_failed:
  assumes run: "approve_pending_proposal env d ctx i now st = (st', Inl e)"
  obtains (refused) "st' = st"
  | (undecided) p where "om_get (proposals st) i = Some p" "st' = with_proposal i (expired_proposal now p) st"
  | (unwritten) "failed_write env e st'"
proof (cases "authorize_independent_approver env ctx i st")
  case (Inl e')
  then show thesis using run approve_refused_eq[OF Inl] by (intro refused) auto
next
  case auth: (Inr actor)
  obtain s r where l: "live_proposal env i now st = (s, r)" by fastforce
  show thesis
  proof (cases r)
    case (Inl e')
    then have "st' = s" "e = e'"
      using run l by (simp_all add: approve_pending_proposal_def bind_reads auth bind_run(2))
    with l Inl show thesis
      by (auto elim!: live_proposal_Inl intro: refused undecided unwritten)
  next
    case (Inr p)
    then have p: "om_get (proposals st) i = Some p" "pr_status p = PR_Pending" "now < pr_expires_at p"
      "s = with_proposal i p st" using l by (auto simp: live_proposal_Inr)
    then have und: "s = with_proposal i (expired_proposal now p) st" by (simp add: expired_live)
    have run': "bind_tool (reads (validate_structured_diff env p)) (\<lambda>_.
        bind_tool (staged (apply_sensitive_change env d ctx (pr_proposer p) (pr_requested_change p))) (\<lambda>_.
        decide env i (accepted_by actor now))) s = (st', Inl e)"
      using run l Inr by (simp add: approve_pending_proposal_def bind_reads[of "authorize_independent_approver env ctx i"]
          auth bind_run(1))
    obtain a u where a: "apply_sensitive_change env d ctx (pr_proposer p) (pr_requested_change p) s = (a, u)"
      by fastforce
    consider "st' = s" | "persist env (accepted_by actor now p) (with_proposal i (accepted_by actor now p) a) = (st', Inl e)"
    proof (cases u)
      case (Inl e')
      note failed = bind_staged(2)[where m = "apply_sensitive_change env d ctx (pr_proposer p) (pr_requested_change p)",
          OF a[unfolded Inl]]
      have "st' = s" using run' by (auto simp: bind_reads failed split: sum.splits)
      then show ?thesis by (rule that(1))
    next
      case (Inr w)
      have "om_get (proposals a) i = Some p" using apply_leaves_proposals[OF a] p by simp
      moreover note applied = bind_staged(1)[where m = "apply_sensitive_change env d ctx (pr_proposer p) (pr_requested_change p)",
          OF a[unfolded Inr]]
      ultimately show ?thesis
        using run' that by (auto simp: bind_reads decide_run applied split: sum.splits)
    qed
    then show thesis
      by cases (auto intro: undecided[OF p(1)] unwritten persist_Inl simp: und)
  qed
qed

section \<open>Authority of a bearer token\<close>

text \<open>
  Whatever changes the harnesses and the tokens of a node: the account operations, an approved
  expansion of a grant (when \<open>ex\<close> allows it), the deletion of a Pod, which takes the Pod out of the
  grants; and anything that writes neither.
\<close>

inductive authority_step :: "tools_env \<Rightarrow> bool \<Rightarrow> home_store \<Rightarrow> home_store \<Rightarrow> bool" for env ex where
  step_account: "account_step env st st' \<Longrightarrow> authority_step env ex st st'"
| step_expand: "ex \<Longrightarrow> apply_expand_grant env ctx h capabilities pod_ids st = Inr st' \<Longrightarrow> authority_step env ex st st'"
| step_purge: "authority_step env ex st (purge_pod pod_id st)"
| step_other: "hs_agent_harnesses st' = hs_agent_harnesses st \<Longrightarrow> hs_api_tokens st' = hs_api_tokens st \<Longrightarrow>
     authority_step env ex st st'"

lemma purge_harnesses:
  "hs_agent_harnesses (purge_pod pod_id st) = om_map_where (\<lambda>_. True) (without_pod pod_id) (hs_agent_harnesses st)"
  "hs_api_tokens (purge_pod pod_id st) = hs_api_tokens st"
  by (simp_all add: purge_pod_def set_pods_def set_skill_packs_def Let_def)

text \<open>A change of the harnesses that keeps whose they are.\<close>

lemma accounts_ok_owned:
  assumes ok: "accounts_ok ex st" and toks: "hs_api_tokens st' = hs_api_tokens st"
    and keep: "\<And>h. map_option (\<lambda>hs. (ah_id hs, ah_user_id hs, ah_tenant_id hs)) (om_get (hs_agent_harnesses st') h) =
      map_option (\<lambda>hs. (ah_id hs, ah_user_id hs, ah_tenant_id hs)) (om_get (hs_agent_harnesses st) h)"
    and allowed: "\<And>h hs. om_get (hs_agent_harnesses st') h = Some hs \<Longrightarrow> ex \<or> grant_allowed hs"
  shows "accounts_ok ex st'"
proof -
  have was: "\<exists>hs. om_get (hs_agent_harnesses st) h = Some hs \<and> ah_id hs = ah_id hs' \<and>
      ah_user_id hs = ah_user_id hs' \<and> ah_tenant_id hs = ah_tenant_id hs'"
    if "om_get (hs_agent_harnesses st') h = Some hs'" for h hs'
    using keep[of h] that by (cases "om_get (hs_agent_harnesses st) h") simp_all
  have forth: "\<exists>hs'. om_get (hs_agent_harnesses st') h = Some hs' \<and>
      ah_user_id hs' = ah_user_id hs \<and> ah_tenant_id hs' = ah_tenant_id hs"
    if "om_get (hs_agent_harnesses st) h = Some hs" for h hs
    using keep[of h] that by (cases "om_get (hs_agent_harnesses st') h") simp_all
  have "\<exists>h hs. tk_harness_id t = Some h \<and> om_get (hs_agent_harnesses st') h = Some hs \<and>
      tk_user_id t = ah_user_id hs \<and> tk_tenant_id t = ah_tenant_id hs"
    if tok: "om_get (hs_api_tokens st') k = Some t" for k t
  proof -
    obtain h hs where h: "tk_harness_id t = Some h" "om_get (hs_agent_harnesses st) h = Some hs"
      "tk_user_id t = ah_user_id hs" "tk_tenant_id t = ah_tenant_id hs"
      using ok[unfolded accounts_ok_def, THEN conjunct1, rule_format, OF tok[unfolded toks]] by blast
    obtain hs' where hs': "om_get (hs_agent_harnesses st') h = Some hs'" "ah_user_id hs' = ah_user_id hs"
      "ah_tenant_id hs' = ah_tenant_id hs" using forth[OF h(2)] by blast
    show ?thesis by (intro exI[of _ h] exI[of _ hs']) (simp add: h hs')
  qed
  moreover have "ah_id hs' = h \<and> (ex \<or> grant_allowed hs')" if got: "om_get (hs_agent_harnesses st') h = Some hs'" for h hs'
  proof -
    obtain hs where hs: "om_get (hs_agent_harnesses st) h = Some hs" "ah_id hs = ah_id hs'" using was[OF got] by blast
    then have "ah_id hs = h" using ok unfolding accounts_ok_def by blast
    then show ?thesis using hs(2) allowed[OF got] by simp
  qed
  ultimately show ?thesis unfolding accounts_ok_def by blast
qed

lemma accounts_ok_authority:
  assumes "authority_step env ex st st'" "persistence_ok env" "accounts_ok ex st"
  shows "accounts_ok ex st'"
  using assms(1)
proof cases
  case step_account
  then show ?thesis using accounts_ok_step assms(2,3) by blast
next
  case (step_expand ctx h capabilities pod_ids)
  then show ?thesis
    by (intro accounts_ok_owned[OF assms(3)])
      (auto simp: apply_expand_grant_def and_then_def checked_def ok_or_def Let_def split: option.splits if_splits)
next
  case (step_purge pod_id)
  have "ex \<or> grant_allowed hs" if "om_get (hs_agent_harnesses st) h = Some hs" for h hs
    using assms(3) that unfolding accounts_ok_def by blast
  then show ?thesis
    unfolding step_purge
    by (intro accounts_ok_owned[OF assms(3)])
      (auto simp: purge_harnesses om_get_map_where without_pod_def grant_allowed_def option.map_comp comp_def)
next
  case step_other
  then show ?thesis using assms(3) accounts_ok_same by blast
qed

inductive authority_reachable :: "tools_env \<Rightarrow> bool \<Rightarrow> home_store \<Rightarrow> bool" for env ex where
  authority_start: "hs_api_tokens st = [] \<Longrightarrow> hs_agent_harnesses st = [] \<Longrightarrow> authority_reachable env ex st"
| authority_next: "authority_reachable env ex st \<Longrightarrow> authority_step env ex st st' \<Longrightarrow> authority_reachable env ex st'"

lemma authority_reachable_ok:
  "authority_reachable env ex st \<Longrightarrow> persistence_ok env \<Longrightarrow> accounts_ok ex st"
proof (induction rule: authority_reachable.induct)
  case (authority_start st)
  then show ?case by (simp add: accounts_ok_def)
next
  case (authority_next st st')
  then show ?case using accounts_ok_authority by blast
qed

lemma authority_steps_ok:
  "(authority_step env ex)\<^sup>*\<^sup>* st st' \<Longrightarrow> persistence_ok env \<Longrightarrow> accounts_ok ex st \<Longrightarrow> accounts_ok ex st'"
  by (induction rule: rtranclp_induct) (auto intro: accounts_ok_authority)

text \<open>C31: A bearer token acts within its harness's grant, while the database accepts every write.
  Whatever happens after a bearer token was accepted (account operations, approved expansions of
  grants, deletions of Pods, and anything that writes neither harnesses nor tokens), a tool that accepts
  the token's context acts within the grant of a harness that is in the store and not revoked: the
  capability is granted, the Pod is covered, the User and tenant are the harness's own; a token never
  gives the owner's unrestricted authority. Unless an approved expansion changed a grant, administration
  and approval are only ever used by an interactive harness that has nothing else.\<close>

theorem bearer_acts_within_grant:
  assumes "persistence_ok env" and "authority_reachable env ex st"
    and "authenticate_token env now token st = (st1, Inr (Some ctx))"
    and "(authority_step env ex)\<^sup>*\<^sup>* st1 st2"
    and "authorize_harness env st2 ctx capability pod = Inr ()"
  shows "\<exists>h hs. ctx_harness_id ctx = Some h \<and> om_get (hs_agent_harnesses st2) h = Some hs \<and>
    ah_revoked_at hs = None \<and> capability \<in> set (hg_capabilities (ah_grant hs)) \<and>
    (\<forall>p \<in> set_option pod. grant_covers_pod (ah_grant hs) p) \<and>
    ctx_user_id ctx = Some (ah_user_id hs) \<and> ctx_tenant_id ctx = ah_tenant_id hs \<and>
    (\<not> ex \<longrightarrow> privileged capability \<longrightarrow>
       ah_kind hs = Interactive \<and> hg_capabilities (ah_grant hs) = [capability])"
proof -
  note ok = authority_reachable_ok[OF assms(2,1)]
  obtain h where h: "ctx_harness_id ctx = Some h" using authenticated_has_harness[OF assms(3) ok assms(1)] by blast
  from authorize_harness_grants[OF assms(5) h] obtain hs where
    hs: "om_get (hs_agent_harnesses st2) h = Some hs" "ah_revoked_at hs = None"
      "ctx_user_id ctx = Some (ah_user_id hs)" "ctx_tenant_id ctx = ah_tenant_id hs"
      "capability \<in> set (hg_capabilities (ah_grant hs))"
      "\<forall>p \<in> set_option pod. grant_covers_pod (ah_grant hs) p" by blast
  have "accounts_ok ex st1" using accounts_ok_authenticate[OF assms(1) ok, of now token] assms(3) by simp
  then have "accounts_ok ex st2" using authority_steps_ok[OF assms(4,1)] by blast
  then have "ex \<or> grant_allowed hs" using hs(1) unfolding accounts_ok_def by blast
  then show ?thesis using h hs unfolding grant_allowed_def by blast
qed

lemma sample_registered_reachable: "authority_reachable sample_tools ex sample_registered"
proof -
  have "authority_reachable sample_tools ex sample_home"
    by (rule authority_start) (simp_all add: sample_home_def empty_home_store_def)
  then show ?thesis
    unfolding sample_registered_def
    by (rule authority_next[OF _ step_account[OF step_register]]) (simp_all add: sample_home_def empty_home_store_def)
qed

theorem bearer_acts_within_grant_witness:
  "\<exists>h hs. ctx_harness_id sample_bearer = Some h \<and>
     om_get (hs_agent_harnesses (fst (authenticate_token sample_tools 9 ''t'' sample_registered))) h = Some hs \<and>
     ah_revoked_at hs = None \<and> Cap_DiscoveryTasks \<in> set (hg_capabilities (ah_grant hs))"
  using bearer_acts_within_grant[OF sample_tools_ok sample_registered_reachable
      pair_of_snd[OF sample_bearer_authenticates] rtranclp.rtrancl_refl
      sample_bearer_authorized]
  by blast

end
