(* ===== verification/Pod_Requests.thy ===== *)
theory Pod_Requests
  imports Approvals
begin

text \<open>
  The requests on Pods and on the Trust Policy (\<open>agent_tools/pod/lifecycle.rs\<close>,
  \<open>agent_tools/sync/trust.rs\<close>): what the Owner does directly, what a harness may only propose, local
  subscriptions and the curation policy.

  A request that reads the store, releases it and takes it again to write is two definitions, so that
  what it does with a stale reading can be stated.
\<close>

section \<open>Creation\<close>

definition request_create_pod ::
  "tools_env \<Rightarrow> draws \<Rightarrow> auth_context \<Rightarrow> create_pod_request \<Rightarrow> time \<Rightarrow> create_pod_outcome tool" where
  "request_create_pod env d ctx request now =
     (if cq_visibility request = Public
      then bind_tool (propose env d ctx (SC_CreatePublicPod request) now) (\<lambda>p. ret (CO_PendingApproval p))
      else bind_tool (create_pod env d ctx request) (\<lambda>pod. ret (CO_Created pod)))"

definition request_create_pod_lifecycle ::
  "tools_env \<Rightarrow> draws \<Rightarrow> auth_context \<Rightarrow> create_pod_lifecycle_request \<Rightarrow> time \<Rightarrow> create_pod_outcome tool" where
  "request_create_pod_lifecycle env d ctx request now =
     (if cq_visibility (cl_pod request) = Public
      then bind_tool (propose env d ctx (SC_CreatePublicPodLifecycle request) now)
             (\<lambda>p. ret (CO_PendingApproval p))
      else bind_tool (create_pod_lifecycle_immediately env d ctx request PM_Canonical)
             (\<lambda>created. ret (CO_Created (cp_pod created))))"

section \<open>Visibility\<close>

definition owned_visibility :: "tools_env \<Rightarrow> auth_context \<Rightarrow> uuid \<Rightarrow> home_store \<Rightarrow> agent_tools_error + visibility" where
  "owned_visibility env ctx pod_id st =
     and_then (authorize_pod_role_owner env ctx pod_id st) (\<lambda>_.
     and_then (tenant_pod env ctx pod_id st) (\<lambda>pod. Inr (pd_visibility pod)))"

definition expand_visibility_directly ::
  "tools_env \<Rightarrow> draws \<Rightarrow> auth_context \<Rightarrow> uuid \<Rightarrow> visibility \<Rightarrow> pod_visibility_outcome tool" where
  "expand_visibility_directly env d ctx pod_id visibility =
     bind_tool (reads (authorize_pod_role_owner env ctx pod_id)) (\<lambda>_.
     bind_tool (apply_expand_pod_visibility env (\<lambda>n. d (Suc n)) ctx pod_id visibility) (\<lambda>_.
     bind_tool (writes (record_harness_write_at ctx HW_CreatePod (Some pod_id) (snd (d 0)) (fst (d 0)))) (\<lambda>_.
     bind_tool (persist env ()) (\<lambda>_.
     bind_tool (reads (stored_pod ''pod '' env pod_id)) (\<lambda>pod. ret (VO_Updated pod))))))"

text \<open>\<open>current\<close> is what the request read before it took the store to write.\<close>

definition restrict_visibility ::
  "tools_env \<Rightarrow> draws \<Rightarrow> auth_context \<Rightarrow> uuid \<Rightarrow> visibility \<Rightarrow> visibility \<Rightarrow> time \<Rightarrow> pod_visibility_outcome tool" where
  "restrict_visibility env d ctx pod_id current visibility now =
     bind_tool (reads (authorize_pod_role_owner env ctx pod_id)) (\<lambda>_.
     bind_tool (reads (stored_pod ''pod '' env pod_id)) (\<lambda>pod.
     bind_tool (writes (with_visibility pod_id visibility pod)) (\<lambda>_.
     let result = pod\<lparr>pd_visibility := visibility\<rparr> in
     bind_tool (if current = Public \<and> visibility \<noteq> Public
       then bind_tool (reads (tenant_node env ctx)) (\<lambda>node.
            bind_tool (on_core (issue_origin_pod_withdrawal (te_ext env) (fst (d 0)) node (pd_slug result) None now)) (\<lambda>_.
            writes (record_harness_write_at ctx HW_WithdrawPublicPod (Some pod_id) (snd (d 1)) (fst (d 1)))))
       else ret ()) (\<lambda>_.
     bind_tool (writes (record_harness_write_at ctx HW_CreatePod (Some pod_id) (snd (d 2)) (fst (d 2)))) (\<lambda>_.
     persist env (VO_Updated result))))))"

definition set_visibility_from ::
  "tools_env \<Rightarrow> draws \<Rightarrow> auth_context \<Rightarrow> uuid \<Rightarrow> visibility \<Rightarrow> visibility \<Rightarrow> time \<Rightarrow> pod_visibility_outcome tool" where
  "set_visibility_from env d ctx pod_id current visibility now =
     (if current = visibility then failing (invalid ''Pod already has that visibility'')
      else if visibility_exposure current < visibility_exposure visibility
      then if ctx_harness_id ctx \<noteq> None
           then bind_tool (propose env d ctx (SC_ExpandPodVisibility pod_id visibility) now)
                  (\<lambda>p. ret (VO_PendingApproval p))
           else expand_visibility_directly env d ctx pod_id visibility
      else restrict_visibility env d ctx pod_id current visibility now)"

definition request_set_pod_visibility ::
  "tools_env \<Rightarrow> draws \<Rightarrow> auth_context \<Rightarrow> uuid \<Rightarrow> visibility \<Rightarrow> time \<Rightarrow> pod_visibility_outcome tool" where
  "request_set_pod_visibility env d ctx pod_id visibility now =
     bind_tool (reads (owned_visibility env ctx pod_id)) (\<lambda>current.
     set_visibility_from env d ctx pod_id current visibility now)"

section \<open>Deletion\<close>

definition request_delete_pod ::
  "tools_env \<Rightarrow> draws \<Rightarrow> auth_context \<Rightarrow> uuid \<Rightarrow> time \<Rightarrow> delete_pod_outcome tool" where
  "request_delete_pod env d ctx pod_id now =
     bind_tool (reads (deletable_pod env ctx pod_id)) (\<lambda>pod.
     if pd_visibility pod = Public \<and> ctx_harness_id ctx \<noteq> None
     then bind_tool (propose env d ctx (SC_DeletePod pod_id) now) (\<lambda>p. ret (DPO_PendingApproval p))
     else bind_tool (delete_pod_immediately env d ctx pod_id now) (\<lambda>deleted. ret (DPO_Deleted deleted)))"

section \<open>Subscriptions\<close>

definition put_subscription :: "subscription \<Rightarrow> pod_store \<Rightarrow> pod_store" where
  "put_subscription s p = p\<lparr>pst_subscriptions := om_put (su_id s) s (pst_subscriptions p)\<rparr>"

definition subscription_of :: "tools_env \<Rightarrow> uuid \<Rightarrow> uuid \<Rightarrow> home_store \<Rightarrow> subscription option" where
  "subscription_of env user_id pod_id st =
     find (\<lambda>s. su_user_id s = user_id \<and> su_local_pod_id s = pod_id)
       (uuid_values env (pst_subscriptions (hs_pods st)))"

definition subscribe_local_pod ::
  "tools_env \<Rightarrow> draws \<Rightarrow> auth_context \<Rightarrow> uuid \<Rightarrow> subscription tool" where
  "subscribe_local_pod env d ctx pod_id =
     bind_tool (reads (tenant_pod env ctx pod_id)) (\<lambda>pod.
     bind_tool (reads (\<lambda>st. authorize_harness env st ctx Cap_SubscriptionManagement (Some (pd_id pod)))) (\<lambda>_.
     bind_tool (reads (\<lambda>_. ok_or (invalid ''Subscription requires an authenticated User'') (ctx_user_id ctx))) (\<lambda>user_id.
     bind_tool (gets (subscription_of env user_id (pd_id pod))) (\<lambda>existing.
     case existing of
       Some subscription \<Rightarrow> ret subscription
     | None \<Rightarrow>
         bind_tool (reads (tenant_node env ctx)) (\<lambda>node.
         let subscription = subscription_new_local (te_uuid_str env) (fst (d 0)) user_id pod node (snd (d 0)) in
         bind_tool (writes (set_pod_store (put_subscription subscription))) (\<lambda>_.
         bind_tool (writes (record_harness_write_at ctx HW_JoinPod (Some (pd_id pod)) (snd (d 1)) (fst (d 1)))) (\<lambda>_.
         persist env subscription)))))))"

definition join_pod :: "tools_env \<Rightarrow> draws \<Rightarrow> auth_context \<Rightarrow> string \<Rightarrow> unit tool" where
  "join_pod env d ctx slug =
     bind_tool (reads (\<lambda>st. store_result (pod_by_slug env (hs_core st) slug (ctx_tenant_id ctx)))) (\<lambda>pod.
     without_result (subscribe_local_pod env d ctx (pd_id pod)))"

definition unsubscribe_pod :: "tools_env \<Rightarrow> auth_context \<Rightarrow> uuid \<Rightarrow> subscription tool" where
  "unsubscribe_pod env ctx pod_id =
     bind_tool (reads (\<lambda>st. authorize_harness env st ctx Cap_SubscriptionManagement (Some pod_id))) (\<lambda>_.
     bind_tool (reads (\<lambda>_. ok_or (invalid ''unsubscribe requires an authenticated User'') (ctx_user_id ctx))) (\<lambda>user_id.
     bind_tool (reads (\<lambda>st. ok_or (AT_Store (NotFound ''Subscription'')) (subscription_of env user_id pod_id st))) (\<lambda>s.
     bind_tool (writes (set_pod_store (\<lambda>p. p\<lparr>pst_subscriptions := om_del (su_id s) (pst_subscriptions p)\<rparr>))) (\<lambda>_.
     persist env s))))"

section \<open>Roles and the curation policy\<close>

definition request_grant_pod_role ::
  "tools_env \<Rightarrow> draws \<Rightarrow> auth_context \<Rightarrow> uuid \<Rightarrow> uuid \<Rightarrow> pod_role \<Rightarrow> time \<Rightarrow> pending_proposal tool" where
  "request_grant_pod_role env d ctx pod_id user_id role now =
     create_pending_proposal env d ctx (SC_GrantPodRole pod_id user_id role) now (now + hours 24)"

definition request_revoke_pod_role ::
  "tools_env \<Rightarrow> draws \<Rightarrow> auth_context \<Rightarrow> uuid \<Rightarrow> uuid \<Rightarrow> pod_role \<Rightarrow> time \<Rightarrow> pending_proposal tool" where
  "request_revoke_pod_role env d ctx pod_id user_id role now =
     create_pending_proposal env d ctx (SC_RevokePodRole pod_id user_id role) now (now + hours 24)"

definition set_pod_curation_policy ::
  "tools_env \<Rightarrow> uuid \<Rightarrow> auth_context \<Rightarrow> uuid \<Rightarrow> curation_policy \<Rightarrow> time \<Rightarrow> curation_policy tool" where
  "set_pod_curation_policy env audit_id ctx pod_id policy now =
     (if is_autonomous policy then failing (invalid ''Autonomous Curation requires a Pending Proposal'')
      else
        bind_tool (reads (authorize_local_pod_curation env ctx pod_id)) (\<lambda>_.
        bind_tool (writes (put_curation_policy pod_id policy)) (\<lambda>_.
        bind_tool (writes (record_harness_write_at ctx HW_SetPodCurationPolicy (Some pod_id) now audit_id)) (\<lambda>_.
        persist env policy))))"

section \<open>Trust\<close>

definition request_add_trusted_peer ::
  "tools_env \<Rightarrow> draws \<Rightarrow> auth_context \<Rightarrow> string \<Rightarrow> string \<Rightarrow> string \<Rightarrow> time \<Rightarrow> pending_proposal tool" where
  "request_add_trusted_peer env d ctx display_name base_url public_key now =
     propose env d ctx (SC_AddTrustedPeer 0 display_name base_url public_key) now"

definition request_add_trusted_node ::
  "tools_env \<Rightarrow> draws \<Rightarrow> auth_context \<Rightarrow> node_info \<Rightarrow> string \<Rightarrow> time \<Rightarrow> pending_proposal tool" where
  "request_add_trusted_node env d ctx node base_url now =
     (if ni_node_id node = 0 then failing (invalid ''canonical Node ID must not be nil'')
      else if ni_supported_protocol_version node \<noteq> current_protocol_version
      then failing (invalid (''unsupported Node protocol '' @ ni_supported_protocol_version node))
      else propose env d ctx
        (SC_AddTrustedPeer (ni_node_id node) (ni_display_name node) base_url (ni_public_key node)) now)"

definition request_trust_policy_change ::
  "tools_env \<Rightarrow> draws \<Rightarrow> auth_context \<Rightarrow> trust_policy_change \<Rightarrow> time \<Rightarrow> pending_proposal tool" where
  "request_trust_policy_change env d ctx change now = propose env d ctx (SC_ChangeTrustPolicy change) now"

definition change_trust_policy ::
  "tools_env \<Rightarrow> draws \<Rightarrow> auth_context \<Rightarrow> trust_policy_change \<Rightarrow> time \<Rightarrow> trust_policy_change_outcome tool" where
  "change_trust_policy env d ctx change now =
     (if ctx_harness_id ctx \<noteq> None
      then bind_tool (request_trust_policy_change env d ctx change now) (\<lambda>p. ret (TO_PendingApproval p))
      else
        bind_tool (reads (\<lambda>_. ok_or (invalid ''Trust Policy changes require an authenticated User'') (ctx_user_id ctx))) (\<lambda>user_id.
        bind_tool (reads (\<lambda>st. apply_trust_policy_change env (stored_policy user_id (ctx_tenant_id ctx) st) change)) (\<lambda>policy.
        bind_tool (writes (put_policy (user_id, ctx_tenant_id ctx) policy)) (\<lambda>_.
        persist env (TO_Applied policy)))))"

definition request_remove_trusted_peer ::
  "tools_env \<Rightarrow> draws \<Rightarrow> auth_context \<Rightarrow> uuid \<Rightarrow> time \<Rightarrow> pending_proposal tool" where
  "request_remove_trusted_peer env d ctx peer_id now = propose env d ctx (SC_RemoveTrustedPeer peer_id) now"

end
