(* ===== verification/Codecs.thy ===== *)
theory Codecs
  imports Approvals
begin

text \<open>
  Reading JSON back. The \<open>Deserialize\<close> implementations serde derives, and \<open>serde_json\<close>'s reader and
  writer of event lines, are parameters: each reads a value or fails. What the properties use of them
  is that they read back what theory Pod_Json writes.
\<close>

record metadata_update =
  mu_content_item_id :: uuid
  mu_source_metadata :: candidate_source_metadata
  mu_permitted_excerpt :: "string option"
  mu_summary :: "string option"
  mu_tags :: "string list"
  mu_provenance :: "candidate_provenance list"
  mu_media_references :: "media_reference list"

record codec =
  cd_read_event :: "string \<Rightarrow> string + event_log_row"
  cd_write_event :: "event_log_row \<Rightarrow> string option"
  cd_pod :: "json \<Rightarrow> string + pod"
  cd_package :: "json \<Rightarrow> string + pod_skill_pack"
  cd_content_item :: "json \<Rightarrow> string + submission"
  cd_submission :: "json \<Rightarrow> string + submission"
  cd_submission_id :: "json \<Rightarrow> string + uuid"
  cd_placement :: "json \<Rightarrow> string + accepted_placement_projection"
  cd_tombstone :: "json \<Rightarrow> string + placement_tombstone"
  cd_metadata :: "json \<Rightarrow> string + metadata_update"

text \<open>The public part of a submission: what is read back of a content item (\<open>into_legacy_record\<close>).\<close>

definition public_record :: "submission \<Rightarrow> submission" where
  "public_record s = s\<lparr>sb_tenant_id := None, sb_submitted_by := None, sb_discovered_by_crawler := False,
     sb_submitter_note := None, sb_embedding := None\<rparr>"

definition codec_sound :: "codec \<Rightarrow> bool" where
  "codec_sound c \<longleftrightarrow>
     (\<forall>p. cd_pod c (json_pod p) = Inr p) \<and>
     (\<forall>k. cd_package c (json_package k) = Inr k) \<and>
     (\<forall>s. cd_content_item c (json_content_item s) = Inr (public_record s)) \<and>
     (\<forall>a. cd_placement c (json_accepted_placement a) = Inr a) \<and>
     (\<forall>t. cd_tombstone c (json_tombstone t) = Inr t)"

text \<open>A line of event text holds no line feed and is not blank, and reads back.\<close>

definition event_lines_sound :: "codec \<Rightarrow> bool" where
  "event_lines_sound c \<longleftrightarrow>
     (\<forall>e line. cd_write_event c e = Some line \<longrightarrow>
        CHR 0x0A \<notin> set line \<and> trim line \<noteq> [] \<and> cd_read_event c line = Inr e)"

text \<open>\<open>Value::get\<close> of an object field.\<close>

definition json_field :: "json \<Rightarrow> string \<Rightarrow> json option" where
  "json_field j name = (case j of JObj entries \<Rightarrow> map_of entries name | _ \<Rightarrow> None)"

lemma json_field_obj [simp]: "json_field (JObj entries) name = map_of entries name"
  by (simp add: json_field_def)

text \<open>\<open>str::lines\<close>: a line ends at a line feed, which may follow a carriage return.\<close>

definition strip_cr :: "string \<Rightarrow> string" where
  "strip_cr line = (if line \<noteq> [] \<and> last line = CHR 0x0D then butlast line else line)"

definition str_lines :: "string \<Rightarrow> string list" where
  "str_lines s =
     (let parts = split_on (CHR 0x0A) s
      in map strip_cr (butlast parts) @ (if last parts = [] then [] else [last parts]))"

text \<open>Results over a list: the first error, or all values.\<close>

fun collect_results :: "('e + 'a) list \<Rightarrow> 'e + 'a list" where
  "collect_results [] = Inr []"
| "collect_results (r # rs) =
     (case r of Inl e \<Rightarrow> Inl e
      | Inr a \<Rightarrow> (case collect_results rs of Inl e \<Rightarrow> Inl e | Inr as \<Rightarrow> Inr (a # as)))"

lemma collect_results_all [simp]: "collect_results (map Inr xs) = Inr xs"
  by (induction xs) simp_all

lemma collect_results_Inr: "collect_results rs = Inr xs \<longleftrightarrow> rs = map Inr xs"
  by (induction rs arbitrary: xs) (auto split: sum.splits)

lemma json_null_eq [simp]: "json_eq j JNull \<longleftrightarrow> j = JNull"
  by (cases j) (auto simp: json_eq_def)

end
