(* ===== verification/Package_Tools.thy ===== *)
theory Package_Tools
  imports Pod_Requests Codecs
begin

text \<open>
  Reading, revising, exporting, importing and forking packages
  (\<open>agent_tools/pod/packages.rs\<close>, the package part of \<open>agent_tools/pod/helpers_2.rs\<close>). A portable
  package carries the signed events that prove it.
\<close>

section \<open>The history a portable package carries\<close>

definition event_public_key :: "tools_env \<Rightarrow> event_log_row \<Rightarrow> home_store \<Rightarrow> string option" where
  "event_public_key env e st =
     (let local_key = (case om_get (st_node_identities (hs_core st)) (ev_author_node_id e) of
            None \<Rightarrow> None
          | Some node \<Rightarrow> if nd_tenant_id node = ev_tenant_id e then Some (nd_public_key node) else None);
          peer_key = (case om_get (pst_trusted_peers (hs_pods st)) (ev_author_node_id e) of
            None \<Rightarrow> None
          | Some peer \<Rightarrow> if tpe_enabled peer then Some (tpe_public_key peer) else None);
          announced_key = map_option (\<lambda>k. ni_public_key (pa_signer (ka_announcement k)))
            (find (\<lambda>k. pa_origin_node_id (ka_announcement k) = ev_author_node_id e)
              (values_in_order (x_iter_pods (te_ext env)) (st_known_pod_announcements (hs_core st))))
      in or_else (or_else local_key peer_key) announced_key)"

definition check_portable_event :: "tools_env \<Rightarrow> home_store \<Rightarrow> event_log_row \<Rightarrow> agent_tools_error + event_log_row" where
  "check_portable_event env st e =
     (case event_public_key env e st of
        None \<Rightarrow> Inl (AT_Store UntrustedPeer)
      | Some key \<Rightarrow>
          if verify_event env e key = Inr True then Inr e else Inl (AT_Store InvalidSignature))"

definition read_event_line :: "codec \<Rightarrow> string \<Rightarrow> agent_tools_error + event_log_row" where
  "read_event_line c line =
     (case cd_read_event c line of
        Inl e \<Rightarrow> Inl (invalid (''events.jsonl is invalid: '' @ e)) | Inr event \<Rightarrow> Inr event)"

definition verified_portable_package_events ::
  "tools_env \<Rightarrow> codec \<Rightarrow> package_files \<Rightarrow> home_store \<Rightarrow> agent_tools_error + event_log_row list" where
  "verified_portable_package_events env c files st =
     and_then (ok_or (invalid ''portable Pod Package is missing events.jsonl'') (om_get files ''events.jsonl'')) (\<lambda>events_text.
     and_then (collect_results (map (read_event_line c) (filter (\<lambda>l. trim l \<noteq> []) (str_lines events_text)))) (\<lambda>events.
     and_then (checked (events \<noteq> []) (invalid ''events.jsonl must contain signed package history'')) (\<lambda>_.
     collect_results (map (check_portable_event env st) events))))"

definition signed_package :: "codec \<Rightarrow> event_log_row \<Rightarrow> pod_skill_pack option" where
  "signed_package c e =
     (case json_field (ev_payload_json e) ''package'' of
        None \<Rightarrow> None
      | Some v \<Rightarrow> (case cd_package c v of Inl _ \<Rightarrow> None | Inr package \<Rightarrow> Some package))"

definition verify_portable_package_history ::
  "tools_env \<Rightarrow> codec \<Rightarrow> package_files \<Rightarrow> home_store \<Rightarrow> agent_tools_error + unit" where
  "verify_portable_package_history env c files st =
     and_then (verified_portable_package_events env c files st) (\<lambda>events.
     and_then (store_result (pod_package_contents_from_files env files)) (\<lambda>requested.
     checked (list_ex (\<lambda>e. case signed_package c e of
           None \<Rightarrow> False | Some package \<Rightarrow> package_contents_match package requested) events)
       (invalid ''events.jsonl does not contain the signed package contents'')))"

definition verify_portable_package_history_for_base ::
  "tools_env \<Rightarrow> codec \<Rightarrow> package_files \<Rightarrow> pod_skill_pack \<Rightarrow> home_store \<Rightarrow> agent_tools_error + unit" where
  "verify_portable_package_history_for_base env c files base st =
     and_then (verified_portable_package_events env c files st) (\<lambda>events.
     checked (list_ex (\<lambda>e. signed_package c e = Some base) events)
       (invalid ''events.jsonl does not contain the signed base Package version''))"

section \<open>Reads\<close>

definition slug_pod :: "tools_env \<Rightarrow> auth_context \<Rightarrow> string \<Rightarrow> home_store \<Rightarrow> agent_tools_error + pod" where
  "slug_pod env ctx slug st = store_result (pod_by_slug env (hs_core st) slug (ctx_tenant_id ctx))"

definition get_skill_pack :: "tools_env \<Rightarrow> auth_context \<Rightarrow> string \<Rightarrow> home_store \<Rightarrow> agent_tools_error + pod_skill_pack" where
  "get_skill_pack env ctx slug st =
     and_then (slug_pod env ctx slug st) (\<lambda>pod.
     and_then (in_tenant ctx (pd_tenant_id pod)) (\<lambda>_.
     and_then (authorize_harness_pod_scope env ctx (pd_id pod) st) (\<lambda>_.
     stored_package ''skill pack'' (pd_id pod) st)))"

definition get_pod_package_version ::
  "tools_env \<Rightarrow> auth_context \<Rightarrow> string \<Rightarrow> int \<Rightarrow> home_store \<Rightarrow> agent_tools_error + pod_skill_pack" where
  "get_pod_package_version env ctx slug version st =
     and_then (slug_pod env ctx slug st) (\<lambda>pod.
     and_then (authorize_harness_pod_scope env ctx (pd_id pod) st) (\<lambda>_.
     ok_or (AT_Store (NotFound (''Pod Package version '' @ nat_dec (nat version))))
       (om_get (pst_pod_package_versions (hs_pods st)) (pd_id pod, version))))"

definition validate_pod_skill_pack ::
  "tools_env \<Rightarrow> auth_context \<Rightarrow> string \<Rightarrow> home_store \<Rightarrow> agent_tools_error + validation_report" where
  "validate_pod_skill_pack env ctx slug st =
     and_then (get_skill_pack env ctx slug st) (\<lambda>pack. Inr (validate_skill_pack env pack))"

text \<open>An event that cannot be written leaves the exported history empty.\<close>

definition events_text :: "codec \<Rightarrow> event_log_row list \<Rightarrow> string" where
  "events_text c events =
     (case those (map (cd_write_event c) events) of
        None \<Rightarrow> [] | Some texts \<Rightarrow> join_with [CHR 0x0A] texts)"

definition export_skill_pack ::
  "tools_env \<Rightarrow> codec \<Rightarrow> auth_context \<Rightarrow> string \<Rightarrow> home_store \<Rightarrow> agent_tools_error + package_files" where
  "export_skill_pack env c ctx slug st =
     and_then (slug_pod env ctx slug st) (\<lambda>pod.
     and_then (authorize_harness_pod_scope env ctx (pd_id pod) st) (\<lambda>_.
     and_then (stored_package ''skill pack'' (pd_id pod) st) (\<lambda>pack.
     Inr (exported_files pack (events_text c (portable_package_events_for_pod (hs_core st) (pd_slug pod)))))))"

section \<open>Revisions\<close>

text \<open>What a revision checks of the store, when it is asked for and again when it is made.\<close>

definition revisable ::
  "tools_env \<Rightarrow> codec \<Rightarrow> auth_context \<Rightarrow> uuid \<Rightarrow> int \<Rightarrow> package_files
    \<Rightarrow> (tools_env \<Rightarrow> auth_context \<Rightarrow> pod \<Rightarrow> home_store \<Rightarrow> agent_tools_error + unit)
    \<Rightarrow> home_store \<Rightarrow> agent_tools_error + pod \<times> pod_skill_pack" where
  "revisable env c ctx pod_id base_version files allowed st =
     and_then (tenant_pod env ctx pod_id st) (\<lambda>pod.
     and_then (authorize_harness env st ctx Cap_PackageManagement (Some (pd_id pod))) (\<lambda>_.
     and_then (allowed env ctx pod st) (\<lambda>_.
     and_then (stored_package ''skill pack'' (pd_id pod) st) (\<lambda>existing.
     and_then (ensure_package_base_version existing base_version) (\<lambda>_.
     and_then (verify_portable_package_history_for_base env c files existing st) (\<lambda>_.
     Inr (pod, existing)))))))"

definition checked_contents :: "tools_env \<Rightarrow> package_files \<Rightarrow> agent_tools_error + pod_package_contents" where
  "checked_contents env files =
     and_then (store_result (validate_portable_package_files env files)) (\<lambda>_.
     and_then (store_result (pod_package_contents_from_files env files)) (\<lambda>contents.
     let report = validate_pod_package_contents env contents
     in and_then (checked (vr_valid report) (invalid (join_with '', '' (vr_errors report)))) (\<lambda>_.
        Inr contents)))"

definition revise_directly ::
  "tools_env \<Rightarrow> codec \<Rightarrow> draws \<Rightarrow> auth_context \<Rightarrow> uuid \<Rightarrow> int \<Rightarrow> package_files \<Rightarrow> skill_pack_patch \<Rightarrow> time
    \<Rightarrow> pod_package_revision_outcome tool" where
  "revise_directly env c d ctx pod_id base_version files patch now =
     bind_tool (reads (revisable env c ctx pod_id base_version files ensure_direct_package_revision_allowed)) (\<lambda>found.
     let pod = fst found;
         package = stamped_package now (ctx_harness_id ctx) (patched_skill_pack (snd (d 0)) (snd found) patch) in
     bind_tool (reads (tenant_node env ctx)) (\<lambda>node.
     bind_tool (store_revision env (d 1) node PodSkillPackUpdated (pd_id pod) (pd_slug pod) package) (\<lambda>_.
     bind_tool (refresh_announcement env (fst (d 2)) (pd_id pod) now) (\<lambda>_.
     bind_tool (writes (record_harness_write_at ctx HW_PatchSkillPack (Some (pd_id pod)) (snd (d 3)) (fst (d 3)))) (\<lambda>_.
     persist env (RO_Revised package))))))"

definition request_revise_pod_package ::
  "tools_env \<Rightarrow> codec \<Rightarrow> draws \<Rightarrow> auth_context \<Rightarrow> uuid \<Rightarrow> int \<Rightarrow> package_files \<Rightarrow> time
    \<Rightarrow> pod_package_revision_outcome tool" where
  "request_revise_pod_package env c d ctx pod_id base_version files now =
     bind_tool (reads (\<lambda>_. checked_contents env files)) (\<lambda>contents.
     let patch = complete_package_patch contents in
     bind_tool (reads (revisable env c ctx pod_id base_version files ensure_direct_package_revision_allowed_for_origin)) (\<lambda>found.
     if pd_visibility (fst found) = Public
     then bind_tool (create_pending_proposal env d ctx (SC_RevisePublicPodPackage pod_id base_version patch)
            now (now + hours 24)) (\<lambda>p. ret (RO_PendingApproval p))
     else revise_directly env c d ctx pod_id base_version files patch now))"

definition patch_skill_pack ::
  "tools_env \<Rightarrow> draws \<Rightarrow> auth_context \<Rightarrow> string \<Rightarrow> skill_pack_patch \<Rightarrow> pod_skill_pack tool" where
  "patch_skill_pack env d ctx slug patch =
     bind_tool (reads (slug_pod env ctx slug)) (\<lambda>pod.
     bind_tool (reads (\<lambda>st. authorize_harness env st ctx Cap_PackageManagement (Some (pd_id pod)))) (\<lambda>_.
     bind_tool (reads (ensure_direct_package_revision_allowed env ctx pod)) (\<lambda>_.
     bind_tool (reads (stored_package ''skill pack'' (pd_id pod))) (\<lambda>existing.
     let patched = patched_skill_pack (snd (d 0)) existing patch in
     bind_tool (reads (\<lambda>_. check_revised_package env patched)) (\<lambda>_.
     let pack = stamped_package (snd (d 1)) (ctx_harness_id ctx) patched in
     bind_tool (reads (tenant_node env ctx)) (\<lambda>node.
     bind_tool (store_revision env (d 2) node PodSkillPackUpdated (pd_id pod) (pd_slug pod) pack) (\<lambda>_.
     bind_tool (refresh_announcement env (fst (d 3)) (pd_id pod) (snd (d 1))) (\<lambda>_.
     bind_tool (writes (record_harness_write_at ctx HW_PatchSkillPack (Some (pd_id pod)) (snd (d 4)) (fst (d 4)))) (\<lambda>_.
     persist env pack)))))))))"

text \<open>An import stores the version before it signs the event.\<close>

definition import_skill_pack ::
  "tools_env \<Rightarrow> codec \<Rightarrow> draws \<Rightarrow> auth_context \<Rightarrow> string \<Rightarrow> package_files \<Rightarrow> pod_skill_pack tool" where
  "import_skill_pack env c d ctx slug files =
     bind_tool (reads (slug_pod env ctx slug)) (\<lambda>pod.
     bind_tool (reads (\<lambda>st. authorize_harness env st ctx Cap_PackageManagement (Some (pd_id pod)))) (\<lambda>_.
     bind_tool (reads (ensure_direct_package_revision_allowed env ctx pod)) (\<lambda>_.
     bind_tool (reads (stored_package ''skill pack'' (pd_id pod))) (\<lambda>existing.
     bind_tool (reads (\<lambda>_. store_result (validate_portable_package_files env files))) (\<lambda>_.
     bind_tool (reads (verify_portable_package_history env c files)) (\<lambda>_.
     let imported = imported_skill_pack (snd (d 0)) existing files in
     bind_tool (reads (\<lambda>_. check_revised_package env imported)) (\<lambda>_.
     let pack = stamped_package (snd (d 1)) (ctx_harness_id ctx) imported in
     bind_tool (updates (\<lambda>st. store_result (insert_pod_package_version env pack st))) (\<lambda>_.
     bind_tool (writes (put_skill_pack (pd_id pod) pack)) (\<lambda>_.
     bind_tool (reads (tenant_node env ctx)) (\<lambda>node.
     bind_tool (updates (log_event env (d 2) node PodPackageImported (pd_slug pod) (json_package_only pack))) (\<lambda>_.
     bind_tool (refresh_announcement env (fst (d 3)) (pd_id pod) (snd (d 1))) (\<lambda>_.
     bind_tool (writes (record_harness_write_at ctx HW_ImportSkillPack (Some (pd_id pod)) (snd (d 4)) (fst (d 4)))) (\<lambda>_.
     persist env pack)))))))))))))"

text \<open>The second half of a fork, once the target Pod exists.\<close>

definition store_fork ::
  "tools_env \<Rightarrow> draws \<Rightarrow> auth_context \<Rightarrow> pod_skill_pack \<Rightarrow> pod \<Rightarrow> pod_skill_pack tool" where
  "store_fork env d ctx source target =
     (let forked = (forked_skill_pack env (fst (d 0)) (snd (d 0)) source target)
            \<lparr>pk_proposer_harness_id := ctx_harness_id ctx, pk_version := 2\<rparr> in
     bind_tool (reads (tenant_node env ctx)) (\<lambda>node.
     bind_tool (store_revision env (d 1) node PodPackageForked (pd_id target) (pd_slug target) forked) (\<lambda>_.
     bind_tool (writes (record_harness_write_at ctx HW_ForkSkillPack (Some (pd_id target)) (snd (d 2)) (fst (d 2)))) (\<lambda>_.
     persist env forked))))"

definition fork_skill_pack ::
  "tools_env \<Rightarrow> draws \<Rightarrow> draws \<Rightarrow> auth_context \<Rightarrow> string \<Rightarrow> create_pod_request \<Rightarrow> pod_skill_pack tool" where
  "fork_skill_pack env d d' ctx source_slug target =
     (if cq_visibility target = Public
      then failing (invalid ''public Package Revisions require Pending Proposal approval'')
      else
        bind_tool (reads (get_skill_pack env ctx source_slug)) (\<lambda>source.
        bind_tool (create_pod env d ctx target) (\<lambda>target_pod.
        store_fork env d' ctx source target_pod)))"

end
