(* ===== verification/Announcement_Tools.thy ===== *)
theory Announcement_Tools
  imports Pod_Requests Bootstrap
begin

text \<open>
  The tools that announce and withdraw the node's own public Pods and that retain what a trusted
  peer delivers (\<open>agent_tools/sync/announcement.rs\<close>).
\<close>

section \<open>The manifest of a Pod\<close>

record pod_manifest =
  pm_pod :: pod
  pm_latest_known_event_hash :: "string option"
  pm_skill_pack_version :: int
  pm_public_source_summary :: "string list"

definition pod_by_slug_in_scope :: "tools_env \<Rightarrow> auth_context \<Rightarrow> string \<Rightarrow> home_store \<Rightarrow> agent_tools_error + pod" where
  "pod_by_slug_in_scope env ctx slug st =
     and_then (store_result (pod_by_slug env (hs_core st) slug (ctx_tenant_id ctx))) (\<lambda>pod.
     and_then (authorize_harness_pod_scope env ctx (pd_id pod) st) (\<lambda>_. Inr pod))"

definition pod_manifest_of ::
  "tools_env \<Rightarrow> auth_context \<Rightarrow> string \<Rightarrow> home_store \<Rightarrow> agent_tools_error + pod_manifest" where
  "pod_manifest_of env ctx slug st =
     and_then (pod_by_slug_in_scope env ctx slug st) (\<lambda>pod.
     and_then (stored_package ''skill pack'' (pd_id pod) st) (\<lambda>pack.
     Inr \<lparr> pm_pod = pod,
           pm_latest_known_event_hash = latest_federated_event_hash (hs_core st) (pd_slug pod),
           pm_skill_pack_version = pk_version pack,
           pm_public_source_summary = map cr_url (filter (\<lambda>s. cr_pod_id s = pd_id pod \<and> cr_enabled s)
             (uuid_values env (pst_crawler_sources (hs_pods st)))) \<rparr>))"

section \<open>Announcing and withdrawing\<close>

definition pod_announcement_at ::
  "tools_env \<Rightarrow> uuid \<Rightarrow> auth_context \<Rightarrow> string \<Rightarrow> string \<Rightarrow> time \<Rightarrow> pod_announcement tool" where
  "pod_announcement_at env new_id ctx slug public_pod_url now =
     bind_tool (reads (pod_by_slug_in_scope env ctx slug)) (\<lambda>pod.
     bind_tool (require_that (\<lambda>_. pd_visibility pod = Public)
       (AT_Store (NotFound (''public Pod '' @ slug)))) (\<lambda>_.
     bind_tool (reads (tenant_node env ctx)) (\<lambda>node.
     bind_tool (require_that (\<lambda>_. \<not> is_remote pod node)
       (invalid ''only an Origin Node can announce its public Pod'')) (\<lambda>_.
     bind_tool (on_core (issue_and_retain_origin_pod_announcement (te_ext env) new_id node pod
       public_pod_url now)) (persist env)))))"

text \<open>The Pods to announce again: of this node, public, announced before.\<close>

definition announced_origin_pods ::
  "tools_env \<Rightarrow> auth_context \<Rightarrow> home_store \<Rightarrow> agent_tools_error + (string \<times> string) list" where
  "announced_origin_pods env ctx st =
     and_then (tenant_node env ctx st) (\<lambda>node.
     Inr (List.map_filter (\<lambda>pod.
         map_option (\<lambda>k. (pd_slug pod, pa_public_pod_url (ka_announcement k)))
           (om_get (st_known_pod_announcements (hs_core st)) (nd_id node, pd_slug pod)))
       (filter (\<lambda>pod. pd_tenant_id pod = ctx_tenant_id ctx \<and> pd_visibility pod = Public \<and> \<not> is_remote pod node)
         (uuid_values env (st_pods (hs_core st))))))"

fun announce_each ::
  "tools_env \<Rightarrow> draws \<Rightarrow> auth_context \<Rightarrow> time \<Rightarrow> nat \<Rightarrow> (string \<times> string) list \<Rightarrow> pod_announcement list tool" where
  "announce_each env d ctx now i [] = ret []"
| "announce_each env d ctx now i ((slug, url) # targets) =
     bind_tool (pod_announcement_at env (fst (d i)) ctx slug url now) (\<lambda>a.
     bind_tool (announce_each env d ctx now (Suc i) targets) (\<lambda>rest. ret (a # rest)))"

definition refresh_origin_pod_announcements ::
  "tools_env \<Rightarrow> draws \<Rightarrow> auth_context \<Rightarrow> time \<Rightarrow> pod_announcement list tool" where
  "refresh_origin_pod_announcements env d ctx now =
     bind_tool (reads (announced_origin_pods env ctx)) (announce_each env d ctx now 0)"

definition withdraw_public_pod ::
  "tools_env \<Rightarrow> draws \<Rightarrow> auth_context \<Rightarrow> string \<Rightarrow> string option \<Rightarrow> bool \<Rightarrow> time \<Rightarrow> pod_withdrawal tool" where
  "withdraw_public_pod env d ctx slug public_pod_url make_private now =
     bind_tool (reads (\<lambda>st. store_result (pod_by_slug env (hs_core st) slug (ctx_tenant_id ctx)))) (\<lambda>pod.
     bind_tool (reads (authorize_pod_role_owner env ctx (pd_id pod))) (\<lambda>_.
     bind_tool (reads (tenant_node env ctx)) (\<lambda>node.
     bind_tool (require_that (\<lambda>_. \<not> is_remote pod node)
       (invalid ''only an Origin Node can withdraw its public Pod'')) (\<lambda>_.
     bind_tool (require_that (\<lambda>_. pd_visibility pod = Public \<or> make_private)
       (AT_Store (NotFound (''public Pod '' @ slug)))) (\<lambda>_.
     bind_tool (on_core (issue_origin_pod_withdrawal (te_ext env) (fst (d 0)) node (pd_slug pod)
       public_pod_url now)) (\<lambda>withdrawal.
     bind_tool (if make_private \<and> pd_visibility pod \<noteq> Private
       then bind_tool (reads (stored_pod ''pod '' env (pd_id pod))) (\<lambda>stored.
            writes (with_visibility (pd_id pod) Private stored))
       else ret ()) (\<lambda>_.
     bind_tool (writes (record_harness_write_at ctx HW_WithdrawPublicPod (Some (pd_id pod)) (snd (d 1)) (fst (d 1)))) (\<lambda>_.
     persist env withdrawal))))))))"

section \<open>What a trusted peer delivers\<close>

definition delivering_peer ::
  "tools_env \<Rightarrow> auth_context \<Rightarrow> uuid \<Rightarrow> home_store \<Rightarrow> agent_tools_error + trusted_peer" where
  "delivering_peer env ctx peer_id st =
     and_then (authorize_harness env st ctx Cap_Administration None) (\<lambda>_.
     and_then (ok_or (AT_Store UntrustedPeer) (om_get (pst_trusted_peers (hs_pods st)) peer_id)) (\<lambda>peer.
     and_then (checked (tpe_tenant_id peer = ctx_tenant_id ctx \<and> tpe_enabled peer) (AT_Store UntrustedPeer)) (\<lambda>_.
     Inr peer)))"

definition receive_pod_announcement_at ::
  "tools_env \<Rightarrow> uuid \<times> time \<Rightarrow> auth_context \<Rightarrow> uuid \<Rightarrow> pod_announcement \<Rightarrow> time \<Rightarrow> known_pod_announcement tool" where
  "receive_pod_announcement_at env drawn ctx peer_id a now =
     bind_tool (reads (delivering_peer env ctx peer_id)) (\<lambda>_.
     bind_tool (on_core (retain_verified_pod_announcement (te_ext env) a (dp_peer peer_id) now)) (\<lambda>known.
     bind_tool (writes (record_harness_write_at ctx HW_ReceivePodAnnouncement None (snd drawn) (fst drawn))) (\<lambda>_.
     persist env known)))"

definition receive_pod_withdrawal_at ::
  "tools_env \<Rightarrow> uuid \<times> time \<Rightarrow> auth_context \<Rightarrow> uuid \<Rightarrow> pod_withdrawal \<Rightarrow> time \<Rightarrow> known_pod_withdrawal tool" where
  "receive_pod_withdrawal_at env drawn ctx peer_id w now =
     bind_tool (reads (delivering_peer env ctx peer_id)) (\<lambda>_.
     bind_tool (on_core (retain_verified_pod_withdrawal (te_ext env) w (Some peer_id) now)) (\<lambda>known.
     bind_tool (writes (\<lambda>st. set_core (fst (project_bootstrap_withdrawal (kw_withdrawal known) now (hs_core st))) st)) (\<lambda>_.
     bind_tool (writes (record_harness_write_at ctx HW_ReceivePodWithdrawal None (snd drawn) (fst drawn))) (\<lambda>_.
     persist env known))))"

end
