(* ===== verification/Pod_Calls.thy ===== *)
theory Pod_Calls
  imports Approval_Props Package_Tools Announcement_Tools
begin

text \<open>
  The tools on Pods, packages, announcements, trust and proposals as one set of calls, and runs of
  them. What a run keeps follows from the laws of a few writes and of the proposals; the locales
  \<open>request_laws\<close> (every call but those that publish) and \<open>decision_laws\<close> (every call) derive it.
\<close>

section \<open>Calls and runs\<close>

datatype pod_call =
    Call_Propose sensitive_change time
  | Call_Show uuid
  | Call_List
  | Call_Approve uuid
  | Call_Reject uuid string
  | Call_Create create_pod_request
  | Call_CreateLifecycle create_pod_lifecycle_request
  | Call_CreatePrivate create_private_pod_with_package_request
  | Call_SetVisibility uuid visibility
  | Call_Delete uuid
  | Call_Subscribe uuid
  | Call_Unsubscribe uuid
  | Call_GrantRole uuid uuid pod_role
  | Call_RevokeRole uuid uuid pod_role
  | Call_SetCurationPolicy uuid curation_policy
  | Call_AddPeer string string string
  | Call_AddNode node_info string
  | Call_RemovePeer uuid
  | Call_ChangeTrustPolicy trust_policy_change
  | Call_Revise uuid int package_files
  | Call_Patch string skill_pack_patch
  | Call_Import string package_files
  | Call_Fork string create_pod_request
  | Call_Announce string string
  | Call_RefreshAnnouncements
  | Call_Withdraw string "string option" bool
  | Call_ReceiveAnnouncement uuid pod_announcement
  | Call_ReceiveWithdrawal uuid pod_withdrawal

fun run_call :: "tools_env \<Rightarrow> codec \<Rightarrow> draws \<Rightarrow> auth_context \<Rightarrow> time \<Rightarrow> pod_call \<Rightarrow> unit tool" where
  "run_call env c d ctx now (Call_Propose change expires_at) =
     without_result (create_pending_proposal env d ctx change now expires_at)"
| "run_call env c d ctx now (Call_Show i) = without_result (pending_proposal_of env ctx i now)"
| "run_call env c d ctx now Call_List = without_result (list_pending_proposals env ctx now)"
| "run_call env c d ctx now (Call_Approve i) = without_result (approve_pending_proposal env d ctx i now)"
| "run_call env c d ctx now (Call_Reject i reason) = without_result (reject_pending_proposal env ctx i now reason)"
| "run_call env c d ctx now (Call_Create request) = without_result (request_create_pod env d ctx request now)"
| "run_call env c d ctx now (Call_CreateLifecycle request) =
     without_result (request_create_pod_lifecycle env d ctx request now)"
| "run_call env c d ctx now (Call_CreatePrivate request) =
     without_result (create_private_pod_with_package env d ctx request)"
| "run_call env c d ctx now (Call_SetVisibility pod_id visibility) =
     without_result (request_set_pod_visibility env d ctx pod_id visibility now)"
| "run_call env c d ctx now (Call_Delete pod_id) = without_result (request_delete_pod env d ctx pod_id now)"
| "run_call env c d ctx now (Call_Subscribe pod_id) = without_result (subscribe_local_pod env d ctx pod_id)"
| "run_call env c d ctx now (Call_Unsubscribe pod_id) = without_result (unsubscribe_pod env ctx pod_id)"
| "run_call env c d ctx now (Call_GrantRole pod_id user_id role) =
     without_result (request_grant_pod_role env d ctx pod_id user_id role now)"
| "run_call env c d ctx now (Call_RevokeRole pod_id user_id role) =
     without_result (request_revoke_pod_role env d ctx pod_id user_id role now)"
| "run_call env c d ctx now (Call_SetCurationPolicy pod_id policy) =
     without_result (set_pod_curation_policy env (fst (d 0)) ctx pod_id policy now)"
| "run_call env c d ctx now (Call_AddPeer name base_url key) =
     without_result (request_add_trusted_peer env d ctx name base_url key now)"
| "run_call env c d ctx now (Call_AddNode node base_url) =
     without_result (request_add_trusted_node env d ctx node base_url now)"
| "run_call env c d ctx now (Call_RemovePeer peer_id) =
     without_result (request_remove_trusted_peer env d ctx peer_id now)"
| "run_call env c d ctx now (Call_ChangeTrustPolicy change) =
     without_result (change_trust_policy env d ctx change now)"
| "run_call env c d ctx now (Call_Revise pod_id base_version files) =
     without_result (request_revise_pod_package env c d ctx pod_id base_version files now)"
| "run_call env c d ctx now (Call_Patch slug patch) = without_result (patch_skill_pack env d ctx slug patch)"
| "run_call env c d ctx now (Call_Import slug files) = without_result (import_skill_pack env c d ctx slug files)"
| "run_call env c d ctx now (Call_Fork slug request) =
     without_result (fork_skill_pack env d (\<lambda>n. d (n + 4)) ctx slug request)"
| "run_call env c d ctx now (Call_Announce slug url) =
     without_result (pod_announcement_at env (fst (d 0)) ctx slug url now)"
| "run_call env c d ctx now Call_RefreshAnnouncements =
     without_result (refresh_origin_pod_announcements env d ctx now)"
| "run_call env c d ctx now (Call_Withdraw slug url make_private) =
     without_result (withdraw_public_pod env d ctx slug url make_private now)"
| "run_call env c d ctx now (Call_ReceiveAnnouncement peer_id a) =
     without_result (receive_pod_announcement_at env (d 0) ctx peer_id a now)"
| "run_call env c d ctx now (Call_ReceiveWithdrawal peer_id w) =
     without_result (receive_pod_withdrawal_at env (d 0) ctx peer_id w now)"

text \<open>
  The identities a call draws are new: none is among the given ones, none names a stored proposal.
\<close>

definition draws_fresh :: "uuid set \<Rightarrow> home_store \<Rightarrow> draws \<Rightarrow> bool" where
  "draws_fresh used st d \<longleftrightarrow> (\<forall>n. fst (d n) \<notin> used \<and> om_get (proposals st) (fst (d n)) = None)"

text \<open>One call, successful or not, by anybody, at any time; and the calls that publish nothing.\<close>

inductive pod_step :: "tools_env \<Rightarrow> codec \<Rightarrow> uuid set \<Rightarrow> home_store \<Rightarrow> home_store \<Rightarrow> bool" for env c used where
  pod_step: "draws_fresh used st d \<Longrightarrow> run_call env c d ctx now call st = (st', r) \<Longrightarrow>
     pod_step env c used st st'"

fun is_approval :: "pod_call \<Rightarrow> bool" where
  "is_approval (Call_Approve i) = True"
| "is_approval _ = False"

inductive harness_step :: "tools_env \<Rightarrow> codec \<Rightarrow> uuid set \<Rightarrow> home_store \<Rightarrow> home_store \<Rightarrow> bool" for env c used where
  harness_step: "draws_fresh used st d \<Longrightarrow> ctx_harness_id ctx = Some h \<Longrightarrow> \<not> is_approval call \<Longrightarrow>
     run_call env c d ctx now call st = (st', r) \<Longrightarrow> harness_step env c used st st'"

section \<open>Writes outside the view\<close>

lemma tool_view_requests [view_frame]:
  "tool_view (set_pod_store (put_subscription s) st) = tool_view st"
  "tool_view (set_pod_store (\<lambda>p. p\<lparr>pst_subscriptions := om_del i (pst_subscriptions p)\<rparr>) st) = tool_view st"
  by (simp_all add: tool_view_def set_pod_store_def put_subscription_def)

lemma core_view_bootstrap [view_frame]:
  "core_view (c\<lparr>st_announcement_stream_entries := e\<rparr>) = core_view c"
  "core_view (c\<lparr>st_bootstrap_runtime := r\<rparr>) = core_view c"
  by (simp_all add: core_view_def)

lemma core_view_project_withdrawal [view_frame]:
  "core_view (fst (project_bootstrap_withdrawal w now c)) = core_view c"
  by (simp add: project_bootstrap_withdrawal_def append_withdrawal_stream_def append_stream_entry_def
      ensure_bootstrap_runtime_def unmark_bootstrap_admitted_def prune_stream_entries_def view_frame Let_def
      split: prod.splits option.splits)

lemma tool_view_project_withdrawal [view_frame]:
  "tool_view (set_core (fst (project_bootstrap_withdrawal w now (hs_core st))) st) = tool_view st"
  by (rule tool_view_core) (simp add: view_frame)

lemma writing_keeps: "I (f st) \<Longrightarrow> keeps I (g ()) \<Longrightarrow> I (fst (bind_tool (writes f) g st))"
  by (simp add: bind_writes keeps_at)

section \<open>Every call but approvals and the Owner's publications\<close>

text \<open>
  The laws ask nothing of the database but what \<open>inv_persist\<close> says: an invariant survives an attempt to
  persist, failed or not.
\<close>

locale request_laws = persisting_laws +
  fixes used :: "uuid set"
  assumes inv_hide: "om_get (st_pods (hs_core st)) pod_id = Some pod \<Longrightarrow> visibility \<noteq> Public \<Longrightarrow> I st \<Longrightarrow>
          I (with_visibility pod_id visibility pod st)"
    and inv_new: "fst drawn \<notin> used \<Longrightarrow> cq_visibility request \<noteq> Public \<Longrightarrow>
          new_pod_ok (new_pod drawn ctx request owner node)"
    and inv_propose: "draws_fresh used st d \<Longrightarrow> I st \<Longrightarrow>
          I (put_proposal (new_proposal (fst (d 0)) proposer change details now expires_at) st)"
    and inv_expire: "om_get (proposals st) i = Some p \<Longrightarrow> I st \<Longrightarrow>
          I (with_proposal i (expired_proposal now p) st)"
    and inv_reject: "om_get (proposals st) i = Some p \<Longrightarrow> pr_status p = PR_Pending \<Longrightarrow> I st \<Longrightarrow>
          I (with_proposal i (rejected_by actor now reason p) st)"
begin

text \<open>What a tool keeps of a store in which its draws are new.\<close>

definition fresh_keeps :: "draws \<Rightarrow> 'a tool \<Rightarrow> bool" where
  "fresh_keeps d m \<longleftrightarrow> (\<forall>st. draws_fresh used st d \<longrightarrow> I st \<longrightarrow> I (fst (m st)))"

lemma fresh_keeps_of: "keeps I m \<Longrightarrow> fresh_keeps d m"
  by (simp add: keeps_def fresh_keeps_def)

lemma fresh_keeps_reads: "(\<And>a. fresh_keeps d (g a)) \<Longrightarrow> fresh_keeps d (bind_tool (reads f) g)"
  by (simp add: fresh_keeps_def bind_reads split: sum.split)

lemma fresh_keeps_bind: "fresh_keeps d m \<Longrightarrow> (\<And>a. keeps I (f a)) \<Longrightarrow> fresh_keeps d (bind_tool m f)"
  by (fastforce simp: fresh_keeps_def keeps_def bind_tool_def split: prod.splits sum.splits)

lemma fresh_keeps_if: "(b \<Longrightarrow> fresh_keeps d m) \<Longrightarrow> (\<not> b \<Longrightarrow> fresh_keeps d n) \<Longrightarrow> fresh_keeps d (if b then m else n)"
  by simp

lemma fresh_keeps_require: "(\<And>u. fresh_keeps d (g u)) \<Longrightarrow> fresh_keeps d (bind_tool (require_that P e) g)"
  by (simp add: fresh_keeps_def bind_require)

lemma fresh_keeps_put_proposal:
  "fresh_keeps d (bind_tool (writes (put_proposal (new_proposal (fst (d 0)) proposer change details now expires_at)))
     (\<lambda>_. persist env a))"
  unfolding fresh_keeps_def
proof (intro allI impI)
  fix st assume "draws_fresh used st d" "I st"
  then show "I (fst (bind_tool (writes (put_proposal (new_proposal (fst (d 0)) proposer change details now expires_at)))
      (\<lambda>_. persist env a) st))"
    by (simp add: bind_writes keeps_at[OF keeps_persist] inv_propose)
qed

lemma fresh_keeps_create_proposal: "fresh_keeps d (create_pending_proposal env d ctx change now expires_at)"
  unfolding create_pending_proposal_def Let_def
  by (intro fresh_keeps_reads fresh_keeps_require fresh_keeps_put_proposal)

lemma fresh_keeps_result: "fresh_keeps d m \<Longrightarrow> fresh_keeps d (without_result m)"
  unfolding without_result_def by (intro fresh_keeps_bind keeps_ret)

lemma keeps_result: "keeps I m \<Longrightarrow> keeps I (without_result m)"
  unfolding without_result_def by (intro keep_rules)

lemma fresh_keeps_propose: "fresh_keeps d (bind_tool (propose env d ctx change now) (\<lambda>p. ret (f p)))"
  unfolding propose_def by (intro fresh_keeps_bind fresh_keeps_create_proposal keeps_ret)

lemma keeps_expire: "keeps I (updates (expire_proposal env i now))"
  by (rule keeps_updates) (auto simp: expire_proposal_eq intro: inv_expire split: option.splits)

lemma keeps_show: "keeps I (pending_proposal_of env ctx i now)"
  unfolding pending_proposal_of_def by (intro keep_rules keeps_expire keeps_persist)

lemma inv_expire_all: "I st \<Longrightarrow> expire_all env now ids st = Inr st' \<Longrightarrow> I st'"
proof (induction env now ids st rule: expire_all.induct)
  case (2 env now i ids st)
  then obtain s where s: "expire_proposal env i now st = Inr s" "expire_all env now ids s = Inr st'" by auto
  then have "I s" using 2(2) by (auto simp: expire_proposal_eq intro: inv_expire split: option.splits)
  then show ?case by (rule 2(1)[OF _ s(2)])
qed simp

lemma keeps_list: "keeps I (list_pending_proposals env ctx now)"
  unfolding list_pending_proposals_def
  by (intro keep_rules keeps_updates keeps_persist) (rule inv_expire_all)

lemma inv_expired_write: "om_get (proposals st) i = Some p \<Longrightarrow> pr_status p = PR_Pending \<Longrightarrow>
    now < pr_expires_at p \<Longrightarrow> I st \<Longrightarrow> I (with_proposal i p st)"
  using inv_expire[of st i p now] by (simp add: expired_live)

lemma keeps_live: "keeps I (live_proposal env i now)"
  unfolding live_proposal_def by (intro keep_rules keeps_expire keeps_persist)

lemma decide_keeps:
  "om_get (proposals st) i = Some p \<Longrightarrow> I (with_proposal i (f p) st) \<Longrightarrow> I (fst (decide env i f st))"
  by (simp add: decide_run keeps_at[OF keeps_persist])

lemma keeps_reject: "keeps I (reject_pending_proposal env ctx i now reason)"
proof -
  have "keeps I (bind_tool (live_proposal env i now) (\<lambda>_. decide env i (rejected_by actor now reason)))" for actor
  proof (rule keeps_bindI[OF keeps_live])
    fix st s p
    assume st: "I st" and "live_proposal env i now st = (s, Inr p)"
    then have live: "om_get (proposals st) i = Some p" "pr_status p = PR_Pending" "now < pr_expires_at p"
      "s = with_proposal i p st" by (simp_all add: live_proposal_Inr)
    then have "I s" using st by (simp add: inv_expired_write)
    then show "I (fst (decide env i (rejected_by actor now reason) s))"
      using live by (intro decide_keeps[of s i p] inv_reject) simp_all
  qed
  then show ?thesis
    unfolding reject_pending_proposal_def by (intro keeps_bind[OF keeps_require] keeps_bind[OF keeps_reads])
qed

lemma new_pod_fresh: "draws_fresh used st d \<Longrightarrow> cq_visibility request \<noteq> Public \<Longrightarrow>
    new_pod_ok (new_pod (d 0) ctx request owner node)"
  by (rule inv_new) (simp_all add: draws_fresh_def)

lemma fresh_keeps_create:
  "cq_visibility (cl_pod request) \<noteq> Public \<Longrightarrow> fresh_keeps d (create_pod_lifecycle_immediately env d ctx request mode)"
  unfolding fresh_keeps_def
  by (intro allI impI keeps_at[OF keeps_create_immediately] new_pod_fresh)

lemma fresh_keeps_create_pod: "fresh_keeps d (create_pod env d ctx request)"
  unfolding create_pod_def
  by (intro fresh_keeps_if fresh_keeps_bind fresh_keeps_create fresh_keeps_of[OF keeps_failing] keeps_ret) simp

lemma keeps_subscribe: "keeps I (subscribe_local_pod env d ctx pod_id)"
  unfolding subscribe_local_pod_def Let_def
  by (intro keep_rules keeps_view_writes keeps_audit keeps_persist view_frame)

lemma keeps_unsubscribe: "keeps I (unsubscribe_pod env ctx pod_id)"
  unfolding unsubscribe_pod_def by (intro keep_rules keeps_view_writes keeps_persist view_frame)

lemma keeps_curation_policy: "keeps I (set_pod_curation_policy env i ctx pod_id policy now)"
  unfolding set_pod_curation_policy_def
  by (intro keep_rules keeps_view_writes keeps_audit keeps_persist view_frame)

lemma keeps_trust_change_direct:
  "keeps I (bind_tool (reads f) (\<lambda>user_id. bind_tool (reads (g user_id)) (\<lambda>policy.
     bind_tool (writes (put_policy (user_id, t) policy)) (\<lambda>_. persist env (TO_Applied policy)))))"
  by (intro keep_rules keeps_view_writes keeps_persist view_frame)

lemma keeps_revise_directly: "keeps I (revise_directly env c d ctx pod_id base files patch now)"
  unfolding revise_directly_def Let_def
  by (intro keep_rules keeps_node keeps_revision keeps_refresh keeps_audit keeps_persist)

lemma keeps_patch: "keeps I (patch_skill_pack env d ctx slug patch)"
  unfolding patch_skill_pack_def Let_def
  by (intro keep_rules keeps_node keeps_revision keeps_refresh keeps_audit keeps_persist)

lemma keeps_import: "keeps I (import_skill_pack env c d ctx slug files)"
  unfolding import_skill_pack_def Let_def
  by (intro keep_rules keeps_node keeps_event keeps_refresh keeps_audit keeps_persist keeps_view_writes
      keeps_view_updates) (simp_all add: view_frame)

lemma keeps_store_fork: "keeps I (store_fork env d ctx source target)"
  unfolding store_fork_def Let_def by (intro keep_rules keeps_node keeps_revision keeps_audit keeps_persist)

lemma fresh_keeps_fork: "fresh_keeps d (fork_skill_pack env d d' ctx slug request)"
  unfolding fork_skill_pack_def
  by (intro fresh_keeps_if fresh_keeps_reads fresh_keeps_bind fresh_keeps_create_pod keeps_store_fork
      fresh_keeps_of[OF keeps_failing])

lemma keeps_announce: "keeps I (pod_announcement_at env i ctx slug url now)"
  unfolding pod_announcement_at_def by (intro keep_rules keeps_view_core keeps_persist view_frame)

lemma keeps_announce_each: "keeps I (announce_each env d ctx now i targets)"
proof (induction targets arbitrary: i)
  case (Cons target targets)
  then show ?case by (cases target) (auto intro!: keep_rules keeps_announce)
qed (simp add: keeps_ret)

lemma keeps_refresh_announcements: "keeps I (refresh_origin_pod_announcements env d ctx now)"
  unfolding refresh_origin_pod_announcements_def by (intro keep_rules keeps_announce_each)

lemma keeps_hide: "visibility \<noteq> Public \<Longrightarrow> keeps I (bind_tool (reads (stored_pod noun env pod_id)) (\<lambda>pod.
    writes (with_visibility pod_id visibility pod)))"
  by (rule keeps_reading) (auto simp: writes_def stored_pod_def intro: inv_hide)

lemma keeps_withdraw_public: "keeps I (withdraw_public_pod env d ctx slug url make_private now)"
  unfolding withdraw_public_pod_def
  by (intro keep_rules keeps_view_core keeps_audit keeps_persist keeps_hide view_frame) simp

lemma keeps_receive: 
  "keeps I (receive_pod_announcement_at env drawn ctx peer_id a now)"
  "keeps I (receive_pod_withdrawal_at env drawn ctx peer_id w now)"
  unfolding receive_pod_announcement_at_def receive_pod_withdrawal_at_def
  by (intro keep_rules keeps_view_core keeps_view_writes keeps_audit keeps_persist view_frame)+

lemma restricts_to_hidden:
  "current \<noteq> visibility \<Longrightarrow> \<not> visibility_exposure current < visibility_exposure visibility \<Longrightarrow> visibility \<noteq> Public"
  by (cases current; cases visibility) simp_all

lemma keeps_restrict:
  assumes "visibility \<noteq> Public"
  shows "keeps I (restrict_visibility env d ctx pod_id current visibility now)"
  unfolding restrict_visibility_def Let_def
proof (rule keeps_bind[OF keeps_reads], rule keeps_reading)
  fix u st pod
  assume "stored_pod ''pod '' env pod_id st = Inr pod" "I st"
  then have "I (with_visibility pod_id visibility pod st)"
    using assms by (intro inv_hide) (auto simp: stored_pod_def)
  then show "I (fst (bind_tool (writes (with_visibility pod_id visibility pod)) (\<lambda>_.
     bind_tool (if current = Public \<and> visibility \<noteq> Public
       then bind_tool (reads (tenant_node env ctx)) (\<lambda>node.
            bind_tool (on_core (issue_origin_pod_withdrawal (te_ext env) (fst (d 0)) node
              (pd_slug (pod\<lparr>pd_visibility := visibility\<rparr>)) None now)) (\<lambda>_.
            writes (record_harness_write_at ctx HW_WithdrawPublicPod (Some pod_id) (snd (d 1)) (fst (d 1)))))
       else ret ()) (\<lambda>_.
     bind_tool (writes (record_harness_write_at ctx HW_CreatePod (Some pod_id) (snd (d 2)) (fst (d 2)))) (\<lambda>_.
     persist env (VO_Updated (pod\<lparr>pd_visibility := visibility\<rparr>))))) st))"
    by (rule writing_keeps) (intro keep_rules keeps_view_core keeps_audit keeps_persist view_frame)
qed

lemma fresh_keeps_visibility:
  assumes "ctx_harness_id ctx \<noteq> None"
  shows "fresh_keeps d (request_set_pod_visibility env d ctx pod_id visibility now)"
  unfolding request_set_pod_visibility_def set_visibility_from_def
  using assms by (intro fresh_keeps_reads fresh_keeps_if fresh_keeps_of[OF keeps_failing] fresh_keeps_propose
      fresh_keeps_of[OF keeps_restrict] restricts_to_hidden) simp_all

lemma fresh_keeps_request_delete: "fresh_keeps d (request_delete_pod env d ctx pod_id now)"
  unfolding request_delete_pod_def
  by (intro fresh_keeps_reads fresh_keeps_if fresh_keeps_propose fresh_keeps_of keep_rules keeps_delete_immediately)

lemma fresh_keeps_request_create: "fresh_keeps d (request_create_pod env d ctx request now)"
  unfolding request_create_pod_def
  by (intro fresh_keeps_if fresh_keeps_propose fresh_keeps_bind fresh_keeps_create_pod keeps_ret)

lemma fresh_keeps_request_lifecycle: "fresh_keeps d (request_create_pod_lifecycle env d ctx request now)"
  unfolding request_create_pod_lifecycle_def
  by (intro fresh_keeps_if fresh_keeps_propose fresh_keeps_bind fresh_keeps_create keeps_ret)

lemma fresh_keeps_request_trust: "fresh_keeps d (change_trust_policy env d ctx change now)"
  unfolding change_trust_policy_def request_trust_policy_change_def
  by (intro fresh_keeps_if fresh_keeps_propose fresh_keeps_of[OF keeps_trust_change_direct])

lemma fresh_keeps_request_revise: "fresh_keeps d (request_revise_pod_package env c d ctx pod_id base files now)"
  unfolding request_revise_pod_package_def Let_def
  by (intro fresh_keeps_reads fresh_keeps_if fresh_keeps_bind fresh_keeps_create_proposal keeps_ret
      fresh_keeps_of[OF keeps_revise_directly])

lemmas fresh_keeps_calls =
  fresh_keeps_create_proposal fresh_keeps_request_create fresh_keeps_request_lifecycle fresh_keeps_request_delete
  fresh_keeps_request_trust fresh_keeps_request_revise fresh_keeps_fork

lemmas keeps_calls =
  keeps_show keeps_list keeps_reject keeps_subscribe keeps_unsubscribe keeps_curation_policy keeps_patch keeps_import
  keeps_announce keeps_refresh_announcements keeps_withdraw_public keeps_receive

fun may_publish :: "pod_call \<Rightarrow> bool" where
  "may_publish (Call_Approve i) = True"
| "may_publish (Call_SetVisibility pod_id visibility) = True"
| "may_publish _ = False"

lemma fresh_keeps_quiet_call:
  assumes "\<not> may_publish call"
  shows "fresh_keeps d (run_call env c d ctx now call)"
proof (cases call)
  case (Call_CreatePrivate request)
  then show ?thesis
    by (simp add: create_private_pod_with_package_def fresh_keeps_result fresh_keeps_create)
next
  case (Call_AddNode node base_url)
  then show ?thesis
    by (simp add: request_add_trusted_node_def propose_def fresh_keeps_result fresh_keeps_create_proposal
        fresh_keeps_of[OF keeps_failing])
qed (use assms in \<open>simp_all add: fresh_keeps_result fresh_keeps_calls fresh_keeps_of[OF keeps_result] keeps_calls
    propose_def request_grant_pod_role_def request_revoke_pod_role_def request_add_trusted_peer_def
    request_remove_trusted_peer_def\<close>)

lemma harness_step_keeps:
  assumes "harness_step env c used st st'" and "I st"
  shows "I st'"
  using assms(1)
proof cases
  case (harness_step d ctx h call now r)
  have "fresh_keeps d (run_call env c d ctx now call)"
  proof (cases "may_publish call")
    case True
    then obtain pod_id visibility where "call = Call_SetVisibility pod_id visibility"
      using harness_step(3) by (cases call) simp_all
    then show ?thesis using harness_step(2) by (simp add: fresh_keeps_result fresh_keeps_visibility)
  qed (rule fresh_keeps_quiet_call)
  then have "I (fst (run_call env c d ctx now call st))"
    using harness_step(1) assms(2) by (simp add: fresh_keeps_def)
  then show ?thesis using harness_step(4) by simp
qed

end

section \<open>Every call\<close>

locale decision_laws = request_laws + visible_laws +
  assumes inv_new_public: "fst drawn \<notin> used \<Longrightarrow> new_pod_ok (new_pod drawn ctx request owner node)"
    and inv_accept: "om_get (proposals st) i = Some p \<Longrightarrow> pr_status p = PR_Pending \<Longrightarrow> I st \<Longrightarrow>
          I (with_proposal i (accepted_by actor now p) st)"
    and inv_grant: "om_get (proposals st) i = Some p \<Longrightarrow> pr_status p = PR_Pending \<Longrightarrow>
          pr_requested_change p = SC_GrantPodRole pod_id user_id role \<Longrightarrow>
          validate_structured_diff env p st = Inr () \<Longrightarrow> I st \<Longrightarrow>
          I (st\<lparr>hs_pod_roles := granted_roles pod_id user_id role granted_at (hs_pod_roles st)\<rparr>)"
    and inv_revoke: "om_get (proposals st) i = Some p \<Longrightarrow> pr_status p = PR_Pending \<Longrightarrow>
          pr_requested_change p = SC_RevokePodRole pod_id user_id role \<Longrightarrow>
          validate_structured_diff env p st = Inr () \<Longrightarrow> I st \<Longrightarrow>
          I (st\<lparr>hs_pod_roles := revoked_roles pod_id user_id role (hs_pod_roles st)\<rparr>)"
begin

lemma applied_keeps:
  assumes st: "I st" and d: "fst (d 0) \<notin> used"
    and p: "om_get (proposals st) i = Some p" "pr_status p = PR_Pending"
    and v: "validate_structured_diff env p st = Inr ()"
    and run: "apply_sensitive_change env d ctx (pr_proposer p) (pr_requested_change p) st = (s, Inr ())"
  shows "I s"
proof (cases "\<exists>pod user role. pr_requested_change p = SC_GrantPodRole pod user role \<or>
    pr_requested_change p = SC_RevokePodRole pod user role")
  case True
  then show ?thesis
    using run inv_grant[OF p _ v st] inv_revoke[OF p _ v st]
    by (auto simp: writes_def updates_def apply_revoke_role_def Let_def split: sum.splits)
next
  case False
  have "keeps I (apply_sensitive_change env d ctx (pr_proposer p) (pr_requested_change p))"
    by (rule keeps_apply) (use False inv_new_public[OF d] in auto)
  from keepsD[OF this run st] show ?thesis .
qed

lemma decided_keeps:
  assumes st: "I st" and d: "fst (d 0) \<notin> used"
    and p: "om_get (proposals st) i = Some p" "pr_status p = PR_Pending"
  shows "I (fst (bind_tool (reads (validate_structured_diff env p)) (\<lambda>_.
     bind_tool (staged (apply_sensitive_change env d ctx (pr_proposer p) (pr_requested_change p))) (\<lambda>_.
     decide env i (accepted_by actor now))) st))"
proof (cases "validate_structured_diff env p st")
  case (Inr u)
  obtain s r where run: "apply_sensitive_change env d ctx (pr_proposer p) (pr_requested_change p) st = (s, r)"
    by fastforce
  show ?thesis
  proof (cases r)
    case (Inr w)
    then have "I s" using applied_keeps[where d = d and i = i and p = p and ctx = ctx and s = s, OF st d p]
        run \<open>validate_structured_diff env p st = Inr u\<close> by simp
    moreover have "om_get (proposals s) i = Some p" using apply_leaves_proposals[OF run] p by simp
    ultimately have "I (fst (decide env i (accepted_by actor now) s))"
      using p by (intro decide_keeps[of s i p] inv_accept)
    then show ?thesis using run Inr \<open>validate_structured_diff env p st = Inr u\<close>
      by (simp add: bind_reads bind_staged(1))
  qed (use st run \<open>validate_structured_diff env p st = Inr u\<close> in \<open>simp add: bind_reads bind_staged(2)\<close>)
qed (use st in \<open>simp add: bind_reads\<close>)

lemma fresh_keeps_approve: "fresh_keeps d (approve_pending_proposal env d ctx i now)"
  unfolding approve_pending_proposal_def
proof (rule fresh_keeps_reads)
  fix actor
  show "fresh_keeps d (bind_tool (live_proposal env i now) (\<lambda>p.
     bind_tool (reads (validate_structured_diff env p)) (\<lambda>_.
     bind_tool (staged (apply_sensitive_change env d ctx (pr_proposer p) (pr_requested_change p))) (\<lambda>_.
     decide env i (accepted_by actor now)))))"
    unfolding fresh_keeps_def
  proof (intro allI impI)
    fix st assume "draws_fresh used st d" and st: "I st"
    then have d: "fst (d 0) \<notin> used" by (simp add: draws_fresh_def)
    obtain s r where l: "live_proposal env i now st = (s, r)" by fastforce
    have s: "I s" using keepsD[OF keeps_live l st] .
    show "I (fst (bind_tool (live_proposal env i now) (\<lambda>p.
        bind_tool (reads (validate_structured_diff env p)) (\<lambda>_.
        bind_tool (staged (apply_sensitive_change env d ctx (pr_proposer p) (pr_requested_change p))) (\<lambda>_.
        decide env i (accepted_by actor now)))) st))"
    proof (cases r)
      case (Inr p)
      have "om_get (proposals s) i = Some p" "pr_status p = PR_Pending"
        using l Inr by (auto simp: live_proposal_Inr)
      from decided_keeps[where st = s and d = d and i = i and p = p and ctx = ctx and actor = actor and now = now, OF s d this] show ?thesis using l Inr by (simp add: bind_tool_def[of "live_proposal env i now"])
    qed (use l s in \<open>simp add: bind_tool_def\<close>)
  qed
qed

lemma keeps_expand_directly: "keeps I (expand_visibility_directly env d ctx pod_id visibility)"
  unfolding expand_visibility_directly_def
  by (intro keep_rules keeps_expand keeps_audit keeps_persist)

lemma fresh_keeps_any_visibility: "fresh_keeps d (request_set_pod_visibility env d ctx pod_id visibility now)"
  unfolding request_set_pod_visibility_def set_visibility_from_def
  by (intro fresh_keeps_reads fresh_keeps_if fresh_keeps_of[OF keeps_failing] fresh_keeps_propose
      fresh_keeps_of[OF keeps_restrict] fresh_keeps_of[OF keeps_expand_directly] restricts_to_hidden)

lemma fresh_keeps_call: "fresh_keeps d (run_call env c d ctx now call)"
proof (cases "may_publish call")
  case True
  then show ?thesis
    by (cases call) (simp_all add: fresh_keeps_result fresh_keeps_approve fresh_keeps_any_visibility)
qed (rule fresh_keeps_quiet_call)

lemma pod_step_keeps: "pod_step env c used st st' \<Longrightarrow> I st \<Longrightarrow> I st'"
  using fresh_keeps_call unfolding fresh_keeps_def by (metis fst_conv pod_step.cases)

lemma pod_steps_keep: "(pod_step env c used)\<^sup>*\<^sup>* st st' \<Longrightarrow> I st \<Longrightarrow> I st'"
  by (induction rule: rtranclp_induct) (blast intro: pod_step_keeps)+

end

text \<open>Nothing is asked of a run that is to keep nothing.\<close>

lemma no_laws: "decision_laws (\<lambda>_. True) env (\<lambda>_. True) used"
  by unfold_locales simp_all

end
