(* ===== verification/Proposal_Props.thy ===== *)
theory Proposal_Props
  imports Pod_Calls
begin

text \<open>
  The life of a proposal over any run of the calls: it is decided once, by somebody other than the
  harness that made it, and an approval that fails leaves no trace but an expiry.
\<close>

section \<open>How proposals evolve\<close>

text \<open>A proposal that is no longer pending stays as it is; a pending one keeps what it proposes.\<close>

definition same_proposal :: "pending_proposal \<Rightarrow> pending_proposal \<Rightarrow> bool" where
  "same_proposal p p' \<longleftrightarrow>
     pr_id p' = pr_id p \<and> pr_requested_change p' = pr_requested_change p \<and>
     pr_affected_resources p' = pr_affected_resources p \<and>
     pr_expected_consequences p' = pr_expected_consequences p \<and>
     pr_structured_diff p' = pr_structured_diff p \<and> pr_proposer p' = pr_proposer p \<and>
     pr_user_id p' = pr_user_id p \<and> pr_tenant_id p' = pr_tenant_id p \<and>
     pr_created_at p' = pr_created_at p \<and> pr_expires_at p' = pr_expires_at p"

definition advances :: "pending_proposal \<Rightarrow> pending_proposal \<Rightarrow> bool" where
  "advances p p' \<longleftrightarrow>
     p' = p \<or> (pr_status p = PR_Pending \<and> pr_status p' \<noteq> PR_Pending \<and> same_proposal p p')"

lemma advances_refl [simp]: "advances p p"
  by (simp add: advances_def)

lemma advances_trans: "advances p q \<Longrightarrow> advances q r \<Longrightarrow> advances p r"
  unfolding advances_def by blast

lemma advances_expired [simp]: "advances p (expired_proposal now p)"
  by (simp add: advances_def expired_proposal_def same_proposal_def)

lemma advances_accepted: "pr_status p = PR_Pending \<Longrightarrow> advances p (accepted_by actor now p)"
  by (simp add: advances_def accepted_by_def same_proposal_def)

lemma advances_rejected: "pr_status p = PR_Pending \<Longrightarrow> advances p (rejected_by actor now reason p)"
  by (simp add: advances_def rejected_by_def same_proposal_def)

definition evolves :: "(uuid, pending_proposal) omap \<Rightarrow> (uuid, pending_proposal) omap \<Rightarrow> bool" where
  "evolves m m' \<longleftrightarrow> (\<forall>i p. om_get m i = Some p \<longrightarrow> (\<exists>p'. om_get m' i = Some p' \<and> advances p p'))"

lemma evolves_refl [simp]: "evolves m m"
  by (simp add: evolves_def)

lemma evolves_trans: "evolves m m' \<Longrightarrow> evolves m' m'' \<Longrightarrow> evolves m m''"
  unfolding evolves_def by (meson advances_trans)

lemma evolves_put: "om_get m i = Some p \<Longrightarrow> advances p p' \<Longrightarrow> evolves m (om_put i p' m)"
  by (simp add: evolves_def)

lemma evolves_fresh: "om_get m i = None \<Longrightarrow> evolves m (om_put i p m)"
  by (auto simp: evolves_def)

lemma evolves_with: "om_get (proposals st) i = Some p \<Longrightarrow> advances p p' \<Longrightarrow> evolves m (proposals st) \<Longrightarrow>
    evolves m (proposals (with_proposal i p' st))"
  by (simp add: evolves_trans[OF _ evolves_put])

lemma put_evolves:
  "draws_fresh used st d \<Longrightarrow>
     evolves (proposals st) (proposals (put_proposal (new_proposal (fst (d 0)) proposer change details now expires_at) st))"
  by (simp add: draws_fresh_def put_proposal_def new_proposal_def Let_def evolves_fresh split: prod.splits)

lemma propose_frame [simp]:
  "hs_core (put_proposal p st) = hs_core st"
  "hs_pod_roles (put_proposal p st) = hs_pod_roles st"
  by (simp_all add: put_proposal_def Let_def)

text \<open>The proposals evolve over any run in which what the database reloads has evolved from them, too.\<close>

lemma evolve_laws:
  assumes "reload_holds env (\<lambda>s. evolves m (proposals s))"
  shows "decision_laws (\<lambda>st. evolves m (proposals st)) env (\<lambda>_. True) used"
proof
  show "evolves m (proposals (fst (persisted env () st)))" if "evolves m (proposals st)" for st
    by (rule reload_persisted[where J = "\<lambda>s. evolves m (proposals s)", OF assms that])
next
  fix d st proposer change details now expires_at
  assume "draws_fresh used st d" "evolves m (proposals st)"
  then show "evolves m (proposals (put_proposal (new_proposal (fst (d 0)) proposer change details now expires_at) st))"
    by (blast intro: evolves_trans put_evolves)
qed (auto simp: tool_view_eqs simp del: with_proposal_frame elim: log_eventE
    intro: evolves_with advances_accepted advances_rejected)

interpretation proposals_evolve: decision_laws
  "\<lambda>st. reload_holds env (\<lambda>s. evolves m (proposals s)) \<longrightarrow> evolves m (proposals st)" env "\<lambda>_. True" used
  for env m used
  by (cases "reload_holds env (\<lambda>s. evolves m (proposals s))") (simp_all add: evolve_laws no_laws)

section \<open>A sample\<close>

text \<open>A Home Node where harness 5 has proposed, for User 3, to block Node 9.\<close>

definition sample_proposal :: pending_proposal where
  "sample_proposal =
     \<lparr> pr_id = 7, pr_requested_change = SC_ChangeTrustPolicy (TC_BlockNode 9),
       pr_affected_resources = [RS_TrustPolicy 3], pr_expected_consequences = [],
       pr_structured_diff =
         [\<lparr> rd_resource = RS_TrustPolicy 3, rd_before = json_trust_policy (trust_policy_new 3 None), rd_after = JNull \<rparr>],
       pr_proposer = 5, pr_user_id = 3, pr_tenant_id = None, pr_created_at = 0, pr_expires_at = 100,
       pr_status = PR_Pending, pr_decided_by = None, pr_decided_at = None, pr_rejection_reason = None \<rparr>"

definition sample_desk :: home_store where
  "sample_desk = with_proposal 7 sample_proposal
     (sample_home\<lparr>hs_agent_harnesses := om_put 5
        \<lparr> ah_id = 5, ah_user_id = 3, ah_tenant_id = None, ah_label = ''l'', ah_kind = Interactive,
          ah_grant = \<lparr> hg_capabilities = [Cap_Administration], hg_pod_ids = None \<rparr>,
          ah_created_at = 0, ah_revoked_at = None \<rparr> []\<rparr>)"

lemma sample_desk_proposal [simp]: "om_get (proposals sample_desk) 7 = Some sample_proposal"
  by (simp add: sample_desk_def)

lemma sample_desk_owner: "authorize_independent_approver sample_tools ctx 7 sample_desk = Inr actor \<longleftrightarrow>
    may_decide sample_desk ctx sample_proposal actor \<and> (\<exists>h. harness_for_context sample_desk ctx = Inr h)"
  by (simp add: approver_may_decide)

lemma sample_desk_ok: "authorize_independent_approver sample_tools sample_owner 7 sample_desk = Inr (DA_Owner 3)"
  by (simp add: sample_desk_owner may_decide_def sample_owner_def sample_proposal_def harness_for_context_def)

lemma sample_diff_holds: "validate_structured_diff sample_tools sample_proposal (with_proposal 7 sample_proposal sample_desk) = Inr ()"
  by (simp add: validate_structured_diff_def checked_def json_eq_def sample_proposal_def sample_desk_def stored_policy_def
      with_proposal_def Let_def sample_home_def empty_home_store_def empty_pod_store_def)

lemma sample_change_applies:
  "\<exists>s. apply_sensitive_change sample_tools d sample_owner 5 (SC_ChangeTrustPolicy (TC_BlockNode 9))
      (with_proposal 7 sample_proposal sample_desk) = (s, Inr ())"
  by (simp add: apply_change_trust_policy_def updates_def and_then_def ok_or_def sample_desk_def Let_def om_get_def)

lemma sample_approved:
  "\<exists>st'. approve_pending_proposal sample_tools d sample_owner 7 10 sample_desk =
     (st', Inr (accepted_by (DA_Owner 3) 10 sample_proposal))"
proof -
  have p: "pr_status sample_proposal = PR_Pending" "10 < pr_expires_at sample_proposal"
    "pr_proposer sample_proposal = 5" "pr_requested_change sample_proposal = SC_ChangeTrustPolicy (TC_BlockNode 9)"
    by (simp_all add: sample_proposal_def)
  obtain s where "apply_sensitive_change sample_tools d sample_owner 5 (SC_ChangeTrustPolicy (TC_BlockNode 9))
      (with_proposal 7 sample_proposal sample_desk) = (s, Inr ())"
    using sample_change_applies by blast
  then show ?thesis
    by (simp only: approve_live_eq[OF sample_tools_ok sample_desk_ok sample_desk_proposal p(1,2)] p(3,4)
        sample_diff_holds sum.case prod.case) simp
qed

lemma sample_desk_step: "\<exists>st'. pod_step sample_tools c {} sample_desk st' \<and>
    om_get (proposals st') 7 = Some (accepted_by (DA_Owner 3) 10 sample_proposal)"
proof -
  obtain st' where a: "approve_pending_proposal sample_tools (\<lambda>_. (2, 0)) sample_owner 7 10 sample_desk =
     (st', Inr (accepted_by (DA_Owner 3) 10 sample_proposal))"
    using sample_approved by blast
  have p: "om_get (proposals st') 7 = Some (accepted_by (DA_Owner 3) 10 sample_proposal)"
    using sample_tools_ok a by (cases rule: approve_cases) auto
  have "draws_fresh {} sample_desk (\<lambda>_. (2, 0))"
    by (simp add: draws_fresh_def sample_desk_def sample_home_def empty_home_store_def empty_pod_store_def om_get_def)
  moreover have "run_call sample_tools c (\<lambda>_. (2, 0)) sample_owner 10 (Call_Approve 7) sample_desk = (st', Inr ())"
    by (simp add: without_result_def bind_tool_def a ret_def)
  ultimately show ?thesis using p by (blast intro: pod_step)
qed

section \<open>Properties\<close>

text \<open>C6: Approval is independent, while the database accepts every write. An approval that succeeds finds
  the proposal pending and unexpired and its recorded difference true of the store, and is decided by the proposal's own User acting
  directly, or by another of that User's harnesses: live, interactive, granted Approval over every
  affected resource, and not the harness that made the proposal. The answer is the stored proposal,
  accepted, with who decided it and when.
\<close>

theorem approval_is_independent:
  assumes "persistence_ok env" and "approve_pending_proposal env d ctx i now st = (st', Inr p')"
  shows "\<exists>p actor. om_get (proposals st) i = Some p \<and> pr_status p = PR_Pending \<and> now < pr_expires_at p \<and>
     may_decide st ctx p actor \<and>
     (\<forall>difference \<in> set (pr_structured_diff p).
        json_eq (current_value env (pr_tenant_id p) st (rd_resource difference)) (rd_before difference)) \<and>
     p' = accepted_by actor now p \<and> om_get (proposals st') i = Some p'"
  using assms
proof (cases rule: approve_cases)
  case (applied p actor s)
  have "current_value env t (with_proposal i p st) x = current_value env t st x" for t x
    by (cases x) (simp_all add: stored_policy_def curation_policy_of_def placed_in_pod_def with_proposal_def Let_def)
  then show ?thesis
    using applied by (auto simp: validate_structured_diff_def list_all_iff intro!: exI[of _ p])
qed simp_all

theorem approval_is_independent_witness:
  "\<exists>st' p actor. approve_pending_proposal sample_tools (\<lambda>_. (2, 0)) sample_owner 7 10 sample_desk =
       (st', Inr (accepted_by actor 10 p)) \<and> may_decide sample_desk sample_owner p actor \<and>
     om_get (proposals st') 7 = Some (accepted_by actor 10 p)"
proof -
  obtain st' where a: "approve_pending_proposal sample_tools (\<lambda>_. (2, 0)) sample_owner 7 10 sample_desk =
     (st', Inr (accepted_by (DA_Owner 3) 10 sample_proposal))"
    using sample_approved by blast
  show ?thesis using approval_is_independent[OF sample_tools_ok a] a by metis
qed

text \<open>C7: A proposal is decided once. Over any run of the calls of theory Pod_Calls, by anybody and failed
  ones included, every proposal stays, keeps what it proposes and for whom, and changes at most once,
  from pending to accepted, rejected or expired: one that is not pending is the same at the end. Writes
  may fail; of the store the database reloads after a failed write, it is required that it still has
  every proposal of the start, as it was then or decided since.
\<close>

theorem proposal_decided_once:
  assumes "reload_holds env (\<lambda>s. evolves (proposals st) (proposals s))"
    and "(pod_step env c used)\<^sup>*\<^sup>* st st'" and "om_get (proposals st) i = Some p"
  shows "\<exists>p'. om_get (proposals st') i = Some p' \<and> advances p p' \<and> (pr_status p \<noteq> PR_Pending \<longrightarrow> p' = p)"
proof -
  have "evolves (proposals st) (proposals st')"
    using proposals_evolve.pod_steps_keep[OF assms(2)] assms(1) by (metis evolves_refl)
  then show ?thesis using assms(3) unfolding evolves_def advances_def by blast
qed

theorem proposal_decided_once_witness:
  "\<forall>c. \<exists>st' p'. pod_step sample_tools c {} sample_desk st' \<and> om_get (proposals st') 7 = Some p' \<and>
     advances sample_proposal p' \<and> pr_status p' = PR_Accepted"
proof
  fix c
  obtain st' where s: "pod_step sample_tools c {} sample_desk st'"
    "om_get (proposals st') 7 = Some (accepted_by (DA_Owner 3) 10 sample_proposal)"
    using sample_desk_step by blast
  show "\<exists>st' p'. pod_step sample_tools c {} sample_desk st' \<and> om_get (proposals st') 7 = Some p' \<and>
     advances sample_proposal p' \<and> pr_status p' = PR_Accepted"
    using proposal_decided_once[OF persistence_reload[OF sample_tools_ok] r_into_rtranclp[of "pod_step sample_tools c {}", OF s(1)] sample_desk_proposal] s
    by (intro exI[of _ st'] exI[of _ "accepted_by (DA_Owner 3) 10 sample_proposal"]) (simp add: accepted_by_def)
qed

text \<open>C8: An approval that fails applies nothing. Whatever step of the change fails, the store is as it
  was before the call, except that a proposal whose time had come is recorded as expired; and when the
  step that fails is the write to the database, the store is the one the database reloaded, never the
  changed one.
\<close>

theorem failed_approval_applies_nothing:
  assumes "approve_pending_proposal env d ctx i now st = (st', Inl e)" and "om_ok (proposals st)"
  shows "st' = st \<or>
     (\<exists>p. om_get (proposals st) i = Some p \<and> pr_status p = PR_Pending \<and> pr_expires_at p \<le> now \<and>
        st' = with_proposal i (p\<lparr>pr_status := PR_Expired, pr_decided_at := Some now\<rparr>) st) \<or>
     (\<exists>database s message. te_persistence env = Some database \<and> database s = Some (message, st') \<and>
        e = AT_Persistence message)"
  using assms(1)
proof (cases rule: approve_failed)
  case (undecided p)
  have "with_proposal i p st = st"
    using om.put_same[OF assms(2) undecided(1)] by (simp add: with_proposal_def Let_def)
  then show ?thesis using undecided by (auto simp: expired_proposal_def)
qed (simp_all add: failed_write_def)

text \<open>A database that writes nothing and reloads the desk as it was.\<close>

definition sample_full_disk :: tools_env where
  "sample_full_disk = sample_tools\<lparr>te_persistence := Some (\<lambda>_. Some (''disk full'', sample_desk))\<rparr>"

theorem failed_approval_applies_nothing_witness:
  "approve_pending_proposal sample_full_disk (\<lambda>_. (2, 0)) sample_owner 7 100 sample_desk =
     (sample_desk, Inl (AT_Persistence ''disk full'')) \<and>
   (sample_desk = sample_desk \<or>
     (\<exists>p. om_get (proposals sample_desk) 7 = Some p \<and> pr_status p = PR_Pending \<and> pr_expires_at p \<le> 100 \<and>
        sample_desk = with_proposal 7 (p\<lparr>pr_status := PR_Expired, pr_decided_at := Some 100\<rparr>) sample_desk) \<or>
     (\<exists>database s message. te_persistence sample_full_disk = Some database \<and>
        database s = Some (message, sample_desk) \<and>
        (AT_Persistence ''disk full'' :: agent_tools_error) = AT_Persistence message))"
proof -
  have auth: "authorize_independent_approver sample_full_disk sample_owner 7 sample_desk = Inr (DA_Owner 3)"
    by (simp add: approver_may_decide may_decide_def sample_owner_def sample_proposal_def harness_for_context_def)
  have "live_proposal sample_full_disk 7 100 sample_desk = (sample_desk, Inl (AT_Persistence ''disk full''))"
    by (simp add: live_proposal_def bind_tool_def updates_def expire_proposal_eq reads_def stored_proposal_def ok_or_def
        persist_def persisted_def persist_locked_def sample_full_disk_def expired_proposal_def sample_proposal_def)
  then have run: "approve_pending_proposal sample_full_disk (\<lambda>_. (2, 0)) sample_owner 7 100 sample_desk =
      (sample_desk, Inl (AT_Persistence ''disk full''))"
    by (simp add: approve_pending_proposal_def bind_reads auth bind_run(2))
  have "om_ok (proposals sample_desk)"
    by (simp add: sample_desk_def sample_home_def empty_home_store_def empty_pod_store_def om_ok_def)
  from run failed_approval_applies_nothing[OF run this] show ?thesis by (rule conjI)
qed

end
