(* ===== verification/Pod_Invariants.thy ===== *)
theory Pod_Invariants
  imports Proposal_Props
begin

text \<open>
  What every run of the calls keeps: the signed history of each Pod stays one chain, and a harness
  alone makes nothing public.
\<close>

section \<open>The chain of events\<close>

text \<open>Every stored node is under its identity and holds a key pair.\<close>

definition keys_known :: "tools_env \<Rightarrow> (uuid, node_identity) omap \<Rightarrow> bool" where
  "keys_known env nodes \<longleftrightarrow>
     (\<forall>i node. om_get nodes i = Some node \<longrightarrow> nd_id node = i \<and> (\<exists>sk. key_pair_of (te_ext env) node sk))"

abbreviation nodes_of :: "home_store \<Rightarrow> (uuid, node_identity) omap" where
  "nodes_of st \<equiv> st_node_identities (hs_core st)"

abbreviation log_of :: "home_store \<Rightarrow> event_log_row list" where
  "log_of st \<equiv> st_event_log (hs_core st)"

lemma tenant_node_stored: "tenant_node env ctx st = Inr node \<Longrightarrow> \<exists>i. om_get (nodes_of st) i = Some node"
  unfolding tenant_node_def node_for_tenant_def Let_def
  by (auto split: option.splits dest!: find_in_set(1) intro: values_in_order_stored)

definition chain_kept :: "tools_env \<Rightarrow> (uuid, node_identity) omap \<Rightarrow> home_store \<Rightarrow> bool" where
  "chain_kept env nodes st \<longleftrightarrow> nodes_of st = nodes \<and> chained env nodes (log_of st)"

lemma chain_kept_event:
  assumes "signatures_sound (te_ext env)" and keys: "keys_known env nodes"
    and "chain_kept env nodes s" and "tenant_node env ctx s = Inr node" and kept: "chain_kept env nodes st"
    and log: "log_event env drawn node ty slug payload st = Inr st'"
  shows "chain_kept env nodes st'"
proof -
  obtain i where "om_get nodes i = Some node"
    using tenant_node_stored[OF assms(4)] assms(3) by (auto simp: chain_kept_def)
  moreover from this obtain sk where "nd_id node = i" and sk: "key_pair_of (te_ext env) node sk"
    using keys by (auto simp: keys_known_def)
  ultimately have node: "om_get (nodes_of st) (nd_id node) = Some node"
    using kept by (simp add: chain_kept_def)
  have "nodes_of st' = nodes_of st" using log by (auto elim: log_eventE)
  then show ?thesis
    using log_event_chained[OF assms(1) sk node log] kept by (simp add: chain_kept_def)
qed

lemma chain_writes [simp]:
  "log_of (add_pod pod st) = log_of st" "nodes_of (add_pod pod st) = nodes_of st"
  "log_of (with_visibility pod_id visibility pod st) = log_of st"
  "nodes_of (with_visibility pod_id visibility pod st) = nodes_of st"
  "log_of (purge_pod pod_id st) = log_of st" "nodes_of (purge_pod pod_id st) = nodes_of st"
  by (simp_all add: set_pods_def set_skill_packs_def add_pod_def with_visibility_def purge_pod_def Let_def
      split: option.splits)

text \<open>Kept by a run whose database reloads only stores with the same nodes and a chain of events.\<close>

lemma chain_laws:
  assumes "signatures_sound (te_ext env)" and "keys_known env nodes" and "reload_holds env (chain_kept env nodes)"
  shows "decision_laws (chain_kept env nodes) env (\<lambda>_. True) used"
proof
  show "chain_kept env nodes (fst (persisted env () st))" if "chain_kept env nodes st" for st
    by (rule reload_persisted[where J = "chain_kept env nodes", OF assms(3) that])
next
  fix s ctx node st drawn ty slug payload st'
  assume "chain_kept env nodes s" "tenant_node env ctx s = Inr node" "chain_kept env nodes st"
    "log_event env drawn node ty slug payload st = Inr st'"
  then show "chain_kept env nodes st'" by (rule chain_kept_event[OF assms(1,2)])
qed (auto simp: chain_kept_def tool_view_eqs)

definition chain_guard :: "tools_env \<Rightarrow> (uuid, node_identity) omap \<Rightarrow> bool" where
  "chain_guard env nodes \<longleftrightarrow>
     signatures_sound (te_ext env) \<and> keys_known env nodes \<and> reload_holds env (chain_kept env nodes)"

lemma guarded_chain_laws:
  "decision_laws (\<lambda>st. chain_guard env nodes \<longrightarrow> chain_kept env nodes st) env (\<lambda>_. True) used"
proof (cases "chain_guard env nodes")
  case True
  then have "decision_laws (chain_kept env nodes) env (\<lambda>_. True) used"
    by (simp add: chain_guard_def chain_laws)
  with True show ?thesis by simp
qed (simp add: no_laws)

interpretation event_chain: decision_laws "\<lambda>st. chain_guard env nodes \<longrightarrow> chain_kept env nodes st" env "\<lambda>_. True" used
  for env nodes used
  by (rule guarded_chain_laws)

section \<open>Publication\<close>

definition public_pods :: "home_store \<Rightarrow> uuid set" where
  "public_pods st = {i. \<exists>pod. om_get (st_pods (hs_core st)) i = Some pod \<and> pd_visibility pod = Public}"

lemma public_pods_writes:
  "pd_visibility pod \<noteq> Public \<Longrightarrow> public_pods (add_pod pod st) \<subseteq> public_pods st"
  "visibility \<noteq> Public \<Longrightarrow> public_pods (with_visibility pod_id visibility pod st) \<subseteq> public_pods st"
  "public_pods (purge_pod pod_id st) \<subseteq> public_pods st"
  by (auto simp: public_pods_def set_pods_def set_skill_packs_def add_pod_def with_visibility_def purge_pod_def Let_def
      split: option.splits if_splits)

lemma public_pods_view: "tool_view st' = tool_view st \<Longrightarrow> public_pods st' = public_pods st"
  by (simp add: tool_view_eqs public_pods_def)

lemma public_pods_event: "log_event env drawn node ty slug payload st = Inr st' \<Longrightarrow> public_pods st' = public_pods st"
  by (auto simp: public_pods_def elim!: log_eventE)

lemma public_pods_frame [simp]:
  "public_pods (st\<lparr>hs_harness_write_audit := rows\<rparr>) = public_pods st"
  "public_pods (with_proposal i p st) = public_pods st"
  by (simp_all add: public_pods_def)

lemma publication_laws:
  assumes "reload_holds env (\<lambda>s. public_pods s \<subseteq> S)"
  shows "request_laws (\<lambda>st. public_pods st \<subseteq> S) env (\<lambda>pod. pd_visibility pod \<noteq> Public) used"
proof (unfold_locales, goal_cases)
  case (2 st' st)
  then show ?case by (simp add: public_pods_view[OF 2(1)])
next
  case (3 s ctx node st drawn ty slug payload st')
  then show ?case by (simp add: public_pods_event[OF 3(4)])
next
  case (4 pod st)
  then show ?case using public_pods_writes(1) by blast
next
  case (5 st pod_id)
  then show ?case using public_pods_writes(3) by blast
next
  case (6 st)
  then show ?case by (rule reload_persisted[where J = "\<lambda>s. public_pods s \<subseteq> S", OF assms])
next
  case (7 st pod_id pod visibility)
  then show ?case using public_pods_writes(2) by blast
next
  case (9 st d proposer change details now expires_at)
  then show ?case by (simp add: public_pods_def)
qed (simp_all add: new_pod_def)

lemma no_publication_laws: "request_laws (\<lambda>_. True) env (\<lambda>pod. pd_visibility pod \<noteq> Public) used"
  by unfold_locales (simp_all add: new_pod_def)

lemma guarded_publication_laws:
  "request_laws (\<lambda>st. reload_holds env (\<lambda>s. public_pods s \<subseteq> S) \<longrightarrow> public_pods st \<subseteq> S) env
     (\<lambda>pod. pd_visibility pod \<noteq> Public) used"
proof (cases "reload_holds env (\<lambda>s. public_pods s \<subseteq> S)")
  case True
  have "request_laws (\<lambda>st. public_pods st \<subseteq> S) env (\<lambda>pod. pd_visibility pod \<noteq> Public) used"
    by (rule publication_laws[OF True])
  with True show ?thesis by simp
qed (simp add: no_publication_laws)

interpretation publication: request_laws
  "\<lambda>st. reload_holds env (\<lambda>s. public_pods s \<subseteq> S) \<longrightarrow> public_pods st \<subseteq> S" env "\<lambda>pod. pd_visibility pod \<noteq> Public" used
  for env S used
  by (rule guarded_publication_laws)

section \<open>Properties\<close>

text \<open>C9: The calls of this node keep the event log a chain. Over any run of the calls of theory Pod_Calls
  (Pods, packages, roles, visibility, announcements and withdrawals, proposals and their approval), by
  anybody and failed ones included, the node's identities stay and every row of the event log remains
  verified under its author's key and names the hash of the previous row of its Pod. Writes may fail; of
  the store the database reloads then, it is required that it has the same identities and such a log.
  The import of events of another node and the synchronization of a subscription, which append rows of
  remote authors, are not among these calls.
\<close>

theorem event_log_stays_chained:
  assumes "reload_holds env (\<lambda>s. st_node_identities (hs_core s) = st_node_identities (hs_core st) \<and>
        chained env (st_node_identities (hs_core st)) (st_event_log (hs_core s)))"
    and "signatures_sound (te_ext env)" and "keys_known env (st_node_identities (hs_core st))"
    and "chained env (st_node_identities (hs_core st)) (st_event_log (hs_core st))"
    and "(pod_step env c used)\<^sup>*\<^sup>* st st'"
  shows "st_node_identities (hs_core st') = st_node_identities (hs_core st) \<and>
     chained env (st_node_identities (hs_core st)) (st_event_log (hs_core st'))"
  using event_chain.pod_steps_keep[OF assms(5), of "nodes_of st"] assms(1-4)
  by (simp add: chain_kept_def[abs_def] chain_guard_def)

lemma sample_keys_known: "keys_known sample_tools (nodes_of sample_desk)"
proof -
  have "nd_id sample_node = 4" by (simp add: sample_node_def)
  moreover have "\<exists>sk. key_pair_of sample_ext sample_node sk" using sample_key_pair by blast
  ultimately show ?thesis
    by (auto simp: keys_known_def sample_desk_def sample_home_def om_get_def te_order_of split: if_splits)
qed

theorem event_log_stays_chained_witness:
  "\<forall>c. \<exists>st'. pod_step sample_tools c {} sample_desk st' \<and> chained sample_tools [(4, sample_node)] (log_of st')"
proof
  fix c
  obtain st' where s: "pod_step sample_tools c {} sample_desk st'"
    using sample_desk_step by blast
  have n: "nodes_of sample_desk = [(4, sample_node)]" "log_of sample_desk = []"
    by (simp_all add: sample_desk_def sample_home_def empty_store_def)
  show "\<exists>st'. pod_step sample_tools c {} sample_desk st' \<and> chained sample_tools [(4, sample_node)] (log_of st')"
    using event_log_stays_chained[OF persistence_reload[OF sample_tools_ok] _ sample_keys_known _ r_into_rtranclp[of "pod_step sample_tools c {}", OF s]] s
    by (auto simp: n te_order_of)
qed

lemma harness_steps_publish_nothing:
  assumes "(harness_step env c used)\<^sup>*\<^sup>* st st'" and "reload_holds env (\<lambda>s. public_pods s \<subseteq> public_pods st)"
  shows "public_pods st' \<subseteq> public_pods st"
  using assms(1)
proof (induction rule: rtranclp_induct)
  case (step s s')
  then show ?case
    using publication.harness_step_keeps[OF step(2), of "public_pods st"] assms(2) by blast
qed simp

text \<open>C10: A harness publishes nothing through the calls of theory Pod_Calls. Over any run of those calls made
  by harnesses, approvals of proposals apart, failed ones included, every Pod that is public at the end
  was public before: creating, revising, forking or importing a Pod, changing its visibility,
  announcing it or receiving what peers announce publishes none. Writes may fail; the store the database
  reloads then is required to have no public Pod that was not public before. Subscribing to a remote
  public Pod and synchronizing a subscription, which store a public projection of the remote Pod,
  are not among these calls.
\<close>

theorem harness_calls_publish_nothing:
  assumes "reload_holds env (\<lambda>s. public_pods s \<subseteq> public_pods st)" and "(harness_step env c used)\<^sup>*\<^sup>* st st'"
    and "om_get (st_pods (hs_core st')) pod_id = Some pod" and "pd_visibility pod = Public"
  shows "\<exists>pod'. om_get (st_pods (hs_core st)) pod_id = Some pod' \<and> pd_visibility pod' = Public"
  using harness_steps_publish_nothing[OF assms(2,1)] assms(3,4) unfolding public_pods_def by blast

definition sample_gallery :: home_store where
  "sample_gallery = sample_desk\<lparr>hs_core := (hs_core sample_desk)\<lparr>st_pods := om_put 7 sample_pod []\<rparr>\<rparr>"

lemma sample_gallery_step: "harness_step sample_tools c {} sample_gallery sample_gallery"
proof (rule harness_step)
  show "draws_fresh {} sample_gallery (\<lambda>_. (2, 0))"
    by (simp add: draws_fresh_def sample_gallery_def sample_desk_def sample_home_def empty_home_store_def
        empty_pod_store_def om_get_def)
  show "ctx_harness_id (sample_bearer\<lparr>ctx_harness_id := Some 6\<rparr>) = Some 6" by simp
  show "\<not> is_approval (Call_Unsubscribe 7)" by simp
  have "authorize_harness sample_tools sample_gallery (sample_bearer\<lparr>ctx_harness_id := Some 6\<rparr>)
      Cap_SubscriptionManagement (Some 7) = Inl (AT_Forbidden ''harness grant is revoked or missing'')"
    by (simp add: authorize_harness_def harness_for_context_def sample_gallery_def sample_desk_def om_get_def)
  then show "run_call sample_tools c (\<lambda>_. (2, 0)) (sample_bearer\<lparr>ctx_harness_id := Some 6\<rparr>) 10 (Call_Unsubscribe 7)
      sample_gallery = (sample_gallery, Inl (AT_Forbidden ''harness grant is revoked or missing''))"
    by (simp add: without_result_def unsubscribe_pod_def bind_tool_def reads_def)
qed

theorem harness_calls_publish_nothing_witness:
  "\<forall>c. harness_step sample_tools c {} sample_gallery sample_gallery \<and>
     (\<exists>pod. om_get (st_pods (hs_core sample_gallery)) 7 = Some pod \<and> pd_visibility pod = Public)"
proof
  fix c
  have "om_get (st_pods (hs_core sample_gallery)) 7 = Some sample_pod" "pd_visibility sample_pod = Public"
    by (simp_all add: sample_gallery_def sample_pod_def om_get_def)
  from harness_calls_publish_nothing[OF persistence_reload[OF sample_tools_ok]
      r_into_rtranclp[of "harness_step sample_tools c {}", OF sample_gallery_step] this] sample_gallery_step
  show "harness_step sample_tools c {} sample_gallery sample_gallery \<and>
     (\<exists>pod. om_get (st_pods (hs_core sample_gallery)) 7 = Some pod \<and> pd_visibility pod = Public)"
    by blast
qed

end
