(* ===== verification/Source_Availability.thy ===== *)
theory Source_Availability
  imports Tool_Monad Package_Edits
begin

text \<open>
  Source availability and authentication notices (\<open>personal_discovery/source_availability.rs\<close>). A
  worker reports what it could reach; the reports are normalized and checked for credentials, merged
  by source, restricted to the sources of a Browser Grant, and kept per task. A map by source that is
  turned into a list sorted by source is the ordered map itself.
\<close>

section \<open>Normalization\<close>

definition forbidden_auth_markers :: "string list" where
  "forbidden_auth_markers =
     [''password='', ''passwd='', ''cookie:'', ''set-cookie'', ''authorization:'', ''bearer '',
      ''api_key='', ''apikey='', ''secret='', ''session_token'', ''access_token'', ''refresh_token'',
      ''raw_browser'', ''cdp_session'']"

definition contains_forbidden_auth_material :: "string \<Rightarrow> bool" where
  "contains_forbidden_auth_material value \<longleftrightarrow>
     list_ex (\<lambda>marker. contains value marker) forbidden_auth_markers"

definition normalize_source_locator :: "string \<Rightarrow> string + string" where
  "normalize_source_locator source =
     (let value = ascii_lower (trim source)
      in if value = [] then Inl ''source locator must not be empty''
         else if length value > 200 then Inl ''source locator must be at most 200 characters''
         else if contains_forbidden_auth_material value
         then Inl ''source locator must not contain authentication material''
         else Inr value)"

definition normalize_reason :: "string \<Rightarrow> string + string" where
  "normalize_reason reason =
     (let value = trim reason
      in if length value > 500 then Inl ''availability reason must be at most 500 characters''
         else if contains_forbidden_auth_material (ascii_lower value)
         then Inl ''availability reason must not contain authentication material''
         else Inr value)"

text \<open>A later report of a source replaces an earlier one.\<close>

definition by_source ::
  "reported_source_availability list \<Rightarrow> (string, reported_source_availability) omap
    \<Rightarrow> (string, reported_source_availability) omap" where
  "by_source reports m = fold (\<lambda>r. om_put (rsa_source r) r) reports m"

definition normalize_report :: "reported_source_availability \<Rightarrow> string + reported_source_availability" where
  "normalize_report report =
     (case normalize_source_locator (rsa_source report) of
        Inl e \<Rightarrow> Inl e
      | Inr source \<Rightarrow>
          (case normalize_reason (rsa_reason report) of
             Inl e \<Rightarrow> Inl e
           | Inr reason \<Rightarrow> Inr (report\<lparr>rsa_source := source, rsa_reason := reason\<rparr>)))"

fun traverse :: "('a \<Rightarrow> 'e + 'b) \<Rightarrow> 'a list \<Rightarrow> 'e + 'b list" where
  "traverse f [] = Inr []"
| "traverse f (x # xs) =
     (case f x of
        Inl e \<Rightarrow> Inl e
      | Inr y \<Rightarrow> (case traverse f xs of Inl e \<Rightarrow> Inl e | Inr ys \<Rightarrow> Inr (y # ys)))"

definition normalize_reports ::
  "reported_source_availability list \<Rightarrow> string + reported_source_availability list" where
  "normalize_reports reports =
     (if length reports > 64 then Inl ''at most 64 source availability reports per request''
      else case traverse normalize_report reports of
             Inl e \<Rightarrow> Inl e
           | Inr normalized \<Rightarrow> Inr (om_vals (by_source normalized [])))"

definition normalize_browser_grant_eligibility :: "string list option \<Rightarrow> string + string list option" where
  "normalize_browser_grant_eligibility eligible =
     (case eligible of
        None \<Rightarrow> Inr None
      | Some sources \<Rightarrow>
          if length sources > 64 then Inl ''at most 64 Browser Grant eligible sources''
          else case traverse normalize_source_locator sources of
                 Inl e \<Rightarrow> Inl e
               | Inr normalized \<Rightarrow> Inr (Some (sort (remdups normalized))))"

section \<open>The Browser Grant\<close>

definition source_is_browser_grant_eligible :: "string \<Rightarrow> string list option \<Rightarrow> bool" where
  "source_is_browser_grant_eligible source eligible \<longleftrightarrow>
     (case eligible of None \<Rightarrow> True
      | Some sources \<Rightarrow> list_ex (\<lambda>item. eq_ignore_ascii_case item source) sources)"

definition filter_neighborhoods_by_browser_grant ::
  "discovery_plan_source_neighborhood list \<Rightarrow> string list option
    \<Rightarrow> discovery_plan_source_neighborhood list" where
  "filter_neighborhoods_by_browser_grant neighborhoods eligible =
     (case eligible of
        None \<Rightarrow> neighborhoods
      | Some sources \<Rightarrow>
          filter (\<lambda>n. source_is_browser_grant_eligible (snd (sa_key (sn_signal n))) (Some sources))
            neighborhoods)"

definition merge_reports ::
  "reported_source_availability list \<Rightarrow> reported_source_availability list
    \<Rightarrow> reported_source_availability list" where
  "merge_reports prior incoming = om_vals (by_source incoming (by_source prior []))"

definition enforce_report ::
  "string list option \<Rightarrow> reported_source_availability \<Rightarrow> reported_source_availability" where
  "enforce_report eligible report =
     (if sv_is_available (rsa_state report) \<and>
         \<not> source_is_browser_grant_eligible (rsa_source report) eligible
      then report\<lparr>rsa_state := SV_BrowserGrantIneligible,
             rsa_reason := (if rsa_reason report = [] then ''outside Browser Grant eligibility''
                            else rsa_reason report)\<rparr>
      else report)"

definition enforce_browser_grant_on_reports ::
  "reported_source_availability list \<Rightarrow> string list option \<Rightarrow> reported_source_availability list" where
  "enforce_browser_grant_on_reports reports eligible = map (enforce_report eligible) reports"

definition task_is_scheduled :: "discovery_task \<Rightarrow> bool" where
  "task_is_scheduled task \<longleftrightarrow>
     (case dt_origin task of DO_PersonalScheduled schedule_id \<Rightarrow> True | _ \<Rightarrow> False)"

definition availability_reason ::
  "bool \<Rightarrow> reported_source_availability \<Rightarrow> discovery_result_availability_reason" where
  "availability_reason scheduled report =
     (let source = rsa_source report;
          reason = (if rsa_reason report = [] then sv_fingerprint_label (rsa_state report)
                    else rsa_reason report)
      in case rsa_state report of
           SV_BrowserGrantIneligible \<Rightarrow> AR_BrowserGrantIneligible source reason
         | SV_AuthenticationRequired \<Rightarrow>
             (if scheduled then AR_AuthenticationSkippedScheduled source reason
              else AR_AuthenticationAssistanceRequested source reason)
         | SV_SessionExpired \<Rightarrow>
             (if scheduled then AR_AuthenticationSkippedScheduled source reason
              else AR_AuthenticationAssistanceRequested source reason)
         | SV_Inaccessible \<Rightarrow> AR_SourceUnavailable source reason
         | SV_Available \<Rightarrow> AR_SourceUnavailable source reason)"

definition availability_reasons_for_batch ::
  "reported_source_availability list \<Rightarrow> bool \<Rightarrow> discovery_result_availability_reason list" where
  "availability_reasons_for_batch reports scheduled =
     map (availability_reason scheduled) (filter (\<lambda>r. \<not> sv_is_available (rsa_state r)) reports)"

section \<open>Notices\<close>

definition notice_of :: "uuid \<Rightarrow> uuid option \<Rightarrow> string \<Rightarrow> authentication_needed_notice \<Rightarrow> bool" where
  "notice_of user_id tenant_id source n \<longleftrightarrow>
     an_user_id n = user_id \<and> an_tenant_id n = tenant_id \<and> an_source n = source"

definition clear_notices_for_restored_sources ::
  "uuid \<Rightarrow> uuid option \<Rightarrow> reported_source_availability list
    \<Rightarrow> authentication_needed_notice list \<Rightarrow> authentication_needed_notice list" where
  "clear_notices_for_restored_sources user_id tenant_id reports notices =
     (let restored = map rsa_source (filter (\<lambda>r. sv_is_available (rsa_state r)) reports)
      in filter (\<lambda>n. \<not> (an_user_id n = user_id \<and> an_tenant_id n = tenant_id \<and>
                       an_source n \<in> set restored)) notices)"

text \<open>
  One report; \<open>new_id\<close> is the identity a new notice draws. The answer is absent for an available
  source.
\<close>

definition notice_for_report ::
  "uuid \<Rightarrow> uuid option \<Rightarrow> uuid \<Rightarrow> bool \<Rightarrow> time \<Rightarrow> uuid \<Rightarrow> reported_source_availability
    \<Rightarrow> authentication_needed_notice list
    \<Rightarrow> authentication_needed_notice list \<times> authentication_needed_notice_outcome list" where
  "notice_for_report user_id tenant_id task_id scheduled now new_id report notices =
     (if \<not> sv_authentication_required (rsa_state report)
      then (notices, if sv_is_available (rsa_state report) then [] else [NO_NotApplicable (rsa_source report)])
      else if scheduled then (notices, [NO_ScheduledSkip (rsa_source report)])
      else case find (\<lambda>n. notice_of user_id tenant_id (rsa_source report) n \<and>
                         an_state_fingerprint n = rsa_state_fingerprint report) notices of
             Some existing \<Rightarrow> (notices, [NO_Suppressed existing])
           | None \<Rightarrow>
               (let notice = \<lparr> an_id = new_id, an_user_id = user_id, an_tenant_id = tenant_id,
                      an_source = rsa_source report,
                      an_state_fingerprint = rsa_state_fingerprint report, an_task_id = task_id,
                      an_first_emitted_at = now, an_delivery_pending = True \<rparr>
                in (filter (\<lambda>n. \<not> notice_of user_id tenant_id (rsa_source report) n) notices @ [notice],
                    [NO_ShouldNotify notice])))"

fun notices_for_reports ::
  "uuid \<Rightarrow> uuid option \<Rightarrow> uuid \<Rightarrow> bool \<Rightarrow> time \<Rightarrow> (nat \<Rightarrow> uuid) \<Rightarrow> reported_source_availability list
    \<Rightarrow> authentication_needed_notice list
    \<Rightarrow> authentication_needed_notice list \<times> authentication_needed_notice_outcome list" where
  "notices_for_reports user_id tenant_id task_id scheduled now ids [] notices = (notices, [])"
| "notices_for_reports user_id tenant_id task_id scheduled now ids (report # reports) notices =
     (case notice_for_report user_id tenant_id task_id scheduled now (ids (length reports)) report notices of
        (notices', outcome) \<Rightarrow>
          (case notices_for_reports user_id tenant_id task_id scheduled now ids reports notices' of
             (notices'', outcomes) \<Rightarrow> (notices'', outcome @ outcomes)))"

definition evaluate_authentication_notices ::
  "uuid \<Rightarrow> uuid option \<Rightarrow> uuid \<Rightarrow> bool \<Rightarrow> time \<Rightarrow> (nat \<Rightarrow> uuid) \<Rightarrow> reported_source_availability list
    \<Rightarrow> authentication_needed_notice list
    \<Rightarrow> authentication_needed_notice list \<times> authentication_needed_notice_outcome list" where
  "evaluate_authentication_notices user_id tenant_id task_id scheduled now ids reports notices =
     notices_for_reports user_id tenant_id task_id scheduled now ids reports
       (clear_notices_for_restored_sources user_id tenant_id reports notices)"

section \<open>The snapshot of a task\<close>

text \<open>The host of a watch, as a URL that has a domain gives it.\<close>

definition watch_domain :: "tools_env \<Rightarrow> string \<Rightarrow> string option" where
  "watch_domain env url =
     (case x_url_parse (te_ext env) url of
        Inl e \<Rightarrow> None
      | Inr parsed \<Rightarrow> map_option (te_lowercase env) (te_url_domain env parsed))"

definition record_watch_fact ::
  "tools_env \<Rightarrow> uuid \<Rightarrow> uuid option \<Rightarrow> reported_source_availability list \<Rightarrow> user_watch \<Rightarrow> user_watch" where
  "record_watch_fact env user_id tenant_id reports watch =
     (if uw_user_id watch \<noteq> user_id \<or> uw_tenant_id watch \<noteq> tenant_id then watch
      else case watch_domain env (uw_url watch) of
             None \<Rightarrow> watch
           | Some domain \<Rightarrow>
               (case find (\<lambda>r. eq_ignore_ascii_case (rsa_source r) domain) reports of
                  None \<Rightarrow> watch
                | Some report \<Rightarrow> watch\<lparr>uw_last_availability := Some report\<rparr>))"

definition om_map :: "('v \<Rightarrow> 'v) \<Rightarrow> ('k, 'v) omap \<Rightarrow> ('k, 'v) omap" where
  "om_map f m = map (\<lambda>(k, v). (k, f v)) m"

definition set_discovery :: "(discovery_store \<Rightarrow> discovery_store) \<Rightarrow> home_store \<Rightarrow> home_store" where
  "set_discovery f st = st\<lparr>hs_discovery := f (hs_discovery st)\<rparr>"

definition record_watch_availability ::
  "tools_env \<Rightarrow> uuid \<Rightarrow> uuid option \<Rightarrow> reported_source_availability list \<Rightarrow> home_store \<Rightarrow> home_store" where
  "record_watch_availability env user_id tenant_id reports =
     set_discovery (\<lambda>d. d\<lparr>ds_watches := om_map (record_watch_fact env user_id tenant_id reports) (ds_watches d)\<rparr>)"

definition prior_reports :: "discovery_task_source_availability option \<Rightarrow> reported_source_availability list" where
  "prior_reports prior = (case prior of None \<Rightarrow> [] | Some entry \<Rightarrow> tsa_reports entry)"

definition eligible_after ::
  "discovery_task_source_availability option \<Rightarrow> string list option \<Rightarrow> string list option" where
  "eligible_after prior eligible =
     or_else eligible (Option.bind prior tsa_browser_grant_eligible_sources)"

text \<open>The reports a task has after new ones: merged, then restricted to the sources now eligible.\<close>

definition reports_after ::
  "discovery_task_source_availability option \<Rightarrow> reported_source_availability list \<Rightarrow> string list option
    \<Rightarrow> reported_source_availability list" where
  "reports_after prior reports eligible =
     enforce_browser_grant_on_reports (merge_reports (prior_reports prior) reports)
       (eligible_after prior eligible)"

definition upsert_task_source_availability ::
  "tools_env \<Rightarrow> uuid \<Rightarrow> uuid \<Rightarrow> uuid option \<Rightarrow> uuid \<Rightarrow> reported_source_availability list
    \<Rightarrow> string list option \<Rightarrow> time \<Rightarrow> home_store \<Rightarrow> home_store \<times> discovery_task_source_availability" where
  "upsert_task_source_availability env task_id user_id tenant_id reported_by reports eligible now st =
     (let prior = om_get (pst_source_availability (hs_pods st)) task_id;
          availability =
            \<lparr> tsa_task_id = task_id, tsa_user_id = user_id, tsa_tenant_id = tenant_id,
              tsa_reported_by = reported_by, tsa_reports = reports_after prior reports eligible,
              tsa_browser_grant_eligible_sources = eligible_after prior eligible,
              tsa_updated_at = now \<rparr>;
          st' = st\<lparr>hs_pods := (hs_pods st)\<lparr>pst_source_availability :=
                  om_put task_id availability (pst_source_availability (hs_pods st))\<rparr>\<rparr>
      in (record_watch_availability env user_id tenant_id (tsa_reports availability) st', availability))"

definition resolve_completion_reports ::
  "home_store \<Rightarrow> uuid \<Rightarrow> reported_source_availability list \<Rightarrow> string list option
    \<Rightarrow> string + reported_source_availability list \<times> string list option" where
  "resolve_completion_reports st task_id request_reports request_eligible =
     (case normalize_reports request_reports of
        Inl e \<Rightarrow> Inl e
      | Inr reports \<Rightarrow>
          (case normalize_browser_grant_eligibility request_eligible of
             Inl e \<Rightarrow> Inl e
           | Inr eligible \<Rightarrow>
               (let prior = om_get (pst_source_availability (hs_pods st)) task_id
                in Inr (reports_after prior reports eligible, eligible_after prior eligible))))"

section \<open>What normalization guarantees\<close>

lemma traverse_all:
  assumes "traverse f xs = Inr ys" and "\<And>x y. f x = Inr y \<Longrightarrow> P y"
  shows "list_all P ys"
  using assms by (induction xs arbitrary: ys) (auto split: sum.splits)

text \<open>A stored report: its source is a normalized locator, its reason is clean.\<close>

definition clean_source :: "string \<Rightarrow> bool" where
  "clean_source source \<longleftrightarrow> source \<noteq> [] \<and> length source \<le> 200 \<and> \<not> contains_forbidden_auth_material source"

definition clean_report :: "reported_source_availability \<Rightarrow> bool" where
  "clean_report r \<longleftrightarrow>
     clean_source (rsa_source r) \<and> length (rsa_reason r) \<le> 500 \<and>
     \<not> contains_forbidden_auth_material (ascii_lower (rsa_reason r))"

lemma normalized_locator_clean: "normalize_source_locator source = Inr value \<Longrightarrow> clean_source value"
  by (auto simp: normalize_source_locator_def clean_source_def Let_def split: if_splits)

lemma normalized_report_clean: "normalize_report r = Inr r' \<Longrightarrow> clean_report r'"
  by (auto simp: normalize_report_def normalize_reason_def clean_report_def Let_def
      split: sum.splits if_splits dest: normalized_locator_clean)

text \<open>The reports of a task: one for each source, in the order of the sources.\<close>

definition by_source_ok :: "(string, reported_source_availability) omap \<Rightarrow> bool" where
  "by_source_ok m \<longleftrightarrow> om_ok m \<and> list_all (\<lambda>(k, r). k = rsa_source r) m"

lemma list_all_om_put: "list_all P m \<Longrightarrow> P (k, v) \<Longrightarrow> list_all P (om_put k v m)"
  by (induction k v m rule: om_put.induct) auto

lemma by_source_keeps:
  assumes "by_source_ok m" and "list_all (\<lambda>(k, r). Q r) m" and "list_all Q reports"
  shows "by_source_ok (by_source reports m) \<and> list_all (\<lambda>(k, r). Q r) (by_source reports m)"
  using assms
proof (induction reports arbitrary: m)
  case Nil then show ?case by (simp add: by_source_def)
next
  case (Cons r rs)
  then show ?case
    using Cons.IH[of "om_put (rsa_source r) r m"]
    by (simp add: by_source_def by_source_ok_def list_all_om_put)
qed

definition reports_sorted :: "reported_source_availability list \<Rightarrow> bool" where
  "reports_sorted reports \<longleftrightarrow> sorted_wrt (<) (map rsa_source reports)"

lemma by_source_ok_vals: "by_source_ok m \<Longrightarrow> map rsa_source (om_vals m) = om_keys m"
  by (auto simp: by_source_ok_def om_vals_def om_keys_def list_all_iff)

lemma om_ok_sorted: "om_ok m \<longleftrightarrow> sorted_wrt (<) (om_keys m)"
  by (simp add: om_ok_def om_keys_def)

lemma by_source_vals:
  assumes "by_source_ok m" and "list_all (\<lambda>(k, r). Q r) m"
  shows "reports_sorted (om_vals m) \<and> list_all Q (om_vals m)"
proof
  show "reports_sorted (om_vals m)"
    using assms(1) by (simp add: reports_sorted_def by_source_ok_vals om_ok_sorted[symmetric])
      (simp add: by_source_ok_def)
  show "list_all Q (om_vals m)" using assms(2) by (auto simp: om_vals_def list_all_iff)
qed

lemma by_source_Nil: "by_source_ok []"
  by (simp add: by_source_ok_def)

lemma normalized_reports:
  assumes "normalize_reports reports = Inr normalized"
  shows "reports_sorted normalized \<and> list_all clean_report normalized"
proof -
  obtain rs where rs: "traverse normalize_report reports = Inr rs"
    and normalized: "normalized = om_vals (by_source rs [])"
    using assms by (auto simp: normalize_reports_def split: if_splits sum.splits)
  have "list_all clean_report rs" by (rule traverse_all[OF rs normalized_report_clean])
  then show ?thesis
    unfolding normalized
    using by_source_keeps[OF by_source_Nil, of clean_report rs] by (intro by_source_vals) simp_all
qed

lemma merged_reports:
  assumes "list_all Q prior" and "list_all Q incoming"
  shows "reports_sorted (merge_reports prior incoming) \<and> list_all Q (merge_reports prior incoming)"
proof -
  have prior: "by_source_ok (by_source prior []) \<and> list_all (\<lambda>(k, r). Q r) (by_source prior [])"
    by (rule by_source_keeps[OF by_source_Nil]) (use assms(1) in simp_all)
  have "by_source_ok (by_source incoming (by_source prior [])) \<and>
        list_all (\<lambda>(k, r). Q r) (by_source incoming (by_source prior []))"
    by (rule by_source_keeps) (use prior assms(2) in simp_all)
  then show ?thesis unfolding merge_reports_def by (intro by_source_vals) simp_all
qed

text \<open>A later report wins: the sources of the result are those of both, each with its last report.\<close>

lemma get_by_source:
  "om_get (by_source reports m) source =
     (case find (\<lambda>r. rsa_source r = source) (rev reports) of None \<Rightarrow> om_get m source | Some r \<Rightarrow> Some r)"
proof (induction reports rule: rev_induct)
  case Nil then show ?case by (simp add: by_source_def)
next
  case (snoc r rs) then show ?case by (simp add: by_source_def)
qed

section \<open>What enforcement guarantees\<close>

lemma rsa_source_enforce [simp]: "rsa_source (enforce_report eligible r) = rsa_source r"
  by (simp add: enforce_report_def)

lemma outside_reason_clean:
  "length ''outside Browser Grant eligibility'' \<le> 500 \<and>
   \<not> contains_forbidden_auth_material (ascii_lower ''outside Browser Grant eligibility'')"
  by code_simp

lemma enforce_report_clean: "clean_report r \<Longrightarrow> clean_report (enforce_report eligible r)"
  using outside_reason_clean by (simp add: enforce_report_def clean_report_def del: length_Cons)

definition within_grant :: "string list option \<Rightarrow> reported_source_availability \<Rightarrow> bool" where
  "within_grant eligible r \<longleftrightarrow>
     (sv_is_available (rsa_state r) \<longrightarrow> source_is_browser_grant_eligible (rsa_source r) eligible)"

lemma enforce_report_within: "within_grant eligible (enforce_report eligible r)"
  by (simp add: within_grant_def enforce_report_def sv_is_available_def)

text \<open>What the snapshot of a task holds: clean reports, one a source, none available outside the grant.\<close>

definition snapshot_ok :: "discovery_task_source_availability \<Rightarrow> bool" where
  "snapshot_ok a \<longleftrightarrow>
     reports_sorted (tsa_reports a) \<and> list_all clean_report (tsa_reports a) \<and>
     list_all (within_grant (tsa_browser_grant_eligible_sources a)) (tsa_reports a)"

lemma reports_after_ok:
  assumes "case prior of None \<Rightarrow> True | Some a \<Rightarrow> snapshot_ok a" and "list_all clean_report reports"
  shows "reports_sorted (reports_after prior reports eligible) \<and>
         list_all clean_report (reports_after prior reports eligible) \<and>
         list_all (within_grant (eligible_after prior eligible)) (reports_after prior reports eligible)"
proof -
  let ?merged = "merge_reports (prior_reports prior) reports"
  have "list_all clean_report (prior_reports prior)"
    using assms(1) by (auto simp: prior_reports_def snapshot_ok_def split: option.splits)
  from merged_reports[OF this assms(2)]
  have merged: "reports_sorted ?merged" "list_all clean_report ?merged" by simp_all
  have "map rsa_source (reports_after prior reports eligible) = map rsa_source ?merged"
    by (simp add: reports_after_def enforce_browser_grant_on_reports_def comp_def)
  then have "reports_sorted (reports_after prior reports eligible)"
    using merged(1) by (simp add: reports_sorted_def)
  moreover have "list_all clean_report (reports_after prior reports eligible)"
    using merged(2)
    by (auto simp: reports_after_def enforce_browser_grant_on_reports_def list_all_iff enforce_report_clean)
  moreover have "list_all (within_grant (eligible_after prior eligible)) (reports_after prior reports eligible)"
    by (simp add: reports_after_def enforce_browser_grant_on_reports_def list_all_iff enforce_report_within)
  ultimately show ?thesis by blast
qed

section \<open>What notices guarantee\<close>

text \<open>At most one notice for a User's source.\<close>

definition notice_key :: "authentication_needed_notice \<Rightarrow> uuid \<times> uuid option \<times> string" where
  "notice_key n = (an_user_id n, an_tenant_id n, an_source n)"

lemma notice_of_key: "notice_of user_id tenant_id source n \<longleftrightarrow> notice_key n = (user_id, tenant_id, source)"
  by (auto simp: notice_of_def notice_key_def)

lemma notice_for_report_unique:
  assumes "notice_for_report user_id tenant_id task_id scheduled now new_id report notices = (notices', outcome)"
    and "distinct (map notice_key notices)"
  shows "distinct (map notice_key notices')"
  using assms
  by (auto simp: notice_for_report_def notice_of_def notice_key_def Let_def distinct_map_filter
      split: if_splits option.splits)

lemma notices_for_reports_unique:
  "notices_for_reports user_id tenant_id task_id scheduled now ids reports notices = (notices', outcomes) \<Longrightarrow>
   distinct (map notice_key notices) \<Longrightarrow> distinct (map notice_key notices')"
proof (induction reports arbitrary: notices notices' outcomes)
  case Nil then show ?case by simp
next
  case (Cons report reports)
  obtain n o1 where step: "notice_for_report user_id tenant_id task_id scheduled now (ids (length reports)) report notices = (n, o1)"
    by fastforce
  from Cons.prems(1) step obtain o2
    where "notices_for_reports user_id tenant_id task_id scheduled now ids reports n = (notices', o2)"
    by (auto split: prod.splits)
  then show ?case using Cons.IH notice_for_report_unique[OF step Cons.prems(2)] by blast
qed

fun is_should_notify :: "authentication_needed_notice_outcome \<Rightarrow> bool" where
  "is_should_notify (NO_ShouldNotify n) = True"
| "is_should_notify _ = False"

lemma scheduled_notices:
  "notices_for_reports user_id tenant_id task_id True now ids reports notices = (notices', outcomes) \<Longrightarrow>
   notices' = notices \<and> \<not> list_ex is_should_notify outcomes"
proof (induction reports arbitrary: notices' outcomes)
  case Nil then show ?case by simp
next
  case (Cons report reports)
  obtain o2 where rest: "notices_for_reports user_id tenant_id task_id True now ids reports notices = (notices', o2)"
    and outcomes: "outcomes = snd (notice_for_report user_id tenant_id task_id True now (ids (length reports)) report notices) @ o2"
    using Cons.prems by (auto simp: notice_for_report_def split: prod.splits if_splits)
  show ?case using Cons.IH[OF rest] outcomes by (auto simp: notice_for_report_def)
qed

text \<open>A notice with the same fingerprint stands for a report.\<close>

definition noticed ::
  "uuid \<Rightarrow> uuid option \<Rightarrow> authentication_needed_notice list \<Rightarrow> reported_source_availability \<Rightarrow> bool" where
  "noticed user_id tenant_id notices report \<longleftrightarrow>
     (sv_authentication_required (rsa_state report) \<longrightarrow>
       list_ex (\<lambda>n. notice_of user_id tenant_id (rsa_source report) n \<and>
                   an_state_fingerprint n = rsa_state_fingerprint report) notices) \<and>
     (sv_is_available (rsa_state report) \<longrightarrow>
       \<not> list_ex (notice_of user_id tenant_id (rsa_source report)) notices)"

lemma available_needs_no_login: "sv_authentication_required s \<Longrightarrow> \<not> sv_is_available s"
  by (auto simp: sv_authentication_required_def sv_is_available_def)

lemma find_None_ex: "find P xs = None \<longleftrightarrow> \<not> list_ex P xs"
  by (auto simp: find_None_iff list_ex_iff)

lemma repeat_is_suppressed:
  "list_all (noticed user_id tenant_id notices) reports \<Longrightarrow>
   notices_for_reports user_id tenant_id task_id scheduled now ids reports notices = (notices', outcomes) \<Longrightarrow>
   notices' = notices \<and> \<not> list_ex is_should_notify outcomes"
proof (induction reports arbitrary: notices' outcomes)
  case Nil then show ?case by simp
next
  case (Cons report reports)
  have "fst (notice_for_report user_id tenant_id task_id scheduled now (ids (length reports)) report notices) = notices \<and>
        \<not> list_ex is_should_notify
           (snd (notice_for_report user_id tenant_id task_id scheduled now (ids (length reports)) report notices))"
    using Cons.prems(1)
    by (auto simp: notice_for_report_def noticed_def find_None_ex split: option.splits)
  then obtain o1 o2 where
    "notice_for_report user_id tenant_id task_id scheduled now (ids (length reports)) report notices = (notices, o1)"
    and o1: "\<not> list_ex is_should_notify o1"
    and rest: "notices_for_reports user_id tenant_id task_id scheduled now ids reports notices = (notices', o2)"
    and outcomes: "outcomes = o1 @ o2"
    using Cons.prems(2)
    by (cases "notice_for_report user_id tenant_id task_id scheduled now (ids (length reports)) report notices")
      (auto split: prod.splits)
  from Cons.IH[OF _ rest] Cons.prems(1) have "notices' = notices \<and> \<not> list_ex is_should_notify o2" by simp
  then show ?case using outcomes o1 by simp
qed

lemma notice_for_report_other:
  assumes "notice_for_report user_id tenant_id task_id scheduled now new_id report notices = (notices', outcome)"
    and "an_source n \<noteq> rsa_source report"
  shows "n \<in> set notices' \<longleftrightarrow> n \<in> set notices"
  using assms by (auto simp: notice_for_report_def notice_of_def Let_def split: if_splits option.splits)

lemma noticed_cong:
  assumes "\<And>n. an_source n = rsa_source r \<Longrightarrow> n \<in> set notices' \<longleftrightarrow> n \<in> set notices"
  shows "noticed user_id tenant_id notices' r \<longleftrightarrow> noticed user_id tenant_id notices r"
proof -
  have ex: "list_ex P notices' \<longleftrightarrow> list_ex P notices" if "\<And>n. P n \<Longrightarrow> an_source n = rsa_source r" for P
    unfolding list_ex_iff using assms that by blast
  show ?thesis
    unfolding noticed_def
    by (subst ex, simp add: notice_of_def, subst ex, simp add: notice_of_def, rule refl)
qed

lemma notice_for_report_keeps:
  assumes "notice_for_report user_id tenant_id task_id False now new_id report notices = (notices', outcome)"
    and "noticed user_id tenant_id notices other" and "rsa_source other \<noteq> rsa_source report"
  shows "noticed user_id tenant_id notices' other"
  using assms(2) noticed_cong[of other notices' notices] notice_for_report_other[OF assms(1)] assms(3) by metis

lemma notice_for_report_covers:
  assumes "notice_for_report user_id tenant_id task_id False now new_id report notices = (notices', outcome)"
    and "sv_is_available (rsa_state report) \<Longrightarrow> \<not> list_ex (notice_of user_id tenant_id (rsa_source report)) notices"
  shows "noticed user_id tenant_id notices' report"
proof (cases "sv_authentication_required (rsa_state report)")
  case True
  then show ?thesis using assms(1) available_needs_no_login[OF True]
    by (auto simp: notice_for_report_def noticed_def notice_of_def list_ex_iff Let_def
        split: option.splits dest: find_in_set)
next
  case False
  then show ?thesis using assms by (simp add: notice_for_report_def noticed_def)
qed

lemma notices_keep_absent:
  assumes "notice_for_report user_id tenant_id task_id False now new_id report notices = (notices', outcome)"
    and "\<not> list_ex (notice_of user_id tenant_id source) notices" and "source \<noteq> rsa_source report"
  shows "\<not> list_ex (notice_of user_id tenant_id source) notices'"
  using notice_for_report_other[OF assms(1)] assms(2,3) by (auto simp: list_ex_iff notice_of_def)

lemma notices_keep_noticed:
  "notices_for_reports user_id tenant_id task_id False now ids reports notices = (notices', outcomes) \<Longrightarrow>
   noticed user_id tenant_id notices other \<Longrightarrow> rsa_source other \<notin> rsa_source ` set reports \<Longrightarrow>
   noticed user_id tenant_id notices' other"
proof (induction reports arbitrary: notices notices' outcomes)
  case Nil then show ?case by simp
next
  case (Cons report reports)
  obtain n o1 o2 where step: "notice_for_report user_id tenant_id task_id False now (ids (length reports)) report notices = (n, o1)"
    and rest: "notices_for_reports user_id tenant_id task_id False now ids reports n = (notices', o2)"
    using Cons.prems(1) by (auto split: prod.splits)
  show ?case
    using Cons.IH[OF rest] notice_for_report_keeps[OF step Cons.prems(2)] Cons.prems(3) by auto
qed

lemma all_noticed:
  "notices_for_reports user_id tenant_id task_id False now ids reports notices = (notices', outcomes) \<Longrightarrow>
   distinct (map rsa_source reports) \<Longrightarrow>
   \<forall>r\<in>set reports. sv_is_available (rsa_state r) \<longrightarrow>
      \<not> list_ex (notice_of user_id tenant_id (rsa_source r)) notices \<Longrightarrow>
   list_all (noticed user_id tenant_id notices') reports"
proof (induction reports arbitrary: notices notices' outcomes)
  case Nil then show ?case by simp
next
  case (Cons report reports)
  obtain n o1 o2 where step: "notice_for_report user_id tenant_id task_id False now (ids (length reports)) report notices = (n, o1)"
    and rest: "notices_for_reports user_id tenant_id task_id False now ids reports n = (notices', o2)"
    using Cons.prems(1) by (auto split: prod.splits)
  have covered: "noticed user_id tenant_id n report"
    by (rule notice_for_report_covers[OF step]) (use Cons.prems(3) in simp)
  have fresh: "rsa_source report \<notin> rsa_source ` set reports" using Cons.prems(2) by simp
  have "noticed user_id tenant_id notices' report"
    by (rule notices_keep_noticed[OF rest covered fresh])
  moreover have "list_all (noticed user_id tenant_id notices') reports"
  proof (rule Cons.IH[OF rest])
    show "distinct (map rsa_source reports)" using Cons.prems(2) by simp
    show "\<forall>r\<in>set reports. sv_is_available (rsa_state r) \<longrightarrow>
        \<not> list_ex (notice_of user_id tenant_id (rsa_source r)) n"
    proof (intro ballI impI)
      fix r assume r: "r \<in> set reports" "sv_is_available (rsa_state r)"
      then have "rsa_source r \<noteq> rsa_source report" using fresh by (metis imageI)
      moreover have "\<not> list_ex (notice_of user_id tenant_id (rsa_source r)) notices"
        using Cons.prems(3) r by simp
      ultimately show "\<not> list_ex (notice_of user_id tenant_id (rsa_source r)) n"
        using notices_keep_absent[OF step] by blast
    qed
  qed
  ultimately show ?case by simp
qed

lemma cleared_absent:
  assumes "r \<in> set reports" and "sv_is_available (rsa_state r)"
  shows "\<not> list_ex (notice_of user_id tenant_id (rsa_source r))
           (clear_notices_for_restored_sources user_id tenant_id reports notices)"
  using assms by (auto simp: clear_notices_for_restored_sources_def notice_of_def list_ex_iff)

lemma clear_idle:
  assumes "list_all (noticed user_id tenant_id notices) reports"
  shows "clear_notices_for_restored_sources user_id tenant_id reports notices = notices"
  unfolding clear_notices_for_restored_sources_def Let_def
proof (rule filter_True, intro ballI notI)
  fix n
  assume n: "n \<in> set notices"
    and "an_user_id n = user_id \<and> an_tenant_id n = tenant_id \<and>
         an_source n \<in> set (map rsa_source (filter (\<lambda>r. sv_is_available (rsa_state r)) reports))"
  then obtain r where r: "r \<in> set reports" "sv_is_available (rsa_state r)"
    and "notice_of user_id tenant_id (rsa_source r) n" by (auto simp: notice_of_def)
  with assms n show False by (auto simp: list_all_iff list_ex_iff noticed_def)
qed

lemma reports_sorted_distinct: "reports_sorted reports \<Longrightarrow> distinct (map rsa_source reports)"
  unfolding reports_sorted_def using strict_sorted_iff by blast

end
