(* ===== verification/Result_Batches.thy ===== *)
theory Result_Batches
  imports Source_Availability
begin

text \<open>
  The selection of a Discovery Result Batch (\<open>personal_discovery/result_batches.rs\<close>): two passes over
  the submissions of a task under the policy of its plan. A counter that the code keeps as \<open>u16\<close>
  is a number, taken modulo \<open>2 ^ 16\<close> where the code converts or adds.
\<close>

section \<open>Facts about a submission\<close>

definition domain_of :: "tools_env \<Rightarrow> string \<Rightarrow> string option" where
  "domain_of env url =
     (case x_url_parse (te_ext env) url of
        Inl e \<Rightarrow> None
      | Inr parsed \<Rightarrow>
          (case te_url_domain env parsed of
             None \<Rightarrow> None
           | Some domain \<Rightarrow> if domain = [] then None else Some (ascii_lower domain)))"

definition normalized_optional :: "string option \<Rightarrow> string option" where
  "normalized_optional value =
     (case value of None \<Rightarrow> None | Some v \<Rightarrow> if trim v = [] then None else Some (trim v))"

definition author_of :: "candidate_submission \<Rightarrow> string option" where
  "author_of s = normalized_optional (csm_author (ce_source_metadata (cs_evidence s)))"

definition publisher_of :: "candidate_interest_seed_metadata \<Rightarrow> string option" where
  "publisher_of facts = normalized_optional (cis_publisher facts)"

definition community_of :: "candidate_interest_seed_metadata \<Rightarrow> string option" where
  "community_of facts = normalized_optional (cis_community facts)"

section \<open>The policy\<close>

definition blocks_affinity :: "discovery_plan \<Rightarrow> source_affinity_signal \<Rightarrow> bool" where
  "blocks_affinity plan signal \<longleftrightarrow>
     list_ex (\<lambda>blocked. sa_eq_ignore_ascii_case blocked signal)
       (pc_blocked_source_affinities (pl_constraints plan))"

definition blocked_domain :: "discovery_plan \<Rightarrow> string \<Rightarrow> string option" where
  "blocked_domain plan domain =
     (if list_ex (\<lambda>blocked. eq_ignore_ascii_case blocked domain) (pc_blocked_sources (pl_constraints plan))
      then Some (''blocked source '' @ domain)
      else if blocks_affinity plan (SA_Source domain)
      then Some (''blocked source affinity '' @ domain)
      else None)"

definition blocked_tag :: "discovery_plan \<Rightarrow> string list \<Rightarrow> string option" where
  "blocked_tag plan tags =
     map_option (\<lambda>tag. ''blocked topic '' @ trim tag)
       (find (\<lambda>tag. list_ex (\<lambda>blocked. eq_ignore_ascii_case blocked (trim tag))
                     (pc_blocked_topics (pl_constraints plan))) tags)"

definition blocked_identity ::
  "discovery_plan \<Rightarrow> (string \<Rightarrow> source_affinity_signal) \<Rightarrow> string \<Rightarrow> string option \<Rightarrow> string option" where
  "blocked_identity plan signal label value =
     (case value of
        None \<Rightarrow> None
      | Some v \<Rightarrow> if blocks_affinity plan (signal v) then Some (label @ v) else None)"

definition blocked_detail ::
  "tools_env \<Rightarrow> discovery_plan \<Rightarrow> candidate \<Rightarrow> candidate_submission
    \<Rightarrow> candidate_interest_seed_metadata \<Rightarrow> string option" where
  "blocked_detail env plan candidate s facts =
     or_else (Option.bind (domain_of env (cd_canonical_url candidate)) (blocked_domain plan))
    (or_else (blocked_tag plan (ce_tags (cs_evidence s)))
    (or_else (blocked_identity plan SA_AuthorOrAccount ''blocked author_or_account '' (author_of s))
    (or_else (blocked_identity plan SA_Publisher ''blocked publisher '' (publisher_of facts))
             (blocked_identity plan SA_Community ''blocked community '' (community_of facts)))))"

definition recently_reviewed_canonical_urls :: "home_store \<Rightarrow> uuid \<Rightarrow> uuid option \<Rightarrow> string list" where
  "recently_reviewed_canonical_urls st user_id tenant_id =
     concat (map (\<lambda>b. map dri_canonical_url (drb_items b))
       (filter (\<lambda>b. drb_user_id b = user_id \<and> drb_tenant_id b = tenant_id)
         (om_vals (ds_result_batches (hs_discovery st)))))"

datatype policy_reject =
    PR_Blocked string
  | PR_CanonicalDuplicate string
  | PR_RecentlyReviewed string
  | PR_DomainCap string
  | PR_AuthorCap string
  | PR_PublisherCap string
  | PR_CommunityCap string

record batch_selection =
  se_selected :: "discovery_result_item list"
  se_proven_filled :: nat
  se_adjacent_filled :: nat
  se_seen_canonical :: "string list"
  se_domain_counts :: "(string, nat) omap"
  se_author_counts :: "(string, nat) omap"
  se_publisher_counts :: "(string, nat) omap"
  se_community_counts :: "(string, nat) omap"
  se_domain_rejected :: "(string, nat) omap"
  se_author_rejected :: "(string, nat) omap"
  se_publisher_rejected :: "(string, nat) omap"
  se_community_rejected :: "(string, nat) omap"

definition empty_selection :: batch_selection where
  "empty_selection =
     \<lparr> se_selected = [], se_proven_filled = 0, se_adjacent_filled = 0, se_seen_canonical = [],
       se_domain_counts = [], se_author_counts = [], se_publisher_counts = [], se_community_counts = [],
       se_domain_rejected = [], se_author_rejected = [], se_publisher_rejected = [],
       se_community_rejected = [] \<rparr>"

definition tally_of :: "(string, nat) omap \<Rightarrow> string \<Rightarrow> nat" where
  "tally_of m k = (case om_get m k of None \<Rightarrow> 0 | Some n \<Rightarrow> n)"

definition u16 :: "nat \<Rightarrow> nat" where
  "u16 n = n mod 65536"

text \<open>\<open>*entry(k).or_insert(0) += 1\<close>.\<close>

definition tally_up :: "string \<Rightarrow> (string, nat) omap \<Rightarrow> (string, nat) omap" where
  "tally_up k m = om_put k (u16 (tally_of m k + 1)) m"

definition tally_up_optional :: "string option \<Rightarrow> (string, nat) omap \<Rightarrow> (string, nat) omap" where
  "tally_up_optional k m = (case k of None \<Rightarrow> m | Some v \<Rightarrow> tally_up v m)"

definition over_cap :: "string option \<Rightarrow> (string, nat) omap \<Rightarrow> nat \<Rightarrow> (string \<Rightarrow> policy_reject) \<Rightarrow> policy_reject option" where
  "over_cap value counts cap reject =
     (case value of
        None \<Rightarrow> None
      | Some v \<Rightarrow> if tally_of counts v \<ge> cap then Some (reject v) else None)"

definition reject_for_policy ::
  "tools_env \<Rightarrow> batch_selection \<Rightarrow> discovery_plan \<Rightarrow> candidate \<Rightarrow> candidate_submission
    \<Rightarrow> candidate_interest_seed_metadata \<Rightarrow> string list \<Rightarrow> policy_reject option" where
  "reject_for_policy env state plan candidate s facts recent_canonical =
     (let constraints = pl_constraints plan; url = cd_canonical_url candidate
      in case blocked_detail env plan candidate s facts of
           Some detail \<Rightarrow> Some (PR_Blocked detail)
         | None \<Rightarrow>
             if pc_canonical_deduplication constraints \<and> url \<in> set (se_seen_canonical state)
             then Some (PR_CanonicalDuplicate url)
             else if pc_suppress_recently_reviewed constraints \<and> url \<in> set recent_canonical
             then Some (PR_RecentlyReviewed url)
             else
               or_else (over_cap (domain_of env url) (se_domain_counts state)
                          (pc_max_per_domain constraints) PR_DomainCap)
              (or_else (over_cap (author_of s) (se_author_counts state)
                          (pc_max_per_author_or_account constraints) PR_AuthorCap)
              (or_else (over_cap (publisher_of facts) (se_publisher_counts state)
                          (pc_max_per_publisher constraints) PR_PublisherCap)
                       (over_cap (community_of facts) (se_community_counts state)
                          (pc_max_per_community constraints) PR_CommunityCap))))"

definition push_selected ::
  "tools_env \<Rightarrow> candidate \<Rightarrow> candidate_submission \<Rightarrow> discovery_plan_source_role
    \<Rightarrow> candidate_interest_seed_metadata \<Rightarrow> batch_selection \<Rightarrow> batch_selection" where
  "push_selected env candidate s role facts state =
     state\<lparr>se_seen_canonical := os_insert (cd_canonical_url candidate) (se_seen_canonical state),
       se_domain_counts := tally_up_optional (domain_of env (cd_canonical_url candidate)) (se_domain_counts state),
       se_author_counts := tally_up_optional (author_of s) (se_author_counts state),
       se_publisher_counts := tally_up_optional (publisher_of facts) (se_publisher_counts state),
       se_community_counts := tally_up_optional (community_of facts) (se_community_counts state),
       se_proven_filled := (if role = Proven then u16 (se_proven_filled state + 1) else se_proven_filled state),
       se_adjacent_filled := (if role = Adjacent then u16 (se_adjacent_filled state + 1) else se_adjacent_filled state),
       se_selected := se_selected state @
         [\<lparr> dri_position = u16 (length (se_selected state)), dri_candidate_id = cd_id candidate,
            dri_submission_id = cs_id s, dri_canonical_url = cd_canonical_url candidate,
            dri_allocation_role = role, dri_review = Unreviewed \<rparr>]\<rparr>"

fun record_rejection ::
  "policy_reject \<Rightarrow> discovery_result_availability_reason list \<times> batch_selection
    \<Rightarrow> discovery_result_availability_reason list \<times> batch_selection" where
  "record_rejection (PR_Blocked detail) (reasons, state) = (reasons @ [AR_Blocked detail], state)"
| "record_rejection (PR_CanonicalDuplicate url) (reasons, state) =
     (reasons @ [AR_CanonicalDuplicate url], state)"
| "record_rejection (PR_RecentlyReviewed url) (reasons, state) =
     (reasons @ [AR_RecentlyReviewed url], state)"
| "record_rejection (PR_DomainCap domain) (reasons, state) =
     (reasons, state\<lparr>se_domain_rejected := tally_up domain (se_domain_rejected state)\<rparr>)"
| "record_rejection (PR_AuthorCap identity) (reasons, state) =
     (reasons, state\<lparr>se_author_rejected := tally_up identity (se_author_rejected state)\<rparr>)"
| "record_rejection (PR_PublisherCap identity) (reasons, state) =
     (reasons, state\<lparr>se_publisher_rejected := tally_up identity (se_publisher_rejected state)\<rparr>)"
| "record_rejection (PR_CommunityCap identity) (reasons, state) =
     (reasons, state\<lparr>se_community_rejected := tally_up identity (se_community_rejected state)\<rparr>)"

definition flush_cap_reasons ::
  "(string \<Rightarrow> nat \<Rightarrow> discovery_result_availability_reason) \<Rightarrow> (string, nat) omap
    \<Rightarrow> discovery_result_availability_reason list" where
  "flush_cap_reasons build rejected = map (\<lambda>(k, n). build k n) rejected"

section \<open>The two passes\<close>

text \<open>
  The loop's variables: the reasons and the state, the submissions already recorded as rejected, and
  the counts of reallocated slots. \<open>None\<close> in place of the role and facts is a submission for another
  kind of target.
\<close>

record passes =
  ba_reasons :: "discovery_result_availability_reason list"
  ba_state :: batch_selection
  ba_rejected :: "uuid list"
  ba_to_proven :: nat
  ba_to_adjacent :: nat

fun personal_target ::
  "candidate_submission_target \<Rightarrow> (discovery_plan_source_role \<times> candidate_interest_seed_metadata) option" where
  "personal_target (CS_PersonalDiscovery user_id task_id plan_id role facts) = Some (role, facts)"
| "personal_target (CS_PodPlacements placements task_context) = None"
| "personal_target (CS_User user_id learn seed) = None"

definition batch_is_full :: "discovery_plan \<Rightarrow> batch_selection \<Rightarrow> bool" where
  "batch_is_full plan state \<longleftrightarrow> u16 (length (se_selected state)) \<ge> pl_result_count plan"

definition note_rejection :: "uuid \<Rightarrow> policy_reject \<Rightarrow> passes \<Rightarrow> passes" where
  "note_rejection submission_id reason p =
     (if submission_id \<in> set (ba_rejected p) then p
      else case record_rejection reason (ba_reasons p, ba_state p) of
             (reasons, state) \<Rightarrow>
               p\<lparr>ba_rejected := os_insert submission_id (ba_rejected p), ba_reasons := reasons,
                 ba_state := state\<rparr>)"

definition role_full :: "discovery_plan \<Rightarrow> discovery_plan_source_role \<Rightarrow> batch_selection \<Rightarrow> bool" where
  "role_full plan role state =
     (case role of
        Proven \<Rightarrow> se_proven_filled state \<ge> al_proven (pl_allocation plan)
      | Adjacent \<Rightarrow> se_adjacent_filled state \<ge> al_adjacent (pl_allocation plan))"

definition consider_first ::
  "tools_env \<Rightarrow> discovery_plan \<Rightarrow> (uuid, candidate) omap \<Rightarrow> string list \<Rightarrow> candidate_submission
    \<Rightarrow> passes \<Rightarrow> passes" where
  "consider_first env plan candidates recent_canonical s p =
     (case personal_target (cs_target s) of
        None \<Rightarrow> p
      | Some (role, facts) \<Rightarrow>
          (case om_get candidates (cs_candidate_id s) of
             None \<Rightarrow> p
           | Some candidate \<Rightarrow>
               (case reject_for_policy env (ba_state p) plan candidate s facts recent_canonical of
                  Some reason \<Rightarrow> note_rejection (cs_id s) reason p
                | None \<Rightarrow>
                    if role_full plan role (ba_state p) then p
                    else p\<lparr>ba_state := push_selected env candidate s role facts (ba_state p)\<rparr>)))"

definition consider_second ::
  "tools_env \<Rightarrow> discovery_plan \<Rightarrow> (uuid, candidate) omap \<Rightarrow> string list \<Rightarrow> candidate_submission
    \<Rightarrow> passes \<Rightarrow> passes" where
  "consider_second env plan candidates recent_canonical s p =
     (if list_ex (\<lambda>item. dri_submission_id item = cs_id s) (se_selected (ba_state p)) then p
      else case personal_target (cs_target s) of
        None \<Rightarrow> p
      | Some (role, facts) \<Rightarrow>
          (case om_get candidates (cs_candidate_id s) of
             None \<Rightarrow> p
           | Some candidate \<Rightarrow>
               (case reject_for_policy env (ba_state p) plan candidate s facts recent_canonical of
                  Some reason \<Rightarrow> note_rejection (cs_id s) reason p
                | None \<Rightarrow>
                    p\<lparr>ba_state := push_selected env candidate s role facts (ba_state p),
                      ba_to_proven := (if role = Proven then u16 (ba_to_proven p + 1) else ba_to_proven p),
                      ba_to_adjacent := (if role = Adjacent then u16 (ba_to_adjacent p + 1)
                                         else ba_to_adjacent p)\<rparr>)))"

text \<open>A pass stops where the batch is full.\<close>

fun run_pass ::
  "discovery_plan \<Rightarrow> (candidate_submission \<Rightarrow> passes \<Rightarrow> passes) \<Rightarrow> candidate_submission list
    \<Rightarrow> passes \<Rightarrow> passes" where
  "run_pass plan step [] p = p"
| "run_pass plan step (s # rest) p =
     (if batch_is_full plan (ba_state p) then p else run_pass plan step rest (step s p))"

definition reallocation_reasons :: "passes \<Rightarrow> discovery_result_availability_reason list" where
  "reallocation_reasons p =
     (if ba_to_proven p > 0 then [AR_Reallocated Adjacent Proven (ba_to_proven p)] else []) @
     (if ba_to_adjacent p > 0 then [AR_Reallocated Proven Adjacent (ba_to_adjacent p)] else [])"

definition shortfall_reasons ::
  "discovery_plan \<Rightarrow> batch_selection \<Rightarrow> discovery_result_availability_reason list" where
  "shortfall_reasons plan state =
     (let allocation = pl_allocation plan in
      (if se_proven_filled state < al_proven allocation
       then [AR_InsufficientProven (al_proven allocation) (min (se_proven_filled state) (al_proven allocation))]
       else []) @
      (if se_adjacent_filled state < al_adjacent allocation
       then [AR_InsufficientAdjacent (al_adjacent allocation)
               (min (se_adjacent_filled state) (al_adjacent allocation))]
       else []) @
      (if u16 (length (se_selected state)) < pl_result_count plan
       then [AR_Underfilled (pl_result_count plan) (u16 (length (se_selected state)))] else []) @
      flush_cap_reasons AR_DomainCap (se_domain_rejected state) @
      flush_cap_reasons AR_AuthorOrAccountCap (se_author_rejected state) @
      flush_cap_reasons AR_PublisherCap (se_publisher_rejected state) @
      flush_cap_reasons AR_CommunityCap (se_community_rejected state))"

text \<open>
  The identity of a task's batch: sixteen bytes of a hash, as two hexadecimal digits each, with the
  version and variant bits set.
\<close>

definition hex_digit_value :: "char \<Rightarrow> nat" where
  "hex_digit_value c = (if is_digit c then of_char c - 48 else of_char c - 87)"

definition stable_batch_id :: "tools_env \<Rightarrow> uuid \<Rightarrow> uuid" where
  "stable_batch_id env task_id =
     (let digest = te_sha256_hex env (''stumble discovery result batch'' @ [CHR 0x00] @ te_uuid_str env task_id);
          digits = map hex_digit_value (take 32 digest)
      in foldl (\<lambda>n d. 16 * n + d) 0 (digits[12 := 5, 16 := digits ! 16 mod 4 + 8]))"

definition selection_passes ::
  "tools_env \<Rightarrow> discovery_plan \<Rightarrow> candidate_submission list \<Rightarrow> (uuid, candidate) omap \<Rightarrow> string list
    \<Rightarrow> discovery_result_availability_reason list \<Rightarrow> passes" where
  "selection_passes env plan ordered candidates recent_canonical reasons =
     (let first = run_pass plan (consider_first env plan candidates recent_canonical) ordered
                    \<lparr> ba_reasons = reasons, ba_state = empty_selection, ba_rejected = [],
                      ba_to_proven = 0, ba_to_adjacent = 0 \<rparr>
      in run_pass plan (consider_second env plan candidates recent_canonical) ordered first)"

definition build_discovery_result_batch ::
  "tools_env \<Rightarrow> home_store \<Rightarrow> discovery_plan \<Rightarrow> uuid \<Rightarrow> candidate_submission list
    \<Rightarrow> (uuid, candidate) omap \<Rightarrow> reported_source_availability list \<Rightarrow> bool \<Rightarrow> time
    \<Rightarrow> discovery_result_batch" where
  "build_discovery_result_batch env st plan task_id ordered candidates reported scheduled now =
     (let p = selection_passes env plan ordered candidates
                (recently_reviewed_canonical_urls st (pl_user_id plan) (pl_tenant_id plan))
                (availability_reasons_for_batch reported scheduled);
          state = ba_state p
      in \<lparr> drb_id = stable_batch_id env task_id, drb_user_id = pl_user_id plan,
           drb_tenant_id = pl_tenant_id plan, drb_task_id = task_id, drb_plan_id = pl_id plan,
           drb_state = DB_Ready, drb_notification_state = DN_NotApplicable,
           drb_requested_size = pl_result_count plan, drb_allocation = pl_allocation plan,
           drb_allocation_filled = \<lparr> al_proven = se_proven_filled state, al_adjacent = se_adjacent_filled state \<rparr>,
           drb_items = se_selected state,
           drb_source_availability = ba_reasons p @ reallocation_reasons p @ shortfall_reasons plan state,
           drb_created_at = now, drb_reviewed_at = None, drb_dismissed_at = None \<rparr>)"

end
