(* ===== verification/Float32.thy ===== *)
theory Float32
  imports Domain_Content
begin

text \<open>
  The arithmetic of \<open>f32\<close> on its 32 bits: IEEE 754 single precision, rounding to nearest with ties to
  even. A finite number is an integer in units of \<open>2^-149\<close>, the smallest subnormal, so every exact
  result is a quotient of integers, which is then rounded once.
\<close>

section \<open>The parts of a number\<close>

definition f32_negative :: "f32 \<Rightarrow> bool" where
  "f32_negative w \<longleftrightarrow> 2 ^ 31 \<le> unat w"

definition f32_exponent :: "f32 \<Rightarrow> nat" where
  "f32_exponent w = unat w div 2 ^ 23 mod 256"

definition f32_fraction :: "f32 \<Rightarrow> nat" where
  "f32_fraction w = unat w mod 2 ^ 23"

definition f32_is_nan :: "f32 \<Rightarrow> bool" where
  "f32_is_nan w \<longleftrightarrow> f32_exponent w = 255 \<and> f32_fraction w \<noteq> 0"

definition f32_is_infinite :: "f32 \<Rightarrow> bool" where
  "f32_is_infinite w \<longleftrightarrow> f32_exponent w = 255 \<and> f32_fraction w = 0"

definition f32_nan :: f32 where
  "f32_nan = 0x7FC00000"

definition f32_infinity :: f32 where
  "f32_infinity = 0x7F800000"

text \<open>The size of a finite number, in units of \<open>2^-149\<close>, and the number itself.\<close>

definition f32_magnitude :: "f32 \<Rightarrow> nat" where
  "f32_magnitude w =
     (if f32_exponent w = 0 then f32_fraction w
      else (f32_fraction w + 2 ^ 23) * 2 ^ (f32_exponent w - 1))"

definition f32_units :: "f32 \<Rightarrow> int" where
  "f32_units w = (if f32_negative w then - int (f32_magnitude w) else int (f32_magnitude w))"

section \<open>Rounding\<close>

fun bit_length :: "nat \<Rightarrow> nat" where
  "bit_length n = (if n = 0 then 0 else Suc (bit_length (n div 2)))"

declare bit_length.simps [simp del]

text \<open>
  The bits of the positive quotient nearest to \<open>num / den\<close> units: \<open>k\<close> places are dropped so that 24
  remain. A carry out of the fraction raises the exponent, as the encoding does, up to infinity.
\<close>

definition f32_round_bits :: "nat \<Rightarrow> nat \<Rightarrow> nat" where
  "f32_round_bits num den =
     (let k = bit_length (num div den) - 24;
          unit = den * 2 ^ k;
          r = num div unit;
          rest = num mod unit;
          rounded = (if unit < 2 * rest \<or> (2 * rest = unit \<and> odd r) then r + 1 else r)
      in min (k * 2 ^ 23 + rounded) (255 * 2 ^ 23))"

definition f32_round :: "bool \<Rightarrow> nat \<Rightarrow> nat \<Rightarrow> f32" where
  "f32_round negative num den =
     of_nat (f32_round_bits num den + (if negative then 2 ^ 31 else 0))"

section \<open>Operations\<close>

definition f32_add :: "f32 \<Rightarrow> f32 \<Rightarrow> f32" where
  "f32_add a b =
     (if f32_is_nan a \<or> f32_is_nan b then f32_nan
      else if f32_is_infinite a
      then (if f32_is_infinite b \<and> f32_negative a \<noteq> f32_negative b then f32_nan else a)
      else if f32_is_infinite b then b
      else let s = f32_units a + f32_units b
           in if s = 0 then (if f32_negative a \<and> f32_negative b then f32_negative_zero else 0)
              else f32_round (s < 0) (nat \<bar>s\<bar>) 1)"

definition f32_mul :: "f32 \<Rightarrow> f32 \<Rightarrow> f32" where
  "f32_mul a b =
     (let negative = (f32_negative a \<noteq> f32_negative b)
      in if f32_is_nan a \<or> f32_is_nan b then f32_nan
         else if f32_is_infinite a \<or> f32_is_infinite b
         then (if f32_units a = 0 \<or> f32_units b = 0 then f32_nan
               else of_nat (255 * 2 ^ 23 + (if negative then 2 ^ 31 else 0)))
         else f32_round negative (f32_magnitude a * f32_magnitude b) (2 ^ 149))"

text \<open>Division by a number that is finite and not zero, the only one the code divides by.\<close>

definition f32_div :: "f32 \<Rightarrow> f32 \<Rightarrow> f32" where
  "f32_div a b =
     (let negative = (f32_negative a \<noteq> f32_negative b)
      in if f32_is_nan a \<or> f32_is_nan b then f32_nan
         else if f32_is_infinite a then of_nat (255 * 2 ^ 23 + (if negative then 2 ^ 31 else 0))
         else f32_round negative (f32_magnitude a * 2 ^ 149) (f32_magnitude b))"

text \<open>\<open>f32::from\<close> of an integer of at most 16 bits, which is exact.\<close>

definition f32_of_int :: "int \<Rightarrow> f32" where
  "f32_of_int i = f32_round (i < 0) (nat \<bar>i\<bar> * 2 ^ 149) 1"

text \<open>Comparison: the two zeros are equal, and nothing compares with a NaN.\<close>

definition f32_order :: "f32 \<Rightarrow> int" where
  "f32_order w = (if f32_negative w then - int (unat w - 2 ^ 31) else int (unat w))"

definition f32_less :: "f32 \<Rightarrow> f32 \<Rightarrow> bool" where
  "f32_less a b \<longleftrightarrow> \<not> f32_is_nan a \<and> \<not> f32_is_nan b \<and> f32_order a < f32_order b"

definition f32_less_eq :: "f32 \<Rightarrow> f32 \<Rightarrow> bool" where
  "f32_less_eq a b \<longleftrightarrow> \<not> f32_is_nan a \<and> \<not> f32_is_nan b \<and> f32_order a \<le> f32_order b"

definition f32_min :: "f32 \<Rightarrow> f32 \<Rightarrow> f32" where
  "f32_min a b = (if f32_is_nan a then b else if f32_is_nan b then a else if f32_order a \<le> f32_order b then a else b)"

section \<open>Facts\<close>

lemma f32_zero [simp]:
  "\<not> f32_is_nan 0" "\<not> f32_is_infinite 0" "f32_units 0 = 0" "f32_order 0 = 0" "\<not> f32_negative 0" "f32_magnitude 0 = 0"
  by (simp_all add: f32_is_nan_def f32_is_infinite_def f32_units_def f32_order_def f32_negative_def
      f32_magnitude_def f32_exponent_def f32_fraction_def)

lemma f32_less_irrefl [simp]: "\<not> f32_less a a"
  by (simp add: f32_less_def)

lemma f32_round_le: "f32_round_bits num den \<le> 255 * 2 ^ 23"
  by (simp add: f32_round_bits_def Let_def)

lemma unat_f32_round: "unat (f32_round negative num den) = f32_round_bits num den + (if negative then 2 ^ 31 else 0)"
proof -
  have "f32_round_bits num den + (if negative then 2 ^ 31 else 0) < 2 ^ LENGTH(32)"
    using f32_round_le[of num den] by simp
  then show ?thesis unfolding f32_round_def unat_of_nat by (rule mod_less)
qed

lemma f32_round_not_nan [simp]: "\<not> f32_is_nan (f32_round negative num den)"
proof (cases "f32_round_bits num den = 255 * 2 ^ 23")
  case True
  then show ?thesis
    by (simp add: f32_is_nan_def f32_fraction_def unat_f32_round)
next
  case False
  then have small: "f32_round_bits num den div 2 ^ 23 < 255"
    using f32_round_le[of num den] by (simp add: div_less_iff_less_mult)
  have "(f32_round_bits num den + 2 ^ 31) div 2 ^ 23 = f32_round_bits num den div 2 ^ 23 + 256"
    using div_mult_self1[of "2 ^ 23 :: nat" "f32_round_bits num den" 256] by simp
  then have "f32_exponent (f32_round negative num den) = f32_round_bits num den div 2 ^ 23"
    using small by (simp add: f32_exponent_def unat_f32_round)
  then show ?thesis using small by (simp add: f32_is_nan_def)
qed

lemma f32_order_round:
  "f32_order (f32_round negative num den) = (if negative then - int (f32_round_bits num den) else int (f32_round_bits num den))"
  using f32_round_le[of num den] by (auto simp: f32_order_def f32_negative_def unat_f32_round)

end
