(* ===== verification/Taste.thy ===== *)
theory Taste
  imports Result_Batches Float32
begin

text \<open>
  Learned taste (\<open>interest_seeds.rs\<close>): the signals of a submission, the seeds that learning-enabled
  submissions leave, and the weights that seeds and feedback add up to. A set or map of signals is
  kept in the order of its keys, in which the code lists it.
\<close>

section \<open>The signals of a submission\<close>

definition normalized_value :: "tools_env \<Rightarrow> string \<Rightarrow> string" where
  "normalized_value env value = te_lowercase env (trim value)"

definition normalized_nonempty :: "tools_env \<Rightarrow> string \<Rightarrow> string option" where
  "normalized_nonempty env value =
     (let v = normalized_value env value in if v = [] then None else Some v)"

definition url_signal :: "tools_env \<Rightarrow> string \<Rightarrow> string option" where
  "url_signal env url =
     (case x_url_parse (te_ext env) url of
        Inl e \<Rightarrow> None
      | Inr parsed \<Rightarrow>
          (case te_url_domain env parsed of
             None \<Rightarrow> None
           | Some domain \<Rightarrow> normalized_nonempty env domain))"

definition optional_signal ::
  "(string \<Rightarrow> learned_taste_signal) \<Rightarrow> string option \<Rightarrow> learned_taste_signal list" where
  "optional_signal kind value = (case value of None \<Rightarrow> [] | Some v \<Rightarrow> [kind v])"

definition candidate_submission_taste_signals ::
  "tools_env \<Rightarrow> candidate \<Rightarrow> candidate_submission \<Rightarrow> learned_taste_signal list" where
  "candidate_submission_taste_signals env candidate s =
     (let e = cs_evidence s;
          nonempty = (\<lambda>v. Option.bind v (normalized_nonempty env))
      in sort (remdups
        (optional_signal LT_Source (url_signal env (cd_canonical_url candidate)) @
         map LT_Topic (List.map_filter (normalized_nonempty env) (ce_tags e)) @
         optional_signal LT_AuthorOrAccount (nonempty (csm_author (ce_source_metadata e))) @
         (case cst_interest_seed_metadata (cs_target s) of
            None \<Rightarrow> []
          | Some metadata \<Rightarrow>
              optional_signal LT_Publisher (nonempty (cis_publisher metadata)) @
              optional_signal LT_Community (nonempty (cis_community metadata))) @
         optional_signal LT_ReferrerContext
           (Option.bind (cpv_referrer_url (ce_provenance e)) (url_signal env)))))"

section \<open>Seeds\<close>

definition seed_evidence ::
  "tools_env \<Rightarrow> candidate \<Rightarrow> candidate_submission \<Rightarrow> interest_seed_signal_evidence list" where
  "seed_evidence env candidate s =
     map (\<lambda>signal. \<lparr> ise_signal = signal, ise_provenance = ce_provenance (cs_evidence s) \<rparr>)
       (candidate_submission_taste_signals env candidate s)"

definition record_interest_seed ::
  "tools_env \<Rightarrow> candidate \<Rightarrow> candidate_submission \<Rightarrow> home_store \<Rightarrow> home_store" where
  "record_interest_seed env candidate s st =
     (case cs_target s of
        CS_User user_id learn metadata \<Rightarrow>
          if \<not> learn then st
          else
            (let key = (user_id, cd_id candidate);
                 evidence = seed_evidence env candidate s;
                 seeds = ds_interest_seeds (hs_discovery st);
                 seed = (case om_get seeds key of
                   Some seed \<Rightarrow>
                     seed\<lparr>is_evidence := sort_key ise_signal (push_missing (is_evidence seed) evidence)\<rparr>
                 | None \<Rightarrow>
                     \<lparr> is_user_id = user_id, is_tenant_id = cs_tenant_id s, is_candidate_id = cd_id candidate,
                       is_evidence = evidence, is_created_at = cs_created_at s, is_retracted_at = None \<rparr>)
             in set_discovery (\<lambda>d. d\<lparr>ds_interest_seeds := om_put key seed seeds\<rparr>) st)
      | CS_PodPlacements placements task_context \<Rightarrow> st
      | CS_PersonalDiscovery user_id task_id plan_id role facts \<Rightarrow> st)"

text \<open>The reset of one signal, or of all, retracts the seeds that it empties.\<close>

definition retracted :: "time \<Rightarrow> interest_seed \<Rightarrow> interest_seed" where
  "retracted now seed =
     seed\<lparr>is_retracted_at := (case is_retracted_at seed of None \<Rightarrow> Some now | Some t \<Rightarrow> Some t)\<rparr>"

definition reset_seed :: "time \<Rightarrow> learned_taste_signal option \<Rightarrow> interest_seed \<Rightarrow> interest_seed" where
  "reset_seed now signal seed =
     (case signal of
        None \<Rightarrow> retracted now seed
      | Some s \<Rightarrow>
          (let kept = filter (\<lambda>e. ise_signal e \<noteq> s) (is_evidence seed);
               seed' = seed\<lparr>is_evidence := kept\<rparr>
           in if kept = [] then retracted now seed' else seed'))"

definition reset_interest_seed_evidence ::
  "uuid \<Rightarrow> uuid option \<Rightarrow> learned_taste_signal option \<Rightarrow> time \<Rightarrow> home_store \<Rightarrow> home_store" where
  "reset_interest_seed_evidence user_id tenant_id signal now =
     set_discovery (\<lambda>d. d\<lparr>ds_interest_seeds :=
       om_map (\<lambda>seed. if is_user_id seed = user_id \<and> is_tenant_id seed = tenant_id
                       then reset_seed now signal seed else seed) (ds_interest_seeds d)\<rparr>)"

text \<open>What a User sees of the seeds: how many count and how many were retracted.\<close>

record interest_seed_evidence_summary =
  ies_active_seed_count :: nat
  ies_retracted_seed_count :: nat

definition interest_seed_evidence :: "home_store \<Rightarrow> uuid \<Rightarrow> uuid option \<Rightarrow> interest_seed_evidence_summary" where
  "interest_seed_evidence st user_id tenant_id =
     (let mine = filter (\<lambda>seed. is_user_id seed = user_id \<and> is_tenant_id seed = tenant_id)
            (om_vals (ds_interest_seeds (hs_discovery st)))
      in \<lparr> ies_active_seed_count = min u32_max (length (filter (\<lambda>seed. is_retracted_at seed = None) mine)),
           ies_retracted_seed_count = min u32_max (length (filter (\<lambda>seed. is_retracted_at seed \<noteq> None) mine)) \<rparr>)"

section \<open>Weights\<close>

fun tk_rank :: "learned_taste_evidence_kind \<Rightarrow> nat" where
  "tk_rank TK_UserSubmission = 0"
| "tk_rank TK_Save = 1"
| "tk_rank TK_MoreLikeThis = 2"
| "tk_rank TK_LessLikeThis = 3"
| "tk_rank TK_Dismiss = 4"
| "tk_rank TK_AddToPod = 5"

lemma tk_rank_inject: "tk_rank a = tk_rank b \<longleftrightarrow> a = b"
  by (cases a; cases b) auto

instantiation learned_taste_evidence_kind :: linorder
begin

definition "a \<le> b \<longleftrightarrow> tk_rank a \<le> tk_rank b" for a b :: learned_taste_evidence_kind

definition "a < b \<longleftrightarrow> tk_rank a < tk_rank b" for a b :: learned_taste_evidence_kind

instance
  by standard (auto simp: less_eq_learned_taste_evidence_kind_def less_learned_taste_evidence_kind_def
      order_less_le tk_rank_inject)

end

definition sat_u32 :: "nat \<Rightarrow> nat \<Rightarrow> nat" where
  "sat_u32 a b = min (a + b) u32_max"

record taste_signal_aggregate =
  ta_supporting_seeds :: nat
  ta_supporting_feedback :: nat
  ta_opposing_feedback :: nat
  ta_evidence_counts :: "(learned_taste_evidence_kind, nat) omap"

definition empty_aggregate :: taste_signal_aggregate where
  "empty_aggregate =
     \<lparr> ta_supporting_seeds = 0, ta_supporting_feedback = 0, ta_opposing_feedback = 0, ta_evidence_counts = [] \<rparr>"

definition count_kind ::
  "learned_taste_evidence_kind \<Rightarrow> (learned_taste_evidence_kind, nat) omap
    \<Rightarrow> (learned_taste_evidence_kind, nat) omap" where
  "count_kind k m = om_put k (sat_u32 (case om_get m k of None \<Rightarrow> 0 | Some n \<Rightarrow> n) 1) m"

type_synonym taste_aggregates = "(learned_taste_signal, taste_signal_aggregate) omap"

definition in_aggregate ::
  "learned_taste_signal \<Rightarrow> (taste_signal_aggregate \<Rightarrow> taste_signal_aggregate) \<Rightarrow> taste_aggregates
    \<Rightarrow> taste_aggregates" where
  "in_aggregate signal f m =
     om_put signal (f (case om_get m signal of None \<Rightarrow> empty_aggregate | Some a \<Rightarrow> a)) m"

definition add_seed_signal :: "learned_taste_signal \<Rightarrow> taste_aggregates \<Rightarrow> taste_aggregates" where
  "add_seed_signal signal =
     in_aggregate signal (\<lambda>a. a\<lparr>ta_supporting_seeds := sat_u32 (ta_supporting_seeds a) 1,
                               ta_evidence_counts := count_kind TK_UserSubmission (ta_evidence_counts a)\<rparr>)"

definition add_evidence :: "taste_learning_evidence \<Rightarrow> taste_aggregates \<Rightarrow> taste_aggregates" where
  "add_evidence e =
     in_aggregate (tl_signal e) (\<lambda>a.
       (case tl_direction e of
          TD_Supporting \<Rightarrow> a\<lparr>ta_supporting_feedback := sat_u32 (ta_supporting_feedback a) 1\<rparr>
        | TD_Opposing \<Rightarrow> a\<lparr>ta_opposing_feedback := sat_u32 (ta_opposing_feedback a) 1\<rparr>)
       \<lparr>ta_evidence_counts := count_kind (tl_kind e) (ta_evidence_counts a)\<rparr>)"

definition active_seeds :: "uuid \<Rightarrow> uuid option \<Rightarrow> home_store \<Rightarrow> interest_seed list" where
  "active_seeds user_id tenant_id st =
     filter (\<lambda>seed. is_user_id seed = user_id \<and> is_tenant_id seed = tenant_id \<and> is_retracted_at seed = None)
       (om_vals (ds_interest_seeds (hs_discovery st)))"

definition seed_signals :: "interest_seed \<Rightarrow> learned_taste_signal list" where
  "seed_signals seed = remdups (map ise_signal (is_evidence seed))"

definition users_evidence :: "uuid \<Rightarrow> uuid option \<Rightarrow> home_store \<Rightarrow> taste_learning_evidence list" where
  "users_evidence user_id tenant_id st =
     filter (\<lambda>e. tl_user_id e = user_id \<and> tl_tenant_id e = tenant_id) (ds_taste_evidence (hs_discovery st))"

definition taste_signal_aggregates :: "home_store \<Rightarrow> uuid \<Rightarrow> uuid option \<Rightarrow> taste_aggregates" where
  "taste_signal_aggregates st user_id tenant_id =
     fold add_evidence (users_evidence user_id tenant_id st)
       (fold add_seed_signal (concat (map seed_signals (active_seeds user_id tenant_id st))) [])"

text \<open>
  Half of an integer from \<open>-6\<close> to \<open>6\<close>: the conversion of the integer and the product with \<open>0.5\<close> are
  exact, so the bits are these.
\<close>

definition f32_halves :: "f32 list" where
  "f32_halves = [0, 0x3F000000, 0x3F800000, 0x3FC00000, 0x40000000, 0x40200000, 0x40400000]"

definition half_of :: "int \<Rightarrow> f32" where
  "half_of n = (if n < 0 then 0x80000000 + f32_halves ! nat (- n) else f32_halves ! nat n)"

definition supporting :: "taste_signal_aggregate \<Rightarrow> nat" where
  "supporting a = sat_u32 (ta_supporting_seeds a) (ta_supporting_feedback a)"

definition inferred_weight :: "taste_signal_aggregate \<Rightarrow> bool \<Rightarrow> f32" where
  "inferred_weight a explicitly_blocked =
     (if explicitly_blocked \<or> sat_u32 (supporting a) (ta_opposing_feedback a) < 2 then 0
      else half_of (max (-6) (min 6 (int (supporting a) - int (ta_opposing_feedback a)))))"

definition source_affinity_is_blocked :: "user_preferences \<Rightarrow> source_affinity_signal \<Rightarrow> bool" where
  "source_affinity_is_blocked preferences signal \<longleftrightarrow>
     list_ex (\<lambda>blocked. sa_eq_ignore_ascii_case blocked signal) (up_blocked_source_affinities preferences) \<or>
     (case signal of
        SA_Source source \<Rightarrow> list_ex (\<lambda>blocked. eq_ignore_ascii_case blocked source) (up_blocked_sources preferences)
      | _ \<Rightarrow> False)"

definition topic_preference_blocks :: "user_preferences \<Rightarrow> learned_taste_signal \<Rightarrow> bool" where
  "topic_preference_blocks preferences signal \<longleftrightarrow>
     (case signal of
        LT_Topic topic \<Rightarrow> list_ex (\<lambda>blocked. eq_ignore_ascii_case blocked topic) (up_blocked_topics preferences)
      | _ \<Rightarrow> False)"

definition prefers :: "(user_preferences \<Rightarrow> bool) \<Rightarrow> user_preferences option \<Rightarrow> bool" where
  "prefers P preferences \<longleftrightarrow> (case preferences of None \<Rightarrow> False | Some p \<Rightarrow> P p)"

definition affinity_of ::
  "user_preferences option \<Rightarrow> source_affinity_signal \<Rightarrow> taste_signal_aggregate \<Rightarrow> source_affinity" where
  "affinity_of preferences signal a =
     (let blocked = prefers (\<lambda>p. source_affinity_is_blocked p signal) preferences
      in \<lparr> saf_signal = signal, saf_weight = inferred_weight a blocked,
           saf_supporting_seeds = ta_supporting_seeds a, saf_supporting_feedback = ta_supporting_feedback a,
           saf_opposing_feedback = ta_opposing_feedback a, saf_explicitly_blocked = blocked \<rparr>)"

definition learned_weight ::
  "learned_taste_signal \<Rightarrow> bool \<Rightarrow> taste_signal_aggregate \<Rightarrow> learned_taste_weight" where
  "learned_weight signal blocked a =
     \<lparr> lw_signal = signal, lw_weight = inferred_weight a blocked,
       lw_supporting_signals = supporting a, lw_opposing_signals = ta_opposing_feedback a,
       lw_evidence_summary = ta_evidence_counts a \<rparr>"

record taste_profile_projection =
  tp_learned :: "learned_taste_weight list"
  tp_source_affinities :: "source_affinity list"

text \<open>
  The signals that name a source are projected apart from topics. Both lists come in the order of
  the signals' keys, which the two kinds of signals share.
\<close>

definition taste_profile_projections ::
  "home_store \<Rightarrow> uuid \<Rightarrow> uuid option \<Rightarrow> user_preferences option \<Rightarrow> taste_profile_projection" where
  "taste_profile_projections st user_id tenant_id preferences =
     (let aggregates = taste_signal_aggregates st user_id tenant_id in
      \<lparr> tp_learned =
          map (\<lambda>(signal, a). learned_weight signal
                 (prefers (\<lambda>p. topic_preference_blocks p signal) preferences) a)
            (filter (\<lambda>(signal, a). lt_source_affinity signal = None) aggregates),
        tp_source_affinities =
          List.map_filter (\<lambda>(signal, a). map_option (\<lambda>s. affinity_of preferences s a)
                             (lt_source_affinity signal)) aggregates \<rparr>)"

end
