(* ===== verification/Network_Leads.thy ===== *)
theory Network_Leads
  imports Taste Feed_Mix
begin

text \<open>
  Discovery Leads from public metadata that the node already holds
  (\<open>personal_discovery/network_leads.rs\<close>, the block lists and tokens of \<open>domain/trust.rs\<close>, the
  verification of endorsements and samples in \<open>signing.rs\<close>), and their match with private interests.
  The readings of the clock while leads are produced are one instant.
\<close>

section \<open>Blocks and tokens (domain/trust.rs)\<close>

definition blocks_announcement :: "tools_env \<Rightarrow> trust_policy \<Rightarrow> pod_announcement \<Rightarrow> bool" where
  "blocks_announcement env policy a \<longleftrightarrow>
     pa_origin_node_id a \<in> set (tp_blocked_nodes policy) \<or>
     list_ex (\<lambda>blocked. bp_origin_node_id blocked = pa_origin_node_id a \<and>
                eq_ignore_ascii_case (bp_pod_slug blocked) (pa_pod_slug a)) (tp_blocked_pods policy) \<or>
     list_ex (\<lambda>topic. Skill_Packs.contains (te_lowercase env (pa_subject a)) topic \<or>
                Skill_Packs.contains (te_lowercase env (pa_pod_name a)) topic \<or>
                Skill_Packs.contains (te_lowercase env (pa_pod_slug a)) topic) (tp_blocked_topics policy)"

definition blocks_source_and_topics ::
  "tools_env \<Rightarrow> trust_policy \<Rightarrow> string \<Rightarrow> string list \<Rightarrow> string \<Rightarrow> string option \<Rightarrow> bool" where
  "blocks_source_and_topics env policy source tags title summary \<longleftrightarrow>
     list_ex (\<lambda>blocked. eq_ignore_ascii_case blocked source) (tp_blocked_sources policy) \<or>
     list_ex (\<lambda>topic. list_ex (\<lambda>tag. eq_ignore_ascii_case tag topic) tags \<or>
                Skill_Packs.contains (te_lowercase env title) topic \<or>
                (case summary of None \<Rightarrow> False
                 | Some s \<Rightarrow> Skill_Packs.contains (te_lowercase env s) topic)) (tp_blocked_topics policy)"

definition blocks_content_reference :: "tools_env \<Rightarrow> trust_policy \<Rightarrow> feed_content_reference \<Rightarrow> bool" where
  "blocks_content_reference env policy r =
     blocks_source_and_topics env policy (fr_source r) (fr_tags r) (fr_title r) (fr_summary r)"

definition stop_words :: "string list" where
  "stop_words =
     [''the'', ''and'', ''for'', ''with'', ''pod'', ''this'', ''that'', ''from'', ''into'', ''links'', ''link'',
      ''discovery'', ''personal'', ''public'', ''private'', ''use'', ''when'', ''brief'', ''style'', ''good'',
      ''bad'', ''stuff'', ''weird'']"

fun add_tokens :: "string list \<Rightarrow> string list \<Rightarrow> string list" where
  "add_tokens out [] = out"
| "add_tokens out (token # rest) =
     (let out' = (if token \<notin> set stop_words \<and> token \<notin> set out then out @ [token] else out)
      in if length out' \<ge> 80 then out' else add_tokens out' rest)"

definition discovery_tokens :: "tools_env \<Rightarrow> string \<Rightarrow> string list" where
  "discovery_tokens env s = add_tokens [] (filter (\<lambda>token. length token > 3) (map trim (te_words env s)))"

definition topic_tokens :: "tools_env \<Rightarrow> string \<Rightarrow> string list" where
  "topic_tokens env s = discovery_tokens env (te_lowercase env s)"

section \<open>Signed public artifacts (signing.rs)\<close>

definition canonical_endorsement :: "pod_endorsement \<Rightarrow> json" where
  "canonical_endorsement e = JObj
     [(''id'', JUuid (pe_id e)),
      (''endorsing_node_id'', JUuid (pe_endorsing_node_id e)),
      (''signer'', json_node_info (pe_signer e)),
      (''endorsing_pod_slug'', JStr (pe_endorsing_pod_slug e)),
      (''endorsing_announcement_id'', JUuid (pe_endorsing_announcement_id e)),
      (''endorsed_node_id'', JUuid (pe_endorsed_node_id e)),
      (''endorsed_pod_slug'', JStr (pe_endorsed_pod_slug e)),
      (''endorsed_announcement_id'', JUuid (pe_endorsed_announcement_id e)),
      (''reason'', JStr (pe_reason e)),
      (''endorsed_at'', JTime (pe_endorsed_at e))]"

definition canonical_explore_samples :: "pod_explore_samples \<Rightarrow> json" where
  "canonical_explore_samples s = JObj
     [(''id'', JUuid (px_id s)),
      (''announcement_id'', JUuid (px_announcement_id s)),
      (''origin_node_id'', JUuid (px_origin_node_id s)),
      (''signer'', json_node_info (px_signer s)),
      (''pod_slug'', JStr (px_pod_slug s)),
      (''samples'', JArr (map json_content_reference (px_samples s))),
      (''sampled_at'', JTime (px_sampled_at s))]"

definition pe_verify :: "ext \<Rightarrow> pod_endorsement \<Rightarrow> signing_error + bool" where
  "pe_verify x e =
     (if pe_endorsing_node_id e \<noteq> ni_node_id (pe_signer e) then Inr False
      else case canonical_bytes x (canonical_endorsement e) of
             Inl error \<Rightarrow> Inl error
           | Inr bytes \<Rightarrow> verify_payload x (ni_public_key (pe_signer e)) (pe_signature e) bytes)"

definition px_verify :: "ext \<Rightarrow> pod_explore_samples \<Rightarrow> signing_error + bool" where
  "px_verify x s =
     (if px_origin_node_id s \<noteq> ni_node_id (px_signer s) then Inr False
      else case canonical_bytes x (canonical_explore_samples s) of
             Inl error \<Rightarrow> Inl error
           | Inr bytes \<Rightarrow> verify_payload x (ni_public_key (px_signer s)) (px_signature s) bytes)"

section \<open>Usable metadata\<close>

definition announcement_is_usable ::
  "tools_env \<Rightarrow> home_store \<Rightarrow> trust_policy \<Rightarrow> time \<Rightarrow> known_pod_announcement \<Rightarrow> bool" where
  "announcement_is_usable env st policy clock known \<longleftrightarrow>
     (let core = hs_core st; a = ka_announcement known in
      announcement_delivery_is_active core known (Some policy) \<and>
      \<not> blocks_announcement env policy a \<and>
      announcement_is_discovery_eligible core a clock \<and>
      pa_verify (te_ext env) a = Inr True \<and>
      (case om_get (st_known_pod_announcements core) (pa_key a) of
         None \<Rightarrow> False | Some current \<Rightarrow> pa_id (ka_announcement current) = pa_id a))"

definition samples_are_usable :: "tools_env \<Rightarrow> pod_explore_samples \<Rightarrow> pod_announcement \<Rightarrow> bool" where
  "samples_are_usable env s a \<longleftrightarrow>
     px_announcement_id s = pa_id a \<and> px_origin_node_id s = pa_origin_node_id a \<and>
     px_pod_slug s = pa_pod_slug a \<and> ni_public_key (px_signer s) = ni_public_key (pa_signer a) \<and>
     px_verify (te_ext env) s = Inr True"

definition endorsed_end ::
  "tools_env \<Rightarrow> home_store \<Rightarrow> trust_policy \<Rightarrow> time \<Rightarrow> uuid \<Rightarrow> string \<Rightarrow> uuid \<Rightarrow> bool" where
  "endorsed_end env st policy clock node_id slug announcement_id \<longleftrightarrow>
     (case om_get (st_known_pod_announcements (hs_core st)) (node_id, slug) of
        None \<Rightarrow> False
      | Some known \<Rightarrow>
          pa_id (ka_announcement known) = announcement_id \<and> announcement_is_usable env st policy clock known)"

definition endorsement_is_usable ::
  "tools_env \<Rightarrow> home_store \<Rightarrow> trust_policy \<Rightarrow> time \<Rightarrow> pod_endorsement \<Rightarrow> bool" where
  "endorsement_is_usable env st policy clock e \<longleftrightarrow>
     pe_verify (te_ext env) e = Inr True \<and>
     endorsed_end env st policy clock (pe_endorsing_node_id e) (pe_endorsing_pod_slug e)
       (pe_endorsing_announcement_id e) \<and>
     endorsed_end env st policy clock (pe_endorsed_node_id e) (pe_endorsed_pod_slug e)
       (pe_endorsed_announcement_id e)"

definition content_reference_is_withdrawn :: "home_store \<Rightarrow> feed_content_reference \<Rightarrow> bool" where
  "content_reference_is_withdrawn st r \<longleftrightarrow>
     list_ex (\<lambda>t. fr_content_item_id (pt_content_reference t) = fr_content_item_id r \<or>
                  fr_canonical_url (pt_content_reference t) = fr_canonical_url r)
       (pst_placement_tombstones (hs_pods st))"

definition placement_is_withdrawn :: "home_store \<Rightarrow> accepted_placement_projection \<Rightarrow> bool" where
  "placement_is_withdrawn st p \<longleftrightarrow>
     list_ex (\<lambda>t. ap_content_item_id (pt_origin_placement t) = ap_content_item_id p \<and>
                  ap_pod_id (pt_origin_placement t) = ap_pod_id p)
       (pst_placement_tombstones (hs_pods st))"

section \<open>Producing leads\<close>

definition lead :: "source_affinity_signal \<Rightarrow> string list \<Rightarrow> discovery_lead_provenance \<Rightarrow> discovery_lead" where
  "lead signal topics provenance =
     \<lparr> ld_signal = signal, ld_public_topics = topics, ld_provenance = provenance, ld_local_relevance = 0 \<rparr>"

text \<open>The topics of a sample: those of its Pod and its tags, sorted without repetition.\<close>

definition sample_topics :: "tools_env \<Rightarrow> string list \<Rightarrow> string list \<Rightarrow> string list" where
  "sample_topics env topics tags = remdups_adj (sort (topics @ map (te_lowercase env) tags))"

definition sample_leads ::
  "tools_env \<Rightarrow> home_store \<Rightarrow> trust_policy \<Rightarrow> string list \<Rightarrow> pod_announcement \<Rightarrow> pod_explore_samples
    \<Rightarrow> discovery_lead list" where
  "sample_leads env st policy topics a s =
     List.map_filter (\<lambda>r.
         let source = te_lowercase env (trim (fr_source r))
         in if blocks_content_reference env policy r \<or> content_reference_is_withdrawn st r \<or> source = []
            then None
            else Some (lead (SA_Source source) (sample_topics env topics (fr_tags r))
                   (LP_ExploreSample (pa_id a) (px_id s) source)))
       (px_samples s)"

definition announcement_leads ::
  "tools_env \<Rightarrow> home_store \<Rightarrow> trust_policy \<Rightarrow> time \<Rightarrow> known_pod_announcement \<Rightarrow> discovery_lead list" where
  "announcement_leads env st policy clock known =
     (if \<not> announcement_is_usable env st policy clock known then []
      else
        (let a = ka_announcement known; topics = topic_tokens env (pa_subject a) in
         lead (SA_Community (pa_pod_slug a)) topics
           (LP_PodAnnouncement (pa_id a) (pa_origin_node_id a) (pa_pod_slug a)) #
         (case om_get (ds_explore_samples (hs_discovery st)) (pa_id a) of
            None \<Rightarrow> []
          | Some s \<Rightarrow> if samples_are_usable env s a then sample_leads env st policy topics a s else [])))"

definition endorsement_leads ::
  "tools_env \<Rightarrow> home_store \<Rightarrow> trust_policy \<Rightarrow> time \<Rightarrow> pod_endorsement \<Rightarrow> discovery_lead list" where
  "endorsement_leads env st policy clock e =
     (if \<not> endorsement_is_usable env st policy clock e then []
      else case om_get (st_known_pod_announcements (hs_core st)) (pe_endorsed_node_id e, pe_endorsed_pod_slug e) of
             None \<Rightarrow> []
           | Some known \<Rightarrow>
               [lead (SA_Community (pe_endorsed_pod_slug e))
                  (topic_tokens env (pa_subject (ka_announcement known)))
                  (LP_Endorsement (pe_id e) (pe_endorsed_node_id e) (pe_endorsed_pod_slug e))])"

definition own_public_pod :: "uuid option \<Rightarrow> uuid \<Rightarrow> pod \<Rightarrow> bool" where
  "own_public_pod tenant_id local_node_id p \<longleftrightarrow>
     pd_tenant_id p = tenant_id \<and> pd_visibility p = Public \<and>
     (case pd_origin_node_id p of None \<Rightarrow> True | Some origin \<Rightarrow> origin = local_node_id)"

definition placement_leads ::
  "tools_env \<Rightarrow> home_store \<Rightarrow> trust_policy \<Rightarrow> uuid option \<Rightarrow> uuid
    \<Rightarrow> (uuid \<times> uuid) \<times> accepted_placement_projection \<Rightarrow> discovery_lead list" where
  "placement_leads env st policy tenant_id local_node_id entry =
     (case entry of ((content_item_id, pod_id), placement) \<Rightarrow>
       (case om_get (st_pods (hs_core st)) pod_id of
          None \<Rightarrow> []
        | Some p \<Rightarrow>
            if \<not> own_public_pod tenant_id local_node_id p \<or> blocks_pod policy local_node_id (pd_slug p) \<or>
               placement_is_withdrawn st placement
            then []
            else case om_get (pst_submissions (hs_pods st)) content_item_id of
                   None \<Rightarrow> []
                 | Some s \<Rightarrow>
                     (let source = te_lowercase env (trim (sb_domain s))
                      in if blocks_source_and_topics env policy (sb_domain s) (sb_tags s) (sb_title s) (sb_summary s) \<or>
                            source = []
                         then []
                         else [lead (SA_Source source)
                                 (sample_topics env (topic_tokens env (pd_description p)) (sb_tags s))
                                 (LP_PublicContentReference content_item_id (pd_id p) source)])))"

definition lead_key :: "discovery_lead \<Rightarrow> (string \<times> string) \<times> nat \<times> uuid \<times> uuid \<times> string" where
  "lead_key l = (sa_key (ld_signal l), lp_rank (ld_provenance l))"

text \<open>The first lead of each signal and provenance.\<close>

fun first_by :: "('a \<Rightarrow> 'k) \<Rightarrow> 'k list \<Rightarrow> 'a list \<Rightarrow> 'a list" where
  "first_by key seen [] = []"
| "first_by key seen (x # xs) =
     (if key x \<in> set seen then first_by key seen xs else x # first_by key (key x # seen) xs)"

definition pair_entries :: "tools_env \<Rightarrow> (uuid \<times> uuid, 'v) omap \<Rightarrow> ((uuid \<times> uuid) \<times> 'v) list" where
  "pair_entries env m =
     List.map_filter (\<lambda>k. map_option (Pair k) (om_get m k)) (te_order_pairs env (om_keys m))"

definition policy_of_user :: "home_store \<Rightarrow> uuid \<Rightarrow> uuid option \<Rightarrow> trust_policy" where
  "policy_of_user st user_id tenant_id =
     (case om_get (pst_trust_policies (hs_pods st)) (user_id, tenant_id) of
        None \<Rightarrow> trust_policy_new user_id tenant_id | Some policy \<Rightarrow> policy)"

definition produce_network_discovery_leads ::
  "tools_env \<Rightarrow> time \<Rightarrow> home_store \<Rightarrow> uuid \<Rightarrow> uuid option \<Rightarrow> discovery_lead list" where
  "produce_network_discovery_leads env clock st user_id tenant_id =
     (let policy = policy_of_user st user_id tenant_id;
          nodes = values_in_order (x_iter_nodes (te_ext env)) (st_node_identities (hs_core st));
          announced = concat (map (announcement_leads env st policy clock)
            (values_in_order (x_iter_pods (te_ext env)) (st_known_pod_announcements (hs_core st))));
          endorsed = concat (map (endorsement_leads env st policy clock)
            (uuid_values env (ds_endorsements (hs_discovery st))));
          placed = (case find (\<lambda>n. nd_tenant_id n = tenant_id) nodes of
            None \<Rightarrow> []
          | Some node \<Rightarrow> concat (map (placement_leads env st policy tenant_id (nd_id node))
              (pair_entries env (pst_accepted_placements (hs_pods st)))))
      in sort_key lead_key (first_by (\<lambda>l. (ld_signal l, ld_provenance l)) [] (announced @ endorsed @ placed)))"

section \<open>Matching\<close>

definition topic_is_blocked :: "user_preferences option \<Rightarrow> string \<Rightarrow> bool" where
  "topic_is_blocked preferences topic =
     prefers (\<lambda>p. list_ex (\<lambda>blocked. eq_ignore_ascii_case blocked (trim topic)) (up_blocked_topics p)) preferences"

definition lead_topics_blocked :: "tools_env \<Rightarrow> user_preferences \<Rightarrow> string list \<Rightarrow> bool" where
  "lead_topics_blocked env preferences topics \<longleftrightarrow>
     list_ex (\<lambda>b. let blocked = te_lowercase env b in
         list_ex (\<lambda>topic. eq_ignore_ascii_case topic blocked \<or>
                     Skill_Packs.contains (te_lowercase env topic) blocked) topics)
       (up_blocked_topics preferences)"

definition plan_matching_topics ::
  "tools_env \<Rightarrow> user_preferences option \<Rightarrow> discovery_plan_topic list \<Rightarrow> taste_profile_projection
    \<Rightarrow> string list" where
  "plan_matching_topics env preferences topics projections =
     remdups (concat (map (\<lambda>t. topic_tokens env (pt_value t)) topics) @
       (case preferences of
          None \<Rightarrow> []
        | Some p \<Rightarrow> concat (map (topic_tokens env)
            (filter (\<lambda>i. \<not> topic_is_blocked preferences i) (up_interests p)))) @
       concat (map (\<lambda>w.
           case lw_signal w of
             LT_Topic topic \<Rightarrow>
               if f32_less 0 (lw_weight w) \<and> \<not> topic_is_blocked preferences topic then topic_tokens env topic
               else []
           | _ \<Rightarrow> []) (tp_learned projections)))"

definition liked_source :: "source_affinity \<Rightarrow> bool" where
  "liked_source a \<longleftrightarrow> f32_less 0 (saf_weight a) \<and> \<not> saf_explicitly_blocked a"

definition plan_matching_sources ::
  "discovery_plan_source_neighborhood list \<Rightarrow> taste_profile_projection \<Rightarrow> source_affinity_signal list" where
  "plan_matching_sources sources projections =
     map sn_signal sources @ map saf_signal (filter liked_source (tp_source_affinities projections))"

definition local_lead_relevance ::
  "tools_env \<Rightarrow> discovery_lead \<Rightarrow> string list \<Rightarrow> source_affinity_signal list \<Rightarrow> f32" where
  "local_lead_relevance env l topics sources =
     (if topics = [] \<and> sources = [] then 0
      else
        (let score = (if list_ex (\<lambda>s. sa_eq_ignore_ascii_case s (ld_signal l)) sources
                      then f32_add 0 f32_one else 0);
             tokens = remdups (concat (map (topic_tokens env) (ld_public_topics l)));
             matched = length (filter (\<lambda>token. token \<in> set topics) tokens)
         in if topics = [] \<or> tokens = [] \<or> matched = 0 then score
            else f32_add score (f32_div (f32_of_int (int (min matched 65535)))
                                        (f32_of_int (int (max 1 (min (length topics) 65535)))))))"

definition matched_rank :: "discovery_lead \<Rightarrow> int \<times> (string \<times> string) \<times> nat \<times> uuid \<times> uuid \<times> string" where
  "matched_rank l = (- total_cmp_key (ld_local_relevance l), lead_key l)"

definition match_network_leads_locally ::
  "tools_env \<Rightarrow> discovery_lead list \<Rightarrow> string list \<Rightarrow> source_affinity_signal list \<Rightarrow> user_preferences option
    \<Rightarrow> discovery_lead list" where
  "match_network_leads_locally env leads topics sources preferences =
     first_by ld_signal []
       (sort_key matched_rank
         (filter (\<lambda>l. f32_less 0 (ld_local_relevance l))
           (map (\<lambda>l. l\<lparr>ld_local_relevance := local_lead_relevance env l topics sources\<rparr>)
             (filter (\<lambda>l. \<not> prefers (\<lambda>p. source_affinity_is_blocked p (ld_signal l) \<or>
                                       lead_topics_blocked env p (ld_public_topics l)) preferences) leads))))"

section \<open>Adjacent neighborhoods\<close>

definition max_adjacent_network_sources :: nat where
  "max_adjacent_network_sources = 3"

fun network_lead_rationale :: "discovery_lead_provenance \<Rightarrow> string" where
  "network_lead_rationale (LP_PodAnnouncement i n s) = ''adjacent exploration from verified public Pod Announcement''"
| "network_lead_rationale (LP_ExploreSample i n s) = ''adjacent exploration from verified public Explore sample''"
| "network_lead_rationale (LP_Endorsement i n s) = ''adjacent exploration from verified public Pod Endorsement''"
| "network_lead_rationale (LP_PublicContentReference i n s) = ''adjacent exploration from local public Content Reference''"

fun select_adjacent_from_matched ::
  "discovery_lead list \<Rightarrow> source_affinity_signal list \<Rightarrow> nat \<Rightarrow> discovery_plan_source_neighborhood list" where
  "select_adjacent_from_matched [] seen cap = []"
| "select_adjacent_from_matched (l # ls) seen 0 = []"
| "select_adjacent_from_matched (l # ls) seen (Suc cap) =
     (if ld_signal l \<in> set seen then select_adjacent_from_matched ls seen (Suc cap)
      else \<lparr> sn_signal = ld_signal l, sn_rationale = network_lead_rationale (ld_provenance l),
             sn_temporary = False, sn_role = Adjacent, sn_watch = None \<rparr> #
           select_adjacent_from_matched ls (ld_signal l # seen) cap)"

end
