(* ===== verification/Discovery_Plans.thy ===== *)
theory Discovery_Plans
  imports Network_Leads
begin

text \<open>
  Readiness and the construction of a Discovery Plan (\<open>personal_discovery/mod.rs\<close>, the canonical
  spelling of a URL in \<open>domain/content.rs\<close>): a User's explicit and learned topics, the sources they
  like, their due watches and adjacent leads become one bounded plan.
\<close>

section \<open>Canonical web URLs (domain/content.rs)\<close>

definition canonical_url_error :: "string \<Rightarrow> string" where
  "canonical_url_error detail = ''invalid or unsupported URL: '' @ detail"

definition tracking_parameters :: "string list" where
  "tracking_parameters = [''utm_source'', ''utm_medium'', ''utm_campaign'', ''utm_term'', ''utm_content'']"

definition canonicalize_url_spelling :: "tools_env \<Rightarrow> string \<Rightarrow> string + string" where
  "canonicalize_url_spelling env value =
     (let x = te_ext env in
      case x_url_parse x value of
        Inl error \<Rightarrow> Inl error
      | Inr url \<Rightarrow>
          (let url = x_url_clear_fragment x url;
               url = (if (x_url_scheme x url = ''https'' \<and> te_url_port env url = Some 443) \<or>
                         (x_url_scheme x url = ''http'' \<and> te_url_port env url = Some 80)
                      then te_url_clear_port env url else url);
               pairs = sort (filter (\<lambda>(key, v). key \<notin> set tracking_parameters) (te_url_query_pairs env url));
               url = x_url_clear_query x url
           in Inr (if pairs = [] then url else te_url_extend_pairs env url pairs)))"

definition canonicalize_web_url :: "tools_env \<Rightarrow> string \<Rightarrow> string + string" where
  "canonicalize_web_url env value =
     (case canonicalize_url_spelling env value of
        Inl error \<Rightarrow> Inl error
      | Inr canonical \<Rightarrow>
          (case x_url_parse (te_ext env) canonical of
             Inl error \<Rightarrow> Inl error
           | Inr url \<Rightarrow>
               if x_url_scheme (te_ext env) url \<notin> {''http'', ''https''} \<or> x_url_host (te_ext env) url = None
               then Inl value else Inr canonical))"

section \<open>Readiness\<close>

definition json_affinity_signal :: "source_affinity_signal \<Rightarrow> json" where
  "json_affinity_signal s =
     JObj [(''kind'', JStr (fst (sa_key s))), (''value'', JStr (snd (sa_key s)))]"

fun json_plan_basis :: "discovery_plan_basis \<Rightarrow> json" where
  "json_plan_basis (PB_ExplicitTopic t) = JObj [(''kind'', JStr ''explicit_topic''), (''value'', JStr t)]"
| "json_plan_basis (PB_CorroboratedTopic t) = JObj [(''kind'', JStr ''corroborated_topic''), (''value'', JStr t)]"
| "json_plan_basis (PB_CorroboratedSource s) =
     JObj [(''kind'', JStr ''corroborated_source''), (''value'', json_affinity_signal s)]"

definition basis_text :: "tools_env \<Rightarrow> discovery_plan_basis \<Rightarrow> string" where
  "basis_text env b = (case x_json_to_vec (te_ext env) (json_plan_basis b) of Inl e \<Rightarrow> [] | Inr s \<Rightarrow> s)"

definition preferences_of :: "home_store \<Rightarrow> uuid \<Rightarrow> uuid option \<Rightarrow> user_preferences option" where
  "preferences_of st user_id tenant_id = om_get (ds_preferences (hs_discovery st)) (user_id, tenant_id)"

text \<open>An explicit interest is compared with the blocked topics as it is written.\<close>

definition interest_is_blocked :: "user_preferences \<Rightarrow> string \<Rightarrow> bool" where
  "interest_is_blocked p topic \<longleftrightarrow> list_ex (\<lambda>blocked. eq_ignore_ascii_case blocked topic) (up_blocked_topics p)"

definition learned_topics :: "taste_profile_projection \<Rightarrow> (string \<times> f32) list" where
  "learned_topics projections =
     List.map_filter (\<lambda>w.
         case lw_signal w of
           LT_Topic topic \<Rightarrow> if f32_less 0 (lw_weight w) then Some (topic, lw_weight w) else None
         | _ \<Rightarrow> None) (tp_learned projections)"

definition readiness :: "tools_env \<Rightarrow> home_store \<Rightarrow> uuid \<Rightarrow> uuid option \<Rightarrow> personal_discovery_readiness" where
  "readiness env st user_id tenant_id =
     (let preferences = preferences_of st user_id tenant_id;
          projections = taste_profile_projections st user_id tenant_id preferences;
          basis = (case preferences of
              None \<Rightarrow> []
            | Some p \<Rightarrow> map PB_ExplicitTopic (filter (\<lambda>t. \<not> interest_is_blocked p t) (up_interests p))) @
            map (\<lambda>(topic, w). PB_CorroboratedTopic topic) (learned_topics projections) @
            map (\<lambda>a. PB_CorroboratedSource (saf_signal a)) (filter liked_source (tp_source_affinities projections))
      in \<lparr> prd_ready = (basis \<noteq> []), prd_basis = sort_key (basis_text env) basis \<rparr>)"

section \<open>Prepared requests\<close>

datatype prepared_intent = PD_Topic string | PD_SimilarToUrl string string

record prepared_request =
  prq_result_count :: nat
  prq_intent :: "prepared_intent option"
  prq_focus_topics :: "string list"
  prq_avoid_topics :: "string list"
  prq_browser_grant_eligible_sources :: "string list option"

fun intent_persisted :: "prepared_intent \<Rightarrow> personal_discovery_intent" where
  "intent_persisted (PD_Topic value) = PI_Topic value"
| "intent_persisted (PD_SimilarToUrl value domain) = PI_SimilarToUrl value"

definition persisted_intent :: "prepared_request \<Rightarrow> personal_discovery_intent option" where
  "persisted_intent r = map_option intent_persisted (prq_intent r)"

abbreviation invalid_request :: "string \<Rightarrow> agent_tools_error + 'a" where
  "invalid_request message \<equiv> Inl (AT_Store (Validation message))"

definition prepare_reference :: "tools_env \<Rightarrow> string \<Rightarrow> agent_tools_error + prepared_intent" where
  "prepare_reference env url =
     (case canonicalize_web_url env url of
        Inl error \<Rightarrow> invalid_request (''invalid temporary reference: '' @ canonical_url_error error)
      | Inr canonical \<Rightarrow>
          (case x_url_parse (te_ext env) canonical of
             Inl error \<Rightarrow> invalid_request (''invalid temporary reference: '' @ error)
           | Inr parsed \<Rightarrow>
               if te_url_username env parsed \<noteq> [] \<or> te_url_password env parsed \<noteq> None
               then invalid_request ''temporary reference must not include credentials''
               else case te_url_domain env parsed of
                      None \<Rightarrow> invalid_request ''temporary reference has no domain''
                    | Some domain \<Rightarrow>
                        Inr (PD_SimilarToUrl
                          (x_url_clear_fragment (te_ext env) (x_url_clear_query (te_ext env) parsed))
                          (te_lowercase env domain))))"

definition prepare_intent ::
  "tools_env \<Rightarrow> personal_discovery_intent option \<Rightarrow> agent_tools_error + prepared_intent option" where
  "prepare_intent env intent =
     (case intent of
        None \<Rightarrow> Inr None
      | Some (PI_Topic topic) \<Rightarrow>
          if trim topic = [] then invalid_request ''temporary topic must not be empty''
          else Inr (Some (PD_Topic topic))
      | Some (PI_SimilarToUrl url) \<Rightarrow>
          (case prepare_reference env url of Inl e \<Rightarrow> Inl e | Inr i \<Rightarrow> Inr (Some i)))"

definition prepare_request :: "tools_env \<Rightarrow> request_personal_discovery \<Rightarrow> agent_tools_error + prepared_request" where
  "prepare_request env request =
     (let result_count = (case rpd_result_count request of None \<Rightarrow> 10 | Some n \<Rightarrow> n) in
      if trim (rpd_idempotency_key request) = [] then invalid_request ''idempotency key must not be empty''
      else if result_count < 1 \<or> 100 < result_count
      then invalid_request ''Personal Discovery result count must be between 1 and 100''
      else case prepare_intent env (rpd_intent request) of
             Inl e \<Rightarrow> Inl e
           | Inr intent \<Rightarrow>
               (case normalize_browser_grant_eligibility (rpd_browser_grant_eligible_sources request) of
                  Inl message \<Rightarrow> invalid_request message
                | Inr eligible \<Rightarrow>
                    Inr \<lparr> prq_result_count = result_count, prq_intent = intent, prq_focus_topics = [],
                          prq_avoid_topics = [], prq_browser_grant_eligible_sources = eligible \<rparr>))"

section \<open>Topics of a plan\<close>

record ranked_topic =
  rt_priority :: nat
  rt_weight :: f32
  rt_topic :: discovery_plan_topic

definition ranked :: "nat \<Rightarrow> f32 \<Rightarrow> string \<Rightarrow> string \<Rightarrow> bool \<Rightarrow> ranked_topic" where
  "ranked priority weight value rationale temporary =
     \<lparr> rt_priority = priority, rt_weight = weight,
       rt_topic = \<lparr> pt_value = value, pt_rationale = rationale, pt_temporary = temporary \<rparr> \<rparr>"

definition topic_rank :: "ranked_topic \<Rightarrow> int \<times> int \<times> string" where
  "topic_rank t = (- int (rt_priority t), - total_cmp_key (rt_weight t), pt_value (rt_topic t))"

text \<open>The topic a request names, unless the User blocks it.\<close>

definition intent_topics ::
  "tools_env \<Rightarrow> user_preferences option \<Rightarrow> prepared_intent option \<Rightarrow> agent_tools_error + ranked_topic list" where
  "intent_topics env preferences intent =
     (case intent of
        Some (PD_Topic topic) \<Rightarrow>
          if topic_is_blocked preferences topic
          then invalid_request ''temporary topic is explicitly blocked''
          else Inr [ranked 3 f32_infinity (te_lowercase env (trim topic)) ''temporary intent for this run'' True]
      | Some (PD_SimilarToUrl value domain) \<Rightarrow> Inr []
      | None \<Rightarrow> Inr [])"

definition focus_allowed :: "user_preferences option \<Rightarrow> string list \<Rightarrow> string \<Rightarrow> bool" where
  "focus_allowed preferences avoid topic \<longleftrightarrow>
     \<not> topic_is_blocked preferences topic \<and> \<not> list_ex (\<lambda>a. eq_ignore_ascii_case a topic) avoid"

definition max_selected_topics :: nat where
  "max_selected_topics = 5"

definition max_selected_source_neighborhoods :: nat where
  "max_selected_source_neighborhoods = 5"

definition plan_topics ::
  "tools_env \<Rightarrow> user_preferences option \<Rightarrow> taste_profile_projection \<Rightarrow> prepared_request
    \<Rightarrow> agent_tools_error + discovery_plan_topic list" where
  "plan_topics env preferences projections request =
     (case intent_topics env preferences (prq_intent request) of
        Inl e \<Rightarrow> Inl e
      | Inr temporary \<Rightarrow>
          (let interests = (case preferences of
                 None \<Rightarrow> []
               | Some p \<Rightarrow> map (\<lambda>t. ranked 2 f32_infinity t ''explicit User interest'' False)
                   (filter (\<lambda>t. \<not> topic_is_blocked (Some p) t) (up_interests p)));
               learned = map (\<lambda>(topic, w). ranked 1 w topic ''corroborated aggregate User evidence'' False)
                 (learned_topics projections);
               focus = map (\<lambda>t. ranked 3 f32_infinity (te_lowercase env (trim t))
                   ''temporary schedule focus for this run'' True)
                 (filter (focus_allowed preferences (prq_avoid_topics request)) (prq_focus_topics request))
           in Inr (take max_selected_topics
                (map rt_topic
                  (first_by (\<lambda>t. te_lowercase env (pt_value (rt_topic t))) []
                    (sort_key topic_rank (interests @ learned @ temporary @ focus)))))))"

section \<open>Sources of a plan\<close>

record ranked_source =
  rs_priority :: nat
  rs_weight :: f32
  rs_source :: discovery_plan_source_neighborhood

definition proven_source :: "nat \<Rightarrow> f32 \<Rightarrow> source_affinity_signal \<Rightarrow> string \<Rightarrow> bool \<Rightarrow> ranked_source" where
  "proven_source priority weight signal rationale temporary =
     \<lparr> rs_priority = priority, rs_weight = weight,
       rs_source = \<lparr> sn_signal = signal, sn_rationale = rationale, sn_temporary = temporary,
                     sn_role = Proven, sn_watch = None \<rparr> \<rparr>"

definition source_rank :: "ranked_source \<Rightarrow> int \<times> int \<times> string \<times> string" where
  "source_rank s = (- int (rs_priority s), - total_cmp_key (rs_weight s), sa_key (sn_signal (rs_source s)))"

definition intent_sources ::
  "user_preferences option \<Rightarrow> prepared_intent option \<Rightarrow> agent_tools_error + ranked_source list" where
  "intent_sources preferences intent =
     (case intent of
        Some (PD_SimilarToUrl value domain) \<Rightarrow>
          if prefers (\<lambda>p. source_affinity_is_blocked p (SA_Source domain)) preferences
          then invalid_request ''temporary reference source is explicitly blocked''
          else Inr [proven_source 3 f32_infinity (SA_Source domain)
                      ''temporary similar-link intent for this run'' True]
      | Some (PD_Topic value) \<Rightarrow> Inr []
      | None \<Rightarrow> Inr [])"

definition proven_sources ::
  "user_preferences option \<Rightarrow> taste_profile_projection \<Rightarrow> prepared_intent option
    \<Rightarrow> agent_tools_error + discovery_plan_source_neighborhood list" where
  "proven_sources preferences projections intent =
     (case intent_sources preferences intent of
        Inl e \<Rightarrow> Inl e
      | Inr temporary \<Rightarrow>
          (let liked = map (\<lambda>a. proven_source 1 (saf_weight a) (saf_signal a)
                 ''corroborated aggregate User evidence'' False)
                 (filter liked_source (tp_source_affinities projections))
           in Inr (take max_selected_source_neighborhoods
                (map rs_source
                  (first_by (\<lambda>s. sn_signal (rs_source s)) []
                    (sort_key source_rank (liked @ temporary)))))))"

definition due_watch_neighborhoods ::
  "tools_env \<Rightarrow> home_store \<Rightarrow> uuid \<Rightarrow> uuid option \<Rightarrow> time \<Rightarrow> discovery_plan_source_neighborhood list" where
  "due_watch_neighborhoods env st user_id tenant_id now =
     List.map_filter (\<lambda>w. map_option (\<lambda>domain.
           \<lparr> sn_signal = SA_Source domain, sn_rationale = ''due User watch'', sn_temporary = False,
             sn_role = Proven,
             sn_watch = Some \<lparr> pwt_watch_id = uw_id w, pwt_url = uw_url w, pwt_kind = uw_kind w,
                              pwt_skill = uw_skill w \<rparr> \<rparr>)
         (watch_domain env (uw_url w)))
       (sort_key (\<lambda>w. (uw_created_at w, uw_id w))
         (filter (\<lambda>w. uw_user_id w = user_id \<and> uw_tenant_id w = tenant_id \<and> watch_is_due now w)
           (om_vals (ds_watches (hs_discovery st)))))"

text \<open>Due watches lead; proven sources they cover give way; adjacent leads fill what is left.\<close>

definition plan_sources ::
  "tools_env \<Rightarrow> time \<Rightarrow> home_store \<Rightarrow> uuid \<Rightarrow> uuid option \<Rightarrow> time \<Rightarrow> user_preferences option
    \<Rightarrow> taste_profile_projection \<Rightarrow> discovery_plan_topic list
    \<Rightarrow> discovery_plan_source_neighborhood list \<Rightarrow> discovery_plan_source_neighborhood list" where
  "plan_sources env clock st user_id tenant_id now preferences projections topics proven =
     (let watches = due_watch_neighborhoods env st user_id tenant_id now;
          seen = map sn_signal proven @ map sn_signal watches;
          uncovered = filter (\<lambda>s. \<not> list_ex (\<lambda>w. sa_eq_ignore_ascii_case (sn_signal w) (sn_signal s)) watches) proven;
          sources = watches @ uncovered;
          cap = min (max_selected_source_neighborhoods - length sources) max_adjacent_network_sources
      in if cap = 0 then sources
         else sources @
           select_adjacent_from_matched
             (match_network_leads_locally env (produce_network_discovery_leads env clock st user_id tenant_id)
                (plan_matching_topics env preferences topics projections)
                (plan_matching_sources sources projections) preferences)
             seen cap)"

section \<open>The plan\<close>

definition proven_share :: "nat \<Rightarrow> nat" where
  "proven_share result_count = min 65535 (min 65535 (result_count * 7) + 9) div 10"

fun avoid_more :: "string list \<Rightarrow> string list \<Rightarrow> string list" where
  "avoid_more blocked [] = blocked"
| "avoid_more blocked (topic # topics) =
     avoid_more (if list_ex (\<lambda>b. eq_ignore_ascii_case b topic) blocked then blocked else blocked @ [topic]) topics"

definition build_plan ::
  "tools_env \<Rightarrow> time \<Rightarrow> uuid \<Rightarrow> home_store \<Rightarrow> uuid \<Rightarrow> uuid option \<Rightarrow> prepared_request \<Rightarrow> time
    \<Rightarrow> agent_tools_error + discovery_plan" where
  "build_plan env clock new_id st user_id tenant_id request now =
     (let result_count = prq_result_count request;
          preferences = preferences_of st user_id tenant_id;
          projections = taste_profile_projections st user_id tenant_id preferences
      in case plan_topics env preferences projections request of
           Inl e \<Rightarrow> Inl e
         | Inr topics \<Rightarrow>
             (case proven_sources preferences projections (prq_intent request) of
                Inl e \<Rightarrow> Inl e
              | Inr proven \<Rightarrow>
                  (let sources = plan_sources env clock st user_id tenant_id now preferences projections topics proven;
                       pref = (\<lambda>f. case preferences of None \<Rightarrow> [] | Some p \<Rightarrow> f p)
                   in Inr \<lparr> pl_id = new_id, pl_user_id = user_id, pl_tenant_id = tenant_id,
                        pl_result_count = result_count, pl_topics = topics,
                        pl_source_neighborhoods = filter_neighborhoods_by_browser_grant sources
                          (prq_browser_grant_eligible_sources request),
                        pl_allocation = \<lparr> al_proven = proven_share result_count,
                          al_adjacent = result_count - proven_share result_count \<rparr>,
                        pl_constraints = \<lparr> pc_max_per_domain = 3, pc_max_per_author_or_account = 2,
                          pc_max_per_publisher = 2, pc_max_per_community = 2,
                          pc_canonical_deduplication = True, pc_suppress_recently_reviewed = True,
                          pc_blocked_topics = avoid_more (pref up_blocked_topics) (prq_avoid_topics request),
                          pc_blocked_sources = pref up_blocked_sources,
                          pc_blocked_source_affinities =
                            (case preferences of None \<Rightarrow> [] | Some p \<Rightarrow> up_blocked_source_affinities p) \<rparr>,
                        pl_intent = persisted_intent request, pl_created_at = now \<rparr>)))"

text \<open>A plan stamps its watches as planned for the current period of their cadence.\<close>

definition stamp_planned_watches :: "discovery_plan \<Rightarrow> time \<Rightarrow> home_store \<Rightarrow> home_store" where
  "stamp_planned_watches plan now =
     set_discovery (\<lambda>d. d\<lparr>ds_watches := fold (\<lambda>n m.
         case sn_watch n of
           None \<Rightarrow> m
         | Some w \<Rightarrow>
             (case om_get m (pwt_watch_id w) of
                None \<Rightarrow> m
              | Some stored \<Rightarrow>
                  om_put (pwt_watch_id w)
                    (stored\<lparr>uw_last_planned_at := Some (watch_period_start (uw_cadence stored) now)\<rparr>) m))
       (pl_source_neighborhoods plan) (ds_watches d)\<rparr>)"

end
