(* ===== verification/Discovery_Schedules.thy ===== *)
theory Discovery_Schedules
  imports Discovery_Plans Task_Queue
begin

text \<open>
  Personal Discovery schedules (\<open>personal_discovery/schedules.rs\<close>) and the tools on them
  (\<open>agent_tools/discover/schedules.rs\<close>): requests, schedules, their tasks, and the one notification
  of a scheduled batch.
\<close>

section \<open>Validation\<close>

definition validate_result_count :: "nat \<Rightarrow> string + nat" where
  "validate_result_count n =
     (if 1 \<le> n \<and> n \<le> 100 then Inr n
      else Inl ''Personal Discovery schedule result count must be between 1 and 100'')"

definition validate_name :: "string \<Rightarrow> string + string" where
  "validate_name name =
     (let name = trim name
      in if name = [] then Inl ''schedule name must not be empty''
         else if length name > 120 then Inl ''schedule name must be at most 120 characters''
         else Inr name)"

fun normalize_topics :: "tools_env \<Rightarrow> string \<Rightarrow> string list \<Rightarrow> string list \<Rightarrow> string + string list" where
  "normalize_topics env label normalized [] = Inr normalized"
| "normalize_topics env label normalized (topic # topics) =
     (let value = te_lowercase env (trim topic)
      in if value = [] then Inl (label @ '' topic must not be empty'')
         else normalize_topics env label
           (if list_ex (\<lambda>existing. eq_ignore_ascii_case existing value) normalized then normalized
            else normalized @ [value]) topics)"

definition normalize_intent ::
  "tools_env \<Rightarrow> personal_discovery_schedule_intent \<Rightarrow> string + personal_discovery_schedule_intent" where
  "normalize_intent env intent =
     (case normalize_topics env ''focus'' [] (si_focus_topics intent) of
        Inl e \<Rightarrow> Inl e
      | Inr focus_topics \<Rightarrow>
          (case normalize_topics env ''avoid'' [] (si_avoid_topics intent) of
             Inl e \<Rightarrow> Inl e
           | Inr avoid_topics \<Rightarrow>
               (case find (\<lambda>focus. list_ex (\<lambda>avoid. eq_ignore_ascii_case avoid focus) avoid_topics) focus_topics of
                  Some focus \<Rightarrow>
                    Inl (''focus topic '' @ te_debug_string env focus @ '' cannot also appear in avoid topics'')
                | None \<Rightarrow> Inr \<lparr> si_focus_topics = focus_topics, si_avoid_topics = avoid_topics \<rparr>)))"

definition prepare_schedule_run ::
  "tools_env \<Rightarrow> personal_discovery_schedule \<Rightarrow> agent_tools_error + prepared_request" where
  "prepare_schedule_run env schedule =
     (case validate_result_count (ps_result_count schedule) of
        Inl message \<Rightarrow> invalid_request message
      | Inr result_count \<Rightarrow>
          (case normalize_intent env (ps_intent schedule) of
             Inl message \<Rightarrow> invalid_request message
           | Inr intent \<Rightarrow>
               Inr \<lparr> prq_result_count = result_count, prq_intent = None,
                     prq_focus_topics = si_focus_topics intent, prq_avoid_topics = si_avoid_topics intent,
                     prq_browser_grant_eligible_sources = None \<rparr>))"

section \<open>Backpressure and status\<close>

definition of_schedule :: "uuid \<Rightarrow> discovery_task \<Rightarrow> bool" where
  "of_schedule schedule_id task \<longleftrightarrow> dt_origin task = DO_PersonalScheduled schedule_id"

text \<open>The first task of a schedule, by creation, that is in flight or has an unreviewed batch.\<close>

fun backpressure_of ::
  "tools_env \<Rightarrow> home_store \<Rightarrow> discovery_task list \<Rightarrow> personal_discovery_schedule_backpressure" where
  "backpressure_of env st [] = BP_None"
| "backpressure_of env st (task # tasks) =
     (case dt_state task of
        DT_Pending \<Rightarrow> BP_InFlightTask (dt_id task)
      | DT_Leased lease \<Rightarrow> BP_InFlightTask (dt_id task)
      | _ \<Rightarrow>
          (case find (\<lambda>b. drb_task_id b = dt_id task \<and> drb_state b = DB_Ready)
                  (uuid_values env (ds_result_batches (hs_discovery st))) of
             Some batch \<Rightarrow> BP_UnreviewedBatch (drb_id batch) (dt_id task)
           | None \<Rightarrow> backpressure_of env st tasks))"

definition schedule_backpressure ::
  "tools_env \<Rightarrow> home_store \<Rightarrow> uuid \<Rightarrow> personal_discovery_schedule_backpressure" where
  "schedule_backpressure env st schedule_id =
     backpressure_of env st
       (sort_key (\<lambda>t. (dt_created_at t, dt_id t))
         (filter (of_schedule schedule_id) (om_vals (hs_discovery_tasks st))))"

definition schedule_status ::
  "tools_env \<Rightarrow> home_store \<Rightarrow> personal_discovery_schedule \<Rightarrow> time \<Rightarrow> personal_discovery_schedule_status" where
  "schedule_status env st schedule now =
     (let period_start = personal_period_start (te_month_start env) (ps_cadence schedule) now
      in \<lparr> pss_schedule = schedule,
           pss_readiness_dormant =
             (\<not> prd_ready (readiness env st (ps_user_id schedule) (ps_tenant_id schedule))),
           pss_backpressure = schedule_backpressure env st (ps_id schedule),
           pss_current_period_start = period_start,
           pss_current_period_task_id =
             map_option dt_id (find (\<lambda>t. of_schedule (ps_id schedule) t \<and> dt_due_at t = period_start)
               (uuid_values env (hs_discovery_tasks st))) \<rparr>)"

section \<open>Tasks of due schedules\<close>

definition put_plan :: "discovery_plan \<Rightarrow> home_store \<Rightarrow> home_store" where
  "put_plan plan st = st\<lparr>hs_discovery_plans := om_put (pl_id plan) plan (hs_discovery_plans st)\<rparr>"

definition personal_task :: "uuid \<Rightarrow> uuid \<Rightarrow> discovery_task_origin \<Rightarrow> time \<Rightarrow> time \<Rightarrow> discovery_task" where
  "personal_task task_id plan_id origin due_at now =
     \<lparr> dt_id = task_id, dt_target = TT_Personal plan_id, dt_origin = origin, dt_due_at = due_at,
       dt_state = DT_Pending, dt_attempts = [], dt_created_at = now \<rparr>"

definition schedule_is_due :: "tools_env \<Rightarrow> home_store \<Rightarrow> personal_discovery_schedule \<Rightarrow> time \<Rightarrow> bool" where
  "schedule_is_due env st schedule due_at \<longleftrightarrow>
     schedule_backpressure env st (ps_id schedule) = BP_None \<and>
     \<not> list_ex (\<lambda>t. of_schedule (ps_id schedule) t \<and> dt_due_at t = due_at) (om_vals (hs_discovery_tasks st))"

text \<open>
  \<open>draw\<close> gives the identities of the plan and of the task that the n-th due schedule makes. A failure
  leaves what the schedules before it made.
\<close>

fun materialize_schedules ::
  "tools_env \<Rightarrow> time \<Rightarrow> (nat \<Rightarrow> uuid \<times> uuid) \<Rightarrow> uuid \<Rightarrow> uuid option \<Rightarrow> time \<Rightarrow> discovery_task list
    \<Rightarrow> personal_discovery_schedule list \<Rightarrow> discovery_task list tool" where
  "materialize_schedules env clock draw user_id tenant_id now created [] st = (st, Inr created)"
| "materialize_schedules env clock draw user_id tenant_id now created (schedule # schedules) st =
     (let due_at = personal_period_start (te_month_start env) (ps_cadence schedule) now in
      if \<not> schedule_is_due env st schedule due_at
      then materialize_schedules env clock draw user_id tenant_id now created schedules st
      else case prepare_schedule_run env schedule of
             Inl e \<Rightarrow> (st, Inl e)
           | Inr prepared \<Rightarrow>
               (case build_plan env clock (fst (draw (length created))) st user_id tenant_id prepared now of
                  Inl e \<Rightarrow> (st, Inl e)
                | Inr plan \<Rightarrow>
                    (let task = personal_task (snd (draw (length created))) (pl_id plan)
                                  (DO_PersonalScheduled (ps_id schedule)) due_at now
                     in materialize_schedules env clock draw user_id tenant_id now (created @ [task]) schedules
                          (put_task (dt_id task) task (put_plan plan (stamp_planned_watches plan now st))))))"

definition materialize_due_personal_schedules ::
  "tools_env \<Rightarrow> time \<Rightarrow> (nat \<Rightarrow> uuid \<times> uuid) \<Rightarrow> uuid \<Rightarrow> uuid option \<Rightarrow> time \<Rightarrow> discovery_task list tool" where
  "materialize_due_personal_schedules env clock draw user_id tenant_id now st =
     (if \<not> prd_ready (readiness env st user_id tenant_id) then (st, Inr [])
      else materialize_schedules env clock draw user_id tenant_id now []
        (sort_key (\<lambda>s. (ps_name s, ps_id s))
          (filter (\<lambda>s. ps_user_id s = user_id \<and> ps_tenant_id s = tenant_id \<and> ps_enabled s)
            (om_vals (ds_schedules (hs_discovery st))))) st)"

text \<open>
  The part of \<open>list_discovery_tasks\<close> for personal schedules: the tasks made are audited and, when
  there are any, the store is written.
\<close>

fun record_writes :: "auth_context \<Rightarrow> harness_write_operation \<Rightarrow> (nat \<Rightarrow> uuid \<times> time) \<Rightarrow> nat \<Rightarrow> home_store \<Rightarrow> home_store" where
  "record_writes ctx operation audits 0 st = st"
| "record_writes ctx operation audits (Suc n) st =
     record_harness_write_at ctx operation None (snd (audits n)) (fst (audits n))
       (record_writes ctx operation audits n st)"

definition list_materializing_schedules ::
  "tools_env \<Rightarrow> time \<Rightarrow> (nat \<Rightarrow> uuid \<times> uuid) \<Rightarrow> (nat \<Rightarrow> uuid \<times> time) \<Rightarrow> auth_context \<Rightarrow> time
    \<Rightarrow> discovery_task list tool" where
  "list_materializing_schedules env clock draw audits ctx now =
     (case ctx_user_id ctx of
        None \<Rightarrow> ret []
      | Some user_id \<Rightarrow>
          bind_tool (materialize_due_personal_schedules env clock draw user_id (ctx_tenant_id ctx) now) (\<lambda>created.
          bind_tool (writes (record_writes ctx HW_CreateDiscoveryTask audits (length created))) (\<lambda>_.
          if created = [] then ret created else persist env created)))"

definition list_discovery_tasks ::
  "tools_env \<Rightarrow> time \<Rightarrow> (nat \<Rightarrow> uuid \<times> uuid \<times> time) \<Rightarrow> (nat \<Rightarrow> uuid \<times> uuid) \<Rightarrow> (nat \<Rightarrow> uuid \<times> time)
    \<Rightarrow> auth_context \<Rightarrow> time \<Rightarrow> discovery_task list tool" where
  "list_discovery_tasks env clock pod_draw draw audits ctx now =
     bind_tool (gets (\<lambda>st. (\<not> isl (authorize_harness env st ctx Cap_DiscoveryTasks None),
         \<not> isl (authorize_personal_discovery_execution env st ctx) \<or>
         \<not> isl (authorize_personal_discovery_management env st ctx)))) (\<lambda>may.
     bind_tool (if fst may then materialize_due_discovery_tasks env pod_draw ctx now else ret []) (\<lambda>_.
     bind_tool (if snd may then list_materializing_schedules env clock draw audits ctx now else ret []) (\<lambda>_.
     reads (visible_discovery_tasks env ctx now))))"

definition notification_state_for_schedule ::
  "personal_discovery_delivery_mode \<Rightarrow> discovery_result_notification_state" where
  "notification_state_for_schedule mode =
     (case mode of NotifyWhenSupported \<Rightarrow> DN_Pending | QueueOnly \<Rightarrow> DN_NotApplicable)"

definition ensure_results_ready_event ::
  "uuid \<Rightarrow> uuid \<Rightarrow> personal_discovery_delivery_mode \<Rightarrow> discovery_result_batch \<Rightarrow> time \<Rightarrow> home_store \<Rightarrow> home_store" where
  "ensure_results_ready_event new_id schedule_id mode batch now st =
     (case om_get (ds_ready_events (hs_discovery st)) (drb_id batch) of
        Some existing \<Rightarrow> st
      | None \<Rightarrow>
          set_discovery (\<lambda>d. d\<lparr>ds_ready_events := om_put (drb_id batch)
            \<lparr> rre_id = new_id, rre_user_id = drb_user_id batch, rre_tenant_id = drb_tenant_id batch,
              rre_schedule_id = schedule_id, rre_batch_id = drb_id batch, rre_task_id = drb_task_id batch,
              rre_delivery_mode = mode, rre_created_at = now, rre_notification_attempted_at = None \<rparr>
            (ds_ready_events d)\<rparr>) st)"

section \<open>Authority\<close>

definition authorize_personal_discovery_schedule_read ::
  "tools_env \<Rightarrow> home_store \<Rightarrow> auth_context \<Rightarrow> agent_tools_error + unit" where
  "authorize_personal_discovery_schedule_read env st ctx =
     (case authorize_personal_discovery_management env st ctx of
        Inr _ \<Rightarrow> Inr ()
      | Inl _ \<Rightarrow> authorize_personal_discovery_execution env st ctx)"

definition required_user :: "string \<Rightarrow> auth_context \<Rightarrow> agent_tools_error + uuid" where
  "required_user message ctx = ok_or (AT_Store (Validation message)) (ctx_user_id ctx)"

definition managing_user :: "tools_env \<Rightarrow> auth_context \<Rightarrow> uuid tool" where
  "managing_user env ctx =
     bind_tool (reads (\<lambda>st. authorize_personal_discovery_management env st ctx)) (\<lambda>_.
     reads (\<lambda>st. required_user ''Personal Discovery requires an authenticated User'' ctx))"

definition reading_user :: "tools_env \<Rightarrow> auth_context \<Rightarrow> uuid tool" where
  "reading_user env ctx =
     bind_tool (reads (\<lambda>st. authorize_personal_discovery_schedule_read env st ctx)) (\<lambda>_.
     reads (\<lambda>st. required_user ''Personal Discovery requires an authenticated User'' ctx))"

definition audited :: "auth_context \<Rightarrow> harness_write_operation \<Rightarrow> uuid \<times> time \<Rightarrow> unit tool" where
  "audited ctx operation drawn = writes (record_harness_write_at ctx operation None (snd drawn) (fst drawn))"

definition valid :: "string + 'a \<Rightarrow> agent_tools_error + 'a" where
  "valid r = (case r of Inl message \<Rightarrow> Inl (AT_Store (Validation message)) | Inr a \<Rightarrow> Inr a)"

section \<open>Requests\<close>

definition find_map :: "('a \<Rightarrow> 'b option) \<Rightarrow> 'a list \<Rightarrow> 'b option" where
  "find_map f xs = (case List.map_filter f xs of [] \<Rightarrow> None | y # ys \<Rightarrow> Some y)"

definition retry ::
  "tools_env \<Rightarrow> home_store \<Rightarrow> uuid \<Rightarrow> uuid option \<Rightarrow> string \<Rightarrow> uuid option
    \<Rightarrow> (discovery_plan \<times> discovery_task) option" where
  "retry env st user_id tenant_id idempotency_key requested_by =
     find_map (\<lambda>task.
         case dt_origin task of
           DO_PersonalRequest key creator \<Rightarrow>
             (case Option.bind (tt_discovery_plan_id (dt_target task)) (om_get (hs_discovery_plans st)) of
                None \<Rightarrow> None
              | Some plan \<Rightarrow>
                  if key = idempotency_key \<and> creator = requested_by \<and> pl_user_id plan = user_id \<and>
                     pl_tenant_id plan = tenant_id
                  then Some (plan, task) else None)
         | _ \<Rightarrow> None)
       (uuid_values env (hs_discovery_tasks st))"

definition request_personal_discovery_at ::
  "tools_env \<Rightarrow> draws \<Rightarrow> auth_context \<Rightarrow> request_personal_discovery \<Rightarrow> time
    \<Rightarrow> (discovery_plan \<times> discovery_task) tool" where
  "request_personal_discovery_at env d ctx request now =
     bind_tool (managing_user env ctx) (\<lambda>user_id.
     bind_tool (reads (\<lambda>st. prepare_request env request)) (\<lambda>prepared.
     bind_tool (gets (\<lambda>st. retry env st user_id (ctx_tenant_id ctx) (rpd_idempotency_key request)
                      (ctx_harness_id ctx))) (\<lambda>existing.
     case existing of
       Some (plan, task) \<Rightarrow>
         if pl_intent plan \<noteq> persisted_intent prepared \<or> pl_result_count plan \<noteq> prq_result_count prepared
         then failing AT_PersonalDiscoveryIdempotencyConflict else ret (plan, task)
     | None \<Rightarrow>
         bind_tool (require_that (\<lambda>st. \<not> (rpd_intent request = None \<and>
             \<not> prd_ready (readiness env st user_id (ctx_tenant_id ctx)))) AT_PersonalDiscoveryNotReady) (\<lambda>_.
         bind_tool (reads (\<lambda>st. build_plan env (snd (d 0)) (fst (d 0)) st user_id (ctx_tenant_id ctx) prepared now)) (\<lambda>plan.
         let task = personal_task (fst (d 1)) (pl_id plan)
               (DO_PersonalRequest (rpd_idempotency_key request) (ctx_harness_id ctx)) now now
         in staged
           (bind_tool (writes (\<lambda>st. put_task (dt_id task) task (put_plan plan (stamp_planned_watches plan now st)))) (\<lambda>_.
            bind_tool (audited ctx HW_RequestPersonalDiscovery (d 2)) (\<lambda>_.
            persist env (plan, task)))))))))"

section \<open>Schedules\<close>

definition put_schedule :: "personal_discovery_schedule \<Rightarrow> home_store \<Rightarrow> home_store" where
  "put_schedule s = set_discovery (\<lambda>d. d\<lparr>ds_schedules := om_put (ps_id s) s (ds_schedules d)\<rparr>)"

definition schedule_named :: "uuid \<Rightarrow> uuid option \<Rightarrow> string \<Rightarrow> personal_discovery_schedule \<Rightarrow> bool" where
  "schedule_named user_id tenant_id name s \<longleftrightarrow>
     ps_user_id s = user_id \<and> ps_tenant_id s = tenant_id \<and> eq_ignore_ascii_case (ps_name s) name"

definition duplicate_schedule :: "string \<Rightarrow> agent_tools_error" where
  "duplicate_schedule name = AT_Store (Duplicate (''Personal Discovery schedule named '' @ name))"

definition schedules_of :: "home_store \<Rightarrow> personal_discovery_schedule list" where
  "schedules_of st = om_vals (ds_schedules (hs_discovery st))"

text \<open>The end of a tool that changed a schedule: write it, audit it, persist, and report its status.\<close>

definition finish_schedule ::
  "tools_env \<Rightarrow> auth_context \<Rightarrow> harness_write_operation \<Rightarrow> uuid \<times> time \<Rightarrow> personal_discovery_schedule \<Rightarrow> time
    \<Rightarrow> personal_discovery_schedule_status tool" where
  "finish_schedule env ctx operation drawn schedule now =
     bind_tool (staged
       (bind_tool (writes (put_schedule schedule)) (\<lambda>_.
        bind_tool (audited ctx operation drawn) (\<lambda>_.
        persist env ())))) (\<lambda>_.
     gets (\<lambda>st. schedule_status env st schedule now))"

definition create_personal_discovery_schedule ::
  "tools_env \<Rightarrow> draws \<Rightarrow> auth_context \<Rightarrow> create_personal_discovery_schedule_request \<Rightarrow> time
    \<Rightarrow> personal_discovery_schedule_status tool" where
  "create_personal_discovery_schedule env d ctx request now =
     bind_tool (managing_user env ctx) (\<lambda>user_id.
     bind_tool (reads (\<lambda>st. valid (validate_name (csr_name request)))) (\<lambda>name.
     bind_tool (reads (\<lambda>st. valid (normalize_intent env (csr_intent request)))) (\<lambda>intent.
     bind_tool (reads (\<lambda>st. valid (validate_result_count
        (case csr_result_count request of None \<Rightarrow> 10 | Some n \<Rightarrow> n)))) (\<lambda>result_count.
     bind_tool (require_that (\<lambda>st. \<not> list_ex (schedule_named user_id (ctx_tenant_id ctx) name) (schedules_of st))
       (duplicate_schedule name)) (\<lambda>_.
     finish_schedule env ctx HW_CreatePersonalDiscoverySchedule (d 1)
       \<lparr> ps_id = fst (d 0), ps_user_id = user_id, ps_tenant_id = ctx_tenant_id ctx, ps_name = name,
         ps_cadence = csr_cadence request, ps_intent = intent, ps_result_count = result_count,
         ps_delivery_mode = csr_delivery_mode request, ps_enabled = True, ps_created_at = now,
         ps_updated_at = now \<rparr> now)))))"

text \<open>The schedule a User names, which must be theirs.\<close>

definition own_schedule :: "auth_context \<Rightarrow> uuid \<Rightarrow> uuid \<Rightarrow> personal_discovery_schedule tool" where
  "own_schedule ctx user_id schedule_id =
     bind_tool (reads (\<lambda>st. ok_or (AT_Store (NotFound ''Personal Discovery schedule''))
       (om_get (ds_schedules (hs_discovery st)) schedule_id))) (\<lambda>schedule.
     if ps_user_id schedule \<noteq> user_id \<or> ps_tenant_id schedule \<noteq> ctx_tenant_id ctx
     then failing (AT_Forbidden ''Personal Discovery schedule belongs to another User'')
     else ret schedule)"

definition list_personal_discovery_schedules ::
  "tools_env \<Rightarrow> auth_context \<Rightarrow> time \<Rightarrow> personal_discovery_schedule_status list tool" where
  "list_personal_discovery_schedules env ctx now =
     bind_tool (reading_user env ctx) (\<lambda>user_id.
     gets (\<lambda>st. sort_key (\<lambda>s. (ps_name (pss_schedule s), ps_id (pss_schedule s)))
       (map (\<lambda>s. schedule_status env st s now)
         (filter (\<lambda>s. ps_user_id s = user_id \<and> ps_tenant_id s = ctx_tenant_id ctx) (schedules_of st)))))"

definition personal_discovery_schedule_of ::
  "tools_env \<Rightarrow> auth_context \<Rightarrow> uuid \<Rightarrow> time \<Rightarrow> personal_discovery_schedule_status tool" where
  "personal_discovery_schedule_of env ctx schedule_id now =
     bind_tool (reading_user env ctx) (\<lambda>user_id.
     bind_tool (own_schedule ctx user_id schedule_id) (\<lambda>schedule.
     gets (\<lambda>st. schedule_status env st schedule now)))"

definition given :: "('a \<Rightarrow> string + 'b) \<Rightarrow> 'b \<Rightarrow> 'a option \<Rightarrow> agent_tools_error + 'b" where
  "given f existing v = (case v of None \<Rightarrow> Inr existing | Some a \<Rightarrow> valid (f a))"

definition unwrap_or :: "'a \<Rightarrow> 'a option \<Rightarrow> 'a" where
  "unwrap_or a v = (case v of None \<Rightarrow> a | Some b \<Rightarrow> b)"

definition update_personal_discovery_schedule ::
  "tools_env \<Rightarrow> draws \<Rightarrow> auth_context \<Rightarrow> uuid \<Rightarrow> update_personal_discovery_schedule_request \<Rightarrow> time
    \<Rightarrow> personal_discovery_schedule_status tool" where
  "update_personal_discovery_schedule env d ctx schedule_id request now =
     bind_tool (managing_user env ctx) (\<lambda>user_id.
     bind_tool (own_schedule ctx user_id schedule_id) (\<lambda>existing.
     bind_tool (reads (\<lambda>st. given validate_name (ps_name existing) (usr_name request))) (\<lambda>name.
     bind_tool (require_that (\<lambda>st. \<not> list_ex (\<lambda>s. ps_id s \<noteq> schedule_id \<and>
         schedule_named user_id (ctx_tenant_id ctx) name s) (schedules_of st)) (duplicate_schedule name)) (\<lambda>_.
     bind_tool (reads (\<lambda>st. given (normalize_intent env) (ps_intent existing) (usr_intent request))) (\<lambda>intent.
     bind_tool (reads (\<lambda>st. given validate_result_count (ps_result_count existing) (usr_result_count request))) (\<lambda>result_count.
     finish_schedule env ctx HW_UpdatePersonalDiscoverySchedule (d 0)
       (existing\<lparr>ps_name := name, ps_cadence := unwrap_or (ps_cadence existing) (usr_cadence request),
         ps_intent := intent, ps_result_count := result_count,
         ps_delivery_mode := unwrap_or (ps_delivery_mode existing) (usr_delivery_mode request),
         ps_enabled := unwrap_or (ps_enabled existing) (usr_enabled request), ps_updated_at := now\<rparr>) now))))))"

definition disable_personal_discovery_schedule ::
  "tools_env \<Rightarrow> draws \<Rightarrow> auth_context \<Rightarrow> uuid \<Rightarrow> time \<Rightarrow> personal_discovery_schedule_status tool" where
  "disable_personal_discovery_schedule env d ctx schedule_id now =
     bind_tool (managing_user env ctx) (\<lambda>user_id.
     bind_tool (own_schedule ctx user_id schedule_id) (\<lambda>schedule.
     finish_schedule env ctx HW_DisablePersonalDiscoverySchedule (d 0)
       (schedule\<lparr>ps_enabled := False, ps_updated_at := now\<rparr>) now))"

definition remove_personal_discovery_schedule ::
  "tools_env \<Rightarrow> draws \<Rightarrow> auth_context \<Rightarrow> uuid \<Rightarrow> personal_discovery_schedule tool" where
  "remove_personal_discovery_schedule env d ctx schedule_id =
     bind_tool (managing_user env ctx) (\<lambda>user_id.
     bind_tool (own_schedule ctx user_id schedule_id) (\<lambda>schedule.
     staged
       (bind_tool (writes (set_discovery (\<lambda>ds. ds\<lparr>ds_schedules := om_del schedule_id (ds_schedules ds)\<rparr>))) (\<lambda>_.
        bind_tool (audited ctx HW_RemovePersonalDiscoverySchedule (d 0)) (\<lambda>_.
        persist env schedule)))))"

section \<open>The one notification\<close>

datatype results_ready_outcome =
    RN_QueueOnly discovery_results_ready_event discovery_result_batch
  | RN_AlreadyAttempted discovery_results_ready_event discovery_result_batch
  | RN_ShouldNotify discovery_results_ready_event discovery_result_batch

definition attempt_discovery_results_ready_notification ::
  "tools_env \<Rightarrow> draws \<Rightarrow> auth_context \<Rightarrow> uuid \<Rightarrow> time \<Rightarrow> results_ready_outcome tool" where
  "attempt_discovery_results_ready_notification env d ctx batch_id now =
     bind_tool (reading_user env ctx) (\<lambda>user_id.
     bind_tool (reads (\<lambda>st. ok_or (AT_Store (NotFound ''Discovery Result Batch''))
       (om_get (ds_result_batches (hs_discovery st)) batch_id))) (\<lambda>batch.
     if drb_user_id batch \<noteq> user_id \<or> drb_tenant_id batch \<noteq> ctx_tenant_id ctx
     then failing (AT_Forbidden ''Discovery Result Batch belongs to another User'')
     else
     bind_tool (reads (\<lambda>st. ok_or (AT_Store (NotFound ''Discovery-results-ready Event''))
       (om_get (ds_ready_events (hs_discovery st)) batch_id))) (\<lambda>event.
     if rre_delivery_mode event = QueueOnly then ret (RN_QueueOnly event batch)
     else if rre_notification_attempted_at event \<noteq> None \<or> drb_notification_state batch = DN_Delivered
     then ret (RN_AlreadyAttempted event batch)
     else
       (let event' = event\<lparr>rre_notification_attempted_at := Some now\<rparr>;
            batch' = batch\<lparr>drb_notification_state := DN_Delivered\<rparr>
        in staged
          (bind_tool (writes (set_discovery (\<lambda>ds.
             ds\<lparr>ds_ready_events := om_put batch_id event' (ds_ready_events ds),
                ds_result_batches := om_put batch_id batch' (ds_result_batches ds)\<rparr>))) (\<lambda>_.
           bind_tool (audited ctx HW_AttemptDiscoveryResultsReadyNotification (d 0)) (\<lambda>_.
           persist env (RN_ShouldNotify event' batch'))))))))"

end
