(* ===== verification/Result_Tools.thy ===== *)
theory Result_Tools
  imports Discovery_Schedules Trust_Policy
begin

text \<open>
  The tools around result batches (\<open>agent_tools/discover/results.rs\<close>) except the review of one item:
  a worker's report of what it could reach, the completion of a task as one batch, and the User's
  reading, dismissal and review of batches; and the User's watches (\<open>agent_tools/discover/context.rs\<close>).
\<close>

section \<open>The task of a worker\<close>

text \<open>A personal task with its plan, for the harness that may work on it.\<close>

definition personal_task_of ::
  "tools_env \<Rightarrow> auth_context \<Rightarrow> uuid \<Rightarrow> string \<Rightarrow> (uuid \<times> discovery_task \<times> discovery_plan) tool" where
  "personal_task_of env ctx task_id message =
     bind_tool (reads (\<lambda>st. authorized_discovery_task_mutation env st ctx task_id)) (\<lambda>(pod_id, harness_id).
     if pod_id \<noteq> None then failing (AT_Store (Validation message))
     else
     bind_tool (reads (\<lambda>st. ok_or (AT_Store (NotFound ''Discovery Task'')) (task_at st task_id))) (\<lambda>task.
     bind_tool (reads (\<lambda>st. ok_or (AT_Store (Validation ''Personal Discovery Task missing plan''))
       (tt_discovery_plan_id (dt_target task)))) (\<lambda>plan_id.
     bind_tool (reads (\<lambda>st. ok_or (AT_Store (NotFound ''Discovery Plan''))
       (om_get (hs_discovery_plans st) plan_id))) (\<lambda>plan.
     ret (harness_id, task, plan)))))"

text \<open>The live lease of the harness on the task.\<close>

definition leased_by :: "uuid \<Rightarrow> time \<Rightarrow> discovery_task \<Rightarrow> discovery_task_lease tool" where
  "leased_by harness_id now task =
     (case dt_state task of
        DT_Leased lease \<Rightarrow>
          if dl_harness_id lease \<noteq> harness_id \<or> dl_expires_at lease \<le> now then failing AT_TaskLeaseRequired
          else ret lease
      | _ \<Rightarrow> failing AT_TaskLeaseRequired)"

section \<open>Reports\<close>

definition notice_update ::
  "discovery_plan \<Rightarrow> uuid \<Rightarrow> bool \<Rightarrow> time \<Rightarrow> (nat \<Rightarrow> uuid) \<Rightarrow> reported_source_availability list
    \<Rightarrow> home_store \<Rightarrow> home_store \<times> authentication_needed_notice_outcome list" where
  "notice_update plan task_id scheduled now ids reports st =
     (case evaluate_authentication_notices (pl_user_id plan) (pl_tenant_id plan) task_id scheduled now ids
             reports (ds_notices (hs_discovery st)) of
        (notices, outcomes) \<Rightarrow> (set_discovery (\<lambda>d. d\<lparr>ds_notices := notices\<rparr>) st, outcomes))"

text \<open>\<open>ids\<close> gives the identities of new notices.\<close>

definition report_discovery_source_availability ::
  "tools_env \<Rightarrow> (nat \<Rightarrow> uuid) \<Rightarrow> draws \<Rightarrow> auth_context \<Rightarrow> report_discovery_source_availability_request \<Rightarrow> time
    \<Rightarrow> (discovery_task_source_availability \<times> authentication_needed_notice_outcome list) tool" where
  "report_discovery_source_availability env ids d ctx request now =
     (let task_id = rsr_task_id request in
     bind_tool (personal_task_of env ctx task_id
       ''report_discovery_source_availability requires a Personal Discovery Task'') (\<lambda>(harness_id, task, plan).
     bind_tool (leased_by harness_id now task) (\<lambda>_.
     bind_tool (reads (\<lambda>st. valid (normalize_reports (rsr_reports request)))) (\<lambda>reports.
     bind_tool (reads (\<lambda>st. valid (normalize_browser_grant_eligibility
       (rsr_browser_grant_eligible_sources request)))) (\<lambda>eligible.
     staged
       (bind_tool (\<lambda>st. case upsert_task_source_availability env task_id (pl_user_id plan) (pl_tenant_id plan)
                               harness_id reports eligible now st of (st', a) \<Rightarrow> (st', Inr a)) (\<lambda>availability.
        bind_tool (\<lambda>st. case notice_update plan task_id (task_is_scheduled task) now ids
                               (tsa_reports availability) st of (st', outcomes) \<Rightarrow> (st', Inr outcomes)) (\<lambda>outcomes.
        bind_tool (audited ctx HW_ReportDiscoverySourceAvailability (d 0)) (\<lambda>_.
        persist env (availability, outcomes))))))))))"

definition list_authentication_needed_notices ::
  "tools_env \<Rightarrow> auth_context \<Rightarrow> authentication_needed_notice list tool" where
  "list_authentication_needed_notices env ctx =
     bind_tool (managing_user env ctx) (\<lambda>user_id.
     gets (\<lambda>st. sort_key (\<lambda>n. (an_first_emitted_at n, an_id n))
       (filter (\<lambda>n. an_user_id n = user_id \<and> an_tenant_id n = ctx_tenant_id ctx)
         (ds_notices (hs_discovery st)))))"

definition discovery_task_source_availability_of ::
  "tools_env \<Rightarrow> auth_context \<Rightarrow> uuid \<Rightarrow> discovery_task_source_availability tool" where
  "discovery_task_source_availability_of env ctx task_id =
     bind_tool (reading_user env ctx) (\<lambda>user_id.
     reads (\<lambda>st. ok_or (AT_Store (NotFound ''Discovery Task source availability''))
       (case om_get (pst_source_availability (hs_pods st)) task_id of
          None \<Rightarrow> None
        | Some a \<Rightarrow> if tsa_user_id a = user_id \<and> tsa_tenant_id a = ctx_tenant_id ctx then Some a else None)))"

section \<open>Completing a task as a batch\<close>

definition bound_to_task :: "uuid \<Rightarrow> discovery_plan \<Rightarrow> uuid \<Rightarrow> candidate_submission \<Rightarrow> bool" where
  "bound_to_task task_id plan harness_id s \<longleftrightarrow>
     (case cs_target s of
        CS_PersonalDiscovery user_id task plan_id role facts \<Rightarrow>
          task = task_id \<and> plan_id = pl_id plan \<and> user_id = pl_user_id plan \<and> cs_submitted_by s = harness_id
      | CS_PodPlacements placements task_context \<Rightarrow> False
      | CS_User user_id learn metadata \<Rightarrow> False)"

text \<open>The submissions in the order given, each once, all bound to the task of this harness.\<close>

fun ordered_submissions ::
  "home_store \<Rightarrow> (candidate_submission \<Rightarrow> bool) \<Rightarrow> uuid list \<Rightarrow> uuid list
    \<Rightarrow> agent_tools_error + candidate_submission list" where
  "ordered_submissions st bound seen [] = Inr []"
| "ordered_submissions st bound seen (i # rest) =
     (if i \<in> set seen then ordered_submissions st bound seen rest
      else case om_get (ds_candidate_submissions (hs_discovery st)) i of
             None \<Rightarrow> Inl (AT_Store (NotFound ''Candidate Submission''))
           | Some s \<Rightarrow>
               if \<not> bound s
               then Inl (AT_Store (Validation
                      ''submission is not a task-bound Personal Discovery result for this lease''))
               else (case ordered_submissions st bound (i # seen) rest of
                       Inl e \<Rightarrow> Inl e | Inr ss \<Rightarrow> Inr (s # ss)))"

definition scheduled_delivery ::
  "home_store \<Rightarrow> discovery_task \<Rightarrow> (uuid \<times> personal_discovery_delivery_mode) option" where
  "scheduled_delivery st task =
     (case dt_origin task of
        DO_PersonalScheduled schedule_id \<Rightarrow>
          Some (schedule_id,
            case om_get (ds_schedules (hs_discovery st)) schedule_id of
              None \<Rightarrow> QueueOnly | Some schedule \<Rightarrow> ps_delivery_mode schedule)
      | _ \<Rightarrow> None)"

definition with_delivery ::
  "(uuid \<times> personal_discovery_delivery_mode) option \<Rightarrow> discovery_result_batch \<Rightarrow> discovery_result_batch" where
  "with_delivery delivery batch =
     (case delivery of
        None \<Rightarrow> batch
      | Some (schedule_id, mode) \<Rightarrow> batch\<lparr>drb_notification_state := notification_state_for_schedule mode\<rparr>)"

definition completed_task :: "uuid \<Rightarrow> discovery_task_lease \<Rightarrow> time \<Rightarrow> discovery_task \<Rightarrow> discovery_task" where
  "completed_task harness_id lease now task =
     task\<lparr>dt_attempts := dt_attempts task @
            [\<lparr> at_harness_id = harness_id, at_started_at = dl_claimed_at lease, at_finished_at = now,
               at_outcome = AO_Completed \<rparr>],
          dt_state := DT_Completed\<rparr>"

definition put_batch :: "discovery_result_batch \<Rightarrow> home_store \<Rightarrow> home_store" where
  "put_batch b = set_discovery (\<lambda>d. d\<lparr>ds_result_batches := om_put (drb_id b) b (ds_result_batches d)\<rparr>)"

text \<open>Everything the completion writes but the audit.\<close>

definition apply_completion ::
  "tools_env \<Rightarrow> (nat \<Rightarrow> uuid) \<Rightarrow> uuid \<Rightarrow> uuid \<Rightarrow> uuid \<Rightarrow> discovery_task \<Rightarrow> discovery_plan \<Rightarrow> discovery_task_lease
    \<Rightarrow> reported_source_availability list \<Rightarrow> string list option
    \<Rightarrow> (uuid \<times> personal_discovery_delivery_mode) option \<Rightarrow> discovery_result_batch \<Rightarrow> time
    \<Rightarrow> home_store \<Rightarrow> home_store" where
  "apply_completion env ids event_id harness_id task_id task plan lease reports eligible delivery batch now st =
     (let st1 = fst (upsert_task_source_availability env task_id (pl_user_id plan) (pl_tenant_id plan)
                       harness_id reports eligible now st);
          st2 = fst (notice_update plan task_id (task_is_scheduled task) now ids reports st1);
          st3 = put_batch batch st2;
          st4 = (case delivery of
            None \<Rightarrow> st3
          | Some (schedule_id, mode) \<Rightarrow> ensure_results_ready_event event_id schedule_id mode batch now st3)
      in put_task task_id (completed_task harness_id lease now task) st4)"

definition complete_discovery_result_batch ::
  "tools_env \<Rightarrow> (nat \<Rightarrow> uuid) \<Rightarrow> draws \<Rightarrow> auth_context \<Rightarrow> complete_discovery_result_batch_request \<Rightarrow> time
    \<Rightarrow> discovery_result_batch tool" where
  "complete_discovery_result_batch env ids d ctx request now =
     (let task_id = cbr_task_id request in
     bind_tool (personal_task_of env ctx task_id
       ''complete_discovery_result_batch requires a Personal Discovery Task'') (\<lambda>(harness_id, task, plan).
     bind_tool (gets (\<lambda>st. find (\<lambda>b. drb_task_id b = task_id)
       (uuid_values env (ds_result_batches (hs_discovery st))))) (\<lambda>existing.
     case existing of
       Some batch \<Rightarrow> ret batch
     | None \<Rightarrow>
     bind_tool (leased_by harness_id now task) (\<lambda>lease.
     bind_tool (reads (\<lambda>st. valid (resolve_completion_reports st task_id (cbr_source_availability request)
       (cbr_browser_grant_eligible_sources request)))) (\<lambda>(reports, eligible).
     bind_tool (reads (\<lambda>st. ordered_submissions st (bound_to_task task_id plan harness_id) []
       (cbr_submission_ids request))) (\<lambda>ordered.
     bind_tool (gets (\<lambda>st. (scheduled_delivery st task,
       with_delivery (scheduled_delivery st task)
         (build_discovery_result_batch env st plan task_id ordered (ds_candidates (hs_discovery st)) reports
           (task_is_scheduled task) now)))) (\<lambda>(delivery, batch).
     staged
       (bind_tool (writes (apply_completion env ids (fst (d 0)) harness_id task_id task plan lease reports
          eligible delivery batch now)) (\<lambda>_.
        bind_tool (audited ctx HW_CompleteDiscoveryResultBatch (d 1)) (\<lambda>_.
        persist env batch))))))))))"

section \<open>Batches of the User\<close>

definition users_batch :: "auth_context \<Rightarrow> uuid \<Rightarrow> discovery_result_batch \<Rightarrow> bool" where
  "users_batch ctx user_id b \<longleftrightarrow> drb_user_id b = user_id \<and> drb_tenant_id b = ctx_tenant_id ctx"

definition list_discovery_result_batches :: "tools_env \<Rightarrow> auth_context \<Rightarrow> discovery_result_batch list tool" where
  "list_discovery_result_batches env ctx =
     bind_tool (managing_user env ctx) (\<lambda>user_id.
     gets (\<lambda>st. sort_key (\<lambda>b. (drb_created_at b, drb_id b))
       (filter (users_batch ctx user_id) (om_vals (ds_result_batches (hs_discovery st))))))"

definition own_batch :: "auth_context \<Rightarrow> uuid \<Rightarrow> uuid \<Rightarrow> discovery_result_batch tool" where
  "own_batch ctx user_id batch_id =
     reads (\<lambda>st. ok_or (AT_Store (NotFound ''Discovery Result Batch''))
       (case om_get (ds_result_batches (hs_discovery st)) batch_id of
          None \<Rightarrow> None | Some b \<Rightarrow> if users_batch ctx user_id b then Some b else None))"

definition discovery_result_batch_of ::
  "tools_env \<Rightarrow> auth_context \<Rightarrow> uuid \<Rightarrow> discovery_result_batch tool" where
  "discovery_result_batch_of env ctx batch_id =
     bind_tool (managing_user env ctx) (\<lambda>user_id. own_batch ctx user_id batch_id)"

text \<open>The change is made in place: when persisting fails, it stays unless the store was reloaded.\<close>

definition change_batch ::
  "tools_env \<Rightarrow> auth_context \<Rightarrow> harness_write_operation \<Rightarrow> uuid \<times> time \<Rightarrow> uuid \<Rightarrow> discovery_result_batch
    \<Rightarrow> discovery_result_batch tool" where
  "change_batch env ctx operation drawn batch_id batch =
     bind_tool (writes (set_discovery (\<lambda>d. d\<lparr>ds_result_batches := om_put batch_id batch (ds_result_batches d)\<rparr>))) (\<lambda>_.
     bind_tool (audited ctx operation drawn) (\<lambda>_.
     persist env batch))"

definition dismiss_discovery_result_batch ::
  "tools_env \<Rightarrow> draws \<Rightarrow> auth_context \<Rightarrow> uuid \<Rightarrow> time \<Rightarrow> discovery_result_batch tool" where
  "dismiss_discovery_result_batch env d ctx batch_id now =
     bind_tool (managing_user env ctx) (\<lambda>user_id.
     bind_tool (own_batch ctx user_id batch_id) (\<lambda>batch.
     case drb_state batch of
       DB_Dismissed \<Rightarrow> ret batch
     | DB_Reviewed \<Rightarrow> failing (AT_Store (Validation ''reviewed Discovery Result Batch cannot be dismissed''))
     | DB_Ready \<Rightarrow>
         change_batch env ctx HW_DismissDiscoveryResultBatch (d 0) batch_id
           (batch\<lparr>drb_state := DB_Dismissed, drb_dismissed_at := Some now\<rparr>)))"

definition mark_discovery_result_batch_reviewed ::
  "tools_env \<Rightarrow> draws \<Rightarrow> auth_context \<Rightarrow> uuid \<Rightarrow> time \<Rightarrow> discovery_result_batch tool" where
  "mark_discovery_result_batch_reviewed env d ctx batch_id now =
     bind_tool (managing_user env ctx) (\<lambda>user_id.
     bind_tool (own_batch ctx user_id batch_id) (\<lambda>batch.
     case drb_state batch of
       DB_Reviewed \<Rightarrow> ret batch
     | DB_Dismissed \<Rightarrow>
         failing (AT_Store (Validation ''dismissed Discovery Result Batch cannot be marked reviewed''))
     | DB_Ready \<Rightarrow>
         change_batch env ctx HW_MarkDiscoveryResultBatchReviewed (d 0) batch_id
           (batch\<lparr>drb_state := DB_Reviewed, drb_reviewed_at := Some now\<rparr>)))"

section \<open>Watches\<close>

definition list_watches :: "home_store \<Rightarrow> uuid \<Rightarrow> uuid option \<Rightarrow> user_watch list" where
  "list_watches st user_id tenant_id =
     sort_key (\<lambda>w. (uw_created_at w, uw_id w))
       (filter (\<lambda>w. uw_user_id w = user_id \<and> uw_tenant_id w = tenant_id)
         (om_vals (ds_watches (hs_discovery st))))"

definition watching_user :: "tools_env \<Rightarrow> auth_context \<Rightarrow> uuid tool" where
  "watching_user env ctx =
     bind_tool (reads (\<lambda>st. authorize_personal_discovery_management env st ctx)) (\<lambda>_.
     reads (\<lambda>st. required_user ''watches require an authenticated User'' ctx))"

definition list_user_watches :: "tools_env \<Rightarrow> auth_context \<Rightarrow> user_watch list tool" where
  "list_user_watches env ctx =
     bind_tool (watching_user env ctx) (\<lambda>user_id. gets (\<lambda>st. list_watches st user_id (ctx_tenant_id ctx)))"

record add_user_watch_request =
  aw_url :: string
  aw_kind :: user_watch_kind
  aw_cadence :: "user_watch_cadence option"
  aw_skill :: "string option"

definition checked_skill :: "string option \<Rightarrow> agent_tools_error + string option" where
  "checked_skill skill =
     (case skill of
        None \<Rightarrow> Inr None
      | Some s \<Rightarrow>
          if trim s = [] \<or> length (trim s) > 120
          then Inl (AT_Store (Validation ''watch skill must be 1..=120 characters''))
          else Inr (Some (trim s)))"

definition watched_url :: "tools_env \<Rightarrow> string \<Rightarrow> agent_tools_error + string" where
  "watched_url env value =
     and_then (parse_public_url env value ''watch url'') (\<lambda>url.
     and_then (validate_public_scheme_and_host env url ''watch url'') (\<lambda>_.
     if te_url_domain env url = None
     then Inl (AT_Store (Validation ''watch url must have a domain'')) else Inr url))"

definition add_user_watch ::
  "tools_env \<Rightarrow> draws \<Rightarrow> auth_context \<Rightarrow> add_user_watch_request \<Rightarrow> time \<Rightarrow> user_watch tool" where
  "add_user_watch env d ctx request now =
     bind_tool (reads (\<lambda>st. watched_url env (aw_url request))) (\<lambda>url.
     bind_tool (reads (\<lambda>st. checked_skill (aw_skill request))) (\<lambda>skill.
     bind_tool (watching_user env ctx) (\<lambda>user_id.
     let normalized = normalized_url url;
         watch = \<lparr> uw_id = fst (d 0), uw_user_id = user_id, uw_tenant_id = ctx_tenant_id ctx,
                   uw_url = normalized, uw_kind = aw_kind request,
                   uw_cadence = unwrap_or WC_Daily (aw_cadence request), uw_skill = skill,
                   uw_last_availability = None, uw_last_planned_at = None, uw_created_at = now \<rparr>
     in bind_tool (require_that (\<lambda>st. \<not> list_ex (\<lambda>w. uw_user_id w = user_id \<and>
            uw_tenant_id w = ctx_tenant_id ctx \<and> eq_ignore_ascii_case (uw_url w) normalized)
            (om_vals (ds_watches (hs_discovery st))))
          (AT_Store (Duplicate (''watch for '' @ normalized)))) (\<lambda>_.
        staged
          (bind_tool (writes (set_discovery (\<lambda>ds. ds\<lparr>ds_watches := om_put (uw_id watch) watch (ds_watches ds)\<rparr>))) (\<lambda>_.
           bind_tool (audited ctx HW_AddUserWatch (d 1)) (\<lambda>_.
           persist env watch)))))))"

definition remove_user_watch :: "tools_env \<Rightarrow> draws \<Rightarrow> auth_context \<Rightarrow> uuid \<Rightarrow> user_watch tool" where
  "remove_user_watch env d ctx watch_id =
     bind_tool (watching_user env ctx) (\<lambda>user_id.
     bind_tool (reads (\<lambda>st. ok_or (AT_Store (NotFound ''watch'')) (om_get (ds_watches (hs_discovery st)) watch_id))) (\<lambda>watch.
     if uw_user_id watch \<noteq> user_id \<or> uw_tenant_id watch \<noteq> ctx_tenant_id ctx
     then failing (AT_Forbidden ''watch belongs to another User'')
     else staged
       (bind_tool (writes (set_discovery (\<lambda>ds. ds\<lparr>ds_watches := om_del watch_id (ds_watches ds)\<rparr>))) (\<lambda>_.
        bind_tool (audited ctx HW_RemoveUserWatch (d 0)) (\<lambda>_.
        persist env watch)))))"

end
