(* ===== verification/Batch_Laws.thy ===== *)
theory Batch_Laws
  imports Result_Batches
begin

text \<open>
  What the selection of a result batch guarantees: its state is the tally of the picks made so far,
  every pick passed the policy, and a batch stays short only when every submission was picked or
  refused by the policy.
\<close>

section \<open>Picks\<close>

record pick =
  pi_candidate :: candidate
  pi_submission :: candidate_submission
  pi_role :: discovery_plan_source_role
  pi_facts :: candidate_interest_seed_metadata

definition pick_url :: "pick \<Rightarrow> string" where
  "pick_url p = cd_canonical_url (pi_candidate p)"

definition pick_domain :: "tools_env \<Rightarrow> pick \<Rightarrow> string option" where
  "pick_domain env p = domain_of env (pick_url p)"

definition pick_author :: "pick \<Rightarrow> string option" where
  "pick_author p = author_of (pi_submission p)"

definition pick_publisher :: "pick \<Rightarrow> string option" where
  "pick_publisher p = publisher_of (pi_facts p)"

definition pick_community :: "pick \<Rightarrow> string option" where
  "pick_community p = community_of (pi_facts p)"

definition item_of :: "nat \<Rightarrow> pick \<Rightarrow> discovery_result_item" where
  "item_of position p =
     \<lparr> dri_position = position, dri_candidate_id = cd_id (pi_candidate p),
       dri_submission_id = cs_id (pi_submission p), dri_canonical_url = pick_url p,
       dri_allocation_role = pi_role p, dri_review = Unreviewed \<rparr>"

definition items_of :: "pick list \<Rightarrow> discovery_result_item list" where
  "items_of picks = map (\<lambda>(n, p). item_of n p) (enumerate 0 picks)"

definition tally :: "('p \<Rightarrow> string option) \<Rightarrow> 'p list \<Rightarrow> string \<Rightarrow> nat" where
  "tally f picks k = length (filter (\<lambda>p. f p = Some k) picks)"

definition role_count :: "discovery_plan_source_role \<Rightarrow> pick list \<Rightarrow> nat" where
  "role_count role picks = length (filter (\<lambda>p. pi_role p = role) picks)"

text \<open>A pick is a submission for the task, with its candidate and its declared role and facts.\<close>

definition bound_pick :: "(uuid, candidate) omap \<Rightarrow> candidate_submission list \<Rightarrow> pick \<Rightarrow> bool" where
  "bound_pick candidates ordered p \<longleftrightarrow>
     pi_submission p \<in> set ordered \<and>
     om_get candidates (cs_candidate_id (pi_submission p)) = Some (pi_candidate p) \<and>
     personal_target (cs_target (pi_submission p)) = Some (pi_role p, pi_facts p)"

text \<open>What the plan's policy allows in one batch.\<close>

definition policy_kept ::
  "tools_env \<Rightarrow> discovery_plan \<Rightarrow> string list \<Rightarrow> pick list \<Rightarrow> bool" where
  "policy_kept env plan recent picks \<longleftrightarrow>
     (let c = pl_constraints plan in
      list_all (\<lambda>p. blocked_detail env plan (pi_candidate p) (pi_submission p) (pi_facts p) = None) picks \<and>
      (pc_canonical_deduplication c \<longrightarrow> distinct (map pick_url picks)) \<and>
      (pc_suppress_recently_reviewed c \<longrightarrow> list_all (\<lambda>p. pick_url p \<notin> set recent) picks) \<and>
      (\<forall>k. tally (pick_domain env) picks k \<le> pc_max_per_domain c) \<and>
      (\<forall>k. tally pick_author picks k \<le> pc_max_per_author_or_account c) \<and>
      (\<forall>k. tally pick_publisher picks k \<le> pc_max_per_publisher c) \<and>
      (\<forall>k. tally pick_community picks k \<le> pc_max_per_community c))"

text \<open>The state is what the picks made it.\<close>

definition tallies :: "tools_env \<Rightarrow> pick list \<Rightarrow> batch_selection \<Rightarrow> bool" where
  "tallies env picks state \<longleftrightarrow>
     se_selected state = items_of picks \<and>
     se_proven_filled state = role_count Proven picks \<and>
     se_adjacent_filled state = role_count Adjacent picks \<and>
     set (se_seen_canonical state) = pick_url ` set picks \<and>
     tally_of (se_domain_counts state) = tally (pick_domain env) picks \<and>
     tally_of (se_author_counts state) = tally pick_author picks \<and>
     tally_of (se_publisher_counts state) = tally pick_publisher picks \<and>
     tally_of (se_community_counts state) = tally pick_community picks"

lemma length_items_of [simp]: "length (items_of picks) = length picks"
  by (simp add: items_of_def)

lemma items_of_append: "items_of (picks @ [p]) = items_of picks @ [item_of (length picks) p]"
  by (simp add: items_of_def enumerate_append_eq)

lemma tally_append: "tally f (picks @ [p]) k = (if f p = Some k then Suc (tally f picks k) else tally f picks k)"
  by (simp add: tally_def)

lemma tally_le: "tally f picks k \<le> length picks"
  by (simp add: tally_def)

lemma role_count_le: "role_count r picks \<le> length picks"
  by (simp add: role_count_def)

lemma u16_small: "n < 65536 \<Longrightarrow> u16 n = n"
  by (simp add: u16_def)

lemma tally_of_put: "tally_of (om_put k n m) k' = (if k' = k then n else tally_of m k')"
  by (simp add: tally_of_def)

lemma tally_of_tally_up:
  assumes "tally_of m = tally f picks" and "length picks < 65535"
  shows "tally_of (tally_up_optional (f p) m) = tally f (picks @ [p])"
proof
  fix k
  have "tally f picks k' < 65535" for k' using tally_le[of f picks k'] assms(2) by linarith
  then show "tally_of (tally_up_optional (f p) m) k = tally f (picks @ [p]) k"
    using assms(1)
    by (cases "f p") (simp_all add: tally_up_optional_def tally_up_def tally_of_put tally_append u16_def)
qed

section \<open>A step keeps the tallies and the policy\<close>

lemma tallies_empty: "tallies env [] empty_selection"
  by (simp add: tallies_def empty_selection_def items_of_def role_count_def tally_of_def tally_def fun_eq_iff)

lemma tallies_push:
  assumes "tallies env picks state" and "length picks < 65535"
    and "p = \<lparr> pi_candidate = c, pi_submission = s, pi_role = role, pi_facts = facts \<rparr>"
  shows "tallies env (picks @ [p]) (push_selected env c s role facts state)"
proof -
  have roles: "role_count Proven picks < 65535" "role_count Adjacent picks < 65535"
    using role_count_le[of _ picks] assms(2) by (meson le_less_trans)+
  have counts: "tally_of (tally_up_optional (domain_of env (cd_canonical_url c)) (se_domain_counts state)) =
       tally (pick_domain env) (picks @ [p])"
    "tally_of (tally_up_optional (author_of s) (se_author_counts state)) = tally pick_author (picks @ [p])"
    "tally_of (tally_up_optional (publisher_of facts) (se_publisher_counts state)) =
       tally pick_publisher (picks @ [p])"
    "tally_of (tally_up_optional (community_of facts) (se_community_counts state)) =
       tally pick_community (picks @ [p])"
    using assms tally_of_tally_up[of "se_domain_counts state" "pick_domain env" picks p]
      tally_of_tally_up[of "se_author_counts state" pick_author picks p]
      tally_of_tally_up[of "se_publisher_counts state" pick_publisher picks p]
      tally_of_tally_up[of "se_community_counts state" pick_community picks p]
    by (simp_all add: tallies_def pick_domain_def pick_url_def pick_author_def pick_publisher_def pick_community_def)
  show ?thesis
    unfolding tallies_def push_selected_def
    using assms roles
    by (simp add: counts tallies_def items_of_append item_of_def pick_url_def role_count_def u16_def)
qed

lemma or_else_None: "or_else a b = None \<longleftrightarrow> a = None \<and> b = None"
  by (auto simp: or_else_def split: option.splits)

lemma over_cap_None: "over_cap value counts cap reject = None \<longleftrightarrow> (\<forall>v. value = Some v \<longrightarrow> tally_of counts v < cap)"
  by (auto simp: over_cap_def split: option.splits)

lemma not_rejected:
  "reject_for_policy env state plan c s facts recent = None \<longleftrightarrow>
     (let k = pl_constraints plan; url = cd_canonical_url c in
      blocked_detail env plan c s facts = None \<and>
      (pc_canonical_deduplication k \<longrightarrow> url \<notin> set (se_seen_canonical state)) \<and>
      (pc_suppress_recently_reviewed k \<longrightarrow> url \<notin> set recent) \<and>
      (\<forall>v. domain_of env url = Some v \<longrightarrow> tally_of (se_domain_counts state) v < pc_max_per_domain k) \<and>
      (\<forall>v. author_of s = Some v \<longrightarrow> tally_of (se_author_counts state) v < pc_max_per_author_or_account k) \<and>
      (\<forall>v. publisher_of facts = Some v \<longrightarrow> tally_of (se_publisher_counts state) v < pc_max_per_publisher k) \<and>
      (\<forall>v. community_of facts = Some v \<longrightarrow> tally_of (se_community_counts state) v < pc_max_per_community k))"
  by (cases "blocked_detail env plan c s facts")
    (simp_all add: reject_for_policy_def or_else_None over_cap_None Let_def)

lemma cap_push:
  assumes "\<forall>k. tally f picks k \<le> cap" and "\<forall>v. f p = Some v \<longrightarrow> tally f picks v < cap"
  shows "\<forall>k. tally f (picks @ [p]) k \<le> cap"
  using assms by (auto simp: tally_append Suc_le_eq)

lemma policy_push:
  assumes tallies: "tallies env picks state" and kept: "policy_kept env plan recent picks"
    and accepted: "reject_for_policy env state plan c s facts recent = None"
    and p: "p = \<lparr> pi_candidate = c, pi_submission = s, pi_role = role, pi_facts = facts \<rparr>"
  shows "policy_kept env plan recent (picks @ [p])"
proof -
  let ?k = "pl_constraints plan"
  have fields: "pick_url p = cd_canonical_url c" "pick_domain env p = domain_of env (cd_canonical_url c)"
    "pick_author p = author_of s" "pick_publisher p = publisher_of facts" "pick_community p = community_of facts"
    by (simp_all add: p pick_url_def pick_domain_def pick_author_def pick_publisher_def pick_community_def)
  note acc = accepted[unfolded not_rejected Let_def]
  note t = tallies[unfolded tallies_def]
  have "\<forall>k. tally (pick_domain env) (picks @ [p]) k \<le> pc_max_per_domain ?k"
    by (rule cap_push) (use kept acc t fields in \<open>auto simp: policy_kept_def Let_def\<close>)
  moreover have "\<forall>k. tally pick_author (picks @ [p]) k \<le> pc_max_per_author_or_account ?k"
    by (rule cap_push) (use kept acc t fields in \<open>auto simp: policy_kept_def Let_def\<close>)
  moreover have "\<forall>k. tally pick_publisher (picks @ [p]) k \<le> pc_max_per_publisher ?k"
    by (rule cap_push) (use kept acc t fields in \<open>auto simp: policy_kept_def Let_def\<close>)
  moreover have "\<forall>k. tally pick_community (picks @ [p]) k \<le> pc_max_per_community ?k"
    by (rule cap_push) (use kept acc t fields in \<open>auto simp: policy_kept_def Let_def\<close>)
  moreover have "pc_canonical_deduplication ?k \<longrightarrow> distinct (map pick_url (picks @ [p]))"
    using kept acc t fields by (auto simp: policy_kept_def Let_def)
  moreover have "list_all (\<lambda>p. blocked_detail env plan (pi_candidate p) (pi_submission p) (pi_facts p) = None) (picks @ [p])"
    using kept acc p by (simp add: policy_kept_def Let_def)
  moreover have "pc_suppress_recently_reviewed ?k \<longrightarrow> list_all (\<lambda>p. pick_url p \<notin> set recent) (picks @ [p])"
    using kept acc fields by (simp add: policy_kept_def Let_def)
  ultimately show ?thesis unfolding policy_kept_def Let_def by blast
qed

text \<open>Recording a rejection leaves the tallies alone.\<close>

lemma tallies_note:
  assumes "tallies env picks (ba_state p)"
  shows "tallies env picks (ba_state (note_rejection i reason p))"
  using assms by (cases reason) (simp_all add: note_rejection_def tallies_def)

section \<open>A pass keeps the picks\<close>

text \<open>The picks of a run of the passes.\<close>

definition selects ::
  "tools_env \<Rightarrow> discovery_plan \<Rightarrow> (uuid, candidate) omap \<Rightarrow> candidate_submission list \<Rightarrow> string list
    \<Rightarrow> pick list \<Rightarrow> passes \<Rightarrow> bool" where
  "selects env plan candidates ordered recent picks p \<longleftrightarrow>
     tallies env picks (ba_state p) \<and> policy_kept env plan recent picks \<and>
     list_all (bound_pick candidates ordered) picks \<and> length picks \<le> pl_result_count plan"

lemma selects_push:
  assumes sel: "selects env plan candidates ordered recent picks p" and "pl_result_count plan < 65536"
    and open_: "\<not> batch_is_full plan (ba_state p)"
    and s: "s \<in> set ordered" and target: "personal_target (cs_target s) = Some (role, facts)"
    and candidate: "om_get candidates (cs_candidate_id s) = Some c"
    and accepted: "reject_for_policy env (ba_state p) plan c s facts recent = None"
    and state: "ba_state p' = push_selected env c s role facts (ba_state p)"
  shows "selects env plan candidates ordered recent
    (picks @ [\<lparr> pi_candidate = c, pi_submission = s, pi_role = role, pi_facts = facts \<rparr>]) p'"
proof -
  have len: "length (se_selected (ba_state p)) = length picks"
    using sel by (simp add: selects_def tallies_def)
  have short: "length picks < pl_result_count plan"
    using open_ sel assms(2) by (simp add: batch_is_full_def len u16_def selects_def)
  show ?thesis
    unfolding selects_def
    using sel short assms(2) s target candidate tallies_push[of env picks "ba_state p" _ c s role facts]
      policy_push[OF _ _ accepted refl]
    by (simp add: selects_def state bound_pick_def)
qed

definition picks_on ::
  "tools_env \<Rightarrow> discovery_plan \<Rightarrow> (uuid, candidate) omap \<Rightarrow> candidate_submission list \<Rightarrow> string list
    \<Rightarrow> (candidate_submission \<Rightarrow> passes \<Rightarrow> passes) \<Rightarrow> bool" where
  "picks_on env plan candidates ordered recent step \<longleftrightarrow>
     (\<forall>s\<in>set ordered. \<forall>p picks. selects env plan candidates ordered recent picks p \<longrightarrow>
        \<not> batch_is_full plan (ba_state p) \<longrightarrow>
        selects env plan candidates ordered recent picks (step s p) \<or>
        (\<exists>pick. pi_submission pick = s \<and>
           selects env plan candidates ordered recent (picks @ [pick]) (step s p)))"

lemma selects_note:
  "selects env plan candidates ordered recent picks p \<Longrightarrow>
   selects env plan candidates ordered recent picks (note_rejection i reason p)"
  by (simp add: selects_def tallies_note)

lemma first_picks:
  assumes "pl_result_count plan < 65536"
  shows "picks_on env plan candidates ordered recent (consider_first env plan candidates recent)"
  unfolding picks_on_def
proof (intro ballI allI impI)
  fix s p picks
  assume s: "s \<in> set ordered" and sel: "selects env plan candidates ordered recent picks p"
    and open_: "\<not> batch_is_full plan (ba_state p)"
  show "selects env plan candidates ordered recent picks (consider_first env plan candidates recent s p) \<or>
    (\<exists>pick. pi_submission pick = s \<and>
       selects env plan candidates ordered recent (picks @ [pick]) (consider_first env plan candidates recent s p))"
  proof (cases "\<exists>role facts c. personal_target (cs_target s) = Some (role, facts) \<and>
      om_get candidates (cs_candidate_id s) = Some c \<and>
      reject_for_policy env (ba_state p) plan c s facts recent = None \<and> \<not> role_full plan role (ba_state p)")
    case True
    then obtain role facts c where x: "personal_target (cs_target s) = Some (role, facts)"
      "om_get candidates (cs_candidate_id s) = Some c"
      "reject_for_policy env (ba_state p) plan c s facts recent = None" "\<not> role_full plan role (ba_state p)"
      by blast
    have "ba_state (consider_first env plan candidates recent s p) = push_selected env c s role facts (ba_state p)"
      using x by (simp add: consider_first_def)
    from selects_push[OF sel assms open_ s x(1-3) this] show ?thesis
      by (metis pick.select_convs(2))
  next
    case False
    then show ?thesis using sel
      by (auto simp: consider_first_def selects_note split: option.splits)
  qed
qed

lemma second_picks:
  assumes "pl_result_count plan < 65536"
  shows "picks_on env plan candidates ordered recent (consider_second env plan candidates recent)"
  unfolding picks_on_def
proof (intro ballI allI impI)
  fix s p picks
  assume s: "s \<in> set ordered" and sel: "selects env plan candidates ordered recent picks p"
    and open_: "\<not> batch_is_full plan (ba_state p)"
  show "selects env plan candidates ordered recent picks (consider_second env plan candidates recent s p) \<or>
    (\<exists>pick. pi_submission pick = s \<and>
       selects env plan candidates ordered recent (picks @ [pick]) (consider_second env plan candidates recent s p))"
  proof (cases "\<not> list_ex (\<lambda>item. dri_submission_id item = cs_id s) (se_selected (ba_state p)) \<and>
      (\<exists>role facts c. personal_target (cs_target s) = Some (role, facts) \<and>
      om_get candidates (cs_candidate_id s) = Some c \<and>
      reject_for_policy env (ba_state p) plan c s facts recent = None)")
    case True
    then obtain role facts c where x: "personal_target (cs_target s) = Some (role, facts)"
      "om_get candidates (cs_candidate_id s) = Some c"
      "reject_for_policy env (ba_state p) plan c s facts recent = None"
      by blast
    have "ba_state (consider_second env plan candidates recent s p) = push_selected env c s role facts (ba_state p)"
      using x True by (simp add: consider_second_def)
    from selects_push[OF sel assms open_ s x this] show ?thesis
      by (metis pick.select_convs(2))
  next
    case False
    then show ?thesis using sel
      by (auto simp: consider_second_def selects_note split: option.splits)
  qed
qed

lemma run_pass_selects:
  assumes "picks_on env plan candidates ordered recent step"
    and "selects env plan candidates ordered recent picks p" and "set rest \<subseteq> set ordered"
  shows "\<exists>picks'. selects env plan candidates ordered recent picks' (run_pass plan step rest p)"
  using assms(2,3)
proof (induction rest arbitrary: p picks)
  case Nil then show ?case by auto
next
  case (Cons s rest)
  show ?case
  proof (cases "batch_is_full plan (ba_state p)")
    case True then show ?thesis using Cons.prems by auto
  next
    case False
    then obtain picks' where "selects env plan candidates ordered recent picks' (step s p)"
      using assms(1) Cons.prems unfolding picks_on_def by (meson list.set_intros(1) subsetD)
    then show ?thesis using Cons.IH[of picks' "step s p"] Cons.prems(2) False by auto
  qed
qed

section \<open>A submission is picked once\<close>

definition picked_ids :: "passes \<Rightarrow> uuid list" where
  "picked_ids p = map dri_submission_id (se_selected (ba_state p))"

lemma picked_ids_note [simp]: "picked_ids (note_rejection i reason p) = picked_ids p"
  by (cases reason) (simp_all add: note_rejection_def picked_ids_def)

lemma picked_ids_first:
  "picked_ids (consider_first env plan candidates recent s p) = picked_ids p \<or>
   picked_ids (consider_first env plan candidates recent s p) = picked_ids p @ [cs_id s]"
  by (auto simp: consider_first_def picked_ids_def[of "passes.ba_state_update _ _"] push_selected_def
      split: option.splits) (auto simp: picked_ids_def push_selected_def)

lemma picked_ids_second:
  "picked_ids (consider_second env plan candidates recent s p) = picked_ids p \<or>
   cs_id s \<notin> set (picked_ids p) \<and>
   picked_ids (consider_second env plan candidates recent s p) = picked_ids p @ [cs_id s]"
  by (auto simp: consider_second_def list_ex_iff split: option.splits)
    (auto simp: picked_ids_def push_selected_def)

lemma first_pass_distinct:
  assumes "distinct (map cs_id rest)" and "set (map cs_id rest) \<inter> set (picked_ids p) = {}"
    and "distinct (picked_ids p)"
  shows "distinct (picked_ids (run_pass plan (consider_first env plan candidates recent) rest p))"
  using assms
proof (induction rest arbitrary: p)
  case Nil then show ?case by simp
next
  case (Cons s rest)
  let ?p = "consider_first env plan candidates recent s p"
  have "distinct (picked_ids ?p) \<and> set (map cs_id rest) \<inter> set (picked_ids ?p) = {}"
  proof -
    define ids where "ids = map cs_id rest"
    have "distinct (cs_id s # ids)" "set (cs_id s # ids) \<inter> set (picked_ids p) = {}"
      using Cons.prems(1,2) by (simp_all add: ids_def)
    then show ?thesis
      unfolding ids_def[symmetric]
      using picked_ids_first[of env plan candidates recent s p] Cons.prems(3) by auto
  qed
  then show ?case using Cons.IH[of ?p] Cons.prems by simp
qed

lemma second_pass_distinct:
  "distinct (picked_ids p) \<Longrightarrow>
   distinct (picked_ids (run_pass plan (consider_second env plan candidates recent) rest p))"
proof (induction rest arbitrary: p)
  case Nil then show ?case by simp
next
  case (Cons s rest)
  have "distinct (picked_ids (consider_second env plan candidates recent s p))"
    using picked_ids_second[of env plan candidates recent s p] Cons.prems by auto
  then show ?case using Cons.IH Cons.prems by simp
qed

section \<open>Refusals last\<close>

text \<open>One state refuses at least what another does.\<close>

definition grown :: "batch_selection \<Rightarrow> batch_selection \<Rightarrow> bool" where
  "grown a b \<longleftrightarrow>
     set (se_seen_canonical a) \<subseteq> set (se_seen_canonical b) \<and>
     (\<forall>k. tally_of (se_domain_counts a) k \<le> tally_of (se_domain_counts b) k) \<and>
     (\<forall>k. tally_of (se_author_counts a) k \<le> tally_of (se_author_counts b) k) \<and>
     (\<forall>k. tally_of (se_publisher_counts a) k \<le> tally_of (se_publisher_counts b) k) \<and>
     (\<forall>k. tally_of (se_community_counts a) k \<le> tally_of (se_community_counts b) k)"

lemma grown_refuses:
  assumes "grown a b" and "reject_for_policy env b plan c s facts recent = None"
  shows "reject_for_policy env a plan c s facts recent = None"
  using assms unfolding not_rejected Let_def grown_def by (meson le_less_trans subsetD)

lemma tallies_grown:
  assumes "tallies env picks a" and "tallies env (picks @ more_picks) b"
  shows "grown a b"
proof -
  have "tally f picks k \<le> tally f (picks @ more_picks) k" for f :: "pick \<Rightarrow> string option" and k
    by (simp add: tally_def)
  then show ?thesis using assms by (auto simp: grown_def tallies_def)
qed

lemma picked_ids_picks:
  assumes "tallies env picks (ba_state p)"
  shows "picked_ids p = map (\<lambda>x. cs_id (pi_submission x)) picks"
proof -
  have "map dri_submission_id (items_of picks) = map (\<lambda>x. cs_id (pi_submission x)) picks"
    by (simp add: items_of_def item_of_def comp_def case_prod_beta)
      (metis (no_types, lifting) map_map map_snd_enumerate comp_apply map_eq_conv)
  then show ?thesis using assms by (simp add: picked_ids_def tallies_def)
qed

text \<open>A submission with which the passes are done: picked, refused, or not a result of the task.\<close>

definition settled ::
  "tools_env \<Rightarrow> discovery_plan \<Rightarrow> (uuid, candidate) omap \<Rightarrow> string list \<Rightarrow> passes \<Rightarrow> candidate_submission \<Rightarrow> bool" where
  "settled env plan candidates recent p s \<longleftrightarrow>
     cs_id s \<in> set (picked_ids p) \<or>
     (case personal_target (cs_target s) of
        None \<Rightarrow> True
      | Some (role, facts) \<Rightarrow>
          (case om_get candidates (cs_candidate_id s) of
             None \<Rightarrow> True
           | Some c \<Rightarrow> reject_for_policy env (ba_state p) plan c s facts recent \<noteq> None))"

lemma settled_stays:
  assumes "tallies env picks (ba_state p)" and "tallies env (picks @ more_picks) (ba_state p')"
    and "settled env plan candidates recent p s"
  shows "settled env plan candidates recent p' s"
proof -
  have ids: "set (picked_ids p) \<subseteq> set (picked_ids p')"
    using picked_ids_picks[OF assms(1)] picked_ids_picks[OF assms(2)] by auto
  have refuses: "reject_for_policy env (ba_state p') plan c s facts recent \<noteq> None"
    if "reject_for_policy env (ba_state p) plan c s facts recent \<noteq> None" for c facts
    using grown_refuses[OF tallies_grown[OF assms(1,2)], of env plan c s facts recent] that by metis
  show ?thesis
    using assms(3) ids refuses by (auto simp: settled_def split: option.splits prod.splits)
qed

lemma note_fields:
  "se_seen_canonical (ba_state (note_rejection i reason p)) = se_seen_canonical (ba_state p)"
  "se_domain_counts (ba_state (note_rejection i reason p)) = se_domain_counts (ba_state p)"
  "se_author_counts (ba_state (note_rejection i reason p)) = se_author_counts (ba_state p)"
  "se_publisher_counts (ba_state (note_rejection i reason p)) = se_publisher_counts (ba_state p)"
  "se_community_counts (ba_state (note_rejection i reason p)) = se_community_counts (ba_state p)"
  by (cases reason; simp add: note_rejection_def)+

lemma reject_ignores_note:
  "reject_for_policy env (ba_state (note_rejection i reason p)) plan c s facts recent =
   reject_for_policy env (ba_state p) plan c s facts recent"
  by (simp only: reject_for_policy_def note_fields)

lemma consider_second_settles: "settled env plan candidates recent (consider_second env plan candidates recent s p) s"
proof -
  have "cs_id s \<in> set (picked_ids p)"
    if "list_ex (\<lambda>item. dri_submission_id item = cs_id s) (se_selected (ba_state p))"
    using that by (auto simp: picked_ids_def list_ex_iff) (metis imageI)
  then show ?thesis
    by (auto simp: consider_second_def settled_def reject_ignores_note picked_ids_def push_selected_def
        split: option.splits prod.splits)
qed

lemma second_pass_settles:
  assumes "pl_result_count plan < 65536" and "set rest \<subseteq> set ordered"
    and "selects env plan candidates ordered recent picks p"
    and "\<forall>s\<in>D. settled env plan candidates recent p s"
    and "p' = run_pass plan (consider_second env plan candidates recent) rest p"
  shows "batch_is_full plan (ba_state p') \<or> (\<forall>s\<in>D \<union> set rest. settled env plan candidates recent p' s)"
  using assms(2-)
proof (induction rest arbitrary: p picks D)
  case Nil then show ?case by simp
next
  case (Cons s rest)
  let ?p = "consider_second env plan candidates recent s p"
  show ?case
  proof (cases "batch_is_full plan (ba_state p)")
    case True then show ?thesis using Cons.prems(4) by simp
  next
    case False
    have "s \<in> set ordered" using Cons.prems(1) by simp
    then obtain more_picks where next_: "selects env plan candidates ordered recent (picks @ more_picks) ?p"
      using second_picks[OF assms(1), of env candidates ordered recent] Cons.prems(2) False
      unfolding picks_on_def by (metis append_Nil2)
    have "\<forall>t\<in>insert s D. settled env plan candidates recent ?p t"
      using Cons.prems(2,3) next_ settled_stays[of env picks p more_picks ?p] consider_second_settles
      by (auto simp: selects_def)
    from Cons.IH[OF _ next_ this] Cons.prems(1,4) False show ?thesis by simp
  qed
qed

text \<open>A refused submission could not be added: the policy would be broken.\<close>

lemma refused_breaks:
  assumes "tallies env picks state"
    and "reject_for_policy env state plan (pi_candidate new) (pi_submission new) (pi_facts new) recent \<noteq> None"
  shows "\<not> policy_kept env plan recent (picks @ [new])"
proof
  let ?k = "pl_constraints plan"
  assume kept: "policy_kept env plan recent (picks @ [new])"
  note k = kept[unfolded policy_kept_def Let_def]
  have cap: "tally f picks v < cap" if "f new = Some v" "\<forall>k. tally f (picks @ [new]) k \<le> cap" for f v cap
    using that(2)[rule_format, of v] that(1) by (simp add: tally_append)
  note t = assms(1)[unfolded tallies_def]
  have "reject_for_policy env state plan (pi_candidate new) (pi_submission new) (pi_facts new) recent = None"
    unfolding not_rejected Let_def
  proof (intro conjI impI allI)
    show "blocked_detail env plan (pi_candidate new) (pi_submission new) (pi_facts new) = None"
      using k by simp
    show "cd_canonical_url (pi_candidate new) \<notin> set (se_seen_canonical state)"
      if "pc_canonical_deduplication ?k" using k t that by (auto simp: pick_url_def)
    show "cd_canonical_url (pi_candidate new) \<notin> set recent" if "pc_suppress_recently_reviewed ?k"
      using k that by (simp add: pick_url_def)
    show "tally_of (se_domain_counts state) v < pc_max_per_domain ?k"
      if "domain_of env (cd_canonical_url (pi_candidate new)) = Some v" for v
      using cap[of "pick_domain env"] k t that by (simp add: pick_domain_def pick_url_def)
    show "tally_of (se_author_counts state) v < pc_max_per_author_or_account ?k"
      if "author_of (pi_submission new) = Some v" for v
      using cap[of pick_author] k t that by (simp add: pick_author_def)
    show "tally_of (se_publisher_counts state) v < pc_max_per_publisher ?k"
      if "publisher_of (pi_facts new) = Some v" for v
      using cap[of pick_publisher] k t that by (simp add: pick_publisher_def)
    show "tally_of (se_community_counts state) v < pc_max_per_community ?k"
      if "community_of (pi_facts new) = Some v" for v
      using cap[of pick_community] k t that by (simp add: pick_community_def)
  qed
  then show False using assms(2) by simp
qed

lemma settled_breaks:
  assumes "tallies env picks (ba_state p)" and "bound_pick candidates ordered new"
    and "settled env plan candidates recent p (pi_submission new)"
  shows "cs_id (pi_submission new) \<in> set (map (\<lambda>x. cs_id (pi_submission x)) picks) \<or>
         \<not> policy_kept env plan recent (picks @ [new])"
  using assms refused_breaks[OF assms(1)] picked_ids_picks[OF assms(1)]
  by (auto simp: settled_def bound_pick_def)

section \<open>A whole selection\<close>

lemma selects_start:
  "selects env plan candidates ordered recent []
     \<lparr> ba_reasons = reasons, ba_state = empty_selection, ba_rejected = [], ba_to_proven = 0, ba_to_adjacent = 0 \<rparr>"
  by (simp add: selects_def tallies_empty policy_kept_def tally_def Let_def)

lemma selection_sound:
  assumes "pl_result_count plan < 65536" and "distinct (map cs_id ordered)"
    and "p = selection_passes env plan ordered candidates recent reasons"
  obtains picks where "selects env plan candidates ordered recent picks p"
    and "distinct (map (\<lambda>x. cs_id (pi_submission x)) picks)"
    and "batch_is_full plan (ba_state p) \<or> (\<forall>s\<in>set ordered. settled env plan candidates recent p s)"
proof -
  let ?start = "\<lparr> ba_reasons = reasons, ba_state = empty_selection, ba_rejected = [],
    ba_to_proven = 0, ba_to_adjacent = 0 \<rparr>"
  define first where "first = run_pass plan (consider_first env plan candidates recent) ordered ?start"
  have p: "p = run_pass plan (consider_second env plan candidates recent) ordered first"
    by (simp add: assms(3) selection_passes_def first_def Let_def)
  obtain picks1 where one: "selects env plan candidates ordered recent picks1 first"
    using run_pass_selects[OF first_picks[OF assms(1)] selects_start subset_refl]
    unfolding first_def by blast
  obtain picks where two: "selects env plan candidates ordered recent picks p"
    using run_pass_selects[OF second_picks[OF assms(1)] one subset_refl] unfolding p by blast
  have "distinct (picked_ids first)"
    unfolding first_def
    by (rule first_pass_distinct[OF assms(2)]) (simp_all add: picked_ids_def empty_selection_def)
  then have "distinct (picked_ids p)" unfolding p by (rule second_pass_distinct)
  then have ids: "distinct (map (\<lambda>x. cs_id (pi_submission x)) picks)"
    using picked_ids_picks[of env picks p] two by (simp add: selects_def)
  have "batch_is_full plan (ba_state p) \<or> (\<forall>s\<in>{} \<union> set ordered. settled env plan candidates recent p s)"
    by (rule second_pass_settles[OF assms(1) subset_refl one _ p]) simp
  then show thesis using that[OF two ids] by simp
qed

lemma batch_within_submissions:
  assumes "pl_result_count plan < 65536" and "distinct (map cs_id ordered)"
  shows "length (drb_items (build_discovery_result_batch env st plan task_id ordered candidates reported scheduled now))
    \<le> length ordered"
proof -
  define p where "p = selection_passes env plan ordered candidates
    (recently_reviewed_canonical_urls st (pl_user_id plan) (pl_tenant_id plan))
    (availability_reasons_for_batch reported scheduled)"
  from selection_sound[OF assms p_def] obtain picks where
    sel: "selects env plan candidates ordered
      (recently_reviewed_canonical_urls st (pl_user_id plan) (pl_tenant_id plan)) picks p"
    and ids: "distinct (map (\<lambda>x. cs_id (pi_submission x)) picks)" by blast
  have "length picks = card (set (map (\<lambda>x. cs_id (pi_submission x)) picks))"
    using distinct_card[OF ids] by simp
  also have "\<dots> \<le> card (set (map cs_id ordered))"
    using sel by (intro card_mono) (auto simp: selects_def list_all_iff bound_pick_def)
  also have "\<dots> \<le> length ordered" using card_length[of "map cs_id ordered"] by simp
  finally show ?thesis
    using sel by (simp add: selects_def tallies_def build_discovery_result_batch_def Let_def p_def)
qed

end
