(* ===== verification/Discovery_Props.thy ===== *)
theory Discovery_Props
  imports Batch_Laws Account_Props
begin

text \<open>
  Properties of Personal Discovery: what a result batch holds and why it can be short, and how often
  a User is told that a source needs a login.
\<close>

section \<open>Result batches\<close>

text \<open>C11: A result batch holds at most the number of results its plan asks for, in order and without
  repeating a submission; every item is a submission bound to the task with its stored candidate; none
  is blocked, recently reviewed or a canonical duplicate when the plan says so; no domain, author,
  publisher or community goes over its cap; and the filled allocation counts the items of each role.\<close>

theorem result_batch_respects_plan:
  assumes "pl_result_count plan < 65536" and "distinct (map cs_id ordered)"
    and "batch = build_discovery_result_batch env st plan task_id ordered candidates reported scheduled now"
  shows "\<exists>picks. drb_items batch = items_of picks \<and> length picks \<le> pl_result_count plan \<and>
    list_all (bound_pick candidates ordered) picks \<and>
    distinct (map (\<lambda>p. cs_id (pi_submission p)) picks) \<and>
    policy_kept env plan (recently_reviewed_canonical_urls st (pl_user_id plan) (pl_tenant_id plan)) picks \<and>
    al_proven (drb_allocation_filled batch) = role_count Proven picks \<and>
    al_adjacent (drb_allocation_filled batch) = role_count Adjacent picks"
proof -
  define p where "p = selection_passes env plan ordered candidates
    (recently_reviewed_canonical_urls st (pl_user_id plan) (pl_tenant_id plan))
    (availability_reasons_for_batch reported scheduled)"
  from selection_sound[OF assms(1,2) p_def] obtain picks where
    "selects env plan candidates ordered (recently_reviewed_canonical_urls st (pl_user_id plan) (pl_tenant_id plan)) picks p"
    "distinct (map (\<lambda>x. cs_id (pi_submission x)) picks)" by blast
  then show ?thesis
    by (intro exI[of _ picks]) (simp add: selects_def tallies_def assms(3) build_discovery_result_batch_def Let_def p_def)
qed

text \<open>C12: A batch stays shorter than its plan asks only because of the policy. Its items are the picks of
  submissions bound to the task with their stored candidates, which keep the policy; and every
  submission of the task whose candidate is stored is one of them, or with it, behind them, the policy
  would be broken: it is blocked, recently reviewed, a canonical duplicate or over a cap.\<close>

theorem short_batch_is_maximal:
  assumes "pl_result_count plan < 65536" and "distinct (map cs_id ordered)"
    and "batch = build_discovery_result_batch env st plan task_id ordered candidates reported scheduled now"
    and "length (drb_items batch) < pl_result_count plan"
  shows "\<exists>picks. drb_items batch = items_of picks \<and> list_all (bound_pick candidates ordered) picks \<and>
    distinct (map (\<lambda>p. cs_id (pi_submission p)) picks) \<and>
    policy_kept env plan (recently_reviewed_canonical_urls st (pl_user_id plan) (pl_tenant_id plan)) picks \<and>
    (\<forall>new. bound_pick candidates ordered new \<longrightarrow>
       cs_id (pi_submission new) \<in> set (map (\<lambda>p. cs_id (pi_submission p)) picks) \<or>
       \<not> policy_kept env plan (recently_reviewed_canonical_urls st (pl_user_id plan) (pl_tenant_id plan))
           (picks @ [new]))"
proof -
  let ?recent = "recently_reviewed_canonical_urls st (pl_user_id plan) (pl_tenant_id plan)"
  define p where "p = selection_passes env plan ordered candidates ?recent
    (availability_reasons_for_batch reported scheduled)"
  from selection_sound[OF assms(1,2) p_def] obtain picks where
    sel: "selects env plan candidates ordered ?recent picks p" and
    ids: "distinct (map (\<lambda>x. cs_id (pi_submission x)) picks)" and
    done_: "batch_is_full plan (ba_state p) \<or> (\<forall>s\<in>set ordered. settled env plan candidates ?recent p s)"
    by blast
  have items: "drb_items batch = items_of picks"
    using sel by (simp add: selects_def tallies_def assms(3) build_discovery_result_batch_def Let_def p_def)
  have "\<not> batch_is_full plan (ba_state p)"
    using sel assms(1,4) items by (simp add: batch_is_full_def selects_def tallies_def u16_def)
  then have "settled env plan candidates ?recent p (pi_submission new)" if "bound_pick candidates ordered new" for new
    using done_ that by (simp add: bound_pick_def)
  then show ?thesis
    using sel ids items settled_breaks[of env picks p candidates ordered _ plan ?recent]
    by (intro exI[of _ picks]) (simp add: selects_def)
qed

text \<open>A plan for three results, one submission for its task, and its candidate.\<close>

definition sample_plan :: discovery_plan where
  "sample_plan =
     \<lparr> pl_id = 4, pl_user_id = 5, pl_tenant_id = None, pl_result_count = 3, pl_topics = [],
       pl_source_neighborhoods = [], pl_allocation = \<lparr> al_proven = 2, al_adjacent = 2 \<rparr>,
       pl_constraints = \<lparr> pc_max_per_domain = 3, pc_max_per_author_or_account = 2, pc_max_per_publisher = 2,
         pc_max_per_community = 2, pc_canonical_deduplication = True, pc_suppress_recently_reviewed = True,
         pc_blocked_topics = [''war''], pc_blocked_sources = [], pc_blocked_source_affinities = [] \<rparr>,
       pl_intent = None, pl_created_at = 9 \<rparr>"

definition sample_result :: candidate_submission where
  "sample_result =
     \<lparr> cs_id = 6, cs_candidate_id = 7, cs_tenant_id = None, cs_submitted_by = 8,
       cs_target = CS_PersonalDiscovery 5 3 4 Proven \<lparr> cis_publisher = None, cis_community = None \<rparr>,
       cs_evidence = \<lparr> ce_source_url = ''u'',
         ce_source_metadata = \<lparr> csm_title = None, csm_author = None, csm_published_at = None \<rparr>,
         ce_permitted_excerpt = None, ce_summary = None, ce_content_type = CT_Article, ce_media_references = [],
         ce_tags = [], ce_provenance = \<lparr> cpv_discovered_at = 9, cpv_discovery_method = ''m'', cpv_referrer_url = None \<rparr>,
         ce_harness_idempotency_key = ''h'', ce_client_idempotency_key = ''c'' \<rparr>,
       cs_created_at = 9 \<rparr>"

definition sample_found :: candidate where
  "sample_found =
     \<lparr> cd_id = 7, cd_tenant_id = None, cd_source_url = ''u'', cd_canonical_url = ''u'',
       cd_review_state = CR_Pending, cd_created_at = 9 \<rparr>"

definition sample_pick :: pick where
  "sample_pick =
     \<lparr> pi_candidate = sample_found, pi_submission = sample_result, pi_role = Proven,
       pi_facts = \<lparr> cis_publisher = None, cis_community = None \<rparr> \<rparr>"

abbreviation sample_batch :: discovery_result_batch where
  "sample_batch \<equiv> build_discovery_result_batch sample_tools sample_home sample_plan 3 [sample_result]
     [(7, sample_found)] [] False 10"

theorem result_batch_respects_plan_witness:
  "\<exists>picks. drb_items sample_batch = items_of picks \<and> length picks \<le> 3 \<and>
     policy_kept sample_tools sample_plan (recently_reviewed_canonical_urls sample_home 5 None) picks"
  using result_batch_respects_plan[of sample_plan "[sample_result]" sample_batch sample_tools sample_home 3
      "[(7, sample_found)]" "[]" False 10]
  by (auto simp: sample_plan_def)

lemma sample_batch_items: "length (drb_items sample_batch) \<le> 1"
  using batch_within_submissions[of sample_plan "[sample_result]" sample_tools sample_home 3
      "[(7, sample_found)]" "[]" False 10]
  by (simp add: sample_plan_def)

theorem short_batch_is_maximal_witness:
  "\<exists>picks. drb_items sample_batch = items_of picks \<and>
     list_all (bound_pick [(7, sample_found)] [sample_result]) picks \<and>
     (6 \<in> set (map (\<lambda>p. cs_id (pi_submission p)) picks) \<or>
      \<not> policy_kept sample_tools sample_plan (recently_reviewed_canonical_urls sample_home 5 None)
          (picks @ [sample_pick]))"
proof -
  have plan: "pl_result_count sample_plan = 3" "pl_user_id sample_plan = 5" "pl_tenant_id sample_plan = None"
    by (simp_all add: sample_plan_def)
  have short: "length (drb_items sample_batch) < pl_result_count sample_plan"
    using sample_batch_items by (simp add: plan)
  have new: "bound_pick [(7, sample_found)] [sample_result] sample_pick" "cs_id (pi_submission sample_pick) = 6"
    by (simp_all add: sample_pick_def bound_pick_def sample_result_def om_get_def)
  have "pl_result_count sample_plan < 65536" "distinct (map cs_id [sample_result])"
    by (simp_all add: plan)
  from short_batch_is_maximal[OF this refl short] show ?thesis
    unfolding plan using new by metis
qed

section \<open>Notices\<close>

text \<open>C13: A User is told at most once that a source needs a login: there is one notice for a source of
  a User; a scheduled run emits none; and a second evaluation of the same facts emits none and changes
  nothing, whatever identities it would draw.\<close>

theorem login_notice_is_one_shot:
  assumes "distinct (map notice_key (ds_notices (hs_discovery st)))" and "reports_sorted reports"
    and "evaluate_authentication_notices user_id tenant_id task_id scheduled now ids reports
           (ds_notices (hs_discovery st)) = (notices, outcomes)"
    and "evaluate_authentication_notices user_id tenant_id task_id' scheduled now' ids' reports notices =
           (notices', outcomes')"
  shows "distinct (map notice_key notices) \<and>
    (scheduled \<longrightarrow> set notices \<subseteq> set (ds_notices (hs_discovery st)) \<and> \<not> list_ex is_should_notify outcomes) \<and>
    notices' = notices \<and> \<not> list_ex is_should_notify outcomes'"
proof -
  let ?start = "clear_notices_for_restored_sources user_id tenant_id reports (ds_notices (hs_discovery st))"
  note first = assms(3)[unfolded evaluate_authentication_notices_def]
  note second = assms(4)[unfolded evaluate_authentication_notices_def]
  have "distinct (map notice_key ?start)"
    using assms(1) by (simp add: clear_notices_for_restored_sources_def Let_def distinct_map_filter)
  then have one: "distinct (map notice_key notices)"
    by (rule notices_for_reports_unique[OF first])
  have "notices' = notices \<and> \<not> list_ex is_should_notify outcomes' \<and>
    (scheduled \<longrightarrow> set notices \<subseteq> set (ds_notices (hs_discovery st)) \<and> \<not> list_ex is_should_notify outcomes)"
  proof (cases scheduled)
    case True
    have quiet: "notices = ?start \<and> \<not> list_ex is_should_notify outcomes"
      by (rule scheduled_notices, rule first[unfolded eqTrueI[OF True]])
    moreover have "clear_notices_for_restored_sources user_id tenant_id reports ?start = ?start"
      by (simp add: clear_notices_for_restored_sources_def Let_def)
    moreover have "set ?start \<subseteq> set (ds_notices (hs_discovery st))"
      by (auto simp: clear_notices_for_restored_sources_def)
    moreover have "notices' = clear_notices_for_restored_sources user_id tenant_id reports notices \<and>
        \<not> list_ex is_should_notify outcomes'"
      by (rule scheduled_notices, rule second[unfolded eqTrueI[OF True]])
    ultimately show ?thesis using quiet by metis
  next
    case False
    have known: "list_all (noticed user_id tenant_id notices) reports"
    proof (rule all_noticed)
      show "notices_for_reports user_id tenant_id task_id False now ids reports ?start = (notices, outcomes)"
        using first False by simp
    qed (use reports_sorted_distinct[OF assms(2)] cleared_absent in \<open>simp_all\<close>)
    have "notices' = notices \<and> \<not> list_ex is_should_notify outcomes'"
      by (rule repeat_is_suppressed[OF known second[unfolded clear_idle[OF known]]])
    then show ?thesis using False by simp
  qed
  with one show ?thesis by blast
qed

definition sample_report :: reported_source_availability where
  "sample_report = \<lparr> rsa_source = ''x.com'', rsa_state = SV_SessionExpired, rsa_reason = [] \<rparr>"

theorem login_notice_is_one_shot_witness:
  "let first = evaluate_authentication_notices 5 None 3 False 10 (\<lambda>k. 60) [sample_report]
                 (ds_notices (hs_discovery sample_home));
       second = evaluate_authentication_notices 5 None 4 False 11 (\<lambda>k. 70) [sample_report] (fst first)
   in fst second = fst first \<and> \<not> list_ex is_should_notify (snd second)"
  using login_notice_is_one_shot[of sample_home "[sample_report]" 5 None 3 False 10 "\<lambda>k. 60" _ _ 4 11 "\<lambda>k. 70",
      OF _ _ surjective_pairing surjective_pairing]
  by (simp add: Let_def reports_sorted_def sample_home_def empty_home_store_def empty_discovery_store_def)

end
