(* ===== verification/Personal_Props.thy ===== *)
theory Personal_Props
  imports Result_Tools Account_Props Discovery_Props Task_Refine
begin

text \<open>
  Properties of the tools of Personal Discovery: a failing tool changes nothing, availability facts
  stay clean, and a completed batch is answered again, not built again.
\<close>


section \<open>Availability facts\<close>

definition clean_watch :: "user_watch \<Rightarrow> bool" where
  "clean_watch w \<longleftrightarrow> (case uw_last_availability w of None \<Rightarrow> True | Some r \<Rightarrow> clean_report r)"

text \<open>Every snapshot and every fact on a watch is well formed.\<close>

definition facts_clean :: "home_store \<Rightarrow> bool" where
  "facts_clean st \<longleftrightarrow>
     list_all (\<lambda>(k, a). snapshot_ok a) (pst_source_availability (hs_pods st)) \<and>
     list_all (\<lambda>(k, w). clean_watch w) (ds_watches (hs_discovery st))"

lemma facts_clean_cong:
  "pst_source_availability (hs_pods st') = pst_source_availability (hs_pods st) \<Longrightarrow>
   ds_watches (hs_discovery st') = ds_watches (hs_discovery st) \<Longrightarrow> facts_clean st' \<longleftrightarrow> facts_clean st"
  by (simp add: facts_clean_def)

lemma om_get_list_all: "list_all (\<lambda>(k, v). P v) m \<Longrightarrow> om_get m k = Some v \<Longrightarrow> P v"
  by (auto simp: list_all_iff dest: om_get_Some_in)

lemma list_all_om_map: "list_all (\<lambda>(k, v). P v) m \<Longrightarrow> (\<And>v. P v \<Longrightarrow> P (f v)) \<Longrightarrow> list_all (\<lambda>(k, v). P v) (om_map f m)"
  by (auto simp: om_map_def list_all_iff)

lemma record_watch_fact_clean:
  assumes "list_all clean_report reports" and "clean_watch w"
  shows "clean_watch (record_watch_fact env user_id tenant_id reports w)"
  using assms
  by (auto simp: record_watch_fact_def clean_watch_def list_all_iff split: option.splits dest: find_in_set)

lemma upsert_clean:
  assumes "facts_clean st" and "list_all clean_report reports"
    and "upsert_task_source_availability env task_id user_id tenant_id reporter reports eligible now st = (st', a)"
  shows "facts_clean st' \<and> snapshot_ok a"
proof -
  let ?prior = "om_get (pst_source_availability (hs_pods st)) task_id"
  have prior: "case ?prior of None \<Rightarrow> True | Some a \<Rightarrow> snapshot_ok a"
    using assms(1) by (auto simp: facts_clean_def split: option.splits dest: om_get_list_all)
  from reports_after_ok[OF prior assms(2), of eligible]
  have a: "snapshot_ok a"
    using assms(3) by (auto simp: upsert_task_source_availability_def snapshot_ok_def Let_def)
  have reports: "list_all clean_report (tsa_reports a)" using a by (simp add: snapshot_ok_def)
  have st': "st' = record_watch_availability env user_id tenant_id (tsa_reports a)
      (st\<lparr>hs_pods := (hs_pods st)\<lparr>pst_source_availability :=
         om_put task_id a (pst_source_availability (hs_pods st))\<rparr>\<rparr>)"
    using assms(3) by (auto simp: upsert_task_source_availability_def Let_def)
  have "list_all (\<lambda>(k, w). clean_watch w)
      (om_map (record_watch_fact env user_id tenant_id (tsa_reports a)) (ds_watches (hs_discovery st)))"
    using assms(1) by (intro list_all_om_map record_watch_fact_clean reports) (simp add: facts_clean_def)
  then have "facts_clean st'"
    using assms(1) a
    by (simp add: st' facts_clean_def record_watch_availability_def set_discovery_def list_all_om_put)
  then show ?thesis using a by simp
qed

lemma notice_update_clean: "facts_clean (fst (notice_update plan task_id scheduled now ids reports st)) \<longleftrightarrow> facts_clean st"
  by (auto simp: notice_update_def set_discovery_def facts_clean_def split: prod.splits)

lemma audit_clean: "facts_clean (record_harness_write_at ctx operation pod clock i st) \<longleftrightarrow> facts_clean st"
  by (auto simp: record_harness_write_at_def facts_clean_def split: option.splits)

lemma audited_clean: "audited ctx operation drawn st = (st', r) \<Longrightarrow> facts_clean st \<Longrightarrow> facts_clean st'"
  by (auto simp: audited_def writes_def audit_clean)

lemma persist_clean: "persistence_ok env \<Longrightarrow> persist env a st = (st', Inr b) \<Longrightarrow> st' = st \<and> b = a"
  by (auto simp: persist_def persisted_def persist_locked_def persistence_ok_def split: option.splits)

lemma valid_Inr [simp]: "valid r = Inr a \<longleftrightarrow> r = Inr a"
  by (auto simp: valid_def split: sum.splits)

lemma personal_task_of_same: "personal_task_of env ctx task_id message st = (st', r) \<Longrightarrow> st' = st"
  by (auto simp: personal_task_of_def bind_tool_def reads_def failing_def ret_def
      split: sum.splits prod.splits if_splits)

lemma leased_by_same: "leased_by harness_id now task st = (st', r) \<Longrightarrow> st' = st"
  by (auto simp: leased_by_def failing_def ret_def split: discovery_task_state.splits if_splits)

lemma resolved_reports_clean:
  assumes "facts_clean st" and "resolve_completion_reports st task_id reports eligible = Inr (resolved, e)"
  shows "list_all clean_report resolved"
proof -
  let ?prior = "om_get (pst_source_availability (hs_pods st)) task_id"
  have prior: "case ?prior of None \<Rightarrow> True | Some a \<Rightarrow> snapshot_ok a"
    using assms(1) by (auto simp: facts_clean_def split: option.splits dest: om_get_list_all)
  obtain normalized e' where "normalize_reports reports = Inr normalized"
    and "resolved = reports_after ?prior normalized e'"
    using assms(2) by (auto simp: resolve_completion_reports_def Let_def split: sum.splits)
  then show ?thesis using reports_after_ok[OF prior] normalized_reports by blast
qed


section \<open>Tools that fail without effect\<close>

definition observes :: "'a tool \<Rightarrow> bool" where
  "observes m \<longleftrightarrow> (\<forall>st. fst (m st) = st)"

text \<open>An error leaves the store as it was.\<close>

definition atomic :: "'a tool \<Rightarrow> bool" where
  "atomic m \<longleftrightarrow> (\<forall>st. isl (snd (m st)) \<longrightarrow> fst (m st) = st)"

named_theorems atomic_rules "tools that only observe, or fail without effect"

lemma observes_basic [atomic_rules]:
  "observes (ret a)" "observes (failing e)" "observes (gets g)" "observes (reads f)" "observes (require_that P e)"
  by (simp_all add: observes_def ret_def failing_def gets_def reads_def require_that_def)

lemma observes_bind [atomic_rules]: "observes m \<Longrightarrow> (\<And>a. observes (f a)) \<Longrightarrow> observes (bind_tool m f)"
  unfolding observes_def bind_tool_def by (simp add: split_beta split: sum.split)

lemma observes_if [atomic_rules]: "observes m \<Longrightarrow> observes n \<Longrightarrow> observes (if b then m else n)"
  by simp

lemma observes_prod [atomic_rules]: "(\<And>a b. observes (f a b)) \<Longrightarrow> observes (case p of (a, b) \<Rightarrow> f a b)"
  by (cases p) simp

lemma atomic_staged [atomic_rules]: "atomic (staged m)"
  by (auto simp: atomic_def staged_def split: prod.splits sum.splits)

lemma atomic_observes [atomic_rules]:
  "atomic (ret a)" "atomic (failing e)"
  by (simp_all add: atomic_def ret_def failing_def)

lemma atomic_bind [atomic_rules]: "observes m \<Longrightarrow> (\<And>a. atomic (f a)) \<Longrightarrow> atomic (bind_tool m f)"
  unfolding observes_def atomic_def bind_tool_def by (simp add: split_beta split: sum.split)

lemma atomic_then_gets: "atomic m \<Longrightarrow> atomic (bind_tool m (\<lambda>a. gets (g a)))"
  unfolding atomic_def bind_tool_def by (simp add: gets_def split_beta split: sum.split)

lemma atomic_cases [atomic_rules]:
  "atomic m \<Longrightarrow> atomic n \<Longrightarrow> atomic (if b then m else n)"
  "(\<And>a b. atomic (f a b)) \<Longrightarrow> atomic (case p of (a, b) \<Rightarrow> f a b)"
  "atomic m \<Longrightarrow> (\<And>x. atomic (g x)) \<Longrightarrow> atomic (case v of None \<Rightarrow> m | Some x \<Rightarrow> g x)"
  by (simp_all split: prod.split option.split)

lemma observes_users [atomic_rules]:
  "observes (managing_user env ctx)" "observes (reading_user env ctx)" "observes (watching_user env ctx)"
  "observes (own_schedule ctx user_id schedule_id)"
  unfolding managing_user_def reading_user_def watching_user_def own_schedule_def
  by (intro atomic_rules)+

lemma observes_personal_task [atomic_rules]: "observes (personal_task_of env ctx task_id message)"
  unfolding personal_task_of_def by (intro atomic_rules)

lemma observes_lease [atomic_rules]: "observes (leased_by harness_id now task)"
  unfolding leased_by_def
  by (cases "dt_state task") (auto simp: observes_basic)

lemma atomic_finish_schedule [atomic_rules]: "atomic (finish_schedule env ctx operation drawn schedule now)"
  unfolding finish_schedule_def by (rule atomic_then_gets) (rule atomic_staged)

lemma personal_tools_atomic:
  "atomic (request_personal_discovery_at env d ctx request now) \<and>
   atomic (create_personal_discovery_schedule env d ctx creation now) \<and>
   atomic (update_personal_discovery_schedule env d ctx schedule_id change now) \<and>
   atomic (disable_personal_discovery_schedule env d ctx schedule_id now) \<and>
   atomic (remove_personal_discovery_schedule env d ctx schedule_id) \<and>
   atomic (report_discovery_source_availability env ids d ctx report now) \<and>
   atomic (complete_discovery_result_batch env ids d ctx completion now) \<and>
   atomic (attempt_discovery_results_ready_notification env d ctx batch_id now) \<and>
   atomic (add_user_watch env d ctx watch now) \<and> atomic (remove_user_watch env d ctx watch_id)"
  unfolding request_personal_discovery_at_def create_personal_discovery_schedule_def
    update_personal_discovery_schedule_def disable_personal_discovery_schedule_def
    remove_personal_discovery_schedule_def report_discovery_source_availability_def
    complete_discovery_result_batch_def attempt_discovery_results_ready_notification_def
    add_user_watch_def remove_user_watch_def Let_def
  by (intro conjI atomic_rules)

text \<open>C19: A tool of Personal Discovery that answers with an error has left the store as it was, whichever
  of its checks, or the write to the database, failed: requesting a run, the four changes of a schedule,
  a report of source availability, the completion of a batch, the changes of watches, and the notification.\<close>

theorem personal_tools_are_atomic:
  "atomic (request_personal_discovery_at env d ctx request now) \<and>
   atomic (create_personal_discovery_schedule env d ctx creation now) \<and>
   atomic (update_personal_discovery_schedule env d ctx schedule_id change now) \<and>
   atomic (disable_personal_discovery_schedule env d ctx schedule_id now) \<and>
   atomic (remove_personal_discovery_schedule env d ctx schedule_id) \<and>
   atomic (report_discovery_source_availability env ids d ctx report now) \<and>
   atomic (complete_discovery_result_batch env ids d ctx completion now) \<and>
   atomic (attempt_discovery_results_ready_notification env d ctx batch_id now) \<and>
   atomic (add_user_watch env d ctx watch now) \<and> atomic (remove_user_watch env d ctx watch_id)"
  by (rule personal_tools_atomic)

section \<open>Clean facts\<close>

lemma persist_Inr [simp]: "persist env a st = (st', Inr b) \<longleftrightarrow> (\<exists>u. persist_locked env st = (st', Inr u)) \<and> b = a"
  by (auto simp: persist_def persisted_def split: prod.splits sum.splits)

lemma persisted_same: "persist_locked env st = (st', Inr u) \<Longrightarrow> st' = st"
  by (auto simp: persist_locked_def split: option.splits)

lemma audited_Inr [simp]:
  "audited ctx operation drawn st = (st', Inr u) \<longleftrightarrow>
     st' = record_harness_write_at ctx operation None (snd drawn) (fst drawn) st"
  by (auto simp: audited_def)

lemma atomicD: "atomic m \<Longrightarrow> m st = (st', Inl e) \<Longrightarrow> st' = st"
  unfolding atomic_def by (metis fst_conv snd_conv sum.disc(1))

lemma atomic_keeps_clean:
  assumes "atomic m" and "m st = (st', r)" and "facts_clean st"
    and "\<And>a. m st = (st', Inr a) \<Longrightarrow> facts_clean st'"
  shows "facts_clean st'"
  using assms by (cases r) (auto dest: atomicD)

lemma report_keeps_clean:
  assumes "report_discovery_source_availability env ids d ctx request now st = (st', r)" and clean: "facts_clean st"
  shows "facts_clean st'"
proof (rule atomic_keeps_clean[where m = "report_discovery_source_availability env ids d ctx request now", OF _ assms(1) clean])
  show "atomic (report_discovery_source_availability env ids d ctx request now)"
    using personal_tools_atomic by blast
  fix a
  assume "report_discovery_source_availability env ids d ctx request now st = (st', Inr a)"
  then obtain harness_id task plan reports eligible where
    reports: "normalize_reports (rsr_reports request) = Inr reports"
    and st': "st' = record_harness_write_at ctx HW_ReportDiscoverySourceAvailability None (snd (d 0)) (fst (d 0))
      (fst (let (s, a) = upsert_task_source_availability env (rsr_task_id request) (pl_user_id plan)
                  (pl_tenant_id plan) harness_id reports eligible now st
            in notice_update plan (rsr_task_id request) (task_is_scheduled task) now ids (tsa_reports a) s))"
    by (auto simp: report_discovery_source_availability_def Let_def bind_Inr split_beta
        dest!: personal_task_of_same leased_by_same persisted_same)
  have "facts_clean (fst (upsert_task_source_availability env (rsr_task_id request) (pl_user_id plan)
      (pl_tenant_id plan) harness_id reports eligible now st))"
    using upsert_clean[OF clean, of reports] normalized_reports[OF reports] by (metis prod.collapse)
  then show "facts_clean st'"
    unfolding st' by (simp add: audit_clean notice_update_clean Let_def split_beta)
qed

definition batch_of_task :: "tools_env \<Rightarrow> home_store \<Rightarrow> uuid \<Rightarrow> discovery_result_batch option" where
  "batch_of_task env st task_id =
     find (\<lambda>b. drb_task_id b = task_id) (uuid_values env (ds_result_batches (hs_discovery st)))"

text \<open>A completion answers with the batch there is, or builds one.\<close>

lemma complete_cases:
  assumes "complete_discovery_result_batch env ids d ctx request now st = (st', Inr b)"
  obtains (answered) who where "personal_task_of env ctx (cbr_task_id request)
      ''complete_discovery_result_batch requires a Personal Discovery Task'' st = (st, Inr who)"
    and "batch_of_task env st (cbr_task_id request) = Some b" and "st' = st"
  | (built) harness_id task plan lease reports eligible ordered where
    "personal_task_of env ctx (cbr_task_id request)
      ''complete_discovery_result_batch requires a Personal Discovery Task'' st = (st, Inr (harness_id, task, plan))"
    and "batch_of_task env st (cbr_task_id request) = None"
    and "leased_by harness_id now task st = (st, Inr lease)"
    and "resolve_completion_reports st (cbr_task_id request) (cbr_source_availability request)
      (cbr_browser_grant_eligible_sources request) = Inr (reports, eligible)"
    and "b = with_delivery (scheduled_delivery st task)
      (build_discovery_result_batch env st plan (cbr_task_id request) ordered (ds_candidates (hs_discovery st))
         reports (task_is_scheduled task) now)"
    and "st' = record_harness_write_at ctx HW_CompleteDiscoveryResultBatch None (snd (d 1)) (fst (d 1))
      (apply_completion env ids (fst (d 0)) harness_id (cbr_task_id request) task plan lease reports eligible
         (scheduled_delivery st task) b now st)"
proof -
  from assms obtain harness_id task plan where
    task: "personal_task_of env ctx (cbr_task_id request)
      ''complete_discovery_result_batch requires a Personal Discovery Task'' st = (st, Inr (harness_id, task, plan))"
    by (auto simp: complete_discovery_result_batch_def Let_def bind_Inr dest: personal_task_of_same)
  note unfolded = assms[unfolded complete_discovery_result_batch_def Let_def bind_tool_def[of "personal_task_of _ _ _ _"]
      task prod.case sum.case, unfolded bind_tool_def[of "gets _"] gets_def batch_of_task_def[symmetric] prod.case sum.case]
  show thesis
  proof (cases "batch_of_task env st (cbr_task_id request)")
    case (Some existing)
    with unfolded answered[OF task] show thesis by simp
  next
    case None
    with unfolded obtain lease where lease: "leased_by harness_id now task st = (st, Inr lease)"
      by (auto simp: bind_Inr dest: leased_by_same)
    have *: "\<exists>reports eligible ordered.
        resolve_completion_reports st (cbr_task_id request) (cbr_source_availability request)
          (cbr_browser_grant_eligible_sources request) = Inr (reports, eligible) \<and>
        b = with_delivery (scheduled_delivery st task)
          (build_discovery_result_batch env st plan (cbr_task_id request) ordered (ds_candidates (hs_discovery st))
             reports (task_is_scheduled task) now) \<and>
        st' = record_harness_write_at ctx HW_CompleteDiscoveryResultBatch None (snd (d 1)) (fst (d 1))
          (apply_completion env ids (fst (d 0)) harness_id (cbr_task_id request) task plan lease reports eligible
             (scheduled_delivery st task) b now st)"
      using unfolded None by (auto simp: bind_Inr lease dest!: persisted_same)
    show thesis using * built[OF task None lease] by blast
  qed
qed

lemma ready_event_clean: "facts_clean (ensure_results_ready_event event_id schedule_id mode batch now st) \<longleftrightarrow> facts_clean st"
  by (auto simp: ensure_results_ready_event_def set_discovery_def facts_clean_def split: option.splits)

lemma put_batch_clean: "facts_clean (put_batch b st) \<longleftrightarrow> facts_clean st"
  by (simp add: put_batch_def set_discovery_def facts_clean_def)

lemma put_task_clean: "facts_clean (put_task i t st) \<longleftrightarrow> facts_clean st"
  by (simp add: put_task_def facts_clean_def)

lemma put_plan_clean: "facts_clean (put_plan plan st) \<longleftrightarrow> facts_clean st"
  by (simp add: put_plan_def facts_clean_def)

lemma apply_completion_clean:
  assumes "facts_clean st" and "list_all clean_report reports"
  shows "facts_clean (apply_completion env ids event_id harness_id task_id task plan lease reports eligible
    delivery batch now st)"
proof -
  have "facts_clean (fst (upsert_task_source_availability env task_id (pl_user_id plan) (pl_tenant_id plan)
      harness_id reports eligible now st))"
    using upsert_clean[OF assms] by (metis prod.collapse)
  then show ?thesis
    by (simp add: apply_completion_def Let_def put_task_clean ready_event_clean put_batch_clean
        notice_update_clean split: option.split prod.split)
qed

lemma complete_keeps_clean:
  assumes "complete_discovery_result_batch env ids d ctx request now st = (st', r)" and clean: "facts_clean st"
  shows "facts_clean st'"
proof (rule atomic_keeps_clean[where m = "complete_discovery_result_batch env ids d ctx request now", OF _ assms(1) clean])
  show "atomic (complete_discovery_result_batch env ids d ctx request now)"
    using personal_tools_atomic by blast
  fix b
  assume "complete_discovery_result_batch env ids d ctx request now st = (st', Inr b)"
  then show "facts_clean st'"
    by (cases rule: complete_cases)
      (use clean in \<open>auto simp: audit_clean intro!: apply_completion_clean elim!: resolved_reports_clean\<close>)
qed

lemma watch_write_clean:
  assumes "facts_clean st" and "list_all (\<lambda>(k, w). clean_watch w) (f (ds_watches (hs_discovery st)))"
  shows "facts_clean (set_discovery (\<lambda>ds. ds\<lparr>ds_watches := f (ds_watches ds)\<rparr>) st)"
  using assms by (simp add: facts_clean_def set_discovery_def)

lemma facts_clean_watches: "facts_clean st \<Longrightarrow> list_all (\<lambda>(k, w). clean_watch w) (ds_watches (hs_discovery st))"
  by (simp add: facts_clean_def)

lemma add_watch_keeps_clean:
  assumes "add_user_watch env d ctx request now st = (st', r)" and clean: "facts_clean st"
  shows "facts_clean st'"
proof (rule atomic_keeps_clean[where m = "add_user_watch env d ctx request now", OF _ assms(1) clean])
  show "atomic (add_user_watch env d ctx request now)" using personal_tools_atomic by blast
  fix w
  assume "add_user_watch env d ctx request now st = (st', Inr w)"
  then have "uw_last_availability w = None" and
    "st' = record_harness_write_at ctx HW_AddUserWatch None (snd (d 1)) (fst (d 1))
      (set_discovery (\<lambda>ds. ds\<lparr>ds_watches := om_put (uw_id w) w (ds_watches ds)\<rparr>) st)"
    by (auto simp: add_user_watch_def bind_Inr Let_def watching_user_def dest!: persisted_same)
  then show "facts_clean st'"
    using clean by (simp only: audit_clean)
      (intro watch_write_clean list_all_om_put facts_clean_watches, auto simp: clean_watch_def)
qed

lemma list_all_om_del: "list_all P m \<Longrightarrow> list_all P (om_del k m)"
  by (auto simp: om_del_def list_all_iff)

lemma remove_watch_keeps_clean:
  assumes "remove_user_watch env d ctx watch_id st = (st', r)" and clean: "facts_clean st"
  shows "facts_clean st'"
proof (rule atomic_keeps_clean[where m = "remove_user_watch env d ctx watch_id", OF _ assms(1) clean])
  show "atomic (remove_user_watch env d ctx watch_id)" using personal_tools_atomic by blast
  fix w
  assume "remove_user_watch env d ctx watch_id st = (st', Inr w)"
  then have "st' = record_harness_write_at ctx HW_RemoveUserWatch None (snd (d 0)) (fst (d 0))
      (set_discovery (\<lambda>ds. ds\<lparr>ds_watches := om_del watch_id (ds_watches ds)\<rparr>) st)"
    by (auto simp: remove_user_watch_def bind_Inr watching_user_def split: if_splits dest!: persisted_same)
  then show "facts_clean st'"
    using clean by (simp only: audit_clean) (intro watch_write_clean list_all_om_del facts_clean_watches)
qed

lemma clean_watch_planned: "clean_watch (w\<lparr>uw_last_planned_at := t\<rparr>) \<longleftrightarrow> clean_watch w"
  by (simp add: clean_watch_def)

lemma stamp_clean:
  assumes "facts_clean st"
  shows "facts_clean (stamp_planned_watches plan now st)"
proof -
  have "list_all (\<lambda>(k, w). clean_watch w) m \<Longrightarrow> list_all (\<lambda>(k, w). clean_watch w) (fold (\<lambda>n m.
         case sn_watch n of
           None \<Rightarrow> m
         | Some w \<Rightarrow>
             (case om_get m (pwt_watch_id w) of
                None \<Rightarrow> m
              | Some stored \<Rightarrow>
                  om_put (pwt_watch_id w)
                    (stored\<lparr>uw_last_planned_at := Some (watch_period_start (uw_cadence stored) now)\<rparr>) m)) ns m)"
    for ns :: "discovery_plan_source_neighborhood list" and m
  proof (induction ns arbitrary: m)
    case (Cons n ns)
    then show ?case
      by (auto simp: clean_watch_planned intro!: Cons.IH list_all_om_put split: option.split dest: om_get_list_all)
  qed simp
  then show ?thesis
    using assms by (simp add: stamp_planned_watches_def set_discovery_def facts_clean_def)
qed

lemma request_keeps_clean:
  assumes "request_personal_discovery_at env d ctx request now st = (st', r)" and clean: "facts_clean st"
  shows "facts_clean st'"
proof (rule atomic_keeps_clean[where m = "request_personal_discovery_at env d ctx request now", OF _ assms(1) clean])
  show "atomic (request_personal_discovery_at env d ctx request now)" using personal_tools_atomic by blast
  fix a
  assume "request_personal_discovery_at env d ctx request now st = (st', Inr a)"
  then consider "st' = st" | plan task where
    "st' = record_harness_write_at ctx HW_RequestPersonalDiscovery None (snd (d 2)) (fst (d 2))
      (put_task (dt_id task) task (put_plan plan (stamp_planned_watches plan now st)))"
    by (auto simp: request_personal_discovery_at_def bind_Inr Let_def managing_user_def
        split: option.splits if_splits dest!: persisted_same)
  then show "facts_clean st'"
  proof cases
    case 2
    then show ?thesis
      using stamp_clean[OF clean, of plan now]
      by (simp add: audit_clean put_task_clean put_plan_clean)
  qed (use clean in simp)
qed

text \<open>One call of a tool that writes availability facts or watches, whatever its answer.\<close>

inductive availability_step :: "tools_env \<Rightarrow> home_store \<Rightarrow> home_store \<Rightarrow> bool" for env where
  report: "report_discovery_source_availability env ids d ctx report now st = (st', answer) \<Longrightarrow>
    availability_step env st st'"
| complete: "complete_discovery_result_batch env ids d ctx completion now st = (st', batch) \<Longrightarrow>
    availability_step env st st'"
| watch: "add_user_watch env d ctx request now st = (st', added) \<Longrightarrow> availability_step env st st'"
| unwatch: "remove_user_watch env d ctx watch_id st = (st', removed) \<Longrightarrow> availability_step env st st'"
| plan: "request_personal_discovery_at env d ctx request now st = (st', planned) \<Longrightarrow> availability_step env st st'"

lemma availability_step_clean: "availability_step env st st' \<Longrightarrow> facts_clean st \<Longrightarrow> facts_clean st'"
  by (cases rule: availability_step.cases)
    (auto intro: report_keeps_clean complete_keeps_clean add_watch_keeps_clean remove_watch_keeps_clean request_keeps_clean)

text \<open>C18: Whatever workers report, in whatever order reports, completions, watches and requests come: every
  availability fact the node keeps, in the snapshot of a task or on a watch, names a source of 1 to 200
  bytes, gives a reason of at most 500, and holds no credential marker.\<close>

theorem availability_facts_stay_clean:
  assumes "facts_clean st" and "(availability_step env)\<^sup>*\<^sup>* st st'"
  shows "facts_clean st'"
  using assms(2,1) by (induction rule: rtranclp_induct) (auto intro: availability_step_clean)

section \<open>A completion is final\<close>

lemma upsert_frame [simp]:
  "hs_agent_harnesses (fst (upsert_task_source_availability env i u t h rs el now st)) = hs_agent_harnesses st"
  "hs_discovery_plans (fst (upsert_task_source_availability env i u t h rs el now st)) = hs_discovery_plans st"
  "hs_discovery_tasks (fst (upsert_task_source_availability env i u t h rs el now st)) = hs_discovery_tasks st"
  "ds_result_batches (hs_discovery (fst (upsert_task_source_availability env i u t h rs el now st))) =
     ds_result_batches (hs_discovery st)"
  by (simp_all add: upsert_task_source_availability_def record_watch_availability_def set_discovery_def Let_def)

lemma notice_frame [simp]:
  "hs_agent_harnesses (fst (notice_update plan i scheduled now ids rs st)) = hs_agent_harnesses st"
  "hs_discovery_plans (fst (notice_update plan i scheduled now ids rs st)) = hs_discovery_plans st"
  "hs_discovery_tasks (fst (notice_update plan i scheduled now ids rs st)) = hs_discovery_tasks st"
  "ds_result_batches (hs_discovery (fst (notice_update plan i scheduled now ids rs st))) =
     ds_result_batches (hs_discovery st)"
  by (simp_all add: notice_update_def set_discovery_def split: prod.split)

lemma ready_event_frame [simp]:
  "hs_agent_harnesses (ensure_results_ready_event e s m b now st) = hs_agent_harnesses st"
  "hs_discovery_plans (ensure_results_ready_event e s m b now st) = hs_discovery_plans st"
  "hs_discovery_tasks (ensure_results_ready_event e s m b now st) = hs_discovery_tasks st"
  "ds_result_batches (hs_discovery (ensure_results_ready_event e s m b now st)) = ds_result_batches (hs_discovery st)"
  by (simp_all add: ensure_results_ready_event_def set_discovery_def split: option.split)

lemma apply_completion_frame [simp]:
  "hs_agent_harnesses (apply_completion env ids e h i task plan lease rs el delivery b now st) = hs_agent_harnesses st"
  "hs_discovery_plans (apply_completion env ids e h i task plan lease rs el delivery b now st) = hs_discovery_plans st"
  "hs_discovery_tasks (apply_completion env ids e h i task plan lease rs el delivery b now st) =
     om_put i (completed_task h lease now task) (hs_discovery_tasks st)"
  "ds_result_batches (hs_discovery (apply_completion env ids e h i task plan lease rs el delivery b now st)) =
     om_put (drb_id b) b (ds_result_batches (hs_discovery st))"
  by (simp_all add: apply_completion_def put_batch_def put_task_def set_discovery_def Let_def split: option.split)

lemma audit_batches [simp]:
  "ds_result_batches (hs_discovery (record_harness_write_at ctx op p t i st)) = ds_result_batches (hs_discovery st)"
  by (simp add: record_harness_write_at_def split: option.split)

lemma batch_found:
  assumes "orders_ok env" and "ds_result_batches (hs_discovery st') = om_put (drb_id b) b (ds_result_batches (hs_discovery st))"
    and "batch_of_task env st task_id = None" and "drb_task_id b = task_id"
  shows "batch_of_task env st' task_id = Some b"
proof -
  have none: "drb_task_id b' \<noteq> task_id" if "om_get (ds_result_batches (hs_discovery st)) k = Some b'" for k b'
    using assms(3) that set_uuid_values[OF assms(1), of "ds_result_batches (hs_discovery st)"]
    unfolding batch_of_task_def find_None_iff by blast
  have stored: "set (uuid_values env (ds_result_batches (hs_discovery st'))) =
      {v. \<exists>k. om_get (om_put (drb_id b) b (ds_result_batches (hs_discovery st))) k = Some v}"
    unfolding assms(2) by (rule set_uuid_values[OF assms(1)])
  show ?thesis
  proof (cases "batch_of_task env st' task_id")
    case None
    then have "b \<notin> set (uuid_values env (ds_result_batches (hs_discovery st')))"
      using assms(4) unfolding batch_of_task_def find_None_iff by blast
    then show ?thesis unfolding stored by (auto split: if_splits)
  next
    case (Some b')
    then have "b' \<in> set (uuid_values env (ds_result_batches (hs_discovery st')))" "drb_task_id b' = task_id"
      unfolding batch_of_task_def by (auto simp: find_Some_iff in_set_conv_nth)
    then have "b' = b" using none unfolding stored by (auto split: if_splits)
    then show ?thesis using Some by simp
  qed
qed

lemma personal_task_again:
  assumes "personal_task_of env ctx i message st = (st, Inr (h, task, plan))"
    and "hs_agent_harnesses st' = hs_agent_harnesses st" and "hs_discovery_plans st' = hs_discovery_plans st"
    and "hs_discovery_tasks st' = om_put i task' (hs_discovery_tasks st)" and "dt_target task' = dt_target task"
  shows "personal_task_of env ctx i message st' = (st', Inr (h, task', plan))"
proof -
  have same_harness: "harness_for_context st' ctx = harness_for_context st ctx"
    unfolding harness_for_context_def assms(2) ..
  have "authorize_personal_discovery_execution env st' ctx = authorize_personal_discovery_execution env st ctx"
    by (simp add: authorize_personal_discovery_execution_def authorize_harness_def unscoped_kind_def same_harness
        split: sum.split option.split)
  moreover have "authorize_harness env st' ctx Cap_DiscoveryTasks (Some p) =
      authorize_harness env st ctx Cap_DiscoveryTasks (Some p)" for p
    by (simp add: authorize_harness_def same_harness split: sum.split option.split)
  ultimately have "authorize_discovery_task env st' ctx task' = authorize_discovery_task env st ctx task"
    using assms(3,5) by (simp add: authorize_discovery_task_def split: discovery_task_target.split sum.split)
  then show ?thesis
    using assms(1,3-5)
    by (auto simp: personal_task_of_def bind_Inr task_at_def authorized_discovery_task_mutation_def
        split: option.splits sum.splits if_splits)
qed

text \<open>C17: A task is completed as a batch once: when the call is repeated by the same caller, with whatever
  submissions and reports and however much later, it answers with the very batch and changes nothing.\<close>

theorem batch_completion_is_final:
  assumes "orders_ok env"
    and "complete_discovery_result_batch env ids d ctx request now st = (st', Inr b)"
    and "cbr_task_id request' = cbr_task_id request"
  shows "complete_discovery_result_batch env ids' d' ctx request' now' st' = (st', Inr b)"
proof -
  let ?i = "cbr_task_id request"
  have again: "complete_discovery_result_batch env ids' d' ctx request' now' st' = (st', Inr b)"
    if "personal_task_of env ctx ?i ''complete_discovery_result_batch requires a Personal Discovery Task'' st' =
          (st', Inr who)" and "batch_of_task env st' ?i = Some b" for who
    using that assms(3)
    by (cases who) (simp add: complete_discovery_result_batch_def Let_def bind_tool_def gets_def ret_def
        batch_of_task_def[symmetric])
  from assms(2) show ?thesis
  proof (cases rule: complete_cases)
    case (answered who)
    then show ?thesis using again by simp
  next
    case (built h task plan lease reports eligible ordered)
    have "batch_of_task env st' ?i = Some b"
      by (rule batch_found[OF assms(1) _ built(2)])
        (simp_all add: built(5,6) with_delivery_def build_discovery_result_batch_def Let_def split: option.split prod.split)
    moreover have "personal_task_of env ctx ?i ''complete_discovery_result_batch requires a Personal Discovery Task''
        st' = (st', Inr (h, completed_task h lease now task, plan))"
      by (rule personal_task_again[OF built(1)]) (simp_all add: built(6) completed_task_def)
    ultimately show ?thesis using again by simp
  qed
qed

section \<open>Witnesses\<close>

definition sample_worker :: agent_harness where
  "sample_worker =
     \<lparr> ah_id = 8, ah_user_id = 5, ah_tenant_id = None, ah_label = ''w'', ah_kind = Unattended,
       ah_grant = \<lparr> hg_capabilities = [Cap_PersonalDiscoveryExecution], hg_pod_ids = None \<rparr>,
       ah_created_at = 1, ah_revoked_at = None \<rparr>"

definition sample_worker_context :: auth_context where
  "sample_worker_context = \<lparr> ctx_user_id = Some 5, ctx_tenant_id = None, ctx_node_id = 4, ctx_harness_id = Some 8 \<rparr>"

definition sample_leased :: discovery_task where
  "sample_leased =
     \<lparr> dt_id = 3, dt_target = TT_Personal 4, dt_origin = DO_PersonalRequest ''k'' None, dt_due_at = 9,
       dt_state = DT_Leased \<lparr> dl_harness_id = 8, dl_claimed_at = 9, dl_expires_at = 100 \<rparr>,
       dt_attempts = [], dt_created_at = 9 \<rparr>"

definition sample_working :: home_store where
  "sample_working = empty_home_store
     \<lparr>hs_agent_harnesses := [(8, sample_worker)], hs_discovery_plans := [(4, sample_plan)],
      hs_discovery_tasks := [(3, sample_leased)]\<rparr>"

definition sample_completion :: complete_discovery_result_batch_request where
  "sample_completion =
     \<lparr> cbr_task_id = 3, cbr_submission_ids = [], cbr_source_availability = [],
       cbr_browser_grant_eligible_sources = None \<rparr>"

lemma sample_worker_task:
  "personal_task_of sample_tools sample_worker_context 3 message sample_working =
     (sample_working, Inr (8, sample_leased, sample_plan))"
  by (simp add: personal_task_of_def bind_tool_def reads_def ret_def ok_or_def task_at_def
      authorized_discovery_task_mutation_def authorize_discovery_task_def authorize_personal_discovery_execution_def
      authorize_harness_def unscoped_kind_def harness_for_context_def sample_working_def sample_worker_context_def
      sample_worker_def sample_leased_def sample_plan_def om_get_def)

lemma sample_worker_lease: "leased_by 8 12 sample_leased st = (st, Inr \<lparr> dl_harness_id = 8, dl_claimed_at = 9, dl_expires_at = 100 \<rparr>)"
  by (simp add: leased_by_def sample_leased_def ret_def)

lemma sample_working_empty:
  "ds_result_batches (hs_discovery sample_working) = []" "pst_source_availability (hs_pods sample_working) = []"
  "ds_watches (hs_discovery sample_working) = []"
  by (simp_all add: sample_working_def empty_home_store_def empty_discovery_store_def empty_pod_store_def)

lemma sample_completed:
  "\<not> isl (snd (complete_discovery_result_batch sample_tools (\<lambda>k. 60 + k) (\<lambda>k. (50 + k, 12)) sample_worker_context
     sample_completion 12 sample_working))"
  by (simp add: complete_discovery_result_batch_def bind_tool_def sample_completion_def sample_worker_task sample_worker_lease
      gets_def reads_def valid_def resolve_completion_reports_def normalize_reports_def by_source_def
      normalize_browser_grant_eligibility_def uuid_values_def values_in_order_def sample_working_empty
      om_keys_def List.map_filter_simps te_order_of staged_def
      writes_def audited_def persist_def persisted_ok[OF sample_tools_ok] om_vals_def split: prod.split)

theorem batch_completion_is_final_witness:
  "let first = complete_discovery_result_batch sample_tools (\<lambda>k. 60 + k) (\<lambda>k. (50 + k, 12)) sample_worker_context
         sample_completion 12 sample_working
   in \<not> isl (snd first) \<and>
      complete_discovery_result_batch sample_tools (\<lambda>k. 80 + k) (\<lambda>k. (70 + k, 90)) sample_worker_context
        (sample_completion\<lparr>cbr_submission_ids := [6]\<rparr>) 90 (fst first) = first"
proof -
  obtain st' b where first: "complete_discovery_result_batch sample_tools (\<lambda>k. 60 + k) (\<lambda>k. (50 + k, 12))
      sample_worker_context sample_completion 12 sample_working = (st', Inr b)"
    using sample_completed by (metis isl_def prod.exhaust_sel sum.exhaust)
  have "orders_ok sample_tools" by (simp add: orders_ok_def te_order_of)
  from batch_completion_is_final[OF this first, of "sample_completion\<lparr>cbr_submission_ids := [6]\<rparr>"] sample_completed
  show ?thesis by (simp add: first)
qed

definition sample_availability_report :: report_discovery_source_availability_request where
  "sample_availability_report =
     \<lparr> rsr_task_id = 3, rsr_reports = [sample_report], rsr_browser_grant_eligible_sources = None \<rparr>"

theorem availability_facts_stay_clean_witness:
  "facts_clean sample_working \<and>
   facts_clean (fst (report_discovery_source_availability sample_tools (\<lambda>k. 60 + k) (\<lambda>k. (50 + k, 12))
     sample_worker_context sample_availability_report 12 sample_working))"
proof -
  let ?after = "report_discovery_source_availability sample_tools (\<lambda>k. 60 + k) (\<lambda>k. (50 + k, 12))
    sample_worker_context sample_availability_report 12 sample_working"
  have clean: "facts_clean sample_working" by (simp add: facts_clean_def sample_working_empty)
  moreover have "availability_step sample_tools sample_working (fst ?after)"
    by (rule availability_step.report) (rule prod.collapse[symmetric])
  then have "facts_clean (fst ?after)"
    by (intro availability_facts_stay_clean[OF clean, of sample_tools] r_into_rtranclp)
  ultimately show ?thesis ..
qed

end
