(* ===== verification/Plan_Props.thy ===== *)
theory Plan_Props
  imports Discovery_Schedules Account_Props
begin

text \<open>
  Properties of learned taste, plans and schedules: a weight in favour needs two pieces of the User's
  own evidence and a majority; a plan keeps its bounds; and the creation of scheduled work can be
  repeated without effect.
\<close>


section \<open>What an aggregate counts\<close>

definition agg :: "taste_aggregates \<Rightarrow> learned_taste_signal \<Rightarrow> taste_signal_aggregate" where
  "agg m signal = (case om_get m signal of None \<Rightarrow> empty_aggregate | Some a \<Rightarrow> a)"

lemma agg_in_aggregate: "agg (in_aggregate s f m) signal = (if signal = s then f (agg m s) else agg m signal)"
  by (simp add: agg_def in_aggregate_def)

lemma agg_seeds:
  "ta_supporting_seeds (agg m signal) \<le> u32_max \<Longrightarrow>
   ta_supporting_seeds (agg (fold add_seed_signal signals m) signal) =
     min (ta_supporting_seeds (agg m signal) + count_list signals signal) u32_max"
  by (induction signals arbitrary: m) (auto simp: add_seed_signal_def agg_in_aggregate sat_u32_def min_def)

lemma agg_seeds_feedback:
  "ta_supporting_feedback (agg (fold add_seed_signal signals m) signal) = ta_supporting_feedback (agg m signal)"
  "ta_opposing_feedback (agg (fold add_seed_signal signals m) signal) = ta_opposing_feedback (agg m signal)"
  by (induction signals arbitrary: m) (auto simp: add_seed_signal_def agg_in_aggregate)

definition about :: "learned_taste_signal \<Rightarrow> taste_evidence_direction \<Rightarrow> taste_learning_evidence \<Rightarrow> bool" where
  "about signal direction e \<longleftrightarrow> tl_signal e = signal \<and> tl_direction e = direction"

lemma agg_add_evidence:
  "ta_supporting_seeds (agg (add_evidence e m) signal) = ta_supporting_seeds (agg m signal)"
  "ta_supporting_feedback (agg (add_evidence e m) signal) =
     (if about signal TD_Supporting e then sat_u32 (ta_supporting_feedback (agg m signal)) 1
      else ta_supporting_feedback (agg m signal))"
  "ta_opposing_feedback (agg (add_evidence e m) signal) =
     (if about signal TD_Opposing e then sat_u32 (ta_opposing_feedback (agg m signal)) 1
      else ta_opposing_feedback (agg m signal))"
  by (cases "tl_direction e"; auto simp: add_evidence_def agg_in_aggregate about_def)+

lemma agg_evidence_seeds:
  "ta_supporting_seeds (agg (fold add_evidence es m) signal) = ta_supporting_seeds (agg m signal)"
  by (induction es arbitrary: m) (auto simp: agg_add_evidence)

lemma agg_evidence_supporting:
  "ta_supporting_feedback (agg m signal) \<le> u32_max \<Longrightarrow>
   ta_supporting_feedback (agg (fold add_evidence es m) signal) =
     min (ta_supporting_feedback (agg m signal) + length (filter (about signal TD_Supporting) es)) u32_max"
  by (induction es arbitrary: m) (auto simp: agg_add_evidence sat_u32_def min_def)

lemma agg_evidence_opposing:
  "ta_opposing_feedback (agg m signal) \<le> u32_max \<Longrightarrow>
   ta_opposing_feedback (agg (fold add_evidence es m) signal) =
     min (ta_opposing_feedback (agg m signal) + length (filter (about signal TD_Opposing) es)) u32_max"
  by (induction es arbitrary: m) (auto simp: agg_add_evidence sat_u32_def min_def)

text \<open>The User's own evidence for and against a signal.\<close>

definition evidence_for :: "home_store \<Rightarrow> uuid \<Rightarrow> uuid option \<Rightarrow> learned_taste_signal \<Rightarrow> nat" where
  "evidence_for st user_id tenant_id signal =
     length (filter (\<lambda>seed. signal \<in> set (map ise_signal (is_evidence seed))) (active_seeds user_id tenant_id st)) +
     length (filter (about signal TD_Supporting) (users_evidence user_id tenant_id st))"

definition evidence_against :: "home_store \<Rightarrow> uuid \<Rightarrow> uuid option \<Rightarrow> learned_taste_signal \<Rightarrow> nat" where
  "evidence_against st user_id tenant_id signal =
     length (filter (about signal TD_Opposing) (users_evidence user_id tenant_id st))"

lemma count_list_distinct: "distinct xs \<Longrightarrow> count_list xs x = (if x \<in> set xs then 1 else 0)"
  by (induction xs) auto

lemma count_seed_signals:
  "count_list (concat (map seed_signals seeds)) signal =
     length (filter (\<lambda>seed. signal \<in> set (map ise_signal (is_evidence seed))) seeds)"
  by (induction seeds) (auto simp: seed_signals_def count_list_distinct)

lemma aggregate_counts:
  "supporting (agg (taste_signal_aggregates st user_id tenant_id) signal) =
     min (evidence_for st user_id tenant_id signal) u32_max"
  "ta_opposing_feedback (agg (taste_signal_aggregates st user_id tenant_id) signal) =
     min (evidence_against st user_id tenant_id signal) u32_max"
proof -
  have start: "agg [] signal = empty_aggregate" by (simp add: agg_def)
  show "supporting (agg (taste_signal_aggregates st user_id tenant_id) signal) =
      min (evidence_for st user_id tenant_id signal) u32_max"
    by (simp add: supporting_def taste_signal_aggregates_def agg_evidence_seeds agg_evidence_supporting
        agg_seeds agg_seeds_feedback start empty_aggregate_def evidence_for_def count_seed_signals sat_u32_def)
  show "ta_opposing_feedback (agg (taste_signal_aggregates st user_id tenant_id) signal) =
      min (evidence_against st user_id tenant_id signal) u32_max"
    by (simp add: taste_signal_aggregates_def agg_evidence_opposing agg_seeds_feedback start
        empty_aggregate_def evidence_against_def)
qed

section \<open>Weights\<close>

lemma half_of_positive:
  assumes "- 6 \<le> n" and "n \<le> 6"
  shows "f32_less 0 (half_of n) \<longleftrightarrow> 0 < n"
proof -
  have "n \<in> {-6, -5, -4, -3, -2, -1, 0, 1, 2, 3, 4, 5, 6}" using assms by simp presburger
  then show ?thesis
    by (auto simp: half_of_def f32_halves_def f32_less_def f32_is_nan_def f32_exponent_def f32_fraction_def
        f32_order_def f32_negative_def)
qed

lemma positive_weight:
  "f32_less 0 (inferred_weight a blocked) \<longleftrightarrow>
     \<not> blocked \<and> 2 \<le> supporting a + ta_opposing_feedback a \<and> ta_opposing_feedback a < supporting a"
proof -
  let ?d = "int (supporting a) - int (ta_opposing_feedback a)"
  have positive: "f32_less 0 (half_of (max (-6) (min 6 ?d))) \<longleftrightarrow> ta_opposing_feedback a < supporting a"
    by (subst half_of_positive) auto
  have few: "sat_u32 (supporting a) (ta_opposing_feedback a) < 2 \<longleftrightarrow> supporting a + ta_opposing_feedback a < 2"
    unfolding sat_u32_def u32_max_def by linarith
  show ?thesis
  proof (cases "blocked \<or> supporting a + ta_opposing_feedback a < 2")
    case True
    then show ?thesis using few by (auto simp: inferred_weight_def)
  next
    case False
    then have "inferred_weight a blocked = half_of (max (-6) (min 6 ?d))"
      using few by (simp add: inferred_weight_def)
    then show ?thesis using positive False by simp
  qed
qed

lemma om_get_aggregate:
  assumes "om_ok m" and "(signal, a) \<in> set m"
  shows "a = agg m signal"
  using assms by (simp add: agg_def om_get_iff[symmetric])

lemma aggregates_ok: "om_ok (taste_signal_aggregates st user_id tenant_id)"
proof -
  have "om_ok m \<Longrightarrow> om_ok (fold add_seed_signal signals m)" for signals m
    by (induction signals arbitrary: m) (auto simp: add_seed_signal_def in_aggregate_def)
  moreover have "om_ok m \<Longrightarrow> om_ok (fold add_evidence es m)" for es m
    by (induction es arbitrary: m) (auto simp: add_evidence_def in_aggregate_def)
  ultimately show ?thesis by (simp add: taste_signal_aggregates_def)
qed

definition corroborated :: "home_store \<Rightarrow> uuid \<Rightarrow> uuid option \<Rightarrow> learned_taste_signal \<Rightarrow> bool" where
  "corroborated st user_id tenant_id signal \<longleftrightarrow>
     2 \<le> evidence_for st user_id tenant_id signal + evidence_against st user_id tenant_id signal \<and>
     min (evidence_against st user_id tenant_id signal) u32_max < min (evidence_for st user_id tenant_id signal) u32_max"

lemma weight_of_aggregate:
  assumes "(signal, a) \<in> set (taste_signal_aggregates st user_id tenant_id)"
  shows "f32_less 0 (inferred_weight a blocked) \<longleftrightarrow> \<not> blocked \<and> corroborated st user_id tenant_id signal"
proof -
  have a: "a = agg (taste_signal_aggregates st user_id tenant_id) signal"
    using om_get_aggregate[OF aggregates_ok assms] .
  show ?thesis
    unfolding a positive_weight aggregate_counts corroborated_def by (auto simp: u32_max_def)
qed

text \<open>C16: A topic or a source weighs in a User's favour exactly if the User does not block it and their own
  evidence corroborates it: two pieces at least, and more for it than against it. One submission, one save
  or one look never does, and evidence of other Users does not count.\<close>

theorem learned_weight_is_corroborated:
  "(\<forall>w \<in> set (tp_learned (taste_profile_projections st user_id tenant_id preferences)).
      f32_less 0 (lw_weight w) \<longleftrightarrow>
        \<not> prefers (\<lambda>p. topic_preference_blocks p (lw_signal w)) preferences \<and>
        corroborated st user_id tenant_id (lw_signal w)) \<and>
   (\<forall>a \<in> set (tp_source_affinities (taste_profile_projections st user_id tenant_id preferences)).
      f32_less 0 (saf_weight a) \<longleftrightarrow>
        \<not> prefers (\<lambda>p. source_affinity_is_blocked p (saf_signal a)) preferences \<and>
        (\<exists>signal. lt_source_affinity signal = Some (saf_signal a) \<and> corroborated st user_id tenant_id signal))"
proof (intro conjI ballI)
  fix w
  assume "w \<in> set (tp_learned (taste_profile_projections st user_id tenant_id preferences))"
  then obtain signal a where "(signal, a) \<in> set (taste_signal_aggregates st user_id tenant_id)"
    and "w = learned_weight signal (prefers (\<lambda>p. topic_preference_blocks p signal) preferences) a"
    by (auto simp: taste_profile_projections_def Let_def)
  then show "f32_less 0 (lw_weight w) \<longleftrightarrow>
      \<not> prefers (\<lambda>p. topic_preference_blocks p (lw_signal w)) preferences \<and>
      corroborated st user_id tenant_id (lw_signal w)"
    by (simp add: learned_weight_def weight_of_aggregate)
next
  fix f
  assume "f \<in> set (tp_source_affinities (taste_profile_projections st user_id tenant_id preferences))"
  then obtain signal a s where *: "(signal, a) \<in> set (taste_signal_aggregates st user_id tenant_id)"
    "lt_source_affinity signal = Some s" "f = affinity_of preferences s a"
    by (auto simp: taste_profile_projections_def Let_def set_map_filter)
  have "signal' = signal" if "lt_source_affinity signal' = Some s" for signal'
    using that *(2) by (cases signal; cases signal') auto
  then have unique: "(\<exists>signal. lt_source_affinity signal = Some s \<and> corroborated st user_id tenant_id signal) \<longleftrightarrow>
      corroborated st user_id tenant_id signal"
    using *(2) by blast
  have "saf_signal f = s" and
    "saf_weight f = inferred_weight a (prefers (\<lambda>p. source_affinity_is_blocked p s) preferences)"
    by (simp_all add: *(3) affinity_of_def Let_def)
  then show "f32_less 0 (saf_weight f) \<longleftrightarrow>
      \<not> prefers (\<lambda>p. source_affinity_is_blocked p (saf_signal f)) preferences \<and>
      (\<exists>signal. lt_source_affinity signal = Some (saf_signal f) \<and> corroborated st user_id tenant_id signal)"
    by (simp only: weight_of_aggregate[OF *(1)] unique)
qed

text \<open>One seed gives no weight, two give one.\<close>

definition sample_seed :: "uuid \<Rightarrow> interest_seed" where
  "sample_seed i =
     \<lparr> is_user_id = 5, is_tenant_id = None, is_candidate_id = i,
       is_evidence = [\<lparr> ise_signal = LT_Topic ''rust'', ise_provenance =
         \<lparr> cpv_discovered_at = 9, cpv_discovery_method = ''m'', cpv_referrer_url = None \<rparr> \<rparr>],
       is_created_at = 9, is_retracted_at = None \<rparr>"

definition sample_taste :: "nat list \<Rightarrow> home_store" where
  "sample_taste seeds = set_discovery (\<lambda>d. d\<lparr>ds_interest_seeds := map (\<lambda>i. ((5, i), sample_seed i)) seeds\<rparr>) empty_home_store"

abbreviation sample_learned :: "nat list \<Rightarrow> learned_taste_weight list" where
  "sample_learned seeds \<equiv> tp_learned (taste_profile_projections (sample_taste seeds) 5 None None)"

lemma sample_learned_signal:
  "map lw_signal (sample_learned [7]) = [LT_Topic ''rust'']"
  "map lw_signal (sample_learned [7, 8]) = [LT_Topic ''rust'']"
  by (simp_all add: taste_profile_projections_def taste_signal_aggregates_def active_seeds_def users_evidence_def
      seed_signals_def sample_taste_def sample_seed_def set_discovery_def om_vals_def empty_home_store_def
      empty_discovery_store_def add_seed_signal_def in_aggregate_def learned_weight_def Let_def)

lemma sample_corroborated:
  "\<not> corroborated (sample_taste [7]) 5 None (LT_Topic ''rust'')" "corroborated (sample_taste [7, 8]) 5 None (LT_Topic ''rust'')"
  by (simp_all add: corroborated_def evidence_for_def evidence_against_def active_seeds_def users_evidence_def
      sample_taste_def sample_seed_def set_discovery_def om_vals_def empty_home_store_def empty_discovery_store_def u32_max_def)

theorem learned_weight_is_corroborated_witness:
  "length (sample_learned [7]) = 1 \<and> length (sample_learned [7, 8]) = 1 \<and>
   \<not> f32_less 0 (lw_weight (hd (sample_learned [7]))) \<and> f32_less 0 (lw_weight (hd (sample_learned [7, 8])))"
proof -
  obtain w v where one: "sample_learned [7] = [w]" "lw_signal w = LT_Topic ''rust''"
    and two: "sample_learned [7, 8] = [v]" "lw_signal v = LT_Topic ''rust''"
    using sample_learned_signal by (auto simp: map_eq_Cons_conv)
  have "\<not> f32_less 0 (lw_weight w)"
    using learned_weight_is_corroborated[of "sample_taste [7]" 5 None None, THEN conjunct1] one sample_corroborated by simp
  moreover have "f32_less 0 (lw_weight v)"
    using learned_weight_is_corroborated[of "sample_taste [7, 8]" 5 None None, THEN conjunct1] two sample_corroborated
    by (simp add: prefers_def)
  ultimately show ?thesis using one two by simp
qed

section \<open>The pieces of a plan\<close>

lemma set_first_by: "set (first_by key seen xs) \<subseteq> set xs"
  by (induction key seen xs rule: first_by.induct) auto

lemma first_by_distinct:
  "distinct (map key (first_by key seen xs)) \<and> set (map key (first_by key seen xs)) \<inter> set seen = {}"
  by (induction key seen xs rule: first_by.induct) auto

definition unblocked :: "user_preferences option \<Rightarrow> source_affinity_signal \<Rightarrow> bool" where
  "unblocked preferences signal \<longleftrightarrow> \<not> prefers (\<lambda>p. source_affinity_is_blocked p signal) preferences"

lemma select_adjacent:
  "length (select_adjacent_from_matched ls seen cap) \<le> cap"
  "n \<in> set (select_adjacent_from_matched ls seen cap) \<Longrightarrow>
     sn_watch n = None \<and> sn_role n = Adjacent \<and> sn_signal n \<in> ld_signal ` set ls \<and> sn_signal n \<notin> set seen"
proof -
  show "length (select_adjacent_from_matched ls seen cap) \<le> cap"
    by (induction ls seen cap rule: select_adjacent_from_matched.induct) auto
  show "n \<in> set (select_adjacent_from_matched ls seen cap) \<Longrightarrow>
     sn_watch n = None \<and> sn_role n = Adjacent \<and> sn_signal n \<in> ld_signal ` set ls \<and> sn_signal n \<notin> set seen"
    by (induction ls seen cap rule: select_adjacent_from_matched.induct) (auto split: if_splits)
qed

lemma matched_unblocked:
  assumes "l \<in> set (match_network_leads_locally env leads topics sources preferences)"
  shows "unblocked preferences (ld_signal l)"
  using assms set_first_by
  by (fastforce simp: match_network_leads_locally_def unblocked_def prefers_def split: option.splits)

lemma projected_unblocked:
  assumes "a \<in> set (tp_source_affinities (taste_profile_projections st user_id tenant_id preferences))"
    and "liked_source a"
  shows "unblocked preferences (saf_signal a)"
  using assms
  by (auto simp: taste_profile_projections_def Let_def set_map_filter affinity_of_def liked_source_def unblocked_def)

lemma proven_sources_ok:
  assumes "proven_sources preferences (taste_profile_projections st user_id tenant_id preferences) intent = Inr proven"
  shows "length proven \<le> 5" and "n \<in> set proven \<Longrightarrow> sn_watch n = None \<and> sn_role n = Proven \<and> unblocked preferences (sn_signal n)"
proof -
  let ?projections = "taste_profile_projections st user_id tenant_id preferences"
  obtain temporary where t: "intent_sources preferences intent = Inr temporary"
    and p: "proven = take 5 (map rs_source (first_by (\<lambda>s. sn_signal (rs_source s)) [] (sort_key source_rank
      (map (\<lambda>a. proven_source 1 (saf_weight a) (saf_signal a) ''corroborated aggregate User evidence'' False)
         (filter liked_source (tp_source_affinities ?projections)) @ temporary))))"
    using assms by (auto simp: proven_sources_def Let_def max_selected_source_neighborhoods_def split: sum.splits)
  show "length proven \<le> 5" by (simp add: p)
  have temporary: "unblocked preferences (sn_signal (rs_source s)) \<and> sn_watch (rs_source s) = None \<and>
      sn_role (rs_source s) = Proven" if "s \<in> set temporary" for s
    using t that by (auto simp: intent_sources_def unblocked_def proven_source_def
        split: option.splits prepared_intent.splits if_splits)
  assume "n \<in> set proven"
  let ?all = "map (\<lambda>a. proven_source 1 (saf_weight a) (saf_signal a) ''corroborated aggregate User evidence'' False)
         (filter liked_source (tp_source_affinities ?projections)) @ temporary"
  have "set proven \<subseteq> rs_source ` set (first_by (\<lambda>s. sn_signal (rs_source s)) [] (sort_key source_rank ?all))"
    unfolding p using set_take_subset by (metis list.set_map)
  also have "\<dots> \<subseteq> rs_source ` set (sort_key source_rank ?all)"
    by (rule image_mono) (rule set_first_by)
  finally have "n \<in> rs_source ` set ?all" using \<open>n \<in> set proven\<close> by auto
  then show "sn_watch n = None \<and> sn_role n = Proven \<and> unblocked preferences (sn_signal n)"
    using temporary projected_unblocked by (auto simp: proven_source_def)
qed

lemma due_watches: "n \<in> set (due_watch_neighborhoods env st user_id tenant_id now) \<Longrightarrow> sn_watch n \<noteq> None \<and> sn_role n = Proven"
  by (auto simp: due_watch_neighborhoods_def set_map_filter)

text \<open>The sources of a plan that no watch asked for.\<close>

abbreviation own_sources :: "discovery_plan_source_neighborhood list \<Rightarrow> discovery_plan_source_neighborhood list" where
  "own_sources \<equiv> filter (\<lambda>n. sn_watch n = None)"

definition uncovered_by ::
  "discovery_plan_source_neighborhood list \<Rightarrow> discovery_plan_source_neighborhood list
    \<Rightarrow> discovery_plan_source_neighborhood list" where
  "uncovered_by watches proven =
     filter (\<lambda>s. \<not> list_ex (\<lambda>w. sa_eq_ignore_ascii_case (sn_signal w) (sn_signal s)) watches) proven"

lemma plan_sources_shape:
  fixes env st user_id tenant_id now proven
  defines "first \<equiv> due_watch_neighborhoods env st user_id tenant_id now @
    uncovered_by (due_watch_neighborhoods env st user_id tenant_id now) proven"
  shows "\<exists>cap leads seen. cap \<le> 5 - length first \<and> cap \<le> 3 \<and>
    (\<forall>l \<in> set leads. unblocked preferences (ld_signal l)) \<and>
    plan_sources env clock st user_id tenant_id now preferences projections topics proven =
      first @ select_adjacent_from_matched leads seen cap"
proof -
  let ?cap = "min (max_selected_source_neighborhoods - length first) max_adjacent_network_sources"
  let ?leads = "match_network_leads_locally env (produce_network_discovery_leads env clock st user_id tenant_id)
    (plan_matching_topics env preferences topics projections) (plan_matching_sources first projections) preferences"
  let ?seen = "map sn_signal proven @ map sn_signal (due_watch_neighborhoods env st user_id tenant_id now)"
  have "select_adjacent_from_matched leads seen 0 = []" for leads seen by (cases leads) auto
  then have "plan_sources env clock st user_id tenant_id now preferences projections topics proven =
      first @ select_adjacent_from_matched ?leads ?seen ?cap"
    unfolding plan_sources_def Let_def first_def uncovered_by_def by (simp del: length_append)
  moreover have "\<forall>l \<in> set ?leads. unblocked preferences (ld_signal l)"
    using matched_unblocked by blast
  moreover have "?cap \<le> 5 - length first" "?cap \<le> 3"
    by (simp_all add: max_selected_source_neighborhoods_def max_adjacent_network_sources_def)
  ultimately show ?thesis by blast
qed

lemma plan_sources_ok:
  assumes "length proven \<le> 5"
    and "\<And>n. n \<in> set proven \<Longrightarrow> sn_watch n = None \<and> sn_role n = Proven \<and> unblocked preferences (sn_signal n)"
    and "sources = plan_sources env clock st user_id tenant_id now preferences projections topics proven"
  shows "length (own_sources sources) \<le> 5"
    and "length (filter (\<lambda>n. sn_role n = Adjacent) sources) \<le> 3"
    and "n \<in> set sources \<Longrightarrow> sn_watch n = None \<Longrightarrow> unblocked preferences (sn_signal n)"
proof -
  let ?watches = "due_watch_neighborhoods env st user_id tenant_id now"
  let ?uncovered = "uncovered_by ?watches proven"
  obtain cap leads seen where cap: "cap \<le> 5 - length (?watches @ ?uncovered)" "cap \<le> 3"
    and leads: "\<And>l. l \<in> set leads \<Longrightarrow> unblocked preferences (ld_signal l)"
    and s: "sources = (?watches @ ?uncovered) @ select_adjacent_from_matched leads seen cap"
    using plan_sources_shape[of env st user_id tenant_id now proven preferences clock projections topics]
    unfolding assms(3) by blast
  let ?adjacent = "select_adjacent_from_matched leads seen cap"
  have watched: "own_sources ?watches = []" "filter (\<lambda>n. sn_role n = Adjacent) ?watches = []"
    using due_watches by (auto simp: filter_empty_conv)
  have uncovered: "filter (\<lambda>n. sn_role n = Adjacent) ?uncovered = []"
    using assms(2) by (auto simp: filter_empty_conv uncovered_by_def)
  have own: "own_sources sources = own_sources ?uncovered @ own_sources ?adjacent"
    using watched by (simp add: s)
  have adjacent: "filter (\<lambda>n. sn_role n = Adjacent) sources = filter (\<lambda>n. sn_role n = Adjacent) ?adjacent"
    using watched uncovered unfolding s filter_append by simp
  have "length ?uncovered \<le> length proven" unfolding uncovered_by_def by (rule length_filter_le)
  note sizes = this select_adjacent(1)[of leads seen cap] length_filter_le[of "\<lambda>n. sn_watch n = None" ?uncovered]
    length_filter_le[of "\<lambda>n. sn_watch n = None" ?adjacent] length_filter_le[of "\<lambda>n. sn_role n = Adjacent" ?adjacent]
  show "length (own_sources sources) \<le> 5"
    unfolding own length_append using sizes(1-4) cap(1)[unfolded length_append] assms(1) by linarith
  show "length (filter (\<lambda>n. sn_role n = Adjacent) sources) \<le> 3"
    unfolding adjacent using sizes(2,5) cap(2) by linarith
  assume n: "n \<in> set sources" "sn_watch n = None"
  then have "n \<in> set ?uncovered \<or> n \<in> set ?adjacent"
    using due_watches[of n env st user_id tenant_id now] unfolding s set_append by blast
  then show "unblocked preferences (sn_signal n)"
  proof
    assume "n \<in> set ?uncovered"
    then show ?thesis using assms(2) by (simp add: uncovered_by_def)
  next
    assume "n \<in> set ?adjacent"
    then obtain l where "l \<in> set leads" "sn_signal n = ld_signal l" using select_adjacent(2) by blast
    then show ?thesis using leads by simp
  qed
qed

lemma prepared_count:
  "prepare_request env request = Inr prepared \<or> prepare_schedule_run env schedule = Inr prepared \<Longrightarrow>
    1 \<le> prq_result_count prepared \<and> prq_result_count prepared \<le> 100"
  by (auto simp: prepare_request_def prepare_schedule_run_def validate_result_count_def valid_def Let_def
      split: option.splits if_splits sum.splits)

lemma proven_share_le: "1 \<le> n \<Longrightarrow> n \<le> 100 \<Longrightarrow> proven_share n = (7 * n + 9) div 10 \<and> proven_share n \<le> n"
  by (auto simp: proven_share_def)

abbreviation five_topics :: "tools_env \<Rightarrow> ranked_topic list \<Rightarrow> discovery_plan_topic list" where
  "five_topics env ts \<equiv> take 5 (map rt_topic (first_by (\<lambda>t. te_lowercase env (pt_value (rt_topic t))) [] ts))"

lemma five_topics_ok:
  "length (five_topics env ts) \<le> 5 \<and> distinct (map (\<lambda>t. te_lowercase env (pt_value t)) (five_topics env ts))"
proof -
  have "distinct (map (\<lambda>t. te_lowercase env (pt_value t))
      (map rt_topic (first_by (\<lambda>t. te_lowercase env (pt_value (rt_topic t))) [] ts)))"
    using first_by_distinct[of "\<lambda>t. te_lowercase env (pt_value (rt_topic t))" "[]" ts] by (simp add: comp_def)
  then show ?thesis unfolding take_map[symmetric] by (simp add: distinct_take flip: take_map)
qed

lemma plan_topics_ok:
  assumes "plan_topics env preferences projections request = Inr topics"
  shows "length topics \<le> 5 \<and> distinct (map (\<lambda>t. te_lowercase env (pt_value t)) topics)"
proof -
  obtain temporary where "intent_topics env preferences (prq_intent request) = Inr temporary"
    using assms by (cases "intent_topics env preferences (prq_intent request)") (simp_all add: plan_topics_def)
  with assms have "\<exists>ts. topics = five_topics env ts"
    unfolding plan_topics_def Let_def max_selected_topics_def by (simp only: sum.case sum.inject) (rule exI, erule sym)
  then show ?thesis using five_topics_ok by blast
qed

lemma granted: "n \<in> set (filter_neighborhoods_by_browser_grant sources eligible) \<longleftrightarrow>
    n \<in> set sources \<and> source_is_browser_grant_eligible (snd (sa_key (sn_signal n))) eligible"
  by (auto simp: filter_neighborhoods_by_browser_grant_def source_is_browser_grant_eligible_def split: option.splits)

lemma granted_filter:
  "\<exists>P. filter_neighborhoods_by_browser_grant sources eligible = filter P sources"
  by (cases eligible) (auto simp: filter_neighborhoods_by_browser_grant_def intro: exI[of _ "\<lambda>_. True"])

lemma length_filter_granted:
  "length (filter P (filter_neighborhoods_by_browser_grant sources eligible)) \<le> length (filter P sources)"
proof -
  obtain Q where "filter_neighborhoods_by_browser_grant sources eligible = filter Q sources"
    using granted_filter by blast
  then show ?thesis
    using length_filter_le[of Q "filter P sources"] by (simp add: conj_commute)
qed

lemma avoid_more_keeps: "set blocked \<subseteq> set (avoid_more blocked topics)"
  by (induction blocked topics rule: avoid_more.induct) auto

lemma avoid_more_avoids: "topic \<in> set topics \<Longrightarrow> list_ex (\<lambda>b. eq_ignore_ascii_case b topic) (avoid_more blocked topics)"
proof (induction blocked topics rule: avoid_more.induct)
  case (2 blocked t topics)
  define with_t where "with_t = (if list_ex (\<lambda>b. eq_ignore_ascii_case b t) blocked then blocked else blocked @ [t])"
  have "list_ex (\<lambda>b. eq_ignore_ascii_case b t) with_t"
    by (auto simp: with_t_def eq_ignore_ascii_case_def list_ex_iff)
  then have "list_ex (\<lambda>b. eq_ignore_ascii_case b t) (avoid_more with_t topics)"
    using avoid_more_keeps[of with_t topics] unfolding list_ex_iff by blast
  then show ?case using 2 by (cases "topic = t") (simp_all add: with_t_def)
qed simp

text \<open>The constraints of a plan hold what the User blocks for good, and avoids in this run.\<close>

definition carries_blocks :: "discovery_plan_constraints \<Rightarrow> user_preferences option \<Rightarrow> string list \<Rightarrow> bool" where
  "carries_blocks c preferences avoided \<longleftrightarrow>
     (case preferences of
        None \<Rightarrow> pc_blocked_sources c = [] \<and> pc_blocked_source_affinities c = []
      | Some p \<Rightarrow> set (up_blocked_topics p) \<subseteq> set (pc_blocked_topics c) \<and>
          pc_blocked_sources c = up_blocked_sources p \<and>
          pc_blocked_source_affinities c = up_blocked_source_affinities p) \<and>
     list_all (\<lambda>topic. list_ex (\<lambda>b. eq_ignore_ascii_case b topic) (pc_blocked_topics c)) avoided"

text \<open>C14: A plan built from a request or a schedule stays within its bounds. It asks for 1 to 100 results,
  seven tenths of them, rounded up, from proven sources and the others from adjacent ones; it has at most
  five topics, no two alike; watches apart, it has at most five sources, three of them adjacent, and none
  that the User blocks; every source is one the Browser Grant allows; and its constraints hold all
  the topics, sources and source affinities the User blocks, and every topic to avoid in this run.\<close>

theorem plan_within_bounds:
  assumes "prepare_request env request = Inr prepared \<or> prepare_schedule_run env schedule = Inr prepared"
    and "build_plan env clock new_id st user_id tenant_id prepared now = Inr plan"
    and "preferences = preferences_of st user_id tenant_id"
  shows "1 \<le> pl_result_count plan \<and> pl_result_count plan \<le> 100 \<and>
    al_proven (pl_allocation plan) = (7 * pl_result_count plan + 9) div 10 \<and>
    al_proven (pl_allocation plan) + al_adjacent (pl_allocation plan) = pl_result_count plan \<and>
    length (pl_topics plan) \<le> 5 \<and> distinct (map (\<lambda>t. te_lowercase env (pt_value t)) (pl_topics plan)) \<and>
    length (own_sources (pl_source_neighborhoods plan)) \<le> 5 \<and>
    length (filter (\<lambda>n. sn_role n = Adjacent) (pl_source_neighborhoods plan)) \<le> 3 \<and>
    list_all (\<lambda>n. unblocked preferences (sn_signal n)) (own_sources (pl_source_neighborhoods plan)) \<and>
    list_all (\<lambda>n. source_is_browser_grant_eligible (snd (sa_key (sn_signal n)))
      (prq_browser_grant_eligible_sources prepared)) (pl_source_neighborhoods plan) \<and>
    carries_blocks (pl_constraints plan) preferences (prq_avoid_topics prepared)"
proof -
  let ?projections = "taste_profile_projections st user_id tenant_id preferences"
  obtain topics proven where t: "plan_topics env preferences ?projections prepared = Inr topics"
    and p: "proven_sources preferences ?projections (prq_intent prepared) = Inr proven"
    and topics: "pl_topics plan = topics"
    and count: "pl_result_count plan = prq_result_count prepared"
    and allocation: "pl_allocation plan = \<lparr> al_proven = proven_share (prq_result_count prepared),
      al_adjacent = prq_result_count prepared - proven_share (prq_result_count prepared) \<rparr>"
    and sources: "pl_source_neighborhoods plan = filter_neighborhoods_by_browser_grant
      (plan_sources env clock st user_id tenant_id now preferences ?projections topics proven)
      (prq_browser_grant_eligible_sources prepared)"
    and constraints: "pc_blocked_topics (pl_constraints plan) = avoid_more
        (case preferences of None \<Rightarrow> [] | Some p \<Rightarrow> up_blocked_topics p) (prq_avoid_topics prepared)"
      "pc_blocked_sources (pl_constraints plan) = (case preferences of None \<Rightarrow> [] | Some p \<Rightarrow> up_blocked_sources p)"
      "pc_blocked_source_affinities (pl_constraints plan) =
         (case preferences of None \<Rightarrow> [] | Some p \<Rightarrow> up_blocked_source_affinities p)"
    using assms(2) unfolding build_plan_def Let_def assms(3)[symmetric]
    by (auto split: sum.splits)
  have "carries_blocks (pl_constraints plan) preferences (prq_avoid_topics prepared)"
    using avoid_more_keeps[of "up_blocked_topics (the preferences)"] avoid_more_avoids
    by (cases preferences) (simp_all add: constraints carries_blocks_def list_all_iff)
  moreover note bounds = prepared_count[OF assms(1)] proven_share_le[of "prq_result_count prepared"]
  note own = plan_sources_ok[OF proven_sources_ok[OF p] refl]
  moreover have "length (own_sources (pl_source_neighborhoods plan)) \<le> 5"
    "length (filter (\<lambda>n. sn_role n = Adjacent) (pl_source_neighborhoods plan)) \<le> 3"
    unfolding sources by (rule le_trans[OF length_filter_granted own(1)], assumption,
      rule le_trans[OF length_filter_granted own(2)], assumption)
  moreover have "list_all (\<lambda>n. unblocked preferences (sn_signal n)) (own_sources (pl_source_neighborhoods plan))"
    using own(3) by (auto simp: sources list_all_iff granted)
  moreover have "list_all (\<lambda>n. source_is_browser_grant_eligible (snd (sa_key (sn_signal n)))
      (prq_browser_grant_eligible_sources prepared)) (pl_source_neighborhoods plan)"
    by (auto simp: sources list_all_iff granted)
  ultimately show ?thesis
    using bounds plan_topics_ok[OF t] by (simp add: topics count allocation)
qed

section \<open>Scheduled work\<close>

text \<open>A task that does not hold its schedule back: it is over, and no batch of it waits for review.\<close>

definition quiet :: "tools_env \<Rightarrow> home_store \<Rightarrow> discovery_task \<Rightarrow> bool" where
  "quiet env st task \<longleftrightarrow> backpressure_of env st [task] = BP_None"

lemma backpressure_None: "backpressure_of env st tasks = BP_None \<longleftrightarrow> list_all (quiet env st) tasks"
  by (induction tasks) (auto simp: quiet_def split: discovery_task_state.splits option.splits)

lemma schedule_is_due_iff:
  "schedule_is_due env st schedule due_at \<longleftrightarrow>
     (\<forall>t \<in> set (om_vals (hs_discovery_tasks st)). of_schedule (ps_id schedule) t \<longrightarrow> quiet env st t \<and> dt_due_at t \<noteq> due_at)"
  by (auto simp: schedule_is_due_def schedule_backpressure_def backpressure_None list_all_iff list_ex_iff)

lemma set_om_vals_put:
  "om_get m k = None \<Longrightarrow> set (om_vals (om_put k v m)) = insert v (set (om_vals m))"
  by (induction k v m rule: om_put.induct) (auto simp: om_vals_def om_get_def split: if_splits)

text \<open>The store after one scheduled task was created.\<close>

definition with_scheduled :: "discovery_plan \<Rightarrow> discovery_task \<Rightarrow> time \<Rightarrow> home_store \<Rightarrow> home_store" where
  "with_scheduled plan task now st = put_task (dt_id task) task (put_plan plan (stamp_planned_watches plan now st))"

lemma with_scheduled_frame [simp]:
  "hs_discovery_tasks (with_scheduled plan task now st) = om_put (dt_id task) task (hs_discovery_tasks st)"
  "ds_result_batches (hs_discovery (with_scheduled plan task now st)) = ds_result_batches (hs_discovery st)"
  "ds_schedules (hs_discovery (with_scheduled plan task now st)) = ds_schedules (hs_discovery st)"
  by (simp_all add: with_scheduled_def put_task_def put_plan_def stamp_planned_watches_def set_discovery_def)

lemma quiet_frame: "ds_result_batches (hs_discovery st') = ds_result_batches (hs_discovery st) \<Longrightarrow>
    quiet env st' task = quiet env st task"
  by (simp add: quiet_def split: discovery_task_state.split option.split)

lemma pending_not_quiet: "dt_state task = DT_Pending \<Longrightarrow> \<not> quiet env st task"
  by (simp add: quiet_def)

lemma scheduled_not_due:
  assumes "om_get (hs_discovery_tasks st) (dt_id task) = None" and "dt_state task = DT_Pending"
    and "of_schedule (ps_id schedule) task \<or> \<not> schedule_is_due env st schedule due_at"
  shows "\<not> schedule_is_due env (with_scheduled plan task now st) schedule due_at"
  using assms pending_not_quiet[OF assms(2)] quiet_frame[of "with_scheduled plan task now st" st env]
  by (auto simp: schedule_is_due_iff set_om_vals_put)

definition task_draws_fresh :: "(nat \<Rightarrow> uuid \<times> uuid) \<Rightarrow> nat \<Rightarrow> home_store \<Rightarrow> bool" where
  "task_draws_fresh draw n st \<longleftrightarrow>
     (\<forall>k \<ge> n. om_get (hs_discovery_tasks st) (snd (draw k)) = None) \<and> inj (\<lambda>k. snd (draw k))"

lemma task_draws_fresh_Suc:
  "task_draws_fresh draw n st \<Longrightarrow> dt_id task = snd (draw n) \<Longrightarrow> task_draws_fresh draw (Suc n) (with_scheduled plan task now st)"
  by (auto simp: task_draws_fresh_def dest: injD)

lemma materialize_schedules_done:
  assumes "materialize_schedules env clock draw user_id tenant_id now created schedules st = (st', Inr tasks)"
    and "task_draws_fresh draw (length created) st"
  shows "ds_schedules (hs_discovery st') = ds_schedules (hs_discovery st) \<and>
    (\<forall>schedule due_at. \<not> schedule_is_due env st schedule due_at \<longrightarrow> \<not> schedule_is_due env st' schedule due_at) \<and>
    (\<forall>schedule \<in> set schedules.
       \<not> schedule_is_due env st' schedule (personal_period_start (te_month_start env) (ps_cadence schedule) now))"
  using assms
proof (induction schedules arbitrary: created st)
  case Nil
  then show ?case by simp
next
  case (Cons schedule schedules)
  let ?due_at = "personal_period_start (te_month_start env) (ps_cadence schedule) now"
  show ?case
  proof (cases "schedule_is_due env st schedule ?due_at")
    case False
    with Cons.prems(1) have "materialize_schedules env clock draw user_id tenant_id now created schedules st = (st', Inr tasks)"
      by (simp add: Let_def)
    from Cons.IH[OF this Cons.prems(2)] False show ?thesis by auto
  next
    case True
    with Cons.prems(1) obtain plan where next_: "materialize_schedules env clock draw user_id tenant_id now
        (created @ [personal_task (snd (draw (length created))) (pl_id plan)
          (DO_PersonalScheduled (ps_id schedule)) ?due_at now]) schedules
        (with_scheduled plan (personal_task (snd (draw (length created))) (pl_id plan)
          (DO_PersonalScheduled (ps_id schedule)) ?due_at now) now st) = (st', Inr tasks)"
      by (auto simp: Let_def with_scheduled_def split: sum.splits)
    let ?task = "personal_task (snd (draw (length created))) (pl_id plan) (DO_PersonalScheduled (ps_id schedule)) ?due_at now"
    have task: "dt_id ?task = snd (draw (length created))" "dt_state ?task = DT_Pending" "of_schedule (ps_id schedule) ?task"
      by (simp_all add: personal_task_def of_schedule_def)
    have unused: "om_get (hs_discovery_tasks st) (dt_id ?task) = None"
      using Cons.prems(2) by (simp add: task(1) task_draws_fresh_def)
    have "task_draws_fresh draw (length (created @ [?task])) (with_scheduled plan ?task now st)"
      using task_draws_fresh_Suc[OF Cons.prems(2) task(1)] by simp
    from Cons.IH[OF next_ this] scheduled_not_due[OF unused task(2)] task(3)
    show ?thesis by auto
  qed
qed

lemma materialize_nothing_due:
  assumes "\<And>schedule. schedule \<in> set schedules \<Longrightarrow>
      \<not> schedule_is_due env st schedule (personal_period_start (te_month_start env) (ps_cadence schedule) now)"
  shows "materialize_schedules env clock draw user_id tenant_id now created schedules st = (st, Inr created)"
  using assms by (induction schedules) (auto simp: Let_def)

lemma same_hour_day: "now div hours 1 = later div hours 1 \<Longrightarrow> later div days 1 = (now::int) div days 1"
proof -
  have "t div days 1 = (t div hours 1) div 24" for t :: int
    by (simp add: div_mult2_eq[symmetric] zdiv_zmult2_eq[symmetric])
  then show "now div hours 1 = later div hours 1 \<Longrightarrow> later div days 1 = now div days 1" by metis
qed

lemma same_hour_periods:
  assumes "now div hours 1 = later div hours 1" and "month_start later = month_start now"
  shows "personal_period_start month_start cadence later = personal_period_start month_start cadence now"
  using assms same_hour_day[OF assms(1)]
  by (cases cadence)
    (simp_all add: hour_start_def day_start_def week_start_def days_from_monday_def minus_mod_eq_mult_div)

text \<open>C15: The work of a User's schedules is created once: after a run that created what was due, a second
  run within the same hour of the clock, so in the same period of every cadence, creates nothing and
  leaves the store as it is, whatever was due, whichever identities it would draw, and whatever the wall
  clock shows. Of the calendar, it is only used that both times lie in one month.\<close>

theorem scheduled_work_is_created_once:
  assumes "materialize_due_personal_schedules env clock draw user_id tenant_id now st = (st', Inr created)"
    and "task_draws_fresh draw 0 st"
    and "now div hours 1 = later div hours 1" and "te_month_start env later = te_month_start env now"
  shows "materialize_due_personal_schedules env clock' draw' user_id tenant_id later st' = (st', Inr [])"
proof (cases "prd_ready (readiness env st user_id tenant_id)")
  case False
  then have "st' = st" using assms(1) by (simp add: materialize_due_personal_schedules_def)
  then show ?thesis using False by (simp add: materialize_due_personal_schedules_def)
next
  case True
  then have run: "materialize_schedules env clock draw user_id tenant_id now []
      (sort_key (\<lambda>s. (ps_name s, ps_id s))
        (filter (\<lambda>s. ps_user_id s = user_id \<and> ps_tenant_id s = tenant_id \<and> ps_enabled s)
          (om_vals (ds_schedules (hs_discovery st))))) st = (st', Inr created)"
    using assms(1) by (simp add: materialize_due_personal_schedules_def)
  have "task_draws_fresh draw (length []) st" using assms(2) by simp
  from materialize_schedules_done[OF run this] show ?thesis
    unfolding materialize_due_personal_schedules_def
    by (auto simp: same_hour_periods[where month_start = "te_month_start env", OF assms(3,4)]
        intro!: materialize_nothing_due)
qed

section \<open>Witnesses\<close>

definition sample_preferences :: user_preferences where
  "sample_preferences =
     \<lparr> up_user_id = 5, up_tenant_id = None, up_interests = [''rust''], up_blocked_topics = [], up_blocked_sources = [],
       up_blocked_source_affinities = [], up_recurrence_penalty_days = 0 \<rparr>"

definition sample_schedule :: personal_discovery_schedule where
  "sample_schedule =
     \<lparr> ps_id = 9, ps_user_id = 5, ps_tenant_id = None, ps_name = ''n'', ps_cadence = PDC_Hourly,
       ps_intent = \<lparr> si_focus_topics = [], si_avoid_topics = [] \<rparr>, ps_result_count = 3,
       ps_delivery_mode = QueueOnly, ps_enabled = True, ps_created_at = 1, ps_updated_at = 1 \<rparr>"

definition sample_scheduled :: home_store where
  "sample_scheduled = set_discovery (\<lambda>d. d\<lparr>ds_preferences := [((5, None), sample_preferences)],
     ds_schedules := [(9, sample_schedule)]\<rparr>) empty_home_store"

definition sample_prepared :: prepared_request where
  "sample_prepared =
     \<lparr> prq_result_count = 3, prq_intent = None, prq_focus_topics = [], prq_avoid_topics = [],
       prq_browser_grant_eligible_sources = None \<rparr>"

lemma sample_prepares: "prepare_schedule_run sample_tools sample_schedule = Inr sample_prepared"
  by (simp add: prepare_schedule_run_def sample_schedule_def validate_result_count_def normalize_intent_def sample_prepared_def)

text \<open>Without a wish of the User for one run, nothing can refuse a plan.\<close>

lemma build_plan_total:
  assumes "prq_intent prepared = None"
  shows "\<exists>plan. build_plan env clock new_id st user_id tenant_id prepared now = Inr plan"
  using assms by (simp add: build_plan_def plan_topics_def proven_sources_def intent_topics_def intent_sources_def Let_def)

lemma sample_no_wish: "prq_intent sample_prepared = None"
  by (simp add: sample_prepared_def)

theorem plan_within_bounds_witness:
  "\<exists>plan. build_plan sample_tools 20 30 sample_scheduled 5 None sample_prepared 20 = Inr plan \<and>
     al_proven (pl_allocation plan) + al_adjacent (pl_allocation plan) = pl_result_count plan \<and>
     length (own_sources (pl_source_neighborhoods plan)) \<le> 5"
proof -
  obtain plan where plan: "build_plan sample_tools 20 30 sample_scheduled 5 None sample_prepared 20 = Inr plan"
    using build_plan_total[of sample_prepared] sample_no_wish by blast
  show ?thesis using plan_within_bounds[OF disjI2[OF sample_prepares] plan refl] plan by blast
qed

lemma sample_ready: "prd_ready (readiness sample_tools sample_scheduled 5 None)"
  by (simp add: readiness_def preferences_of_def sample_scheduled_def set_discovery_def sample_preferences_def
      interest_is_blocked_def Let_def om_get_def)

lemma sample_scheduled_store:
  "hs_discovery_tasks sample_scheduled = []" "ds_schedules (hs_discovery sample_scheduled) = [(9, sample_schedule)]"
  by (simp_all add: sample_scheduled_def set_discovery_def empty_home_store_def)

lemma sample_materializes:
  "\<exists>st' task. materialize_due_personal_schedules sample_tools 20 (\<lambda>n. (30 + n, 40 + n)) 5 None 20 sample_scheduled =
     (st', Inr [task])"
proof -
  have due: "schedule_is_due sample_tools sample_scheduled sample_schedule due_at" for due_at
    by (simp add: schedule_is_due_iff sample_scheduled_store om_vals_def)
  obtain plan where "build_plan sample_tools 20 30 sample_scheduled 5 None sample_prepared 20 = Inr plan"
    using build_plan_total[of sample_prepared] sample_no_wish by blast
  moreover have "[s \<leftarrow> om_vals (ds_schedules (hs_discovery sample_scheduled)). ps_user_id s = 5 \<and>
      ps_tenant_id s = None \<and> ps_enabled s] = [sample_schedule]"
    by (simp add: sample_scheduled_store om_vals_def sample_schedule_def)
  ultimately show ?thesis
    by (simp add: materialize_due_personal_schedules_def sample_ready due sample_prepares Let_def)
qed

theorem scheduled_work_is_created_once_witness:
  "\<exists>st' task. materialize_due_personal_schedules sample_tools 20 (\<lambda>n. (30 + n, 40 + n)) 5 None 20 sample_scheduled =
       (st', Inr [task]) \<and>
     materialize_due_personal_schedules sample_tools 21 (\<lambda>n. (50 + n, 60 + n)) 5 None (seconds 59) st' = (st', Inr [])"
proof -
  obtain st' task where run: "materialize_due_personal_schedules sample_tools 20 (\<lambda>n. (30 + n, 40 + n)) 5 None 20
      sample_scheduled = (st', Inr [task])"
    using sample_materializes by blast
  have "task_draws_fresh (\<lambda>n. (30 + n, 40 + n)) 0 sample_scheduled"
    by (simp add: task_draws_fresh_def sample_scheduled_store inj_def)
  moreover have "(20 :: time) div hours 1 = seconds 59 div hours 1" by simp
  moreover have "te_month_start sample_tools (seconds 59) = te_month_start sample_tools 20"
    by (simp add: sample_tools_def)
  ultimately show ?thesis using scheduled_work_is_created_once[OF run] run by blast
qed

end
