(* ===== verification/Scan_Loop.thy ===== *)
theory Scan_Loop
  imports Skill_Packs "HOL-Library.While_Combinator"
begin

text \<open>
  The scan for embedded addresses as the loop the code has (\<open>validate_credential_free_text\<close> in
  \<open>skill_pack.rs\<close>): a cursor into the text that each round moves behind the address it found. That
  the loop ends is proved of the loop itself, and that it computes the recursive definition.
\<close>

definition scan_running :: "string \<Rightarrow> nat \<times> (string + unit) \<Rightarrow> bool" where
  "scan_running value state \<longleftrightarrow>
     snd state = Inr () \<and> next_http_scheme (drop (fst state) (ascii_lower value)) \<noteq> None"

definition scan_step :: "tools_env \<Rightarrow> string \<Rightarrow> nat \<times> (string + unit) \<Rightarrow> nat \<times> (string + unit)" where
  "scan_step env value state =
     (case next_http_scheme (drop (fst state) (ascii_lower value)) of
        None \<Rightarrow> state
      | Some relative_start \<Rightarrow>
          (let start = fst state + relative_start;
               candidate = drop start value;
               size = url_length candidate
           in case x_url_parse (te_ext env) (take size candidate) of
                Inl _ \<Rightarrow> (fst state, Inl ''invalid embedded URL'')
              | Inr url \<Rightarrow>
                  (case validate_credential_free_url env url of
                     Inl e \<Rightarrow> (fst state, Inl e)
                   | Inr _ \<Rightarrow> (start + size, Inr ()))))"

text \<open>The loop from a position on: \<open>None\<close> would say that it does not end.\<close>

definition scan_loop :: "tools_env \<Rightarrow> string \<Rightarrow> nat \<Rightarrow> (nat \<times> (string + unit)) option" where
  "scan_loop env value cursor = while_option (scan_running value) (scan_step env value) (cursor, Inr ())"

lemma lower_drop: "drop n (ascii_lower s) = ascii_lower (drop n s)"
  by (simp add: ascii_lower_def drop_map)

lemma while_option_stopped: "\<not> b s \<Longrightarrow> while_option b c s = Some s"
  by (subst while_option_unfold) simp

lemma scan_loop_stops: "\<not> scan_running value (cursor, Inr ()) \<Longrightarrow> scan_loop env value cursor = Some (cursor, Inr ())"
  by (simp add: scan_loop_def while_option_stopped)

lemma scan_loop_fails:
  assumes "scan_running value (cursor, Inr ())" and "scan_step env value (cursor, Inr ()) = (c, Inl e)"
  shows "scan_loop env value cursor = Some (c, Inl e)"
  unfolding scan_loop_def using assms
  by (subst while_option_unfold) (simp add: while_option_stopped scan_running_def)

lemma scan_loop_goes_on:
  assumes "scan_running value (cursor, Inr ())" and "scan_step env value (cursor, Inr ()) = (c, Inr ())"
  shows "scan_loop env value cursor = scan_loop env value c"
  unfolding scan_loop_def using assms by (subst while_option_unfold) simp

lemma scan_step_at:
  assumes "next_http_scheme (ascii_lower (drop cursor value)) = Some n"
  shows "scan_step env value (cursor, Inr ()) =
    (let candidate = drop n (drop cursor value); size = url_length candidate
     in case x_url_parse (te_ext env) (take size candidate) of
          Inl _ \<Rightarrow> (cursor, Inl ''invalid embedded URL'')
        | Inr url \<Rightarrow> (case validate_credential_free_url env url of
            Inl e \<Rightarrow> (cursor, Inl e) | Inr _ \<Rightarrow> (cursor + n + size, Inr ())))"
  using assms by (simp add: scan_step_def lower_drop Let_def add.commute split: sum.split)

lemma scan_loop_result:
  "\<exists>c. scan_loop env value cursor = Some (c, check_embedded_urls env (drop cursor value))"
proof (induction "length (drop cursor value)" arbitrary: cursor rule: less_induct)
  case less
  let ?rest = "drop cursor value"
  note unfold = check_embedded_urls.simps[of env ?rest]
  show ?case
  proof (cases "next_http_scheme (ascii_lower ?rest)")
    case None
    then have "check_embedded_urls env ?rest = Inr ()" by (subst unfold) simp
    with None scan_loop_stops[of "value" cursor env] show ?thesis
      by (simp add: scan_running_def lower_drop)
  next
    case (Some n)
    let ?candidate = "drop n ?rest"
    let ?size = "url_length ?candidate"
    have running: "scan_running value (cursor, Inr ())"
      using Some by (simp add: scan_running_def lower_drop)
    note step = scan_step_at[OF Some, of env]
    show ?thesis
    proof (cases "x_url_parse (te_ext env) (take ?size ?candidate)")
      case (Inl e)
      then have "check_embedded_urls env ?rest = Inl ''invalid embedded URL''"
        by (subst unfold) (simp add: Some Let_def)
      with scan_loop_fails[OF running] step Inl show ?thesis by simp
    next
      case parsed: (Inr url)
      show ?thesis
      proof (cases "validate_credential_free_url env url")
        case (Inl e)
        then have "check_embedded_urls env ?rest = Inl e"
          by (subst unfold) (simp add: Some Let_def parsed[simplified])
        with scan_loop_fails[OF running] step Inl parsed show ?thesis by simp
      next
        case (Inr u)
        let ?next = "cursor + n + ?size"
        have onward: "drop ?next value = drop ?size ?candidate" by (simp add: add.commute add.left_commute)
        have "length (drop ?next value) < length ?rest"
          using url_length_scheme[OF Some] by simp
        from less[OF this] obtain c where
          "scan_loop env value ?next = Some (c, check_embedded_urls env (drop ?size ?candidate))"
          unfolding onward by blast
        moreover have "check_embedded_urls env ?rest = check_embedded_urls env (drop ?size ?candidate)"
          by (subst unfold) (simp add: Some Let_def parsed[simplified] Inr)
        moreover have "scan_step env value (cursor, Inr ()) = (?next, Inr ())"
          unfolding step Let_def by (simp add: parsed[simplified] Inr)
        ultimately show ?thesis using scan_loop_goes_on[OF running] by simp
      qed
    qed
  qed
qed

text \<open>C20: The scan of a package text for embedded addresses ends on every text, and with the answer of
  the recursive definition: the first address that is malformed or carries credentials, or none.\<close>

theorem url_scan_terminates:
  "\<exists>cursor. scan_loop env value 0 = Some (cursor, check_embedded_urls env value)"
  using scan_loop_result[of env "value" 0] by simp

end
