(* ===== verification/Spec2Isabelle.thy ===== *)
theory Spec2Isabelle
  imports Stream_Servers Bootstrap_Sync Peer_Sync Task_Props Feed_Props Pod_Invariants Personal_Props Plan_Props Scan_Loop
begin

text \<open>
  Verification development for Stumble, a federated discovery network for curated Pods. The program
  is the crate \<open>stumble-core\<close>; its sources are named relative to
  \<open>src/crates/stumble-core/src\<close>.

  \<^bold>\<open>The program.\<close> A Home Node keeps one in-memory store. Origins sign announcements of their
  public Pods; nodes retain announcements and withdrawals they verified, serve them to others as a
  lifecycle stream of numbered entries, and synchronize with Bootstrap nodes and with Discovery Peers
  that serve such streams. Agents reach a node through bearer tokens that belong to an Agent Harness
  with a grant, and work on Discovery Tasks that they lease.

  \<^bold>\<open>Parts and theories.\<close>
  \<^item> Prelude, Ordered\_Map: strings as character lists with the Unicode white space that \<open>trim\<close>
    removes, times as nanoseconds, and maps as sorted association lists (\<open>om_get\<close>, \<open>om_put\<close>) for
    \<open>HashMap\<close> and \<open>BTreeMap\<close>. Where a program visits a hash map, its order is a parameter.
  \<^item> Externals: the functions of crates that are not in the repository, as one record \<open>ext\<close> (URL
    parsing, UUIDs, JSON text, base64, Ed25519, visiting orders). A theorem names what it needs of them.
  \<^item> Domain, Domain\_Bootstrap, Domain\_Peers, Store: the data of \<open>domain/\<close> and the collections
    of \<open>InMemoryStore\<close> (\<open>store/mod.rs\<close>, \<open>store/queries.rs\<close>) that discovery uses.
  \<^item> Signing (\<open>signing.rs\<close>), Ip\_Addr and Endpoints (\<open>discovery_peer/endpoint.rs\<close> and the URL
    rules of \<open>pod_announcement.rs\<close>), Rate\_Limit (the sliding windows).
  \<^item> Pod\_Retention (\<open>pod_announcement.rs\<close>), with its laws in Retention\_Laws: a withdrawal or a
    newer announcement is never displaced by an older one.
  \<^item> Stream\_Log, Bootstrap, Bootstrap\_Stream, Bootstrap\_Laws, Bootstrap\_Props,
    Bootstrap\_Bounds (\<open>bootstrap/\<close>): admission and the announcement stream; every check, the quota,
    the rate limits, replays, the expiry sweep.
  \<^item> Peer\_Serving, Peer\_Node, Peer\_Stream, Peer\_Props (\<open>discovery_peer/\<close> except the client):
    advertising, admitting and serving peers.
  \<^item> Stream\_Sync (\<open>stream_sync.rs\<close>) and Stream\_Servers: the fetch loop and the staged
    application, and the two servers as providers of the interface the fetch loop relies on.
  \<^item> Bootstrap\_Client, Bootstrap\_Sync (\<open>bootstrap/client.rs\<close>) and Peer\_Client,
    Peer\_Sync\_Client, Peer\_Sync (\<open>discovery_peer/client/\<close>): endpoint and peer lists, plans, passes,
    failures with back-off and eviction.
  \<^item> Domain\_Harness, Home\_Store, Harness\_Admin, Accounts (\<open>domain/harness.rs\<close>,
    \<open>agent_tools/shared.rs\<close>, \<open>agent_tools/node/\<close>): tenants, Users, tokens, harnesses, grants and
    the authorization of every tool, with Account\_Props: tokens belong to harnesses, revocations last.
  \<^item> Domain\_Tasks, Task\_Queue (\<open>domain/discovery.rs\<close>, \<open>agent_tools/discover/tasks.rs\<close>), with
    the abstract queue in Task\_Spec, its refinement in Task\_Refine and the properties in Task\_Props.
  \<^item> Domain\_Content, Domain\_Feed (\<open>domain/candidates.rs\<close>, \<open>domain/content.rs\<close>, \<open>domain/feed.rs\<close>) and
    Feed\_Mix (\<open>feed_mix.rs\<close>, \<open>pod_similarity/caps.rs\<close>): candidates, the constraints of a batch and its
    selection, with the caps in Feed\_Props. An \<open>f32\<close> is its 32 bits, ordered as \<open>total_cmp\<close> orders them.
  \<^item> Domain\_Pods, Skill\_Packs, Package\_Edits (\<open>domain/pods.rs\<close>, \<open>skill_pack.rs\<close>): Pods, placements,
    subscriptions and proposals as data; the portable package, its checks and its edits. Pod\_Json
    and Pod\_Events: what a signed event carries, and the event log (\<open>signing.rs\<close>, \<open>store/queries.rs\<close>).
  \<^item> Tool\_Monad: a tool as a function of the store with failure, where a failing tool keeps what it
    wrote, and \<open>staged\<close> for one that works on a clone. Pod\_Lifecycle, Trust\_Policy, Proposals,
    Approvals, Pod\_Requests, Codecs, Package\_Tools, Announcement\_Tools
    (\<open>agent_tools/pod/lifecycle.rs\<close>, \<open>packages.rs\<close>, \<open>helpers_1.rs\<close>, \<open>helpers_2.rs\<close>,
    \<open>agent_tools/sync/trust.rs\<close>, \<open>announcement.rs\<close>, \<open>agent_tools/node/proposals.rs\<close>,
    \<open>agent_tools/shared.rs\<close>): the tools on Pods, packages, trust and announcements, the proposals a
    harness makes in place of a sensitive change, and their approval.
  \<^item> Tool\_Laws, Pod\_Calls, Approval\_Props, Proposal\_Props, Pod\_Invariants: the locales
    \<open>audit_invariant\<close>, \<open>store_invariant\<close>, \<open>pod_laws\<close>, \<open>persisting_laws\<close>, \<open>visible_laws\<close>,
    \<open>request_laws\<close> and \<open>decision_laws\<close> derive from the laws of a few writes that every call keeps an
    invariant, for any interleaving of calls; they are interpreted for the proposals, for the chain of
    the event log and for publication. Approval\_Props also has what a bearer token gives once
    approvals can expand grants.
  \<^item> Domain\_Discovery, Source\_Availability, Result\_Batches (\<open>domain/personal_discovery.rs\<close>,
    \<open>domain/taste.rs\<close>, \<open>personal_discovery/source_availability.rs\<close>,
    \<open>personal_discovery/result_batches.rs\<close>): what a worker may report of a source, the notices to a
    User, and the selection of a result batch, with its laws in Batch\_Laws and the properties in
    Discovery\_Props.
  \<^item> Float32 (the arithmetic of \<open>f32\<close>), Taste (\<open>interest_seeds.rs\<close>), Network\_Leads and Discovery\_Plans
    (\<open>personal_discovery/network_leads.rs\<close>, \<open>mod.rs\<close>): the weights learned from a User's evidence, the
    public metadata that may become a lead, and the plan of a run. Discovery\_Schedules
    (\<open>personal_discovery/schedules.rs\<close>, \<open>agent_tools/discover/schedules.rs\<close>, the listing of tasks) and
    Result\_Tools (\<open>agent_tools/discover/results.rs\<close>, the watches of \<open>context.rs\<close>): the tools around
    schedules, reports, batches and watches. Plan\_Props shows where weights come from, the bounds of a
    plan, and that scheduled work is created once, Personal\_Props what the tools keep.
  \<^item> Scan\_Loop: the scan of a text for embedded addresses as the loop that \<open>skill_pack.rs\<close> has.
  \<^item> Sample holds a concrete instance on which properties are exercised.

  \<^bold>\<open>State and effects.\<close> An operation takes the store and returns it changed, with a result or an
  error of the code's own error type; a write that precedes an error is kept, as in the code. The
  collections of \<open>InMemoryStore\<close> are split over records: \<open>store\<close> for federation, \<open>pod_store\<close> for
  Pods and content, \<open>discovery_store\<close> for Personal Discovery, and \<open>home_store\<close>, which has them as
  components, for the agent tools. Clock readings and
  drawn identities, tokens and keys are arguments. The lock of the store makes a changing tool atomic, so
  concurrency is the order of steps; a tool that reads under one lock and writes under a second is
  modelled as one step. The step relations (\<open>account_step\<close>, \<open>authority_step\<close>, \<open>task_step\<close>,
  \<open>history_step\<close>, \<open>pod_step\<close>, \<open>client_step\<close> and the others) range over every interleaving of the
  operations they list, and a property over runs says which those are. A failed write to the
  database replaces the store by the one the database reloads; a property over runs either says what it
  needs of that store (\<open>reload_holds\<close>) or that it assumes writes to succeed (\<open>persistence_ok\<close>).

  \<^bold>\<open>Bounds and fuel.\<close> The code's own bounds are kept: 32 pages of at most 50 entries in one pass
  (so \<open>fetch_pages\<close> takes its fuel from the code), 8 active Pods of one origin, the admission windows,
  3 attempts of a task and 3 failures of a peer. Every other loop is structural or has a termination
  proof. Stream positions and
  counters that the code keeps at 64 bits are natural numbers with the saturation or failure that the
  code writes out; a count of 16 bits is taken modulo \<open>2 ^ 16\<close> where the code adds to it.

  \<^bold>\<open>What the properties show.\<close> Retention and synchronization never accept an unverified or
  withdrawn artifact and never go back; a pass over a stream applies exactly the verified prefix of
  what was served; admission requires every check and keeps quotas and rates; the outbound peer set
  stays well formed and failing peers back off and are evicted; a bearer token acts within its grant
  and a revoked harness stays out; in the task queue a task is leased to one harness at a time, its
  history only grows, and recurring work is created once a period;
  a feed keeps its diversity caps and exceeds its size by at most one item; a proposal is decided
  once, by somebody other than the harness that made it, and a failed approval applies nothing; the
  calls of a node keep the signed history of a Pod one chain, and those a harness makes on Pods make none
  public; a result batch keeps
  the policy of its plan and is short only because of it; a plan keeps its bounds and a topic
  weighs in only on corroborated evidence; scheduled work is created once and becomes one batch; what workers report
  of sources never holds credentials; a login notice is sent once; and a failing tool of Personal
  Discovery changes nothing.

  \<^bold>\<open>Not modelled.\<close> The database (its answer to a write is a parameter), transports, the command
  line, HTTP and MCP front ends, and the lock poisoning of a crashed process. Of the core crate: the
  submission and curation of candidates, the import of remote events, content subscriptions, the review of the items of a
  batch, similarity, ranking, search, and the scores and delivery of feeds, whose rules rest on floating-point
  scores and on HTTP clients. The calendar and the Unicode tables are parameters.
\<close>

end
